(* ===== verification/Prelude.thy ===== *)
theory Prelude
  imports Main "HOL-Library.AList" "HOL-Library.Char_ord" "HOL-Library.List_Lexorder"
    "HOL-Library.Multiset"
begin

text \<open>
  Shared vocabulary of the development: results of fallible Go code, monadic loops over
  lists, and Go maps.

  A Go function that returns \<^verbatim>\<open>(T, error)\<close> is a HOL function into \<open>'a res\<close>: \<open>Inr\<close> is the
  value with a nil error, \<open>Inl (Error msg)\<close> a non-nil error with its message, and
  \<open>Inl (Panic msg)\<close> a run-time panic (failed type assertion, index out of range, write to a
  nil map) or a \<^verbatim>\<open>log.Fatalf\<close>, which ends the process.

  A Go \<^verbatim>\<open>map[string]T\<close> is an association list with distinct keys. The order of the list is
  the order in which a \<^verbatim>\<open>range\<close> loop happens to visit the map; Go leaves it unspecified, and the
  component theories prove that what they compute does not depend on it.
\<close>

named_theorems res_simps "evaluation and inversion of results"

section \<open>Results\<close>

datatype go_error = Panic string | Error string

type_synonym 'a res = "go_error + 'a"

definition bind_res :: "'a res \<Rightarrow> ('a \<Rightarrow> 'b res) \<Rightarrow> 'b res" where
  "bind_res m f = (case m of Inl e \<Rightarrow> Inl e | Inr x \<Rightarrow> f x)"

definition ensure :: "bool \<Rightarrow> go_error \<Rightarrow> unit res" where
  "ensure b e = (if b then Inr () else Inl e)"

definition map_error :: "(string \<Rightarrow> string) \<Rightarrow> 'a res \<Rightarrow> 'a res" where
  "map_error f m = (case m of Inl (Error s) \<Rightarrow> Inl (Error (f s)) | _ \<Rightarrow> m)"

fun is_ok :: "'a res \<Rightarrow> bool" where
  "is_ok (Inr _) = True"
| "is_ok (Inl _) = False"

lemma bind_res_simps [simp]:
  "bind_res (Inr x) f = f x"
  "bind_res (Inl e) f = Inl e"
  by (simp_all add: bind_res_def)

lemma bind_res_Inr_iff [res_simps]:
  "bind_res m f = Inr y \<longleftrightarrow> (\<exists>x. m = Inr x \<and> f x = Inr y)"
  by (cases m) auto

lemma bind_res_Inl_iff:
  "bind_res m f = Inl e \<longleftrightarrow> m = Inl e \<or> (\<exists>x. m = Inr x \<and> f x = Inl e)"
  by (cases m) auto

lemma ensure_Inr_iff [res_simps]: "ensure b e = Inr u \<longleftrightarrow> b"
  by (simp add: ensure_def)

lemma ensure_simps [simp]: "ensure True e = Inr ()" "ensure False e = Inl e"
  by (simp_all add: ensure_def)

lemma map_error_Inr_iff [res_simps]: "map_error f m = Inr x \<longleftrightarrow> m = Inr x"
  by (auto simp: map_error_def split: sum.splits go_error.splits)

lemma map_error_Inr [simp]: "map_error f (Inr x) = Inr x"
  by (simp add: map_error_def)

lemma is_ok_iff: "is_ok m \<longleftrightarrow> (\<exists>x. m = Inr x)"
  by (cases m) auto

lemma is_ok_bind [simp]: "is_ok (bind_res m f) \<longleftrightarrow> (\<exists>x. m = Inr x \<and> is_ok (f x))"
  by (cases m) auto

lemma ex_Inr_is_ok [simp]: "(\<exists>x. m = Inr x) \<longleftrightarrow> is_ok m" "(\<exists>x. m = Inr x \<and> b) \<longleftrightarrow> is_ok m \<and> b"
  by (auto simp: is_ok_iff)

lemma is_okE: "is_ok m \<Longrightarrow> (\<And>x. m = Inr x \<Longrightarrow> thesis) \<Longrightarrow> thesis"
  by (cases m) auto

lemma is_ok_Inr: "m = Inr x \<Longrightarrow> is_ok m"
  by simp

text \<open>\<^verbatim>\<open>os.Exit(1)\<close> ends the process; \<open>orExit\<close> prints an error and exits.\<close>

definition exitOne :: go_error where "exitOne = Panic ''exit status 1''"

definition orExit :: "'a res \<Rightarrow> 'a res" where
  "orExit r = (case r of Inl (Error _) \<Rightarrow> Inl exitOne | _ \<Rightarrow> r)"

lemma orExit_Inr [res_simps]: "orExit r = Inr x \<longleftrightarrow> r = Inr x"
  by (auto simp: orExit_def split: sum.splits go_error.splits)

section \<open>Loops that stop at the first error\<close>

text \<open>\<open>mapM_res\<close> is a loop that appends one result per element, \<open>fold_res\<close> a loop that
  threads a state; both leave the loop at the first error, as an early \<^verbatim>\<open>return\<close> does.\<close>

fun mapM_res :: "('a \<Rightarrow> 'b res) \<Rightarrow> 'a list \<Rightarrow> 'b list res" where
  "mapM_res f [] = Inr []"
| "mapM_res f (x # xs) =
     bind_res (f x) (\<lambda>y. bind_res (mapM_res f xs) (\<lambda>ys. Inr (y # ys)))"

fun fold_res :: "('s \<Rightarrow> 'a \<Rightarrow> 's res) \<Rightarrow> 's \<Rightarrow> 'a list \<Rightarrow> 's res" where
  "fold_res f s [] = Inr s"
| "fold_res f s (x # xs) = bind_res (f s x) (\<lambda>s'. fold_res f s' xs)"

lemma mapM_res_Inr_iff:
  "mapM_res f xs = Inr ys \<longleftrightarrow> list_all2 (\<lambda>x y. f x = Inr y) xs ys"
  by (induction xs arbitrary: ys) (auto simp: res_simps list_all2_Cons1)

lemma mapM_res_length: "mapM_res f xs = Inr ys \<Longrightarrow> length ys = length xs"
  by (auto simp: mapM_res_Inr_iff dest: list_all2_lengthD)

lemma mapM_res_nth:
  "mapM_res f xs = Inr ys \<Longrightarrow> i < length xs \<Longrightarrow> f (xs ! i) = Inr (ys ! i)"
  by (auto simp: mapM_res_Inr_iff dest: list_all2_nthD)

lemma mapM_res_set:
  "mapM_res f xs = Inr ys \<Longrightarrow> y \<in> set ys \<Longrightarrow> \<exists>x\<in>set xs. f x = Inr y"
  by (metis in_set_conv_nth mapM_res_length mapM_res_nth)

lemma mapM_res_is_ok: "is_ok (mapM_res f xs) \<longleftrightarrow> (\<forall>x\<in>set xs. is_ok (f x))"
  by (induction xs) auto

lemma mapM_res_cong [fundef_cong]:
  "xs = ys \<Longrightarrow> (\<And>x. x \<in> set ys \<Longrightarrow> f x = g x) \<Longrightarrow> mapM_res f xs = mapM_res g ys"
  by (induction xs arbitrary: ys) auto

lemma mapM_res_append:
  "mapM_res f (xs @ ys) =
     bind_res (mapM_res f xs) (\<lambda>as. bind_res (mapM_res f ys) (\<lambda>bs. Inr (as @ bs)))"
  by (induction xs) (auto simp: bind_res_def split: sum.splits)

lemma fold_res_append:
  "fold_res f s (xs @ ys) = bind_res (fold_res f s xs) (\<lambda>s'. fold_res f s' ys)"
  by (induction xs arbitrary: s) (auto simp: bind_res_def split: sum.splits)

lemma fold_res_invariant:
  assumes "fold_res f s xs = Inr s'" and "P s"
    and "\<And>s x t. x \<in> set xs \<Longrightarrow> P s \<Longrightarrow> f s x = Inr t \<Longrightarrow> P t"
  shows "P s'"
  using assms
proof (induction xs arbitrary: s)
  case Nil
  then show ?case by simp
next
  case (Cons x xs)
  from Cons.prems(1) obtain t where t: "f s x = Inr t" "fold_res f t xs = Inr s'"
    by (auto simp: res_simps)
  from Cons.prems(2) t(1) have "P t" by (rule Cons.prems(3) [rotated]) simp
  with t(2) show ?case
    by (rule Cons.IH) (use Cons.prems(3) in auto)
qed

text \<open>An invariant that relates the state to the elements already processed.\<close>

lemma fold_res_prefix_invariant:
  assumes "fold_res f s xs = Inr s'" and "P ys s"
    and "\<And>pre x s t. P pre s \<Longrightarrow> x \<in> set xs \<Longrightarrow> f s x = Inr t \<Longrightarrow> P (pre @ [x]) t"
  shows "P (ys @ xs) s'"
  using assms
proof (induction xs arbitrary: s ys)
  case Nil
  then show ?case by simp
next
  case (Cons x xs)
  from Cons.prems(1) obtain t where t: "f s x = Inr t" "fold_res f t xs = Inr s'"
    by (auto simp: res_simps)
  from Cons.prems(2) _ t(1) have "P (ys @ [x]) t" by (rule Cons.prems(3)) simp
  with t(2) have "P ((ys @ [x]) @ xs) s'"
    by (rule Cons.IH) (use Cons.prems(3) in auto)
  then show ?case by simp
qed

section \<open>Go maps\<close>

type_synonym ('k, 'v) gomap = "('k \<times> 'v) list"

abbreviation mget :: "('k, 'v) gomap \<Rightarrow> 'k \<Rightarrow> 'v option" where
  "mget m k \<equiv> map_of m k"

definition mput :: "('k, 'v) gomap \<Rightarrow> 'k \<Rightarrow> 'v \<Rightarrow> ('k, 'v) gomap" where
  "mput m k v = AList.update k v m"

definition mdel :: "('k, 'v) gomap \<Rightarrow> 'k \<Rightarrow> ('k, 'v) gomap" where
  "mdel m k = AList.delete k m"

definition mwf :: "('k, 'v) gomap \<Rightarrow> bool" where
  "mwf m \<longleftrightarrow> distinct (map fst m)"

text \<open>\<open>mget0\<close> is the read \<^verbatim>\<open>m[k]\<close>, which gives the zero value for a missing key.\<close>

definition mget0 :: "'v \<Rightarrow> ('k, 'v) gomap \<Rightarrow> 'k \<Rightarrow> 'v" where
  "mget0 z m k = (case mget m k of None \<Rightarrow> z | Some v \<Rightarrow> v)"

text \<open>The contract of a Go map. Clients reason with these laws and never with the list.\<close>

locale go_map =
  fixes get :: "'m \<Rightarrow> 'k \<Rightarrow> 'v option"
    and put :: "'m \<Rightarrow> 'k \<Rightarrow> 'v \<Rightarrow> 'm"
    and del :: "'m \<Rightarrow> 'k \<Rightarrow> 'm"
    and wf :: "'m \<Rightarrow> bool"
    and emp :: 'm
  assumes get_emp: "get emp k = None"
    and get_put: "get (put m k v) k' = (if k' = k then Some v else get m k')"
    and get_del: "get (del m k) k' = (if k' = k then None else get m k')"
    and wf_emp: "wf emp"
    and wf_put: "wf m \<Longrightarrow> wf (put m k v)"
    and wf_del: "wf m \<Longrightarrow> wf (del m k)"
begin

lemma put_put: "get (put (put m k v) k w) = get (put m k w)"
  by (rule ext) (simp add: get_put)

lemma put_commute: "k \<noteq> j \<Longrightarrow> get (put (put m k v) j w) = get (put (put m j w) k v)"
  by (rule ext) (simp add: get_put)

lemma del_put: "get (del (put m k v) k) = get (del m k)"
  by (rule ext) (simp add: get_put get_del)

lemma get_puts:
  assumes "distinct (map fst kvs)"
  shows "get (fold (\<lambda>(k, v) m. put m k v) kvs m) k =
    (case map_of kvs k of Some v \<Rightarrow> Some v | None \<Rightarrow> get m k)"
  using assms
proof (induction kvs arbitrary: m)
  case Nil
  then show ?case by simp
next
  case (Cons kv kvs)
  obtain a b where ab: "kv = (a, b)" by (cases kv)
  with Cons.prems have "a \<notin> set (map fst kvs)" and d: "distinct (map fst kvs)" by auto
  then have "map_of kvs a = None" by (simp add: map_of_eq_None_iff)
  with Cons.IH [OF d] ab show ?case by (auto simp: get_put split: option.splits)
qed

lemma wf_puts: "wf m \<Longrightarrow> wf (fold (\<lambda>(k, v) m. put m k v) kvs m)"
  by (induction kvs arbitrary: m) (auto simp: wf_put)

end

interpretation amap: go_map
  "map_of :: ('k \<times> 'v) list \<Rightarrow> 'k \<rightharpoonup> 'v" mput mdel mwf "[]"
  by unfold_locales
    (auto simp: mput_def mdel_def mwf_def update_conv' delete_conv' distinct_update distinct_delete)

declare amap.get_put [simp] amap.get_del [simp] amap.wf_put [simp, intro] amap.wf_del [simp, intro]

lemma mwf_Nil [simp]: "mwf []"
  by (simp add: mwf_def)

lemma mwf_Cons: "mwf ((k, v) # m) \<longleftrightarrow> mget m k = None \<and> mwf m"
  by (auto simp: mwf_def map_of_eq_None_iff)

lemma mput_Nil [simp]: "mput [] k v = [(k, v)]"
  by (simp add: mput_def)

lemma mput_Cons [simp]:
  "mput ((j, w) # m) k v = (if j = k then (j, v) # m else (j, w) # mput m k v)"
  by (simp add: mput_def)

lemma mdel_Nil [simp]: "mdel [] k = []"
  by (simp add: mdel_def)

lemma mdel_Cons [simp]:
  "mdel ((j, w) # m) k = (if j = k then mdel m k else (j, w) # mdel m k)"
  by (simp add: mdel_def AList.delete_eq)

lemma mput_not_Nil [simp]: "mput m k v \<noteq> []"
  by (cases m) (auto split: if_splits)

lemma set_keys_mput: "fst ` set (mput m k v) = insert k (fst ` set m)"
  by (induction m) (auto split: if_splits simp: rev_image_eqI)

lemma mget_in_set: "mwf m \<Longrightarrow> (k, v) \<in> set m \<longleftrightarrow> mget m k = Some v"
  by (simp add: mwf_def)

lemma mget_perm:
  assumes "mwf m" and "mset m = mset m'"
  shows "mget m' = mget m"
proof -
  from assms(2) have "set m' = set m" and "mset (map fst m') = mset (map fst m)"
    by (metis set_mset_mset) (metis assms(2) mset_map)
  moreover from this assms(1) have "distinct (map fst m')"
    by (metis mset_eq_imp_distinct_iff mwf_def)
  ultimately show ?thesis
    using assms(1) by (metis map_of_inject_set mwf_def)
qed

lemma mwf_perm: "mset m = mset m' \<Longrightarrow> mwf m \<longleftrightarrow> mwf m'"
  unfolding mwf_def by (metis mset_eq_imp_distinct_iff mset_map)

lemma mget0_mput [simp]: "mget0 z (mput m k v) j = (if j = k then v else mget0 z m j)"
  by (simp add: mget0_def)

end
