(* ===== verification/GoStrings.thy ===== *)
theory GoStrings
  imports Prelude
begin

text \<open>
  The parts of the Go packages \<^verbatim>\<open>strings\<close>, \<^verbatim>\<open>strconv\<close>, \<^verbatim>\<open>sort\<close> and \<^verbatim>\<open>time\<close> that the program calls.
  A Go string is its sequence of bytes, here a list of characters (HOL characters are bytes).

  Every call of \<^verbatim>\<open>strings.Split\<close> and \<^verbatim>\<open>strings.ReplaceAll\<close> in the program has a non-empty literal
  separator, so the special treatment Go gives to an empty one is not needed.
\<close>

section \<open>Prefixes, suffixes, substrings\<close>

definition quoted :: "string \<Rightarrow> string" where
  "quoted s = CHR 0x27 # s @ [CHR 0x27]"

fun HasPrefix :: "string \<Rightarrow> string \<Rightarrow> bool" where
  "HasPrefix s [] = True"
| "HasPrefix [] (p # ps) = False"
| "HasPrefix (c # s) (p # ps) = (c = p \<and> HasPrefix s ps)"

definition HasSuffix :: "string \<Rightarrow> string \<Rightarrow> bool" where
  "HasSuffix s p = HasPrefix (rev s) (rev p)"

definition TrimPrefix :: "string \<Rightarrow> string \<Rightarrow> string" where
  "TrimPrefix s p = (if HasPrefix s p then drop (length p) s else s)"

definition TrimSuffix :: "string \<Rightarrow> string \<Rightarrow> string" where
  "TrimSuffix s p = (if HasSuffix s p then take (length s - length p) s else s)"

fun Contains :: "string \<Rightarrow> string \<Rightarrow> bool" where
  "Contains [] p = (p = [])"
| "Contains (c # s) p = (HasPrefix (c # s) p \<or> Contains s p)"

lemma HasPrefix_iff: "HasPrefix s p \<longleftrightarrow> (\<exists>t. s = p @ t)"
  by (induction s p rule: HasPrefix.induct) auto

lemma HasPrefix_append [simp]: "HasPrefix (p @ t) p"
  by (auto simp: HasPrefix_iff)

lemma HasSuffix_iff: "HasSuffix s p \<longleftrightarrow> (\<exists>t. s = t @ p)"
  unfolding HasSuffix_def HasPrefix_iff by (metis rev_append rev_rev_ident)

lemma HasSuffix_append [simp]: "HasSuffix (t @ p) p"
  by (auto simp: HasSuffix_iff)

lemma TrimPrefix_append [simp]: "TrimPrefix (p @ t) p = t"
  by (simp add: TrimPrefix_def)

lemma TrimSuffix_append [simp]: "TrimSuffix (t @ p) p = t"
  by (simp add: TrimSuffix_def)

lemma Contains_iff: "Contains s p \<longleftrightarrow> (\<exists>a b. s = a @ p @ b)"
proof (induction s)
  case Nil
  then show ?case by simp
next
  case (Cons c s)
  have "(\<exists>a b. c # s = a @ p @ b) \<longleftrightarrow> HasPrefix (c # s) p \<or> (\<exists>a b. s = a @ p @ b)"
    unfolding HasPrefix_iff by (metis append_Cons append_Nil append_eq_Cons_conv)
  with Cons show ?case by simp
qed

lemma HasPrefix_length: "HasPrefix s p \<Longrightarrow> length p \<le> length s"
  by (auto simp: HasPrefix_iff)

section \<open>Split, Join, ReplaceAll\<close>

function splitFrom :: "string \<Rightarrow> string \<Rightarrow> string \<Rightarrow> string list" where
  "splitFrom sep acc [] = [acc]"
| "splitFrom sep acc (c # s) =
     (if sep \<noteq> [] \<and> HasPrefix (c # s) sep
      then acc # splitFrom sep [] (drop (length sep) (c # s))
      else splitFrom sep (acc @ [c]) s)"
  by pat_completeness auto
termination
  by (relation "measure (\<lambda>(sep, acc, s). length s)") auto

definition Split :: "string \<Rightarrow> string \<Rightarrow> string list" where
  "Split s sep = splitFrom sep [] s"

fun Join :: "string list \<Rightarrow> string \<Rightarrow> string" where
  "Join [] sep = []"
| "Join [x] sep = x"
| "Join (x # y # xs) sep = x @ sep @ Join (y # xs) sep"

function ReplaceAll :: "string \<Rightarrow> string \<Rightarrow> string \<Rightarrow> string" where
  "ReplaceAll [] old new = []"
| "ReplaceAll (c # s) old new =
     (if old \<noteq> [] \<and> HasPrefix (c # s) old
      then new @ ReplaceAll (drop (length old) (c # s)) old new
      else c # ReplaceAll s old new)"
  by pat_completeness auto
termination
  by (relation "measure (\<lambda>(s, old, new). length s)") auto

lemma splitFrom_not_Nil [simp]: "splitFrom sep acc s \<noteq> []"
  by (induction sep acc s rule: splitFrom.induct) auto

lemma Split_not_Nil [simp]: "Split s sep \<noteq> []"
  by (simp add: Split_def)

lemma Join_Cons: "xs \<noteq> [] \<Longrightarrow> Join (x # xs) sep = x @ sep @ Join xs sep"
  by (cases xs) auto

lemma Join_append:
  "xs \<noteq> [] \<Longrightarrow> ys \<noteq> [] \<Longrightarrow> Join (xs @ ys) sep = Join xs sep @ sep @ Join ys sep"
  by (induction xs rule: induct_list012) (auto simp: Join_Cons)

lemma Join_splitFrom: "Join (splitFrom sep acc s) sep = acc @ s"
proof (induction sep acc s rule: splitFrom.induct)
  case (1 sep acc)
  then show ?case by simp
next
  case (2 sep acc c s)
  show ?case
  proof (cases "sep \<noteq> [] \<and> HasPrefix (c # s) sep")
    case True
    then obtain t where t: "c # s = sep @ t" by (auto simp: HasPrefix_iff)
    from True have "splitFrom sep acc (c # s) = acc # splitFrom sep [] (drop (length sep) (c # s))"
      by simp
    with True "2.IH"(1) t show ?thesis by (simp add: Join_Cons del: splitFrom.simps)
  next
    case False
    with "2.IH"(2) show ?thesis by auto
  qed
qed

theorem Join_Split: "Join (Split s sep) sep = s"
  by (simp add: Split_def Join_splitFrom)

lemma Split_pieces_no_sep_char:
  "x \<in> set (splitFrom [c] acc s) \<Longrightarrow> c \<notin> set acc \<Longrightarrow> c \<notin> set x"
proof (induction "[c]" acc s rule: splitFrom.induct)
  case (1 acc)
  then show ?case by simp
next
  case (2 acc d s)
  then show ?case by (auto split: if_splits)
qed

lemma Split_no_sep: "c \<notin> set s \<Longrightarrow> splitFrom [c] acc s = [acc @ s]"
  by (induction s arbitrary: acc) auto

lemma splitFrom_append:
  "c \<notin> set x \<Longrightarrow> splitFrom [c] acc (x @ c # s) = (acc @ x) # splitFrom [c] [] s"
  by (induction x arbitrary: acc) auto

theorem Split_Join:
  assumes "xs \<noteq> []" and "\<forall>x\<in>set xs. c \<notin> set x"
  shows "Split (Join xs [c]) [c] = xs"
  using assms
proof (induction xs rule: induct_list012)
  case 1
  then show ?case by simp
next
  case (2 x)
  then show ?case by (simp add: Split_def Split_no_sep)
next
  case (3 x y zs)
  then show ?case by (simp add: Split_def splitFrom_append)
qed

lemma ReplaceAll_splitFrom:
  "acc @ ReplaceAll s old new = Join (splitFrom old acc s) new"
proof (induction old acc s rule: splitFrom.induct)
  case (1 sep acc)
  then show ?case by simp
next
  case (2 sep acc c s)
  show ?case
  proof (cases "sep \<noteq> [] \<and> HasPrefix (c # s) sep")
    case True
    with "2.IH"(1) show ?thesis by (simp add: Join_Cons)
  next
    case False
    with "2.IH"(2) show ?thesis by auto
  qed
qed

theorem ReplaceAll_Split: "ReplaceAll s old new = Join (Split s old) new"
  using ReplaceAll_splitFrom [of "[]"] by (simp add: Split_def)

lemma ReplaceAll_absent: "\<not> Contains s old \<Longrightarrow> ReplaceAll s old new = s"
  by (induction s) auto

section \<open>White space\<close>

text \<open>
  \<^verbatim>\<open>strings.TrimSpace\<close> removes every code point with the Unicode property White_Space at both
  ends. Their UTF-8 encodings are listed here; since no encoding is a proper prefix or suffix of
  another, cutting encodings from the ends of the byte sequence is what Go's rune decoding does.
\<close>

definition spaceRunes :: "string list" where
  "spaceRunes =
     [[CHR 0x20], [CHR 0x09], [CHR 0x0A], [CHR 0x0B], [CHR 0x0C], [CHR 0x0D],
      [CHR 0xC2, CHR 0x85], [CHR 0xC2, CHR 0xA0], [CHR 0xE1, CHR 0x9A, CHR 0x80],
      [CHR 0xE2, CHR 0x80, CHR 0x80], [CHR 0xE2, CHR 0x80, CHR 0x81],
      [CHR 0xE2, CHR 0x80, CHR 0x82], [CHR 0xE2, CHR 0x80, CHR 0x83],
      [CHR 0xE2, CHR 0x80, CHR 0x84], [CHR 0xE2, CHR 0x80, CHR 0x85],
      [CHR 0xE2, CHR 0x80, CHR 0x86], [CHR 0xE2, CHR 0x80, CHR 0x87],
      [CHR 0xE2, CHR 0x80, CHR 0x88], [CHR 0xE2, CHR 0x80, CHR 0x89],
      [CHR 0xE2, CHR 0x80, CHR 0x8A], [CHR 0xE2, CHR 0x80, CHR 0xA8],
      [CHR 0xE2, CHR 0x80, CHR 0xA9], [CHR 0xE2, CHR 0x80, CHR 0xAF],
      [CHR 0xE2, CHR 0x81, CHR 0x9F], [CHR 0xE3, CHR 0x80, CHR 0x80]]"

function dropRunes :: "string list \<Rightarrow> string \<Rightarrow> string" where
  "dropRunes rs s =
     (case find (\<lambda>r. r \<noteq> [] \<and> HasPrefix s r) rs of
        None \<Rightarrow> s
      | Some r \<Rightarrow> dropRunes rs (drop (length r) s))"
  by pat_completeness auto
termination
proof (relation "measure (\<lambda>(rs, s). length s)", goal_cases)
  case 1
  then show ?case by simp
next
  case (2 rs s r)
  then have "r \<noteq> []" and "HasPrefix s r" by (auto simp: find_Some_iff)
  then show ?case by (cases s; cases r) auto
qed

declare dropRunes.simps [simp del]

definition TrimLeftSpace :: "string \<Rightarrow> string" where
  "TrimLeftSpace s = dropRunes spaceRunes s"

definition TrimRightSpace :: "string \<Rightarrow> string" where
  "TrimRightSpace s = rev (dropRunes (map rev spaceRunes) (rev s))"

definition TrimSpace :: "string \<Rightarrow> string" where
  "TrimSpace s = TrimRightSpace (TrimLeftSpace s)"

lemma dropRunes_suffix: "\<exists>p. s = p @ dropRunes rs s"
proof (induction rs s rule: dropRunes.induct)
  case (1 rs s)
  show ?case
  proof (cases "find (\<lambda>r. r \<noteq> [] \<and> HasPrefix s r) rs")
    case None
    then show ?thesis by (simp add: dropRunes.simps [of rs s])
  next
    case (Some r)
    from 1 [OF Some] obtain p where "drop (length r) s = p @ dropRunes rs (drop (length r) s)" by blast
    then have "s = (take (length r) s @ p) @ dropRunes rs s"
      using Some by (simp add: dropRunes.simps [of rs s] flip: append.assoc)
    then show ?thesis by blast
  qed
qed

lemma TrimSpace_infix: "\<exists>a b. s = a @ TrimSpace s @ b"
proof -
  obtain a where a: "s = a @ TrimLeftSpace s"
    using dropRunes_suffix [of s spaceRunes] by (auto simp: TrimLeftSpace_def)
  obtain b where "rev (TrimLeftSpace s) = b @ rev (TrimRightSpace (TrimLeftSpace s))"
    using dropRunes_suffix [of "rev (TrimLeftSpace s)" "map rev spaceRunes"]
    by (auto simp: TrimRightSpace_def)
  then have "TrimLeftSpace s = TrimSpace s @ rev b"
    unfolding TrimSpace_def by (metis rev_append rev_rev_ident)
  with a show ?thesis by metis
qed

text \<open>Trimming is idempotent: a trimmed text neither starts nor ends with white space.\<close>

definition startsWithRune :: "string list \<Rightarrow> string \<Rightarrow> bool" where
  "startsWithRune rs s \<longleftrightarrow> (\<exists>r\<in>set rs. r \<noteq> [] \<and> HasPrefix s r)"

lemma dropRunes_id: "\<not> startsWithRune rs s \<Longrightarrow> dropRunes rs s = s"
proof -
  assume "\<not> startsWithRune rs s"
  then have "find (\<lambda>r. r \<noteq> [] \<and> HasPrefix s r) rs = None"
    by (auto simp: startsWithRune_def find_None_iff)
  then show ?thesis by (simp add: dropRunes.simps [of rs s])
qed

lemma dropRunes_done: "\<not> startsWithRune rs (dropRunes rs s)"
proof (induction rs s rule: dropRunes.induct)
  case (1 rs s)
  show ?case
  proof (cases "find (\<lambda>r. r \<noteq> [] \<and> HasPrefix s r) rs")
    case None
    then have "\<not> startsWithRune rs s" by (auto simp: startsWithRune_def find_None_iff)
    then show ?thesis by (simp add: dropRunes_id)
  next
    case (Some r)
    with 1 [OF Some] show ?thesis by (simp add: dropRunes.simps [of rs s])
  qed
qed

lemma startsWithRune_append: "startsWithRune rs a \<Longrightarrow> startsWithRune rs (a @ b)"
  by (auto simp: startsWithRune_def HasPrefix_iff)

lemma TrimSpace_idem [simp]: "TrimSpace (TrimSpace s) = TrimSpace s"
proof -
  let ?t = "TrimSpace s"
  obtain b where "rev (TrimLeftSpace s) = b @ rev ?t"
    using dropRunes_suffix [of "rev (TrimLeftSpace s)" "map rev spaceRunes"]
    by (auto simp: TrimRightSpace_def TrimSpace_def)
  then have "TrimLeftSpace s = ?t @ rev b" by (metis rev_append rev_rev_ident)
  then have "\<not> startsWithRune spaceRunes ?t"
    using dropRunes_done [of spaceRunes s] startsWithRune_append unfolding TrimLeftSpace_def by metis
  then have "TrimLeftSpace ?t = ?t" by (simp add: TrimLeftSpace_def dropRunes_id)
  moreover have "\<not> startsWithRune (map rev spaceRunes) (rev ?t)"
    by (simp add: TrimSpace_def TrimRightSpace_def dropRunes_done)
  then have "TrimRightSpace ?t = ?t" by (simp add: TrimRightSpace_def dropRunes_id)
  ultimately show ?thesis by (metis TrimSpace_def)
qed

lemma TrimSpace_fixpoint:
  "TrimSpace s = s \<longleftrightarrow> \<not> startsWithRune spaceRunes s \<and> \<not> startsWithRune (map rev spaceRunes) (rev s)"
proof
  assume fixed: "TrimSpace s = s"
  obtain a where a: "s = a @ TrimLeftSpace s"
    using dropRunes_suffix [of s spaceRunes] by (auto simp: TrimLeftSpace_def)
  obtain b where "rev (TrimLeftSpace s) = b @ rev (TrimSpace s)"
    using dropRunes_suffix [of "rev (TrimLeftSpace s)" "map rev spaceRunes"]
    by (auto simp: TrimRightSpace_def TrimSpace_def)
  then have "length (TrimLeftSpace s) = length b + length s" using fixed by (metis length_append length_rev)
  with a have "TrimLeftSpace s = s" by (metis add_leE append_Nil append_eq_append_conv le_add2 length_append nle_le)
  then show "\<not> startsWithRune spaceRunes s \<and> \<not> startsWithRune (map rev spaceRunes) (rev s)"
    using dropRunes_done [of spaceRunes s] dropRunes_done [of "map rev spaceRunes" "rev s"] fixed
    by (metis TrimLeftSpace_def TrimRightSpace_def TrimSpace_def rev_rev_ident)
qed (simp add: TrimSpace_def TrimLeftSpace_def TrimRightSpace_def dropRunes_id)

lemma startsWithRune_before:
  assumes "\<not> startsWithRune rs a" and "\<forall>r\<in>set rs. c \<notin> set r"
  shows "\<not> startsWithRune rs (a @ c # b)"
proof
  assume "startsWithRune rs (a @ c # b)"
  then obtain r t where r: "r \<in> set rs" "r \<noteq> []" "a @ c # b = r @ t"
    by (auto simp: startsWithRune_def HasPrefix_iff)
  with assms(2) have "c \<notin> set r" by simp
  with r(3) obtain u where "a = r @ u" by (auto simp: append_eq_append_conv2 append_eq_Cons_conv Cons_eq_append_conv)
  with r(1,2) assms(1) show False by (auto simp: startsWithRune_def)
qed

lemma spaceRunes_slash: "\<forall>r\<in>set spaceRunes. CHR ''/'' \<notin> set r" "\<forall>r\<in>set (map rev spaceRunes). CHR ''/'' \<notin> set r"
  by (simp_all add: spaceRunes_def)

lemma TrimSpace_slash:
  assumes "TrimSpace a = a" "TrimSpace b = b"
  shows "TrimSpace (a @ CHR ''/'' # b) = a @ CHR ''/'' # b"
  using assms startsWithRune_before [OF _ spaceRunes_slash(1), of a b]
    startsWithRune_before [OF _ spaceRunes_slash(2), of "rev b" "rev a"]
  by (simp add: TrimSpace_fixpoint)

text \<open>\<^verbatim>\<open>strings.TrimLeft(s, " \t")\<close> and the indentation of a line.\<close>

definition isBlank :: "char \<Rightarrow> bool" where
  "isBlank c \<longleftrightarrow> c = CHR '' '' \<or> c = CHR 0x09"

definition TrimLeftBlank :: "string \<Rightarrow> string" where
  "TrimLeftBlank s = dropWhile isBlank s"

definition indentOf :: "string \<Rightarrow> nat" where
  "indentOf s = length s - length (TrimLeftBlank s)"

lemma indentOf_takeWhile: "indentOf s = length (takeWhile isBlank s)"
proof -
  have "length s = length (takeWhile isBlank s) + length (dropWhile isBlank s)"
    by (metis length_append takeWhile_dropWhile_id)
  then show ?thesis by (simp add: indentOf_def TrimLeftBlank_def)
qed

section \<open>Case folding\<close>

text \<open>
  \<^verbatim>\<open>strings.EqualFold\<close> and \<^verbatim>\<open>strings.ToLower\<close> on ASCII letters. The program compares the results
  with the literals \<^verbatim>\<open>include\<close>, \<^verbatim>\<open>exclude\<close>, \<^verbatim>\<open>.yaml\<close> and \<^verbatim>\<open>.yml\<close>; no code point outside ASCII folds to
  one of their letters (only k and s have such partners), so these comparisons are exact.
\<close>

definition lowerChar :: "char \<Rightarrow> char" where
  "lowerChar c = (let n = of_char c :: nat in if 65 \<le> n \<and> n \<le> 90 then char_of (n + 32) else c)"

definition ToLower :: "string \<Rightarrow> string" where
  "ToLower s = map lowerChar s"

definition EqualFold :: "string \<Rightarrow> string \<Rightarrow> bool" where
  "EqualFold s t \<longleftrightarrow> ToLower s = ToLower t"

text \<open>\<^verbatim>\<open>strings.Fields\<close> cuts at runs of white space and gives the non-empty pieces.\<close>

definition flushField :: "string \<Rightarrow> string list" where
  "flushField acc = (if acc = [] then [] else [acc])"

function fieldsFrom :: "string \<Rightarrow> string \<Rightarrow> string list" where
  "fieldsFrom acc [] = flushField acc"
| "fieldsFrom acc (c # s) =
     (case find (HasPrefix (c # s)) spaceRunes of
        None \<Rightarrow> fieldsFrom (acc @ [c]) s
      | Some r \<Rightarrow> flushField acc @ fieldsFrom [] (drop (length r - 1) s))"
  by pat_completeness auto
termination
  by (relation "measure (\<lambda>(acc, s). length s)") auto

definition Fields :: "string \<Rightarrow> string list" where
  "Fields s = fieldsFrom [] s"

text \<open>Words of visible ASCII characters are their own fields.\<close>

definition visible :: "char \<Rightarrow> bool" where
  "visible c \<longleftrightarrow> 33 \<le> (of_char c :: nat) \<and> (of_char c :: nat) \<le> 126"

lemma spaceRunes_invisible: "list_all (\<lambda>r. r \<noteq> [] \<and> \<not> visible (hd r)) spaceRunes"
  by (simp add: spaceRunes_def visible_def)

lemma visible_no_space:
  assumes "visible c"
  shows "find (HasPrefix (c # s)) spaceRunes = None"
proof -
  have "\<not> HasPrefix (c # s) r" if "r \<in> set spaceRunes" for r
  proof -
    from that spaceRunes_invisible have "r \<noteq> [] \<and> \<not> visible (hd r)" unfolding list_all_iff by blast
    with assms show ?thesis by (cases r) auto
  qed
  then show ?thesis by (auto simp: find_None_iff)
qed

lemma fieldsFrom_visible:
  "\<forall>c\<in>set w. visible c \<Longrightarrow> fieldsFrom acc (w @ s) = fieldsFrom (acc @ w) s"
proof (induction w arbitrary: acc)
  case (Cons c w)
  then have "find (HasPrefix (c # w @ s)) spaceRunes = None" by (intro visible_no_space) simp
  with Cons show ?case by simp
qed simp

lemma fieldsFrom_blank: "fieldsFrom acc (CHR 0x09 # s) = flushField acc @ fieldsFrom [] s"
  by (simp add: spaceRunes_def)

lemma Fields_tabs:
  "\<forall>w\<in>set ws. w \<noteq> [] \<and> (\<forall>c\<in>set w. visible c) \<Longrightarrow> Fields (Join ws [CHR 0x09]) = ws"
proof (induction ws rule: induct_list012)
  case (2 w)
  then show ?case using fieldsFrom_visible [of w "[]" "[]"] by (simp add: Fields_def flushField_def)
next
  case (3 v w ws)
  then have "Fields (Join (w # ws) [CHR 0x09]) = w # ws" by simp
  with 3(3) show ?case
    using fieldsFrom_visible [of v "[]" "CHR 0x09 # Join (w # ws) [CHR 0x09]"]
    by (simp add: Fields_def flushField_def fieldsFrom_blank del: fieldsFrom.simps)
qed (simp add: Fields_def flushField_def)

end
