(* ===== verification/GoValue.thy ===== *)
theory GoValue
  imports GoStrings
begin

text \<open>
  The dynamic values (\<^verbatim>\<open>interface{}\<close>) that YAML documents decode to and that the program builds.
  The constructors are the dynamic Go types the code distinguishes by type assertions and by
  \<^verbatim>\<open>reflect.Kind\<close>:

  \<^item> \<open>GNil\<close>: the nil interface;
  \<^item> \<open>GMap\<close>: \<^verbatim>\<open>map[string]interface{}\<close>; \<open>GAnyMap\<close>: \<^verbatim>\<open>map[interface{}]interface{}\<close>, what a mapping
    with a key that is not a string decodes to;
  \<^item> \<open>GSlice\<close>: \<^verbatim>\<open>[]interface{}\<close>; \<open>GMapSlice\<close>: \<^verbatim>\<open>[]map[string]interface{}\<close>; \<open>GStrs\<close>: \<^verbatim>\<open>[]string\<close>;
  \<^item> \<open>GOpaque\<close>: a scalar of another type (float64, time.Time, uint64) with its type name and
    printed form, into which the program never looks.
\<close>

datatype gval =
    GNil
  | GBool bool
  | GInt int
  | GStr string
  | GOpaque string string
  | GMap "(string \<times> gval) list"
  | GAnyMap "(gval \<times> gval) list"
  | GSlice "gval list"
  | GMapSlice "(string \<times> gval) list list"
  | GStrs "string list"

type_synonym gmap = "(string, gval) gomap"

text \<open>\<open>idx m k\<close> is the expression \<^verbatim>\<open>m[k]\<close> on a \<^verbatim>\<open>map[string]interface{}\<close>; it is nil for a missing key.\<close>

abbreviation idx :: "gmap \<Rightarrow> string \<Rightarrow> gval" where
  "idx m k \<equiv> mget0 GNil m k"

text \<open>\<^verbatim>\<open>reflect.ValueOf(v).Kind()\<close>, as far as the program compares it.\<close>

datatype kind = KString | KMap | KSlice | KOther

fun kindOf :: "gval \<Rightarrow> kind" where
  "kindOf (GStr _) = KString"
| "kindOf (GMap _) = KMap"
| "kindOf (GAnyMap _) = KMap"
| "kindOf (GSlice _) = KSlice"
| "kindOf (GMapSlice _) = KSlice"
| "kindOf (GStrs _) = KSlice"
| "kindOf _ = KOther"

text \<open>Type assertions: the single-value form panics when the dynamic type is another one.\<close>

definition conversionPanic :: go_error where
  "conversionPanic = Panic ''interface conversion''"

fun asMap :: "gval \<Rightarrow> gmap res" where
  "asMap (GMap m) = Inr m"
| "asMap _ = Inl conversionPanic"

fun asSlice :: "gval \<Rightarrow> gval list res" where
  "asSlice (GSlice xs) = Inr xs"
| "asSlice _ = Inl conversionPanic"

fun asString :: "gval \<Rightarrow> string res" where
  "asString (GStr s) = Inr s"
| "asString _ = Inl conversionPanic"

text \<open>The comma-ok forms give the zero value of the type: a nil map reads as the empty map.\<close>

fun toMap :: "gval \<Rightarrow> gmap" where
  "toMap (GMap m) = m"
| "toMap _ = []"

fun toStringOpt :: "gval \<Rightarrow> string option" where
  "toStringOpt (GStr s) = Some s"
| "toStringOpt _ = None"

lemma asMap_Inr_iff [res_simps]: "asMap v = Inr m \<longleftrightarrow> v = GMap m"
  by (cases v) auto

lemma asSlice_Inr_iff [res_simps]: "asSlice v = Inr m \<longleftrightarrow> v = GSlice m"
  by (cases v) auto

lemma asString_Inr_iff [res_simps]: "asString v = Inr m \<longleftrightarrow> v = GStr m"
  by (cases v) auto

lemma idx_Some: "mget m k = Some v \<Longrightarrow> idx m k = v"
  by (simp add: mget0_def)

lemma idx_None: "mget m k = None \<Longrightarrow> idx m k = GNil"
  by (simp add: mget0_def)

lemma idx_not_nil: "idx m k \<noteq> GNil \<Longrightarrow> mget m k = Some (idx m k)"
  by (auto simp: mget0_def split: option.splits)

section \<open>Well-formed values\<close>

text \<open>Keys are distinct in every map inside a value.\<close>

fun gwf :: "gval \<Rightarrow> bool" where
  "gwf (GMap m) = (mwf m \<and> (\<forall>kv\<in>set m. gwf (snd kv)))"
| "gwf (GAnyMap m) = (mwf m \<and> (\<forall>kv\<in>set m. gwf (snd kv)))"
| "gwf (GSlice xs) = (\<forall>x\<in>set xs. gwf x)"
| "gwf (GMapSlice ms) = (\<forall>m\<in>set ms. mwf m \<and> (\<forall>kv\<in>set m. gwf (snd kv)))"
| "gwf _ = True"

abbreviation gmap_wf :: "gmap \<Rightarrow> bool" where
  "gmap_wf m \<equiv> gwf (GMap m)"

lemma gmap_wf_mget: "gmap_wf m \<Longrightarrow> mget m k = Some v \<Longrightarrow> gwf v"
  by (auto dest!: map_of_SomeD)

lemma gmap_wf_mput: "gmap_wf m \<Longrightarrow> gwf v \<Longrightarrow> gmap_wf (mput m k v)"
proof (induction m)
  case Nil
  then show ?case by (simp add: mwf_def)
next
  case (Cons a m)
  obtain j w where a: "a = (j, w)" by (cases a)
  with Cons show ?case by (auto simp: mwf_Cons)
qed

lemma gmap_wf_mdel: "gmap_wf m \<Longrightarrow> gmap_wf (mdel m k)"
  by (auto simp: mdel_def AList.delete_eq mwf_def distinct_map_filter)

section \<open>Paths into a value\<close>

datatype step = Key string | Idx nat

fun at :: "gval \<Rightarrow> step list \<Rightarrow> gval option" where
  "at v [] = Some v"
| "at v (Key k # p) =
     (case v of
        GMap m \<Rightarrow> (case mget m k of None \<Rightarrow> None | Some w \<Rightarrow> at w p)
      | _ \<Rightarrow> None)"
| "at v (Idx i # p) =
     (case v of
        GSlice xs \<Rightarrow> (if i < length xs then at (xs ! i) p else None)
      | GMapSlice ms \<Rightarrow> (if i < length ms then at (GMap (ms ! i)) p else None)
      | _ \<Rightarrow> None)"

text \<open>A leaf is a value that the overlay code treats as atomic and that is not nil.\<close>

fun isLeaf :: "gval \<Rightarrow> bool" where
  "isLeaf (GBool _) = True"
| "isLeaf (GInt _) = True"
| "isLeaf (GStr _) = True"
| "isLeaf (GOpaque _ _) = True"
| "isLeaf _ = False"

lemma at_GNil: "at GNil p = Some u \<longleftrightarrow> p = [] \<and> u = GNil"
proof (cases p)
  case (Cons st q)
  then show ?thesis by (cases st) auto
qed auto

lemma at_append: "at v (p @ q) = (case at v p of None \<Rightarrow> None | Some w \<Rightarrow> at w q)"
proof (induction p arbitrary: v)
  case Nil
  then show ?case by simp
next
  case (Cons s p)
  then show ?case by (cases s) (auto split: gval.splits option.splits)
qed

end
