(* ===== verification/Overlay.thy ===== *)
theory Overlay
  imports GoValue
begin

text \<open>
  The overlay of user content onto a source CR: \<^verbatim>\<open>PolicyBuilder.setValues\<close> in
  \<^verbatim>\<open>policyGen/policyBuilder.go\<close>.

  Go mutates \<^verbatim>\<open>sourceMap\<close> in place and returns it; the model returns the new map. The first loop
  of \<^verbatim>\<open>setValues\<close> visits the entries of the source map and changes or deletes only the entry it is
  at, so it is \<open>setEntries\<close>, a recursion over the entries; the second loop is \<open>copyMissing\<close>. The
  recursive calls go into submaps (\<open>setValue\<close>) and into the elements of slices of maps
  (\<open>setElems\<close>).
\<close>

section \<open>The operation\<close>

fun isPlaceholder :: "gval \<Rightarrow> bool" where
  "isPlaceholder (GStr s) = (s = [] \<or> HasPrefix s ''$'')"
| "isPlaceholder _ = False"

fun copyMissing :: "gmap \<Rightarrow> gmap \<Rightarrow> gmap" where
  "copyMissing s [] = s"
| "copyMissing s ((k, v) # vm) = copyMissing (if idx s k = GNil then mput s k v else s) vm"

function (sequential) setValue :: "gval \<Rightarrow> gval \<Rightarrow> gval res"
  and setEntries :: "gmap \<Rightarrow> gmap \<Rightarrow> gmap res"
  and setElems :: "gval list \<Rightarrow> gval list \<Rightarrow> gmap list res" where
  "setValue (GMap m) u =
     bind_res (asMap u) (\<lambda>um. bind_res (setEntries m um) (\<lambda>s. Inr (GMap (copyMissing s um))))"
| "setValue (GAnyMap m) u = Inl conversionPanic"
| "setValue (GSlice xs) u =
     (if xs \<noteq> [] \<and> kindOf (hd xs) = KMap
      then bind_res (asSlice u) (\<lambda>us. bind_res (setElems xs us) (\<lambda>ms. Inr (GMapSlice ms)))
      else Inr u)"
| "setValue (GMapSlice ms) u = Inl conversionPanic"
| "setValue (GStrs ss) u = Inl conversionPanic"
| "setValue v u = Inr u"
| "setEntries [] vm = Inr []"
| "setEntries ((k, v) # s) vm =
     (if idx vm k = GNil then
        (if isPlaceholder v then setEntries s vm
         else bind_res (setEntries s vm) (\<lambda>r. Inr ((k, v) # r)))
      else bind_res (setValue v (idx vm k)) (\<lambda>w.
           bind_res (setEntries s vm) (\<lambda>r. Inr ((k, w) # r))))"
| "setElems [] us = mapM_res asMap us"
| "setElems (x # xs) [] =
     bind_res (asMap x) (\<lambda>m. bind_res (setElems xs []) (\<lambda>ms. Inr (m # ms)))"
| "setElems (x # xs) (u # us) =
     bind_res (asMap x) (\<lambda>_. bind_res (asMap u) (\<lambda>_.
       bind_res (setValue x u) (\<lambda>w. bind_res (asMap w) (\<lambda>m.
         bind_res (setElems xs us) (\<lambda>ms. Inr (m # ms))))))"
  by pat_completeness auto
termination
  by (relation "measure (case_sum (\<lambda>(v, _). size v)
        (case_sum (\<lambda>(s, _). size_list (size_prod (\<lambda>_. 0) size) s)
                  (\<lambda>(xs, _). size_list size xs)))") auto

definition setValues :: "gmap \<Rightarrow> gmap \<Rightarrow> gmap res" where
  "setValues sourceMap valueMap =
     bind_res (setEntries sourceMap valueMap) (\<lambda>s. Inr (copyMissing s valueMap))"

lemma setValue_GMap:
  "setValue (GMap m) (GMap um) = Inr x \<longleftrightarrow> (\<exists>r. setValues m um = Inr r \<and> x = GMap r)"
  by (auto simp: setValues_def res_simps)

section \<open>What the overlay gives at one key\<close>

text \<open>
  The specification of one key: the value the source has there (or none) and the value the user
  gives (or none) determine the value of the result. It does not mention any order of iteration.
\<close>

fun overlayKey :: "gval option \<Rightarrow> gval option \<Rightarrow> gval option res" where
  "overlayKey None u = Inr u"
| "overlayKey (Some v) u =
     (case u of
        None \<Rightarrow> Inr (if isPlaceholder v then None else Some v)
      | Some w \<Rightarrow>
        if w = GNil then Inr (if isPlaceholder v then Some GNil else Some v)
        else bind_res (setValue v w) (\<lambda>x. Inr (Some x)))"

lemma setValue_not_nil: "setValue v u = Inr w \<Longrightarrow> u \<noteq> GNil \<Longrightarrow> w \<noteq> GNil"
  by (cases v) (auto simp: res_simps split: if_splits)

lemma setValue_leaf: "setValue v u = Inr w \<Longrightarrow> isLeaf u \<Longrightarrow> w = u"
  by (cases v; cases u) (auto simp: res_simps conversionPanic_def split: if_splits)

lemma mget_copyMissing:
  assumes "mwf vm"
  shows "mget (copyMissing s vm) k =
    (if idx s k = GNil \<and> mget vm k \<noteq> None then mget vm k else mget s k)"
  using assms
proof (induction s vm rule: copyMissing.induct)
  case (1 s)
  then show ?case by simp
next
  case (2 s j v vm)
  then have n: "mget vm j = None" and "mwf vm" by (auto simp: mwf_Cons)
  then have "mget (copyMissing s ((j, v) # vm)) k =
      (if idx (if idx s j = GNil then mput s j v else s) k = GNil \<and> mget vm k \<noteq> None
       then mget vm k else mget (if idx s j = GNil then mput s j v else s) k)"
    using "2.IH" by simp
  with n show ?case by (auto simp: idx_None)
qed

lemma mwf_copyMissing: "mwf s \<Longrightarrow> mwf (copyMissing s vm)"
  by (induction s vm rule: copyMissing.induct) auto

lemma setEntries_None: "setEntries s vm = Inr r \<Longrightarrow> mget s k = None \<Longrightarrow> mget r k = None"
  by (induction s arbitrary: r) (auto simp: res_simps split: if_splits)

lemma mwf_setEntries: "setEntries s vm = Inr r \<Longrightarrow> mwf s \<Longrightarrow> mwf r"
  by (induction s arbitrary: r)
    (auto simp: res_simps mwf_Cons setEntries_None split: if_splits)

lemma setEntries_Some:
  "setEntries s vm = Inr r \<Longrightarrow> mwf s \<Longrightarrow> mget s k = Some v \<Longrightarrow>
    (if idx vm k = GNil then mget r k = (if isPlaceholder v then None else Some v)
     else \<exists>w. setValue v (idx vm k) = Inr w \<and> mget r k = Some w)"
proof (induction s arbitrary: r)
  case Nil
  then show ?case by simp
next
  case (Cons a s)
  obtain j x where a: "a = (j, x)" by (cases a)
  with Cons.prems(2) have n: "mget s j = None" and wf: "mwf s" by (auto simp: mwf_Cons)
  show ?case
  proof (cases "j = k")
    case True
    with a n Cons.prems(1,3) show ?thesis
      by (auto simp: res_simps setEntries_None split: if_splits)
  next
    case False
    with a Cons.prems(3) have sk: "mget s k = Some v" by simp
    from a Cons.prems(1) obtain r' where r': "setEntries s vm = Inr r'"
      and "mget r k = mget r' k"
      using False by (auto simp: res_simps split: if_splits)
    with Cons.IH [OF r' wf sk] show ?thesis by simp
  qed
qed

lemma setEntries_is_ok:
  "is_ok (setEntries s vm) \<longleftrightarrow>
     (\<forall>k v. (k, v) \<in> set s \<longrightarrow> idx vm k \<noteq> GNil \<longrightarrow> is_ok (setValue v (idx vm k)))"
proof (induction s)
  case Nil
  then show ?case by simp
next
  case (Cons a s)
  then show ?case by (cases a; cases "idx vm (fst a) = GNil"; cases "isPlaceholder (snd a)") auto
qed

text \<open>The central law: every key of the result is what the specification says.\<close>

lemma setValues_overlayKey:
  assumes "setValues s vm = Inr r" and "mwf s" and "mwf vm"
  shows "overlayKey (mget s k) (mget vm k) = Inr (mget r k)"
proof -
  from assms(1) obtain e where e: "setEntries s vm = Inr e" and r: "r = copyMissing e vm"
    by (auto simp: setValues_def res_simps)
  have g: "mget r k = (if idx e k = GNil \<and> mget vm k \<noteq> None then mget vm k else mget e k)"
    using mget_copyMissing [OF assms(3)] r by simp
  show ?thesis
  proof (cases "mget s k")
    case None
    with setEntries_None [OF e] have "mget e k = None" by simp
    with g None show ?thesis by (auto simp: idx_None)
  next
    case (Some v)
    note se = setEntries_Some [OF e assms(2) Some]
    show ?thesis
    proof (cases "idx vm k = GNil")
      case True
      with se have me: "mget e k = (if isPlaceholder v then None else Some v)" by simp
      from True have "mget vm k = None \<or> mget vm k = Some GNil"
        by (auto simp: mget0_def split: option.splits)
      with me g Some show ?thesis by (auto simp: mget0_def split: if_splits)
    next
      case False
      with se obtain w where w: "setValue v (idx vm k) = Inr w" "mget e k = Some w" by auto
      from setValue_not_nil [OF w(1) False] w(2) have "idx e k \<noteq> GNil" by (simp add: mget0_def)
      with g w Some False idx_not_nil [OF False] show ?thesis by simp
    qed
  qed
qed

lemma mwf_setValues: "setValues s vm = Inr r \<Longrightarrow> mwf s \<Longrightarrow> mwf r"
  by (auto simp: setValues_def res_simps intro: mwf_copyMissing mwf_setEntries)

lemma setValues_is_ok:
  assumes "mwf s"
  shows "is_ok (setValues s vm) \<longleftrightarrow> (\<forall>k. is_ok (overlayKey (mget s k) (mget vm k)))"
proof -
  have o: "is_ok (overlayKey (mget s k) (mget vm k)) \<longleftrightarrow>
      (\<forall>v. mget s k = Some v \<longrightarrow> idx vm k \<noteq> GNil \<longrightarrow> is_ok (setValue v (idx vm k)))" for k
  proof (cases "idx vm k = GNil")
    case True
    then have "mget vm k = None \<or> mget vm k = Some GNil"
      by (auto simp: mget0_def split: option.splits)
    with True show ?thesis by (cases "mget s k") auto
  next
    case False
    note idx_not_nil [OF this]
    with False show ?thesis
      by (cases "mget s k") auto
  qed
  have "is_ok (setValues s vm) \<longleftrightarrow> is_ok (setEntries s vm)"
    by (simp add: setValues_def)
  also have "\<dots> \<longleftrightarrow> (\<forall>k v. mget s k = Some v \<longrightarrow> idx vm k \<noteq> GNil \<longrightarrow> is_ok (setValue v (idx vm k)))"
    by (simp add: setEntries_is_ok mget_in_set [OF assms])
  finally show ?thesis using o by auto
qed

section \<open>Elements of slices of maps\<close>

lemma setElems_spec:
  "setElems xs us = Inr ms \<Longrightarrow>
    length ms = max (length xs) (length us) \<and>
    (\<forall>i < length ms.
       if i < length xs \<and> i < length us then setValue (xs ! i) (us ! i) = Inr (GMap (ms ! i)) \<and> us ! i \<noteq> GNil
       else if i < length xs then xs ! i = GMap (ms ! i)
       else us ! i = GMap (ms ! i))"
proof (induction xs arbitrary: us ms)
  case Nil
  from Nil have "list_all2 (\<lambda>u m. u = GMap m) us ms"
    by (simp add: mapM_res_Inr_iff asMap_Inr_iff)
  then show ?case by (auto dest: list_all2_lengthD list_all2_nthD2)
next
  case (Cons x xs)
  show ?case
  proof (cases us)
    case Nil
    with Cons.prems obtain m ms' where m: "x = GMap m" "setElems xs [] = Inr ms'" "ms = m # ms'"
      by (auto simp: res_simps)
    from Cons.IH [OF m(2)] m Nil show ?thesis
      by (auto simp: nth_Cons split: nat.splits)
  next
    case (Cons u ut)
    with Cons.prems obtain m ms' where m: "setValue x u = Inr (GMap m)" "u \<noteq> GNil"
      "setElems xs ut = Inr ms'" "ms = m # ms'"
      by (auto simp: res_simps)
    from Cons.IH [OF m(3)] m Cons show ?thesis
      by (auto simp: nth_Cons split: nat.splits)
  qed
qed

section \<open>User content wins, the rest survives\<close>

lemma setValue_user_wins:
  assumes "setValue v w = Inr x" and "at w p = Some u" and "isLeaf u" and "gwf v" and "gwf w"
  shows "at x p = Some u"
  using assms
proof (induction p arbitrary: v w x)
  case Nil
  then show ?case by (auto dest: setValue_leaf)
next
  case (Cons st q)
  show ?case
  proof (cases "x = w")
    case True
    with Cons.prems(2) show ?thesis by simp
  next
    case False
    show ?thesis
    proof (cases st)
      case (Key k)
      with Cons.prems(2) obtain um w' where w: "w = GMap um" "mget um k = Some w'" "at w' q = Some u"
        by (auto split: gval.splits option.splits)
      with False Cons.prems(1) obtain m r where m: "v = GMap m" "setValues m um = Inr r" "x = GMap r"
        by (cases v) (auto simp: setValues_def res_simps split: if_splits)
      from m(2) Cons.prems(4,5) m(1) w(1)
      have o: "overlayKey (mget m k) (mget um k) = Inr (mget r k)"
        by (intro setValues_overlayKey) auto
      from w(3) Cons.prems(3) have "w' \<noteq> GNil" by (auto simp: at_GNil)
      show ?thesis
      proof (cases "mget m k")
        case None
        with o w(2) have "mget r k = Some w'" by simp
        with w(3) m(3) Key show ?thesis by simp
      next
        case (Some v')
        with o w(2) \<open>w' \<noteq> GNil\<close> obtain x' where x': "setValue v' w' = Inr x'" "mget r k = Some x'"
          by (auto simp: res_simps)
        have "gwf v'" "gwf w'"
          using gmap_wf_mget Cons.prems(4,5) Some w m(1) by blast+
        from Cons.IH [OF x'(1) w(3) Cons.prems(3) this] x'(2) m(3) Key show ?thesis by simp
      qed
    next
      case (Idx i)
      with False Cons.prems(1,2) obtain xs us ms where s: "v = GSlice xs" "w = GSlice us"
        "setElems xs us = Inr ms" "x = GMapSlice ms"
        by (cases v) (auto simp: res_simps split: gval.splits if_splits)
      with Idx Cons.prems(2) have i: "i < length us" "at (us ! i) q = Some u" by (auto split: if_splits)
      note el = setElems_spec [OF s(3)]
      with i have lm: "i < length ms" by auto
      have "at (GMap (ms ! i)) q = Some u"
      proof (cases "i < length xs")
        case True
        with el i lm have "setValue (xs ! i) (us ! i) = Inr (GMap (ms ! i))" by (auto split: if_splits)
        moreover have "gwf (xs ! i)" "gwf (us ! i)"
          using Cons.prems(4,5) s True i(1) by auto
        ultimately show ?thesis using Cons.IH i(2) Cons.prems(3) by blast
      next
        case False
        with el i lm show ?thesis by (auto split: if_splits)
      qed
      with lm Idx s(4) show ?thesis by simp
    qed
  qed
qed

text \<open>
  \<open>untouched v w p\<close>: following the path \<open>p\<close> from the source value \<open>v\<close>, the user value \<open>w\<close> says
  nothing about the end of the path. A slice whose elements are not maps is replaced as a whole,
  so a path into such a slice is untouched only when the user does not mention the slice.
\<close>

fun untouched :: "gval \<Rightarrow> gval \<Rightarrow> step list \<Rightarrow> bool" where
  "untouched v w [] = (w = GNil)"
| "untouched v w (st # q) =
     (w = GNil \<or>
      (case (v, w, st) of
         (GMap m, GMap um, Key k) \<Rightarrow>
           (case mget m k of None \<Rightarrow> False | Some v' \<Rightarrow> untouched v' (idx um k) q)
       | (GSlice xs, GSlice us, Idx i) \<Rightarrow>
           xs \<noteq> [] \<and> kindOf (hd xs) = KMap \<and> i < length xs \<and>
           (length us \<le> i \<or> untouched (xs ! i) (us ! i) q)
       | _ \<Rightarrow> False))"

lemma untouched_not_placeholder:
  "at v p = Some u \<Longrightarrow> \<not> isPlaceholder u \<Longrightarrow> \<not> isPlaceholder v"
proof (cases v)
  case (GStr s)
  assume a: "at v p = Some u" "\<not> isPlaceholder u"
  show ?thesis
  proof (cases p)
    case Nil
    with a show ?thesis by simp
  next
    case (Cons st q)
    with a GStr show ?thesis by (cases st) auto
  qed
qed auto

lemma setValue_untouched:
  assumes "setValue v w = Inr x" and "w \<noteq> GNil" and "at v p = Some u" and "\<not> isPlaceholder u"
    and "untouched v w p" and "gwf v" and "gwf w"
  shows "at x p = Some u"
  using assms
proof (induction p arbitrary: v w x)
  case Nil
  then show ?case by simp
next
  case (Cons st q)
  show ?case
  proof (cases st)
    case (Key k)
    with Cons.prems(2,5) obtain m um v' where m: "v = GMap m" "w = GMap um" "mget m k = Some v'"
      "untouched v' (idx um k) q"
      by (auto split: gval.splits option.splits)
    with Key Cons.prems(3) have v': "at v' q = Some u" by simp
    from m Cons.prems(1) obtain r where r: "setValues m um = Inr r" "x = GMap r"
      by (auto simp: setValues_def res_simps)
    from r(1) Cons.prems(6,7) m have o: "overlayKey (mget m k) (mget um k) = Inr (mget r k)"
      by (intro setValues_overlayKey) auto
    show ?thesis
    proof (cases "idx um k = GNil")
      case True
      then have "mget um k = None \<or> mget um k = Some GNil"
        by (auto simp: mget0_def split: option.splits)
      moreover have "\<not> isPlaceholder v'" using untouched_not_placeholder [OF v' Cons.prems(4)] .
      ultimately have "mget r k = Some v'" using o m(3) by auto
      with v' r(2) Key show ?thesis by simp
    next
      case False
      with o m(3) idx_not_nil [OF False] obtain x' where
        x': "setValue v' (idx um k) = Inr x'" "mget r k = Some x'"
        by (auto simp: res_simps)
      have "gwf v'" "gwf (idx um k)"
        using gmap_wf_mget Cons.prems(6,7) m idx_not_nil [OF False] by blast+
      from Cons.IH [OF x'(1) False v' Cons.prems(4) m(4) this] x'(2) r(2) Key show ?thesis by simp
    qed
  next
    case (Idx i)
    with Cons.prems(2,5) obtain xs us where s: "v = GSlice xs" "w = GSlice us"
      "xs \<noteq> []" "kindOf (hd xs) = KMap" "i < length xs" "length us \<le> i \<or> untouched (xs ! i) (us ! i) q"
      by (auto split: gval.splits)
    with Cons.prems(1) obtain ms where ms: "setElems xs us = Inr ms" "x = GMapSlice ms"
      by (auto simp: res_simps)
    from s Idx Cons.prems(3) have v': "at (xs ! i) q = Some u" by simp
    note el = setElems_spec [OF ms(1)]
    with s have lm: "i < length ms" by auto
    have "at (GMap (ms ! i)) q = Some u"
    proof (cases "i < length us")
      case True
      with el s lm have e: "setValue (xs ! i) (us ! i) = Inr (GMap (ms ! i))" "us ! i \<noteq> GNil"
        by (auto split: if_splits)
      have "gwf (xs ! i)" "gwf (us ! i)" using Cons.prems(6,7) s True by auto
      with Cons.IH [OF e v' Cons.prems(4)] s(6) True show ?thesis by auto
    next
      case False
      with el s lm have "xs ! i = GMap (ms ! i)" by (auto split: if_splits)
      with v' show ?thesis by simp
    qed
    with lm Idx ms(2) show ?thesis by simp
  qed
qed

section \<open>Properties\<close>

text \<open>C1. The overlay refines its per-key specification: when \<^verbatim>\<open>setValues\<close> returns, every key of
  the result has the value \<open>overlayKey\<close> computes from the source's and the user's value at that
  key, and when it panics, some key has incompatible types on the two sides.\<close>

theorem setValues_refines_overlayKey:
  assumes "mwf sourceMap" and "mwf valueMap"
  shows "case setValues sourceMap valueMap of
      Inr r \<Rightarrow> \<forall>k. overlayKey (mget sourceMap k) (mget valueMap k) = Inr (mget r k)
    | Inl e \<Rightarrow> \<exists>k. \<not> is_ok (overlayKey (mget sourceMap k) (mget valueMap k))"
proof (cases "setValues sourceMap valueMap")
  case (Inl e)
  then have "\<not> is_ok (setValues sourceMap valueMap)" by simp
  with Inl show ?thesis using setValues_is_ok [OF assms(1), of valueMap] by simp
next
  case (Inr r)
  with setValues_overlayKey [OF Inr assms] show ?thesis by simp
qed

theorem setValues_refines_overlayKey_witness:
  "setValues [(''a'', GStr ''$x''), (''b'', GInt 1)] [(''b'', GInt 2), (''c'', GBool True)] =
     Inr [(''b'', GInt 2), (''c'', GBool True)] \<and>
   overlayKey (Some (GInt 1)) (Some (GInt 2)) = Inr (Some (GInt 2))"
  using setValues_refines_overlayKey
    [of "[(''a'', GStr ''$x''), (''b'', GInt 1)]" "[(''b'', GInt 2), (''c'', GBool True)]"]
  by (simp add: setValues_def mget0_def mwf_def)

text \<open>C6. User content wins at every depth: a scalar that the user gives at some path of nested
  maps and slices stands at that path in the merged CR.\<close>

theorem setValues_user_wins:
  assumes "setValues sourceMap valueMap = Inr r" and "gmap_wf sourceMap" and "gmap_wf valueMap"
    and "at (GMap valueMap) p = Some u" and "isLeaf u"
  shows "at (GMap r) p = Some u"
proof -
  have "setValue (GMap sourceMap) (GMap valueMap) = Inr (GMap r)"
    using assms(1) unfolding setValue_GMap by simp
  then show ?thesis using assms(4,5,2,3) by (rule setValue_user_wins)
qed

theorem setValues_user_wins_witness:
  "\<exists>r. setValues [(''l'', GSlice [GMap [(''n'', GStr ''x''), (''k'', GInt 1)]])]
        [(''l'', GSlice [GMap [(''k'', GInt 7)], GMap [(''k'', GInt 8)]])] = Inr r \<and>
     at (GMap r) [Key ''l'', Idx 0, Key ''k''] = Some (GInt 7) \<and>
     at (GMap r) [Key ''l'', Idx 1, Key ''k''] = Some (GInt 8)"
proof -
  let ?s = "[(''l'', GSlice [GMap [(''n'', GStr ''x''), (''k'', GInt 1)]])]"
  let ?v = "[(''l'', GSlice [GMap [(''k'', GInt 7)], GMap [(''k'', GInt 8)]])]"
  let ?r = "[(''l'', GMapSlice [[(''n'', GStr ''x''), (''k'', GInt 7)], [(''k'', GInt 8)]])]"
  have r: "setValues ?s ?v = Inr ?r" by (simp add: setValues_def mget0_def)
  have w: "gmap_wf ?s" "gmap_wf ?v" by (simp_all add: mwf_def)
  have "at (GMap ?r) [Key ''l'', Idx 0, Key ''k''] = Some (GInt 7)"
    "at (GMap ?r) [Key ''l'', Idx 1, Key ''k''] = Some (GInt 8)"
    by (rule setValues_user_wins [OF r w]; simp)+
  with r show ?thesis by blast
qed

text \<open>What the user does not mention survives: a value of the source CR that is not a
  placeholder and whose path the overlay leaves untouched stands unchanged in the merged CR.\<close>

theorem setValues_keeps_untouched:
  assumes "setValues sourceMap valueMap = Inr r" and "gmap_wf sourceMap" and "gmap_wf valueMap"
    and "at (GMap sourceMap) p = Some u" and "\<not> isPlaceholder u"
    and "untouched (GMap sourceMap) (GMap valueMap) p"
  shows "at (GMap r) p = Some u"
proof -
  have "setValue (GMap sourceMap) (GMap valueMap) = Inr (GMap r)"
    using assms(1) unfolding setValue_GMap by simp
  then show ?thesis
    using setValue_untouched [of "GMap sourceMap" "GMap valueMap" "GMap r" p u] assms by simp
qed

theorem setValues_keeps_untouched_witness:
  "\<exists>r. setValues [(''l'', GSlice [GMap [(''n'', GStr ''x''), (''k'', GInt 1)]])]
        [(''l'', GSlice [GMap [(''k'', GInt 7)]])] = Inr r \<and>
     at (GMap r) [Key ''l'', Idx 0, Key ''n''] = Some (GStr ''x'')"
proof -
  let ?s = "[(''l'', GSlice [GMap [(''n'', GStr ''x''), (''k'', GInt 1)]])]"
  let ?v = "[(''l'', GSlice [GMap [(''k'', GInt 7)]])]"
  let ?r = "[(''l'', GMapSlice [[(''n'', GStr ''x''), (''k'', GInt 7)]])]"
  have r: "setValues ?s ?v = Inr ?r" by (simp add: setValues_def mget0_def)
  have w: "gmap_wf ?s" "gmap_wf ?v" by (simp_all add: mwf_def)
  have "at (GMap ?r) [Key ''l'', Idx 0, Key ''n''] = Some (GStr ''x'')"
    by (rule setValues_keeps_untouched [OF r w]) (simp_all add: mget0_def)
  with r show ?thesis by blast
qed

text \<open>C12. The result does not depend on the order in which Go visits the two maps: any other order
  of their entries succeeds as well and gives a map with the same contents.\<close>

theorem setValues_order_independent:
  assumes "setValues sourceMap valueMap = Inr r" and "mwf sourceMap" and "mwf valueMap"
    and "mset sourceMap = mset sourceMap'" and "mset valueMap = mset valueMap'"
  shows "\<exists>r'. setValues sourceMap' valueMap' = Inr r' \<and> mget r' = mget r"
proof -
  have wf: "mwf sourceMap'" "mwf valueMap'"
    using mwf_perm [OF assms(4)] mwf_perm [OF assms(5)] assms(2,3) by auto
  have eq: "mget sourceMap' = mget sourceMap" "mget valueMap' = mget valueMap"
    using mget_perm [OF assms(2,4)] mget_perm [OF assms(3,5)] by auto
  have "is_ok (setValues sourceMap' valueMap')"
    using is_ok_Inr [OF assms(1)]
    unfolding setValues_is_ok [OF assms(2)] setValues_is_ok [OF wf(1)] eq .
  then obtain r' where r': "setValues sourceMap' valueMap' = Inr r'" by (rule is_okE)
  have "mget r' k = mget r k" for k
    using setValues_overlayKey [OF r' wf, of k] setValues_overlayKey [OF assms(1,2,3), of k] eq by simp
  with r' show ?thesis by auto
qed

theorem setValues_order_independent_witness:
  "\<exists>r'. setValues [(''b'', GInt 1), (''a'', GStr ''$x'')] [(''c'', GNil), (''b'', GInt 2)] = Inr r' \<and>
     mget r' ''b'' = Some (GInt 2)"
proof -
  have r: "setValues [(''a'', GStr ''$x''), (''b'', GInt 1)] [(''b'', GInt 2), (''c'', GNil)] =
      Inr [(''b'', GInt 2), (''c'', GNil)]"
    by (simp add: setValues_def mget0_def)
  obtain r' where "setValues [(''b'', GInt 1), (''a'', GStr ''$x'')] [(''c'', GNil), (''b'', GInt 2)] = Inr r'"
    and "mget r' = mget [(''b'', GInt 2), (''c'', GNil)]"
    using setValues_order_independent [OF r, of "[(''b'', GInt 1), (''a'', GStr ''$x'')]"
        "[(''c'', GNil), (''b'', GInt 2)]"]
    by (auto simp: mwf_def)
  then show ?thesis by auto
qed

end
