(* ===== verification/PolicyTypes.thy ===== *)
theory PolicyTypes
  imports GoValue
begin

text \<open>
  The data of the policy generator: the constants and structs of
  \<^verbatim>\<open>ztp/policygenerator/utils/utils.go\<close>, one record per struct, and the ACM policy template of
  \<^verbatim>\<open>policyGen/policyTemplate.go\<close>. The field prefixes only keep the selectors of different structs
  apart.

  A Go map field that the code compares with nil (or writes to, which panics on a nil map) is an
  \<open>option\<close>; every other map field is the map itself, since a nil map reads like an empty one.
\<close>

section \<open>Constants\<close>

definition ExistOper :: string where "ExistOper = ''Exists''"
definition InOper :: string where "InOper = ''In''"
definition DoesNotExistOper :: string where "DoesNotExistOper = ''DoesNotExist''"
definition NotInOper :: string where "NotInOper = ''NotIn''"
definition CustomResource :: string where "CustomResource = ''customResource''"
definition SourceCRsPath :: string where "SourceCRsPath = ''source-crs''"
definition FileExt :: string where "FileExt = ''.yaml''"
definition UnsetStringValue :: string where "UnsetStringValue = ''__unset_value__''"
definition ZtpDeployWaveAnnotation :: string where
  "ZtpDeployWaveAnnotation = ''ran.openshift.io/ztp-deploy-wave''"
definition DefaultCompliantEvaluationInterval :: string where
  "DefaultCompliantEvaluationInterval = ''10m''"
definition DefaultNonCompliantEvaluationInterval :: string where
  "DefaultNonCompliantEvaluationInterval = ''10s''"
definition DisableEvaluationInterval :: string where "DisableEvaluationInterval = ''never''"
definition WatchEvaluationInterval :: string where "WatchEvaluationInterval = ''watch''"
definition DefaultComplianceType :: string where "DefaultComplianceType = ''musthave''"

section \<open>Structs\<close>

record KindType =
  kt_Kind :: string

record MetaData =
  md_Annotations :: "(string, string) gomap option"
  md_Labels :: "(string, string) gomap"
  md_Name :: string
  md_Namespace :: string

record EvaluationInterval =
  ei_Compliant :: string
  ei_NonCompliant :: string

record SourceFile =
  sf_FileName :: string
  sf_PolicyName :: string
  sf_ComplianceType :: string
  sf_RemediationAction :: string
  sf_Metadata :: MetaData
  sf_Spec :: "gmap option"
  sf_Data :: "gmap option"
  sf_Status :: "gmap option"
  sf_BinaryData :: "gmap option"
  sf_StringData :: "gmap option"
  sf_EvaluationInterval :: EvaluationInterval

record PolicyGenTempSpec =
  ps_BindingRules :: "(string, string) gomap"
  ps_BindingExcludedRules :: "(string, string) gomap"
  ps_Mcp :: string
  ps_WrapInPolicy :: bool
  ps_RemediationAction :: string
  ps_ComplianceType :: string
  ps_EvaluationInterval :: EvaluationInterval
  ps_SourceFiles :: "SourceFile list"

record PolicyGenTemplate =
  pgt_ApiVersion :: string
  pgt_Kind :: string
  pgt_Metadata :: MetaData
  pgt_Spec :: PolicyGenTempSpec

record ObjectTemplates =
  ot_ComplianceType :: string
  ot_ObjectDefinition :: gmap

record NamespaceSelector =
  ns_Exclude :: "string list"
  ns_Include :: "string list"

record acmConfigPolicySpec =
  cp_RemediationAction :: string
  cp_Severity :: string
  cp_NamespaceSelector :: NamespaceSelector
  cp_ObjectTemplates :: "ObjectTemplates list"
  cp_EvaluationInterval :: EvaluationInterval

record AcmConfigurationPolicy =
  acp_ApiVersion :: string
  acp_Kind :: string
  acp_Metadata :: MetaData
  acp_Spec :: acmConfigPolicySpec

record PolicyObjectDefinition =
  pod_ObjDef :: AcmConfigurationPolicy

record acmPolicySpec =
  aps_RemediationAction :: string
  aps_Disabled :: bool
  aps_PolicyTemplates :: "PolicyObjectDefinition list"

record AcmPolicy =
  ap_ApiVersion :: string
  ap_Kind :: string
  ap_Metadata :: MetaData
  ap_Spec :: acmPolicySpec

record Subject =
  sub_Name :: string
  sub_Kind :: string
  sub_ApiGroup :: string

record PlacementBinding =
  pb_ApiVersion :: string
  pb_Kind :: string
  pb_Metadata :: MetaData
  pb_PlacementRef :: Subject
  pb_Subjects :: "Subject list"

record ClusterSelector =
  cs_MatchExpressions :: "gmap list"

record PlacementRule =
  pr_ApiVersion :: string
  pr_Kind :: string
  pr_Metadata :: MetaData
  pr_ClusterSelector :: ClusterSelector

section \<open>Zero values and custom unmarshalling\<close>

definition zeroMetaData :: MetaData where
  "zeroMetaData = \<lparr>md_Annotations = None, md_Labels = [], md_Name = [], md_Namespace = []\<rparr>"

definition zeroInterval :: EvaluationInterval where
  "zeroInterval = \<lparr>ei_Compliant = [], ei_NonCompliant = []\<rparr>"

text \<open>
  The two \<^verbatim>\<open>UnmarshalYAML\<close> methods start from a struct with defaults and let the decoder overwrite
  the fields that the document has. The decoder's closure is the parameter \<open>unmarshal\<close>; it returns
  the struct it has filled and its error.
\<close>

definition specDefaults :: PolicyGenTempSpec where
  "specDefaults =
     \<lparr>ps_BindingRules = [], ps_BindingExcludedRules = [], ps_Mcp = [], ps_WrapInPolicy = True,
      ps_RemediationAction = ''inform'', ps_ComplianceType = DefaultComplianceType,
      ps_EvaluationInterval =
        \<lparr>ei_Compliant = DefaultCompliantEvaluationInterval,
         ei_NonCompliant = DefaultNonCompliantEvaluationInterval\<rparr>,
      ps_SourceFiles = []\<rparr>"

definition PolicyGenTempSpec_UnmarshalYAML ::
  "(PolicyGenTempSpec \<Rightarrow> PolicyGenTempSpec \<times> go_error option) \<Rightarrow>
    PolicyGenTempSpec \<times> go_error option" where
  "PolicyGenTempSpec_UnmarshalYAML unmarshal =
     (let (out, err) = unmarshal specDefaults in (out, err))"

definition sourceFileDefaults :: SourceFile where
  "sourceFileDefaults =
     \<lparr>sf_FileName = [], sf_PolicyName = [], sf_ComplianceType = UnsetStringValue,
      sf_RemediationAction = UnsetStringValue, sf_Metadata = zeroMetaData,
      sf_Spec = None, sf_Data = None, sf_Status = None, sf_BinaryData = None, sf_StringData = None,
      sf_EvaluationInterval =
        \<lparr>ei_Compliant = UnsetStringValue, ei_NonCompliant = UnsetStringValue\<rparr>\<rparr>"

definition SourceFile_UnmarshalYAML ::
  "(SourceFile \<Rightarrow> SourceFile \<times> go_error option) \<Rightarrow> SourceFile \<times> go_error option" where
  "SourceFile_UnmarshalYAML unmarshal = (let (out, err) = unmarshal sourceFileDefaults in (out, err))"

section \<open>The ACM policy template\<close>

text \<open>\<open>acmPolicyTemplate\<close> is the value that the YAML text of that name decodes to.\<close>

definition acmPolicyTemplate :: AcmPolicy where
  "acmPolicyTemplate =
     \<lparr>ap_ApiVersion = ''policy.open-cluster-management.io/v1'',
      ap_Kind = ''Policy'',
      ap_Metadata =
        \<lparr>md_Annotations = Some
           [(''policy.open-cluster-management.io/categories'', ''CM Configuration Management''),
            (''policy.open-cluster-management.io/controls'', ''CM-2 Baseline Configuration''),
            (''policy.open-cluster-management.io/standards'', ''NIST SP 800-53'')],
         md_Labels = [],
         md_Name = ''policyGenTemplate.metadata.name-sourceFiles.policyName'',
         md_Namespace = ''policyGenTemplate.metadata.namespace''\<rparr>,
      ap_Spec =
        \<lparr>aps_RemediationAction = ''inform'',
         aps_Disabled = False,
         aps_PolicyTemplates =
           [\<lparr>pod_ObjDef =
              \<lparr>acp_ApiVersion = ''policy.open-cluster-management.io/v1'',
               acp_Kind = ''ConfigurationPolicy'',
               acp_Metadata =
                 zeroMetaData\<lparr>md_Name := ''policyGenTemplate.metadata.name-sourceFiles.policyName-config''\<rparr>,
               acp_Spec =
                 \<lparr>cp_RemediationAction = ''inform'',
                  cp_Severity = ''low'',
                  cp_NamespaceSelector = \<lparr>ns_Exclude = [''kube-*''], ns_Include = [''*'']\<rparr>,
                  cp_ObjectTemplates =
                    [\<lparr>ot_ComplianceType = ''mustonlyhave'', ot_ObjectDefinition = []\<rparr>],
                  cp_EvaluationInterval = zeroInterval\<rparr>\<rparr>\<rparr>]\<rparr>\<rparr>"

end
