(* ===== verification/CustomResource.thy ===== *)
theory CustomResource
  imports Overlay PolicyTypes
begin

text \<open>
  From a source file to the CRs it gives: \<^verbatim>\<open>splitYamls\<close>, \<^verbatim>\<open>getCustomResource\<close> and \<^verbatim>\<open>getCustomResources\<close> of
  \<^verbatim>\<open>policyGen/policyBuilder.go\<close>.

  The YAML package is a parameter: \<open>yl_decodeDocs\<close> gives the documents of a stream up to its end
  (\<^verbatim>\<open>Decoder.Decode\<close> until \<^verbatim>\<open>io.EOF\<close>) or the decoding error, \<open>yl_marshal\<close> is \<^verbatim>\<open>yaml.Marshal\<close>, and
  \<open>yl_unmarshalMap\<close> is \<^verbatim>\<open>yaml.Unmarshal\<close> into a \<^verbatim>\<open>map[string]interface{}\<close>.
\<close>

record yamlLib =
  yl_decodeDocs :: "string \<Rightarrow> gval list res"
  yl_marshal :: "gval \<Rightarrow> string res"
  yl_unmarshalMap :: "string \<Rightarrow> gmap res"

section \<open>Operations\<close>

definition splitYamls :: "yamlLib \<Rightarrow> string \<Rightarrow> string list res" where
  "splitYamls Y yamls =
     bind_res (yl_decodeDocs Y yamls) (\<lambda>docs.
       mapM_res (yl_marshal Y) (filter (\<lambda>d. d \<noteq> GNil) docs))"

definition setMetaField :: "string \<Rightarrow> string \<Rightarrow> gmap \<Rightarrow> gmap res" where
  "setMetaField key val rm =
     (if val \<noteq> [] then
        bind_res (asMap (idx rm ''metadata'')) (\<lambda>md.
          Inr (mput rm ''metadata'' (GMap (mput md key (GStr val)))))
      else Inr rm)"

definition mergeMetaMap :: "string \<Rightarrow> (string, string) gomap \<Rightarrow> gmap \<Rightarrow> gmap res" where
  "mergeMetaMap key vals rm =
     (if vals \<noteq> [] then
        bind_res (asMap (idx rm ''metadata'')) (\<lambda>md.
          let md1 = (if idx md key = GNil then mput md key (GMap []) else md) in
          bind_res (asMap (idx md1 key)) (\<lambda>m.
            bind_res (setValues m (map (\<lambda>(k, v). (k, GStr v)) vals)) (\<lambda>r.
              Inr (mput rm ''metadata'' (GMap (mput md1 key (GMap r)))))))
      else Inr rm)"

definition overlaySection :: "gmap \<Rightarrow> string \<times> gmap option \<Rightarrow> gmap res" where
  "overlaySection rm ks =
     (let (key, user) = ks;
          rm1 = (if idx rm key = GNil \<and> user \<noteq> None then mput rm key (GMap []) else rm) in
      if idx rm1 key \<noteq> GNil then
        bind_res (asMap (idx rm1 key)) (\<lambda>m.
          bind_res (setValues m (case user of None \<Rightarrow> [] | Some u \<Rightarrow> u)) (\<lambda>r.
            Inr (mput rm1 key (GMap r))))
      else Inr rm1)"

definition sections :: "SourceFile \<Rightarrow> (string \<times> gmap option) list" where
  "sections sf =
     [(''spec'', sf_Spec sf), (''data'', sf_Data sf), (''status'', sf_Status sf),
      (''binaryData'', sf_BinaryData sf), (''stringData'', sf_StringData sf)]"

definition getCustomResource :: "yamlLib \<Rightarrow> SourceFile \<Rightarrow> string \<Rightarrow> string \<Rightarrow> gmap res" where
  "getCustomResource Y sourceFile sourceCR mcp =
     (let resourceStr = (if mcp \<noteq> [] then ReplaceAll sourceCR ''$mcp'' mcp else sourceCR);
          meta = sf_Metadata sourceFile in
      bind_res (yl_unmarshalMap Y resourceStr) (\<lambda>rm0.
      bind_res (ensure (mget rm0 ''metadata'' \<noteq> None)
        (Error ''All source files must have the \"metadata\" field set'')) (\<lambda>_.
      bind_res (setMetaField ''name'' (md_Name meta) rm0) (\<lambda>rm1.
      bind_res (setMetaField ''namespace'' (md_Namespace meta) rm1) (\<lambda>rm2.
      bind_res (mergeMetaMap ''labels'' (md_Labels meta) rm2) (\<lambda>rm3.
      bind_res (mergeMetaMap ''annotations''
        (case md_Annotations meta of None \<Rightarrow> [] | Some a \<Rightarrow> a) rm3) (\<lambda>rm4.
      fold_res overlaySection rm4 (sections sourceFile))))))))"

definition mapLen :: "gmap option \<Rightarrow> nat" where
  "mapLen m = (case m of None \<Rightarrow> 0 | Some u \<Rightarrow> length u)"

definition multiDocMessage :: "string \<Rightarrow> string" where
  "multiDocMessage fileName =
     ''Updating spec/data/status of multiple yamls structure in same file '' @ fileName @
     '' is not allowed. Instead separate them in multiple files''"

definition getCustomResources :: "yamlLib \<Rightarrow> SourceFile \<Rightarrow> string \<Rightarrow> string \<Rightarrow> gmap list res" where
  "getCustomResources Y sFile sourceCRFile mcp =
     bind_res (splitYamls Y sourceCRFile) (\<lambda>yamls.
       if length yamls > 1 \<and>
          (mapLen (sf_Data sFile) > 0 \<or> mapLen (sf_Spec sFile) > 0 \<or> mapLen (sf_Status sFile) > 0)
       then Inl (Error (multiDocMessage (sf_FileName sFile)))
       else if length yamls > 1 \<and> mapLen (sf_Data sFile) = 0 \<and> mapLen (sf_Spec sFile) = 0
       then mapM_res (\<lambda>y. getCustomResource Y sFile y mcp) yamls
       else if length yamls = 1
       then bind_res (getCustomResource Y sFile (yamls ! 0) mcp) (\<lambda>r. Inr [r])
       else Inr [])"

section \<open>Lemmas\<close>

lemma setMetaField_other: "setMetaField key val rm = Inr rm' \<Longrightarrow> k \<noteq> ''metadata'' \<Longrightarrow> mget rm' k = mget rm k"
  by (auto simp: setMetaField_def res_simps split: if_splits)

lemma mergeMetaMap_other: "mergeMetaMap key vals rm = Inr rm' \<Longrightarrow> k \<noteq> ''metadata'' \<Longrightarrow> mget rm' k = mget rm k"
  by (auto simp: mergeMetaMap_def res_simps Let_def split: if_splits)

lemma overlaySection_other:
  "overlaySection rm (key, u) = Inr rm' \<Longrightarrow> k \<noteq> key \<Longrightarrow> mget rm' k = mget rm k"
  by (auto simp: overlaySection_def res_simps Let_def split: if_splits)

text \<open>The value of a section after the overlay. A missing or nil section is created when the user
  gives one, and otherwise stays as it is.\<close>

lemma overlaySection_key:
  assumes "overlaySection rm (key, user) = Inr rm'"
  shows "if idx rm key = GNil \<and> user = None then rm' = rm
    else \<exists>m r. (idx rm key = GMap m \<or> idx rm key = GNil \<and> m = []) \<and>
      setValues m (case user of None \<Rightarrow> [] | Some u \<Rightarrow> u) = Inr r \<and> mget rm' key = Some (GMap r)"
  using assms
  by (cases "idx rm key = GNil"; cases user) (auto simp: overlaySection_def res_simps Let_def split: if_splits)

lemma fold_overlay_other:
  "fold_res overlaySection rm ss = Inr rm' \<Longrightarrow> k \<notin> fst ` set ss \<Longrightarrow> mget rm' k = mget rm k"
proof (induction ss arbitrary: rm)
  case Nil
  then show ?case by simp
next
  case (Cons s ss)
  then obtain t where "overlaySection rm s = Inr t" "fold_res overlaySection t ss = Inr rm'"
    by (auto simp: res_simps)
  moreover from this Cons have "mget rm' k = mget t k" by auto
  ultimately show ?case using overlaySection_other [of rm "fst s" "snd s" t k] Cons.prems by auto
qed

lemma fold_overlay_key:
  assumes "fold_res overlaySection rm ss = Inr rm'" and "(key, user) \<in> set ss" and "mwf ss"
  shows "if idx rm key = GNil \<and> user = None then idx rm' key = GNil
    else \<exists>m r. (idx rm key = GMap m \<or> idx rm key = GNil \<and> m = []) \<and>
      setValues m (case user of None \<Rightarrow> [] | Some u \<Rightarrow> u) = Inr r \<and> mget rm' key = Some (GMap r)"
  using assms
proof (induction ss arbitrary: rm)
  case Nil
  then show ?case by simp
next
  case (Cons s ss)
  obtain j w where s: "s = (j, w)" by (cases s)
  with Cons.prems obtain t where t: "overlaySection rm (j, w) = Inr t" "fold_res overlaySection t ss = Inr rm'"
    by (auto simp: res_simps)
  from Cons.prems(3) s have wf: "mget ss j = None" "mwf ss" by (auto simp: mwf_Cons)
  show ?case
  proof (cases "key = j")
    case True
    with wf have "key \<notin> fst ` set ss" by (simp add: map_of_eq_None_iff)
    then have "mget rm' key = mget t key" by (rule fold_overlay_other [OF t(2)])
    moreover have "w = user" using True s Cons.prems(2) wf mget_in_set [OF wf(2)] by auto
    ultimately show ?thesis using overlaySection_key [OF t(1)] True by (auto simp: mget0_def split: if_splits)
  next
    case False
    with s Cons.prems(2) have "(key, user) \<in> set ss" by auto
    note ih = Cons.IH [OF t(2) this wf(2)]
    have "idx t key = idx rm key" using overlaySection_other [OF t(1) False] by (simp add: mget0_def)
    with ih show ?thesis by (simp only: )
  qed
qed

lemma mwf_sections [simp]: "mwf (sections sf)"
  by (simp add: sections_def mwf_def)

text \<open>What the metadata steps do to the \<^verbatim>\<open>metadata\<close> map.\<close>

abbreviation metaOf :: "gmap \<Rightarrow> gmap" where
  "metaOf rm \<equiv> toMap (idx rm ''metadata'')"

lemma setMetaField_meta:
  assumes "setMetaField key val rm = Inr rm'"
  shows "mget (metaOf rm') k = (if k = key \<and> val \<noteq> [] then Some (GStr val) else mget (metaOf rm) k)"
  using assms by (auto simp: setMetaField_def res_simps split: if_splits)

lemma mergeMetaMap_meta_other:
  assumes "mergeMetaMap key vals rm = Inr rm'" and "k \<noteq> key"
  shows "mget (metaOf rm') k = mget (metaOf rm) k"
  using assms by (auto simp: mergeMetaMap_def res_simps Let_def split: if_splits)

text \<open>The value of a labels or annotations map before and after the user's entries are merged.\<close>

definition mergedWith :: "(string, string) gomap \<Rightarrow> gval \<Rightarrow> gval \<Rightarrow> bool" where
  "mergedWith vals v v' \<longleftrightarrow>
     (if vals = [] then v' = v
      else \<exists>m r. (v = GMap m \<or> v = GNil \<and> m = []) \<and>
        setValues m (map (\<lambda>(k, x). (k, GStr x)) vals) = Inr r \<and> v' = GMap r)"

lemma mergeMetaMap_meta_key:
  assumes "mergeMetaMap key vals rm = Inr rm'"
  shows "mergedWith vals (idx (metaOf rm) key) (idx (metaOf rm') key)"
  using assms
  by (cases "idx (metaOf rm) key = GNil") (auto simp: mergeMetaMap_def mergedWith_def res_simps Let_def split: if_splits)

definition userAnnotations :: "SourceFile \<Rightarrow> (string, string) gomap" where
  "userAnnotations sf = (case md_Annotations (sf_Metadata sf) of None \<Rightarrow> [] | Some a \<Rightarrow> a)"

lemma idx_cong: "mget m k = mget m' k \<Longrightarrow> idx m k = idx m' k"
  by (simp add: mget0_def)

lemma metadata_not_section: "''metadata'' \<notin> fst ` set (sections sf)"
  by (simp add: sections_def)

text \<open>The stages of \<^verbatim>\<open>getCustomResource\<close>: the document decoded, the metadata overlaid, the sections
  overlaid.\<close>

lemma getCustomResource_unfold:
  assumes "getCustomResource Y sf cr mcp = Inr r"
  obtains rm0 rm1 rm2 rm3 rm4 where
    "yl_unmarshalMap Y (if mcp \<noteq> [] then ReplaceAll cr ''$mcp'' mcp else cr) = Inr rm0"
    and "mget rm0 ''metadata'' \<noteq> None"
    and "setMetaField ''name'' (md_Name (sf_Metadata sf)) rm0 = Inr rm1"
    and "setMetaField ''namespace'' (md_Namespace (sf_Metadata sf)) rm1 = Inr rm2"
    and "mergeMetaMap ''labels'' (md_Labels (sf_Metadata sf)) rm2 = Inr rm3"
    and "mergeMetaMap ''annotations'' (userAnnotations sf) rm3 = Inr rm4"
    and "fold_res overlaySection rm4 (sections sf) = Inr r"
  using assms
  unfolding getCustomResource_def Let_def bind_res_Inr_iff ensure_Inr_iff userAnnotations_def by blast

lemma getCustomResource_stages:
  assumes "getCustomResource Y sf cr mcp = Inr r"
    and "yl_unmarshalMap Y (if mcp \<noteq> [] then ReplaceAll cr ''$mcp'' mcp else cr) = Inr rm0"
  obtains rm4 where
    "\<forall>k. k \<noteq> ''metadata'' \<longrightarrow> mget rm4 k = mget rm0 k"
    and "fold_res overlaySection rm4 (sections sf) = Inr r"
proof -
  from assms(1) obtain rm rm1 rm2 rm3 rm4 where st:
    "yl_unmarshalMap Y (if mcp \<noteq> [] then ReplaceAll cr ''$mcp'' mcp else cr) = Inr rm"
    "mget rm ''metadata'' \<noteq> None"
    "setMetaField ''name'' (md_Name (sf_Metadata sf)) rm = Inr rm1"
    "setMetaField ''namespace'' (md_Namespace (sf_Metadata sf)) rm1 = Inr rm2"
    "mergeMetaMap ''labels'' (md_Labels (sf_Metadata sf)) rm2 = Inr rm3"
    "mergeMetaMap ''annotations'' (userAnnotations sf) rm3 = Inr rm4"
    "fold_res overlaySection rm4 (sections sf) = Inr r"
    by (rule getCustomResource_unfold)
  from st(1) assms(2) have rm: "rm = rm0" by (simp only: sum.inject)
  have "mget rm4 k = mget rm k" if "k \<noteq> ''metadata''" for k
    using setMetaField_other [OF st(3) that] setMetaField_other [OF st(4) that]
      mergeMetaMap_other [OF st(5) that] mergeMetaMap_other [OF st(6) that] by (simp only:)
  then show ?thesis using that [of rm4] st(7) unfolding rm by blast
qed

lemma getCustomResource_meta:
  assumes "getCustomResource Y sf cr mcp = Inr r"
    and "yl_unmarshalMap Y (if mcp \<noteq> [] then ReplaceAll cr ''$mcp'' mcp else cr) = Inr rm0"
  shows "k \<notin> {''name'', ''namespace'', ''labels'', ''annotations''} \<Longrightarrow>
      mget (metaOf r) k = mget (metaOf rm0) k"
    and "mget (metaOf r) ''name'' =
      (if md_Name (sf_Metadata sf) \<noteq> [] then Some (GStr (md_Name (sf_Metadata sf)))
       else mget (metaOf rm0) ''name'')"
    and "mget (metaOf r) ''namespace'' =
      (if md_Namespace (sf_Metadata sf) \<noteq> [] then Some (GStr (md_Namespace (sf_Metadata sf)))
       else mget (metaOf rm0) ''namespace'')"
    and "mergedWith (md_Labels (sf_Metadata sf)) (idx (metaOf rm0) ''labels'') (idx (metaOf r) ''labels'')"
    and "mergedWith (userAnnotations sf) (idx (metaOf rm0) ''annotations'') (idx (metaOf r) ''annotations'')"
proof -
  from assms(1) obtain rm rm1 rm2 rm3 rm4 where st:
    "yl_unmarshalMap Y (if mcp \<noteq> [] then ReplaceAll cr ''$mcp'' mcp else cr) = Inr rm"
    "mget rm ''metadata'' \<noteq> None"
    "setMetaField ''name'' (md_Name (sf_Metadata sf)) rm = Inr rm1"
    "setMetaField ''namespace'' (md_Namespace (sf_Metadata sf)) rm1 = Inr rm2"
    "mergeMetaMap ''labels'' (md_Labels (sf_Metadata sf)) rm2 = Inr rm3"
    "mergeMetaMap ''annotations'' (userAnnotations sf) rm3 = Inr rm4"
    "fold_res overlaySection rm4 (sections sf) = Inr r"
    by (rule getCustomResource_unfold)
  from st(1) assms(2) have rm: "rm = rm0" by (simp only: sum.inject)
  have last: "mget (metaOf r) k = mget (metaOf rm4) k" for k
    using idx_cong [OF fold_overlay_other [OF st(7) metadata_not_section]] by (simp only:)
  note name = setMetaField_meta [OF st(3)] and namespace = setMetaField_meta [OF st(4)]
    and labels = mergeMetaMap_meta_other [OF st(5)] and annotations = mergeMetaMap_meta_other [OF st(6)]
  show "mget (metaOf r) k = mget (metaOf rm0) k" if "k \<notin> {''name'', ''namespace'', ''labels'', ''annotations''}"
    using that last name namespace labels annotations rm by simp
  show "mget (metaOf r) ''name'' =
      (if md_Name (sf_Metadata sf) \<noteq> [] then Some (GStr (md_Name (sf_Metadata sf)))
       else mget (metaOf rm0) ''name'')"
    using last name namespace labels annotations rm by simp
  show "mget (metaOf r) ''namespace'' =
      (if md_Namespace (sf_Metadata sf) \<noteq> [] then Some (GStr (md_Namespace (sf_Metadata sf)))
       else mget (metaOf rm0) ''namespace'')"
    using last name namespace labels annotations rm by simp
  have "idx (metaOf rm2) ''labels'' = idx (metaOf rm0) ''labels''"
    by (rule idx_cong) (simp add: name namespace rm)
  moreover have "idx (metaOf r) ''labels'' = idx (metaOf rm3) ''labels''"
    by (rule idx_cong) (simp add: last annotations)
  ultimately show "mergedWith (md_Labels (sf_Metadata sf)) (idx (metaOf rm0) ''labels'') (idx (metaOf r) ''labels'')"
    using mergeMetaMap_meta_key [OF st(5)] by (simp only:)
  have "idx (metaOf rm3) ''annotations'' = idx (metaOf rm0) ''annotations''"
    by (rule idx_cong) (simp add: name namespace labels rm)
  moreover have "idx (metaOf r) ''annotations'' = idx (metaOf rm4) ''annotations''"
    by (rule idx_cong) (simp add: last)
  ultimately show "mergedWith (userAnnotations sf) (idx (metaOf rm0) ''annotations'') (idx (metaOf r) ''annotations'')"
    using mergeMetaMap_meta_key [OF st(6)] by (simp only:)
qed

section \<open>Properties\<close>

text \<open>A library that reads one given document, for concrete runs.\<close>

definition oneDoc :: "gmap \<Rightarrow> yamlLib" where
  "oneDoc cr = \<lparr>yl_decodeDocs = \<lambda>s. Inr [GNil, GMap cr], yl_marshal = \<lambda>v. Inr ''doc'', yl_unmarshalMap = \<lambda>s. Inr cr\<rparr>"

definition demoCR :: gmap where
  "demoCR =
     [(''kind'', GStr ''Sriov''), (''metadata'', GMap [(''name'', GStr ''a'')]),
      (''spec'', GMap [(''replicas'', GInt 1), (''x'', GStr ''$x'')])]"

definition demoFile :: SourceFile where
  "demoFile = sourceFileDefaults\<lparr>sf_FileName := ''f'',
     sf_Metadata := zeroMetaData\<lparr>md_Name := ''b'', md_Labels := [(''l'', ''1'')]\<rparr>,
     sf_Spec := Some [(''replicas'', GInt 3)]\<rparr>"

lemmas demo_simps = demoCR_def demoFile_def oneDoc_def getCustomResource_def setMetaField_def
  mergeMetaMap_def overlaySection_def sections_def setValues_def sourceFileDefaults_def
  zeroMetaData_def mget0_def Let_def

text \<open>C14. The five overlay sections and the frame: each of \<^verbatim>\<open>spec\<close>, \<^verbatim>\<open>data\<close>, \<^verbatim>\<open>status\<close>, \<^verbatim>\<open>binaryData\<close>
  and \<^verbatim>\<open>stringData\<close> of the generated CR is the source CR's section (empty when the source has none)
  overlaid with the user's, a section that neither side has stays absent, and every other key but
  \<^verbatim>\<open>metadata\<close> is as in the source CR.\<close>

theorem getCustomResource_sections:
  assumes "getCustomResource Y sf cr mcp = Inr r"
    and "yl_unmarshalMap Y (if mcp \<noteq> [] then ReplaceAll cr ''$mcp'' mcp else cr) = Inr rm0"
  shows "(\<forall>key user. (key, user) \<in> set (sections sf) \<longrightarrow>
      (if idx rm0 key = GNil \<and> user = None then idx r key = GNil
       else \<exists>m x. (idx rm0 key = GMap m \<or> idx rm0 key = GNil \<and> m = []) \<and>
         setValues m (case user of None \<Rightarrow> [] | Some u \<Rightarrow> u) = Inr x \<and> mget r key = Some (GMap x))) \<and>
    (\<forall>k. k \<noteq> ''metadata'' \<and> k \<notin> fst ` set (sections sf) \<longrightarrow> mget r k = mget rm0 k)"
proof (intro conjI allI impI)
  from assms obtain rm4 where st: "\<forall>k. k \<noteq> ''metadata'' \<longrightarrow> mget rm4 k = mget rm0 k"
    "fold_res overlaySection rm4 (sections sf) = Inr r"
    by (rule getCustomResource_stages)
  fix key user
  assume key: "(key, user) \<in> set (sections sf)"
  with metadata_not_section [of sf] have "key \<noteq> ''metadata''" by force
  then have "idx rm4 key = idx rm0 key" by (intro idx_cong st(1) [rule_format])
  then show "if idx rm0 key = GNil \<and> user = None then idx r key = GNil
       else \<exists>m x. (idx rm0 key = GMap m \<or> idx rm0 key = GNil \<and> m = []) \<and>
         setValues m (case user of None \<Rightarrow> [] | Some u \<Rightarrow> u) = Inr x \<and> mget r key = Some (GMap x)"
    using fold_overlay_key [OF st(2) key mwf_sections] by (simp only:)
next
  from assms obtain rm4 where st: "\<forall>k. k \<noteq> ''metadata'' \<longrightarrow> mget rm4 k = mget rm0 k"
    "fold_res overlaySection rm4 (sections sf) = Inr r"
    by (rule getCustomResource_stages)
  fix k
  assume "k \<noteq> ''metadata'' \<and> k \<notin> fst ` set (sections sf)"
  then show "mget r k = mget rm0 k" using fold_overlay_other [OF st(2)] st(1) by simp
qed

theorem getCustomResource_sections_witness:
  "\<exists>r. getCustomResource (oneDoc demoCR) demoFile ''doc'' [] = Inr r \<and>
     mget r ''spec'' = Some (GMap [(''replicas'', GInt 3)]) \<and> mget r ''kind'' = Some (GStr ''Sriov'')"
proof -
  have r: "getCustomResource (oneDoc demoCR) demoFile ''doc'' [] = Inr
      [(''kind'', GStr ''Sriov''),
       (''metadata'', GMap [(''name'', GStr ''b''), (''labels'', GMap [(''l'', GStr ''1'')])]),
       (''spec'', GMap [(''replicas'', GInt 3)])]"
    by (simp add: demo_simps)
  have u: "yl_unmarshalMap (oneDoc demoCR) (if [] \<noteq> [] then ReplaceAll ''doc'' ''$mcp'' [] else ''doc'') =
      Inr demoCR"
    by (simp add: oneDoc_def)
  note c9 = getCustomResource_sections [OF r u]
  have "setValues [(''replicas'', GInt 1), (''x'', GStr ''$x'')] [(''replicas'', GInt 3)] =
      Inr [(''replicas'', GInt 3)]"
    by (simp add: setValues_def mget0_def)
  with c9 [THEN conjunct1, rule_format, of "''spec''" "Some [(''replicas'', GInt 3)]"]
    c9 [THEN conjunct2, rule_format, of "''kind''"] r
  show ?thesis by (simp add: sections_def demoFile_def sourceFileDefaults_def)
qed

text \<open>The metadata of the generated CR: a name or namespace that the user gives replaces the
  source's, labels and annotations are merged by the overlay, and every other metadata field is
  the source's.\<close>

theorem getCustomResource_metadata:
  assumes "getCustomResource Y sf cr mcp = Inr r"
    and "yl_unmarshalMap Y (if mcp \<noteq> [] then ReplaceAll cr ''$mcp'' mcp else cr) = Inr rm0"
  shows "mget (metaOf r) ''name'' =
      (if md_Name (sf_Metadata sf) \<noteq> [] then Some (GStr (md_Name (sf_Metadata sf)))
       else mget (metaOf rm0) ''name'') \<and>
    mget (metaOf r) ''namespace'' =
      (if md_Namespace (sf_Metadata sf) \<noteq> [] then Some (GStr (md_Namespace (sf_Metadata sf)))
       else mget (metaOf rm0) ''namespace'') \<and>
    mergedWith (md_Labels (sf_Metadata sf)) (idx (metaOf rm0) ''labels'') (idx (metaOf r) ''labels'') \<and>
    mergedWith (userAnnotations sf) (idx (metaOf rm0) ''annotations'') (idx (metaOf r) ''annotations'') \<and>
    (\<forall>k. k \<notin> {''name'', ''namespace'', ''labels'', ''annotations''} \<longrightarrow>
      mget (metaOf r) k = mget (metaOf rm0) k)"
  by (intro conjI allI impI getCustomResource_meta [OF assms])

theorem getCustomResource_metadata_witness:
  "\<exists>r. getCustomResource (oneDoc demoCR) demoFile ''doc'' [] = Inr r \<and>
     mget (metaOf r) ''name'' = Some (GStr ''b'') \<and> idx (metaOf r) ''labels'' = GMap [(''l'', GStr ''1'')]"
proof -
  have r: "getCustomResource (oneDoc demoCR) demoFile ''doc'' [] = Inr
      [(''kind'', GStr ''Sriov''),
       (''metadata'', GMap [(''name'', GStr ''b''), (''labels'', GMap [(''l'', GStr ''1'')])]),
       (''spec'', GMap [(''replicas'', GInt 3)])]"
    by (simp add: demo_simps)
  have u: "yl_unmarshalMap (oneDoc demoCR) (if [] \<noteq> [] then ReplaceAll ''doc'' ''$mcp'' [] else ''doc'') =
      Inr demoCR"
    by (simp add: oneDoc_def)
  from getCustomResource_metadata [OF r u] r show ?thesis by (simp add: demoFile_def mget0_def)
qed

text \<open>One CR per document: a source file whose documents (empty ones dropped) are marshalled as
  \<open>ys\<close> gives exactly one CR for each, in order, built by \<^verbatim>\<open>getCustomResource\<close>; a file of several
  documents with a \<^verbatim>\<open>data\<close>, \<^verbatim>\<open>spec\<close> or \<^verbatim>\<open>status\<close> overlay is refused, and only then or when a document
  is refused does the call fail.\<close>

theorem getCustomResources_per_document:
  assumes "splitYamls Y file = Inr ys"
  shows "(if length ys > 1 \<and> (mapLen (sf_Data sf) > 0 \<or> mapLen (sf_Spec sf) > 0 \<or> mapLen (sf_Status sf) > 0)
     then getCustomResources Y sf file mcp = Inl (Error (multiDocMessage (sf_FileName sf)))
     else (is_ok (getCustomResources Y sf file mcp) \<longleftrightarrow> list_all (\<lambda>y. is_ok (getCustomResource Y sf y mcp)) ys) \<and>
       (\<forall>rs. getCustomResources Y sf file mcp = Inr rs \<longrightarrow>
          list_all2 (\<lambda>y r. getCustomResource Y sf y mcp = Inr r) ys rs))"
proof (cases "length ys > 1 \<and> (mapLen (sf_Data sf) > 0 \<or> mapLen (sf_Spec sf) > 0 \<or> mapLen (sf_Status sf) > 0)")
  case True
  then show ?thesis using assms by (simp add: getCustomResources_def)
next
  case False
  have "getCustomResources Y sf file mcp = mapM_res (\<lambda>y. getCustomResource Y sf y mcp) ys"
  proof (cases ys rule: remdups_adj.cases)
    case 1
    then show ?thesis using assms by (simp add: getCustomResources_def)
  next
    case (2 y)
    then show ?thesis using assms by (simp add: getCustomResources_def)
  next
    case (3 y z zs)
    then show ?thesis using assms False by (simp add: getCustomResources_def del: mapM_res.simps)
  qed
  with False show ?thesis by (auto simp: mapM_res_Inr_iff mapM_res_is_ok list_all_iff)
qed

theorem getCustomResources_per_document_witness:
  "splitYamls (oneDoc demoCR) ''f'' = Inr [''doc''] \<and>
   is_ok (getCustomResources (oneDoc demoCR) demoFile ''f'' [])"
proof -
  have s: "splitYamls (oneDoc demoCR) ''f'' = Inr [''doc'']" by (simp add: splitYamls_def oneDoc_def)
  have "is_ok (getCustomResource (oneDoc demoCR) demoFile ''doc'' [])" by (simp add: demo_simps)
  with getCustomResources_per_document [OF s, of demoFile "[]"] s show ?thesis by simp
qed

end
