(* ===== verification/GoNumbers.thy ===== *)
theory GoNumbers
  imports GoStrings
begin

text \<open>
  Number parsing and printing of the Go standard library as the program uses it:
  \<^verbatim>\<open>strconv.Atoi\<close>, \<^verbatim>\<open>fmt.Sprintf("%d")\<close> and \<^verbatim>\<open>time.ParseDuration\<close>. The 64-bit bounds are written out.
\<close>

section \<open>Decimal digits\<close>

definition isDigit :: "char \<Rightarrow> bool" where
  "isDigit c \<longleftrightarrow> 48 \<le> (of_char c :: nat) \<and> (of_char c :: nat) \<le> 57"

definition digitVal :: "char \<Rightarrow> nat" where
  "digitVal c = of_char c - 48"

definition digitChar :: "nat \<Rightarrow> char" where
  "digitChar n = char_of (48 + n)"

fun natStr :: "nat \<Rightarrow> string" where
  "natStr n = (if n < 10 then [digitChar n] else natStr (n div 10) @ [digitChar (n mod 10)])"

declare natStr.simps [simp del]

definition natVal :: "string \<Rightarrow> nat" where
  "natVal s = foldl (\<lambda>n c. 10 * n + digitVal c) 0 s"

lemma digitChar_digit: "n < 10 \<Longrightarrow> isDigit (digitChar n) \<and> digitVal (digitChar n) = n"
  by (simp add: isDigit_def digitVal_def digitChar_def of_char_of)

lemma natVal_append: "natVal (s @ [c]) = 10 * natVal s + digitVal c"
  by (simp add: natVal_def)

lemma natStr_digits: "list_all isDigit (natStr n)"
proof (induction n rule: natStr.induct)
  case (1 n)
  then show ?case
    by (cases "n < 10") (simp_all add: natStr.simps [of n] digitChar_digit)
qed

lemma natStr_not_Nil [simp]: "natStr n \<noteq> []"
  by (simp add: natStr.simps)

theorem natVal_natStr: "natVal (natStr n) = n"
proof (induction n rule: natStr.induct)
  case (1 n)
  show ?case
  proof (cases "n < 10")
    case True
    then show ?thesis by (simp add: natStr.simps [of n] natVal_def digitChar_digit)
  next
    case False
    with 1 show ?thesis by (simp add: natStr.simps [of n] natVal_append digitChar_digit)
  qed
qed

lemma natStr_inj: "natStr m = natStr n \<Longrightarrow> m = n"
  by (metis natVal_natStr)

section \<open>strconv.Atoi\<close>

definition splitSign :: "string \<Rightarrow> bool \<times> string" where
  "splitSign s = (case s of
      [] \<Rightarrow> (False, s)
    | c # t \<Rightarrow> if c = CHR ''-'' then (True, t) else if c = CHR ''+'' then (False, t) else (False, s))"

definition Atoi :: "string \<Rightarrow> int option" where
  "Atoi s = (let (neg, ds) = splitSign s; n = natVal ds in
     if ds = [] \<or> \<not> list_all isDigit ds then None
     else if neg then (if n > 2 ^ 63 then None else Some (- int n))
     else if n \<ge> 2 ^ 63 then None else Some (int n))"

theorem Atoi_bounds: "Atoi s = Some i \<Longrightarrow> - (2 ^ 63) \<le> i \<and> i < 2 ^ 63"
  by (auto simp: Atoi_def Let_def split: prod.splits if_splits)

lemma hd_natStr_digit: "natStr n = c # t \<Longrightarrow> isDigit c"
  using natStr_digits [of n] by simp

theorem Atoi_natStr: "n < 2 ^ 63 \<Longrightarrow> Atoi (natStr n) = Some (int n)"
proof -
  assume n: "n < 2 ^ 63"
  obtain c t where ct: "natStr n = c # t" by (cases "natStr n") auto
  then have "isDigit c" by (rule hd_natStr_digit)
  then have "splitSign (natStr n) = (False, natStr n)"
    by (auto simp: splitSign_def ct isDigit_def)
  with n natStr_digits [of n] show ?thesis
    by (simp add: Atoi_def natVal_natStr)
qed

definition Itoa :: "int \<Rightarrow> string" where
  "Itoa i = (if i < 0 then ''-'' @ natStr (nat (- i)) else natStr (nat i))"

text \<open>The error of \<^verbatim>\<open>Atoi\<close>; the text is put in quotes as it is.\<close>

definition atoiError :: "string \<Rightarrow> go_error" where
  "atoiError s = Error (''strconv.Atoi: parsing '' @ [CHR 0x22] @ s @ [CHR 0x22] @ '': '' @
     (let (_, ds) = splitSign s in if ds = [] \<or> \<not> list_all isDigit ds then ''invalid syntax'' else ''value out of range''))"

definition parseInt :: "string \<Rightarrow> int res" where
  "parseInt s = (case Atoi s of None \<Rightarrow> Inl (atoiError s) | Some i \<Rightarrow> Inr i)"

lemma parseInt_natStr: "n < 2 ^ 63 \<Longrightarrow> parseInt (natStr n) = Inr (int n)"
  by (simp add: parseInt_def Atoi_natStr)

section \<open>time.ParseDuration\<close>

text \<open>
  The loop of \<^verbatim>\<open>time.ParseDuration\<close>, in nanoseconds. All sums are checked against \<open>2 ^ 63\<close> as in
  Go. The fractional part is computed exactly here, where Go multiplies two float64 values and
  truncates; the result of the whole function can differ by the rounding of that product only.
\<close>

definition maxU63 :: nat where "maxU63 = 2 ^ 63"

fun leadingInt :: "nat \<Rightarrow> string \<Rightarrow> (nat \<times> string) option" where
  "leadingInt x [] = Some (x, [])"
| "leadingInt x (c # s) =
     (if \<not> isDigit c then Some (x, c # s)
      else if x > maxU63 div 10 then None
      else let x' = x * 10 + digitVal c in if x' > maxU63 then None else leadingInt x' s)"

text \<open>State of \<^verbatim>\<open>leadingFraction\<close>: value, scale, and whether a digit has already overflowed.\<close>

fun leadingFraction :: "nat \<Rightarrow> nat \<Rightarrow> bool \<Rightarrow> string \<Rightarrow> nat \<times> nat \<times> string" where
  "leadingFraction x sc ov [] = (x, sc, [])"
| "leadingFraction x sc ov (c # s) =
     (if \<not> isDigit c then (x, sc, c # s)
      else if ov then leadingFraction x sc ov s
      else if x > (maxU63 - 1) div 10 then leadingFraction x sc True s
      else let y = x * 10 + digitVal c in
        if y > maxU63 then leadingFraction x sc True s
        else leadingFraction y (sc * 10) ov s)"

definition unitMap :: "string \<Rightarrow> nat option" where
  "unitMap u =
     (if u = ''ns'' then Some 1
      else if u = ''us'' \<or> u = [CHR 0xC2, CHR 0xB5, CHR ''s''] \<or> u = [CHR 0xCE, CHR 0xBC, CHR ''s'']
        then Some 1000
      else if u = ''ms'' then Some 1000000
      else if u = ''s'' then Some 1000000000
      else if u = ''m'' then Some 60000000000
      else if u = ''h'' then Some 3600000000000
      else None)"

definition isUnitChar :: "char \<Rightarrow> bool" where
  "isUnitChar c \<longleftrightarrow> c \<noteq> CHR ''.'' \<and> \<not> isDigit c"

text \<open>One round of the loop: a number, a fraction and a unit; \<open>None\<close> is an invalid duration.\<close>

definition durationTerm :: "string \<Rightarrow> (nat \<times> string) option" where
  "durationTerm s = (case s of
     [] \<Rightarrow> None
   | c # _ \<Rightarrow>
     if \<not> (c = CHR ''.'' \<or> isDigit c) then None
     else case leadingInt 0 s of
       None \<Rightarrow> None
     | Some (v, s1) \<Rightarrow>
       let pre = length s1 \<noteq> length s;
           hasFrac = (s1 \<noteq> [] \<and> hd s1 = CHR ''.'');
           (f, sc, s2) = (if hasFrac then leadingFraction 0 1 False (tl s1) else (0, 1, s1));
           post = (hasFrac \<and> length s2 \<noteq> length (tl s1));
           u = takeWhile isUnitChar s2;
           s3 = dropWhile isUnitChar s2
       in if \<not> pre \<and> \<not> post then None
          else if u = [] then None
          else case unitMap u of
            None \<Rightarrow> None
          | Some unit \<Rightarrow>
            if v > maxU63 div unit then None
            else let w = v * unit + (if f > 0 then f * unit div sc else 0) in
              if w > maxU63 then None else Some (w, s3))"

lemma leadingInt_shrinks: "leadingInt x s = Some (v, t) \<Longrightarrow> length t \<le> length s"
  by (induction x s arbitrary: v t rule: leadingInt.induct)
    (auto simp: Let_def split: if_splits, fastforce)

lemma leadingFraction_shrinks: "leadingFraction x sc ov s = (f, c, t) \<Longrightarrow> length t \<le> length s"
  by (induction x sc ov s arbitrary: f c t rule: leadingFraction.induct)
    (auto simp: Let_def le_Suc_eq split: if_splits)

lemma dropWhile_shorter: "takeWhile P s \<noteq> [] \<Longrightarrow> length (dropWhile P s) < length s"
  by (cases s) (auto simp: length_dropWhile_le le_imp_less_Suc split: if_splits)

lemma durationTerm_shrinks: "durationTerm s = Some (w, t) \<Longrightarrow> length t < length s"
proof -
  assume a: "durationTerm s = Some (w, t)"
  then obtain v s1 s2 where 1: "leadingInt 0 s = Some (v, s1)"
    and 2: "s2 = s1 \<or> (\<exists>f c. leadingFraction 0 1 False (tl s1) = (f, c, s2))"
    and 3: "takeWhile isUnitChar s2 \<noteq> []" "t = dropWhile isUnitChar s2"
    by (auto simp: durationTerm_def Let_def split: list.splits if_splits option.splits prod.splits)
  have "length s2 \<le> length s1"
    using 2 by (auto dest!: leadingFraction_shrinks)
  with leadingInt_shrinks [OF 1] dropWhile_shorter [OF 3(1)] 3(2) show ?thesis by simp
qed

function durationLoop :: "nat \<Rightarrow> string \<Rightarrow> nat option" where
  "durationLoop d s =
     (if s = [] then Some d
      else case durationTerm s of
        None \<Rightarrow> None
      | Some (w, t) \<Rightarrow> if d + w > maxU63 then None else durationLoop (d + w) t)"
  by pat_completeness auto
termination
  by (relation "measure (\<lambda>(d, s). length s)") (auto dest: durationTerm_shrinks)

declare durationLoop.simps [simp del]

definition ParseDuration :: "string \<Rightarrow> int option" where
  "ParseDuration s = (let (neg, t) = splitSign s in
     if t = ''0'' then Some 0
     else if t = [] then None
     else case durationLoop 0 t of
       None \<Rightarrow> None
     | Some d \<Rightarrow>
       if neg then Some (- int d) else if d > maxU63 - 1 then None else Some (int d))"

lemma durationLoop_bound: "durationLoop d s = Some r \<Longrightarrow> d \<le> maxU63 \<Longrightarrow> r \<le> maxU63"
proof (induction d s rule: durationLoop.induct)
  case (1 d s)
  from "1.prems" show ?case
    by (auto simp: durationLoop.simps [of d s] split: if_splits option.splits intro: "1.IH")
qed

theorem ParseDuration_bounds: "ParseDuration s = Some i \<Longrightarrow> - (2 ^ 63) \<le> i \<and> i < 2 ^ 63"
proof -
  assume a: "ParseDuration s = Some i"
  have b: "d \<le> maxU63" if "durationLoop 0 t = Some d" for t d
    using durationLoop_bound [OF that] by simp
  from a show ?thesis
    by (auto simp: ParseDuration_def Let_def maxU63_def split: prod.splits if_splits option.splits
        dest!: b)
qed

end
