(* ===== verification/Selector.thy ===== *)
theory Selector
  imports GoNumbers
begin

text \<open>
  Kubernetes label selectors, from the vendored \<^verbatim>\<open>k8s.io/apimachinery/pkg/labels/selector.go\<close>: the
  meaning of the placement rules that the policy generator writes and of the selectors that the
  PGT converter writes. A set of labels is a Go map from label to value.
\<close>

datatype operator =
    DoesNotExist | Equals | DoubleEquals | In | NotEquals | NotIn | Exists | GreaterThan | LessThan

record Requirement =
  rq_key :: string
  rq_operator :: operator
  rq_strValues :: "string list"

type_synonym labels = "(string, string) gomap"

definition Has :: "labels \<Rightarrow> string \<Rightarrow> bool" where
  "Has ls k \<longleftrightarrow> mget ls k \<noteq> None"

definition Get :: "labels \<Rightarrow> string \<Rightarrow> string" where
  "Get ls k = mget0 [] ls k"

definition hasValue :: "Requirement \<Rightarrow> string \<Rightarrow> bool" where
  "hasValue r v \<longleftrightarrow> v \<in> set (rq_strValues r)"

definition numericMatch :: "Requirement \<Rightarrow> labels \<Rightarrow> bool" where
  "numericMatch r ls =
     (Has ls (rq_key r) \<and>
      (case Atoi (Get ls (rq_key r)) of
         None \<Rightarrow> False
       | Some lsValue \<Rightarrow>
         (case rq_strValues r of
            [s] \<Rightarrow>
              (case Atoi s of
                 None \<Rightarrow> False
               | Some rValue \<Rightarrow>
                 (rq_operator r = GreaterThan \<and> lsValue > rValue) \<or>
                 (rq_operator r = LessThan \<and> lsValue < rValue))
          | _ \<Rightarrow> False)))"

definition Requirement_Matches :: "Requirement \<Rightarrow> labels \<Rightarrow> bool" where
  "Requirement_Matches r ls =
     (case rq_operator r of
        In \<Rightarrow> Has ls (rq_key r) \<and> hasValue r (Get ls (rq_key r))
      | Equals \<Rightarrow> Has ls (rq_key r) \<and> hasValue r (Get ls (rq_key r))
      | DoubleEquals \<Rightarrow> Has ls (rq_key r) \<and> hasValue r (Get ls (rq_key r))
      | NotIn \<Rightarrow> Has ls (rq_key r) \<longrightarrow> \<not> hasValue r (Get ls (rq_key r))
      | NotEquals \<Rightarrow> Has ls (rq_key r) \<longrightarrow> \<not> hasValue r (Get ls (rq_key r))
      | Exists \<Rightarrow> Has ls (rq_key r)
      | DoesNotExist \<Rightarrow> \<not> Has ls (rq_key r)
      | GreaterThan \<Rightarrow> numericMatch r ls
      | LessThan \<Rightarrow> numericMatch r ls)"

text \<open>A selector is a list of requirements; \<^verbatim>\<open>Add\<close> keeps it sorted by key.\<close>

type_synonym selector = "Requirement list"

definition Selector_Add :: "selector \<Rightarrow> Requirement list \<Rightarrow> selector" where
  "Selector_Add s reqs = sort_key rq_key (s @ reqs)"

definition Selector_Matches :: "selector \<Rightarrow> labels \<Rightarrow> bool" where
  "Selector_Matches s ls = list_all (\<lambda>r. Requirement_Matches r ls) s"

lemma Selector_Matches_Nil [simp]: "Selector_Matches [] ls"
  by (simp add: Selector_Matches_def)

lemma Selector_Matches_Add [simp]:
  "Selector_Matches (Selector_Add s reqs) ls \<longleftrightarrow>
     Selector_Matches s ls \<and> Selector_Matches reqs ls"
  by (auto simp: Selector_Matches_def Selector_Add_def list_all_iff)

lemma Selector_Add_sorted: "sorted (map rq_key (Selector_Add s reqs))"
  by (simp add: Selector_Add_def)

text \<open>The operators as a label value seen through \<open>mget\<close>.\<close>

lemma Requirement_Matches_mget:
  "rq_operator r = In \<Longrightarrow>
     Requirement_Matches r ls \<longleftrightarrow> (\<exists>v. mget ls (rq_key r) = Some v \<and> v \<in> set (rq_strValues r))"
  "rq_operator r = NotIn \<Longrightarrow>
     Requirement_Matches r ls \<longleftrightarrow> (\<forall>v. mget ls (rq_key r) = Some v \<longrightarrow> v \<notin> set (rq_strValues r))"
  "rq_operator r = Exists \<Longrightarrow> Requirement_Matches r ls \<longleftrightarrow> mget ls (rq_key r) \<noteq> None"
  "rq_operator r = DoesNotExist \<Longrightarrow> Requirement_Matches r ls \<longleftrightarrow> mget ls (rq_key r) = None"
  by (auto simp: Requirement_Matches_def Has_def Get_def hasValue_def mget0_def)

end
