(* ===== verification/PolicyHelper.thy ===== *)
theory PolicyHelper
  imports PolicyTypes Selector
begin

text \<open>
  The helpers of the policy generator (\<^verbatim>\<open>policyGen/policyHelper.go\<close>): placement rules and bindings,
  name length and evaluation interval checks, object templates, and the deploy wave of a policy.
\<close>

section \<open>The built CR with its source file\<close>

record generatedCR =
  gcr_globalComplianceType :: string
  gcr_pgtSourceFile :: SourceFile
  gcr_builtCR :: gmap

section \<open>Placement\<close>

definition CreatePlacementBinding ::
  "string \<Rightarrow> string \<Rightarrow> string \<Rightarrow> Subject list \<Rightarrow> PlacementBinding" where
  "CreatePlacementBinding name namespace ruleName subjects =
     \<lparr>pb_ApiVersion = ''policy.open-cluster-management.io/v1'',
      pb_Kind = ''PlacementBinding'',
      pb_Metadata = zeroMetaData\<lparr>md_Name := name @ ''-placementbinding'', md_Namespace := namespace\<rparr>,
      pb_PlacementRef =
        \<lparr>sub_Name = ruleName, sub_Kind = ''PlacementRule'',
         sub_ApiGroup = ''apps.open-cluster-management.io''\<rparr>,
      pb_Subjects = subjects\<rparr>"

definition CreatePolicySubject :: "string \<Rightarrow> Subject" where
  "CreatePolicySubject policyName =
     \<lparr>sub_Name = policyName, sub_Kind = ''Policy'',
      sub_ApiGroup = ''policy.open-cluster-management.io''\<rparr>"

definition bindingConflict :: "(string, string) gomap \<Rightarrow> string \<times> string \<Rightarrow> bool" where
  "bindingConflict bindingRules kv =
     (case mget bindingRules (fst kv) of
        None \<Rightarrow> False
      | Some valueRules \<Rightarrow> snd kv = [] \<or> snd kv = valueRules)"

definition bindingMessage :: "string \<Rightarrow> string \<Rightarrow> string \<Rightarrow> string \<Rightarrow> string" where
  "bindingMessage pgtName key valueRules valueExcludedRules =
     ''Invalid bindingRules and bindingExcludedRules found in PGT '' @ pgtName @
     ''. Cannot add label ('' @ key @ '':\"'' @ valueRules @
     ''\") in bindingRules but label ('' @ key @ '':\"'' @ valueExcludedRules @
     ''\") in bindingExcludedRules.''"

definition CheckBindingRules ::
  "string \<Rightarrow> (string, string) gomap \<Rightarrow> (string, string) gomap \<Rightarrow> unit res" where
  "CheckBindingRules pgtName bindingRules bindingExcludedRules =
     (case find (bindingConflict bindingRules) bindingExcludedRules of
        None \<Rightarrow> Inr ()
      | Some (key, valueExcludedRules) \<Rightarrow> 
          Inl (Error (bindingMessage pgtName key (mget0 [] bindingRules key) valueExcludedRules)))"

definition sortKeys :: "(string, string) gomap \<Rightarrow> string list" where
  "sortKeys rulesMap = sort (map fst rulesMap)"

definition ruleExpression :: "string \<Rightarrow> string \<Rightarrow> (string, string) gomap \<Rightarrow> string \<Rightarrow> gmap" where
  "ruleExpression emptyOper valueOper rules key =
     (let value = mget0 [] rules key in
      if value = [] then [(''key'', GStr key), (''operator'', GStr emptyOper)]
      else [(''key'', GStr key), (''operator'', GStr valueOper),
            (''values'', GStrs (Split value '',''))])"

definition CreatePlacementRule ::
  "string \<Rightarrow> string \<Rightarrow> (string, string) gomap \<Rightarrow> (string, string) gomap \<Rightarrow> PlacementRule" where
  "CreatePlacementRule name namespace bindingRules bindingExcludedRules =
     \<lparr>pr_ApiVersion = ''apps.open-cluster-management.io/v1'',
      pr_Kind = ''PlacementRule'',
      pr_Metadata = zeroMetaData\<lparr>md_Name := name @ ''-placementrules'', md_Namespace := namespace\<rparr>,
      pr_ClusterSelector =
        \<lparr>cs_MatchExpressions =
           map (ruleExpression ExistOper InOper bindingRules) (sortKeys bindingRules) @
           map (ruleExpression DoesNotExistOper NotInOper bindingExcludedRules)
             (sortKeys bindingExcludedRules)\<rparr>\<rparr>"

section \<open>Checks\<close>

definition CheckNameLength :: "string \<Rightarrow> string \<Rightarrow> unit res" where
  "CheckNameLength namespace name =
     (if length (namespace @ ''.'' @ name) > 63
      then Inl (Error (''Namespace.Name + ResourceName is exceeding the 63 chars limit: \"'' @
             namespace @ ''.'' @ name @ ''\"''))
      else Inr ())"

text \<open>The message of the error \<^verbatim>\<open>time.ParseDuration\<close> returns is shortened to its kind.\<close>

definition validateInterval :: "string \<Rightarrow> unit res" where
  "validateInterval interval =
     (if interval = DisableEvaluationInterval \<or> interval = WatchEvaluationInterval then Inr ()
      else case ParseDuration interval of
        None \<Rightarrow> Inl (Error (''time: invalid duration \"'' @ interval @ ''\"''))
      | Some _ \<Rightarrow> Inr ())"

section \<open>Object templates and deploy waves\<close>

definition BuildObjectTemplate :: "generatedCR \<Rightarrow> ObjectTemplates" where
  "BuildObjectTemplate resource =
     (let sfc = sf_ComplianceType (gcr_pgtSourceFile resource);
          complianceType = (if sfc \<noteq> UnsetStringValue then sfc else gcr_globalComplianceType resource)
      in \<lparr>ot_ComplianceType = complianceType, ot_ObjectDefinition = gcr_builtCR resource\<rparr>)"

definition waveDisplay :: "string \<Rightarrow> string" where
  "waveDisplay wave = (if wave = [] then ''unset'' else wave)"

text \<open>
  \<^verbatim>\<open>SetPolicyDeployWave\<close> writes to the annotations map of the policy and deletes from the maps of the
  built CR, both shared with the caller, so the model returns both.
\<close>

definition crMetadata :: "gmap \<Rightarrow> gmap" where
  "crMetadata cr = toMap (idx cr ''metadata'')"

definition crAnnotations :: "gmap \<Rightarrow> gmap" where
  "crAnnotations cr = toMap (idx (crMetadata cr) ''annotations'')"

definition crWave :: "gmap \<Rightarrow> string option" where
  "crWave cr = toStringOpt (idx (crAnnotations cr) ZtpDeployWaveAnnotation)"

definition policyWave :: "MetaData \<Rightarrow> string option" where
  "policyWave m = (case md_Annotations m of None \<Rightarrow> None | Some a \<Rightarrow> mget a ZtpDeployWaveAnnotation)"

definition dropCrWave :: "gmap \<Rightarrow> gmap" where
  "dropCrWave cr =
     (case idx cr ''metadata'' of
        GMap meta \<Rightarrow>
          (let annotations = mdel (crAnnotations cr) ZtpDeployWaveAnnotation in
           mput cr ''metadata'' (GMap
             (if annotations = [] then mdel meta ''annotations''
              else mput meta ''annotations'' (GMap annotations))))
      | _ \<Rightarrow> cr)"

definition waveMessage :: "string \<Rightarrow> string \<Rightarrow> string \<Rightarrow> string \<Rightarrow> string" where
  "waveMessage fileName wave policyName pwave =
     ZtpDeployWaveAnnotation @ '' annotation in Resource '' @ fileName @ '' (wave '' @
     waveDisplay wave @ '') doesn't match with Policy '' @ policyName @ '' (wave '' @
     waveDisplay pwave @ '')''"

definition SetPolicyDeployWave :: "MetaData \<Rightarrow> generatedCR \<Rightarrow> (MetaData \<times> generatedCR) res" where
  "SetPolicyDeployWave policyMeta resource =
     bind_res
       (case (crWave (gcr_builtCR resource), policyWave policyMeta) of
          (Some w, None) \<Rightarrow>
            (case md_Annotations policyMeta of
               None \<Rightarrow> Inl (Panic ''assignment to entry in nil map'')
             | Some a \<Rightarrow> Inr (policyMeta\<lparr>md_Annotations := Some (mput a ZtpDeployWaveAnnotation w)\<rparr>))
        | (Some w, Some pw) \<Rightarrow>
            if pw \<noteq> w
            then Inl (Error (waveMessage (sf_FileName (gcr_pgtSourceFile resource)) w
                   (md_Name policyMeta) pw))
            else Inr policyMeta
        | (None, _) \<Rightarrow> Inr policyMeta)
       (\<lambda>m. Inr (m, resource\<lparr>gcr_builtCR := dropCrWave (gcr_builtCR resource)\<rparr>))"

section \<open>Lemmas\<close>

lemma sortKeys_perm: "mset m = mset m' \<Longrightarrow> sortKeys m = sortKeys m'"
  unfolding sortKeys_def by (metis mset_map properties_for_sort sorted_sort mset_sort)

lemma set_sortKeys [simp]: "set (sortKeys m) = fst ` set m"
  by (simp add: sortKeys_def)

lemma CheckNameLength_ok [res_simps]:
  "CheckNameLength ns n = Inr u \<longleftrightarrow> length ns + length n \<le> 62"
  by (auto simp: CheckNameLength_def)

lemma CheckBindingRules_ok:
  "CheckBindingRules n rules excl = Inr u \<longleftrightarrow> (\<forall>kv\<in>set excl. \<not> bindingConflict rules kv)"
  by (auto simp: CheckBindingRules_def find_None_iff find_Some_iff split: option.splits)

lemma crAnnotations_dropCrWave:
  "mget (crAnnotations (dropCrWave cr)) k =
     (if k = ZtpDeployWaveAnnotation then None else mget (crAnnotations cr) k)"
proof (cases "idx cr ''metadata''")
  case (GMap meta)
  let ?an = "mdel (crAnnotations cr) ZtpDeployWaveAnnotation"
  have an: "mget ?an k = (if k = ZtpDeployWaveAnnotation then None else mget (crAnnotations cr) k)"
    by simp
  show ?thesis
  proof (cases "?an = []")
    case True
    with an have "(if k = ZtpDeployWaveAnnotation then None else mget (crAnnotations cr) k) = None"
      by simp
    with True GMap show ?thesis
      by (simp add: dropCrWave_def crAnnotations_def crMetadata_def Let_def mget0_def)
  next
    case False
    then have "crAnnotations (dropCrWave cr) = ?an"
      by (simp add: dropCrWave_def crAnnotations_def [of "mput _ _ _"] crMetadata_def [of "mput _ _ _"]
          GMap Let_def)
    with an show ?thesis by simp
  qed
qed (simp_all add: dropCrWave_def crAnnotations_def crMetadata_def mget0_def)

lemma crWave_dropCrWave [simp]: "crWave (dropCrWave cr) = None"
  by (simp add: crWave_def crAnnotations_dropCrWave mget0_def)

lemma dropCrWave_other: "k \<noteq> ''metadata'' \<Longrightarrow> mget (dropCrWave cr) k = mget cr k"
  by (simp add: dropCrWave_def Let_def split: gval.splits)

lemma SetPolicyDeployWave_Inr:
  assumes "SetPolicyDeployWave m r = Inr (m', r')"
  shows "r' = r\<lparr>gcr_builtCR := dropCrWave (gcr_builtCR r)\<rparr>"
    and "policyWave m' = (case crWave (gcr_builtCR r) of Some w \<Rightarrow> Some w | None \<Rightarrow> policyWave m)"
    and "policyWave m \<noteq> None \<Longrightarrow> m' = m"
    and "md_Name m' = md_Name m" and "md_Namespace m' = md_Namespace m"
    and "md_Annotations m \<noteq> None \<Longrightarrow> md_Annotations m' \<noteq> None"
  using assms
  by (auto simp: SetPolicyDeployWave_def res_simps policyWave_def split: option.splits if_splits)

section \<open>What a placement rule selects\<close>

text \<open>The requirement that a match expression stands for, and the clusters a rule selects: those
  whose labels satisfy every expression.\<close>

definition operatorOf :: "string \<Rightarrow> operator option" where
  "operatorOf s =
     (if s = InOper then Some In else if s = NotInOper then Some NotIn
      else if s = ExistOper then Some Exists else if s = DoesNotExistOper then Some DoesNotExist
      else None)"

definition expressionRequirement :: "gmap \<Rightarrow> Requirement option" where
  "expressionRequirement e =
     (case (idx e ''key'', idx e ''operator'') of
        (GStr k, GStr s) \<Rightarrow>
          map_option (\<lambda>oper. \<lparr>rq_key = k, rq_operator = oper,
             rq_strValues = (case idx e ''values'' of GStrs vs \<Rightarrow> vs | _ \<Rightarrow> [])\<rparr>) (operatorOf s)
      | _ \<Rightarrow> None)"

definition ruleSelects :: "PlacementRule \<Rightarrow> labels \<Rightarrow> bool" where
  "ruleSelects pr ls =
     list_all (\<lambda>e. case expressionRequirement e of None \<Rightarrow> False | Some r \<Rightarrow> Requirement_Matches r ls)
       (cs_MatchExpressions (pr_ClusterSelector pr))"

lemmas oper_defs = ExistOper_def InOper_def DoesNotExistOper_def NotInOper_def

lemma expressionRequirement_ruleExpression:
  "expressionRequirement (ruleExpression ExistOper InOper rules k) =
     Some \<lparr>rq_key = k, rq_operator = (if mget0 [] rules k = [] then Exists else In),
           rq_strValues = (if mget0 [] rules k = [] then [] else Split (mget0 [] rules k) '','')\<rparr>"
  "expressionRequirement (ruleExpression DoesNotExistOper NotInOper rules k) =
     Some \<lparr>rq_key = k, rq_operator = (if mget0 [] rules k = [] then DoesNotExist else NotIn),
           rq_strValues = (if mget0 [] rules k = [] then [] else Split (mget0 [] rules k) '','')\<rparr>"
  by (simp_all add: expressionRequirement_def ruleExpression_def Let_def operatorOf_def oper_defs
      mget0_def [of GNil])

text \<open>The meaning of one binding rule and of one excluded rule.\<close>

definition bindingHolds :: "labels \<Rightarrow> string \<Rightarrow> string \<Rightarrow> bool" where
  "bindingHolds ls k v \<longleftrightarrow>
     (case mget ls k of None \<Rightarrow> False | Some x \<Rightarrow> v = [] \<or> x \<in> set (Split v '',''))"

definition exclusionHolds :: "labels \<Rightarrow> string \<Rightarrow> string \<Rightarrow> bool" where
  "exclusionHolds ls k v \<longleftrightarrow>
     (case mget ls k of None \<Rightarrow> True | Some x \<Rightarrow> v \<noteq> [] \<and> x \<notin> set (Split v '',''))"

lemma bindingHolds_iff:
  "bindingHolds ls k v \<longleftrightarrow> (\<exists>x. mget ls k = Some x \<and> (v = [] \<or> x \<in> set (Split v '','')))"
  by (auto simp: bindingHolds_def split: option.splits)

lemma exclusionHolds_iff:
  "exclusionHolds ls k v \<longleftrightarrow> (\<forall>x. mget ls k = Some x \<longrightarrow> v \<noteq> [] \<and> x \<notin> set (Split v '',''))"
  by (auto simp: exclusionHolds_def split: option.splits)

lemma ruleExpression_matches:
  "Requirement_Matches (the (expressionRequirement (ruleExpression ExistOper InOper rules k))) ls \<longleftrightarrow>
     bindingHolds ls k (mget0 [] rules k)"
  "Requirement_Matches (the (expressionRequirement (ruleExpression DoesNotExistOper NotInOper rules k))) ls \<longleftrightarrow>
     exclusionHolds ls k (mget0 [] rules k)"
  by (auto simp: expressionRequirement_ruleExpression Requirement_Matches_mget bindingHolds_iff
      exclusionHolds_iff)

lemma ruleExpression_case:
  "(case expressionRequirement (ruleExpression ExistOper InOper rules k) of
      None \<Rightarrow> False | Some r \<Rightarrow> Requirement_Matches r ls) \<longleftrightarrow> bindingHolds ls k (mget0 [] rules k)"
  "(case expressionRequirement (ruleExpression DoesNotExistOper NotInOper rules k) of
      None \<Rightarrow> False | Some r \<Rightarrow> Requirement_Matches r ls) \<longleftrightarrow> exclusionHolds ls k (mget0 [] rules k)"
  by (simp_all add: expressionRequirement_ruleExpression flip: ruleExpression_matches)

lemma ruleSelects_CreatePlacementRule:
  "ruleSelects (CreatePlacementRule n ns rules excl) ls \<longleftrightarrow>
     (\<forall>k\<in>fst ` set rules. bindingHolds ls k (mget0 [] rules k)) \<and>
     (\<forall>k\<in>fst ` set excl. exclusionHolds ls k (mget0 [] excl k))"
  by (simp add: ruleSelects_def CreatePlacementRule_def list_all_iff ball_Un ruleExpression_case)

lemma ball_keys: "mwf m \<Longrightarrow> (\<forall>k\<in>fst ` set m. P k (mget0 z m k)) \<longleftrightarrow> (\<forall>k v. mget m k = Some v \<longrightarrow> P k v)"
  by (force simp: mget0_def mget_in_set dest: map_of_SomeD)

section \<open>Properties\<close>

text \<open>C4. A generated placement rule selects exactly the clusters that satisfy every binding rule
  (the label exists, and with a value: the label's value is one of the comma-separated ones) and
  no excluded rule.\<close>

theorem CreatePlacementRule_selects:
  assumes "mwf bindingRules" and "mwf bindingExcludedRules"
  shows "ruleSelects (CreatePlacementRule name namespace bindingRules bindingExcludedRules) ls \<longleftrightarrow>
    (\<forall>k v. mget bindingRules k = Some v \<longrightarrow>
       (\<exists>x. mget ls k = Some x \<and> (v = [] \<or> x \<in> set (Split v '','')))) \<and>
    (\<forall>k v. mget bindingExcludedRules k = Some v \<longrightarrow>
       (\<forall>x. mget ls k = Some x \<longrightarrow> v \<noteq> [] \<and> x \<notin> set (Split v '','')))"
  unfolding ruleSelects_CreatePlacementRule ball_keys [OF assms(1)] ball_keys [OF assms(2)]
  by (simp add: bindingHolds_iff exclusionHolds_iff)

theorem CreatePlacementRule_selects_witness:
  "ruleSelects (CreatePlacementRule ''p'' ''ns'' [(''sites'', ''a,b'')] [(''hw'', ''x'')])
     [(''sites'', ''b''), (''hw'', ''y'')] \<and>
   \<not> ruleSelects (CreatePlacementRule ''p'' ''ns'' [(''sites'', ''a,b'')] [(''hw'', ''x'')])
     [(''sites'', ''b''), (''hw'', ''x'')]"
proof -
  have wf: "mwf [(''sites'', ''a,b'')]" "mwf [(''hw'', ''x'')]" by (simp_all add: mwf_def)
  show ?thesis
    unfolding CreatePlacementRule_selects [OF wf]
    by (auto simp: Split_def)
qed

text \<open>C15. \<^verbatim>\<open>CheckBindingRules\<close> refuses exactly the templates that have a label in both maps with an empty or the same excluded
  value: when it succeeds, no label is in conflict; when it fails, the message names a label in conflict, and no
  cluster at all can satisfy the placement rule, whatever its labels are.\<close>

theorem CheckBindingRules_sound:
  assumes "mwf bindingExcludedRules"
  shows "case CheckBindingRules pgtName bindingRules bindingExcludedRules of
      Inr _ \<Rightarrow> (\<forall>k v x. mget bindingRules k = Some v \<and> mget bindingExcludedRules k = Some x \<longrightarrow> x \<noteq> [] \<and> x \<noteq> v)
    | Inl err \<Rightarrow>
        (\<exists>k v x. mget bindingRules k = Some v \<and> mget bindingExcludedRules k = Some x \<and> (x = [] \<or> x = v) \<and>
           err = Error (bindingMessage pgtName k v x)) \<and>
        (\<forall>ls. \<not> ruleSelects (CreatePlacementRule name namespace bindingRules bindingExcludedRules) ls)"
proof (cases "CheckBindingRules pgtName bindingRules bindingExcludedRules")
  case (Inr u)
  then have "\<not> bindingConflict bindingRules (k, x)" if "mget bindingExcludedRules k = Some x" for k x
    using that mget_in_set [OF assms] CheckBindingRules_ok by blast
  then have "x \<noteq> [] \<and> x \<noteq> v" if "mget bindingRules k = Some v" "mget bindingExcludedRules k = Some x" for k v x
    using that by (fastforce simp: bindingConflict_def)
  then show ?thesis by (auto simp: Inr)
next
  case (Inl err)
  then obtain k x where f: "find (bindingConflict bindingRules) bindingExcludedRules = Some (k, x)"
    and e: "err = Error (bindingMessage pgtName k (mget0 [] bindingRules k) x)"
    by (auto simp: CheckBindingRules_def split: option.splits)
  then have ex: "(k, x) \<in> set bindingExcludedRules" and c: "bindingConflict bindingRules (k, x)"
    by (auto simp: find_Some_iff)
  then obtain v where v: "mget bindingRules k = Some v" and vx: "x = [] \<or> x = v"
    by (auto simp: bindingConflict_def split: option.splits)
  have x: "mget bindingExcludedRules k = Some x" using ex mget_in_set [OF assms] by simp
  have "\<not> ruleSelects (CreatePlacementRule name namespace bindingRules bindingExcludedRules) ls" for ls
  proof
    assume "ruleSelects (CreatePlacementRule name namespace bindingRules bindingExcludedRules) ls"
    moreover have "k \<in> fst ` set bindingRules" "k \<in> fst ` set bindingExcludedRules"
      using map_of_SomeD [OF v] ex by force+
    ultimately have "bindingHolds ls k v" and "exclusionHolds ls k x"
      unfolding ruleSelects_CreatePlacementRule using v x by (auto simp: mget0_def)
    with vx show False by (auto simp: bindingHolds_iff exclusionHolds_iff)
  qed
  with v x vx e show ?thesis by (auto simp: Inl mget0_def)
qed

theorem CheckBindingRules_sound_witness:
  "(\<exists>e. CheckBindingRules ''p'' [(''du'', ''v'')] [(''du'', ''v'')] = Inl e) \<and>
     \<not> ruleSelects (CreatePlacementRule ''p'' ''ns'' [(''du'', ''v'')] [(''du'', ''v'')]) [(''du'', ''v'')]"
proof -
  obtain e where e: "CheckBindingRules ''p'' [(''du'', ''v'')] [(''du'', ''v'')] = Inl e"
    by (simp add: CheckBindingRules_def bindingConflict_def)
  have "mwf [(''du'', ''v'')]" by (simp add: mwf_def)
  from CheckBindingRules_sound [OF this, where pgtName = "''p''" and bindingRules = "[(''du'', ''v'')]" and name = "''p''" and namespace = "''ns''"] show ?thesis by (simp add: e)
qed

text \<open>The placement rule does not depend on the order in which Go visits the two rule maps: the
  expressions are sorted by key.\<close>

theorem CreatePlacementRule_deterministic:
  assumes "mwf bindingRules" and "mwf bindingExcludedRules"
    and "mset bindingRules = mset bindingRules'"
    and "mset bindingExcludedRules = mset bindingExcludedRules'"
  shows "CreatePlacementRule name namespace bindingRules bindingExcludedRules =
    CreatePlacementRule name namespace bindingRules' bindingExcludedRules'"
proof -
  have "ruleExpression a b bindingRules = ruleExpression a b bindingRules'"
    "ruleExpression a b bindingExcludedRules = ruleExpression a b bindingExcludedRules'" for a b
    using mget_perm [OF assms(1,3)] mget_perm [OF assms(2,4)]
    by (auto simp: ruleExpression_def mget0_def fun_eq_iff)
  then show ?thesis
    using sortKeys_perm [OF assms(3)] sortKeys_perm [OF assms(4)]
    by (simp add: CreatePlacementRule_def)
qed

theorem CreatePlacementRule_deterministic_witness:
  "CreatePlacementRule ''p'' ''n'' [(''b'', ''1''), (''a'', [])] [] =
   CreatePlacementRule ''p'' ''n'' [(''a'', []), (''b'', ''1'')] []"
  by (rule CreatePlacementRule_deterministic) (simp_all add: mwf_def)


definition waveResource :: generatedCR where
  "waveResource = \<lparr>gcr_globalComplianceType = ''musthave'', gcr_pgtSourceFile = sourceFileDefaults,
     gcr_builtCR = [(''metadata'', GMap [(''annotations'',
       GMap [(''ran.openshift.io/ztp-deploy-wave'', GStr ''10'')])])]\<rparr>"


end
