(* ===== verification/GoPath.thy ===== *)
theory GoPath
  imports GoStrings
begin

text \<open>
  The lexical path operations of \<^verbatim>\<open>path\<close> and \<^verbatim>\<open>path/filepath\<close> on a Unix system: \<^verbatim>\<open>Clean\<close>, \<^verbatim>\<open>Join\<close>, \<^verbatim>\<open>Base\<close>,
  \<^verbatim>\<open>Dir\<close>, \<^verbatim>\<open>Ext\<close>, \<^verbatim>\<open>Split\<close>, \<^verbatim>\<open>IsAbs\<close> and \<^verbatim>\<open>Rel\<close>. A path is cut at its slashes into elements; \<^verbatim>\<open>Clean\<close>
  is a pass over the elements with a stack, as the rules of its documentation describe it.
\<close>

definition slash :: string where "slash = ''/''"

definition IsAbs :: "string \<Rightarrow> bool" where
  "IsAbs p = HasPrefix p slash"

definition elems :: "string \<Rightarrow> string list" where
  "elems p = filter (\<lambda>e. e \<noteq> [] \<and> e \<noteq> ''.'') (Split p slash)"

text \<open>The stack is kept with its last element first. A \<^verbatim>\<open>..\<close> removes the element before it; at the
  start of a rooted path it is dropped, at the start of a relative one it stays.\<close>

fun cleanStack :: "bool \<Rightarrow> string list \<Rightarrow> string list \<Rightarrow> string list" where
  "cleanStack rooted st [] = st"
| "cleanStack rooted st (e # es) =
     (if e = ''..'' then
        (case st of
           [] \<Rightarrow> cleanStack rooted (if rooted then [] else [''..'']) es
         | t # ts \<Rightarrow> if t = ''..'' then cleanStack rooted (''..'' # st) es
                    else cleanStack rooted ts es)
      else cleanStack rooted (e # st) es)"

definition cleanElems :: "bool \<Rightarrow> string list \<Rightarrow> string list" where
  "cleanElems rooted es = rev (cleanStack rooted [] es)"

definition render :: "bool \<Rightarrow> string list \<Rightarrow> string" where
  "render rooted es =
     (if rooted then slash @ Join es slash else if es = [] then ''.'' else Join es slash)"

definition Clean :: "string \<Rightarrow> string" where
  "Clean p = render (IsAbs p) (cleanElems (IsAbs p) (elems p))"

definition JoinPath :: "string list \<Rightarrow> string" where
  "JoinPath ps = (let qs = filter (\<lambda>p. p \<noteq> []) ps in
     if qs = [] then [] else Clean (Join qs slash))"

text \<open>\<open>lastElem\<close> is the part after the last slash, \<open>dirPart\<close> everything up to and including it.\<close>

definition lastElem :: "string \<Rightarrow> string" where
  "lastElem p = rev (takeWhile (\<lambda>c. c \<noteq> CHR ''/'') (rev p))"

definition dirPart :: "string \<Rightarrow> string" where
  "dirPart p = rev (dropWhile (\<lambda>c. c \<noteq> CHR ''/'') (rev p))"

definition Dir :: "string \<Rightarrow> string" where
  "Dir p = Clean (dirPart p)"

definition Base :: "string \<Rightarrow> string" where
  "Base p = (if p = [] then ''.'' else
     let q = rev (dropWhile (\<lambda>c. c = CHR ''/'') (rev p)) in
     if q = [] then slash else lastElem q)"

definition Ext :: "string \<Rightarrow> string" where
  "Ext p = (let l = lastElem p in
     if CHR ''.'' \<in> set l
     then CHR ''.'' # rev (takeWhile (\<lambda>c. c \<noteq> CHR ''.'') (rev l)) else [])"

fun relElems :: "string list \<Rightarrow> string list \<Rightarrow> string list option" where
  "relElems [] ts = Some ts"
| "relElems (b # bs) [] =
     (if b = ''..'' then None else Some (map (\<lambda>_. ''..'') (b # bs)))"
| "relElems (b # bs) (t # ts) =
     (if b = t then relElems bs ts
      else if b = ''..'' then None
      else Some (map (\<lambda>_. ''..'') (b # bs) @ t # ts))"

text \<open>\<^verbatim>\<open>filepath.Rel\<close>: \<open>None\<close> is the error "can't make target relative to base".\<close>

definition Rel :: "string \<Rightarrow> string \<Rightarrow> string option" where
  "Rel base targ =
     (let rb = IsAbs base; rt = IsAbs targ;
          bs = cleanElems rb (elems base); ts = cleanElems rt (elems targ) in
      if Clean base = Clean targ then Some ''.''
      else if rb \<noteq> rt then None
      else map_option (\<lambda>es. Join es slash) (relElems bs ts))"

lemma dirPart_lastElem: "dirPart p @ lastElem p = p"
  unfolding dirPart_def lastElem_def
  by (metis rev_append rev_rev_ident takeWhile_dropWhile_id)

lemma lastElem_no_slash: "CHR ''/'' \<notin> set (lastElem p)"
  unfolding lastElem_def using set_takeWhileD by fastforce

lemma takeWhile_rev_last:
  "c \<notin> set r \<Longrightarrow> rev (takeWhile (\<lambda>x. x \<noteq> c) (rev (l @ c # r))) = r"
  by (induction r rule: rev_induct) auto

lemma Ext_suffix: "\<exists>t. p = t @ Ext p"
proof (cases "CHR ''.'' \<in> set (lastElem p)")
  case True
  then obtain l r where lr: "lastElem p = l @ CHR ''.'' # r" "CHR ''.'' \<notin> set r"
    by (meson split_list_last)
  then have "Ext p = CHR ''.'' # r"
    using True takeWhile_rev_last [of "CHR ''.''" r l] by (simp add: Ext_def Let_def)
  then have "p = (dirPart p @ l) @ Ext p"
    using dirPart_lastElem [of p] lr(1) by simp
  then show ?thesis by blast
next
  case False
  then show ?thesis by (simp add: Ext_def)
qed

section \<open>Cleaned element lists\<close>

text \<open>An element of a cleaned path is not empty, not a dot and has no slash.\<close>

definition plainElem :: "string \<Rightarrow> bool" where
  "plainElem e \<longleftrightarrow> e \<noteq> [] \<and> e \<noteq> ''.'' \<and> CHR ''/'' \<notin> set e"

lemma elems_plain: "list_all plainElem (elems p)"
  unfolding elems_def plainElem_def slash_def Split_def
  by (auto simp: list_all_iff dest: Split_pieces_no_sep_char)

text \<open>The invariant of the stack, whose last element comes first: \<^verbatim>\<open>..\<close> stands only at the
  start of a relative path.\<close>

fun goodStack :: "bool \<Rightarrow> string list \<Rightarrow> bool" where
  "goodStack rooted [] = True"
| "goodStack rooted (t # ts) =
     (plainElem t \<and> (t = ''..'' \<longrightarrow> \<not> rooted \<and> set ts \<subseteq> {''..''}) \<and> goodStack rooted ts)"

lemma goodStack_plain: "goodStack r st \<Longrightarrow> list_all plainElem st"
  by (induction st) auto

lemma cleanStack_good:
  "goodStack r st \<Longrightarrow> list_all plainElem es \<Longrightarrow> goodStack r (cleanStack r st es)"
  by (induction r st es rule: cleanStack.induct) (auto simp: plainElem_def split: list.splits)

lemma cleanStack_append:
  "cleanStack r st (xs @ ys) = cleanStack r (cleanStack r st xs) ys"
  by (induction r st xs rule: cleanStack.induct) (auto split: list.splits)

lemma cleanStack_fixpoint: "goodStack r st \<Longrightarrow> cleanStack r [] (rev st) = st"
proof (induction st)
  case Nil
  then show ?case by simp
next
  case (Cons t ts)
  then show ?case by (auto simp: cleanStack_append split: list.splits)
qed

lemma cleanElems_good: "\<exists>st. goodStack r st \<and> cleanElems r (elems p) = rev st"
  unfolding cleanElems_def
  using cleanStack_good [of r "[]" "elems p"] elems_plain by auto

section \<open>Clean is idempotent\<close>

lemma filter_plain: "list_all plainElem es \<Longrightarrow> filter (\<lambda>e. e \<noteq> [] \<and> e \<noteq> ''.'') es = es"
  by (induction es) (auto simp: plainElem_def)

lemma elems_Join: "list_all plainElem es \<Longrightarrow> elems (Join es slash) = es"
proof (cases "es = []")
  case True
  then show ?thesis by (simp add: elems_def Split_def)
next
  case False
  assume p: "list_all plainElem es"
  then have "\<forall>x\<in>set es. CHR ''/'' \<notin> set x" by (auto simp: list_all_iff plainElem_def)
  with False have "Split (Join es slash) slash = es"
    unfolding slash_def by (rule Split_Join)
  with p show ?thesis by (simp add: elems_def filter_plain)
qed

lemma elems_rooted: "elems (slash @ p) = elems p"
  by (simp add: elems_def Split_def slash_def)

lemma elems_render:
  assumes "list_all plainElem es"
  shows "elems (render r es) = es"
proof (cases r)
  case True
  with assms show ?thesis by (simp add: render_def elems_rooted elems_Join)
next
  case False
  with assms show ?thesis
    by (cases "es = []") (simp_all add: render_def elems_Join, simp add: elems_def Split_def slash_def)
qed

lemma IsAbs_render: "list_all plainElem es \<Longrightarrow> IsAbs (render r es) = r"
proof (cases r)
  case True
  then show ?thesis by (simp add: render_def IsAbs_def)
next
  case False
  assume p: "list_all plainElem es"
  show ?thesis
  proof (cases es)
    case Nil
    with False show ?thesis by (simp add: render_def IsAbs_def slash_def)
  next
    case (Cons e ts)
    with p obtain c t where "e = c # t" "c \<noteq> CHR ''/''"
      by (cases e) (auto simp: plainElem_def)
    with False Cons show ?thesis by (cases ts) (auto simp: render_def IsAbs_def slash_def)
  qed
qed

theorem Clean_idem: "Clean (Clean p) = Clean p"
proof -
  let ?r = "IsAbs p"
  obtain st where st: "goodStack ?r st" "cleanElems ?r (elems p) = rev st"
    using cleanElems_good by blast
  then have pl: "list_all plainElem (rev st)" by (simp add: goodStack_plain)
  have c: "Clean p = render ?r (rev st)" by (simp add: Clean_def st(2))
  then have "Clean (Clean p) = render ?r (cleanElems ?r (rev st))"
    using pl by (simp add: Clean_def [of "render ?r (rev st)"] IsAbs_render elems_render)
  also have "\<dots> = Clean p"
    using cleanStack_fixpoint [OF st(1)] by (simp add: cleanElems_def c)
  finally show ?thesis .
qed

lemma Clean_not_Nil [simp]: "Clean p \<noteq> []"
proof -
  obtain st where st: "goodStack (IsAbs p) st" "cleanElems (IsAbs p) (elems p) = rev st"
    using cleanElems_good by blast
  then have pl: "list_all plainElem (rev st)" by (simp add: goodStack_plain)
  show ?thesis
  proof (cases "rev st")
    case Nil
    then show ?thesis by (simp add: Clean_def st(2) render_def slash_def)
  next
    case (Cons e es)
    with pl have "e \<noteq> []" by (simp add: plainElem_def)
    with Cons show ?thesis by (cases es) (simp_all add: Clean_def st(2) render_def slash_def)
  qed
qed

section \<open>Paths put together with a slash\<close>

lemma splitFrom_sep_append: "splitFrom [c] acc (p @ c # q) = splitFrom [c] acc p @ splitFrom [c] [] q"
  by (induction p arbitrary: acc) auto

lemma elems_append: "elems (p @ slash @ q) = elems p @ elems q"
  by (simp add: elems_def Split_def slash_def splitFrom_sep_append)

lemma elems_plainElem: "plainElem e \<Longrightarrow> elems e = [e]"
  by (simp add: elems_def Split_def slash_def plainElem_def Split_no_sep)

lemma cleanElems_snoc:
  "plainElem e \<Longrightarrow> e \<noteq> ''..'' \<Longrightarrow> cleanElems r (es @ [e]) = cleanElems r es @ [e]"
  by (simp add: cleanElems_def cleanStack_append)

lemma dirPart_slash: "CHR ''/'' \<notin> set b \<Longrightarrow> dirPart (d @ slash @ b) = d @ slash"
proof -
  assume b: "CHR ''/'' \<notin> set b"
  then have "dropWhile (\<lambda>c. c \<noteq> CHR ''/'') (rev b @ CHR ''/'' # rev d) = CHR ''/'' # rev d"
    by (subst dropWhile_append2) auto
  then show ?thesis by (simp add: dirPart_def slash_def)
qed

text \<open>A relative path may be cleaned before it is put below a rooted one.\<close>

lemma cleanStack_clean: "cleanStack True st (rev (cleanStack False [] es)) = cleanStack True st es"
proof (induction es rule: rev_induct)
  case Nil
  then show ?case by simp
next
  case (snoc e es)
  let ?c = "cleanStack False [] es"
  have step: "cleanStack True st (es @ [e]) = cleanStack True (cleanStack True st (rev ?c)) [e]"
    by (simp only: cleanStack_append snoc.IH)
  have fstep: "cleanStack False [] (es @ [e]) = cleanStack False ?c [e]" by (simp only: cleanStack_append)
  consider (push) "cleanStack False ?c [e] = e # ?c"
    | (pop) t ts where "?c = t # ts" "t \<noteq> ''..''" "e = ''..''" "cleanStack False ?c [e] = ts"
    by (cases ?c; cases "e = ''..''"; cases "hd ?c = ''..''") simp_all
  then show ?case
  proof cases
    case push
    then show ?thesis by (simp only: fstep rev.simps cleanStack_append snoc.IH)
  next
    case pop
    then have "cleanStack True st (rev ?c) = t # cleanStack True st (rev ts)"
      by (simp add: cleanStack_append)
    then have "cleanStack True (cleanStack True st (rev ?c)) [e] = cleanStack True st (rev ts)"
      using pop(2,3) by simp
    then show ?thesis by (simp only: fstep step pop(4))
  qed
qed

lemma elems_slash_end: "elems (x @ slash) = elems x"
  using elems_append [of x "[]"] by (simp add: elems_def Split_def)

lemma elems_Clean: "elems (Clean p) = cleanElems (IsAbs p) (elems p)"
proof -
  obtain st where st: "goodStack (IsAbs p) st" "cleanElems (IsAbs p) (elems p) = rev st"
    using cleanElems_good by blast
  then have "list_all plainElem (rev st)" by (simp add: goodStack_plain)
  then show ?thesis by (simp add: Clean_def st(2) elems_render)
qed

lemma IsAbs_Clean: "IsAbs (Clean p) = IsAbs p"
proof -
  obtain st where st: "goodStack (IsAbs p) st" "cleanElems (IsAbs p) (elems p) = rev st"
    using cleanElems_good by blast
  then have "list_all plainElem (rev st)" by (simp add: goodStack_plain)
  then show ?thesis by (simp add: Clean_def st(2) IsAbs_render)
qed

lemma cleanElems_idem: "cleanElems r (cleanElems r (elems p)) = cleanElems r (elems p)"
proof -
  obtain st where st: "goodStack r st" "cleanElems r (elems p) = rev st"
    using cleanElems_good by blast
  then show ?thesis using cleanStack_fixpoint [OF st(1)] by (simp add: cleanElems_def)
qed

lemma lastElem_append: "CHR ''/'' \<notin> set b \<Longrightarrow> lastElem (d @ slash @ b) = b"
  using takeWhile_rev_last [of "CHR ''/''" b d] by (simp add: lastElem_def slash_def)

lemma lastElem_plain: "CHR ''/'' \<notin> set b \<Longrightarrow> lastElem b = b"
proof -
  assume "CHR ''/'' \<notin> set b"
  then have "takeWhile (\<lambda>c. c \<noteq> CHR ''/'') (rev b) = rev b" by (intro takeWhile_eq_all_conv [THEN iffD2]) auto
  then show ?thesis unfolding lastElem_def by (simp only: rev_rev_ident)
qed

lemma Join_snoc: "es \<noteq> [] \<Longrightarrow> Join (es @ [x]) sep = Join es sep @ sep @ x"
  by (induction es sep rule: Join.induct) auto

lemma lastElem_render:
  assumes "CHR ''/'' \<notin> set b"
  shows "lastElem (render r (es @ [b])) = b"
proof (cases "es = []")
  case True
  then show ?thesis
    using assms lastElem_append [of b "[]"] by (simp add: render_def lastElem_plain)
next
  case False
  from Join_snoc [OF this] show ?thesis
    using assms lastElem_append [of b "slash @ Join es slash"] lastElem_append [of b "Join es slash"]
    by (simp add: render_def)
qed

lemma lastElem_JoinPath:
  assumes "plainElem b" and "b \<noteq> ''..''" and "p \<noteq> []"
  shows "lastElem (JoinPath [p, b]) = b"
proof -
  let ?r = "IsAbs (p @ slash @ b)"
  have b: "CHR ''/'' \<notin> set b" "b \<noteq> []" using assms(1) by (auto simp: plainElem_def)
  have "JoinPath [p, b] = render ?r (cleanElems ?r (elems p) @ [b])"
    using assms b by (simp add: JoinPath_def Clean_def elems_append elems_plainElem cleanElems_snoc)
  then show ?thesis using lastElem_render [OF b(1)] by (simp only:)
qed

lemma dropWhile_until: "dropWhile (\<lambda>c. c \<noteq> a) xs = [] \<or> (\<exists>d. dropWhile (\<lambda>c. c \<noteq> a) xs = a # d)"
  by (induction xs) auto

lemma dirPart_cases: "dirPart p = [] \<or> (\<exists>d. dirPart p = d @ slash)"
proof -
  from dropWhile_until [of "CHR ''/''" "rev p"] show ?thesis
  proof
    assume "dropWhile (\<lambda>c. c \<noteq> CHR ''/'') (rev p) = []"
    then show ?thesis unfolding dirPart_def by (simp only: rev.simps simp_thms)
  next
    assume "\<exists>d. dropWhile (\<lambda>c. c \<noteq> CHR ''/'') (rev p) = CHR ''/'' # d"
    then obtain d where "dropWhile (\<lambda>c. c \<noteq> CHR ''/'') (rev p) = CHR ''/'' # d" ..
    then have "dirPart p = rev d @ slash" unfolding dirPart_def slash_def by (simp only: rev.simps)
    then show ?thesis by blast
  qed
qed

end
