(* ===== verification/GoFS.thy ===== *)
theory GoFS
  imports GoPath
begin

text \<open>
  The file system as the program sees it through \<^verbatim>\<open>os\<close> and \<^verbatim>\<open>path/filepath\<close>: regular files and
  directories, addressed by the elements of their absolute path, with the working directory and
  the path of the executable. Permissions and symbolic links are not modelled, and a path is
  resolved by cleaning it.

  A system call that fails gives one of the error numbers the program can tell apart
  (\<^verbatim>\<open>os.IsNotExist\<close>, \<^verbatim>\<open>errors.Is(err, os.ErrNotExist)\<close>) or only prints.
\<close>

type_synonym fpath = "string list"

datatype node = NFile string | NDir

datatype os_error = ENOENT | ENOTDIR | EISDIR

type_synonym 'a os = "os_error + 'a"

record fsys =
  fs_nodes :: "(fpath, node) gomap"
  fs_cwd :: string
  fs_exe :: string

section \<open>Operations\<close>

definition resolve :: "fsys \<Rightarrow> string \<Rightarrow> fpath" where
  "resolve fs p = cleanElems True (elems (if IsAbs p then p else fs_cwd fs @ slash @ p))"

definition nodeAt :: "fsys \<Rightarrow> fpath \<Rightarrow> node option" where
  "nodeAt fs es = (if es = [] then Some NDir else mget (fs_nodes fs) es)"

definition setNode :: "fpath \<Rightarrow> node \<Rightarrow> fsys \<Rightarrow> fsys" where
  "setNode es n fs = fs\<lparr>fs_nodes := mput (fs_nodes fs) es n\<rparr>"

fun isFile :: "node option \<Rightarrow> bool" where
  "isFile (Some (NFile _)) = True"
| "isFile _ = False"

definition parents :: "fpath \<Rightarrow> fpath list" where
  "parents es = map (\<lambda>i. take i es) [0..<length es]"

definition missingError :: "fsys \<Rightarrow> fpath \<Rightarrow> os_error" where
  "missingError fs es = (if list_ex (\<lambda>a. isFile (nodeAt fs a)) (parents es) then ENOTDIR else ENOENT)"

definition os_Stat :: "fsys \<Rightarrow> string \<Rightarrow> node os" where
  "os_Stat fs p =
     (if p = [] then Inl ENOENT
      else case nodeAt fs (resolve fs p) of
        None \<Rightarrow> Inl (missingError fs (resolve fs p))
      | Some n \<Rightarrow> Inr n)"

definition os_ReadFile :: "fsys \<Rightarrow> string \<Rightarrow> string os" where
  "os_ReadFile fs p =
     (case os_Stat fs p of
        Inl e \<Rightarrow> Inl e
      | Inr NDir \<Rightarrow> Inl EISDIR
      | Inr (NFile s) \<Rightarrow> Inr s)"

definition os_WriteFile :: "fsys \<Rightarrow> string \<Rightarrow> string \<Rightarrow> fsys os" where
  "os_WriteFile fs p s =
     (if p = [] then Inl ENOENT
      else let es = resolve fs p in
        case nodeAt fs es of
          Some NDir \<Rightarrow> Inl EISDIR
        | Some (NFile _) \<Rightarrow> Inr (setNode es (NFile s) fs)
        | None \<Rightarrow>
            if nodeAt fs (butlast es) = Some NDir then Inr (setNode es (NFile s) fs)
            else Inl (missingError fs es))"

definition os_MkdirAll :: "fsys \<Rightarrow> string \<Rightarrow> fsys os" where
  "os_MkdirAll fs p =
     (if p = [] then Inl ENOENT
      else let es = resolve fs p; ds = parents es @ [es] in
        if list_ex (\<lambda>d. isFile (nodeAt fs d)) ds then Inl ENOTDIR
        else Inr (fold (\<lambda>d fs. if nodeAt fs d = None then setNode d NDir fs else fs) ds fs))"

text \<open>The entries of a directory, sorted by name as \<^verbatim>\<open>os.ReadDir\<close> documents.\<close>

definition childrenOf :: "fsys \<Rightarrow> fpath \<Rightarrow> string list" where
  "childrenOf fs es =
     sort (map last (filter (\<lambda>k. k \<noteq> [] \<and> butlast k = es) (map fst (fs_nodes fs))))"

definition os_ReadDir :: "fsys \<Rightarrow> string \<Rightarrow> string list os" where
  "os_ReadDir fs p =
     (case os_Stat fs p of
        Inl e \<Rightarrow> Inl e
      | Inr (NFile _) \<Rightarrow> Inl ENOTDIR
      | Inr NDir \<Rightarrow> Inr (childrenOf fs (resolve fs p)))"

definition os_IsNotExist :: "os_error \<Rightarrow> bool" where
  "os_IsNotExist e \<longleftrightarrow> e = ENOENT"

definition Abs :: "fsys \<Rightarrow> string \<Rightarrow> string" where
  "Abs fs p = (if IsAbs p then Clean p else JoinPath [fs_cwd fs, p])"

fun errnoText :: "os_error \<Rightarrow> string" where
  "errnoText ENOENT = ''no such file or directory''"
| "errnoText ENOTDIR = ''not a directory''"
| "errnoText EISDIR = ''is a directory''"

text \<open>A \<^verbatim>\<open>PathError\<close> prints as operation, path and error.\<close>

definition pathError :: "string \<Rightarrow> string \<Rightarrow> os_error \<Rightarrow> string" where
  "pathError opn p e = opn @ '' '' @ p @ '': '' @ errnoText e"

section \<open>Well-formed file systems\<close>

text \<open>Paths are distinct, and the parent of every entry is a directory.\<close>

definition fs_wf :: "fsys \<Rightarrow> bool" where
  "fs_wf fs \<longleftrightarrow> mwf (fs_nodes fs) \<and>
     (\<forall>es. es \<noteq> [] \<and> nodeAt fs es \<noteq> None \<longrightarrow> nodeAt fs (butlast es) = Some NDir)"

lemma nodeAt_setNode [simp]:
  "nodeAt (setNode es n fs) es' = (if es' = [] then Some NDir else if es' = es then Some n else nodeAt fs es')"
  by (simp add: nodeAt_def setNode_def)

lemma setNode_env [simp]:
  "fs_cwd (setNode es n fs) = fs_cwd fs" "fs_exe (setNode es n fs) = fs_exe fs"
  "resolve (setNode es n fs) = resolve fs"
  by (simp_all add: setNode_def resolve_def fun_eq_iff)

lemma nodeAt_Nil [simp]: "nodeAt fs [] = Some NDir"
  by (simp add: nodeAt_def)

lemma setNode_wf:
  assumes "fs_wf fs" and "es \<noteq> []" and "nodeAt fs (butlast es) = Some NDir"
    and "n = NDir \<or> nodeAt fs es \<noteq> Some NDir"
  shows "fs_wf (setNode es n fs)"
  unfolding fs_wf_def
proof (intro conjI allI impI)
  show "mwf (fs_nodes (setNode es n fs))" using assms(1) by (simp add: setNode_def fs_wf_def)
next
  fix xs
  assume xs: "xs \<noteq> [] \<and> nodeAt (setNode es n fs) xs \<noteq> None"
  have *: "nodeAt fs (butlast xs) = Some NDir"
    using xs assms(1,3) by (cases "xs = es") (auto simp: fs_wf_def)
  show "nodeAt (setNode es n fs) (butlast xs) = Some NDir"
  proof (cases "butlast xs = es")
    case True
    with * assms(4) show ?thesis by auto
  qed (use * in auto)
qed

text \<open>The contract between programs and a file store: what a successful write does to every read.\<close>

locale file_store =
  fixes readf :: "'s \<Rightarrow> 'p \<Rightarrow> 'c option"
    and writef :: "'s \<Rightarrow> 'p \<Rightarrow> 'c \<Rightarrow> 's option"
    and same :: "'s \<Rightarrow> 'p \<Rightarrow> 'p \<Rightarrow> bool"
  assumes read_write: "writef s p c = Some s' \<Longrightarrow> readf s' q = (if same s p q then Some c else readf s q)"
    and same_write: "writef s p c = Some s' \<Longrightarrow> same s' = same s"
    and same_refl: "writef s p c = Some s' \<Longrightarrow> same s p p"
    and write_again: "writef s p c = Some s' \<Longrightarrow> writef s' p d \<noteq> None"
begin

lemma read_back: "writef s p c = Some s' \<Longrightarrow> readf s' p = Some c"
  using read_write same_refl by simp

text \<open>A second write to the same path hides the first one.\<close>

lemma overwrite:
  assumes "writef s p c = Some s1"
  obtains s2 where "writef s1 p d = Some s2"
    and "\<forall>q. readf s2 q = (if same s p q then Some d else readf s q)"
proof -
  obtain s2 where s2: "writef s1 p d = Some s2" using write_again [OF assms, of d] by auto
  have "readf s2 q = (if same s p q then Some d else readf s q)" for q
    using read_write [OF s2, of q] read_write [OF assms, of q] same_write [OF assms] by simp
  with s2 show ?thesis using that by blast
qed

text \<open>A loop of writes: each place keeps what was written to it if no two iterations write to the same
  place, and no other place changes.\<close>

lemma loop_same:
  assumes "fold_res f s xs = Inr s'" and "\<And>s x t. f s x = Inr t \<Longrightarrow> \<exists>c. writef s (place x) c = Some t"
  shows "same s' = same s"
  using fold_res_invariant [where P = "\<lambda>t. same t = same s", OF assms(1)] assms(2) same_write by metis

lemma loop_frame:
  assumes "fold_res f s xs = Inr s'" and step: "\<And>s x t. f s x = Inr t \<Longrightarrow> \<exists>c. writef s (place x) c = Some t"
    and "\<forall>x\<in>set xs. \<not> same s (place x) q"
  shows "readf s' q = readf s q"
  using assms(1,3)
proof (induction xs arbitrary: s)
  case (Cons x xs)
  from Cons.prems(1) obtain t where "f s x = Inr t" and t1: "fold_res f t xs = Inr s'"
    by (auto simp: bind_res_Inr_iff)
  with step obtain c where "writef s (place x) c = Some t" by blast
  note t = t1 this
  with Cons.IH [OF t(1)] Cons.prems(2) same_write [OF t(2)] read_write [OF t(2), of q] show ?case by simp
qed simp

lemma loop_written:
  assumes "fold_res f s xs = Inr s'" and step: "\<And>s x t. f s x = Inr t \<Longrightarrow> writef s (place x) (contents x) = Some t"
    and "distinct xs" and "\<forall>x\<in>set xs. \<forall>y\<in>set xs. x \<noteq> y \<longrightarrow> \<not> same s (place x) (place y)" and "x \<in> set xs"
  shows "readf s' (place x) = Some (contents x)"
  using assms(1,3-)
proof (induction xs arbitrary: s)
  case (Cons y ys)
  then obtain t where t: "fold_res f t ys = Inr s'" "writef s (place y) (contents y) = Some t"
    using step by (auto simp: bind_res_Inr_iff)
  note sw = same_write [OF t(2)]
  show ?case
  proof (cases "x = y")
    case True
    with Cons.prems have "\<forall>z\<in>set ys. \<not> same t (place z) (place y)" by (auto simp: sw)
    from loop_frame [OF t(1) _ this] step read_back [OF t(2)] True show ?thesis by metis
  next
    case False
    with Cons.IH [OF t(1)] Cons.prems sw show ?thesis by auto
  qed
qed simp

end

definition readOpt :: "fsys \<Rightarrow> string \<Rightarrow> string option" where
  "readOpt fs p = (case os_ReadFile fs p of Inl _ \<Rightarrow> None | Inr s \<Rightarrow> Some s)"

definition writeOpt :: "fsys \<Rightarrow> string \<Rightarrow> string \<Rightarrow> fsys option" where
  "writeOpt fs p s = (case os_WriteFile fs p s of Inl _ \<Rightarrow> None | Inr fs' \<Rightarrow> Some fs')"

definition sameFile :: "fsys \<Rightarrow> string \<Rightarrow> string \<Rightarrow> bool" where
  "sameFile fs p q \<longleftrightarrow> p \<noteq> [] \<and> q \<noteq> [] \<and> resolve fs p = resolve fs q"

lemma readOpt_nodeAt:
  "readOpt fs p = (if p = [] then None else
     case nodeAt fs (resolve fs p) of Some (NFile s) \<Rightarrow> Some s | _ \<Rightarrow> None)"
  by (auto simp: readOpt_def os_ReadFile_def os_Stat_def split: option.splits node.splits)

lemma readOpt_Some:
  "readOpt fs p = Some s \<longleftrightarrow> p \<noteq> [] \<and> nodeAt fs (resolve fs p) = Some (NFile s)"
  by (simp add: readOpt_nodeAt split: option.splits node.splits)

lemma readOpt_eqI: "(\<And>s. readOpt fs p = Some s \<longleftrightarrow> readOpt fs' p = Some s) \<Longrightarrow> readOpt fs p = readOpt fs' p"
  by (metis not_None_eq)

lemma writeOpt_Some:
  "writeOpt fs p s = Some fs' \<longleftrightarrow>
     p \<noteq> [] \<and> fs' = setNode (resolve fs p) (NFile s) fs \<and> nodeAt fs (resolve fs p) \<noteq> Some NDir \<and>
     (nodeAt fs (resolve fs p) = None \<longrightarrow> nodeAt fs (butlast (resolve fs p)) = Some NDir)"
  by (auto simp: writeOpt_def os_WriteFile_def Let_def split: option.splits node.splits if_splits)

lemma os_ReadFile_Inr: "os_ReadFile fs p = Inr s \<longleftrightarrow> readOpt fs p = Some s"
  by (simp add: readOpt_def split: sum.splits)

lemma os_WriteFile_Inr: "os_WriteFile fs p s = Inr fs' \<longleftrightarrow> writeOpt fs p s = Some fs'"
  by (simp add: writeOpt_def split: sum.splits)

interpretation fstore: file_store readOpt writeOpt sameFile
proof
  fix fs p c fs' q d
  assume w: "writeOpt fs p c = Some fs'"
  then have ne: "resolve fs p \<noteq> []" by (auto simp: writeOpt_Some)
  from w ne show "readOpt fs' q = (if sameFile fs p q then Some c else readOpt fs q)"
    by (auto simp: writeOpt_Some readOpt_nodeAt sameFile_def)
  from w show "sameFile fs' = sameFile fs"
    by (auto simp: writeOpt_Some sameFile_def fun_eq_iff)
  from w show "sameFile fs p p" by (auto simp: writeOpt_Some sameFile_def)
  from w ne show "writeOpt fs' p d \<noteq> None"
    by (auto simp: writeOpt_Some)
qed

lemma fs_wf_parent:
  "fs_wf fs \<Longrightarrow> es \<noteq> [] \<Longrightarrow> nodeAt fs es \<noteq> None \<Longrightarrow> nodeAt fs (butlast es) = Some NDir"
  by (simp add: fs_wf_def)

lemma writeOpt_wf:
  assumes "fs_wf fs" and "writeOpt fs p s = Some fs'"
  shows "fs_wf fs'"
proof -
  let ?es = "resolve fs p"
  from assms(2) have fs': "fs' = setNode ?es (NFile s) fs" and nd: "nodeAt fs ?es \<noteq> Some NDir"
    and par: "nodeAt fs ?es = None \<longrightarrow> nodeAt fs (butlast ?es) = Some NDir"
    by (auto simp: writeOpt_Some)
  from nd have ne: "?es \<noteq> []" by auto
  with assms(1) par have "nodeAt fs (butlast ?es) = Some NDir" using fs_wf_parent by metis
  with assms(1) ne nd show ?thesis unfolding fs' by (intro setNode_wf) auto
qed

section \<open>Creating directories\<close>

definition addDir :: "fpath \<Rightarrow> fsys \<Rightarrow> fsys" where
  "addDir d fs = (if nodeAt fs d = None then setNode d NDir fs else fs)"

lemma nodeAt_addDirs:
  "nodeAt (fold addDir ds fs) es =
     (if es \<in> set ds \<and> nodeAt fs es = None then Some NDir else nodeAt fs es)"
  by (induction ds arbitrary: fs) (auto simp: addDir_def)

lemma addDirs_env [simp]:
  "fs_cwd (fold addDir ds fs) = fs_cwd fs" "fs_exe (fold addDir ds fs) = fs_exe fs"
  "resolve (fold addDir ds fs) = resolve fs"
  by (induction ds arbitrary: fs) (auto simp: addDir_def)

lemma addDirs_mwf: "mwf (fs_nodes fs) \<Longrightarrow> mwf (fs_nodes (fold addDir ds fs))"
  by (induction ds arbitrary: fs) (auto simp: addDir_def setNode_def)

definition upTo :: "fpath \<Rightarrow> fpath list" where
  "upTo es = parents es @ [es]"

lemma set_upTo: "set (upTo es) = (\<lambda>i. take i es) ` {..length es}"
  by (auto simp: upTo_def parents_def image_iff less_Suc_eq_le atLeast0LessThan)
    (metis atMost_iff le_neq_implies_less lessThan_iff take_all order_refl)

lemma butlast_upTo: "d \<in> set (upTo es) \<Longrightarrow> butlast d \<in> set (upTo es)"
proof -
  assume "d \<in> set (upTo es)"
  then obtain i where "i \<le> length es" "d = take i es" by (auto simp: set_upTo)
  then have "butlast d = take (i - 1) es" "i - 1 \<le> length es" by (auto simp: butlast_conv_take min_def)
  then show ?thesis by (auto simp: set_upTo)
qed

lemma os_MkdirAll_Inr:
  "os_MkdirAll fs p = Inr fs' \<longleftrightarrow>
     p \<noteq> [] \<and> (\<forall>d\<in>set (upTo (resolve fs p)). \<not> isFile (nodeAt fs d)) \<and>
     fs' = fold addDir (upTo (resolve fs p)) fs"
  by (auto simp: os_MkdirAll_def Let_def upTo_def list_ex_iff addDir_def [abs_def])

lemma isFile_iff: "isFile n \<longleftrightarrow> (\<exists>s. n = Some (NFile s))"
  by (cases n rule: isFile.cases) auto

lemma os_MkdirAll_wf:
  assumes "fs_wf fs" and "os_MkdirAll fs p = Inr fs'"
  shows "fs_wf fs'" and "nodeAt fs' (resolve fs p) = Some NDir"
    and "\<And>es s. nodeAt fs' es = Some (NFile s) \<longleftrightarrow> nodeAt fs es = Some (NFile s)"
proof -
  let ?ds = "upTo (resolve fs p)"
  from assms(2) have fs': "fs' = fold addDir ?ds fs"
    and nf: "\<And>d. d \<in> set ?ds \<Longrightarrow> \<not> isFile (nodeAt fs d)"
    by (simp_all add: os_MkdirAll_Inr)
  have dirs: "nodeAt fs' d = Some NDir" if "d \<in> set ?ds" for d
    using nf [OF that] that
    by (cases "nodeAt fs d" rule: isFile.cases) (simp_all add: fs' nodeAt_addDirs)
  show "nodeAt fs' (resolve fs p) = Some NDir" by (rule dirs) (simp add: upTo_def)
  show "nodeAt fs' es = Some (NFile s) \<longleftrightarrow> nodeAt fs es = Some (NFile s)" for es s
    by (simp add: fs' nodeAt_addDirs)
  show "fs_wf fs'"
    unfolding fs_wf_def
  proof (intro conjI allI impI)
    show "mwf (fs_nodes fs')" using assms(1) by (simp add: fs' addDirs_mwf fs_wf_def)
    fix es assume es: "es \<noteq> [] \<and> nodeAt fs' es \<noteq> None"
    show "nodeAt fs' (butlast es) = Some NDir"
    proof (cases "es \<in> set ?ds")
      case True
      then show ?thesis by (intro dirs butlast_upTo)
    next
      case False
      with es have "nodeAt fs es \<noteq> None" by (simp add: fs' nodeAt_addDirs)
      with es assms(1) have "nodeAt fs (butlast es) = Some NDir" by (intro fs_wf_parent) auto
      then show ?thesis by (simp add: fs' nodeAt_addDirs)
    qed
  qed
qed

section \<open>Resolving composed paths\<close>

lemma resolve_Clean: "resolve fs (Clean p) = resolve fs p"
proof (cases "IsAbs p")
  case True
  then show ?thesis by (simp add: resolve_def IsAbs_Clean elems_Clean cleanElems_idem)
next
  case False
  have "cleanElems True (elems (fs_cwd fs) @ cleanElems False (elems p)) = cleanElems True (elems (fs_cwd fs) @ elems p)"
    by (simp add: cleanElems_def cleanStack_append cleanStack_clean)
  with False show ?thesis by (simp add: resolve_def IsAbs_Clean elems_append elems_Clean)
qed

text \<open>A name that may stand as one element below a directory.\<close>

definition goodName :: "string \<Rightarrow> bool" where
  "goodName b \<longleftrightarrow> plainElem b \<and> b \<noteq> ''..''"

lemma resolve_child:
  assumes "goodName b" and "p \<noteq> []"
  shows "resolve fs (p @ slash @ b) = resolve fs p @ [b]"
proof (cases "IsAbs p")
  case True
  then have "IsAbs (p @ slash @ b)" by (auto simp: IsAbs_def HasPrefix_iff)
  with True assms show ?thesis
    by (simp add: resolve_def elems_append elems_plainElem cleanElems_snoc goodName_def)
next
  case False
  with assms(2) have "\<not> IsAbs (p @ slash @ b)" by (cases p) (auto simp: IsAbs_def slash_def)
  with False assms show ?thesis
    using elems_append [of "fs_cwd fs @ slash @ p" b]
    by (simp add: resolve_def elems_plainElem cleanElems_snoc goodName_def)
qed

lemma resolve_JoinPath:
  assumes "goodName b" and "p \<noteq> []"
  shows "resolve fs (JoinPath [p, b]) = resolve fs p @ [b]" and "JoinPath [p, b] \<noteq> []"
proof -
  have "b \<noteq> []" using assms(1) by (simp add: goodName_def plainElem_def)
  with assms(2) have "JoinPath [p, b] = Clean (p @ slash @ b)" by (simp add: JoinPath_def)
  then show "resolve fs (JoinPath [p, b]) = resolve fs p @ [b]" "JoinPath [p, b] \<noteq> []"
    using resolve_child [OF assms] by (simp_all add: resolve_Clean)
qed

lemma resolve_dirPart:
  assumes "goodName (lastElem p)"
  shows "resolve fs p = resolve fs (dirPart p) @ [lastElem p]"
proof -
  let ?b = "lastElem p"
  have p: "p = dirPart p @ ?b" by (simp add: dirPart_lastElem)
  show ?thesis
  proof (cases "dirPart p = []")
    case True
    then have "\<not> IsAbs ?b" using lastElem_no_slash [of p] by (cases ?b) (auto simp: IsAbs_def slash_def)
    moreover have "\<not> IsAbs []" by (simp add: IsAbs_def slash_def)
    ultimately show ?thesis
      using True p assms
      by (auto simp: resolve_def elems_append elems_slash_end elems_plainElem cleanElems_snoc goodName_def)
  next
    case False
    then obtain d where d: "dirPart p = d @ slash" using dirPart_cases [of p] by blast
    show ?thesis
    proof (cases "d = []")
      case True
      with d p have "p = slash @ ?b" "dirPart p = slash" by simp_all
      moreover have "resolve fs (slash @ ?b) = [?b]"
        using assms by (simp add: resolve_def IsAbs_def elems_rooted elems_plainElem goodName_def cleanElems_def)
      ultimately have "resolve fs p = [?b]" "dirPart p = slash" by simp_all
      then show ?thesis by (simp add: resolve_def IsAbs_def elems_def Split_def slash_def cleanElems_def)
    next
      case ne: False
      have "resolve fs (d @ slash) = resolve fs (d)"
      proof (cases "IsAbs (d)")
        case True
        then have "IsAbs (d @ slash)" by (auto simp: IsAbs_def HasPrefix_iff)
        with True show ?thesis by (simp add: resolve_def elems_slash_end)
      next
        case False
        with ne have "\<not> IsAbs (d @ slash)" by (cases "d") (auto simp: IsAbs_def slash_def)
        with False show ?thesis using elems_slash_end [of "fs_cwd fs @ slash @ d"] by (simp add: resolve_def)
      qed
      moreover have "p = d @ slash @ ?b" using p d by simp
      ultimately show ?thesis using resolve_child [OF assms ne, of fs] d by simp
    qed
  qed
qed

lemma resolve_Dir: "goodName (lastElem p) \<Longrightarrow> resolve fs p = resolve fs (Dir p) @ [lastElem p]"
  by (simp add: Dir_def resolve_Clean resolve_dirPart)

lemma resolve_goodNames: "list_all goodName (resolve fs p)"
proof -
  obtain st where st: "goodStack True st" "resolve fs p = rev st"
    using cleanElems_good unfolding resolve_def by metis
  have "list_all goodName st" using st(1) by (induction st) (auto simp: goodName_def)
  then show ?thesis by (simp add: st(2))
qed

end
