(* ===== verification/FilesHandler.thy ===== *)
theory FilesHandler
  imports GoFS PolicyTypes
begin

text \<open>
  \<^verbatim>\<open>ztp/policygenerator/utils/filesHandler.go\<close>: where the generator reads its templates and source
  CRs from and where it writes its output. Each method takes the file system it acts on; a method
  that writes returns the new one.
\<close>

record FilesHandler =
  fh_sourceDir :: string
  fh_PgtDir :: string
  fh_OutDir :: string

definition NewFilesHandler :: "string \<Rightarrow> string \<Rightarrow> string \<Rightarrow> FilesHandler" where
  "NewFilesHandler sourceDir pgtDir OutDir =
     \<lparr>fh_sourceDir = sourceDir, fh_PgtDir = pgtDir, fh_OutDir = OutDir\<rparr>"

definition osRes :: "string \<Rightarrow> string \<Rightarrow> 'a os \<Rightarrow> 'a res" where
  "osRes opn p r = (case r of Inl e \<Rightarrow> Inl (Error (pathError opn p e)) | Inr x \<Rightarrow> Inr x)"

text \<open>The error of \<^verbatim>\<open>os.MkdirAll\<close> is ignored, and a path without a slash makes the slice expression
  panic.\<close>

definition ensureDir :: "fsys \<Rightarrow> string \<Rightarrow> fsys" where
  "ensureDir fs path =
     (case os_Stat fs path of
        Inr _ \<Rightarrow> fs
      | Inl e \<Rightarrow>
          if os_IsNotExist e
          then (case os_MkdirAll fs path of Inl _ \<Rightarrow> fs | Inr fs' \<Rightarrow> fs')
          else fs)"

definition FilesHandler_WriteFile :: "FilesHandler \<Rightarrow> fsys \<Rightarrow> string \<Rightarrow> string \<Rightarrow> fsys res" where
  "FilesHandler_WriteFile fh fs filePath content =
     (if CHR ''/'' \<notin> set filePath then Inl (Panic ''slice bounds out of range [:-1]'')
      else let path = fh_OutDir fh @ slash @ butlast (dirPart filePath);
               target = fh_OutDir fh @ slash @ filePath in
        osRes ''open'' target (os_WriteFile (ensureDir fs path) target content))"

definition getFiles :: "fsys \<Rightarrow> string \<Rightarrow> string list res" where
  "getFiles fs path = osRes ''open'' path (os_ReadDir fs path)"

definition FilesHandler_ReadFile :: "fsys \<Rightarrow> string \<Rightarrow> string res" where
  "FilesHandler_ReadFile fs filePath = osRes ''open'' filePath (os_ReadFile fs filePath)"

definition GetTempFiles :: "FilesHandler \<Rightarrow> fsys \<Rightarrow> string list res" where
  "GetTempFiles fh fs = getFiles fs (fh_PgtDir fh)"

definition ReadTempFile :: "FilesHandler \<Rightarrow> fsys \<Rightarrow> string \<Rightarrow> string res" where
  "ReadTempFile fh fs fileName = FilesHandler_ReadFile fs (fh_PgtDir fh @ slash @ fileName)"

definition GetSourceFiles :: "FilesHandler \<Rightarrow> fsys \<Rightarrow> string \<Rightarrow> string list res" where
  "GetSourceFiles fh fs subDir = getFiles fs (fh_sourceDir fh @ slash @ subDir)"

definition sourceCRPathGit :: "fsys \<Rightarrow> string \<Rightarrow> string" where
  "sourceCRPathGit fs fileName = fs_cwd fs @ slash @ SourceCRsPath @ slash @ fileName"

definition sourceCRPathLocal :: "fsys \<Rightarrow> string \<Rightarrow> string" where
  "sourceCRPathLocal fs fileName = Dir (fs_exe fs) @ slash @ SourceCRsPath @ slash @ fileName"

definition notFoundMessage :: "fsys \<Rightarrow> string \<Rightarrow> string" where
  "notFoundMessage fs fileName =
     fileName @ '' is not found both in Git path: '' @ sourceCRPathGit fs fileName @
     '' and in the ztp container path: '' @ sourceCRPathLocal fs fileName"

definition ReadSourceCRFile :: "fsys \<Rightarrow> string \<Rightarrow> string res" where
  "ReadSourceCRFile fs fileName =
     (case os_ReadFile fs (sourceCRPathGit fs fileName) of
        Inl ENOENT \<Rightarrow>
          (case os_ReadFile fs (sourceCRPathLocal fs fileName) of
             Inl ENOENT \<Rightarrow> Inl (Error (notFoundMessage fs fileName))
           | r \<Rightarrow> osRes ''open'' (sourceCRPathLocal fs fileName) r)
      | r \<Rightarrow> osRes ''open'' (sourceCRPathGit fs fileName) r)"

definition ReadSourceFile :: "FilesHandler \<Rightarrow> fsys \<Rightarrow> string \<Rightarrow> string res" where
  "ReadSourceFile fh fs fileName =
     (if fh_sourceDir fh = SourceCRsPath then ReadSourceCRFile fs fileName
      else FilesHandler_ReadFile fs (fh_sourceDir fh @ slash @ fileName))"

lemma osRes_Inr_iff [res_simps]: "osRes opn p r = Inr x \<longleftrightarrow> r = Inr x"
  by (simp add: osRes_def split: sum.splits)

lemma osRes_Inr [simp]: "osRes opn p (Inr x) = Inr x"
  by (simp add: osRes_def)

section \<open>Lemmas\<close>

text \<open>The directory of an output file is there after \<open>ensureDir\<close>, when no file stands in its way.\<close>

lemma ensureDir_dir:
  assumes "fs_wf fs" and "p \<noteq> []" and "\<forall>d\<in>set (upTo (resolve fs p)). \<not> isFile (nodeAt fs d)"
  shows "nodeAt (ensureDir fs p) (resolve fs p) = Some NDir"
    and "fs_wf (ensureDir fs p)"
    and "resolve (ensureDir fs p) = resolve fs"
    and "nodeAt (ensureDir fs p) es = Some (NFile s) \<longleftrightarrow> nodeAt fs es = Some (NFile s)"
    and "nodeAt (ensureDir fs p) es = Some NDir \<Longrightarrow> nodeAt fs es = Some NDir \<or> es \<in> set (upTo (resolve fs p))"
proof -
  let ?es = "resolve fs p"
  have "nodeAt (ensureDir fs p) ?es = Some NDir \<and> fs_wf (ensureDir fs p) \<and>
    resolve (ensureDir fs p) = resolve fs \<and>
    (nodeAt (ensureDir fs p) es = Some (NFile s) \<longleftrightarrow> nodeAt fs es = Some (NFile s)) \<and>
    (nodeAt (ensureDir fs p) es = Some NDir \<longrightarrow> nodeAt fs es = Some NDir \<or> es \<in> set (upTo ?es))"
  proof (cases "nodeAt fs ?es")
    case None
    have "missingError fs ?es = ENOENT"
      using assms(3) by (auto simp: missingError_def list_ex_iff upTo_def)
    with None assms(2) have e: "ensureDir fs p = (case os_MkdirAll fs p of Inl _ \<Rightarrow> fs | Inr fs' \<Rightarrow> fs')"
      by (simp add: ensureDir_def os_Stat_def os_IsNotExist_def)
    obtain fs' where m: "os_MkdirAll fs p = Inr fs'" and f: "fs' = fold addDir (upTo ?es) fs"
      using assms(2,3) by (simp add: os_MkdirAll_Inr)
    with e show ?thesis
      using os_MkdirAll_wf [OF assms(1) m] by (simp add: nodeAt_addDirs)
  next
    case (Some n)
    moreover have "n = NDir"
      using Some assms(3) by (cases n) (auto simp: upTo_def)
    ultimately show ?thesis using assms(1,2) by (simp add: ensureDir_def os_Stat_def)
  qed
  then show "nodeAt (ensureDir fs p) ?es = Some NDir" "fs_wf (ensureDir fs p)"
    "resolve (ensureDir fs p) = resolve fs"
    "nodeAt (ensureDir fs p) es = Some (NFile s) \<longleftrightarrow> nodeAt fs es = Some (NFile s)"
    "nodeAt (ensureDir fs p) es = Some NDir \<Longrightarrow> nodeAt fs es = Some NDir \<or> es \<in> set (upTo ?es)"
    by blast+
qed

lemma upTo_length: "d \<in> set (upTo es) \<Longrightarrow> length d \<le> length es"
  by (auto simp: set_upTo)

section \<open>Properties\<close>

text \<open>Output files: writing \<^verbatim>\<open>dir/name\<close> creates the missing directories below the output directory
  and succeeds unless a file stands where a directory is needed or a directory where the file is;
  the file then holds exactly the content, no other file has changed, and the file system is
  well-formed.\<close>

theorem FilesHandler_WriteFile_roundtrip:
  assumes "fs_wf fs" and "plainElem b" and "b \<noteq> ''..''"
    and "\<forall>d\<in>set (upTo (resolve fs (fh_OutDir fh @ slash @ dir))). \<not> isFile (nodeAt fs d)"
    and "nodeAt fs (resolve fs (fh_OutDir fh @ slash @ dir) @ [b]) \<noteq> Some NDir"
  shows "\<exists>fs'. FilesHandler_WriteFile fh fs (dir @ slash @ b) content = Inr fs' \<and> fs_wf fs' \<and>
    FilesHandler_ReadFile fs' (fh_OutDir fh @ slash @ dir @ slash @ b) = Inr content \<and>
    (\<forall>q. \<not> sameFile fs (fh_OutDir fh @ slash @ dir @ slash @ b) q \<longrightarrow> readOpt fs' q = readOpt fs q)"
proof -
  let ?p = "fh_OutDir fh @ slash @ dir"
  let ?t = "fh_OutDir fh @ slash @ dir @ slash @ b"
  let ?e = "ensureDir fs ?p"
  have ne: "?p \<noteq> []" and tne: "?t \<noteq> []" by (simp_all add: slash_def)
  have res: "resolve fs ?t = resolve fs ?p @ [b]"
    using resolve_child [OF _ ne, of b] assms(2,3) by (simp add: goodName_def)
  note ed = ensureDir_dir [OF assms(1) ne assms(4)]
  have notdir: "nodeAt ?e (resolve fs ?t) \<noteq> Some NDir"
    using ed(5) [of "resolve fs ?t"] assms(5) res upTo_length [of "resolve fs ?t" "resolve fs ?p"] by auto
  have "\<exists>fs'. writeOpt ?e ?t content = Some fs'"
    using notdir ed(1) res tne by (simp add: writeOpt_Some ed(3))
  then obtain fs' where w: "writeOpt ?e ?t content = Some fs'" by blast
  have "CHR ''/'' \<notin> set b" using assms(2) by (simp add: plainElem_def)
  then have "butlast (dirPart (dir @ slash @ b)) = dir" by (simp add: dirPart_slash) (simp add: slash_def)
  moreover have "CHR ''/'' \<in> set (dir @ slash @ b)" by (simp add: slash_def)
  ultimately have "FilesHandler_WriteFile fh fs (dir @ slash @ b) content = Inr fs'"
    using w by (simp add: FilesHandler_WriteFile_def os_WriteFile_Inr res_simps Let_def)
  moreover have "FilesHandler_ReadFile fs' ?t = Inr content"
    using fstore.read_back [OF w] by (simp add: FilesHandler_ReadFile_def res_simps os_ReadFile_Inr)
  moreover have "readOpt fs' q = readOpt fs q" if "\<not> sameFile fs ?t q" for q
  proof -
    have "readOpt ?e q = readOpt fs q"
      by (rule readOpt_eqI) (simp add: readOpt_Some ed(3,4))
    moreover have "\<not> sameFile ?e ?t q" using that by (simp add: sameFile_def ed(3))
    ultimately show ?thesis using fstore.read_write [OF w, of q] by simp
  qed
  ultimately show ?thesis using writeOpt_wf [OF ed(2) w] by blast
qed

definition demoFS :: fsys where
  "demoFS = \<lparr>fs_nodes = [([''w''], NDir), ([''w'', ''source-crs''], NDir), ([''w'', ''source-crs'', ''a''], NFile ''git'')],
     fs_cwd = ''/w'', fs_exe = ''/b/pg''\<rparr>"

lemma demoFS_wf: "fs_wf demoFS"
  by (auto simp: fs_wf_def demoFS_def nodeAt_def mwf_def split: if_splits)

lemma demoFS_out: "resolve demoFS (''out'' @ slash @ ''d'') = [''w'', ''out'', ''d'']"
  by (simp add: resolve_def demoFS_def IsAbs_def slash_def elems_def Split_def cleanElems_def)

theorem FilesHandler_WriteFile_roundtrip_witness:
  "\<exists>fs'. FilesHandler_WriteFile (NewFilesHandler ''s'' ''t'' ''out'') demoFS (''d'' @ slash @ ''n'') ''x'' = Inr fs' \<and>
     FilesHandler_ReadFile fs' (''out'' @ slash @ ''d'' @ slash @ ''n'') = Inr ''x''"
proof -
  have o: "fh_OutDir (NewFilesHandler ''s'' ''t'' ''out'') = ''out''" by (simp add: NewFilesHandler_def)
  have d: "\<forall>d\<in>set (upTo [''w'', ''out'', ''d'']). \<not> isFile (nodeAt demoFS d)"
    "nodeAt demoFS ([''w'', ''out'', ''d''] @ [''n'']) \<noteq> Some NDir"
    by (simp_all add: upTo_def parents_def upt_rec nodeAt_def demoFS_def)
  have n: "plainElem ''n''" "''n'' \<noteq> ''..''" by (simp_all add: plainElem_def)
  from FilesHandler_WriteFile_roundtrip
    [OF demoFS_wf n, of "NewFilesHandler ''s'' ''t'' ''out''" "''d''" "''x''", unfolded o demoFS_out, OF d]
  show ?thesis by blast
qed

text \<open>Source CRs: the copy in the Git checkout shadows the copy in the container image, the image's
  copy is used only when the checkout has none, and a file found in neither place is an error that
  names both paths.\<close>

theorem ReadSourceFile_shadowing:
  assumes "fh_sourceDir fh = SourceCRsPath"
  shows "ReadSourceFile fh fs f =
    (case os_ReadFile fs (sourceCRPathGit fs f) of
       Inr s \<Rightarrow> Inr s
     | Inl e \<Rightarrow>
         if e \<noteq> ENOENT then Inl (Error (pathError ''open'' (sourceCRPathGit fs f) e))
         else (case os_ReadFile fs (sourceCRPathLocal fs f) of
             Inr s \<Rightarrow> Inr s
           | Inl ENOENT \<Rightarrow> Inl (Error (notFoundMessage fs f))
           | Inl e' \<Rightarrow> Inl (Error (pathError ''open'' (sourceCRPathLocal fs f) e'))))"
  using assms
  by (simp add: ReadSourceFile_def ReadSourceCRFile_def osRes_def split: sum.splits os_error.splits)

theorem ReadSourceFile_shadowing_witness:
  "ReadSourceFile (NewFilesHandler ''source-crs'' ''t'' ''out'') demoFS ''a'' = Inr ''git'' \<and>
   ReadSourceFile (NewFilesHandler ''source-crs'' ''t'' ''out'') demoFS ''b'' = Inl (Error (notFoundMessage demoFS ''b''))"
proof -
  have h: "fh_sourceDir (NewFilesHandler ''source-crs'' ''t'' ''out'') = SourceCRsPath"
    by (simp add: NewFilesHandler_def SourceCRsPath_def)
  have r: "os_ReadFile demoFS (sourceCRPathGit demoFS ''a'') = Inr ''git''"
    "os_ReadFile demoFS (sourceCRPathGit demoFS ''b'') = Inl ENOENT"
    "os_ReadFile demoFS (sourceCRPathLocal demoFS ''b'') = Inl ENOENT"
    by (simp_all add: os_ReadFile_def os_Stat_def sourceCRPathGit_def sourceCRPathLocal_def demoFS_def
        resolve_def IsAbs_def slash_def SourceCRsPath_def elems_def Split_def cleanElems_def nodeAt_def
        missingError_def parents_def upt_rec Dir_def dirPart_def Clean_def render_def)
  show ?thesis
    using ReadSourceFile_shadowing [OF h, of demoFS "''a''"] ReadSourceFile_shadowing [OF h, of demoFS "''b''"] r
    by simp
qed

end
