(* ===== verification/PolicyBuilder.thy ===== *)
theory PolicyBuilder
  imports CustomResource PolicyHelper FilesHandler
begin

text \<open>
  The policy builder (\<^verbatim>\<open>policyGen/policyBuilder.go\<close>): \<^verbatim>\<open>createAcmPolicy\<close>, \<^verbatim>\<open>AppendAcmPolicy\<close> and the loop of
  \<^verbatim>\<open>Build\<close> over the source files of a PolicyGenTemplate.

  The object definitions of a policy and the CRs it was built from are the same Go maps, so what
  \<^verbatim>\<open>SetPolicyDeployWave\<close> deletes from a CR after \<^verbatim>\<open>BuildObjectTemplate\<close> is gone from the object
  definition too: \<open>addTemplates\<close> builds the template from the CR that \<^verbatim>\<open>SetPolicyDeployWave\<close> leaves.
  Likewise the policy template slice is shared between the policy in the result map and the copy
  that is being extended; what the code reads from it after the copy is written is never one of the
  fields written in between.
\<close>

section \<open>Policies\<close>

datatype policyOut =
    OutResources "gmap list"
  | OutPolicy AcmPolicy
  | OutRule PlacementRule
  | OutBinding PlacementBinding

record PolicyBuilder =
  pbuilder_fHandler :: FilesHandler

definition NewPolicyBuilder :: "FilesHandler \<Rightarrow> PolicyBuilder" where
  "NewPolicyBuilder fileHandler = \<lparr>pbuilder_fHandler = fileHandler\<rparr>"

text \<open>\<^verbatim>\<open>Spec.PolicyTemplates[0].ObjDef\<close>, read and updated. The code indexes only after it has checked
  that the slice is not empty.\<close>

definition objDef :: "AcmPolicy \<Rightarrow> AcmConfigurationPolicy" where
  "objDef p = pod_ObjDef (hd (aps_PolicyTemplates (ap_Spec p)))"

definition modTemplate0 :: "(AcmConfigurationPolicy \<Rightarrow> AcmConfigurationPolicy) \<Rightarrow> AcmPolicy \<Rightarrow> AcmPolicy" where
  "modTemplate0 f p =
     (case aps_PolicyTemplates (ap_Spec p) of
        [] \<Rightarrow> p
      | t # ts \<Rightarrow>
          p\<lparr>ap_Spec := (ap_Spec p)\<lparr>aps_PolicyTemplates := t\<lparr>pod_ObjDef := f (pod_ObjDef t)\<rparr> # ts\<rparr>\<rparr>)"

abbreviation modSpec0 :: "(acmConfigPolicySpec \<Rightarrow> acmConfigPolicySpec) \<Rightarrow> AcmPolicy \<Rightarrow> AcmPolicy" where
  "modSpec0 f \<equiv> modTemplate0 (\<lambda>d. d\<lparr>acp_Spec := f (acp_Spec d)\<rparr>)"

abbreviation objSpec :: "AcmPolicy \<Rightarrow> acmConfigPolicySpec" where
  "objSpec p \<equiv> acp_Spec (objDef p)"

text \<open>The loop that is common to \<^verbatim>\<open>createAcmPolicy\<close> and \<^verbatim>\<open>AppendAcmPolicy\<close>: one object template per CR,
  and the wave of each CR moved to the policy.\<close>

definition addTemplate ::
  "MetaData \<times> ObjectTemplates list \<Rightarrow> generatedCR \<Rightarrow> (MetaData \<times> ObjectTemplates list) res" where
  "addTemplate st resource =
     bind_res (SetPolicyDeployWave (fst st) resource) (\<lambda>(meta, resource').
       Inr (meta, snd st @ [BuildObjectTemplate resource']))"

definition withTemplates ::
  "ObjectTemplates list \<Rightarrow> generatedCR list \<Rightarrow> AcmPolicy \<Rightarrow> AcmPolicy res" where
  "withTemplates objTempArr resources p =
     bind_res (fold_res addTemplate (ap_Metadata p, objTempArr) resources) (\<lambda>(meta, objs).
       Inr (modSpec0 (\<lambda>s. s\<lparr>cp_ObjectTemplates := objs\<rparr>) (p\<lparr>ap_Metadata := meta\<rparr>)))"

definition missingTemplate :: "string \<Rightarrow> string \<Rightarrow> go_error" where
  "missingTemplate what name = Error (''Missing '' @ what @ '' template in the '' @ name)"

text \<open>Unmarshalling the constant template text gives \<open>acmPolicyTemplate\<close>; the two error messages of
  \<^verbatim>\<open>createAcmPolicy\<close> end with that text, of which the model keeps the name.\<close>

definition createAcmPolicy :: "string \<Rightarrow> string \<Rightarrow> generatedCR list \<Rightarrow> AcmPolicy res" where
  "createAcmPolicy name namespace resources =
     bind_res (CheckNameLength namespace name) (\<lambda>_.
     let acmPolicy = acmPolicyTemplate
           \<lparr>ap_Metadata := (ap_Metadata acmPolicyTemplate)\<lparr>md_Name := name, md_Namespace := namespace\<rparr>\<rparr> in
     if length (aps_PolicyTemplates (ap_Spec acmPolicy)) < 1
     then Inl (missingTemplate ''Policy'' ''acmPolicyTemplate'')
     else let acmPolicy = modTemplate0 (\<lambda>d. d\<lparr>acp_Metadata := (acp_Metadata d)\<lparr>md_Name := name @ ''-config''\<rparr>\<rparr>) acmPolicy in
       if length (cp_ObjectTemplates (objSpec acmPolicy)) < 1
       then Inl (missingTemplate ''Object'' ''acmPolicyTemplate'')
       else withTemplates [] resources acmPolicy)"

definition AppendAcmPolicy :: "AcmPolicy \<Rightarrow> generatedCR list \<Rightarrow> AcmPolicy res" where
  "AppendAcmPolicy acmPolicy resources =
     (if length (aps_PolicyTemplates (ap_Spec acmPolicy)) < 1
      then Inl (missingTemplate ''Policy'' (md_Name (ap_Metadata acmPolicy)))
      else if length (cp_ObjectTemplates (objSpec acmPolicy)) < 1
      then Inl (missingTemplate ''Object'' (md_Name (ap_Metadata acmPolicy)))
      else withTemplates (cp_ObjectTemplates (objSpec acmPolicy)) resources acmPolicy)"

section \<open>Build\<close>

definition setAction :: "string \<Rightarrow> AcmPolicy \<Rightarrow> AcmPolicy" where
  "setAction a p =
     modSpec0 (\<lambda>s. s\<lparr>cp_RemediationAction := a\<rparr>)
       (p\<lparr>ap_Spec := (ap_Spec p)\<lparr>aps_RemediationAction := a\<rparr>\<rparr>)"

definition setInterval :: "EvaluationInterval \<Rightarrow> AcmPolicy \<Rightarrow> AcmPolicy" where
  "setInterval ei = modSpec0 (\<lambda>s. s\<lparr>cp_EvaluationInterval := ei\<rparr>)"

definition intervalMessage :: "string \<Rightarrow> string \<Rightarrow> string \<Rightarrow> string" where
  "intervalMessage whose which e = whose @ '': evaluationInterval.'' @ which @ '' '' @ quoted e"

definition checkInterval :: "string \<Rightarrow> string \<Rightarrow> string \<Rightarrow> unit res" where
  "checkInterval whose which v = map_error (intervalMessage whose which) (validateInterval v)"

text \<open>The generation of a new policy (lines 88 to 126 of \<^verbatim>\<open>Build\<close>).\<close>

definition newPolicy ::
  "PolicyGenTempSpec \<Rightarrow> string \<Rightarrow> string \<Rightarrow> SourceFile \<Rightarrow> generatedCR list \<Rightarrow> AcmPolicy res" where
  "newPolicy spec name namespace sFile resources =
     (let act = sf_RemediationAction sFile; iv = sf_EvaluationInterval sFile;
          giv = ps_EvaluationInterval spec; file = sf_FileName sFile in
      bind_res (createAcmPolicy name namespace resources) (\<lambda>p.
      let p = setAction (if act \<noteq> UnsetStringValue then act else ps_RemediationAction spec) p in
      bind_res (checkInterval ''Spec'' ''compliant'' (ei_Compliant giv)) (\<lambda>_.
      bind_res (checkInterval ''Spec'' ''noncompliant'' (ei_NonCompliant giv)) (\<lambda>_.
      let p = setInterval giv p in
      bind_res
        (if ei_Compliant iv \<noteq> UnsetStringValue
         then bind_res (checkInterval file ''compliant'' (ei_Compliant iv)) (\<lambda>_.
           Inr (modSpec0 (\<lambda>s. s\<lparr>cp_EvaluationInterval :=
             (cp_EvaluationInterval s)\<lparr>ei_Compliant := ei_Compliant iv\<rparr>\<rparr>) p))
         else Inr p) (\<lambda>p.
        if ei_NonCompliant iv \<noteq> UnsetStringValue
        then bind_res (checkInterval file ''noncompliant'' (ei_NonCompliant iv)) (\<lambda>_.
          Inr (modSpec0 (\<lambda>s. s\<lparr>cp_EvaluationInterval :=
            (cp_EvaluationInterval s)\<lparr>ei_NonCompliant := ei_NonCompliant iv\<rparr>\<rparr>) p))
        else Inr p)))))"

definition actionConflict :: "string \<Rightarrow> go_error" where
  "actionConflict policyName = Error (''remediationAction conflict for policyName '' @ policyName)"

definition intervalConflict :: "string \<Rightarrow> string \<Rightarrow> string \<Rightarrow> string \<Rightarrow> go_error" where
  "intervalConflict which new old policyName =
     Error (which @ '' EvaluationInterval '' @ quoted new @ '' conflict with '' @ quoted old @
       '' already configured for policyName '' @ policyName)"

text \<open>The extension of a policy that exists (lines 127 to 171 of \<^verbatim>\<open>Build\<close>).\<close>

definition extendPolicy ::
  "PolicyGenTempSpec \<Rightarrow> SourceFile \<Rightarrow> AcmPolicy \<Rightarrow> generatedCR list \<Rightarrow> AcmPolicy res" where
  "extendPolicy spec sFile old resources =
     (let act = sf_RemediationAction sFile; iv = sf_EvaluationInterval sFile;
          giv = ps_EvaluationInterval spec; oiv = cp_EvaluationInterval (objSpec old);
          oact = aps_RemediationAction (ap_Spec old); file = sf_FileName sFile in
      bind_res (AppendAcmPolicy old resources) (\<lambda>p.
      bind_res
        (if act \<noteq> UnsetStringValue
         then if act \<noteq> oact \<and> oact \<noteq> ps_RemediationAction spec
              then Inl (actionConflict (sf_PolicyName sFile))
              else Inr (setAction act p)
         else Inr p) (\<lambda>p.
      bind_res
        (if ei_Compliant iv \<noteq> UnsetStringValue
         then bind_res (checkInterval file ''compliant'' (ei_Compliant iv)) (\<lambda>_.
           if ei_Compliant iv \<noteq> ei_Compliant oiv \<and> ei_Compliant oiv \<noteq> ei_Compliant giv
           then Inl (intervalConflict ''Compliant'' (ei_Compliant iv) (ei_Compliant oiv) (sf_PolicyName sFile))
           else Inr (modSpec0 (\<lambda>s. s\<lparr>cp_EvaluationInterval :=
             (cp_EvaluationInterval s)\<lparr>ei_Compliant := ei_Compliant iv\<rparr>\<rparr>) p))
         else Inr p) (\<lambda>p.
        if ei_NonCompliant iv \<noteq> UnsetStringValue
        then bind_res (checkInterval file ''noncompliant'' (ei_NonCompliant iv)) (\<lambda>_.
          if ei_NonCompliant iv \<noteq> ei_NonCompliant oiv \<and> ei_NonCompliant oiv \<noteq> ei_NonCompliant giv
          then Inl (intervalConflict ''NonCompliant'' (ei_NonCompliant iv) (ei_NonCompliant oiv) (sf_PolicyName sFile))
          else Inr (modSpec0 (\<lambda>s. s\<lparr>cp_EvaluationInterval :=
            (cp_EvaluationInterval s)\<lparr>ei_NonCompliant := ei_NonCompliant iv\<rparr>\<rparr>) p))
        else Inr p))))"

text \<open>The output name of CRs that are not wrapped in a policy (lines 54 to 70).\<close>

definition plainName :: "SourceFile \<Rightarrow> gmap list \<Rightarrow> string res" where
  "plainName sFile resources =
     (if length resources > 1
      then Inr (''Multiple-'' @ TrimSuffix (sf_FileName sFile) (Ext (sf_FileName sFile)))
      else case resources of
        [] \<Rightarrow> Inl (Panic ''index out of range [0] with length 0'')
      | resource # _ \<Rightarrow>
          bind_res (asString (idx resource ''kind'')) (\<lambda>kind.
          bind_res (asMap (idx resource ''metadata'')) (\<lambda>meta.
          bind_res (asString (idx meta ''name'')) (\<lambda>name.
          if idx meta ''namespace'' \<noteq> GNil
          then bind_res (asString (idx meta ''namespace'')) (\<lambda>ns. Inr (Join [kind, name, ns] ''-''))
          else Inr (Join [kind, name] ''-'')))))"

definition annotate :: "PolicyGenTempSpec \<Rightarrow> SourceFile \<Rightarrow> gmap list \<Rightarrow> generatedCR list" where
  "annotate spec sFile =
     map (\<lambda>cr. \<lparr>gcr_globalComplianceType = ps_ComplianceType spec, gcr_pgtSourceFile = sFile,
                gcr_builtCR = cr\<rparr>)"

type_synonym buildState = "(string, policyOut) gomap \<times> Subject list"

text \<open>What one source file adds to the outputs, once its CRs are there.\<close>

definition placeResources ::
  "PolicyGenTemplate \<Rightarrow> buildState \<Rightarrow> SourceFile \<Rightarrow> gmap list \<Rightarrow> buildState res" where
  "placeResources pgt st sFile resources =
     (let (policies, subjects) = st; spec = pgt_Spec pgt; pgtName = md_Name (pgt_Metadata pgt) in
      if sf_PolicyName sFile = [] \<or> \<not> ps_WrapInPolicy spec
      then bind_res (plainName sFile resources) (\<lambda>name.
        Inr (mput policies (JoinPath [CustomResource, pgtName, name]) (OutResources resources), subjects))
      else let name = Join [pgtName, sf_PolicyName sFile] ''-''; output = JoinPath [pgtName, name] in
        case mget policies output of
          None \<Rightarrow>
            bind_res (newPolicy spec name (md_Namespace (pgt_Metadata pgt)) sFile (annotate spec sFile resources))
              (\<lambda>p. Inr (mput policies output (OutPolicy p), subjects @ [CreatePolicySubject name]))
        | Some (OutPolicy old) \<Rightarrow>
            bind_res (extendPolicy spec sFile old (annotate spec sFile resources))
              (\<lambda>p. Inr (mput policies output (OutPolicy p), subjects))
        | Some _ \<Rightarrow> Inl conversionPanic)"

definition fileMessage :: "string \<Rightarrow> string \<Rightarrow> string" where
  "fileMessage fileName e = ''Failed to process the source file '' @ fileName @ '': '' @ e"

definition fileResources :: "yamlLib \<Rightarrow> PolicyBuilder \<Rightarrow> fsys \<Rightarrow> PolicyGenTemplate \<Rightarrow> SourceFile \<Rightarrow> gmap list res" where
  "fileResources Y pbuilder fs pgt sFile =
     bind_res (ReadSourceFile (pbuilder_fHandler pbuilder) fs (sf_FileName sFile)) (\<lambda>sPolicyFile.
       map_error (fileMessage (sf_FileName sFile))
         (getCustomResources Y sFile sPolicyFile (ps_Mcp (pgt_Spec pgt))))"

definition buildStep ::
  "yamlLib \<Rightarrow> PolicyBuilder \<Rightarrow> fsys \<Rightarrow> PolicyGenTemplate \<Rightarrow> buildState \<Rightarrow> SourceFile \<Rightarrow> buildState res" where
  "buildStep Y pbuilder fs pgt st sFile =
     bind_res (fileResources Y pbuilder fs pgt sFile) (placeResources pgt st sFile)"

definition finishBuild :: "PolicyGenTemplate \<Rightarrow> buildState \<Rightarrow> (string, policyOut) gomap res" where
  "finishBuild pgt st =
     (let (policies, subjects) = st; spec = pgt_Spec pgt; n = md_Name (pgt_Metadata pgt);
          ns = md_Namespace (pgt_Metadata pgt) in
      if subjects = [] then Inr policies
      else
        bind_res (CheckBindingRules n (ps_BindingRules spec) (ps_BindingExcludedRules spec)) (\<lambda>_.
        let placementRule = CreatePlacementRule n ns (ps_BindingRules spec) (ps_BindingExcludedRules spec);
            ruleName = md_Name (pr_Metadata placementRule) in
        bind_res (CheckNameLength (md_Namespace (pr_Metadata placementRule)) ruleName) (\<lambda>_.
        let policies1 = mput policies (n @ slash @ ruleName) (OutRule placementRule);
            placementBinding = CreatePlacementBinding n ns ruleName subjects;
            bindingName = md_Name (pb_Metadata placementBinding) in
        bind_res (CheckNameLength (md_Namespace (pb_Metadata placementBinding)) bindingName) (\<lambda>_.
        Inr (mput policies1 (n @ slash @ bindingName) (OutBinding placementBinding))))))"

definition nameMissing :: go_error where
  "nameMissing = Error ''PolicyGenTemplate Metadata.Name & Metadata.Namespace must be defined''"

definition Build :: "yamlLib \<Rightarrow> PolicyBuilder \<Rightarrow> fsys \<Rightarrow> PolicyGenTemplate \<Rightarrow> (string, policyOut) gomap res" where
  "Build Y pbuilder fs pgt =
     (if md_Name (pgt_Metadata pgt) = [] \<or> md_Namespace (pgt_Metadata pgt) = [] then Inl nameMissing
      else if length (ps_SourceFiles (pgt_Spec pgt)) > 0
      then bind_res (fold_res (buildStep Y pbuilder fs pgt) ([], []) (ps_SourceFiles (pgt_Spec pgt)))
        (finishBuild pgt)
      else Inr [])"

section \<open>Lemmas on policies\<close>

abbreviation templates :: "AcmPolicy \<Rightarrow> PolicyObjectDefinition list" where
  "templates p \<equiv> aps_PolicyTemplates (ap_Spec p)"

abbreviation polAction :: "AcmPolicy \<Rightarrow> string" where
  "polAction p \<equiv> aps_RemediationAction (ap_Spec p)"

lemma modTemplate0_simps [simp]:
  "ap_Metadata (modTemplate0 f p) = ap_Metadata p"
  "polAction (modTemplate0 f p) = polAction p"
  "length (templates (modTemplate0 f p)) = length (templates p)"
  "templates (modTemplate0 f p) = [] \<longleftrightarrow> templates p = []"
  by (simp_all add: modTemplate0_def split: list.splits)

lemma objDef_modTemplate0 [simp]: "templates p \<noteq> [] \<Longrightarrow> objDef (modTemplate0 f p) = f (objDef p)"
  by (cases "templates p") (simp_all add: modTemplate0_def objDef_def)

lemma objDef_metadata [simp]: "objDef (p\<lparr>ap_Metadata := m\<rparr>) = objDef p"
  by (simp add: objDef_def)

lemma setAction_simps [simp]:
  "ap_Metadata (setAction a p) = ap_Metadata p"
  "polAction (setAction a p) = a"
  "length (templates (setAction a p)) = length (templates p)"
  "templates (setAction a p) = [] \<longleftrightarrow> templates p = []"
  "templates p \<noteq> [] \<Longrightarrow> objDef (setAction a p) = (objDef p)\<lparr>acp_Spec := (objSpec p)\<lparr>cp_RemediationAction := a\<rparr>\<rparr>"
proof -
  let ?q = "p\<lparr>ap_Spec := (ap_Spec p)\<lparr>aps_RemediationAction := a\<rparr>\<rparr>"
  have q: "templates ?q = templates p" "objDef ?q = objDef p" by (simp_all add: objDef_def)
  show "ap_Metadata (setAction a p) = ap_Metadata p" "polAction (setAction a p) = a"
    "length (templates (setAction a p)) = length (templates p)"
    "templates (setAction a p) = [] \<longleftrightarrow> templates p = []"
    by (simp_all add: setAction_def)
  show "objDef (setAction a p) = (objDef p)\<lparr>acp_Spec := (objSpec p)\<lparr>cp_RemediationAction := a\<rparr>\<rparr>"
    if "templates p \<noteq> []"
    using that q by (simp add: setAction_def)
qed

lemma setInterval_simps [simp]:
  "ap_Metadata (setInterval ei p) = ap_Metadata p"
  "polAction (setInterval ei p) = polAction p"
  "length (templates (setInterval ei p)) = length (templates p)"
  "templates (setInterval ei p) = [] \<longleftrightarrow> templates p = []"
  "templates p \<noteq> [] \<Longrightarrow> objDef (setInterval ei p) = (objDef p)\<lparr>acp_Spec := (objSpec p)\<lparr>cp_EvaluationInterval := ei\<rparr>\<rparr>"
  by (simp_all add: setInterval_def)

text \<open>The object template of a CR, with its wave removed.\<close>

definition templateOf :: "generatedCR \<Rightarrow> ObjectTemplates" where
  "templateOf r = BuildObjectTemplate (r\<lparr>gcr_builtCR := dropCrWave (gcr_builtCR r)\<rparr>)"

text \<open>The wave of a policy before and after CRs with waves \<open>ws\<close> have been added.\<close>

definition waveAfter :: "string option \<Rightarrow> string option list \<Rightarrow> string option \<Rightarrow> bool" where
  "waveAfter w ws w' \<longleftrightarrow> (\<forall>x. x \<in> insert w (set ws) \<and> x \<noteq> None \<longrightarrow> w' = x) \<and>
     (w' = None \<or> w' \<in> insert w (set ws))"

lemma waveAfter_Nil [simp]: "waveAfter w [] w' \<longleftrightarrow> w' = w"
  by (auto simp: waveAfter_def)

lemma waveAfter_append: "waveAfter w ws w1 \<Longrightarrow> waveAfter w1 vs w2 \<Longrightarrow> waveAfter w (ws @ vs) w2"
  unfolding waveAfter_def set_append by (intro conjI allI impI) (metis Un_iff insert_iff)+

lemma addTemplate_Inr:
  assumes "addTemplate (m, objs) r = Inr (m', objs')"
  shows "objs' = objs @ [templateOf r]" and "md_Name m' = md_Name m" and "md_Namespace m' = md_Namespace m"
    and "waveAfter (policyWave m) [crWave (gcr_builtCR r)] (policyWave m')"
    and "md_Annotations m \<noteq> None \<Longrightarrow> md_Annotations m' \<noteq> None"
proof -
  from assms obtain r' where w: "SetPolicyDeployWave m r = Inr (m', r')"
    and o: "objs' = objs @ [BuildObjectTemplate r']"
    by (auto simp: addTemplate_def res_simps split: prod.splits)
  note d = SetPolicyDeployWave_Inr [OF w]
  show "objs' = objs @ [templateOf r]" using o d(1) by (simp add: templateOf_def)
  show "md_Name m' = md_Name m" "md_Namespace m' = md_Namespace m"
    "md_Annotations m \<noteq> None \<Longrightarrow> md_Annotations m' \<noteq> None"
    using d by blast+
  show "waveAfter (policyWave m) [crWave (gcr_builtCR r)] (policyWave m')"
    using d(2,3) by (cases "crWave (gcr_builtCR r)"; cases "policyWave m") (auto simp: waveAfter_def)
qed

lemma addTemplates_Inr:
  assumes "fold_res addTemplate (m, objs) rs = Inr (m', objs')"
  shows "objs' = objs @ map templateOf rs \<and> md_Name m' = md_Name m \<and> md_Namespace m' = md_Namespace m \<and>
    waveAfter (policyWave m) (map (crWave \<circ> gcr_builtCR) rs) (policyWave m') \<and>
    (md_Annotations m \<noteq> None \<longrightarrow> md_Annotations m' \<noteq> None)"
  using assms
proof (induction rs arbitrary: m objs)
  case Nil
  then show ?case by simp
next
  case (Cons r rs)
  then obtain m1 objs1 where s: "addTemplate (m, objs) r = Inr (m1, objs1)"
    "fold_res addTemplate (m1, objs1) rs = Inr (m', objs')"
    by (auto simp: res_simps)
  note d = addTemplate_Inr [OF s(1)]
  from Cons.IH [OF s(2)] d show ?case
    using waveAfter_append [OF d(4)] by (simp add: comp_def)
qed

lemma withTemplates_Inr:
  assumes "withTemplates objs rs p = Inr p'" and "templates p \<noteq> []"
  shows "objDef p' = (objDef p)\<lparr>acp_Spec := (objSpec p)\<lparr>cp_ObjectTemplates := objs @ map templateOf rs\<rparr>\<rparr>"
    and "length (templates p') = length (templates p)" and "polAction p' = polAction p"
    and "md_Name (ap_Metadata p') = md_Name (ap_Metadata p)"
    and "md_Namespace (ap_Metadata p') = md_Namespace (ap_Metadata p)"
    and "waveAfter (policyWave (ap_Metadata p)) (map (crWave \<circ> gcr_builtCR) rs) (policyWave (ap_Metadata p'))"
    and "md_Annotations (ap_Metadata p) \<noteq> None \<Longrightarrow> md_Annotations (ap_Metadata p') \<noteq> None"
proof -
  from assms(1) obtain m o' where f: "fold_res addTemplate (ap_Metadata p, objs) rs = Inr (m, o')"
    and p': "p' = modSpec0 (\<lambda>s. s\<lparr>cp_ObjectTemplates := o'\<rparr>) (p\<lparr>ap_Metadata := m\<rparr>)"
    by (auto simp: withTemplates_def res_simps)
  note d = addTemplates_Inr [OF f]
  show "objDef p' = (objDef p)\<lparr>acp_Spec := (objSpec p)\<lparr>cp_ObjectTemplates := objs @ map templateOf rs\<rparr>\<rparr>"
    using d assms(2) by (simp add: p')
  show "length (templates p') = length (templates p)" "polAction p' = polAction p" by (simp_all add: p')
  show "md_Name (ap_Metadata p') = md_Name (ap_Metadata p)"
    "md_Namespace (ap_Metadata p') = md_Namespace (ap_Metadata p)"
    "waveAfter (policyWave (ap_Metadata p)) (map (crWave \<circ> gcr_builtCR) rs) (policyWave (ap_Metadata p'))"
    "md_Annotations (ap_Metadata p) \<noteq> None \<Longrightarrow> md_Annotations (ap_Metadata p') \<noteq> None"
    using d by (simp_all add: p')
qed

lemma acmPolicyTemplate_facts:
  "length (templates acmPolicyTemplate) = 1"
  "md_Annotations (ap_Metadata acmPolicyTemplate) \<noteq> None"
  "policyWave (ap_Metadata acmPolicyTemplate\<lparr>md_Name := n, md_Namespace := ns\<rparr>) = None"
  by (simp_all add: acmPolicyTemplate_def policyWave_def ZtpDeployWaveAnnotation_def)

lemma createAcmPolicy_Inr:
  assumes "createAcmPolicy name namespace rs = Inr p"
  shows "length (templates p) = 1" and "length namespace + length name \<le> 62"
    and "md_Name (ap_Metadata p) = name" and "md_Namespace (ap_Metadata p) = namespace"
    and "md_Name (acp_Metadata (objDef p)) = name @ ''-config''"
    and "cp_ObjectTemplates (objSpec p) = map templateOf rs"
    and "waveAfter None (map (crWave \<circ> gcr_builtCR) rs) (policyWave (ap_Metadata p))"
    and "md_Annotations (ap_Metadata p) \<noteq> None"
proof -
  let ?t = "acmPolicyTemplate\<lparr>ap_Metadata := (ap_Metadata acmPolicyTemplate)\<lparr>md_Name := name, md_Namespace := namespace\<rparr>\<rparr>"
  let ?q = "modTemplate0 (\<lambda>d. d\<lparr>acp_Metadata := (acp_Metadata d)\<lparr>md_Name := name @ ''-config''\<rparr>\<rparr>) ?t"
  have t1: "length (templates ?t) = 1" by (simp add: acmPolicyTemplate_facts)
  then have tne: "templates ?t \<noteq> []" by auto
  then have q: "templates ?q \<noteq> []" by simp
  from assms show "length namespace + length name \<le> 62"
    by (auto simp: createAcmPolicy_def res_simps)
  from assms have w: "withTemplates [] rs ?q = Inr p"
    by (auto simp: createAcmPolicy_def res_simps Let_def split: if_splits)
  note d = withTemplates_Inr [OF w q]
  show "length (templates p) = 1" using d(2) t1 by simp
  show "md_Name (ap_Metadata p) = name" "md_Namespace (ap_Metadata p) = namespace" using d(4,5) by simp_all
  show "md_Name (acp_Metadata (objDef p)) = name @ ''-config''"
    "cp_ObjectTemplates (objSpec p) = map templateOf rs"
    using d(1) tne by simp_all
  show "waveAfter None (map (crWave \<circ> gcr_builtCR) rs) (policyWave (ap_Metadata p))"
    using d(6) by (simp add: acmPolicyTemplate_facts)
  show "md_Annotations (ap_Metadata p) \<noteq> None" using d(7) by (simp add: acmPolicyTemplate_facts)
qed

lemma AppendAcmPolicy_Inr:
  assumes "AppendAcmPolicy p rs = Inr p'"
  shows "templates p \<noteq> []" and "cp_ObjectTemplates (objSpec p) \<noteq> []"
    and "withTemplates (cp_ObjectTemplates (objSpec p)) rs p = Inr p'"
  using assms by (auto simp: AppendAcmPolicy_def split: if_splits)

lemma checkInterval_ok [res_simps]: "checkInterval whose which v = Inr u \<longleftrightarrow> validateInterval v = Inr ()"
  by (simp add: checkInterval_def res_simps)

text \<open>An explicit setting of a source file, or what was there before.\<close>

definition override :: "string \<Rightarrow> string \<Rightarrow> string" where
  "override v old = (if v \<noteq> UnsetStringValue then v else old)"

text \<open>How \<open>p\<close> comes out of \<open>q\<close> when the actions and the intervals are set.\<close>

definition configured :: "AcmPolicy \<Rightarrow> string \<Rightarrow> EvaluationInterval \<Rightarrow> AcmPolicy \<Rightarrow> bool" where
  "configured q act iv p \<longleftrightarrow>
     ap_Metadata p = ap_Metadata q \<and> length (templates p) = length (templates q) \<and> polAction p = act \<and>
     objDef p = (objDef q)\<lparr>acp_Spec := (objSpec q)\<lparr>cp_RemediationAction := act, cp_EvaluationInterval := iv\<rparr>\<rparr>"

definition overriddenInterval :: "SourceFile \<Rightarrow> EvaluationInterval \<Rightarrow> EvaluationInterval" where
  "overriddenInterval sf old =
     \<lparr>ei_Compliant = override (ei_Compliant (sf_EvaluationInterval sf)) (ei_Compliant old),
      ei_NonCompliant = override (ei_NonCompliant (sf_EvaluationInterval sf)) (ei_NonCompliant old)\<rparr>"

definition validIntervals :: "EvaluationInterval \<Rightarrow> bool" where
  "validIntervals ei \<longleftrightarrow>
     validateInterval (ei_Compliant ei) = Inr () \<and> validateInterval (ei_NonCompliant ei) = Inr ()"

lemma newPolicy_Inr:
  assumes "newPolicy spec name namespace sf rs = Inr p"
  obtains q where "createAcmPolicy name namespace rs = Inr q"
    and "configured q (override (sf_RemediationAction sf) (ps_RemediationAction spec))
      (overriddenInterval sf (ps_EvaluationInterval spec)) p"
    and "validIntervals (ps_EvaluationInterval spec)"
    and "validIntervals (overriddenInterval sf (ps_EvaluationInterval spec))"
proof -
  from assms obtain q where q: "createAcmPolicy name namespace rs = Inr q"
    by (auto simp: newPolicy_def res_simps Let_def)
  then have t: "templates q \<noteq> []" using createAcmPolicy_Inr(1) [OF q] by auto
  have "configured q (override (sf_RemediationAction sf) (ps_RemediationAction spec))
      (overriddenInterval sf (ps_EvaluationInterval spec)) p \<and> validIntervals (ps_EvaluationInterval spec) \<and>
      validIntervals (overriddenInterval sf (ps_EvaluationInterval spec))"
    using assms q t
    unfolding newPolicy_def configured_def overriddenInterval_def validIntervals_def override_def
    by (cases "ei_Compliant (sf_EvaluationInterval sf) = UnsetStringValue";
        cases "ei_NonCompliant (sf_EvaluationInterval sf) = UnsetStringValue")
      (simp_all add: Let_def res_simps split: if_splits, auto simp: Let_def)
  then show ?thesis using that q by blast
qed

text \<open>A later file of a policy may set the action or an interval when the policy still has the
  template's value, or when it repeats what is set.\<close>

definition mayOverride :: "string \<Rightarrow> string \<Rightarrow> string \<Rightarrow> bool" where
  "mayOverride v old dflt \<longleftrightarrow> v = UnsetStringValue \<or> v = old \<or> old = dflt"

lemma extendPolicy_Inr:
  assumes "extendPolicy spec sf old rs = Inr p"
    and "cp_RemediationAction (objSpec old) = polAction old"
    and "validIntervals (cp_EvaluationInterval (objSpec old))"
  obtains q where "AppendAcmPolicy old rs = Inr q"
    and "configured q (override (sf_RemediationAction sf) (polAction old))
      (overriddenInterval sf (cp_EvaluationInterval (objSpec old))) p"
    and "validIntervals (overriddenInterval sf (cp_EvaluationInterval (objSpec old)))"
    and "mayOverride (sf_RemediationAction sf) (polAction old) (ps_RemediationAction spec)"
proof -
  from assms(1) obtain q where q: "AppendAcmPolicy old rs = Inr q"
    by (auto simp: extendPolicy_def res_simps Let_def)
  note a = AppendAcmPolicy_Inr [OF q]
  note w = withTemplates_Inr [OF a(3,1)]
  have t: "templates q \<noteq> []" using w(2) a(1) by auto
  have o: "cp_RemediationAction (objSpec q) = polAction old" "polAction q = polAction old"
    "cp_EvaluationInterval (objSpec q) = cp_EvaluationInterval (objSpec old)"
    using w(1,3) assms(2) by simp_all
  have "configured q (override (sf_RemediationAction sf) (polAction old))
      (overriddenInterval sf (cp_EvaluationInterval (objSpec old))) p \<and>
      validIntervals (overriddenInterval sf (cp_EvaluationInterval (objSpec old))) \<and>
      mayOverride (sf_RemediationAction sf) (polAction old) (ps_RemediationAction spec)"
    using assms(1,3) q t o
    unfolding extendPolicy_def configured_def overriddenInterval_def validIntervals_def override_def mayOverride_def
    by (cases "ei_Compliant (sf_EvaluationInterval sf) = UnsetStringValue";
        cases "ei_NonCompliant (sf_EvaluationInterval sf) = UnsetStringValue";
        cases "sf_RemediationAction sf = UnsetStringValue")
      (simp_all add: Let_def res_simps split: if_splits, auto simp: Let_def)
  then show ?thesis using that q by blast
qed

section \<open>The invariant of the generated policies\<close>

definition fullName :: "PolicyGenTemplate \<Rightarrow> string \<Rightarrow> string" where
  "fullName pgt policyName = Join [md_Name (pgt_Metadata pgt), policyName] ''-''"

definition outKey :: "PolicyGenTemplate \<Rightarrow> string \<Rightarrow> string" where
  "outKey pgt policyName = JoinPath [md_Name (pgt_Metadata pgt), fullName pgt policyName]"

definition policyOk :: "PolicyGenTemplate \<Rightarrow> AcmPolicy \<Rightarrow> bool" where
  "policyOk pgt p \<longleftrightarrow>
     md_Namespace (ap_Metadata p) = md_Namespace (pgt_Metadata pgt) \<and>
     (\<exists>sf\<in>set (ps_SourceFiles (pgt_Spec pgt)). sf_PolicyName sf \<noteq> [] \<and>
        md_Name (ap_Metadata p) = fullName pgt (sf_PolicyName sf)) \<and>
     length (md_Namespace (ap_Metadata p)) + length (md_Name (ap_Metadata p)) \<le> 62 \<and>
     length (templates p) = 1 \<and>
     md_Name (acp_Metadata (objDef p)) = md_Name (ap_Metadata p) @ ''-config'' \<and>
     cp_RemediationAction (objSpec p) = polAction p \<and>
     validIntervals (cp_EvaluationInterval (objSpec p)) \<and>
     list_all (\<lambda>t. crWave (ot_ObjectDefinition t) = None) (cp_ObjectTemplates (objSpec p))"

lemma crWave_templateOf [simp]: "crWave (ot_ObjectDefinition (templateOf r)) = None"
  by (simp add: templateOf_def BuildObjectTemplate_def Let_def)

lemma newPolicy_ok:
  assumes "newPolicy (pgt_Spec pgt) (fullName pgt (sf_PolicyName sf)) (md_Namespace (pgt_Metadata pgt)) sf rs = Inr p"
    and "sf \<in> set (ps_SourceFiles (pgt_Spec pgt))" and "sf_PolicyName sf \<noteq> []"
  shows "policyOk pgt p"
proof -
  from assms(1) obtain q where
    c: "createAcmPolicy (fullName pgt (sf_PolicyName sf)) (md_Namespace (pgt_Metadata pgt)) rs = Inr q"
    "configured q (override (sf_RemediationAction sf) (ps_RemediationAction (pgt_Spec pgt)))
      (overriddenInterval sf (ps_EvaluationInterval (pgt_Spec pgt))) p"
    "validIntervals (overriddenInterval sf (ps_EvaluationInterval (pgt_Spec pgt)))"
    by (rule newPolicy_Inr)
  with createAcmPolicy_Inr [OF c(1)] assms(2,3) show ?thesis
    unfolding policyOk_def configured_def by (auto simp: list_all_iff)
qed

lemma extendPolicy_ok:
  assumes "extendPolicy spec sf old rs = Inr p" and "policyOk pgt old"
  shows "policyOk pgt p" and "md_Name (ap_Metadata p) = md_Name (ap_Metadata old)"
proof -
  from assms(2) have o: "cp_RemediationAction (objSpec old) = polAction old"
    "validIntervals (cp_EvaluationInterval (objSpec old))"
    by (simp_all add: policyOk_def)
  from assms(1) o obtain q where c: "AppendAcmPolicy old rs = Inr q"
    "configured q (override (sf_RemediationAction sf) (polAction old))
      (overriddenInterval sf (cp_EvaluationInterval (objSpec old))) p"
    "validIntervals (overriddenInterval sf (cp_EvaluationInterval (objSpec old)))"
    by (rule extendPolicy_Inr)
  note a = AppendAcmPolicy_Inr [OF c(1)]
  note w = withTemplates_Inr [OF a(3,1)]
  show "md_Name (ap_Metadata p) = md_Name (ap_Metadata old)"
    using c(2) w(4) by (simp add: configured_def)
  show "policyOk pgt p"
    using assms(2) c(2,3) w unfolding policyOk_def configured_def by (auto simp: list_all_iff)
qed

definition allOk :: "PolicyGenTemplate \<Rightarrow> (string, policyOut) gomap \<Rightarrow> bool" where
  "allOk pgt policies \<longleftrightarrow> (\<forall>k p. mget policies k = Some (OutPolicy p) \<longrightarrow> policyOk pgt p)"

lemma placeResources_wrapped:
  assumes "placeResources pgt (policies, subjects) sf rs = Inr (policies', subjects')"
    and "sf_PolicyName sf \<noteq> []" and "ps_WrapInPolicy (pgt_Spec pgt)"
  shows "case mget policies (outKey pgt (sf_PolicyName sf)) of
      None \<Rightarrow> \<exists>p. newPolicy (pgt_Spec pgt) (fullName pgt (sf_PolicyName sf)) (md_Namespace (pgt_Metadata pgt)) sf
           (annotate (pgt_Spec pgt) sf rs) = Inr p \<and>
         policies' = mput policies (outKey pgt (sf_PolicyName sf)) (OutPolicy p) \<and>
         subjects' = subjects @ [CreatePolicySubject (fullName pgt (sf_PolicyName sf))]
    | Some v \<Rightarrow> \<exists>old p. v = OutPolicy old \<and>
         extendPolicy (pgt_Spec pgt) sf old (annotate (pgt_Spec pgt) sf rs) = Inr p \<and>
         policies' = mput policies (outKey pgt (sf_PolicyName sf)) (OutPolicy p) \<and> subjects' = subjects"
  using assms
  by (auto simp: placeResources_def Let_def res_simps outKey_def fullName_def
      split: policyOut.splits option.splits)

lemma placeResources_ok:
  assumes "placeResources pgt (policies, subjects) sf rs = Inr (policies', subjects')"
    and "allOk pgt policies" and "sf \<in> set (ps_SourceFiles (pgt_Spec pgt))"
  shows "allOk pgt policies'"
proof (cases "sf_PolicyName sf = [] \<or> \<not> ps_WrapInPolicy (pgt_Spec pgt)")
  case True
  with assms show ?thesis
    by (auto simp: placeResources_def res_simps allOk_def split: if_splits)
next
  case False
  with placeResources_wrapped [OF assms(1)] assms(2,3) newPolicy_ok extendPolicy_ok(1) show ?thesis
    by (fastforce simp: allOk_def split: option.splits if_splits)
qed

lemma buildStep_ok:
  assumes "buildStep Y pb fs pgt st sf = Inr st'"
    and "allOk pgt (fst st)" and "sf \<in> set (ps_SourceFiles (pgt_Spec pgt))"
  shows "allOk pgt (fst st')"
  using assms placeResources_ok [of pgt "fst st" "snd st" sf _ "fst st'" "snd st'"]
  by (auto simp: buildStep_def res_simps)

lemma finishBuild_ok: "finishBuild pgt st = Inr out \<Longrightarrow> allOk pgt (fst st) \<Longrightarrow> allOk pgt out"
  by (cases st) (auto simp: finishBuild_def Let_def res_simps allOk_def split: if_splits)

lemma Build_allOk:
  assumes "Build Y pb fs pgt = Inr out"
  shows "allOk pgt out"
proof (cases "ps_SourceFiles (pgt_Spec pgt) = []")
  case True
  with assms show ?thesis by (auto simp: Build_def allOk_def split: if_splits)
next
  case False
  with assms obtain st where st: "fold_res (buildStep Y pb fs pgt) ([], []) (ps_SourceFiles (pgt_Spec pgt)) = Inr st"
    and f: "finishBuild pgt st = Inr out"
    by (auto simp: Build_def res_simps split: if_splits)
  have "allOk pgt (fst st)"
    by (rule fold_res_invariant [OF st, of "\<lambda>s. allOk pgt (fst s)"])
      (auto simp: allOk_def [of pgt "[]"] intro: buildStep_ok)
  with f show ?thesis by (rule finishBuild_ok)
qed

end
