(* ===== verification/PolicySpec.thy ===== *)
theory PolicySpec
  imports PolicyBuilder
begin

text \<open>
  What \<^verbatim>\<open>Build\<close> promises, as a specification that speaks of the source files of each policy and not of
  the loop: \<open>describes\<close> says what a policy holds for the list of its source files, \<open>grouped\<close> relates
  the state of the loop to the files processed so far. The properties of the generator are at the
  end.
\<close>

section \<open>First occurrences\<close>

definition firsts :: "'a list \<Rightarrow> 'a list" where
  "firsts xs = rev (remdups (rev xs))"

lemma firsts_Nil [simp]: "firsts [] = []"
  by (simp add: firsts_def)

lemma firsts_snoc: "firsts (xs @ [x]) = (if x \<in> set xs then firsts xs else firsts xs @ [x])"
  by (simp add: firsts_def)

lemma set_firsts [simp]: "set (firsts xs) = set xs"
  by (simp add: firsts_def)

lemma distinct_firsts [simp]: "distinct (firsts xs)"
  by (simp add: firsts_def)

section \<open>Output names\<close>

text \<open>A PolicyGenTemplate whose name is one path element and all of whose source files are wrapped in a
  policy with a name without slashes.\<close>

definition wrapped :: "PolicyGenTemplate \<Rightarrow> bool" where
  "wrapped pgt \<longleftrightarrow>
     plainElem (md_Name (pgt_Metadata pgt)) \<and> md_Name (pgt_Metadata pgt) \<noteq> ''..'' \<and>
     ps_WrapInPolicy (pgt_Spec pgt) \<and>
     list_all (\<lambda>sf. sf_PolicyName sf \<noteq> [] \<and> CHR ''/'' \<notin> set (sf_PolicyName sf)) (ps_SourceFiles (pgt_Spec pgt))"

lemma JoinPath_plain:
  assumes "plainElem a" "a \<noteq> ''..''" "plainElem b" "b \<noteq> ''..''"
  shows "JoinPath [a, b] = a @ slash @ b"
proof -
  have "a \<noteq> []" "b \<noteq> []" using assms by (auto simp: plainElem_def)
  moreover have "\<not> IsAbs (a @ slash @ b)"
    using assms(1) by (cases a) (auto simp: IsAbs_def slash_def plainElem_def)
  moreover have "cleanElems False ([a] @ [b]) = [a, b]"
    using assms by (simp add: cleanElems_def)
  ultimately show ?thesis
    using assms by (simp add: JoinPath_def Clean_def elems_append elems_plainElem render_def)
qed

lemma fullName_eq: "fullName pgt pn = md_Name (pgt_Metadata pgt) @ ''-'' @ pn"
  by (simp add: fullName_def)

lemma outKey_eq:
  assumes "plainElem (md_Name (pgt_Metadata pgt))" and "md_Name (pgt_Metadata pgt) \<noteq> ''..''"
    and "CHR ''/'' \<notin> set pn"
  shows "outKey pgt pn = md_Name (pgt_Metadata pgt) @ slash @ fullName pgt pn"
proof -
  have "plainElem (fullName pgt pn)" "fullName pgt pn \<noteq> ''..''"
    using assms by (auto simp: fullName_eq plainElem_def append_eq_Cons_conv Cons_eq_append_conv)
  with assms show ?thesis by (simp add: outKey_def JoinPath_plain)
qed

lemma outKey_inj:
  assumes "plainElem (md_Name (pgt_Metadata pgt))" and "md_Name (pgt_Metadata pgt) \<noteq> ''..''"
    and "CHR ''/'' \<notin> set pn" and "CHR ''/'' \<notin> set pn'"
  shows "outKey pgt pn = outKey pgt pn' \<longleftrightarrow> pn = pn'"
  using assms by (simp add: outKey_eq fullName_eq)

section \<open>The policy of a list of source files\<close>

text \<open>\<open>res\<close> gives the CRs of a source file. The object templates are those of all its CRs in order,
  the remediation action and the intervals are the last explicit ones or the template's, and the
  wave is the one that the CRs with a wave agree on.\<close>

definition describes ::
  "(SourceFile \<Rightarrow> gmap list) \<Rightarrow> PolicyGenTempSpec \<Rightarrow> SourceFile list \<Rightarrow> AcmPolicy \<Rightarrow> bool" where
  "describes res spec sfs p \<longleftrightarrow>
     cp_ObjectTemplates (objSpec p) = concat (map (\<lambda>sf. map templateOf (annotate spec sf (res sf))) sfs) \<and>
     polAction p = fold (\<lambda>sf. override (sf_RemediationAction sf)) sfs (ps_RemediationAction spec) \<and>
     cp_EvaluationInterval (objSpec p) = fold overriddenInterval sfs (ps_EvaluationInterval spec) \<and>
     waveAfter None (concat (map (\<lambda>sf. map crWave (res sf)) sfs)) (policyWave (ap_Metadata p))"

lemma map_crWave_annotate [simp]:
  "map (crWave \<circ> gcr_builtCR) (annotate spec sf rs) = map crWave rs"
  by (simp add: annotate_def)

lemma newPolicy_describes:
  assumes "newPolicy spec name namespace sf (annotate spec sf (res sf)) = Inr p"
  shows "describes res spec [sf] p" and "md_Name (ap_Metadata p) = name"
proof -
  from assms obtain q where c: "createAcmPolicy name namespace (annotate spec sf (res sf)) = Inr q"
    "configured q (override (sf_RemediationAction sf) (ps_RemediationAction spec))
      (overriddenInterval sf (ps_EvaluationInterval spec)) p"
    by (rule newPolicy_Inr)
  note q = createAcmPolicy_Inr [OF c(1)]
  show "describes res spec [sf] p" "md_Name (ap_Metadata p) = name"
    using c(2) q by (simp_all add: describes_def configured_def)
qed

lemma extendPolicy_describes:
  assumes "extendPolicy spec sf old (annotate spec sf (res sf)) = Inr p"
    and "policyOk pgt old" and "describes res spec sfs old"
  shows "describes res spec (sfs @ [sf]) p"
proof -
  from assms(2) have o: "cp_RemediationAction (objSpec old) = polAction old"
    "validIntervals (cp_EvaluationInterval (objSpec old))"
    by (simp_all add: policyOk_def)
  from assms(1) o obtain q where c: "AppendAcmPolicy old (annotate spec sf (res sf)) = Inr q"
    "configured q (override (sf_RemediationAction sf) (polAction old))
      (overriddenInterval sf (cp_EvaluationInterval (objSpec old))) p"
    by (rule extendPolicy_Inr)
  note a = AppendAcmPolicy_Inr [OF c(1)]
  note w = withTemplates_Inr [OF a(3,1)]
  have "waveAfter None (concat (map (\<lambda>sf. map crWave (res sf)) sfs) @ map crWave (res sf)) (policyWave (ap_Metadata p))"
    using assms(3) w(6) c(2) by (intro waveAfter_append) (auto simp: describes_def configured_def)
  with assms(3) c(2) w(1) show ?thesis by (simp add: describes_def configured_def)
qed

section \<open>The state of the loop\<close>

definition resOf :: "yamlLib \<Rightarrow> PolicyBuilder \<Rightarrow> fsys \<Rightarrow> PolicyGenTemplate \<Rightarrow> SourceFile \<Rightarrow> gmap list" where
  "resOf Y pb fs pgt sf = (case fileResources Y pb fs pgt sf of Inl _ \<Rightarrow> [] | Inr rs \<Rightarrow> rs)"

definition filesOf :: "string \<Rightarrow> SourceFile list \<Rightarrow> SourceFile list" where
  "filesOf pn = filter (\<lambda>sf. sf_PolicyName sf = pn)"

definition grouped ::
  "(SourceFile \<Rightarrow> gmap list) \<Rightarrow> PolicyGenTemplate \<Rightarrow> SourceFile list \<Rightarrow> buildState \<Rightarrow> bool" where
  "grouped res pgt sfs st \<longleftrightarrow>
     snd st = map (CreatePolicySubject \<circ> fullName pgt) (firsts (map sf_PolicyName sfs)) \<and>
     fst ` set (fst st) = outKey pgt ` sf_PolicyName ` set sfs \<and>
     (\<forall>pn\<in>sf_PolicyName ` set sfs. \<exists>p. mget (fst st) (outKey pgt pn) = Some (OutPolicy p) \<and>
        policyOk pgt p \<and> md_Name (ap_Metadata p) = fullName pgt pn \<and>
        describes res (pgt_Spec pgt) (filesOf pn sfs) p)"

lemma filesOf_snoc:
  "filesOf pn (sfs @ [sf]) = (if sf_PolicyName sf = pn then filesOf pn sfs @ [sf] else filesOf pn sfs)"
  by (simp add: filesOf_def)

lemma filesOf_absent: "pn \<notin> sf_PolicyName ` set sfs \<Longrightarrow> filesOf pn sfs = []"
  by (auto simp: filesOf_def filter_empty_conv)

lemma wrapped_file:
  assumes "wrapped pgt" and "sf \<in> set (ps_SourceFiles (pgt_Spec pgt))"
  shows "sf_PolicyName sf \<noteq> []" and "CHR ''/'' \<notin> set (sf_PolicyName sf)"
  using assms by (auto simp: wrapped_def list_all_iff)

text \<open>The step of the loop, given what it does to the entry of the file's policy.\<close>

lemma grouped_put:
  assumes "grouped res pgt sfs (policies, subjects)"
    and "\<forall>pn\<in>sf_PolicyName ` set sfs. outKey pgt pn = outKey pgt (sf_PolicyName sf) \<longrightarrow> pn = sf_PolicyName sf"
    and "policyOk pgt p" and "md_Name (ap_Metadata p) = fullName pgt (sf_PolicyName sf)"
    and "describes res (pgt_Spec pgt) (filesOf (sf_PolicyName sf) sfs @ [sf]) p"
    and "subjects' = (if sf_PolicyName sf \<in> sf_PolicyName ` set sfs then subjects
      else subjects @ [CreatePolicySubject (fullName pgt (sf_PolicyName sf))])"
  shows "grouped res pgt (sfs @ [sf]) (mput policies (outKey pgt (sf_PolicyName sf)) (OutPolicy p), subjects')"
  unfolding grouped_def
proof (intro conjI ballI)
  show "snd (mput policies (outKey pgt (sf_PolicyName sf)) (OutPolicy p), subjects') =
      map (CreatePolicySubject \<circ> fullName pgt) (firsts (map sf_PolicyName (sfs @ [sf])))"
    using assms(1,6) by (simp add: grouped_def firsts_snoc)
  show "fst ` set (fst (mput policies (outKey pgt (sf_PolicyName sf)) (OutPolicy p), subjects')) =
      outKey pgt ` sf_PolicyName ` set (sfs @ [sf])"
    using assms(1) by (simp add: grouped_def set_keys_mput)
next
  fix pn
  assume pn: "pn \<in> sf_PolicyName ` set (sfs @ [sf])"
  show "\<exists>q. mget (fst (mput policies (outKey pgt (sf_PolicyName sf)) (OutPolicy p), subjects')) (outKey pgt pn) = Some (OutPolicy q) \<and>
      policyOk pgt q \<and> md_Name (ap_Metadata q) = fullName pgt pn \<and>
      describes res (pgt_Spec pgt) (filesOf pn (sfs @ [sf])) q"
  proof (cases "pn = sf_PolicyName sf")
    case True
    with assms(3-5) show ?thesis by (simp add: filesOf_snoc)
  next
    case False
    with pn have "pn \<in> sf_PolicyName ` set sfs" by auto
    with assms(1,2) False show ?thesis by (auto simp: grouped_def filesOf_snoc)
  qed
qed

lemma buildStep_grouped:
  assumes g: "grouped (resOf Y pb fs pgt) pgt sfs st" and w: "wrapped pgt"
    and sfs: "set sfs \<subseteq> set (ps_SourceFiles (pgt_Spec pgt))"
    and sf: "sf \<in> set (ps_SourceFiles (pgt_Spec pgt))"
    and s: "buildStep Y pb fs pgt st sf = Inr st'"
  shows "grouped (resOf Y pb fs pgt) pgt (sfs @ [sf]) st'"
proof -
  let ?res = "resOf Y pb fs pgt" and ?pn = "sf_PolicyName sf" and ?k = "outKey pgt (sf_PolicyName sf)"
  obtain policies subjects where st: "st = (policies, subjects)" by (cases st)
  obtain policies' subjects' where st': "st' = (policies', subjects')" by (cases st')
  from s have place: "placeResources pgt (policies, subjects) sf (?res sf) = Inr (policies', subjects')"
    by (auto simp: buildStep_def res_simps resOf_def st st')
  have inj: "\<forall>pn\<in>sf_PolicyName ` set sfs. outKey pgt pn = ?k \<longrightarrow> pn = ?pn"
    using w sfs sf wrapped_file(2) [OF w] by (auto simp: outKey_inj wrapped_def)
  have k: "mget policies ?k = None \<longleftrightarrow> ?pn \<notin> sf_PolicyName ` set sfs"
  proof -
    have "mget policies ?k = None \<longleftrightarrow> ?k \<notin> outKey pgt ` sf_PolicyName ` set sfs"
      using g by (simp add: map_of_eq_None_iff grouped_def st)
    also have "\<dots> \<longleftrightarrow> ?pn \<notin> sf_PolicyName ` set sfs" using inj by auto
    finally show ?thesis .
  qed
  have wr: "ps_WrapInPolicy (pgt_Spec pgt)" using w by (simp add: wrapped_def)
  note cases = placeResources_wrapped [OF place wrapped_file(1) [OF w sf] wr]
  show ?thesis
  proof (cases "mget policies ?k")
    case None
    with cases obtain p where p: "newPolicy (pgt_Spec pgt) (fullName pgt ?pn) (md_Namespace (pgt_Metadata pgt)) sf
        (annotate (pgt_Spec pgt) sf (?res sf)) = Inr p"
      "policies' = mput policies ?k (OutPolicy p)" "subjects' = subjects @ [CreatePolicySubject (fullName pgt ?pn)]"
      by auto
    from None k have new: "?pn \<notin> sf_PolicyName ` set sfs" by simp
    show ?thesis
      unfolding st' p(2)
      using g inj newPolicy_ok [OF p(1) sf wrapped_file(1) [OF w sf]] newPolicy_describes [where res = ?res, OF p(1)] new p(3)
      by (intro grouped_put) (auto simp: st filesOf_absent)
  next
    case (Some v)
    with cases obtain old p where p: "v = OutPolicy old"
      "extendPolicy (pgt_Spec pgt) sf old (annotate (pgt_Spec pgt) sf (?res sf)) = Inr p"
      "policies' = mput policies ?k (OutPolicy p)" "subjects' = subjects"
      by auto
    from Some k have known: "?pn \<in> sf_PolicyName ` set sfs" by auto
    with g Some p(1) have old: "policyOk pgt old" "md_Name (ap_Metadata old) = fullName pgt ?pn"
      "describes ?res (pgt_Spec pgt) (filesOf ?pn sfs) old"
      by (auto simp: grouped_def st)
    show ?thesis
      unfolding st' p(3)
      using g inj extendPolicy_ok [OF p(2) old(1)] extendPolicy_describes [where res = ?res, OF p(2) old(1,3)] old(2) known p(4)
      by (intro grouped_put) (auto simp: st)
  qed
qed

lemma Build_grouped:
  assumes "Build Y pb fs pgt = Inr out" and "wrapped pgt" and "ps_SourceFiles (pgt_Spec pgt) \<noteq> []"
  obtains st where "grouped (resOf Y pb fs pgt) pgt (ps_SourceFiles (pgt_Spec pgt)) st"
    and "finishBuild pgt st = Inr out"
proof -
  let ?files = "ps_SourceFiles (pgt_Spec pgt)"
  from assms(1,3) obtain st where st: "fold_res (buildStep Y pb fs pgt) ([], []) ?files = Inr st"
    and f: "finishBuild pgt st = Inr out"
    by (auto simp: Build_def res_simps split: if_splits)
  have "set ([] @ ?files) \<subseteq> set ?files \<and> grouped (resOf Y pb fs pgt) pgt ([] @ ?files) st"
    by (rule fold_res_prefix_invariant [OF st, where
          P = "\<lambda>pre s. set pre \<subseteq> set ?files \<and> grouped (resOf Y pb fs pgt) pgt pre s"])
      (auto simp: grouped_def [of _ _ "[]"] intro: buildStep_grouped [OF _ assms(2)])
  with f that show ?thesis by simp
qed

text \<open>What \<^verbatim>\<open>Build\<close> adds at the end when there is a policy.\<close>

abbreviation pgtName :: "PolicyGenTemplate \<Rightarrow> string" where
  "pgtName pgt \<equiv> md_Name (pgt_Metadata pgt)"

definition theRule :: "PolicyGenTemplate \<Rightarrow> PlacementRule" where
  "theRule pgt = CreatePlacementRule (pgtName pgt) (md_Namespace (pgt_Metadata pgt))
     (ps_BindingRules (pgt_Spec pgt)) (ps_BindingExcludedRules (pgt_Spec pgt))"

lemma finishBuild_Inr:
  assumes "finishBuild pgt (policies, subjects) = Inr out" and "subjects \<noteq> []"
  shows "out = mput (mput policies (pgtName pgt @ slash @ pgtName pgt @ ''-placementrules'') (OutRule (theRule pgt)))
      (pgtName pgt @ slash @ pgtName pgt @ ''-placementbinding'')
      (OutBinding (CreatePlacementBinding (pgtName pgt) (md_Namespace (pgt_Metadata pgt))
        (pgtName pgt @ ''-placementrules'') subjects))"
    and "CheckBindingRules (pgtName pgt) (ps_BindingRules (pgt_Spec pgt)) (ps_BindingExcludedRules (pgt_Spec pgt)) = Inr ()"
    and "length (md_Namespace (pgt_Metadata pgt)) + length (pgtName pgt @ ''-placementbinding'') \<le> 62"
  using assms
  by (auto simp: finishBuild_def Let_def res_simps theRule_def CreatePlacementRule_def CreatePlacementBinding_def
      split: if_splits)

section \<open>Properties\<close>

text \<open>A template with one source file, for concrete runs.\<close>

definition demoSF :: SourceFile where
  "demoSF = demoFile\<lparr>sf_FileName := ''a'', sf_PolicyName := ''p''\<rparr>"

definition demoOut :: gmap where
  "demoOut =
     [(''kind'', GStr ''Sriov''),
      (''metadata'', GMap [(''name'', GStr ''b''), (''labels'', GMap [(''l'', GStr ''1'')])]),
      (''spec'', GMap [(''replicas'', GInt 3)])]"

definition demoPgt :: PolicyGenTemplate where
  "demoPgt = \<lparr>pgt_ApiVersion = ''v1'', pgt_Kind = ''PolicyGenTemplate'',
     pgt_Metadata = zeroMetaData\<lparr>md_Name := ''g'', md_Namespace := ''ns''\<rparr>,
     pgt_Spec = specDefaults\<lparr>ps_EvaluationInterval := \<lparr>ei_Compliant = DisableEvaluationInterval, ei_NonCompliant = WatchEvaluationInterval\<rparr>,
       ps_BindingRules := [(''k'', ''v'')],
       ps_SourceFiles := [demoSF]\<rparr>\<rparr>"

definition demoBuilder :: PolicyBuilder where
  "demoBuilder = NewPolicyBuilder (NewFilesHandler SourceCRsPath [] ''out'')"

lemma demo_read: "ReadSourceFile (pbuilder_fHandler demoBuilder) demoFS ''a'' = Inr ''git''"
  by (simp add: ReadSourceFile_def ReadSourceCRFile_def demoBuilder_def NewPolicyBuilder_def NewFilesHandler_def
      os_ReadFile_def os_Stat_def sourceCRPathGit_def demoFS_def
        resolve_def IsAbs_def slash_def SourceCRsPath_def elems_def Split_def cleanElems_def nodeAt_def)

lemma demo_resources: "fileResources (oneDoc demoCR) demoBuilder demoFS demoPgt demoSF =
  Inr [demoOut]"
  by (simp add: demoOut_def fileResources_def demo_read getCustomResources_def splitYamls_def demo_simps mapLen_def demoPgt_def demoSF_def specDefaults_def)

lemma demo_interval: "validateInterval DisableEvaluationInterval = Inr ()" "validateInterval WatchEvaluationInterval = Inr ()"
  by (simp_all add: validateInterval_def)

lemma demo_policy: "is_ok (newPolicy (pgt_Spec demoPgt) ''g-p'' ''ns'' demoSF
   (annotate (pgt_Spec demoPgt) demoSF [demoOut]))"
  by (simp add: demoOut_def newPolicy_def createAcmPolicy_def CheckNameLength_def acmPolicyTemplate_def demoPgt_def specDefaults_def
     demo_interval checkInterval_def Let_def withTemplates_def annotate_def addTemplate_def SetPolicyDeployWave_def
     crWave_def crAnnotations_def crMetadata_def mget0_def policyWave_def modTemplate0_def objDef_def sourceFileDefaults_def demoFile_def demoSF_def)

lemma demoPgt_fields:
  "pgt_Metadata demoPgt = zeroMetaData\<lparr>md_Name := ''g'', md_Namespace := ''ns''\<rparr>"
  "ps_SourceFiles (pgt_Spec demoPgt) = [demoSF]" "ps_WrapInPolicy (pgt_Spec demoPgt)"
  "ps_BindingRules (pgt_Spec demoPgt) = [(''k'', ''v'')]" "ps_BindingExcludedRules (pgt_Spec demoPgt) = []"
  "sf_PolicyName demoSF = ''p''" "pgtName demoPgt = ''g''"
  by (simp_all add: demoPgt_def specDefaults_def demoSF_def)

lemma demo_key: "JoinPath [''g'', ''g-p''] = ''g/g-p''"
  using JoinPath_plain [of "''g''" "''g-p''"] by (simp add: plainElem_def slash_def)

lemma demo_wrapped: "wrapped demoPgt"
  by (simp add: wrapped_def demoPgt_fields plainElem_def)

lemma demo_build_entries:
  "\<exists>p r b. Build (oneDoc demoCR) demoBuilder demoFS demoPgt =
     Inr [(''g/g-p'', OutPolicy p), (''g/g-placementrules'', OutRule r), (''g/g-placementbinding'', OutBinding b)]"
proof -
  obtain p where p: "newPolicy (pgt_Spec demoPgt) ''g-p'' ''ns'' demoSF (annotate (pgt_Spec demoPgt) demoSF [demoOut]) = Inr p"
    using demo_policy by (rule is_okE)
  show ?thesis
    by (simp add: Build_def buildStep_def demo_resources demoPgt_fields p placeResources_def Let_def finishBuild_def
      CheckBindingRules_def CheckNameLength_def CreatePlacementRule_def CreatePlacementBinding_def zeroMetaData_def
      demo_key slash_def)
qed

lemma demo_build:
  "\<exists>out p. Build (oneDoc demoCR) demoBuilder demoFS demoPgt = Inr out \<and> mget out ''g/g-p'' = Some (OutPolicy p)"
  using demo_build_entries by fastforce

text \<open>C5. Every policy that the generator outputs is well-formed: it is in the template's namespace and
  named after the template and the policy name of one of its source files, namespace and name fit
  the limit of 63 characters, it has exactly one configuration policy, named after it, whose
  remediation action is the policy's own and whose evaluation intervals are valid, and no deploy
  wave is left on any of its objects.\<close>

theorem Build_policies_wellformed:
  assumes "Build Y pb fs pgt = Inr out" and "mget out k = Some (OutPolicy p)"
  shows "policyOk pgt p"
  using Build_allOk [OF assms(1)] assms(2) by (simp add: allOk_def)

theorem Build_policies_wellformed_witness:
  "\<exists>out p. Build (oneDoc demoCR) demoBuilder demoFS demoPgt = Inr out \<and>
     mget out ''g/g-p'' = Some (OutPolicy p) \<and> policyOk demoPgt p"
proof -
  from demo_build obtain out p where "Build (oneDoc demoCR) demoBuilder demoFS demoPgt = Inr out"
    and "mget out ''g/g-p'' = Some (OutPolicy p)" by blast
  with Build_policies_wellformed [OF this] show ?thesis by blast
qed

text \<open>C2. Grouping: when all source files are wrapped in policies, the policy of each name holds the CRs
  of exactly the source files with that name, in their order and with their waves removed, its
  remediation action and evaluation intervals are those of the last of these files that sets them
  (or the template's), and its wave is the one its CRs agree on.\<close>

theorem Build_groups_by_policy:
  assumes "Build Y pb fs pgt = Inr out" and "wrapped pgt"
    and "sf \<in> set (ps_SourceFiles (pgt_Spec pgt))"
    and "sf_PolicyName sf \<notin> {''placementrules'', ''placementbinding''}"
  shows "\<exists>p. mget out (pgtName pgt @ slash @ pgtName pgt @ ''-'' @ sf_PolicyName sf) = Some (OutPolicy p) \<and>
    md_Name (ap_Metadata p) = pgtName pgt @ ''-'' @ sf_PolicyName sf \<and>
    describes (resOf Y pb fs pgt) (pgt_Spec pgt)
      (filesOf (sf_PolicyName sf) (ps_SourceFiles (pgt_Spec pgt))) p"
proof -
  let ?files = "ps_SourceFiles (pgt_Spec pgt)"
  from assms(3) have ne: "?files \<noteq> []" by auto
  from assms(1,2) ne obtain st where g: "grouped (resOf Y pb fs pgt) pgt ?files st"
    and f: "finishBuild pgt st = Inr out" by (rule Build_grouped)
  obtain policies subjects where st: "st = (policies, subjects)" by (cases st)
  from g st ne have "subjects \<noteq> []"
    by (auto simp: grouped_def) (metis set_firsts set_empty list.set_map image_is_empty)
  note out = finishBuild_Inr(1) [OF f [unfolded st] this]
  have key: "outKey pgt (sf_PolicyName sf) = pgtName pgt @ slash @ pgtName pgt @ ''-'' @ sf_PolicyName sf"
    using outKey_eq wrapped_file(2) [OF assms(2,3)] assms(2) by (simp add: wrapped_def fullName_eq)
  from g assms(3) obtain p where p: "mget policies (outKey pgt (sf_PolicyName sf)) = Some (OutPolicy p)"
    "md_Name (ap_Metadata p) = fullName pgt (sf_PolicyName sf)"
    "describes (resOf Y pb fs pgt) (pgt_Spec pgt) (filesOf (sf_PolicyName sf) ?files) p"
    by (auto simp: grouped_def st)
  from p(1) assms(4) have "mget out (outKey pgt (sf_PolicyName sf)) = Some (OutPolicy p)"
    by (simp add: out key)
  with p(2,3) key show ?thesis by (auto simp: fullName_eq)
qed

theorem Build_groups_by_policy_witness:
  "\<exists>out p. Build (oneDoc demoCR) demoBuilder demoFS demoPgt = Inr out \<and>
     mget out ''g/g-p'' = Some (OutPolicy p) \<and> polAction p = ''inform''"
proof -
  from demo_build obtain out where out: "Build (oneDoc demoCR) demoBuilder demoFS demoPgt = Inr out" by blast
  have sf: "demoSF \<in> set (ps_SourceFiles (pgt_Spec demoPgt))"
    "sf_PolicyName demoSF \<notin> {''placementrules'', ''placementbinding''}"
    by (simp_all add: demoPgt_fields)
  from Build_groups_by_policy [OF out demo_wrapped sf] obtain p where
    "mget out ''g/g-p'' = Some (OutPolicy p)"
    "describes (resOf (oneDoc demoCR) demoBuilder demoFS demoPgt) (pgt_Spec demoPgt) [demoSF] p"
    by (auto simp: demoPgt_fields slash_def filesOf_def)
  moreover from this(2) have "polAction p = ''inform''"
    by (simp add: describes_def override_def demoSF_def demoFile_def sourceFileDefaults_def demoPgt_def specDefaults_def)
  ultimately show ?thesis using out by blast
qed

text \<open>For any template, wrapped or not: the policies that the loop has met, in the order of their first source files.\<close>

definition policyNames :: "PolicyGenTemplate \<Rightarrow> SourceFile list \<Rightarrow> string list" where
  "policyNames pgt sfs =
     firsts (map sf_PolicyName (filter (\<lambda>sf. sf_PolicyName sf \<noteq> [] \<and> ps_WrapInPolicy (pgt_Spec pgt)) sfs))"

definition plainNames :: "PolicyGenTemplate \<Rightarrow> bool" where
  "plainNames pgt \<longleftrightarrow> plainElem (pgtName pgt) \<and> pgtName pgt \<noteq> ''..'' \<and>
     list_all (\<lambda>sf. CHR ''/'' \<notin> set (sf_PolicyName sf)) (ps_SourceFiles (pgt_Spec pgt))"

definition bindable :: "PolicyGenTemplate \<Rightarrow> SourceFile list \<Rightarrow> buildState \<Rightarrow> bool" where
  "bindable pgt sfs st \<longleftrightarrow>
     snd st = map (CreatePolicySubject \<circ> fullName pgt) (policyNames pgt sfs) \<and>
     (\<forall>pn\<in>set (policyNames pgt sfs). mget (fst st) (outKey pgt pn) \<noteq> None) \<and>
     (\<forall>k v. mget (fst st) k = Some v \<longrightarrow>
        (\<exists>rs. v = OutResources rs) \<or> (\<exists>p. v = OutPolicy p) \<and> k \<in> outKey pgt ` set (policyNames pgt sfs))"

lemma policyNames_snoc:
  "policyNames pgt (sfs @ [sf]) =
     (if sf_PolicyName sf = [] \<or> \<not> ps_WrapInPolicy (pgt_Spec pgt) \<or> sf_PolicyName sf \<in> set (policyNames pgt sfs)
      then policyNames pgt sfs else policyNames pgt sfs @ [sf_PolicyName sf])"
  by (auto simp: policyNames_def firsts_snoc)

lemma buildStep_bindable:
  assumes b: "bindable pgt sfs st" and names: "plainNames pgt"
    and sfs: "set sfs \<subseteq> set (ps_SourceFiles (pgt_Spec pgt))" and sf: "sf \<in> set (ps_SourceFiles (pgt_Spec pgt))"
    and s: "buildStep Y pb fs pgt st sf = Inr st'"
  shows "bindable pgt (sfs @ [sf]) st'"
proof -
  let ?pn = "sf_PolicyName sf" and ?k = "outKey pgt (sf_PolicyName sf)"
  obtain policies subjects where st: "st = (policies, subjects)" by (cases st)
  obtain policies' subjects' where st': "st' = (policies', subjects')" by (cases st')
  from s obtain rs where place: "placeResources pgt (policies, subjects) sf rs = Inr (policies', subjects')"
    by (auto simp: buildStep_def res_simps st st')
  show ?thesis
  proof (cases "?pn = [] \<or> \<not> ps_WrapInPolicy (pgt_Spec pgt)")
    case True
    with place obtain key where "policies' = mput policies key (OutResources rs)" "subjects' = subjects"
      by (auto simp: placeResources_def res_simps)
    with b True show ?thesis by (auto simp: bindable_def st st' policyNames_snoc)
  next
    case False
    have "CHR ''/'' \<notin> set pn" if "pn \<in> set (policyNames pgt sfs)" for pn
      using that names sfs by (auto simp: policyNames_def plainNames_def list_all_iff)
    then have inj: "?k \<in> outKey pgt ` set (policyNames pgt sfs) \<longleftrightarrow> ?pn \<in> set (policyNames pgt sfs)"
      using names sf outKey_inj [of pgt ?pn] by (auto simp: plainNames_def list_all_iff)
    note cases = placeResources_wrapped [OF place]
    show ?thesis
    proof (cases "mget policies ?k")
      case None
      with cases False obtain p where "policies' = mput policies ?k (OutPolicy p)"
        "subjects' = subjects @ [CreatePolicySubject (fullName pgt ?pn)]" by auto
      moreover have "?pn \<notin> set (policyNames pgt sfs)" using b None by (auto simp: bindable_def st)
      ultimately show ?thesis using b False by (auto simp: bindable_def st st' policyNames_snoc)
    next
      case (Some v)
      with cases False obtain p q where v: "v = OutPolicy q" "policies' = mput policies ?k (OutPolicy p)" "subjects' = subjects" by auto
      with b Some inj have "?pn \<in> set (policyNames pgt sfs)" by (fastforce simp: bindable_def st)
      with v b False inj show ?thesis by (auto simp: bindable_def st st' policyNames_snoc)
    qed
  qed
qed

lemma Build_bindable:
  assumes "Build Y pb fs pgt = Inr out" and "plainNames pgt"
  obtains st where "bindable pgt (ps_SourceFiles (pgt_Spec pgt)) st" and "finishBuild pgt st = Inr out"
proof (cases "ps_SourceFiles (pgt_Spec pgt) = []")
  case True
  with assms(1) have "out = []" by (auto simp: Build_def split: if_splits)
  with True that [of "([], [])"] show ?thesis by (simp add: bindable_def policyNames_def finishBuild_def)
next
  case False
  let ?files = "ps_SourceFiles (pgt_Spec pgt)"
  from assms(1) False obtain st where st: "fold_res (buildStep Y pb fs pgt) ([], []) ?files = Inr st"
    and f: "finishBuild pgt st = Inr out"
    by (auto simp: Build_def res_simps split: if_splits)
  have "set ([] @ ?files) \<subseteq> set ?files \<and> bindable pgt ([] @ ?files) st"
    by (rule fold_res_prefix_invariant [OF st, where P = "\<lambda>pre s. set pre \<subseteq> set ?files \<and> bindable pgt pre s"])
      (auto simp: bindable_def [of _ "[]"] policyNames_def [of _ "[]"] intro: buildStep_bindable [OF _ assms(2)])
  with f that show ?thesis by simp
qed

text \<open>When all source files are wrapped, the output has no entries but the policies, the rule and the binding.\<close>

lemma Build_keys:
  assumes "Build Y pb fs pgt = Inr out" and "wrapped pgt" and "ps_SourceFiles (pgt_Spec pgt) \<noteq> []"
  shows "fst ` set out =
      {pgtName pgt @ slash @ pgtName pgt @ ''-placementrules'', pgtName pgt @ slash @ pgtName pgt @ ''-placementbinding''} \<union>
      (\<lambda>sf. pgtName pgt @ slash @ pgtName pgt @ ''-'' @ sf_PolicyName sf) ` set (ps_SourceFiles (pgt_Spec pgt))"
proof -
  let ?files = "ps_SourceFiles (pgt_Spec pgt)"
  from assms obtain st where g: "grouped (resOf Y pb fs pgt) pgt ?files st"
    and f: "finishBuild pgt st = Inr out" by (rule Build_grouped)
  obtain policies subjects where st: "st = (policies, subjects)" by (cases st)
  from g st have subj: "subjects = map (CreatePolicySubject \<circ> fullName pgt) (firsts (map sf_PolicyName ?files))"
    by (simp add: grouped_def)
  with assms(3) have "subjects \<noteq> []"
    by auto (metis set_firsts set_empty list.set_map image_is_empty)
  note out = finishBuild_Inr [OF f [unfolded st] this]
  have "outKey pgt (sf_PolicyName sf) = pgtName pgt @ slash @ pgtName pgt @ ''-'' @ sf_PolicyName sf"
    if "sf \<in> set ?files" for sf
    using outKey_eq wrapped_file(2) [OF assms(2) that] assms(2) by (simp add: wrapped_def fullName_eq)
  then have keys: "fst ` set policies =
      (\<lambda>sf. pgtName pgt @ slash @ pgtName pgt @ ''-'' @ sf_PolicyName sf) ` set ?files"
    using g by (auto simp: grouped_def st image_image)
  show ?thesis
    unfolding out(1) set_keys_mput keys by (auto simp del: append_assoc)
qed

text \<open>C3. Placement, for every template whose name is one path element and whose policy names have no slash: when no source
  file is wrapped in a policy, the output has only unwrapped CRs, no rule and no binding. Otherwise it has the placement
  rule of the template's binding rules, which have passed the conflict check, and a binding of that rule to every policy
  once, in the order of their first source files; every other entry is a list of unwrapped CRs or a policy of a source
  file. When all source files are wrapped, the output has no entries but the rule, the binding and the policies, all of them.\<close>

theorem Build_binds_all_policies:
  assumes "Build Y pb fs pgt = Inr out" and "plainNames pgt"
  shows "if policyNames pgt (ps_SourceFiles (pgt_Spec pgt)) = []
    then \<forall>k v. mget out k = Some v \<longrightarrow> (\<exists>rs. v = OutResources rs)
    else
      mget out (pgtName pgt @ slash @ pgtName pgt @ ''-placementrules'') = Some (OutRule (theRule pgt)) \<and>
      mget out (pgtName pgt @ slash @ pgtName pgt @ ''-placementbinding'') =
        Some (OutBinding (CreatePlacementBinding (pgtName pgt) (md_Namespace (pgt_Metadata pgt))
          (md_Name (pr_Metadata (theRule pgt)))
          (map (CreatePolicySubject \<circ> fullName pgt) (policyNames pgt (ps_SourceFiles (pgt_Spec pgt)))))) \<and>
      CheckBindingRules (pgtName pgt) (ps_BindingRules (pgt_Spec pgt)) (ps_BindingExcludedRules (pgt_Spec pgt)) = Inr () \<and>
      (\<forall>k v. mget out k = Some v \<and> k \<noteq> pgtName pgt @ slash @ pgtName pgt @ ''-placementrules'' \<and>
          k \<noteq> pgtName pgt @ slash @ pgtName pgt @ ''-placementbinding'' \<longrightarrow>
        (\<exists>rs. v = OutResources rs) \<or>
        (\<exists>p. v = OutPolicy p) \<and> k \<in> outKey pgt ` set (policyNames pgt (ps_SourceFiles (pgt_Spec pgt)))) \<and>
      (wrapped pgt \<longrightarrow> fst ` set out =
        {pgtName pgt @ slash @ pgtName pgt @ ''-placementrules'', pgtName pgt @ slash @ pgtName pgt @ ''-placementbinding''} \<union>
        (\<lambda>sf. pgtName pgt @ slash @ pgtName pgt @ ''-'' @ sf_PolicyName sf) ` set (ps_SourceFiles (pgt_Spec pgt)))"
proof -
  let ?files = "ps_SourceFiles (pgt_Spec pgt)"
  from assms obtain st where b: "bindable pgt ?files st" and f: "finishBuild pgt st = Inr out" by (rule Build_bindable)
  obtain policies subjects where st: "st = (policies, subjects)" by (cases st)
  from b st have subj: "subjects = map (CreatePolicySubject \<circ> fullName pgt) (policyNames pgt ?files)"
    by (simp add: bindable_def)
  show ?thesis
  proof (cases "policyNames pgt ?files = []")
    case True
    with f subj have "out = policies" by (simp add: finishBuild_def st)
    with b True show ?thesis by (simp add: bindable_def st)
  next
    case False
    with subj have "subjects \<noteq> []" by simp
    note out = finishBuild_Inr [OF f [unfolded st] this]
    have "?files \<noteq> []" using False by (auto simp: policyNames_def)
    then have keys: "wrapped pgt \<longrightarrow> fst ` set out =
        {pgtName pgt @ slash @ pgtName pgt @ ''-placementrules'', pgtName pgt @ slash @ pgtName pgt @ ''-placementbinding''} \<union>
        (\<lambda>sf. pgtName pgt @ slash @ pgtName pgt @ ''-'' @ sf_PolicyName sf) ` set ?files"
      using Build_keys [OF assms(1)] by blast
    have name: "md_Name (pr_Metadata (theRule pgt)) = pgtName pgt @ ''-placementrules''"
      by (simp add: theRule_def CreatePlacementRule_def)
    have rest: "(\<exists>rs. v = OutResources rs) \<or> (\<exists>p. v = OutPolicy p) \<and> k \<in> outKey pgt ` set (policyNames pgt ?files)"
      if "mget policies k = Some v" for k v
      using b that by (auto simp: bindable_def st)
    show ?thesis
      unfolding if_not_P [OF False] name
    proof (intro conjI keys out(2))
      show "\<forall>k v. mget out k = Some v \<and> k \<noteq> pgtName pgt @ slash @ pgtName pgt @ ''-placementrules'' \<and>
          k \<noteq> pgtName pgt @ slash @ pgtName pgt @ ''-placementbinding'' \<longrightarrow>
        (\<exists>rs. v = OutResources rs) \<or> (\<exists>p. v = OutPolicy p) \<and> k \<in> outKey pgt ` set (policyNames pgt ?files)"
        unfolding out(1) using rest by simp
    qed (simp_all add: out(1) subj)
  qed
qed

theorem Build_binds_all_policies_witness:
  "\<exists>out b. Build (oneDoc demoCR) demoBuilder demoFS demoPgt = Inr out \<and>
     mget out ''g/g-placementbinding'' = Some (OutBinding b) \<and> map sub_Name (pb_Subjects b) = [''g-p'']"
proof -
  from demo_build obtain out where out: "Build (oneDoc demoCR) demoBuilder demoFS demoPgt = Inr out" by blast
  have plain: "plainNames demoPgt" using demo_wrapped by (simp add: wrapped_def plainNames_def list_all_iff)
  have names: "policyNames demoPgt (ps_SourceFiles (pgt_Spec demoPgt)) = [''p'']"
    by (simp add: policyNames_def demoPgt_fields firsts_def)
  from Build_binds_all_policies [OF out plain]
  have "mget out ''g/g-placementbinding'' = Some (OutBinding (CreatePlacementBinding ''g'' ''ns''
      (md_Name (pr_Metadata (theRule demoPgt))) [CreatePolicySubject ''g-p'']))"
    unfolding names by (simp add: demoPgt_fields slash_def fullName_def)
  with out show ?thesis by (auto simp: CreatePlacementBinding_def CreatePolicySubject_def)
qed


definition waveSF :: "string \<Rightarrow> SourceFile" where
  "waveSF w = demoSF\<lparr>sf_Metadata := zeroMetaData\<lparr>md_Annotations := Some [(ZtpDeployWaveAnnotation, w)]\<rparr>\<rparr>"

definition wavePgt :: PolicyGenTemplate where
  "wavePgt = demoPgt\<lparr>pgt_Spec := (pgt_Spec demoPgt)\<lparr>ps_SourceFiles := [waveSF ''1'', waveSF ''2'']\<rparr>\<rparr>"

lemma wave_resources:
  "\<exists>cr. cr \<in> set (resOf (oneDoc demoCR) demoBuilder demoFS wavePgt (waveSF w)) \<and> crWave cr = Some w"
proof -
  have "fileResources (oneDoc demoCR) demoBuilder demoFS wavePgt (waveSF w) = Inr
    [[(''kind'', GStr ''Sriov''),
      (''metadata'', GMap [(''name'', GStr ''a''), (''annotations'', GMap [(ZtpDeployWaveAnnotation, GStr w)])]),
      (''spec'', GMap [(''replicas'', GInt 3)])]]"
    by (simp add: fileResources_def demo_read getCustomResources_def splitYamls_def demo_simps mapLen_def
        wavePgt_def waveSF_def demoSF_def demoPgt_def specDefaults_def)
  then show ?thesis by (simp add: resOf_def crWave_def crAnnotations_def crMetadata_def mget0_def)
qed


end
