(* ===== verification/PolicyGenerator.thy ===== *)
theory PolicyGenerator
  imports PolicySpec
begin

text \<open>
  The command \<^verbatim>\<open>policygenerator\<close> (\<^verbatim>\<open>policyGenerator.go\<close>): which template files it processes and what it
  writes for each. A run threads the file system, the standard output and the log; \<^verbatim>\<open>log.Fatalf\<close>
  ends the run with a panic.

  Beyond \<open>yamlLib\<close> the command decodes the kind of a document and a whole PolicyGenTemplate, and
  encodes the generated objects; these are the parameters \<open>genYaml\<close>, with the order in which Go visits
  the map that \<^verbatim>\<open>Build\<close> returns.
\<close>

record genYaml =
  gy_lib :: yamlLib
  gy_kind :: "string \<Rightarrow> KindType res"
  gy_template :: "string \<Rightarrow> PolicyGenTemplate res"
  gy_marshal :: "policyOut \<Rightarrow> string res"
  gy_order :: "(string, policyOut) gomap \<Rightarrow> (string \<times> policyOut) list"

record genState =
  gs_fs :: fsys
  gs_out :: "string list"
  gs_log :: "string list"

definition fatal :: "string \<Rightarrow> 'a res \<Rightarrow> 'a res" where
  "fatal what r = (case r of Inl (Error e) \<Rightarrow> Inl (Panic (what @ '': '' @ e)) | _ \<Rightarrow> r)"

definition docSeparator :: string where
  "docSeparator = ''---'' @ [CHR 0x0A]"

definition marshalCRs :: "genYaml \<Rightarrow> string \<Rightarrow> gmap list \<Rightarrow> string res" where
  "marshalCRs G k crs =
     bind_res (mapM_res (\<lambda>cr. fatal (''Error marshalling yaml for '' @ k) (yl_marshal (gy_lib G) (GMap cr))) crs)
       (\<lambda>bs. Inr (concat (map (\<lambda>b. docSeparator @ b) bs)))"

definition renderOut :: "genYaml \<Rightarrow> string \<Rightarrow> policyOut \<Rightarrow> string res" where
  "renderOut G k v =
     (case v of
        OutResources crs \<Rightarrow> marshalCRs G k crs
      | _ \<Rightarrow> fatal (''Error marshalling yaml for '' @ k) (gy_marshal G v))"

definition printed :: "string \<Rightarrow> string list" where
  "printed strPolicy =
     (if \<not> HasPrefix strPolicy docSeparator then [''---''] else []) @ [strPolicy]"

definition emit :: "genYaml \<Rightarrow> FilesHandler \<Rightarrow> genState \<Rightarrow> string \<times> policyOut \<Rightarrow> genState res" where
  "emit G fh st kv =
     (let (k, v) = kv in
      bind_res (renderOut G k v) (\<lambda>policy.
        if fh_OutDir fh \<noteq> UnsetStringValue
        then bind_res (fatal (''Error: could not write file '' @ fh_OutDir fh @ slash @ k @ FileExt)
               (FilesHandler_WriteFile fh (gs_fs st) (k @ FileExt) policy)) (\<lambda>fs.
             Inr (st\<lparr>gs_fs := fs\<rparr>))
        else Inr (st\<lparr>gs_out := gs_out st @ printed policy\<rparr>)))"

definition withWrap :: "bool \<Rightarrow> PolicyGenTemplate \<Rightarrow> PolicyGenTemplate" where
  "withWrap wrapInPolicy pgt =
     (if \<not> wrapInPolicy then pgt\<lparr>pgt_Spec := (pgt_Spec pgt)\<lparr>ps_WrapInPolicy := wrapInPolicy\<rparr>\<rparr> else pgt)"

definition generateFile :: "genYaml \<Rightarrow> FilesHandler \<Rightarrow> bool \<Rightarrow> genState \<Rightarrow> string \<Rightarrow> genState res" where
  "generateFile G fh wrapInPolicy st file =
     bind_res (fatal (''Could not read '' @ file) (FilesHandler_ReadFile (gs_fs st) file)) (\<lambda>yamlFile.
     bind_res (fatal (''Could not parse '' @ file @ '' as yaml'') (gy_kind G yamlFile)) (\<lambda>kindType.
     if kt_Kind kindType = ''PolicyGenTemplate''
     then
       bind_res (fatal (''Could not unmarshal PolicyGenTemplate data from '' @ file) (gy_template G yamlFile)) (\<lambda>pgt.
       bind_res (fatal (''Could not build the entire policy defined by '' @ file)
         (Build (gy_lib G) (NewPolicyBuilder fh) (gs_fs st) (withWrap wrapInPolicy pgt))) (\<lambda>policies.
       fold_res (emit G fh) st (gy_order G policies)))
     else Inr (st\<lparr>gs_log := gs_log st @ [''Unsupported yaml structure kind in '' @ file @ '': {'' @ kt_Kind kindType @ ''}'']\<rparr>)))"

definition InitiatePolicyGen :: "genYaml \<Rightarrow> FilesHandler \<Rightarrow> string list \<Rightarrow> bool \<Rightarrow> genState \<Rightarrow> genState res" where
  "InitiatePolicyGen G fh pgtFiles wrapInPolicy st = fold_res (generateFile G fh wrapInPolicy) st pgtFiles"

text \<open>The files of the command line, then the files of the template directory that are not hidden. A
  directory entry has a name that is not empty.\<close>

definition templateFiles :: "FilesHandler \<Rightarrow> fsys \<Rightarrow> string list \<Rightarrow> string list res" where
  "templateFiles fh fs args =
     (if fh_PgtDir fh \<noteq> UnsetStringValue
      then bind_res (fatal (''Could not get file list from '' @ fh_PgtDir fh) (GetTempFiles fh fs)) (\<lambda>files.
        Inr (args @ map (\<lambda>f. fh_PgtDir fh @ slash @ f) (filter (\<lambda>f. f ! 0 \<noteq> CHR ''.'') files)))
      else Inr args)"

definition policygenerator_main ::
  "genYaml \<Rightarrow> string \<Rightarrow> string \<Rightarrow> string \<Rightarrow> bool \<Rightarrow> string list \<Rightarrow> genState \<Rightarrow> genState res" where
  "policygenerator_main G sourceCRsPath pgtPath outPath wrapInPolicy args st =
     (let fh = NewFilesHandler sourceCRsPath pgtPath outPath in
      bind_res (templateFiles fh (gs_fs st) args) (\<lambda>policyGenTemps.
        InitiatePolicyGen G fh policyGenTemps wrapInPolicy st))"

section \<open>Lemmas\<close>

lemma fatal_Inr_iff [res_simps]: "fatal what r = Inr x \<longleftrightarrow> r = Inr x"
  by (auto simp: fatal_def split: sum.splits go_error.splits)

lemma ensureDir_cases: "ensureDir fs p = fs \<or> ensureDir fs p = fold addDir (upTo (resolve fs p)) fs"
  by (cases "os_MkdirAll fs p") (auto simp: ensureDir_def os_MkdirAll_Inr split: sum.splits)

lemma ensureDir_read: "readOpt (ensureDir fs p) q = readOpt fs q" "resolve (ensureDir fs p) = resolve fs"
  using ensureDir_cases [of fs p] readOpt_eqI [of "fold addDir (upTo (resolve fs p)) fs" q fs]
  by (auto simp: readOpt_Some nodeAt_addDirs)

text \<open>What a successful write through the handler does to every read.\<close>

definition outTarget :: "FilesHandler \<Rightarrow> string \<Rightarrow> string" where
  "outTarget fh k = fh_OutDir fh @ slash @ k @ FileExt"

lemma WriteFile_Inr:
  assumes "FilesHandler_WriteFile fh fs (k @ FileExt) content = Inr fs'"
  shows "readOpt fs' q = (if sameFile fs (outTarget fh k) q then Some content else readOpt fs q)"
    and "sameFile fs' = sameFile fs"
proof -
  from assms obtain p where w: "writeOpt (ensureDir fs p) (outTarget fh k) content = Some fs'"
    by (auto simp: FilesHandler_WriteFile_def Let_def res_simps os_WriteFile_Inr outTarget_def split: if_splits)
  have same: "sameFile (ensureDir fs p) = sameFile fs"
    by (auto simp: sameFile_def ensureDir_read fun_eq_iff)
  show "readOpt fs' q = (if sameFile fs (outTarget fh k) q then Some content else readOpt fs q)"
    using fstore.read_write [OF w, of q] by (simp add: same ensureDir_read)
  show "sameFile fs' = sameFile fs" using fstore.same_write [OF w] same by simp
qed

lemma emit_file:
  assumes "emit G fh st (k, v) = Inr st'" and "fh_OutDir fh \<noteq> UnsetStringValue"
  obtains c where "renderOut G k v = Inr c"
    and "\<forall>q. readOpt (gs_fs st') q = (if sameFile (gs_fs st) (outTarget fh k) q then Some c else readOpt (gs_fs st) q)"
    and "sameFile (gs_fs st') = sameFile (gs_fs st)"
proof -
  from assms obtain c fs where "renderOut G k v = Inr c" "st' = st\<lparr>gs_fs := fs\<rparr>"
    and w: "FilesHandler_WriteFile fh (gs_fs st) (k @ FileExt) c = Inr fs"
    by (auto simp: emit_def res_simps)
  with that [of c] WriteFile_Inr [OF w] show ?thesis by auto
qed

lemma emits_files:
  assumes "fold_res (emit G fh) st out = Inr st'" and "fh_OutDir fh \<noteq> UnsetStringValue"
    and "distinct (map fst out)"
    and "\<forall>a\<in>fst ` set out. \<forall>b\<in>fst ` set out. sameFile (gs_fs st) (outTarget fh a) (outTarget fh b) \<longleftrightarrow> a = b"
  shows "(\<forall>k v. (k, v) \<in> set out \<longrightarrow>
      (\<exists>c. renderOut G k v = Inr c \<and> readOpt (gs_fs st') (outTarget fh k) = Some c)) \<and>
    (\<forall>q. (\<forall>k\<in>fst ` set out. \<not> sameFile (gs_fs st) (outTarget fh k) q) \<longrightarrow>
      readOpt (gs_fs st') q = readOpt (gs_fs st) q)"
  using assms
proof (induction out arbitrary: st)
  case Nil
  then show ?case by simp
next
  case (Cons kv out)
  obtain k v where kv: "kv = (k, v)" by (cases kv)
  from Cons.prems(1) kv obtain s1 where s1: "emit G fh st (k, v) = Inr s1" "fold_res (emit G fh) s1 out = Inr st'"
    by (auto simp: res_simps)
  from s1(1) assms(2) obtain c where c: "renderOut G k v = Inr c"
    and rd: "\<forall>q. readOpt (gs_fs s1) q = (if sameFile (gs_fs st) (outTarget fh k) q then Some c else readOpt (gs_fs st) q)"
    and sm: "sameFile (gs_fs s1) = sameFile (gs_fs st)" by (rule emit_file)
  have d: "distinct (map fst out)" "k \<notin> fst ` set out" using Cons.prems(3) kv by auto
  have inj: "\<forall>a\<in>insert k (fst ` set out). \<forall>b\<in>insert k (fst ` set out).
      sameFile (gs_fs st) (outTarget fh a) (outTarget fh b) \<longleftrightarrow> a = b"
    using Cons.prems(4) kv by simp
  have inj1: "\<forall>a\<in>fst ` set out. \<forall>b\<in>fst ` set out.
      sameFile (gs_fs s1) (outTarget fh a) (outTarget fh b) \<longleftrightarrow> a = b"
    using inj sm by simp
  note ih = Cons.IH [OF s1(2) assms(2) d(1) inj1]
  have "\<forall>a\<in>fst ` set out. \<not> sameFile (gs_fs s1) (outTarget fh a) (outTarget fh k)"
    unfolding sm using inj d(2) by (metis insertI1 insertI2)
  then have "readOpt (gs_fs st') (outTarget fh k) = readOpt (gs_fs s1) (outTarget fh k)"
    using ih [THEN conjunct2] by blast
  also have "\<dots> = Some c" using rd inj by simp
  finally have here: "readOpt (gs_fs st') (outTarget fh k) = Some c" .
  show ?case
  proof (intro conjI allI impI)
    fix k' v'
    assume "(k', v') \<in> set (kv # out)"
    then show "\<exists>c. renderOut G k' v' = Inr c \<and> readOpt (gs_fs st') (outTarget fh k') = Some c"
      using here c ih [THEN conjunct1] kv by (cases "(k', v') = kv") auto
  next
    fix q
    assume "\<forall>a\<in>fst ` set (kv # out). \<not> sameFile (gs_fs st) (outTarget fh a) q"
    then have "\<forall>a\<in>fst ` set out. \<not> sameFile (gs_fs s1) (outTarget fh a) q" "\<not> sameFile (gs_fs st) (outTarget fh k) q"
      using sm kv by simp_all
    then show "readOpt (gs_fs st') q = readOpt (gs_fs st) q"
      using ih [THEN conjunct2] rd by simp
  qed
qed

lemma buildStep_mwf: "buildStep Y pb fs pgt st sf = Inr st' \<Longrightarrow> mwf (fst st) \<Longrightarrow> mwf (fst st')"
  by (cases st) (auto simp: buildStep_def placeResources_def Let_def res_simps
      split: if_splits option.splits policyOut.splits)

lemma finishBuild_mwf: "finishBuild pgt st = Inr out \<Longrightarrow> mwf (fst st) \<Longrightarrow> mwf out"
  by (cases st) (auto simp: finishBuild_def Let_def res_simps split: if_splits)

lemma Build_mwf:
  assumes "Build Y pb fs pgt = Inr out"
  shows "mwf out"
proof (cases "ps_SourceFiles (pgt_Spec pgt) = []")
  case True
  with assms show ?thesis by (auto simp: Build_def split: if_splits)
next
  case False
  with assms obtain st where st: "fold_res (buildStep Y pb fs pgt) ([], []) (ps_SourceFiles (pgt_Spec pgt)) = Inr st"
    and f: "finishBuild pgt st = Inr out"
    by (auto simp: Build_def res_simps split: if_splits)
  have "mwf (fst st)"
    by (rule fold_res_invariant [OF st, of "\<lambda>s. mwf (fst s)"]) (auto intro: buildStep_mwf)
  with f show ?thesis by (rule finishBuild_mwf)
qed

text \<open>The keys of the output of a wrapped template: one directory, one plain element each.\<close>

definition leafKeys :: "string \<Rightarrow> string set \<Rightarrow> bool" where
  "leafKeys n ks \<longleftrightarrow> (\<forall>k\<in>ks. \<exists>b. k = n @ slash @ b \<and> CHR ''/'' \<notin> set b)"

lemma outTarget_leaf:
  assumes "CHR ''/'' \<notin> set b"
  shows "resolve fs (outTarget fh (n @ slash @ b)) = resolve fs (fh_OutDir fh @ slash @ n) @ [b @ FileExt]"
    and "outTarget fh (n @ slash @ b) \<noteq> []"
proof -
  have "goodName (b @ FileExt)"
    using assms by (auto simp: goodName_def plainElem_def FileExt_def append_eq_Cons_conv)
  moreover have "fh_OutDir fh @ slash @ n \<noteq> []" by (simp add: slash_def)
  ultimately show "resolve fs (outTarget fh (n @ slash @ b)) = resolve fs (fh_OutDir fh @ slash @ n) @ [b @ FileExt]"
    using resolve_child [of "b @ FileExt" "fh_OutDir fh @ slash @ n"] by (simp add: outTarget_def)
  show "outTarget fh (n @ slash @ b) \<noteq> []" by (simp add: outTarget_def slash_def)
qed

lemma leafKeys_targets:
  assumes "leafKeys n ks"
  shows "\<forall>a\<in>ks. \<forall>b\<in>ks. sameFile fs (outTarget fh a) (outTarget fh b) \<longleftrightarrow> a = b"
proof (intro ballI)
  fix a b assume "a \<in> ks" "b \<in> ks"
  with assms obtain x y where "a = n @ slash @ x" "CHR ''/'' \<notin> set x" "b = n @ slash @ y" "CHR ''/'' \<notin> set y"
    by (auto simp: leafKeys_def) metis
  then show "sameFile fs (outTarget fh a) (outTarget fh b) \<longleftrightarrow> a = b"
    by (auto simp: sameFile_def outTarget_leaf)
qed

lemma wrapped_leafKeys:
  assumes "Build Y pb fs pgt = Inr out" and "wrapped pgt"
  shows "leafKeys (pgtName pgt) (fst ` set out)"
proof (cases "ps_SourceFiles (pgt_Spec pgt) = []")
  case True
  with assms(1) show ?thesis by (auto simp: Build_def leafKeys_def split: if_splits)
next
  case False
  let ?files = "ps_SourceFiles (pgt_Spec pgt)" and ?n = "pgtName pgt"
  from assms False obtain st where g: "grouped (resOf Y pb fs pgt) pgt ?files st"
    and f: "finishBuild pgt st = Inr out" by (rule Build_grouped)
  obtain policies subjects where st: "st = (policies, subjects)" by (cases st)
  have n: "CHR ''/'' \<notin> set ?n" using assms(2) by (simp add: wrapped_def plainElem_def)
  have key: "outKey pgt (sf_PolicyName sf) = ?n @ slash @ fullName pgt (sf_PolicyName sf)"
    "CHR ''/'' \<notin> set (fullName pgt (sf_PolicyName sf))" if "sf \<in> set ?files" for sf
    using outKey_eq wrapped_file(2) [OF assms(2) that] assms(2) n by (simp_all add: wrapped_def fullName_eq)
  have pol: "leafKeys ?n (fst ` set policies)"
    using g key by (fastforce simp: grouped_def st leafKeys_def)
  show ?thesis
  proof (cases "subjects = []")
    case True
    with f st pol show ?thesis by (simp add: finishBuild_def)
  next
    case False
    have "CHR ''/'' \<notin> set (?n @ ''-placementrules'')" "CHR ''/'' \<notin> set (?n @ ''-placementbinding'')"
      using n by simp_all
    with pol show ?thesis
      unfolding finishBuild_Inr(1) [OF f [unfolded st] False] set_keys_mput leafKeys_def by blast
  qed
qed

section \<open>Properties\<close>

text \<open>C7. The run on a template: when the generator has processed a PolicyGenTemplate whose source files
  are all wrapped in policies and an output directory is given, then, in whatever order it visits them, every entry that \<^verbatim>\<open>Build\<close> returned is in its own
  file below that directory, with exactly its rendered text, and every other file is as before.\<close>

theorem InitiatePolicyGen_writes_all:
  assumes "InitiatePolicyGen G fh [file] True st = Inr st'"
    and "FilesHandler_ReadFile (gs_fs st) file = Inr txt"
    and "gy_kind G txt = Inr \<lparr>kt_Kind = ''PolicyGenTemplate''\<rparr>"
    and "gy_template G txt = Inr pgt" and "wrapped pgt"
    and "fh_OutDir fh \<noteq> UnsetStringValue" and "\<forall>m. mset (gy_order G m) = mset m"
  shows "\<exists>out. Build (gy_lib G) (NewPolicyBuilder fh) (gs_fs st) pgt = Inr out \<and>
    (\<forall>k v. (k, v) \<in> set out \<longrightarrow> (\<exists>c. renderOut G k v = Inr c \<and>
      FilesHandler_ReadFile (gs_fs st') (fh_OutDir fh @ slash @ k @ FileExt) = Inr c)) \<and>
    (\<forall>q. (\<forall>k\<in>fst ` set out. \<not> sameFile (gs_fs st) (fh_OutDir fh @ slash @ k @ FileExt) q) \<longrightarrow>
      readOpt (gs_fs st') q = readOpt (gs_fs st) q)"
proof -
  from assms(1-4) obtain out where out: "Build (gy_lib G) (NewPolicyBuilder fh) (gs_fs st) pgt = Inr out"
    and e: "fold_res (emit G fh) st (gy_order G out) = Inr st'"
    by (auto simp: InitiatePolicyGen_def generateFile_def res_simps withWrap_def)
  have same: "mset (gy_order G out) = mset out" using assms(7) by simp
  then have entries: "set (gy_order G out) = set out" by (rule mset_eq_setD)
  have "mset (map fst (gy_order G out)) = mset (map fst out)" using same by simp
  then have "distinct (map fst (gy_order G out))"
    using Build_mwf [OF out] mset_eq_imp_distinct_iff by (metis mwf_def)
  from emits_files [OF e assms(6) this leafKeys_targets [OF wrapped_leafKeys [OF out assms(5), folded entries]]]
  show ?thesis
    using out unfolding entries by (auto simp: outTarget_def FilesHandler_ReadFile_def res_simps os_ReadFile_Inr)
qed

definition demoYaml :: genYaml where
  "demoYaml = \<lparr>gy_lib = oneDoc demoCR, gy_kind = \<lambda>s. Inr \<lparr>kt_Kind = ''PolicyGenTemplate''\<rparr>,
     gy_template = \<lambda>s. Inr demoPgt, gy_marshal = \<lambda>v. Inr ''y'', gy_order = \<lambda>m. m\<rparr>"

definition demoState :: genState where
  "demoState = \<lparr>gs_fs = demoFS, gs_out = [], gs_log = []\<rparr>"

abbreviation demoHandler :: FilesHandler where
  "demoHandler \<equiv> NewFilesHandler SourceCRsPath [] ''out''"

lemma demo_readTemplate: "FilesHandler_ReadFile demoFS ''/w/source-crs/a'' = Inr ''git''"
  by (simp add: FilesHandler_ReadFile_def os_ReadFile_def os_Stat_def demoFS_def resolve_def IsAbs_def slash_def
      elems_def Split_def cleanElems_def nodeAt_def)

lemma demo_paths:
  "fs_cwd fs = ''/w'' \<Longrightarrow> resolve fs ''out/g'' = [''w'', ''out'', ''g'']"
  "fs_cwd fs = ''/w'' \<Longrightarrow> resolve fs ''out/g/g-p.yaml'' = [''w'', ''out'', ''g'', ''g-p.yaml'']"
  "fs_cwd fs = ''/w'' \<Longrightarrow> resolve fs ''out/g/g-placementrules.yaml'' = [''w'', ''out'', ''g'', ''g-placementrules.yaml'']"
  "fs_cwd fs = ''/w'' \<Longrightarrow> resolve fs ''out/g/g-placementbinding.yaml'' = [''w'', ''out'', ''g'', ''g-placementbinding.yaml'']"
  "dirPart ''g/g-p.yaml'' = ''g/''" "dirPart ''g/g-placementrules.yaml'' = ''g/''"
  "dirPart ''g/g-placementbinding.yaml'' = ''g/''"
  "parents [''w'', ''out'', ''g''] = [[], [''w''], [''w'', ''out'']]"
  by (simp_all add: resolve_def IsAbs_def slash_def elems_def Split_def cleanElems_def dirPart_def parents_def upt_rec)

definition demoFS1 :: fsys where
  "demoFS1 = demoFS\<lparr>fs_nodes := fs_nodes demoFS @ [([''w'', ''out''], NDir), ([''w'', ''out'', ''g''], NDir),
     ([''w'', ''out'', ''g'', ''g-p.yaml''], NFile ''y'')]\<rparr>"

definition demoFS2 :: fsys where
  "demoFS2 = demoFS\<lparr>fs_nodes := fs_nodes demoFS1 @ [([''w'', ''out'', ''g'', ''g-placementrules.yaml''], NFile ''y'')]\<rparr>"

lemma demo_writes:
  "FilesHandler_WriteFile demoHandler demoFS ''g/g-p.yaml'' ''y'' = Inr demoFS1"
  "FilesHandler_WriteFile demoHandler demoFS1 ''g/g-placementrules.yaml'' ''y'' = Inr demoFS2"
  "is_ok (FilesHandler_WriteFile demoHandler demoFS2 ''g/g-placementbinding.yaml'' ''y'')"
  by (simp_all add: FilesHandler_WriteFile_def slash_def osRes_def os_WriteFile_def ensureDir_def os_Stat_def
      nodeAt_def missingError_def os_IsNotExist_def os_MkdirAll_def setNode_def NewFilesHandler_def Let_def
      demo_paths demoFS1_def demoFS2_def demoFS_def)

lemma demo_emit:
  "emit demoYaml demoHandler st (k, v) =
     bind_res (renderOut demoYaml k v) (\<lambda>policy.
       bind_res (fatal (''Error: could not write file '' @ fh_OutDir demoHandler @ slash @ k @ FileExt)
           (FilesHandler_WriteFile demoHandler (gs_fs st) (k @ ''.yaml'') policy)) (\<lambda>fs.
         Inr (st\<lparr>gs_fs := fs\<rparr>)))"
  by (simp add: emit_def NewFilesHandler_def UnsetStringValue_def FileExt_def)

lemma demo_emits:
  "is_ok (fold_res (emit demoYaml demoHandler) demoState
     [(''g/g-p'', OutPolicy p), (''g/g-placementrules'', OutRule r), (''g/g-placementbinding'', OutBinding b)])"
proof -
  obtain fs where fs: "FilesHandler_WriteFile demoHandler demoFS2 ''g/g-placementbinding.yaml'' ''y'' = Inr fs"
    using demo_writes(3) by (rule is_okE)
  have r: "renderOut demoYaml k (OutPolicy p) = Inr ''y''" "renderOut demoYaml k (OutRule r) = Inr ''y''"
    "renderOut demoYaml k (OutBinding b) = Inr ''y''" for k
    by (simp_all add: renderOut_def demoYaml_def fatal_def)
  show ?thesis by (simp add: demo_emit r demo_writes(1,2) fs fatal_def demoState_def)
qed

theorem InitiatePolicyGen_writes_all_witness:
  "\<exists>st'. InitiatePolicyGen demoYaml demoHandler [''/w/source-crs/a''] True demoState = Inr st' \<and>
     FilesHandler_ReadFile (gs_fs st') (''out'' @ slash @ ''g/g-p'' @ FileExt) = Inr ''y''"
proof -
  obtain p r b where out: "Build (oneDoc demoCR) demoBuilder demoFS demoPgt =
     Inr [(''g/g-p'', OutPolicy p), (''g/g-placementrules'', OutRule r), (''g/g-placementbinding'', OutBinding b)]"
    using demo_build_entries by blast
  obtain st' where st': "fold_res (emit demoYaml demoHandler) demoState
     [(''g/g-p'', OutPolicy p), (''g/g-placementrules'', OutRule r), (''g/g-placementbinding'', OutBinding b)] = Inr st'"
    using demo_emits by (rule is_okE)
  have run: "InitiatePolicyGen demoYaml demoHandler [''/w/source-crs/a''] True demoState = Inr st'"
    using out st' demo_readTemplate
    by (simp del: fold_res.simps(2) add: fold_res.simps(2) [of "generateFile _ _ _"] InitiatePolicyGen_def
        generateFile_def demoYaml_def demoState_def demoBuilder_def withWrap_def fatal_def)
  have h: "FilesHandler_ReadFile (gs_fs demoState) ''/w/source-crs/a'' = Inr ''git''"
    "gy_kind demoYaml ''git'' = Inr \<lparr>kt_Kind = ''PolicyGenTemplate''\<rparr>" "gy_template demoYaml ''git'' = Inr demoPgt"
    "fh_OutDir demoHandler \<noteq> UnsetStringValue" "fh_OutDir demoHandler = ''out''" "\<forall>m. mset (gy_order demoYaml m) = mset m"
    by (simp_all add: demoState_def demo_readTemplate demoYaml_def NewFilesHandler_def UnsetStringValue_def)
  have lib: "gy_lib demoYaml = oneDoc demoCR" "gs_fs demoState = demoFS" "NewPolicyBuilder demoHandler = demoBuilder"
    by (simp_all add: demoYaml_def demoState_def demoBuilder_def)
  from InitiatePolicyGen_writes_all [OF run h(1,2,3) demo_wrapped h(4,6)] out
  have "\<exists>c. renderOut demoYaml ''g/g-p'' (OutPolicy p) = Inr c \<and>
      FilesHandler_ReadFile (gs_fs st') (''out'' @ slash @ ''g/g-p'' @ FileExt) = Inr c"
    unfolding lib h(5) by auto
  with run show ?thesis by (simp add: renderOut_def demoYaml_def fatal_def)
qed

end
