(* ===== verification/Placeholders.thy ===== *)
theory Placeholders
  imports GoFS
begin

text \<open>
  The handling of \<^verbatim>\<open>$variable\<close> placeholders in source CRs, from
  \<^verbatim>\<open>pgt2acmpg/packages/fileutils/fileutils.go\<close>: the four regular expressions,
  \<^verbatim>\<open>commentOutParentKeyIfSoleChild\<close>, \<^verbatim>\<open>CommentOutLinesWithPlaceholders\<close> and \<^verbatim>\<open>RenderMCPLines\<close>.
\<close>

section \<open>The patterns\<close>

text \<open>\<^verbatim>\<open>\s\<close> and \<^verbatim>\<open>\S\<close> of Go's regular expressions.\<close>

definition isWs :: "char \<Rightarrow> bool" where
  "isWs c \<longleftrightarrow> c \<in> {CHR '' '', CHR 0x09, CHR 0x0A, CHR 0x0C, CHR 0x0D}"

definition skipWs :: "string \<Rightarrow> string" where
  "skipWs s = dropWhile isWs s"

text \<open>\<open>keyThenVariable\<close> matches \<^verbatim>\<open>^\S+: \$\S*\<close>: the run of non-space characters ends with a colon that is
  not its first character, and a space and a dollar follow.\<close>

definition keyThenVariable :: "string \<Rightarrow> bool" where
  "keyThenVariable s =
     (let run = takeWhile (\<lambda>c. \<not> isWs c) s in
      length run \<ge> 2 \<and> last run = CHR '':'' \<and> HasPrefix (drop (length run) s) '' $'')"

definition scalarPlaceholderPattern :: "string \<Rightarrow> bool" where
  "scalarPlaceholderPattern line = keyThenVariable (skipWs line)"

definition listItemPlaceholderPattern :: "string \<Rightarrow> bool" where
  "listItemPlaceholderPattern line = HasPrefix (skipWs line) ''- $''"

definition listItemScalarPlaceholderPattern :: "string \<Rightarrow> bool" where
  "listItemScalarPlaceholderPattern line =
     (HasPrefix (skipWs line) ''- '' \<and> keyThenVariable (drop 2 (skipWs line)))"

definition barePlaceholderPattern :: "string \<Rightarrow> bool" where
  "barePlaceholderPattern line =
     (let t = skipWs line; v = takeWhile (\<lambda>c. \<not> isWs c) t in
      line \<noteq> t \<and> HasPrefix t ''$'' \<and> length v \<ge> 2 \<and> list_all isWs (drop (length v) t))"

definition isPlaceholderChild :: "string \<Rightarrow> bool" where
  "isPlaceholderChild line \<longleftrightarrow>
     listItemPlaceholderPattern line \<or> listItemScalarPlaceholderPattern line \<or> barePlaceholderPattern line"

definition isPlaceholderLine :: "string \<Rightarrow> bool" where
  "isPlaceholderLine line \<longleftrightarrow> isPlaceholderChild line \<or> scalarPlaceholderPattern line"

section \<open>Commenting out\<close>

definition isSkipped :: "string \<Rightarrow> bool" where
  "isSkipped line = (let trimmed = TrimSpace line in trimmed = [] \<or> HasPrefix trimmed ''#'')"

text \<open>The loop backwards from a line to its parent key.\<close>

fun findParent :: "string list \<Rightarrow> nat \<Rightarrow> nat option" where
  "findParent lines 0 = None"
| "findParent lines (Suc j) =
     (if isSkipped (lines ! j) then findParent lines j
      else if HasSuffix (TrimSpace (lines ! j)) '':'' then Some j else None)"

text \<open>The loop forward over the lines after the placeholder: \<open>False\<close> when a line that is no
  placeholder is indented below the parent.\<close>

fun soleChild :: "nat \<Rightarrow> string list \<Rightarrow> bool" where
  "soleChild parentIndent [] = True"
| "soleChild parentIndent (line # rest) =
     (if isSkipped line \<or> isPlaceholderChild line then soleChild parentIndent rest
      else \<not> indentOf line > parentIndent)"

definition commentMark :: string where "commentMark = ''# ''"

definition commentOutParentKeyIfSoleChild :: "string list \<Rightarrow> string list \<Rightarrow> nat \<Rightarrow> string list" where
  "commentOutParentKeyIfSoleChild lines modifiedLines lineIndex =
     (case findParent lines lineIndex of
        None \<Rightarrow> modifiedLines
      | Some parentIdx \<Rightarrow>
          if soleChild (indentOf (lines ! parentIdx)) (drop (lineIndex + 1) lines)
          then modifiedLines[parentIdx := commentMark @ modifiedLines ! parentIdx]
          else modifiedLines)"

text \<open>One turn of the loop; the index of the line is the number of modified lines.\<close>

definition commentStep :: "string list \<Rightarrow> string list \<Rightarrow> string \<Rightarrow> string list" where
  "commentStep lines modifiedLines line =
     (let i = length modifiedLines in
      if listItemScalarPlaceholderPattern line
      then commentOutParentKeyIfSoleChild lines modifiedLines i @ [commentMark @ line]
      else if scalarPlaceholderPattern line then modifiedLines @ [commentMark @ line]
      else if barePlaceholderPattern line
      then commentOutParentKeyIfSoleChild lines modifiedLines i @ [commentMark @ line]
      else if listItemPlaceholderPattern line
      then commentOutParentKeyIfSoleChild lines modifiedLines i @ [commentMark @ line]
      else modifiedLines @ [line])"

definition commentOutLines :: "string list \<Rightarrow> string list" where
  "commentOutLines lines = foldl (commentStep lines) [] lines"

definition newline :: string where "newline = [CHR 0x0A]"

definition commentOutText :: "string \<Rightarrow> string" where
  "commentOutText contents = Join (commentOutLines (Split contents newline)) newline"

text \<open>The error of a file that cannot be read or written names the file.\<close>

definition openFailed :: "string \<Rightarrow> os_error \<Rightarrow> go_error" where
  "openFailed f e = Error (''unable to open file: '' @ f @ '', err: '' @ pathError ''open'' f e @ '' '')"

definition writeFailed :: "string \<Rightarrow> os_error \<Rightarrow> go_error" where
  "writeFailed f e = Error (''error writing to file: '' @ f @ '', err: '' @ pathError ''open'' f e)"

definition readOr :: "(string \<Rightarrow> os_error \<Rightarrow> go_error) \<Rightarrow> fsys \<Rightarrow> string \<Rightarrow> string res" where
  "readOr err fs f = (case os_ReadFile fs f of Inl e \<Rightarrow> Inl (err f e) | Inr s \<Rightarrow> Inr s)"

definition writeOr :: "(string \<Rightarrow> os_error \<Rightarrow> go_error) \<Rightarrow> fsys \<Rightarrow> string \<Rightarrow> string \<Rightarrow> fsys res" where
  "writeOr err fs f s = (case os_WriteFile fs f s of Inl e \<Rightarrow> Inl (err f e) | Inr fs' \<Rightarrow> Inr fs')"

definition CommentOutLinesWithPlaceholders :: "fsys \<Rightarrow> string \<Rightarrow> fsys res" where
  "CommentOutLinesWithPlaceholders fs inputFile =
     bind_res (readOr openFailed fs inputFile) (\<lambda>contents.
       writeOr writeFailed fs inputFile (commentOutText contents))"

definition mcpPattern :: string where "mcpPattern = ''$mcp''"

definition renderedName :: "string \<Rightarrow> string \<Rightarrow> string" where
  "renderedName inputFile mcp = TrimSuffix inputFile ''.yaml'' @ ''-MCP-'' @ mcp @ ''.yaml''"

definition commentFailed :: "string \<Rightarrow> string \<Rightarrow> string" where
  "commentFailed f e = ''error removing placeholders $** in file: '' @ f @ '', err: '' @ e"

definition RenderMCPLines :: "fsys \<Rightarrow> string \<Rightarrow> string \<Rightarrow> (fsys \<times> string) res" where
  "RenderMCPLines fs inputFile mcp =
     bind_res (readOr openFailed fs inputFile) (\<lambda>contents.
     let has = Contains contents mcpPattern;
         contents' = (if has then ReplaceAll contents mcpPattern mcp else contents);
         outputFile = (if has then renderedName inputFile mcp else inputFile) in
     bind_res (writeOr writeFailed fs outputFile contents') (\<lambda>fs1.
     bind_res (map_error (commentFailed outputFile) (CommentOutLinesWithPlaceholders fs1 outputFile)) (\<lambda>fs2.
       Inr (fs2, outputFile))))"

lemma readOr_Inr [res_simps]: "readOr err fs f = Inr s \<longleftrightarrow> os_ReadFile fs f = Inr s"
  by (simp add: readOr_def split: sum.splits)

lemma writeOr_Inr [res_simps]: "writeOr err fs f s = Inr fs' \<longleftrightarrow> writeOpt fs f s = Some fs'"
  by (simp add: writeOr_def writeOpt_def split: sum.splits)

section \<open>What the patterns match\<close>

lemma skipWs_split: "\<exists>ws. s = ws @ skipWs s \<and> list_all isWs ws"
  by (rule exI [of _ "takeWhile isWs s"]) (auto simp: skipWs_def list_all_iff dest: set_takeWhileD)

lemma skipWs_append: "list_all isWs ws \<Longrightarrow> t = [] \<or> \<not> isWs (hd t) \<Longrightarrow> skipWs (ws @ t) = t"
  by (induction ws) (auto simp: skipWs_def dropWhile_eq_self_iff)

lemma takeWhile_run: "list_all (\<lambda>c. \<not> P c) x \<Longrightarrow> t = [] \<or> P (hd t) \<Longrightarrow> takeWhile (\<lambda>c. \<not> P c) (x @ t) = x"
  by (induction x) (cases t; auto)+

lemma keyThenVariable_iff:
  "keyThenVariable s \<longleftrightarrow> (\<exists>x rest. s = x @ '': $'' @ rest \<and> x \<noteq> [] \<and> list_all (\<lambda>c. \<not> isWs c) x)"
proof
  let ?run = "takeWhile (\<lambda>c. \<not> isWs c) s"
  assume k: "keyThenVariable s"
  then obtain x where x: "?run = x @ '':''" "x \<noteq> []"
    by (cases ?run rule: rev_cases) (auto simp: keyThenVariable_def Let_def Suc_le_length_iff)
  from k obtain rest where "drop (length ?run) s = '' $'' @ rest"
    by (auto simp: keyThenVariable_def Let_def HasPrefix_iff)
  moreover have "s = ?run @ drop (length ?run) s" by (metis append_take_drop_id takeWhile_eq_take)
  ultimately have "s = x @ '': $'' @ rest" using x by simp
  moreover have "list_all (\<lambda>c. \<not> isWs c) x"
    using x(1) set_takeWhileD [of _ "\<lambda>c. \<not> isWs c" s] by (auto simp: list_all_iff)
  ultimately show "\<exists>x rest. s = x @ '': $'' @ rest \<and> x \<noteq> [] \<and> list_all (\<lambda>c. \<not> isWs c) x"
    using x(2) by blast
next
  assume "\<exists>x rest. s = x @ '': $'' @ rest \<and> x \<noteq> [] \<and> list_all (\<lambda>c. \<not> isWs c) x"
  then obtain x rest where x: "s = (x @ '':'') @ '' $'' @ rest" "x \<noteq> []" "list_all (\<lambda>c. \<not> isWs c) x" by auto
  then have "takeWhile (\<lambda>c. \<not> isWs c) s = x @ '':''"
    unfolding x(1) by (intro takeWhile_run) (auto simp: isWs_def)
  with x show "keyThenVariable s" by (cases x) (auto simp: keyThenVariable_def)
qed

text \<open>No commented line is a placeholder line.\<close>

lemma skipWs_commentMark: "skipWs (commentMark @ l) = commentMark @ l"
  by (simp add: skipWs_def commentMark_def isWs_def)

lemma commentMark_clean [simp]: "\<not> isPlaceholderLine (commentMark @ l)"
proof -
  have "\<not> keyThenVariable (commentMark @ l)"
    by (simp add: keyThenVariable_def commentMark_def isWs_def)
  then show ?thesis
    by (simp add: isPlaceholderLine_def isPlaceholderChild_def listItemPlaceholderPattern_def
        listItemScalarPlaceholderPattern_def barePlaceholderPattern_def scalarPlaceholderPattern_def
        skipWs_commentMark) (simp add: commentMark_def)
qed

section \<open>What commenting out does to the lines\<close>

definition marks :: "nat \<Rightarrow> string" where
  "marks n = concat (replicate n commentMark)"

lemma marks_Suc: "marks (Suc n) = commentMark @ marks n"
  by (simp add: marks_def)

lemma findParent_less: "findParent lines i = Some j \<Longrightarrow> j < i \<and> HasSuffix (TrimSpace (lines ! j)) '':''"
  by (induction lines i rule: findParent.induct) (auto split: if_splits)

text \<open>How a line of the result comes out of the line of the file.\<close>

definition markedLine :: "string \<Rightarrow> string \<Rightarrow> bool" where
  "markedLine l m \<longleftrightarrow>
     (\<exists>n. m = marks n @ l \<and> (isPlaceholderLine l \<longrightarrow> n > 0) \<and>
        (\<not> isPlaceholderLine l \<and> \<not> HasSuffix (TrimSpace l) '':'' \<longrightarrow> n = 0))"

lemma markedLine_mark: "markedLine l m \<Longrightarrow> isPlaceholderLine l \<or> HasSuffix (TrimSpace l) '':'' \<Longrightarrow> markedLine l (commentMark @ m)"
  unfolding markedLine_def by (metis append_assoc marks_Suc zero_less_Suc)

lemma markedLine_clean: "markedLine l m \<Longrightarrow> \<not> isPlaceholderLine m"
proof -
  assume "markedLine l m"
  then obtain n where n: "m = marks n @ l" "isPlaceholderLine l \<longrightarrow> n > 0" by (auto simp: markedLine_def)
  then show ?thesis by (cases n) (simp_all add: marks_Suc, simp add: marks_def)
qed

lemma markedLine_new: "markedLine l (if isPlaceholderLine l then commentMark @ l else l)"
proof -
  have "marks (Suc 0) = commentMark" "marks 0 = []" by (simp_all add: marks_def)
  then show ?thesis unfolding markedLine_def
    by (metis append_Nil less_irrefl zero_less_Suc)
qed

lemma commentParent_list_all2:
  assumes "list_all2 markedLine (take (length ms) lines) ms" and "length ms \<le> length lines"
  shows "list_all2 markedLine (take (length ms) lines) (commentOutParentKeyIfSoleChild lines ms (length ms))"
proof (cases "findParent lines (length ms)")
  case None
  with assms show ?thesis by (simp add: commentOutParentKeyIfSoleChild_def)
next
  case (Some j)
  then have j: "j < length ms" "HasSuffix (TrimSpace (lines ! j)) '':''" using findParent_less by auto
  with assms have "markedLine (lines ! j) (ms ! j)" by (auto simp: list_all2_conv_all_nth)
  with j have "markedLine (take (length ms) lines ! j) (commentMark @ ms ! j)" by (auto intro: markedLine_mark)
  with assms j have "list_all2 markedLine ((take (length ms) lines)[j := take (length ms) lines ! j]) (ms[j := commentMark @ ms ! j])"
    by (intro list_all2_update_cong) auto
  with Some assms show ?thesis by (simp add: commentOutParentKeyIfSoleChild_def)
qed

lemma commentStep_eq:
  "commentStep lines ms line =
     (if isPlaceholderLine line \<and> (listItemScalarPlaceholderPattern line \<or> \<not> scalarPlaceholderPattern line)
      then commentOutParentKeyIfSoleChild lines ms (length ms) else ms) @
     [if isPlaceholderLine line then commentMark @ line else line]"
  by (simp add: commentStep_def Let_def isPlaceholderLine_def isPlaceholderChild_def)

lemma commentStep_list_all2:
  assumes "list_all2 markedLine (take (length ms) lines) ms" and "length ms < length lines"
    and "line = lines ! length ms"
  shows "list_all2 markedLine (take (Suc (length ms)) lines) (commentStep lines ms line)"
proof -
  have t: "take (Suc (length ms)) lines = take (length ms) lines @ [line]"
    using assms(2,3) by (simp add: take_Suc_conv_app_nth)
  have "list_all2 markedLine (take (length ms) lines)
    (if isPlaceholderLine line \<and> (listItemScalarPlaceholderPattern line \<or> \<not> scalarPlaceholderPattern line)
      then commentOutParentKeyIfSoleChild lines ms (length ms) else ms)"
    using assms commentParent_list_all2 by auto
  then show ?thesis
    unfolding t commentStep_eq using markedLine_new [of line] by (intro list_all2_appendI) simp_all
qed

lemma foldl_commentStep:
  assumes "list_all2 markedLine pre ms" and "lines = pre @ rest"
  shows "list_all2 markedLine lines (foldl (commentStep lines) ms rest)"
  using assms
proof (induction rest arbitrary: pre ms)
  case Nil
  then show ?case by simp
next
  case (Cons l rest)
  then have len: "length ms = length pre" by (simp add: list_all2_lengthD)
  have "list_all2 markedLine (take (Suc (length ms)) lines) (commentStep lines ms l)"
    using Cons.prems len by (intro commentStep_list_all2) auto
  then have "list_all2 markedLine (pre @ [l]) (commentStep lines ms l)"
    using Cons.prems(2) len by simp
  then show ?case using Cons.IH [of "pre @ [l]"] Cons.prems(2) by simp
qed

lemma commentOutLines_marked: "list_all2 markedLine lines (commentOutLines lines)"
  unfolding commentOutLines_def by (rule foldl_commentStep [of "[]"]) simp_all

lemma commentOutLines_fixed:
  assumes "list_all (\<lambda>l. \<not> isPlaceholderLine l) lines"
  shows "commentOutLines lines = lines"
proof -
  have "foldl (commentStep ls) ms rest = ms @ rest" if "list_all (\<lambda>l. \<not> isPlaceholderLine l) rest" for ls ms rest
    using that by (induction rest arbitrary: ms) (simp_all add: commentStep_eq)
  from this [OF assms] show ?thesis by (simp add: commentOutLines_def)
qed

lemma commentOutLines_clean: "list_all (\<lambda>l. \<not> isPlaceholderLine l) (commentOutLines lines)"
  using commentOutLines_marked [of lines]
  by (auto simp: list_all_length list_all2_conv_all_nth dest: markedLine_clean)

lemma marks_no_newline: "CHR 0x0A \<notin> set (marks n)"
  by (induction n) (simp_all add: marks_Suc, simp_all add: marks_def commentMark_def)

lemma Split_commentOutText:
  "Split (commentOutText s) newline = commentOutLines (Split s newline)"
proof -
  let ?ls = "Split s newline"
  have m: "list_all2 markedLine ?ls (commentOutLines ?ls)" by (rule commentOutLines_marked)
  then have "commentOutLines ?ls \<noteq> []" by auto
  moreover have "\<forall>x\<in>set (commentOutLines ?ls). CHR 0x0A \<notin> set x"
  proof
    fix x assume "x \<in> set (commentOutLines ?ls)"
    with m obtain l where "l \<in> set ?ls" "markedLine l x"
      by (metis in_set_conv_nth list_all2_conv_all_nth)
    moreover from this(1) have "CHR 0x0A \<notin> set l"
      unfolding Split_def newline_def by (auto dest: Split_pieces_no_sep_char)
    ultimately show "CHR 0x0A \<notin> set x" using marks_no_newline by (auto simp: markedLine_def)
  qed
  ultimately show ?thesis unfolding commentOutText_def newline_def by (rule Split_Join)
qed

lemma skipWs_iff:
  assumes "\<And>t. P t \<Longrightarrow> t \<noteq> [] \<and> \<not> isWs (hd t)"
  shows "P (skipWs line) \<longleftrightarrow> (\<exists>ws t. line = ws @ t \<and> list_all isWs ws \<and> P t)"
proof
  assume "P (skipWs line)"
  then show "\<exists>ws t. line = ws @ t \<and> list_all isWs ws \<and> P t" using skipWs_split [of line] by blast
next
  assume "\<exists>ws t. line = ws @ t \<and> list_all isWs ws \<and> P t"
  then show "P (skipWs line)" using assms skipWs_append by metis
qed

lemma keyThenVariable_hd: "keyThenVariable t \<Longrightarrow> t \<noteq> [] \<and> \<not> isWs (hd t)"
proof -
  assume "keyThenVariable t"
  then obtain x rest where "t = x @ '': $'' @ rest" "x \<noteq> []" "list_all (\<lambda>c. \<not> isWs c) x"
    unfolding keyThenVariable_iff by blast
  then show ?thesis by (cases x) auto
qed

lemma ex_parts:
  "(\<exists>ws t. line = ws @ t \<and> A ws \<and> (\<exists>x rest. t = f x rest \<and> B x)) \<longleftrightarrow>
     (\<exists>ws x rest. line = ws @ f x rest \<and> A ws \<and> B x)"
  by blast

lemma scalarPlaceholderPattern_iff:
  "scalarPlaceholderPattern line \<longleftrightarrow>
     (\<exists>ws x rest. line = ws @ x @ '': $'' @ rest \<and> list_all isWs ws \<and> x \<noteq> [] \<and> list_all (\<lambda>c. \<not> isWs c) x)"
proof -
  have "scalarPlaceholderPattern line \<longleftrightarrow> (\<exists>ws t. line = ws @ t \<and> list_all isWs ws \<and> keyThenVariable t)"
    unfolding scalarPlaceholderPattern_def by (rule skipWs_iff [OF keyThenVariable_hd])
  then show ?thesis unfolding keyThenVariable_iff by (simp only: ex_parts)
qed

lemma listItemPlaceholderPattern_iff:
  "listItemPlaceholderPattern line \<longleftrightarrow> (\<exists>ws rest. line = ws @ ''- $'' @ rest \<and> list_all isWs ws)"
proof -
  have "HasPrefix t ''- $'' \<Longrightarrow> t \<noteq> [] \<and> \<not> isWs (hd t)" for t by (auto simp: HasPrefix_iff isWs_def)
  from skipWs_iff [of "\<lambda>t. HasPrefix t ''- $''" line, OF this] show ?thesis
    by (auto simp: listItemPlaceholderPattern_def HasPrefix_iff)
qed

lemma listItemScalarPlaceholderPattern_iff:
  "listItemScalarPlaceholderPattern line \<longleftrightarrow>
     (\<exists>ws x rest. line = ws @ ''- '' @ x @ '': $'' @ rest \<and> list_all isWs ws \<and> x \<noteq> [] \<and>
        list_all (\<lambda>c. \<not> isWs c) x)"
proof -
  let ?P = "\<lambda>t. HasPrefix t ''- '' \<and> keyThenVariable (drop 2 t)"
  have hd: "?P t \<Longrightarrow> t \<noteq> [] \<and> \<not> isWs (hd t)" for t by (auto simp: HasPrefix_iff isWs_def)
  have P: "?P t \<longleftrightarrow> (\<exists>x rest. t = ''- '' @ x @ '': $'' @ rest \<and> x \<noteq> [] \<and> list_all (\<lambda>c. \<not> isWs c) x)" for t
  proof -
    have "?P t \<longleftrightarrow> (\<exists>u. t = ''- '' @ u \<and> keyThenVariable u)" by (auto simp: HasPrefix_iff)
    then show ?thesis unfolding keyThenVariable_iff by blast
  qed
  have "listItemScalarPlaceholderPattern line \<longleftrightarrow> (\<exists>ws t. line = ws @ t \<and> list_all isWs ws \<and> ?P t)"
    unfolding listItemScalarPlaceholderPattern_def by (rule skipWs_iff [of ?P line, OF hd])
  then show ?thesis unfolding P by (simp only: ex_parts)
qed

lemma barePlaceholderPattern_iff:
  "barePlaceholderPattern line \<longleftrightarrow>
     (\<exists>ws x ws'. line = ws @ ''$'' @ x @ ws' \<and> ws \<noteq> [] \<and> list_all isWs ws \<and> x \<noteq> [] \<and>
        list_all (\<lambda>c. \<not> isWs c) x \<and> list_all isWs ws')"
proof
  assume b: "barePlaceholderPattern line"
  let ?t = "skipWs line" and ?v = "takeWhile (\<lambda>c. \<not> isWs c) (skipWs line)"
  obtain ws where ws: "line = ws @ ?t" "list_all isWs ws" using skipWs_split by blast
  have t: "?t = ?v @ drop (length ?v) ?t" by (metis append_take_drop_id takeWhile_eq_take)
  have nw: "list_all (\<lambda>c. \<not> isWs c) ?v" by (auto simp: list_all_iff dest: set_takeWhileD)
  from b have v: "HasPrefix ?t ''$''" "length ?v \<ge> 2" "list_all isWs (drop (length ?v) ?t)" "line \<noteq> ?t"
    by (auto simp: barePlaceholderPattern_def Let_def)
  from v(2) obtain c x where cx: "?v = c # x" "x \<noteq> []" by (cases ?v) (auto simp: Suc_le_length_iff)
  with t v(1) have "c = CHR ''$''" by (cases ?t) auto
  with ws t cx have "line = ws @ ''$'' @ x @ drop (length ?v) ?t" by (metis append_Cons append_Nil)
  moreover have "ws \<noteq> []" using ws(1) v(4) by auto
  moreover have x: "list_all (\<lambda>c. \<not> isWs c) x" using nw cx(1) by simp
  ultimately show "\<exists>ws x ws'. line = ws @ ''$'' @ x @ ws' \<and> ws \<noteq> [] \<and> list_all isWs ws \<and> x \<noteq> [] \<and>
        list_all (\<lambda>c. \<not> isWs c) x \<and> list_all isWs ws'"
    using ws(2) cx(2) x v(3) by blast
next
  assume "\<exists>ws x ws'. line = ws @ ''$'' @ x @ ws' \<and> ws \<noteq> [] \<and> list_all isWs ws \<and> x \<noteq> [] \<and>
        list_all (\<lambda>c. \<not> isWs c) x \<and> list_all isWs ws'"
  then obtain ws x ws' where l: "line = ws @ (''$'' @ x) @ ws'" "ws \<noteq> []" "list_all isWs ws" "x \<noteq> []"
    "list_all (\<lambda>c. \<not> isWs c) x" "list_all isWs ws'" by auto
  have t: "skipWs line = (''$'' @ x) @ ws'"
    unfolding l(1) using l(3) by (intro skipWs_append) (auto simp: isWs_def)
  have "takeWhile (\<lambda>c. \<not> isWs c) ((''$'' @ x) @ ws') = ''$'' @ x"
    using l(5,6) by (intro takeWhile_run) (cases ws'; auto simp: isWs_def)+
  with l t show "barePlaceholderPattern line"
    by (cases x) (simp_all add: barePlaceholderPattern_def Let_def)
qed

section \<open>Properties\<close>

text \<open>The four matchers are the regular expressions of the source: \<^verbatim>\<open>^(\s*)\S+: \$\S*\<close>,
  \<^verbatim>\<open>^(\s*)- \$\S*\<close>, \<^verbatim>\<open>^(\s*)- \S+: \$\S*\<close> and \<^verbatim>\<open>^\s+\$\S+\s*$\<close>, each given by the ways to cut the line into the
  parts of the expression.\<close>

theorem placeholder_patterns_exact:
  "(scalarPlaceholderPattern line \<longleftrightarrow>
     (\<exists>ws x rest. line = ws @ x @ '': $'' @ rest \<and> list_all isWs ws \<and> x \<noteq> [] \<and> list_all (\<lambda>c. \<not> isWs c) x)) \<and>
   (listItemPlaceholderPattern line \<longleftrightarrow> (\<exists>ws rest. line = ws @ ''- $'' @ rest \<and> list_all isWs ws)) \<and>
   (listItemScalarPlaceholderPattern line \<longleftrightarrow>
     (\<exists>ws x rest. line = ws @ ''- '' @ x @ '': $'' @ rest \<and> list_all isWs ws \<and> x \<noteq> [] \<and>
        list_all (\<lambda>c. \<not> isWs c) x)) \<and>
   (barePlaceholderPattern line \<longleftrightarrow>
     (\<exists>ws x ws'. line = ws @ ''$'' @ x @ ws' \<and> ws \<noteq> [] \<and> list_all isWs ws \<and> x \<noteq> [] \<and>
        list_all (\<lambda>c. \<not> isWs c) x \<and> list_all isWs ws'))"
  by (intro conjI scalarPlaceholderPattern_iff listItemPlaceholderPattern_iff
      listItemScalarPlaceholderPattern_iff barePlaceholderPattern_iff)

text \<open>Commenting out: the lines of the file keep their number and order, each is its original
  behind comment marks, every placeholder line and only placeholder lines and parent keys (lines
  that end with a colon) are marked, no placeholder line is left, and a second pass changes
  nothing.\<close>

theorem commentOutText_marks_placeholders:
  "list_all2 markedLine (Split s newline) (Split (commentOutText s) newline) \<and>
   list_all (\<lambda>l. \<not> isPlaceholderLine l) (Split (commentOutText s) newline) \<and>
   commentOutText (commentOutText s) = commentOutText s"
proof -
  have "commentOutText (commentOutText s) = Join (commentOutLines (commentOutLines (Split s newline))) newline"
    by (simp add: commentOutText_def [of "commentOutText s"] Split_commentOutText)
  also have "\<dots> = commentOutText s"
    by (simp add: commentOutLines_fixed [OF commentOutLines_clean] commentOutText_def)
  finally show ?thesis
    using commentOutLines_marked [of "Split s newline"] commentOutLines_clean [of "Split s newline"]
    by (simp add: Split_commentOutText)
qed

text \<open>Rendering a source CR for a machine config pool: when the file mentions \<^verbatim>\<open>$mcp\<close>, the rendered
  text goes to a file named after the pool, otherwise back to the file itself; the output holds the
  text with the pool filled in and the placeholder lines commented out, and no other file changes,
  so a file that mentions \<^verbatim>\<open>$mcp\<close> stays as it is for the next pool.\<close>

theorem RenderMCPLines_output:
  assumes "RenderMCPLines fs inputFile mcp = Inr (fs', out)" and "os_ReadFile fs inputFile = Inr c"
  shows "out = (if Contains c mcpPattern then renderedName inputFile mcp else inputFile) \<and>
    os_ReadFile fs' out =
      Inr (commentOutText (if Contains c mcpPattern then ReplaceAll c mcpPattern mcp else c)) \<and>
    (\<forall>q. \<not> sameFile fs out q \<longrightarrow> readOpt fs' q = readOpt fs q)"
proof -
  let ?o = "if Contains c mcpPattern then renderedName inputFile mcp else inputFile"
  let ?c = "if Contains c mcpPattern then ReplaceAll c mcpPattern mcp else c"
  from assms(1) obtain x fs1 fs2 where r: "os_ReadFile fs inputFile = Inr x"
    and w: "writeOpt fs (if Contains x mcpPattern then renderedName inputFile mcp else inputFile)
      (if Contains x mcpPattern then ReplaceAll x mcpPattern mcp else x) = Some fs1"
    and k: "CommentOutLinesWithPlaceholders fs1
      (if Contains x mcpPattern then renderedName inputFile mcp else inputFile) = Inr fs2"
    and o: "(Inr (fs2, if Contains x mcpPattern then renderedName inputFile mcp else inputFile) :: (fsys \<times> string) res) = Inr (fs', out)"
    unfolding RenderMCPLines_def Let_def bind_res_Inr_iff map_error_Inr_iff readOr_Inr writeOr_Inr by blast
  have "x = c" using r assms(2) by simp
  with w k o have w1: "writeOpt fs ?o ?c = Some fs1" and out: "out = ?o"
    and co: "CommentOutLinesWithPlaceholders fs1 ?o = Inr fs'"
    by (simp_all only: sum.inject prod.inject)
  have "os_ReadFile fs1 ?o = Inr ?c" using fstore.read_back [OF w1] by (simp only: os_ReadFile_Inr)
  with co have w2: "writeOpt fs1 ?o (commentOutText ?c) = Some fs'"
    unfolding CommentOutLinesWithPlaceholders_def bind_res_Inr_iff readOr_Inr writeOr_Inr
    by (simp only: sum.inject ex_simps simp_thms)
  from w1 obtain fs2 where "writeOpt fs1 ?o (commentOutText ?c) = Some fs2"
    and rd: "\<forall>q. readOpt fs2 q = (if sameFile fs ?o q then Some (commentOutText ?c) else readOpt fs q)"
    by (rule fstore.overwrite)
  with w2 have fs2: "fs2 = fs'" by (simp only: option.inject)
  have "os_ReadFile fs' ?o = Inr (commentOutText ?c)"
    using fstore.read_back [OF w2] by (simp only: os_ReadFile_Inr)
  moreover have "readOpt fs' q = readOpt fs q" if "\<not> sameFile fs ?o q" for q
    using rd that unfolding fs2 by (simp only: if_False simp_thms)
  ultimately show ?thesis unfolding out by blast
qed

definition demoMcpFS :: fsys where
  "demoMcpFS = \<lparr>fs_nodes = [([''a.yaml''], NFile ''r: $mcp'')], fs_cwd = ''/'', fs_exe = ''/x''\<rparr>"

lemma demoMcpFS_nodes: "fs_nodes demoMcpFS = [([''a.yaml''], NFile ''r: $mcp'')]"
  by (simp add: demoMcpFS_def)

theorem RenderMCPLines_output_witness:
  "\<exists>fs'. RenderMCPLines demoMcpFS ''/a.yaml'' ''m'' = Inr (fs', ''/a-MCP-m.yaml'') \<and>
     os_ReadFile fs' ''/a-MCP-m.yaml'' = Inr ''r: m'' \<and> readOpt fs' ''/a.yaml'' = Some ''r: $mcp''"
proof -
  have res: "resolve fs ''/a.yaml'' = [''a.yaml'']" "resolve fs ''/a-MCP-m.yaml'' = [''a-MCP-m.yaml'']" for fs
    by (simp_all add: resolve_def IsAbs_def slash_def elems_def Split_def cleanElems_def)
  have rd: "os_ReadFile demoMcpFS ''/a.yaml'' = Inr ''r: $mcp''"
    by (simp add: os_ReadFile_def os_Stat_def res nodeAt_def demoMcpFS_def)
  have c: "Contains ''r: $mcp'' mcpPattern" "ReplaceAll ''r: $mcp'' mcpPattern ''m'' = ''r: m''"
    "renderedName ''/a.yaml'' ''m'' = ''/a-MCP-m.yaml''"
    by (simp_all add: mcpPattern_def renderedName_def TrimSuffix_def HasSuffix_def)
  have k: "commentOutText ''r: m'' = ''r: m''"
    by (simp add: commentOutText_def Split_def newline_def commentOutLines_def commentStep_def
        listItemScalarPlaceholderPattern_def scalarPlaceholderPattern_def barePlaceholderPattern_def
        listItemPlaceholderPattern_def keyThenVariable_def skipWs_def isWs_def)
  let ?f1 = "setNode [''a-MCP-m.yaml''] (NFile ''r: m'') demoMcpFS"
  have "CommentOutLinesWithPlaceholders ?f1 ''/a-MCP-m.yaml'' = Inr (setNode [''a-MCP-m.yaml''] (NFile ''r: m'') ?f1)"
    by (simp add: CommentOutLinesWithPlaceholders_def readOr_def os_ReadFile_def os_Stat_def res k writeOr_def os_WriteFile_def Let_def)
  then have "RenderMCPLines demoMcpFS ''/a.yaml'' ''m'' = Inr (setNode [''a-MCP-m.yaml''] (NFile ''r: m'') ?f1, ''/a-MCP-m.yaml'')"
    by (simp add: RenderMCPLines_def readOr_def rd c writeOr_def os_WriteFile_def res nodeAt_def [of demoMcpFS] demoMcpFS_nodes Let_def
        del: Contains.simps ReplaceAll.simps)
  moreover from RenderMCPLines_output [OF this rd] c k
  have "os_ReadFile (setNode [''a-MCP-m.yaml''] (NFile ''r: m'') ?f1) ''/a-MCP-m.yaml'' = Inr ''r: m''"
    "readOpt (setNode [''a-MCP-m.yaml''] (NFile ''r: m'') ?f1) ''/a.yaml'' = readOpt demoMcpFS ''/a.yaml''"
    by (auto simp: sameFile_def res simp del: Contains.simps ReplaceAll.simps)
  moreover have "readOpt demoMcpFS ''/a.yaml'' = Some ''r: $mcp''" using rd by (simp add: os_ReadFile_Inr)
  ultimately show ?thesis by auto
qed

end
