(* ===== verification/FileUtils.thy ===== *)
theory FileUtils
  imports Placeholders PolicyTypes "HOL-Library.Sublist"
begin

text \<open>
  The rest of \<^verbatim>\<open>pgt2acmpg/packages/fileutils/fileutils.go\<close> and \<^verbatim>\<open>copydir.go\<close>: walking and copying
  directories, kustomization files, the namespace file.

  Recursion over directories is bounded by a depth: a path of more than \<^verbatim>\<open>PATH_MAX\<close> characters is
  refused by the operating system, so a deeper tree cannot be walked; running out of depth is the
  panic \<open>tooDeep\<close>. Decoding and encoding YAML is the parameter \<open>fuYaml\<close>.
\<close>

definition DefaultNamespaceFile :: string where "DefaultNamespaceFile = ''ns.yaml''"
definition ACMPrefix :: string where "ACMPrefix = ''acm-''"
definition SourceCRsDir :: string where "SourceCRsDir = ''source-crs''"
definition KustomizationFileName :: string where "KustomizationFileName = ''kustomization.yaml''"

definition defaultPlacementBindings :: "string \<Rightarrow> string" where
  "defaultPlacementBindings namespace =
     newline @ ''---'' @ newline @
     ''apiVersion: cluster.open-cluster-management.io/v1beta2'' @ newline @
     ''kind: ManagedClusterSetBinding'' @ newline @
     ''metadata:'' @ newline @
     ''  name: global'' @ newline @
     ''  namespace: '' @ namespace @ newline @
     ''spec:'' @ newline @
     ''  clusterSet: global'' @ newline"

record AnnotationsOnly =
  ao_Annotations :: "(string, string) gomap"

record Kustomization =
  ku_Generators :: "string list"
  ku_Resources :: "string list"
  ku_Bases :: "string list"

record fuYaml =
  fy_kind :: "string \<Rightarrow> KindType res"
  fy_annotations :: "string \<Rightarrow> AnnotationsOnly res"
  fy_unmarshalKust :: "string \<Rightarrow> Kustomization res"
  fy_marshalKust :: "Kustomization \<Rightarrow> string res"

section \<open>Walking\<close>

definition tooDeep :: go_error where "tooDeep = Panic ''file name too long''"
definition nilInfo :: go_error where "nilInfo = Panic ''nil pointer dereference''"

text \<open>\<^verbatim>\<open>filepath.Walk\<close> with a function that may change the state: the names of a directory are read before
  the function is called on it, and an entry that cannot be read is passed with a nil
  \<^verbatim>\<open>FileInfo\<close>, which both callbacks of the program dereference.\<close>

primrec walk :: "nat \<Rightarrow> ('s \<Rightarrow> fsys) \<Rightarrow> ('s \<Rightarrow> string \<Rightarrow> bool \<Rightarrow> 's res) \<Rightarrow> 's \<Rightarrow> string \<Rightarrow> 's res" where
  "walk 0 view f s path = Inl tooDeep"
| "walk (Suc n) view f s path =
     (case os_Stat (view s) path of
        Inl _ \<Rightarrow> Inl nilInfo
      | Inr (NFile _) \<Rightarrow> f s path False
      | Inr NDir \<Rightarrow>
          (let names = childrenOf (view s) (resolve (view s) path) in
           bind_res (f s path True) (\<lambda>s1.
             fold_res (\<lambda>s name. walk n view f s (JoinPath [path, name])) s1 names)))"

definition pathMax :: nat where "pathMax = 4096"

definition isYamlName :: "string \<Rightarrow> bool" where
  "isYamlName p \<longleftrightarrow> HasSuffix p ''.yaml'' \<or> HasSuffix p ''.yml''"

definition GetAllYAMLFilesInPath :: "fsys \<Rightarrow> string \<Rightarrow> string list res" where
  "GetAllYAMLFilesInPath fs path =
     walk pathMax (\<lambda>_. fs) (\<lambda>files p isDir. Inr (if \<not> isDir \<and> isYamlName p then files @ [p] else files)) [] path"

definition PrefixLastPathComponent :: "string \<Rightarrow> string \<Rightarrow> string" where
  "PrefixLastPathComponent originalPath pre =
     (let dir = dirPart originalPath; file = lastElem originalPath in
      if dir = [] then pre @ file else JoinPath [dir, pre @ file])"

section \<open>Reading manifests\<close>

definition readFailed :: "string \<Rightarrow> os_error \<Rightarrow> go_error" where
  "readFailed f e = Error (''could not read '' @ f @ '': '' @ pathError ''open'' f e)"

definition parseFailed :: "string \<Rightarrow> string \<Rightarrow> string" where
  "parseFailed f e = ''could not parse '' @ f @ '' as yaml: '' @ e"

definition GetManifestKind :: "fuYaml \<Rightarrow> fsys \<Rightarrow> string \<Rightarrow> KindType res" where
  "GetManifestKind Y fs filePath =
     bind_res (readOr readFailed fs filePath) (\<lambda>yamlFile. map_error (parseFailed filePath) (fy_kind Y yamlFile))"

definition GetAnnotationsOnly :: "fuYaml \<Rightarrow> fsys \<Rightarrow> string \<Rightarrow> AnnotationsOnly res" where
  "GetAnnotationsOnly Y fs filePath =
     bind_res (readOr readFailed fs filePath) (\<lambda>yamlFile. map_error (parseFailed filePath) (fy_annotations Y yamlFile))"

section \<open>The namespace file\<close>

definition AddDefaultPlacementBindingsToNSFile :: "fsys \<Rightarrow> string \<Rightarrow> string \<Rightarrow> string list \<Rightarrow> fsys res" where
  "AddDefaultPlacementBindingsToNSFile fs namespaceFilePath outputDir policiesNamespaces =
     (let full = JoinPath [outputDir, namespaceFilePath] in
      fold_res (\<lambda>fs namespace.
        bind_res (readOr readFailed fs full) (\<lambda>fileContent.
          writeOr writeFailed fs full (fileContent @ defaultPlacementBindings namespace)))
      fs policiesNamespaces)"

section \<open>Copying\<close>

definition Exists :: "fsys \<Rightarrow> string \<Rightarrow> bool" where
  "Exists fs filePath = (case os_Stat fs filePath of Inl e \<Rightarrow> \<not> os_IsNotExist e | Inr _ \<Rightarrow> True)"

definition mkdirFailed :: "string \<Rightarrow> os_error \<Rightarrow> go_error" where
  "mkdirFailed dir e =
     Error (''failed to create directory: '' @ quoted dir @ '', error: '' @ quoted (pathError ''mkdir'' dir e))"

definition CreateIfNotExists :: "fsys \<Rightarrow> string \<Rightarrow> fsys res" where
  "CreateIfNotExists fs dir =
     (if Exists fs dir then Inr fs
      else case os_MkdirAll fs dir of Inl e \<Rightarrow> Inl (mkdirFailed dir e) | Inr fs' \<Rightarrow> Inr fs')"

definition Copy :: "fsys \<Rightarrow> string \<Rightarrow> string \<Rightarrow> (fsys \<times> nat) res" where
  "Copy fs src dst =
     bind_res (map_error (\<lambda>_. ''could not create destination directory '' @ Dir dst) (CreateIfNotExists fs (Dir dst))) (\<lambda>fs1.
     case os_Stat fs1 src of
       Inl e \<Rightarrow> Inl (Error (pathError ''stat'' src e))
     | Inr NDir \<Rightarrow> Inl (Error (src @ '' is not a regular file''))
     | Inr (NFile content) \<Rightarrow>
         if Exists fs1 dst then Inr (fs1, 0)
         else case os_WriteFile fs1 dst content of
           Inl e \<Rightarrow> Inl (Error (pathError ''open'' dst e))
         | Inr fs2 \<Rightarrow> Inr (fs2, length content))"

text \<open>\<^verbatim>\<open>os.Stat\<close> follows links, so the link case of the switch never applies. File modes are not modelled:
  \<^verbatim>\<open>os.Chmod\<close> only fails when the path does not exist.\<close>

definition os_Chmod :: "fsys \<Rightarrow> string \<Rightarrow> fsys res" where
  "os_Chmod fs p = (case os_Stat fs p of Inl e \<Rightarrow> Inl (Error (pathError ''chmod'' p e)) | Inr _ \<Rightarrow> Inr fs)"

definition copyEntry ::
  "(fsys \<Rightarrow> string \<Rightarrow> string \<Rightarrow> fsys res) \<Rightarrow> string \<Rightarrow> string \<Rightarrow> fsys \<Rightarrow> string \<Rightarrow> fsys res" where
  "copyEntry copyDir scrDir dest fs name =
     (let sourcePath = JoinPath [scrDir, name]; destPath = JoinPath [dest, name] in
      bind_res
        (case os_Stat fs sourcePath of
           Inl e \<Rightarrow> Inl (Error (pathError ''stat'' sourcePath e))
         | Inr NDir \<Rightarrow> bind_res (CreateIfNotExists fs destPath) (\<lambda>fs. copyDir fs sourcePath destPath)
         | Inr (NFile _) \<Rightarrow> bind_res (Copy fs sourcePath destPath) (\<lambda>(fs, _). Inr fs))
        (\<lambda>fs. os_Chmod fs destPath))"

primrec CopyDirectory :: "nat \<Rightarrow> fsys \<Rightarrow> string \<Rightarrow> string \<Rightarrow> fsys res" where
  "CopyDirectory 0 fs scrDir dest = Inl tooDeep"
| "CopyDirectory (Suc n) fs scrDir dest =
     bind_res (CreateIfNotExists fs dest) (\<lambda>fs1.
     case os_ReadDir fs1 scrDir of
       Inl e \<Rightarrow> Inl (Error (pathError ''open'' scrDir e))
     | Inr entries \<Rightarrow> fold_res (copyEntry (CopyDirectory n) scrDir dest) fs1 entries)"

section \<open>Kustomization files\<close>

definition copyResource :: "string \<Rightarrow> string \<Rightarrow> string \<Rightarrow> fsys \<Rightarrow> string \<Rightarrow> fsys res" where
  "copyResource relativeFilePath inputDir outputDir fs r =
     (let src = JoinPath [inputDir, Dir relativeFilePath, r];
          dst = JoinPath [outputDir, Dir relativeFilePath, r] in
      if Abs fs src = Abs fs dst then Inr fs
      else case os_Stat fs src of
        Inl e \<Rightarrow> Inl (Error (''could not stat resource '' @ src @ '', err: '' @ pathError ''stat'' src e))
      | Inr n \<Rightarrow>
          map_error (\<lambda>e. ''could not copy resource from '' @ src @ '' to '' @ dst @ '', err:'' @ e)
            (if n = NDir then CopyDirectory pathMax fs src dst
             else bind_res (Copy fs src dst) (\<lambda>(fs, _). Inr fs)))"

definition updatedKustomization :: "Kustomization \<Rightarrow> Kustomization" where
  "updatedKustomization k =
     \<lparr>ku_Generators = map (\<lambda>g. PrefixLastPathComponent g ACMPrefix) (ku_Generators k),
      ku_Resources = ku_Resources k, ku_Bases = ku_Bases k\<rparr>"

definition RenameACMPGsInKustomization :: "fuYaml \<Rightarrow> fsys \<Rightarrow> string \<Rightarrow> string \<Rightarrow> string \<Rightarrow> fsys res" where
  "RenameACMPGsInKustomization Y fs relativeFilePath inputDir outputDir =
     bind_res (readOr (\<lambda>f e. readFailed relativeFilePath e) fs (JoinPath [inputDir, relativeFilePath])) (\<lambda>fileContent.
     bind_res (map_error (\<lambda>e. ''error unmarshalling yaml file: '' @ relativeFilePath @ '', err '' @ e)
       (fy_unmarshalKust Y fileContent)) (\<lambda>kustomization.
     bind_res (fold_res (copyResource relativeFilePath inputDir outputDir) fs (ku_Resources kustomization)) (\<lambda>fs1.
     bind_res (map_error (\<lambda>e. ''error marshaling YAML content, err: '' @ e)
       (fy_marshalKust Y (updatedKustomization kustomization))) (\<lambda>outputContent.
       writeOr writeFailed fs1 (JoinPath [outputDir, relativeFilePath]) outputContent))))"

definition RenameACMPGsInAllKustomization :: "fuYaml \<Rightarrow> fsys \<Rightarrow> string \<Rightarrow> string \<Rightarrow> fsys res" where
  "RenameACMPGsInAllKustomization Y fs inputFile outputDir =
     walk pathMax (\<lambda>fs. fs) (\<lambda>fs path isDir.
       if \<not> isDir \<and> Base path = KustomizationFileName
       then case Rel inputFile path of
           None \<Rightarrow> Inl (Error (''failed processing relative path for kustomization.yaml at path: '' @ path))
         | Some relativePath \<Rightarrow>
             map_error (\<lambda>e. ''failed processing kustomization.yaml at path: '' @ path @ '', err: '' @ e)
               (RenameACMPGsInKustomization Y fs relativePath inputFile outputDir)
       else Inr fs) fs inputFile"

definition CopyAndProcessNSAndKustomizationYAML ::
  "fuYaml \<Rightarrow> fsys \<Rightarrow> string \<Rightarrow> string \<Rightarrow> string \<Rightarrow> bool \<Rightarrow> string list \<Rightarrow> fsys res" where
  "CopyAndProcessNSAndKustomizationYAML Y fs nsFilePath inputFile outputDir skipUpdateNs policiesNamespaces =
     bind_res (map_error (\<lambda>e. ''could not rename generators in kustomization file, err: '' @ e)
       (RenameACMPGsInAllKustomization Y fs inputFile outputDir)) (\<lambda>fs1.
     if skipUpdateNs then Inr fs1
     else map_error (\<lambda>e. ''could not add placement bindings in NS file file, err: '' @ e)
       (AddDefaultPlacementBindingsToNSFile fs1 nsFilePath outputDir policiesNamespaces))"

section \<open>Source CRs in the template directories\<close>

text \<open>A failed copy of the source CRs prints a message and exits.\<close>

definition CopySourceCrs :: "fsys \<Rightarrow> string \<Rightarrow> string list \<Rightarrow> fsys res" where
  "CopySourceCrs fs outputDir preRenderSourceCRList =
     fold_res (\<lambda>fs sourceCRsPath.
       case CopyDirectory pathMax fs sourceCRsPath (JoinPath [outputDir, SourceCRsDir]) of
         Inl _ \<Rightarrow> Inl (Panic ''exit status 1'')
       | Inr fs' \<Rightarrow> Inr fs') fs preRenderSourceCRList"

definition GetTemplatePaths :: "string \<Rightarrow> string \<Rightarrow> string \<Rightarrow> (string \<times> string) res" where
  "GetTemplatePaths baseDir pgtFilePath outputDir =
     (case Rel baseDir (Dir pgtFilePath) of
        None \<Rightarrow> Inl (Error (''failed to get relative path of template directory base: '' @ baseDir @
          '' PGT file: '' @ pgtFilePath))
      | Some relativePathTemplate \<Rightarrow> Inr (relativePathTemplate, JoinPath [outputDir, relativePathTemplate]))"

definition pgtDirsOf :: "fuYaml \<Rightarrow> fsys \<Rightarrow> string list \<Rightarrow> (string, bool) gomap res" where
  "pgtDirsOf Y fs files =
     fold_res (\<lambda>dirs file.
       bind_res (map_error (\<lambda>e. ''could not get manifest kind for file:'' @ file @ '', err: '' @ e)
         (GetManifestKind Y fs file)) (\<lambda>kindType.
       Inr (if kt_Kind kindType \<noteq> ''PolicyGenTemplate'' then dirs else mput dirs (Dir file) True))) [] files"

definition AddSourceCRsInTemplateDir ::
  "fuYaml \<Rightarrow> fsys \<Rightarrow> string list \<Rightarrow> string list \<Rightarrow> string \<Rightarrow> string \<Rightarrow> fsys res" where
  "AddSourceCRsInTemplateDir Y fs allFilesInInputPath preRenderSourceCRList inputFile outputDir =
     bind_res (pgtDirsOf Y fs allFilesInInputPath) (\<lambda>pgtDirs.
       fold_res (\<lambda>fs directoryPath.
         case Rel inputFile directoryPath of
           None \<Rightarrow> Inl (Error (''could not get relative path for file: '' @ directoryPath @ '', base: '' @ inputFile))
         | Some relativePath \<Rightarrow>
             map_error (\<lambda>e. ''could not copy source-crs files, err: '' @ e)
               (CopySourceCrs fs (JoinPath [outputDir, relativePath]) preRenderSourceCRList))
       fs (map fst pgtDirs))"

section \<open>Lemmas on copying\<close>

text \<open>\<open>fs'\<close> is \<open>fs\<close> with nodes added at, below or above the path \<open>d\<close>, and nothing changed.\<close>

definition grows :: "fpath \<Rightarrow> fsys \<Rightarrow> fsys \<Rightarrow> bool" where
  "grows d fs fs' \<longleftrightarrow>
     resolve fs' = resolve fs \<and> (fs_wf fs \<longrightarrow> fs_wf fs') \<and>
     (\<forall>es n. nodeAt fs es = Some n \<longrightarrow> nodeAt fs' es = Some n) \<and>
     (\<forall>es. nodeAt fs' es \<noteq> None \<longrightarrow> nodeAt fs es \<noteq> None \<or> prefix d es \<or> prefix es d) \<and>
     ((\<forall>es. nodeAt fs es \<noteq> None \<longrightarrow> list_all goodName es) \<longrightarrow>
      (\<forall>es. nodeAt fs' es \<noteq> None \<longrightarrow> list_all goodName es))"

lemma grows_refl [simp]: "grows d fs fs"
  by (simp add: grows_def)

lemma grows_trans: "grows d fs fs1 \<Longrightarrow> grows d fs1 fs2 \<Longrightarrow> grows d fs fs2"
proof -
  assume a: "grows d fs fs1" and b: "grows d fs1 fs2"
  have "resolve fs2 = resolve fs" "fs_wf fs \<longrightarrow> fs_wf fs2" using a b by (simp_all add: grows_def)
  moreover have "nodeAt fs es = Some n \<Longrightarrow> nodeAt fs2 es = Some n" for es n using a b by (simp add: grows_def)
  moreover have "nodeAt fs es \<noteq> None \<or> prefix d es \<or> prefix es d" if "nodeAt fs2 es \<noteq> None" for es
  proof (cases "nodeAt fs1 es = None")
    case True
    with b that show ?thesis unfolding grows_def by blast
  next
    case False
    with a show ?thesis unfolding grows_def by blast
  qed
  moreover have "(\<forall>es. nodeAt fs es \<noteq> None \<longrightarrow> list_all goodName es) \<longrightarrow>
      (\<forall>es. nodeAt fs2 es \<noteq> None \<longrightarrow> list_all goodName es)"
    using a b unfolding grows_def by blast
  ultimately show ?thesis unfolding grows_def by (intro conjI allI impI) simp_all
qed

lemma grows_weaken:
  assumes "grows (d @ x) fs fs'"
  shows "grows d fs fs'"
proof -
  have "prefix d es \<or> prefix es d" if "prefix (d @ x) es \<or> prefix es (d @ x)" for es
    using that by (metis append_prefixD prefixI prefix_same_cases)
  with assms show ?thesis unfolding grows_def by blast
qed

lemma grows_fold:
  assumes "fold_res f fs xs = Inr fs'"
    and "\<And>fs x fs'. x \<in> set xs \<Longrightarrow> f fs x = Inr fs' \<Longrightarrow> resolve fs = R \<Longrightarrow> grows d fs fs'"
    and "resolve fs = R"
  shows "grows d fs fs'"
  using assms
proof (induction xs arbitrary: fs)
  case Nil
  then show ?case by simp
next
  case (Cons x xs)
  then obtain fs1 where f: "f fs x = Inr fs1" "fold_res f fs1 xs = Inr fs'" by (auto simp: res_simps)
  have g: "grows d fs fs1" using Cons.prems(2) [OF _ f(1) Cons.prems(3)] by simp
  then have "resolve fs1 = R" using Cons.prems(3) by (simp add: grows_def)
  from Cons.IH [OF f(2) _ this] have "grows d fs1 fs'" using Cons.prems(2) by (meson list.set_intros(2))
  with g show ?case by (rule grows_trans)
qed

lemma prefix_upTo: "es \<in> set (upTo d) \<Longrightarrow> prefix es d"
  by (auto simp: set_upTo take_is_prefix)

lemma list_all_prefix: "list_all P d \<Longrightarrow> prefix es d \<Longrightarrow> list_all P es"
  by (auto simp: prefix_def)

lemma CreateIfNotExists_nodes:
  assumes "CreateIfNotExists fs dir = Inr fs'"
  shows "resolve fs' = resolve fs" and "fs_wf fs \<Longrightarrow> fs_wf fs'"
    and "nodeAt fs es = Some n \<Longrightarrow> nodeAt fs' es = Some n"
    and "nodeAt fs' es \<noteq> None \<Longrightarrow> nodeAt fs es \<noteq> None \<or> prefix es (resolve fs dir)"
proof -
  consider "fs' = fs" | "os_MkdirAll fs dir = Inr fs'"
    using assms by (auto simp: CreateIfNotExists_def split: if_splits sum.splits)
  then have "resolve fs' = resolve fs \<and> (fs_wf fs \<longrightarrow> fs_wf fs') \<and>
    (nodeAt fs es = Some n \<longrightarrow> nodeAt fs' es = Some n) \<and>
    (nodeAt fs' es \<noteq> None \<longrightarrow> nodeAt fs es \<noteq> None \<or> prefix es (resolve fs dir))"
  proof cases
    case 2
    then have fs': "fs' = fold addDir (upTo (resolve fs dir)) fs" by (simp add: os_MkdirAll_Inr)
    have "fs_wf fs \<longrightarrow> fs_wf fs'" using os_MkdirAll_wf(1) [OF _ 2] by blast
    then show ?thesis unfolding fs' by (auto simp: nodeAt_addDirs prefix_upTo split: if_splits)
  qed simp
  then show "resolve fs' = resolve fs" "fs_wf fs \<Longrightarrow> fs_wf fs'"
    "nodeAt fs es = Some n \<Longrightarrow> nodeAt fs' es = Some n"
    "nodeAt fs' es \<noteq> None \<Longrightarrow> nodeAt fs es \<noteq> None \<or> prefix es (resolve fs dir)"
    by blast+
qed

lemma CreateIfNotExists_grows:
  assumes "CreateIfNotExists fs dir = Inr fs'" and "prefix (resolve fs dir) d" and "list_all goodName d"
  shows "grows d fs fs'"
proof -
  have "prefix es d" if "prefix es (resolve fs dir)" for es
    using that assms(2) by (rule prefix_order.trans)
  with CreateIfNotExists_nodes [OF assms(1)] list_all_prefix [OF assms(3)] show ?thesis
    unfolding grows_def by blast
qed

lemma writeOpt_grows:
  assumes "writeOpt fs p s = Some fs'" and "nodeAt fs (resolve fs p) = None"
  shows "grows (resolve fs p) fs fs'"
proof -
  from assms have fs': "fs' = setNode (resolve fs p) (NFile s) fs" and "resolve fs p \<noteq> []"
    by (auto simp: writeOpt_Some)
  then show ?thesis
    using assms writeOpt_wf [OF _ assms(1)] resolve_goodNames [of fs p]
    unfolding grows_def by auto
qed

text \<open>What a copy leaves at its destination.\<close>

lemma Exists_not: "\<not> Exists fs p \<Longrightarrow> p \<noteq> [] \<Longrightarrow> nodeAt fs (resolve fs p) = None"
  by (auto simp: Exists_def os_Stat_def split: option.splits)

lemma Copy_Inr:
  assumes "Copy fs src dst = Inr (fs', k)" and "goodName (lastElem dst)" and "dst \<noteq> []"
  shows "grows (resolve fs dst) fs fs'"
    and "nodeAt fs (resolve fs src) = Some (NFile c) \<Longrightarrow> nodeAt fs (resolve fs dst) = None \<Longrightarrow>
      nodeAt fs' (resolve fs dst) \<noteq> None \<Longrightarrow> nodeAt fs' (resolve fs dst) = Some (NFile c)"
proof -
  let ?s = "resolve fs src" and ?d = "resolve fs dst" and ?dd = "resolve fs (Dir dst)"
  have d: "?d = ?dd @ [lastElem dst]" by (rule resolve_Dir [OF assms(2)])
  from assms(1) obtain fs1 where c: "CreateIfNotExists fs (Dir dst) = Inr fs1"
    by (auto simp: Copy_def res_simps)
  note c1 = CreateIfNotExists_nodes [OF c]
  have g1: "grows ?d fs fs1"
    using c by (rule CreateIfNotExists_grows) (simp_all add: d [symmetric] resolve_goodNames, simp add: d)
  from assms(1) c obtain x where x: "os_Stat fs1 src = Inr (NFile x)"
    and r: "fs' = fs1 \<or> \<not> Exists fs1 dst \<and> writeOpt fs1 dst x = Some fs'"
    by (auto simp: Copy_def res_simps os_WriteFile_Inr split: sum.splits node.splits if_splits)
  have "fs' = fs1 \<or> grows ?d fs1 fs'"
    using r writeOpt_grows [of fs1 dst x fs'] Exists_not [of fs1 dst] assms(3) c1(1) by auto
  with g1 show "grows ?d fs fs'" by (auto intro: grows_trans)
  assume s: "nodeAt fs ?s = Some (NFile c)" and n: "nodeAt fs ?d = None" and e: "nodeAt fs' ?d \<noteq> None"
  have "nodeAt fs1 ?d = None"
  proof (rule ccontr)
    assume "nodeAt fs1 ?d \<noteq> None"
    from c1(4) [OF this] n have "prefix ?d ?dd" by blast
    then show False by (simp add: d)
  qed
  moreover have "?d \<noteq> []" by (simp add: d)
  ultimately have "nodeAt fs' ?d = Some (NFile x)" using e r c1(1) by (auto simp: writeOpt_Some)
  moreover have "x = c" using x c1(1) c1(3) [OF s] by (auto simp: os_Stat_def split: if_splits option.splits)
  ultimately show "nodeAt fs' ?d = Some (NFile c)" by simp
qed

text \<open>Every name in the tree is a good one.\<close>

definition goodFS :: "fsys \<Rightarrow> bool" where
  "goodFS fs \<longleftrightarrow> fs_wf fs \<and> (\<forall>es. nodeAt fs es \<noteq> None \<longrightarrow> list_all goodName es)"

lemma grows_goodFS: "grows d fs fs' \<Longrightarrow> goodFS fs \<Longrightarrow> goodFS fs'"
  unfolding grows_def goodFS_def by blast

lemma grows_keeps: "grows d fs fs' \<Longrightarrow> nodeAt fs es = Some n \<Longrightarrow> nodeAt fs' es = Some n"
  unfolding grows_def by blast

lemma grows_resolve: "grows d fs fs' \<Longrightarrow> resolve fs' = resolve fs"
  unfolding grows_def by blast

lemma grows_none:
  "grows d fs fs' \<Longrightarrow> nodeAt fs es = None \<Longrightarrow> \<not> prefix d es \<Longrightarrow> \<not> prefix es d \<Longrightarrow> nodeAt fs' es = None"
  unfolding grows_def by blast

lemma os_Chmod_Inr [res_simps]:
  "os_Chmod fs p = Inr fs' \<longleftrightarrow> fs' = fs \<and> p \<noteq> [] \<and> nodeAt fs (resolve fs p) \<noteq> None"
  by (auto simp: os_Chmod_def os_Stat_def split: option.splits)

lemma wf_above: "fs_wf fs \<Longrightarrow> nodeAt fs (es @ r) \<noteq> None \<Longrightarrow> r \<noteq> [] \<Longrightarrow> nodeAt fs es = Some NDir"
proof (induction r rule: rev_induct)
  case Nil
  then show ?case by simp
next
  case (snoc x r)
  have "nodeAt fs (es @ r) = Some NDir"
    using fs_wf_parent [OF snoc.prems(1), of "es @ r @ [x]"] snoc.prems(2) by (simp add: butlast_append)
  with snoc show ?case by (cases "r = []") auto
qed

lemma set_childrenOf: "x \<in> set (childrenOf fs es) \<longleftrightarrow> nodeAt fs (es @ [x]) \<noteq> None"
proof -
  have "x \<in> set (childrenOf fs es) \<longleftrightarrow> es @ [x] \<in> fst ` set (fs_nodes fs)"
  proof
    assume "x \<in> set (childrenOf fs es)"
    then obtain k where "k \<in> fst ` set (fs_nodes fs)" "k \<noteq> []" "butlast k = es" "last k = x"
      by (auto simp: childrenOf_def)
    moreover from this have "k = es @ [x]" using append_butlast_last_id by metis
    ultimately show "es @ [x] \<in> fst ` set (fs_nodes fs)" by simp
  next
    assume a: "es @ [x] \<in> fst ` set (fs_nodes fs)"
    show "x \<in> set (childrenOf fs es)"
      unfolding childrenOf_def set_sort set_map set_filter
      by (rule image_eqI [of _ last "es @ [x]"]) (use a in auto)
  qed
  also have "\<dots> \<longleftrightarrow> nodeAt fs (es @ [x]) \<noteq> None"
    by (simp add: nodeAt_def map_of_eq_None_iff del: not_None_eq)
  finally show ?thesis .
qed

lemma distinct_childrenOf:
  assumes "fs_wf fs"
  shows "distinct (childrenOf fs es)"
proof -
  let ?P = "\<lambda>k. k \<noteq> [] \<and> butlast k = es"
  have "distinct (filter ?P (map fst (fs_nodes fs)))"
    using assms by (simp add: fs_wf_def mwf_def distinct_filter)
  moreover have "inj_on last (set (filter ?P (map fst (fs_nodes fs))))"
  proof (rule inj_onI)
    fix k k' :: fpath
    assume "k \<in> set (filter ?P (map fst (fs_nodes fs)))" "k' \<in> set (filter ?P (map fst (fs_nodes fs)))"
      and l: "last k = last k'"
    then have "k \<noteq> []" "k' \<noteq> []" "butlast k = butlast k'" by auto
    with l show "k = k'" using append_butlast_last_id by metis
  qed
  ultimately show ?thesis by (simp add: childrenOf_def distinct_map)
qed

text \<open>What a directory copy promises: it only adds nodes below its destination, and a file of the
  source tree that has nothing at its place in the destination is there afterwards.\<close>

definition copies :: "(fsys \<Rightarrow> string \<Rightarrow> string \<Rightarrow> fsys res) \<Rightarrow> bool" where
  "copies copyDir \<longleftrightarrow>
     (\<forall>fs src dest fs'. copyDir fs src dest = Inr fs' \<and> src \<noteq> [] \<and> dest \<noteq> [] \<and> goodFS fs \<longrightarrow>
        grows (resolve fs dest) fs fs' \<and>
        (\<forall>r c. r \<noteq> [] \<and> nodeAt fs (resolve fs src @ r) = Some (NFile c) \<and> nodeAt fs (resolve fs dest @ r) = None \<longrightarrow>
           nodeAt fs' (resolve fs dest @ r) = Some (NFile c)))"

lemma copyEntry_cases:
  assumes "copyEntry copyDir src dest fs name = Inr fs'" and "goodName name" and "src \<noteq> []" and "dest \<noteq> []"
  obtains (isDir) fs1 where "nodeAt fs (resolve fs src @ [name]) = Some NDir"
      and "CreateIfNotExists fs (JoinPath [dest, name]) = Inr fs1"
      and "copyDir fs1 (JoinPath [src, name]) (JoinPath [dest, name]) = Inr fs'"
    | (isReg) x k where "nodeAt fs (resolve fs src @ [name]) = Some (NFile x)"
      and "Copy fs (JoinPath [src, name]) (JoinPath [dest, name]) = Inr (fs', k)"
      and "nodeAt fs' (resolve fs' (JoinPath [dest, name])) \<noteq> None"
proof -
  note r = resolve_JoinPath(1) [OF assms(2,3), of fs] resolve_JoinPath(2) [OF assms(2,3)]
  show ?thesis
  proof (cases "nodeAt fs (resolve fs src @ [name])")
    case None
    with assms(1) r show ?thesis
      by (auto simp: copyEntry_def Let_def res_simps os_Stat_def split: if_splits)
  next
    case (Some n)
    then have st: "os_Stat fs (JoinPath [src, name]) = Inr n" using r by (simp add: os_Stat_def)
    show ?thesis
    proof (cases n)
      case NDir
      with assms(1) st Some show ?thesis
        by (auto simp: copyEntry_def Let_def res_simps intro!: isDir)
    next
      case (NFile x)
      with assms(1) st Some show ?thesis
        by (auto simp: copyEntry_def Let_def res_simps intro!: isReg)
    qed
  qed
qed

lemma copyEntry_spec:
  assumes "copies copyDir" and "copyEntry copyDir src dest fs name = Inr fs'"
    and "goodName name" and "src \<noteq> []" and "dest \<noteq> []" and "goodFS fs"
  shows "grows (resolve fs dest @ [name]) fs fs' \<and>
    (nodeAt fs (resolve fs src @ name # r) = Some (NFile c) \<and> nodeAt fs (resolve fs dest @ name # r) = None \<longrightarrow>
      nodeAt fs' (resolve fs dest @ name # r) = Some (NFile c))"
proof -
  let ?s = "resolve fs src" and ?d = "resolve fs dest"
  let ?sp = "JoinPath [src, name]" and ?dp = "JoinPath [dest, name]"
  note js = resolve_JoinPath [OF assms(3,4)] and jd = resolve_JoinPath [OF assms(3,5)]
  have wf: "fs_wf fs" using assms(6) by (simp add: goodFS_def)
  from assms(2-5) show ?thesis
  proof (cases rule: copyEntry_cases)
    case (isDir fs1)
    note n1 = CreateIfNotExists_nodes [OF isDir(2)]
    have g1: "grows (?d @ [name]) fs fs1"
      using CreateIfNotExists_grows [OF isDir(2), of "?d @ [name]"] jd(1) [of fs] resolve_goodNames [of fs ?dp] by simp
    have rec: "grows (resolve fs1 ?dp) fs1 fs' \<and>
        (\<forall>r c. r \<noteq> [] \<and> nodeAt fs1 (resolve fs1 ?sp @ r) = Some (NFile c) \<and> nodeAt fs1 (resolve fs1 ?dp @ r) = None \<longrightarrow>
           nodeAt fs' (resolve fs1 ?dp @ r) = Some (NFile c))"
      using assms(1) isDir(3) js(2) jd(2) grows_goodFS [OF g1 assms(6)] unfolding copies_def by blast
    then have rec: "grows (?d @ [name]) fs1 fs'"
      "r \<noteq> [] \<Longrightarrow> nodeAt fs1 (?s @ name # r) = Some (NFile c) \<Longrightarrow> nodeAt fs1 (?d @ name # r) = None \<Longrightarrow>
         nodeAt fs' (?d @ name # r) = Some (NFile c)"
      by (simp_all add: n1(1) js(1) jd(1))
    show ?thesis
    proof (intro conjI impI)
      show "grows (?d @ [name]) fs fs'" using g1 rec(1) by (rule grows_trans)
      assume a: "nodeAt fs (?s @ name # r) = Some (NFile c) \<and> nodeAt fs (?d @ name # r) = None"
      with isDir(1) have r: "r \<noteq> []" by auto
      have "nodeAt fs1 (?d @ name # r) = None"
      proof (rule ccontr)
        assume "nodeAt fs1 (?d @ name # r) \<noteq> None"
        from n1(4) [OF this] a have "prefix (?d @ name # r) (?d @ [name])" by (simp add: jd(1))
        with r show False by simp
      qed
      with rec(2) [OF r] grows_keeps [OF g1] a show "nodeAt fs' (?d @ name # r) = Some (NFile c)" by blast
    qed
  next
    case (isReg x k)
    have b: "goodName (lastElem ?dp)"
      using assms(3,5) by (simp add: goodName_def lastElem_JoinPath)
    note c = Copy_Inr [OF isReg(2) b jd(2)]
    have g: "grows (?d @ [name]) fs fs'" using c(1) by (simp add: jd(1))
    moreover have "nodeAt fs' (?d @ name # r) = Some (NFile c)"
      if a: "nodeAt fs (?s @ name # r) = Some (NFile c)" "nodeAt fs (?d @ name # r) = None"
    proof -
      have "r = []" using wf_above [OF wf, of "?s @ [name]" r] a(1) isReg(1) by auto
      with c(2) [of c] a isReg(3) grows_resolve [OF g] show ?thesis by (simp add: js(1) jd(1))
    qed
    ultimately show ?thesis by blast
  qed
qed

lemma copyEntries_spec:
  assumes "copies copyDir" and "fold_res (copyEntry copyDir src dest) fs names = Inr fs'"
    and "list_all goodName names" and "distinct names" and "src \<noteq> []" and "dest \<noteq> []" and "goodFS fs"
  shows "grows (resolve fs dest) fs fs' \<and>
    (\<forall>name\<in>set names. \<forall>r c. nodeAt fs (resolve fs src @ name # r) = Some (NFile c) \<and>
       nodeAt fs (resolve fs dest @ name # r) = None \<longrightarrow> nodeAt fs' (resolve fs dest @ name # r) = Some (NFile c))"
  using assms(2-4,7)
proof (induction names arbitrary: fs)
  case Nil
  then show ?case by simp
next
  case (Cons m names)
  from Cons.prems(1) obtain fs1 where e: "copyEntry copyDir src dest fs m = Inr fs1"
    and f: "fold_res (copyEntry copyDir src dest) fs1 names = Inr fs'" by (auto simp: res_simps)
  let ?s = "resolve fs src" and ?d = "resolve fs dest"
  have m: "goodName m" using Cons.prems(2) by simp
  note st = copyEntry_spec [OF assms(1) e m assms(5,6) Cons.prems(4)]
  have g: "grows (?d @ [m]) fs fs1" using st by blast
  have ih: "grows ?d fs1 fs' \<and>
    (\<forall>name\<in>set names. \<forall>r c. nodeAt fs1 (?s @ name # r) = Some (NFile c) \<and>
       nodeAt fs1 (?d @ name # r) = None \<longrightarrow> nodeAt fs' (?d @ name # r) = Some (NFile c))"
    using Cons.IH [OF f] Cons.prems(2,3) grows_goodFS [OF g Cons.prems(4)] by (simp add: grows_resolve [OF g])
  show ?case
  proof (intro conjI ballI allI impI)
    show "grows ?d fs fs'" using grows_weaken [OF g] ih by (blast intro: grows_trans)
    fix name r c
    assume n: "name \<in> set (m # names)"
      and a: "nodeAt fs (?s @ name # r) = Some (NFile c) \<and> nodeAt fs (?d @ name # r) = None"
    show "nodeAt fs' (?d @ name # r) = Some (NFile c)"
    proof (cases "name = m")
      case True
      with st a have "nodeAt fs1 (?d @ name # r) = Some (NFile c)" by blast
      then show ?thesis using ih grows_keeps by blast
    next
      case False
      with n have "name \<in> set names" by simp
      moreover have "nodeAt fs1 (?s @ name # r) = Some (NFile c)" using a grows_keeps [OF g] by blast
      moreover have "nodeAt fs1 (?d @ name # r) = None"
        using a False by (intro grows_none [OF g]) auto
      ultimately show ?thesis using ih by blast
    qed
  qed
qed

lemma CopyDirectory_copies: "copies (CopyDirectory n)"
proof (induction n)
  case 0
  then show ?case by (simp add: copies_def)
next
  case (Suc n)
  show ?case
    unfolding copies_def
  proof (intro allI impI, elim conjE)
    fix fs src dest fs'
    assume c: "CopyDirectory (Suc n) fs src dest = Inr fs'" and ne: "src \<noteq> []" "dest \<noteq> []" and good: "goodFS fs"
    let ?s = "resolve fs src" and ?d = "resolve fs dest"
    from c obtain fs1 where c1: "CreateIfNotExists fs dest = Inr fs1"
      and c2: "CopyDirectory (Suc n) fs src dest = Inr fs'" by (auto simp: res_simps)
    from c2 c1 obtain names where rd: "os_ReadDir fs1 src = Inr names"
      and f: "fold_res (copyEntry (CopyDirectory n) src dest) fs1 names = Inr fs'"
      by (cases "os_ReadDir fs1 src") (simp_all add: res_simps)
    have g: "grows ?d fs fs1"
      using CreateIfNotExists_grows [OF c1, of ?d] resolve_goodNames by simp
    note good1 = grows_goodFS [OF g good] and r1 = grows_resolve [OF g]
    from rd have names: "names = childrenOf fs1 ?s"
      by (auto simp: os_ReadDir_def r1 split: sum.splits node.splits)
    have "list_all goodName names"
      using good1 by (fastforce simp: names list_all_iff set_childrenOf goodFS_def simp del: not_None_eq)
    moreover have "distinct names" using good1 by (simp add: names distinct_childrenOf goodFS_def)
    ultimately have sp: "grows ?d fs1 fs' \<and>
      (\<forall>name\<in>set names. \<forall>r c. nodeAt fs1 (?s @ name # r) = Some (NFile c) \<and>
         nodeAt fs1 (?d @ name # r) = None \<longrightarrow> nodeAt fs' (?d @ name # r) = Some (NFile c))"
      using copyEntries_spec [OF Suc.IH f _ _ ne good1] by (simp add: r1)
    have "nodeAt fs' (?d @ r) = Some (NFile c)"
      if r: "r \<noteq> []" and s: "nodeAt fs (?s @ r) = Some (NFile c)" and d: "nodeAt fs (?d @ r) = None" for r c
    proof -
      obtain name q where q: "r = name # q" using r by (cases r) auto
      have s1: "nodeAt fs1 (?s @ name # q) = Some (NFile c)" using grows_keeps [OF g] s q by blast
      have "nodeAt fs1 (?s @ [name]) \<noteq> None"
      proof (cases "q = []")
        case False
        then show ?thesis
          using wf_above [of fs1 "?s @ [name]" q] s1 good1 by (simp add: goodFS_def)
      qed (use s1 in simp)
      then have "name \<in> set names" by (simp add: names set_childrenOf del: not_None_eq)
      moreover have "nodeAt fs1 (?d @ name # q) = None"
      proof (rule ccontr)
        assume "nodeAt fs1 (?d @ name # q) \<noteq> None"
        from CreateIfNotExists_nodes(4) [OF c1 this] d q have "prefix (?d @ name # q) ?d" by simp
        then show False by simp
      qed
      ultimately show ?thesis using sp s1 q by blast
    qed
    then show "grows ?d fs fs' \<and>
        (\<forall>r c. r \<noteq> [] \<and> nodeAt fs (?s @ r) = Some (NFile c) \<and> nodeAt fs (?d @ r) = None \<longrightarrow>
           nodeAt fs' (?d @ r) = Some (NFile c))"
      using sp g by (blast intro: grows_trans)
  qed
qed

text \<open>A copy succeeds when the depth is enough, neither directory is inside the other, no file stands
  where a directory has to be.\<close>

definition copyable :: "nat \<Rightarrow> fsys \<Rightarrow> fpath \<Rightarrow> fpath \<Rightarrow> bool" where
  "copyable n fs s d \<longleftrightarrow>
     goodFS fs \<and> \<not> prefix s d \<and> \<not> prefix d s \<and> nodeAt fs s = Some NDir \<and>
     (\<forall>r. nodeAt fs (s @ r) = Some NDir \<longrightarrow> length r < n \<and> \<not> isFile (nodeAt fs (d @ r))) \<and>
     (\<forall>es. prefix es d \<longrightarrow> \<not> isFile (nodeAt fs es))"

definition succeeds :: "nat \<Rightarrow> (fsys \<Rightarrow> string \<Rightarrow> string \<Rightarrow> fsys res) \<Rightarrow> bool" where
  "succeeds n copyDir \<longleftrightarrow>
     (\<forall>fs src dest. src \<noteq> [] \<and> dest \<noteq> [] \<and> copyable n fs (resolve fs src) (resolve fs dest) \<longrightarrow>
        (\<exists>fs'. copyDir fs src dest = Inr fs'))"

lemma CreateIfNotExists_isFile:
  assumes "CreateIfNotExists fs dir = Inr fs'"
  shows "isFile (nodeAt fs' es) \<longleftrightarrow> isFile (nodeAt fs es)"
proof -
  consider "fs' = fs" | "os_MkdirAll fs dir = Inr fs'"
    using assms by (auto simp: CreateIfNotExists_def split: if_splits sum.splits)
  then show ?thesis
  proof cases
    case 2
    then have "fs' = fold addDir (upTo (resolve fs dir)) fs" by (simp add: os_MkdirAll_Inr)
    then show ?thesis by (auto simp: nodeAt_addDirs)
  qed simp
qed

lemma Exists_iff:
  assumes "p \<noteq> []" and "\<And>es. prefix es (resolve fs p) \<Longrightarrow> \<not> isFile (nodeAt fs es) \<or> es = resolve fs p"
  shows "Exists fs p \<longleftrightarrow> nodeAt fs (resolve fs p) \<noteq> None"
proof -
  have "\<not> list_ex (\<lambda>a. isFile (nodeAt fs a)) (parents (resolve fs p))"
  proof
    assume "list_ex (\<lambda>a. isFile (nodeAt fs a)) (parents (resolve fs p))"
    then obtain i where i: "i < length (resolve fs p)" "isFile (nodeAt fs (take i (resolve fs p)))"
      by (auto simp: list_ex_iff parents_def)
    then have "take i (resolve fs p) = resolve fs p" using assms(2) [OF take_is_prefix] by blast
    with i(1) show False by simp
  qed
  then show ?thesis
    using assms(1) by (auto simp: Exists_def os_Stat_def missingError_def os_IsNotExist_def split: option.splits)
qed

lemma CreateIfNotExists_ok:
  assumes "dir \<noteq> []" and "\<And>es. prefix es (resolve fs dir) \<Longrightarrow> \<not> isFile (nodeAt fs es)"
  obtains fs' where "CreateIfNotExists fs dir = Inr fs'" and "nodeAt fs' (resolve fs dir) = Some NDir"
proof (cases "nodeAt fs (resolve fs dir)")
  case None
  then have "\<not> Exists fs dir" using Exists_iff [OF assms(1), of fs] assms(2) by blast
  moreover have "os_MkdirAll fs dir = Inr (fold addDir (upTo (resolve fs dir)) fs)"
    using assms prefix_upTo by (auto simp: os_MkdirAll_Inr)
  ultimately have "CreateIfNotExists fs dir = Inr (fold addDir (upTo (resolve fs dir)) fs)"
    by (simp add: CreateIfNotExists_def)
  moreover have "nodeAt (fold addDir (upTo (resolve fs dir)) fs) (resolve fs dir) = Some NDir"
  proof -
    have "resolve fs dir \<in> set (upTo (resolve fs dir))" by (simp add: upTo_def)
    with None show ?thesis by (simp only: nodeAt_addDirs simp_thms if_True)
  qed
  ultimately show ?thesis by (rule that)
next
  case (Some n)
  then have "n = NDir" using assms(2) [of "resolve fs dir"] by (cases n) simp_all
  moreover have "Exists fs dir" using Exists_iff [OF assms(1), of fs] assms(2) Some by blast
  ultimately show ?thesis using Some that by (simp add: CreateIfNotExists_def)
qed

lemma dirs_above:
  assumes "fs_wf fs" and "nodeAt fs d = Some NDir" and "prefix es d"
  shows "nodeAt fs es = Some NDir"
proof -
  obtain r where "d = es @ r" using assms(3) by (auto simp: prefix_def)
  with assms wf_above [of fs es r] show ?thesis by (cases "r = []") auto
qed

text \<open>Growing in one of two disjoint directories leaves the other as it is.\<close>

lemma source_same:
  assumes "grows d fs fs'" and "\<not> prefix s d" and "\<not> prefix d s"
  shows "nodeAt fs' (s @ q) = nodeAt fs (s @ q)"
proof (cases "nodeAt fs (s @ q)")
  case None
  have "\<not> prefix d (s @ q)"
    using assms(2,3) prefix_same_cases [of d "s @ q" s] by auto
  moreover have "\<not> prefix (s @ q) d" using assms(2) append_prefixD by blast
  ultimately show ?thesis using grows_none [OF assms(1) None] None by simp
qed (use grows_keeps [OF assms(1)] in simp)

lemma copyEntry_ok:
  assumes IH: "succeeds n copyDir" "copies copyDir" and name: "goodName name" "src \<noteq> []" "dest \<noteq> []"
    and s: "s = resolve fs src" and d: "d = resolve fs dest"
    and good: "goodFS fs" "\<not> prefix s d" "\<not> prefix d s" and dir: "nodeAt fs d = Some NDir"
    and node: "nodeAt fs (s @ [name]) \<noteq> None"
    and conf: "\<And>r. nodeAt fs (s @ name # r) = Some NDir \<Longrightarrow> length r < n \<and> \<not> isFile (nodeAt fs (d @ name # r))"
  shows "\<exists>fs'. copyEntry copyDir src dest fs name = Inr fs'"
proof -
  let ?sp = "JoinPath [src, name]" and ?dp = "JoinPath [dest, name]"
  note js = resolve_JoinPath [OF name(1,2)] and jd = resolve_JoinPath [OF name(1,3)]
  have wf: "fs_wf fs" using good(1) by (simp add: goodFS_def)
  note above = dirs_above [OF wf dir]
  have st: "os_Stat fs ?sp = Inr x" if "nodeAt fs (s @ [name]) = Some x" for x
    using that js s by (simp add: os_Stat_def)
  from node obtain x where x: "nodeAt fs (s @ [name]) = Some x" by auto
  show ?thesis
  proof (cases x)
    case NDir
    have pre: "\<not> isFile (nodeAt fs es)" if "prefix es (d @ [name])" for es
      using that above [of es] conf [of "[]"] x NDir by (auto simp: prefix_snoc)
    obtain fs1 where c: "CreateIfNotExists fs ?dp = Inr fs1" and c1: "nodeAt fs1 (d @ [name]) = Some NDir"
      using CreateIfNotExists_ok [OF jd(2), of fs] pre by (auto simp: jd(1) d [symmetric])
    note n1 = CreateIfNotExists_nodes [OF c] and f1 = CreateIfNotExists_isFile [OF c]
    have g: "grows d fs fs1"
      using CreateIfNotExists_grows [OF c, of "d @ [name]"] resolve_goodNames [of fs ?dp]
      by (intro grows_weaken [of d "[name]"]) (simp add: jd(1) d)
    have same: "nodeAt fs1 (s @ q) = Some NDir \<Longrightarrow> nodeAt fs (s @ q) = Some NDir" for q
      using source_same [OF g good(2,3)] by simp
    have "copyable n fs1 (s @ [name]) (d @ [name])"
      unfolding copyable_def
    proof (intro conjI allI impI)
      show "goodFS fs1" using grows_goodFS [OF g good(1)] .
      show "\<not> prefix (s @ [name]) (d @ [name])" "\<not> prefix (d @ [name]) (s @ [name])"
        using good(2,3) by (auto simp: prefix_snoc dest: append_prefixD)
      show "nodeAt fs1 (s @ [name]) = Some NDir" using n1(3) x NDir by blast
      show "\<not> isFile (nodeAt fs1 es)" if "prefix es (d @ [name])" for es using pre [OF that] f1 by simp
      fix r assume "nodeAt fs1 ((s @ [name]) @ r) = Some NDir"
      then have "nodeAt fs (s @ name # r) = Some NDir" using same [of "name # r"] by simp
      from conf [OF this] show "length r < n" "\<not> isFile (nodeAt fs1 ((d @ [name]) @ r))" using f1 by simp_all
    qed
    then have cp: "copyable n fs1 (resolve fs1 ?sp) (resolve fs1 ?dp)"
      by (simp add: n1(1) js(1) jd(1) s [symmetric] d [symmetric])
    with IH(1) js(2) jd(2) obtain fs2 where fs2: "copyDir fs1 ?sp ?dp = Inr fs2"
      unfolding succeeds_def by blast
    have "grows (resolve fs1 ?dp) fs1 fs2"
      using IH(2) fs2 js(2) jd(2) cp unfolding copies_def copyable_def by blast
    note g2 = grows_keeps [OF this c1] grows_resolve [OF this]
    show ?thesis
      using st [OF x] NDir c fs2 g2 jd by (simp add: copyEntry_def Let_def res_simps n1(1) d)
  next
    case (NFile y)
    have ld: "lastElem ?dp = name" using name by (simp add: goodName_def lastElem_JoinPath)
    have rd: "resolve fs (Dir ?dp) = d" using resolve_Dir [of ?dp fs] name(1) ld jd(1) d by simp
    have "Dir ?dp \<noteq> []" by (simp add: Dir_def)
    then have "Exists fs (Dir ?dp)" using dir rd by (simp add: Exists_def os_Stat_def)
    then have cr: "CreateIfNotExists fs (Dir ?dp) = Inr fs" by (simp add: CreateIfNotExists_def)
    have "\<not> isFile (nodeAt fs es) \<or> es = resolve fs ?dp" if "prefix es (resolve fs ?dp)" for es
      using that above [of es] by (auto simp: jd(1) d [symmetric] prefix_snoc)
    from Exists_iff [OF jd(2) this] have ex: "Exists fs ?dp \<longleftrightarrow> nodeAt fs (d @ [name]) \<noteq> None"
      by (simp add: jd(1) d)
    have wr: "os_WriteFile fs ?dp y = Inr (setNode (d @ [name]) (NFile y) fs)" if "nodeAt fs (d @ [name]) = None"
      using that jd dir by (simp add: os_WriteFile_Inr writeOpt_Some d)
    show ?thesis
    proof (cases "nodeAt fs (d @ [name]) = None")
      case True
      then show ?thesis
        using st [OF x] NFile cr ex wr jd
        by (auto simp: copyEntry_def Copy_def Let_def res_simps d)
    next
      case False
      then show ?thesis
        using st [OF x] NFile cr ex jd by (auto simp: copyEntry_def Copy_def Let_def res_simps d)
    qed
  qed
qed

lemma copyEntries_ok:
  assumes IH: "succeeds n copyDir" "copies copyDir" and ne: "src \<noteq> []" "dest \<noteq> []"
    and s: "s = resolve fs src" and d: "d = resolve fs dest"
    and good: "goodFS fs" "\<not> prefix s d" "\<not> prefix d s" and dir: "nodeAt fs d = Some NDir"
    and names: "\<And>name. name \<in> set names \<Longrightarrow> nodeAt fs (s @ [name]) \<noteq> None" "distinct names"
    and conf: "\<And>name r. name \<in> set names \<Longrightarrow> nodeAt fs (s @ name # r) = Some NDir \<Longrightarrow>
      length r < n \<and> \<not> isFile (nodeAt fs (d @ name # r))"
  shows "\<exists>fs'. fold_res (copyEntry copyDir src dest) fs names = Inr fs'"
  using s d good(1) dir names conf
proof (induction names arbitrary: fs)
  case Nil
  then show ?case by simp
next
  case (Cons m names)
  have m: "goodName m"
    using Cons.prems(3) Cons.prems(5) [of m] by (fastforce simp: goodFS_def simp del: not_None_eq)
  have "\<exists>fs1. copyEntry copyDir src dest fs m = Inr fs1"
    using copyEntry_ok [OF IH m ne Cons.prems(1,2,3) good(2,3) Cons.prems(4)] Cons.prems(5,7) [of m] by simp
  then obtain fs1 where fs1: "copyEntry copyDir src dest fs m = Inr fs1" ..
  have g: "grows (d @ [m]) fs fs1"
    using copyEntry_spec [OF IH(2) fs1 m ne Cons.prems(3)] Cons.prems(2) by blast
  note same = source_same [OF grows_weaken [OF g] good(2,3)]
  have keep: "nodeAt fs1 (d @ name # r) = nodeAt fs (d @ name # r)" if "name \<noteq> m" for name r
    using source_same [OF g, of "d @ [name]" r] that by simp
  have "\<exists>fs'. fold_res (copyEntry copyDir src dest) fs1 names = Inr fs'"
  proof (rule Cons.IH)
    show "s = resolve fs1 src" "d = resolve fs1 dest" using Cons.prems(1,2) grows_resolve [OF g] by simp_all
    show "goodFS fs1" using grows_goodFS [OF g Cons.prems(3)] .
    show "nodeAt fs1 d = Some NDir" using grows_keeps [OF g Cons.prems(4)] .
    show "distinct names" using Cons.prems(6) by simp
    show "nodeAt fs1 (s @ [name]) \<noteq> None" if "name \<in> set names" for name
      using that Cons.prems(5) [of name] same [of "[name]"] by simp
    show "length r < n \<and> \<not> isFile (nodeAt fs1 (d @ name # r))"
      if "name \<in> set names" "nodeAt fs1 (s @ name # r) = Some NDir" for name r
    proof -
      have "name \<noteq> m" using that(1) Cons.prems(6) by auto
      with that Cons.prems(7) [of name r] same [of "name # r"] keep show ?thesis by simp
    qed
  qed
  with fs1 show ?case by (auto simp: res_simps)
qed

lemma CopyDirectory_succeeds: "succeeds n (CopyDirectory n)"
proof (induction n)
  case 0
  have "\<not> copyable 0 fs s d" for fs s d
  proof
    assume c: "copyable 0 fs s d"
    then have "nodeAt fs (s @ []) = Some NDir" by (simp add: copyable_def)
    with c show False unfolding copyable_def by blast
  qed
  then show ?case by (simp add: succeeds_def)
next
  case (Suc n)
  show ?case
    unfolding succeeds_def
  proof (intro allI impI, elim conjE)
    fix fs src dest
    let ?s = "resolve fs src" and ?d = "resolve fs dest"
    assume ne: "src \<noteq> []" "dest \<noteq> []" and c: "copyable (Suc n) fs ?s ?d"
    have pre: "\<And>es. prefix es ?d \<Longrightarrow> \<not> isFile (nodeAt fs es)" and good: "goodFS fs"
      and dis: "\<not> prefix ?s ?d" "\<not> prefix ?d ?s" and sdir: "nodeAt fs ?s = Some NDir"
      and conf: "\<And>r. nodeAt fs (?s @ r) = Some NDir \<Longrightarrow> length r < Suc n \<and> \<not> isFile (nodeAt fs (?d @ r))"
      using c by (simp_all add: copyable_def)
    obtain fs1 where c1: "CreateIfNotExists fs dest = Inr fs1" and dir: "nodeAt fs1 ?d = Some NDir"
      using CreateIfNotExists_ok [OF ne(2), of fs] pre by metis
    have g: "grows ?d fs fs1"
      using CreateIfNotExists_grows [OF c1, of ?d] resolve_goodNames by simp
    note r1 = grows_resolve [OF g] and good1 = grows_goodFS [OF g good] and same = source_same [OF g dis]
    have rd: "os_ReadDir fs1 src = Inr (childrenOf fs1 ?s)"
      using same [of "[]"] sdir ne by (simp add: os_ReadDir_def os_Stat_def r1)
    have "\<exists>fs'. fold_res (copyEntry (CopyDirectory n) src dest) fs1 (childrenOf fs1 ?s) = Inr fs'"
    proof (rule copyEntries_ok [OF Suc.IH CopyDirectory_copies ne _ _ good1 dis dir])
      show "?s = resolve fs1 src" "?d = resolve fs1 dest" by (simp_all add: r1)
      show "nodeAt fs1 (?s @ [name]) \<noteq> None" if "name \<in> set (childrenOf fs1 ?s)" for name
        using that by (simp add: set_childrenOf del: not_None_eq)
      show "distinct (childrenOf fs1 ?s)" using good1 by (simp add: distinct_childrenOf goodFS_def)
      show "length r < n \<and> \<not> isFile (nodeAt fs1 (?d @ name # r))"
        if "nodeAt fs1 (?s @ name # r) = Some NDir" for name r
        using that conf [of "name # r"] same [of "name # r"] CreateIfNotExists_isFile [OF c1] by simp
    qed
    then show "\<exists>fs'. CopyDirectory (Suc n) fs src dest = Inr fs'"
      using c1 rd by (auto simp: res_simps)
  qed
qed

section \<open>Properties\<close>

text \<open>C20. A directory copy is complete and destroys nothing: when source and destination are disjoint,
  the tree is within the depth and no file stands where a directory has to be, \<open>CopyDirectory\<close>
  succeeds, keeps every node that was there before, adds nodes only at, below or above the
  destination, and leaves at the destination a copy of every source file whose place was free.\<close>

theorem CopyDirectory_complete:
  assumes "scrDir \<noteq> []" and "dest \<noteq> []" and "copyable n fs (resolve fs scrDir) (resolve fs dest)"
  shows "\<exists>fs'. CopyDirectory n fs scrDir dest = Inr fs' \<and>
    (\<forall>es x. nodeAt fs es = Some x \<longrightarrow> nodeAt fs' es = Some x) \<and>
    (\<forall>es. nodeAt fs' es \<noteq> None \<longrightarrow>
       nodeAt fs es \<noteq> None \<or> prefix (resolve fs dest) es \<or> prefix es (resolve fs dest)) \<and>
    (\<forall>r c. nodeAt fs (resolve fs scrDir @ r) = Some (NFile c) \<and> nodeAt fs (resolve fs dest @ r) = None \<longrightarrow>
       nodeAt fs' (resolve fs dest @ r) = Some (NFile c))"
proof -
  obtain fs' where fs': "CopyDirectory n fs scrDir dest = Inr fs'"
    using CopyDirectory_succeeds assms unfolding succeeds_def by blast
  have good: "goodFS fs" and sdir: "nodeAt fs (resolve fs scrDir) = Some NDir"
    using assms(3) by (simp_all add: copyable_def)
  have sp: "grows (resolve fs dest) fs fs'"
    "\<And>r c. r \<noteq> [] \<Longrightarrow> nodeAt fs (resolve fs scrDir @ r) = Some (NFile c) \<Longrightarrow> nodeAt fs (resolve fs dest @ r) = None \<Longrightarrow>
      nodeAt fs' (resolve fs dest @ r) = Some (NFile c)"
    using CopyDirectory_copies [of n] fs' assms(1,2) good unfolding copies_def by blast+
  show ?thesis
  proof (intro exI [of _ fs'] conjI allI impI)
    show "CopyDirectory n fs scrDir dest = Inr fs'" by (rule fs')
    show "nodeAt fs' es = Some x" if "nodeAt fs es = Some x" for es x using grows_keeps [OF sp(1) that] .
    show "nodeAt fs es \<noteq> None \<or> prefix (resolve fs dest) es \<or> prefix es (resolve fs dest)"
      if "nodeAt fs' es \<noteq> None" for es using sp(1) that unfolding grows_def by blast
    fix r c assume a: "nodeAt fs (resolve fs scrDir @ r) = Some (NFile c) \<and> nodeAt fs (resolve fs dest @ r) = None"
    with sdir have "r \<noteq> []" by auto
    with sp(2) a show "nodeAt fs' (resolve fs dest @ r) = Some (NFile c)" by blast
  qed
qed

definition demoCopyFS :: fsys where
  "demoCopyFS = \<lparr>fs_nodes = [([''a''], NDir), ([''a'', ''d''], NDir), ([''a'', ''d'', ''x''], NFile ''text'')],
     fs_cwd = ''/'', fs_exe = ''/bin/pgt''\<rparr>"

lemma nodeAt_demoCopyFS:
  "nodeAt demoCopyFS es =
     (if es = [] \<or> es = [''a''] \<or> es = [''a'', ''d''] then Some NDir
      else if es = [''a'', ''d'', ''x''] then Some (NFile ''text'') else None)"
  by (simp add: nodeAt_def demoCopyFS_def)

lemma demoCopyFS_copyable: "copyable 2 demoCopyFS [''a''] [''b'']"
proof -
  have "fs_wf demoCopyFS"
    by (auto simp: fs_wf_def mwf_def demoCopyFS_def nodeAt_def split: if_splits)
  then have "goodFS demoCopyFS"
    by (auto simp: goodFS_def nodeAt_demoCopyFS goodName_def plainElem_def split: if_splits)
  then show ?thesis
    by (auto simp: copyable_def nodeAt_demoCopyFS prefix_Cons split: if_splits)
qed

theorem CopyDirectory_complete_witness:
  "\<exists>fs'. CopyDirectory 2 demoCopyFS ''/a'' ''/b'' = Inr fs' \<and>
     nodeAt fs' [''b'', ''d'', ''x''] = Some (NFile ''text'')"
proof -
  have r: "resolve demoCopyFS ''/a'' = [''a'']" "resolve demoCopyFS ''/b'' = [''b'']"
    by (simp_all add: resolve_def IsAbs_def slash_def elems_def Split_def cleanElems_def)
  have "copyable 2 demoCopyFS (resolve demoCopyFS ''/a'') (resolve demoCopyFS ''/b'')"
    unfolding r by (rule demoCopyFS_copyable)
  from CopyDirectory_complete [OF _ _ this] obtain fs'
    where c: "CopyDirectory 2 demoCopyFS ''/a'' ''/b'' = Inr fs'"
      and f: "\<forall>r c. nodeAt demoCopyFS ([''a''] @ r) = Some (NFile c) \<and> nodeAt demoCopyFS ([''b''] @ r) = None \<longrightarrow>
        nodeAt fs' ([''b''] @ r) = Some (NFile c)"
    unfolding r by blast
  have "nodeAt fs' [''b'', ''d'', ''x''] = Some (NFile ''text'')"
    using f [rule_format, of "[''d'', ''x'']" "''text''"] by (simp add: nodeAt_demoCopyFS)
  with c show ?thesis by blast
qed

lemma AddDefaultPlacementBindings_step:
  assumes "readOpt fs p = Some c"
  shows "\<exists>fs'. fold_res (\<lambda>fs namespace. bind_res (readOr readFailed fs p) (\<lambda>fileContent.
      writeOr writeFailed fs p (fileContent @ defaultPlacementBindings namespace))) fs nss = Inr fs' \<and>
    (\<forall>q. readOpt fs' q = (if sameFile fs p q then Some (c @ concat (map defaultPlacementBindings nss)) else readOpt fs q))"
  using assms
proof (induction nss arbitrary: fs c)
  case Nil
  then show ?case by (auto simp: sameFile_def readOpt_nodeAt)
next
  case (Cons ns nss)
  let ?c = "c @ defaultPlacementBindings ns"
  have p: "p \<noteq> []" "nodeAt fs (resolve fs p) = Some (NFile c)" using Cons.prems by (simp_all add: readOpt_Some)
  then obtain fs1 where w: "writeOpt fs p ?c = Some fs1" by (simp add: writeOpt_Some)
  note rd = fstore.read_write [OF w] and sm = fstore.same_write [OF w]
  from Cons.IH [OF fstore.read_back [OF w]] obtain fs' where
    f: "fold_res (\<lambda>fs namespace. bind_res (readOr readFailed fs p) (\<lambda>fileContent.
      writeOr writeFailed fs p (fileContent @ defaultPlacementBindings namespace))) fs1 nss = Inr fs'"
    and q: "\<forall>q. readOpt fs' q = (if sameFile fs1 p q then Some (?c @ concat (map defaultPlacementBindings nss)) else readOpt fs1 q)"
    by blast
  have "readOr readFailed fs p = Inr c" using Cons.prems by (simp add: readOr_Inr os_ReadFile_Inr)
  moreover have "writeOr writeFailed fs p ?c = Inr fs1" using w by (simp add: writeOr_Inr)
  ultimately show ?case using f q rd sm by simp
qed

text \<open>The namespace file keeps its content and gets one \<^verbatim>\<open>ManagedClusterSetBinding\<close> document per policy
  namespace, in the order in which the namespaces are visited; no other file changes. When the file
  cannot be read and there is a namespace to bind, the run fails.\<close>

theorem AddDefaultPlacementBindingsToNSFile_appends:
  "case os_ReadFile fs (JoinPath [outputDir, nsFile]) of
     Inr c \<Rightarrow> (\<exists>fs'. AddDefaultPlacementBindingsToNSFile fs nsFile outputDir nss = Inr fs' \<and>
       (\<forall>q. readOpt fs' q = (if sameFile fs (JoinPath [outputDir, nsFile]) q
          then Some (c @ concat (map defaultPlacementBindings nss)) else readOpt fs q)))
   | Inl e \<Rightarrow> AddDefaultPlacementBindingsToNSFile fs nsFile outputDir nss =
       (if nss = [] then Inr fs else Inl (readFailed (JoinPath [outputDir, nsFile]) e))"
proof (cases "os_ReadFile fs (JoinPath [outputDir, nsFile])")
  case (Inl e)
  then show ?thesis
    by (cases nss) (simp_all add: AddDefaultPlacementBindingsToNSFile_def Let_def readOr_def)
next
  case (Inr c)
  then have "readOpt fs (JoinPath [outputDir, nsFile]) = Some c" by (simp add: os_ReadFile_Inr)
  from AddDefaultPlacementBindings_step [OF this, of nss] Inr show ?thesis
    by (simp add: AddDefaultPlacementBindingsToNSFile_def Let_def)
qed

end
