(* ===== verification/PgtFormat.thy ===== *)
theory PgtFormat
  imports FileUtils Selector
begin

text \<open>
  The input and output data of the PGT converter: \<^verbatim>\<open>pgt2acmpg/packages/pgtformat/pgtformat.go\<close> (a
  PolicyGenTemplate as the converter reads it: the metadata of a source file is a generic map) and
  \<^verbatim>\<open>acmformat/acmformat.go\<close> (the ACM PolicyGenerator configuration). An inlined struct is a field with
  the struct's name.
\<close>

section \<open>pgtformat\<close>

definition Inform :: string where "Inform = ''inform''"

record MetaData =
  pm_Annotations :: "(string, string) gomap"
  pm_Labels :: "(string, string) gomap"
  pm_Name :: string
  pm_Namespace :: string

record SourceFile =
  pf_FileName :: string
  pf_PolicyName :: string
  pf_ComplianceType :: string
  pf_RemediationAction :: string
  pf_Metadata :: gmap
  pf_Spec :: gmap
  pf_Data :: gmap
  pf_Status :: gmap
  pf_BinaryData :: gmap
  pf_EvaluationInterval :: EvaluationInterval

record PolicyGenTempSpec =
  pp_BindingRules :: "(string, string) gomap"
  pp_BindingExcludedRules :: "(string, string) gomap"
  pp_Mcp :: string
  pp_WrapInPolicy :: bool
  pp_RemediationAction :: string
  pp_ComplianceType :: string
  pp_EvaluationInterval :: EvaluationInterval
  pp_SourceFiles :: "SourceFile list"

record PolicyGenTemplate =
  pt_ApiVersion :: string
  pt_Kind :: string
  pt_Metadata :: MetaData
  pt_Spec :: PolicyGenTempSpec

definition pgtSpecDefaults :: PolicyGenTempSpec where
  "pgtSpecDefaults =
     \<lparr>pp_BindingRules = [], pp_BindingExcludedRules = [], pp_Mcp = [], pp_WrapInPolicy = True,
      pp_RemediationAction = Inform, pp_ComplianceType = DefaultComplianceType,
      pp_EvaluationInterval =
        \<lparr>ei_Compliant = DefaultCompliantEvaluationInterval,
         ei_NonCompliant = DefaultNonCompliantEvaluationInterval\<rparr>,
      pp_SourceFiles = []\<rparr>"

definition pgtSpec_UnmarshalYAML ::
  "(PolicyGenTempSpec \<Rightarrow> PolicyGenTempSpec \<times> go_error option) \<Rightarrow>
    PolicyGenTempSpec \<times> go_error option" where
  "pgtSpec_UnmarshalYAML unmarshal = (let (out, err) = unmarshal pgtSpecDefaults in (out, err))"

definition pgtSourceFileDefaults :: SourceFile where
  "pgtSourceFileDefaults =
     \<lparr>pf_FileName = [], pf_PolicyName = [], pf_ComplianceType = UnsetStringValue,
      pf_RemediationAction = UnsetStringValue, pf_Metadata = [],
      pf_Spec = [], pf_Data = [], pf_Status = [], pf_BinaryData = [],
      pf_EvaluationInterval =
        \<lparr>ei_Compliant = UnsetStringValue, ei_NonCompliant = UnsetStringValue\<rparr>\<rparr>"

definition pgtSourceFile_UnmarshalYAML ::
  "(SourceFile \<Rightarrow> SourceFile \<times> go_error option) \<Rightarrow> SourceFile \<times> go_error option" where
  "pgtSourceFile_UnmarshalYAML unmarshal =
     (let (out, err) = unmarshal pgtSourceFileDefaults in (out, err))"

section \<open>acmformat\<close>

record PolicyDependency =
  pd_APIVersion :: string
  pd_Compliance :: string
  pd_Kind :: string
  pd_Name :: string
  pd_Namespace :: string

record PlacementConfig =
  pc_ClusterSelectors :: gmap
  pc_ClusterSelector :: gmap
  pc_LabelSelector :: gmap
  pc_Name :: string
  pc_PlacementPath :: string
  pc_PlacementRulePath :: string
  pc_PlacementName :: string
  pc_PlacementRuleName :: string

record PolicyOptions =
  po_Categories :: "string list"
  po_Controls :: "string list"
  po_CopyPolicyMetadata :: bool
  po_Dependencies :: "PolicyDependency list"
  po_Description :: string
  po_ExtraDependencies :: "PolicyDependency list"
  po_Placement :: PlacementConfig
  po_Standards :: "string list"
  po_ConsolidateManifests :: bool
  po_OrderManifests :: "bool option"
  po_Disabled :: bool
  po_IgnorePending :: bool
  po_InformGatekeeperPolicies :: bool
  po_InformKyvernoPolicies :: bool
  po_GeneratePolicyPlacement :: bool
  po_GeneratePlacementWhenInSet :: bool
  po_PolicySets :: "string list"
  po_PolicyAnnotations :: "(string, string) gomap"
  po_PolicyLabels :: "(string, string) gomap"
  po_ConfigurationPolicyAnnotations :: "(string, string) gomap"

record PolicySetOptions =
  so_Placement :: PlacementConfig
  so_GeneratePolicySetPlacement :: bool

record AcmNamespaceSelector =
  an_Exclude :: "string list"
  an_Include :: "string list"
  an_MatchLabels :: "(string, string) gomap option"
  an_MatchExpressions :: "Requirement list option"

record ConfigurationPolicyOptions =
  co_RemediationAction :: string
  co_Severity :: string
  co_ComplianceType :: string
  co_MetadataComplianceType :: string
  co_NamespaceSelector :: AcmNamespaceSelector
  co_EvaluationInterval :: EvaluationInterval
  co_PruneObjectBehavior :: string

record Filepath =
  fp_Path :: string

record Manifest =
  mf_Path :: string
  mf_ConfigurationPolicyOptions :: ConfigurationPolicyOptions
  mf_Patches :: "gmap list"
  mf_ExtraDependencies :: "PolicyDependency list"
  mf_IgnorePending :: bool
  mf_OpenAPI :: Filepath

record PolicyConfig =
  pg_Name :: string
  pg_PolicyOptions :: PolicyOptions
  pg_ConfigurationPolicyOptions :: ConfigurationPolicyOptions
  pg_Manifests :: "Manifest list"

record PolicyDefaults =
  df_Namespace :: string
  df_PolicyOptions :: PolicyOptions
  df_ConfigurationPolicyOptions :: ConfigurationPolicyOptions
  df_OrderPolicies :: bool

record PolicySetConfig =
  sc_Name :: string
  sc_Description :: string
  sc_Policies :: "string list"
  sc_PolicySetOptions :: PolicySetOptions

record PolicySetDefaults =
  sd_PolicySetOptions :: PolicySetOptions

record ACMPG =
  acm_APIVersion :: string
  acm_Kind :: string
  acm_MetadataName :: string
  acm_PlacementBindingName :: string
  acm_PolicyDefaults :: PolicyDefaults
  acm_PolicySetDefaults :: PolicySetDefaults
  acm_Policies :: "PolicyConfig list"
  acm_PolicySets :: "PolicySetConfig list"

text \<open>The zero values, from which the converter builds its output.\<close>

definition zeroPlacementConfig :: PlacementConfig where
  "zeroPlacementConfig =
     \<lparr>pc_ClusterSelectors = [], pc_ClusterSelector = [], pc_LabelSelector = [], pc_Name = [],
      pc_PlacementPath = [], pc_PlacementRulePath = [], pc_PlacementName = [], pc_PlacementRuleName = []\<rparr>"

definition zeroPolicyOptions :: PolicyOptions where
  "zeroPolicyOptions =
     \<lparr>po_Categories = [], po_Controls = [], po_CopyPolicyMetadata = False, po_Dependencies = [],
      po_Description = [], po_ExtraDependencies = [], po_Placement = zeroPlacementConfig, po_Standards = [],
      po_ConsolidateManifests = False, po_OrderManifests = None, po_Disabled = False, po_IgnorePending = False,
      po_InformGatekeeperPolicies = False, po_InformKyvernoPolicies = False, po_GeneratePolicyPlacement = False,
      po_GeneratePlacementWhenInSet = False, po_PolicySets = [], po_PolicyAnnotations = [], po_PolicyLabels = [],
      po_ConfigurationPolicyAnnotations = []\<rparr>"

definition zeroConfigurationPolicyOptions :: ConfigurationPolicyOptions where
  "zeroConfigurationPolicyOptions =
     \<lparr>co_RemediationAction = [], co_Severity = [], co_ComplianceType = [], co_MetadataComplianceType = [],
      co_NamespaceSelector =
        \<lparr>an_Exclude = [], an_Include = [], an_MatchLabels = None, an_MatchExpressions = None\<rparr>,
      co_EvaluationInterval = zeroInterval, co_PruneObjectBehavior = []\<rparr>"

definition newManifestAt :: "string \<Rightarrow> Manifest" where
  "newManifestAt path =
     \<lparr>mf_Path = path, mf_ConfigurationPolicyOptions = zeroConfigurationPolicyOptions, mf_Patches = [],
      mf_ExtraDependencies = [], mf_IgnorePending = False, mf_OpenAPI = \<lparr>fp_Path = []\<rparr>\<rparr>"

definition zeroPolicyConfig :: PolicyConfig where
  "zeroPolicyConfig =
     \<lparr>pg_Name = [], pg_PolicyOptions = zeroPolicyOptions,
      pg_ConfigurationPolicyOptions = zeroConfigurationPolicyOptions, pg_Manifests = []\<rparr>"

definition zeroACMPG :: ACMPG where
  "zeroACMPG =
     \<lparr>acm_APIVersion = [], acm_Kind = [], acm_MetadataName = [], acm_PlacementBindingName = [],
      acm_PolicyDefaults =
        \<lparr>df_Namespace = [], df_PolicyOptions = zeroPolicyOptions,
         df_ConfigurationPolicyOptions = zeroConfigurationPolicyOptions, df_OrderPolicies = False\<rparr>,
      acm_PolicySetDefaults =
        \<lparr>sd_PolicySetOptions = \<lparr>so_Placement = zeroPlacementConfig, so_GeneratePolicySetPlacement = False\<rparr>\<rparr>,
      acm_Policies = [], acm_PolicySets = []\<rparr>"

end
