(* ===== verification/Patches.thy ===== *)
theory Patches
  imports PgtFormat
begin

text \<open>
  \<^verbatim>\<open>pgt2acmpg/packages/patches\<close>: \<^verbatim>\<open>patches.go\<close> (validation of manifests and patches, running Kustomize in a
  file system in memory) and \<^verbatim>\<open>manifest.go\<close> (reading manifests), with the accessors of unstructured
  objects that they call (vendored \<^verbatim>\<open>unstructured/helpers.go\<close>).

  Kustomize and the YAML package are the fieldNames of the parameter \<open>kustEnv\<close>. A function that mutates a
  patch returns the patch it leaves; a failing one ends the conversion, so that what it has mutated
  before is not seen. The printed value and type in an accessor's error message are left out.
\<close>

section \<open>Accessors of unstructured objects\<close>

definition jsonPath :: "string list \<Rightarrow> string" where
  "jsonPath fieldNames = ''.'' @ Join fieldNames ''.''"

definition notAMap :: "string list \<Rightarrow> go_error" where
  "notAMap fieldNames = Error (jsonPath fieldNames @ '' accessor error: expected map[string]interface{}'')"

definition notAString :: "string list \<Rightarrow> go_error" where
  "notAString fieldNames = Error (jsonPath fieldNames @ '' accessor error: expected string'')"

text \<open>\<open>path\<close> holds the fields passed already; \<open>None\<close> is \<open>found = false\<close>.\<close>

fun nestedField :: "string list \<Rightarrow> gval \<Rightarrow> string list \<Rightarrow> gval option res" where
  "nestedField path val [] = Inr (Some val)"
| "nestedField path val (field # fieldNames) =
     (case val of
        GNil \<Rightarrow> Inr None
      | GMap m \<Rightarrow> (case mget m field of
            None \<Rightarrow> Inr None
          | Some v \<Rightarrow> nestedField (path @ [field]) v fieldNames)
      | _ \<Rightarrow> Inl (notAMap (path @ [field])))"

definition NestedFieldNoCopy :: "gmap \<Rightarrow> string list \<Rightarrow> gval option res" where
  "NestedFieldNoCopy obj fieldNames = nestedField [] (GMap obj) fieldNames"

definition NestedString :: "gmap \<Rightarrow> string list \<Rightarrow> string option res" where
  "NestedString obj fieldNames =
     bind_res (NestedFieldNoCopy obj fieldNames) (\<lambda>found.
       case found of
         None \<Rightarrow> Inr None
       | Some (GStr s) \<Rightarrow> Inr (Some s)
       | Some _ \<Rightarrow> Inl (notAString fieldNames))"

text \<open>The string that the callers use: the zero value when the field is missing, and, for a caller
  that ignores the error, when it is not a string.\<close>

definition nestedOr :: "string option \<Rightarrow> string" where
  "nestedOr s = (case s of None \<Rightarrow> [] | Some s \<Rightarrow> s)"

definition nestedIgnoring :: "gmap \<Rightarrow> string list \<Rightarrow> string" where
  "nestedIgnoring obj fieldNames = (case NestedString obj fieldNames of Inl _ \<Rightarrow> [] | Inr s \<Rightarrow> nestedOr s)"

fun setNested :: "string list \<Rightarrow> gmap \<Rightarrow> gval \<Rightarrow> string list \<Rightarrow> gmap res" where
  "setNested path m value [] = Inl (Panic ''index out of range'')"
| "setNested path m value [field] = Inr (mput m field value)"
| "setNested path m value (field # fieldNames) =
     (case mget m field of
        None \<Rightarrow> bind_res (setNested (path @ [field]) [] value fieldNames) (\<lambda>m'. Inr (mput m field (GMap m')))
      | Some (GMap valMap) \<Rightarrow>
          bind_res (setNested (path @ [field]) valMap value fieldNames) (\<lambda>m'. Inr (mput m field (GMap m')))
      | Some _ \<Rightarrow> Inl (Error (''value cannot be set because '' @ jsonPath (path @ [field]) @
          '' is not a map[string]interface{}'')))"

definition SetNestedField :: "gmap \<Rightarrow> string \<Rightarrow> string list \<Rightarrow> gmap res" where
  "SetNestedField obj value fieldNames = setNested [] obj (GStr value) fieldNames"

section \<open>Validation\<close>

record ManifestPatcher =
  mp_Manifests :: "gmap list"
  mp_Patches :: "gmap list"

definition apiVersionField :: "string list" where "apiVersionField = [''apiVersion'']"
definition kindField :: "string list" where "kindField = [''kind'']"
definition nameField :: "string list" where "nameField = [''metadata'', ''name'']"
definition namespaceField :: "string list" where "namespaceField = [''metadata'', ''namespace'']"

definition validateManifestInfo :: "gmap \<Rightarrow> (string \<Rightarrow> string) \<Rightarrow> unit res" where
  "validateManifestInfo manifest errTemplate =
     (if nestedIgnoring manifest apiVersionField = [] then Inl (Error (errTemplate ''apiVersion''))
      else if nestedIgnoring manifest kindField = [] then Inl (Error (errTemplate ''kind''))
      else if nestedIgnoring manifest nameField = [] then Inl (Error (errTemplate ''metadata.name''))
      else Inr ())"

text \<open>One block of \<^verbatim>\<open>setPatchDefaults\<close>: read a field, set it when it is empty.\<close>

definition setPatchDefault ::
  "(string \<Rightarrow> string) \<Rightarrow> (string \<Rightarrow> string) \<Rightarrow> string list \<Rightarrow> string \<Rightarrow> gmap \<Rightarrow> gmap res" where
  "setPatchDefault getFailed setFailed fieldNames value patch =
     bind_res (map_error getFailed (NestedString patch fieldNames)) (\<lambda>old.
       if nestedOr old = [] then map_error setFailed (SetNestedField patch value fieldNames) else Inr patch)"

definition doubleQuoted :: "string \<Rightarrow> string" where
  "doubleQuoted s = CHR 0x22 # s @ [CHR 0x22]"

definition getError :: "string \<Rightarrow> string \<Rightarrow> string \<Rightarrow> string \<Rightarrow> string" where
  "getError name kind field e =
     ''failed to retrieve the '' @ doubleQuoted field @ '' field from the manifest of name '' @
     doubleQuoted name @ '' and kind '' @ doubleQuoted kind @ '': '' @ e"

definition setError :: "string \<Rightarrow> string \<Rightarrow> string \<Rightarrow> string \<Rightarrow> string" where
  "setError name kind field e =
     ''failed to set the '' @ doubleQuoted field @ '' field on the patch from the manifest of name '' @
     doubleQuoted name @ '' and kind '' @ doubleQuoted kind @ '': '' @ e"

definition setPatchDefaults :: "string \<Rightarrow> string \<Rightarrow> string \<Rightarrow> string \<Rightarrow> gmap \<Rightarrow> gmap res" where
  "setPatchDefaults apiVersion kind name namespace patch =
     (let getErr = getError name kind; setErr = setError name kind in
      bind_res (setPatchDefault (getErr ''apiVersion'') (setErr ''apiVersion'') apiVersionField apiVersion patch) (\<lambda>patch.
      bind_res (setPatchDefault (getErr ''kind'') (setErr ''kind'') kindField kind patch) (\<lambda>patch.
      bind_res (setPatchDefault (getErr ''metadata.name'') (setErr ''metadata.name'') nameField name patch) (\<lambda>patch.
        setPatchDefault (getErr ''metadata.namespace'') (setErr ''metadata.namespace'') namespaceField namespace patch))))"

definition manifestField :: "string \<Rightarrow> string" where
  "manifestField field = ''all manifests must have the '' @ doubleQuoted field @ '' field set to a non-empty string''"

definition patchField :: "string \<Rightarrow> string" where
  "patchField field = ''patches must have the '' @ doubleQuoted field @
     '' field set to a non-empty string when there is more than one manifest it can apply to''"

definition Validate :: "ManifestPatcher \<Rightarrow> ManifestPatcher res" where
  "Validate m =
     (case mp_Manifests m of
        [] \<Rightarrow> Inl (Error ''there must be one or more manifests'')
      | manifest # rest \<Rightarrow>
          bind_res (mapM_res (\<lambda>x. validateManifestInfo x manifestField) (mp_Manifests m)) (\<lambda>_.
          if rest \<noteq> [] then
            bind_res (mapM_res (\<lambda>x. validateManifestInfo x patchField) (mp_Patches m)) (\<lambda>_. Inr m)
          else
            bind_res (mapM_res (setPatchDefaults
                (nestedIgnoring manifest apiVersionField) (nestedIgnoring manifest kindField)
                (nestedIgnoring manifest nameField) (nestedIgnoring manifest namespaceField)) (mp_Patches m)) (\<lambda>ps.
              Inr (m\<lparr>mp_Patches := ps\<rparr>))))"

section \<open>Kustomize\<close>

record KustomizeJSON =
  kj_OpenapiPath :: string
  kj_Patches :: "string list"
  kj_Resources :: "string list"

type_synonym memFS = "(string, string) gomap"

type_synonym resMap = "gmap list"

text \<open>\<open>ke_decode\<close> reads the documents of a text up to the end or the first error.\<close>

record kustEnv =
  ke_marshal :: "gmap \<Rightarrow> string res"
  ke_marshalKust :: "KustomizeJSON \<Rightarrow> string res"
  ke_Run :: "memFS \<Rightarrow> string \<Rightarrow> resMap res"
  ke_AsYaml :: "resMap \<Rightarrow> string res"
  ke_decode :: "string \<Rightarrow> gval list \<times> go_error option"

definition localSchemaFileName :: string where "localSchemaFileName = ''schema.json''"
definition kustomizeDir :: string where "kustomizeDir = ''kustomize''"

text \<open>The documents of a manifest: nil ones are skipped, others must be maps.\<close>

definition notObjects :: go_error where
  "notObjects = Error ''the input manifests must be in the format of YAML objects''"

fun manifestDocs :: "gval list \<Rightarrow> gmap list res" where
  "manifestDocs [] = Inr []"
| "manifestDocs (GNil # docs) = manifestDocs docs"
| "manifestDocs (GMap m # docs) = bind_res (manifestDocs docs) (\<lambda>ms. Inr (m # ms))"
| "manifestDocs (_ # docs) = Inl notObjects"

definition unmarshalManifestBytes :: "kustEnv \<Rightarrow> string \<Rightarrow> gmap list res" where
  "unmarshalManifestBytes K manifestBytes =
     (let (docs, err) = ke_decode K manifestBytes in
      bind_res (manifestDocs docs) (\<lambda>ms. case err of None \<Rightarrow> Inr ms | Some e \<Rightarrow> Inl e))"

definition UnmarshalManifestFile :: "kustEnv \<Rightarrow> fsys \<Rightarrow> string \<Rightarrow> gmap list res" where
  "UnmarshalManifestFile K fs manifestPath =
     bind_res (readOr (\<lambda>f _. Error (''failed to read the manifest file '' @ f)) fs manifestPath) (\<lambda>manifestBytes.
       map_error (\<lambda>e. ''failed to decode the manifest file at '' @ manifestPath @ '': '' @ e)
         (unmarshalManifestBytes K manifestBytes))"

definition KustomizeManifest :: "kustEnv \<Rightarrow> memFS \<Rightarrow> KustomizeJSON \<Rightarrow> gmap list res" where
  "KustomizeManifest K fSys kustomizationYAMLFile =
     bind_res (map_error (\<lambda>e. ''an unexpected error occurred when creating the kustomization.yaml file: '' @ e)
       (ke_marshalKust K kustomizationYAMLFile)) (\<lambda>kustomizationYAML.
     bind_res (map_error (\<lambda>e. ''failed to apply the patch(es) to the manifest(s) using Kustomize: '' @ e)
       (ke_Run K (mput fSys (JoinPath [kustomizeDir, KustomizationFileName]) kustomizationYAML) kustomizeDir)) (\<lambda>resMap.
     bind_res (map_error (\<lambda>e. ''failed to convert the patched manifest(s) back to YAML: '' @ e)
       (ke_AsYaml K resMap)) (\<lambda>manifestsYAML.
     map_error (\<lambda>e. ''failed to read the patched manifest(s): '' @ e) (unmarshalManifestBytes K manifestsYAML))))"

definition InitializeInMemoryKustomizeDir :: "fsys \<Rightarrow> memFS \<Rightarrow> string \<Rightarrow> memFS res" where
  "InitializeInMemoryKustomizeDir fs fSys schema =
     bind_res (readOr openFailed fs schema) (\<lambda>schemaJSON.
       Inr (mput fSys (JoinPath [kustomizeDir, localSchemaFileName]) schemaJSON))"

definition objectFile :: "string \<Rightarrow> nat \<Rightarrow> string" where
  "objectFile optionType i = optionType @ natStr i @ ''.yaml''"

text \<open>The inner loop: write the objects of one kind under numbered names.\<close>

definition writeObject :: "kustEnv \<Rightarrow> string \<Rightarrow> memFS \<times> string list \<Rightarrow> nat \<times> gmap \<Rightarrow> (memFS \<times> string list) res" where
  "writeObject K optionType st io =
     (case st of (fSys, files) \<Rightarrow> case io of (i, object) \<Rightarrow>
        bind_res (map_error (\<lambda>e. ''an unexpected error occurred when converting the '' @ optionType @
            '' back to YAML: '' @ e) (ke_marshal K object)) (\<lambda>objectYAML.
          Inr (mput fSys (JoinPath [kustomizeDir, objectFile optionType i]) objectYAML,
               files @ [objectFile optionType i])))"

definition writeObjects :: "kustEnv \<Rightarrow> string \<Rightarrow> memFS \<Rightarrow> gmap list \<Rightarrow> (memFS \<times> string list) res" where
  "writeObjects K optionType fSys objects =
     fold_res (writeObject K optionType) (fSys, []) (zip [0..<length objects] objects)"

definition ApplyPatches :: "kustEnv \<Rightarrow> fsys \<Rightarrow> ManifestPatcher \<Rightarrow> string \<Rightarrow> gmap list res" where
  "ApplyPatches K fs m schema =
     bind_res (map_error (\<lambda>e. ''failed to initialize Kustomize dir, err: '' @ e)
       (InitializeInMemoryKustomizeDir fs [] schema)) (\<lambda>fSys.
     bind_res (writeObjects K ''manifest'' fSys (mp_Manifests m)) (\<lambda>(fSys, resources).
     bind_res (writeObjects K ''patch'' fSys (mp_Patches m)) (\<lambda>(fSys, patches).
       KustomizeManifest K fSys
         \<lparr>kj_OpenapiPath = localSchemaFileName, kj_Patches = patches, kj_Resources = resources\<rparr>)))"

section \<open>Paths of manifests\<close>

text \<open>Without links \<^verbatim>\<open>EvalSymlinks\<close> only checks that the path exists.\<close>

definition VerifyManifestPath :: "fsys \<Rightarrow> string \<Rightarrow> string \<Rightarrow> unit res" where
  "VerifyManifestPath fs baseDirectory manifestPath =
     (let absPath = Abs fs manifestPath in
      case os_Stat fs absPath of
        Inl _ \<Rightarrow> Inl (Error (''could not resolve symlinks to the manifest path '' @ manifestPath))
      | Inr _ \<Rightarrow>
        (case Rel baseDirectory absPath of
           None \<Rightarrow> Inl (Error (''could not resolve the manifest path '' @ manifestPath @
             '' to a relative path from the kustomization.yaml file''))
         | Some relPath \<Rightarrow>
             if relPath = ''.'' then Inl (Error (''the manifest path '' @ manifestPath @
               '' may not refer to the same directory as the kustomization.yaml file''))
             else if HasPrefix relPath (''..'' @ slash) \<or> relPath = ''..'' then
               Inl (Error (''the manifest path '' @ manifestPath @
                 '' is not in the same directory tree as the kustomization.yaml file''))
             else Inr ()))"

section \<open>Lemmas\<close>

text \<open>A field is missing or a string; its value as the code reads it; and the field with a default.\<close>

fun strOrMissing :: "gval option \<Rightarrow> bool" where
  "strOrMissing None = True"
| "strOrMissing (Some (GStr _)) = True"
| "strOrMissing _ = False"

fun strOf :: "gval option \<Rightarrow> string" where
  "strOf (Some (GStr s)) = s"
| "strOf _ = []"

definition fillStr :: "gmap \<Rightarrow> string \<Rightarrow> string \<Rightarrow> gmap" where
  "fillStr m k v = (if strOf (mget m k) = [] then mput m k (GStr v) else m)"

lemma mput_mput [simp]: "mput (mput m k v) k w = mput m k w"
  by (induction m) auto

lemma mput_same: "mget m k = Some v \<Longrightarrow> mput m k v = m"
  by (induction m) auto

lemma mget_fillStr: "mget (fillStr m k v) j = (if j = k \<and> strOf (mget m k) = [] then Some (GStr v) else mget m j)"
  by (simp add: fillStr_def)

lemma NestedString1:
  "NestedString m [k] =
     (case mget m k of None \<Rightarrow> Inr None | Some (GStr s) \<Rightarrow> Inr (Some s) | Some _ \<Rightarrow> Inl (notAString [k]))"
  by (simp add: NestedString_def NestedFieldNoCopy_def split: option.splits gval.splits)

lemma NestedString2:
  "NestedString m [j, k] =
     (case mget m j of
        None \<Rightarrow> Inr None
      | Some GNil \<Rightarrow> Inr None
      | Some (GMap mm) \<Rightarrow>
          (case mget mm k of None \<Rightarrow> Inr None | Some (GStr s) \<Rightarrow> Inr (Some s) | Some _ \<Rightarrow> Inl (notAString [j, k]))
      | Some _ \<Rightarrow> Inl (notAMap [j, k]))"
  by (simp add: NestedString_def NestedFieldNoCopy_def split: option.splits gval.splits)

lemma nestedIgnoring1: "nestedIgnoring m [k] = strOf (mget m k)"
  by (simp add: nestedIgnoring_def NestedString1 nestedOr_def split: option.splits gval.splits)

lemma nestedIgnoring2: "nestedIgnoring m [j, k] = strOf (mget (toMap (idx m j)) k)"
  by (simp add: nestedIgnoring_def NestedString2 nestedOr_def mget0_def split: option.splits gval.splits)

lemma setPatchDefault1:
  "setPatchDefault ge se [k] v p = Inr p' \<longleftrightarrow> strOrMissing (mget p k) \<and> p' = fillStr p k v"
  by (auto simp: setPatchDefault_def NestedString1 SetNestedField_def nestedOr_def fillStr_def res_simps
      split: option.splits gval.splits)

lemma setPatchDefault2:
  "setPatchDefault ge se [j, k] v p = Inr p' \<longleftrightarrow>
     (case mget p j of
        None \<Rightarrow> p' = mput p j (GMap (fillStr [] k v))
      | Some (GMap mm) \<Rightarrow> strOrMissing (mget mm k) \<and> p' = mput p j (GMap (fillStr mm k v))
      | _ \<Rightarrow> False)"
  by (auto simp: setPatchDefault_def NestedString2 SetNestedField_def nestedOr_def fillStr_def res_simps mput_same
      split: option.splits gval.splits)

text \<open>What \<open>setPatchDefaults\<close> needs of a patch and what it makes of it.\<close>

definition patchShape :: "gmap \<Rightarrow> bool" where
  "patchShape p \<longleftrightarrow> strOrMissing (mget p ''apiVersion'') \<and> strOrMissing (mget p ''kind'') \<and>
     (case mget p ''metadata'' of
        None \<Rightarrow> True
      | Some (GMap mm) \<Rightarrow> strOrMissing (mget mm ''name'') \<and> strOrMissing (mget mm ''namespace'')
      | _ \<Rightarrow> False)"

definition completePatch :: "string \<Rightarrow> string \<Rightarrow> string \<Rightarrow> string \<Rightarrow> gmap \<Rightarrow> gmap" where
  "completePatch apiVersion kind name namespace p =
     mput (fillStr (fillStr p ''apiVersion'' apiVersion) ''kind'' kind) ''metadata''
       (GMap (fillStr (fillStr (toMap (idx p ''metadata'')) ''name'' name) ''namespace'' namespace))"

lemma setPatchDefaults_iff:
  "setPatchDefaults av k n ns p = Inr p' \<longleftrightarrow> patchShape p \<and> p' = completePatch av k n ns p"
proof -
  let ?q = "fillStr (fillStr p ''apiVersion'' av) ''kind'' k"
  have q: "mget ?q ''metadata'' = mget p ''metadata''" "mget (fillStr p ''apiVersion'' av) ''kind'' = mget p ''kind''"
    by (simp_all add: mget_fillStr)
  have nn: "mget (fillStr mm ''name'' n) ''namespace'' = mget mm ''namespace''" for mm by (simp add: mget_fillStr)
  have r: "setPatchDefaults av k n ns p = Inr p' \<longleftrightarrow>
      strOrMissing (mget p ''apiVersion'') \<and> strOrMissing (mget p ''kind'') \<and>
      (\<exists>p2. setPatchDefault (getError n k ''metadata.name'') (setError n k ''metadata.name'') [''metadata'', ''name''] n ?q = Inr p2 \<and>
        setPatchDefault (getError n k ''metadata.namespace'') (setError n k ''metadata.namespace'') [''metadata'', ''namespace''] ns p2 = Inr p')"
    unfolding setPatchDefaults_def Let_def bind_res_Inr_iff apiVersionField_def kindField_def nameField_def
      namespaceField_def setPatchDefault1 by (metis q(2))
  show ?thesis
  proof (cases "mget p ''metadata''")
    case None
    show ?thesis
      unfolding r setPatchDefault2 q(1) None option.case by (simp add: nn patchShape_def completePatch_def mget0_def None)
  next
    case (Some v)
    show ?thesis
      unfolding r setPatchDefault2 q(1) Some option.case
      by (cases v) (simp_all add: nn patchShape_def completePatch_def mget0_def Some)
  qed
qed

text \<open>A manifest or patch that Kustomize can identify.\<close>

definition identified :: "gmap \<Rightarrow> bool" where
  "identified m \<longleftrightarrow> nestedIgnoring m apiVersionField \<noteq> [] \<and> nestedIgnoring m kindField \<noteq> [] \<and>
     nestedIgnoring m nameField \<noteq> []"

lemma validateManifestInfo_iff: "validateManifestInfo m t = Inr u \<longleftrightarrow> identified m"
  by (simp add: validateManifestInfo_def identified_def)

lemma completePatch_identified:
  assumes "identified x"
  shows "identified (completePatch (nestedIgnoring x apiVersionField) (nestedIgnoring x kindField)
    (nestedIgnoring x nameField) ns p)"
  using assms
  unfolding identified_def completePatch_def apiVersionField_def kindField_def nameField_def nestedIgnoring1 nestedIgnoring2
  by (simp add: mget_fillStr)

definition validPatcher :: "ManifestPatcher \<Rightarrow> bool" where
  "validPatcher m \<longleftrightarrow> mp_Manifests m \<noteq> [] \<and> list_all identified (mp_Manifests m) \<and>
     list_all (if length (mp_Manifests m) = 1 then patchShape else identified) (mp_Patches m)"

definition completedPatcher :: "ManifestPatcher \<Rightarrow> ManifestPatcher" where
  "completedPatcher m =
     (case mp_Manifests m of
        [x] \<Rightarrow> m\<lparr>mp_Patches := map (completePatch (nestedIgnoring x apiVersionField) (nestedIgnoring x kindField)
          (nestedIgnoring x nameField) (nestedIgnoring x namespaceField)) (mp_Patches m)\<rparr>
      | _ \<Rightarrow> m)"

lemma validateAll_iff:
  "(\<exists>us. mapM_res (\<lambda>x. validateManifestInfo x t) xs = Inr us) \<longleftrightarrow> list_all identified xs"
proof -
  have "is_ok (validateManifestInfo x t) \<longleftrightarrow> identified x" for x
    using validateManifestInfo_iff [of x t] by (cases "validateManifestInfo x t") auto
  then show ?thesis by (simp add: mapM_res_is_ok list_all_iff)
qed

lemma setDefaultsAll_iff:
  "mapM_res (setPatchDefaults av k n ns) ps = Inr ps' \<longleftrightarrow>
     list_all patchShape ps \<and> ps' = map (completePatch av k n ns) ps"
  by (induction ps arbitrary: ps') (auto simp: res_simps setPatchDefaults_iff)

section \<open>Properties\<close>

text \<open>\<open>Validate\<close> accepts a patcher iff there is a manifest, every manifest has a non-empty
  apiVersion, kind and name, and the patches are usable: with several manifests each patch names its
  target by the same three fields and is left as it is; with a single manifest each patch must have
  strings (or nothing) in these places and gets exactly the missing ones from the manifest, keeping
  all its other content. Every accepted patch is identified afterwards.\<close>

theorem Validate_completes_patches:
  "Validate m = Inr m' \<longleftrightarrow>
     validPatcher m \<and> m' = completedPatcher m \<and> list_all identified (mp_Patches m')"
proof (cases "mp_Manifests m")
  case Nil
  then show ?thesis by (simp add: Validate_def validPatcher_def)
next
  case (Cons x rest)
  show ?thesis
  proof (cases "rest = []")
    case True
    have "list_all identified (map (completePatch (nestedIgnoring x apiVersionField) (nestedIgnoring x kindField)
      (nestedIgnoring x nameField) (nestedIgnoring x namespaceField)) ps)" if "identified x" for ps
      using completePatch_identified [OF that] by (simp add: list_all_iff)
    moreover have "(\<exists>us. mapM_res (\<lambda>x. validateManifestInfo x manifestField) [x] = Inr us) \<longleftrightarrow> identified x"
      using validateAll_iff [of manifestField "[x]"] by simp
    ultimately show ?thesis
      using Cons True
      by (auto simp: Validate_def validPatcher_def completedPatcher_def bind_res_Inr_iff setDefaultsAll_iff
          simp del: mapM_res.simps)
  next
    case False
    then obtain y ys where "rest = y # ys" by (cases rest) auto
    with Cons show ?thesis
      using validateAll_iff [of manifestField "mp_Manifests m"] validateAll_iff [of patchField "mp_Patches m"]
      by (auto simp: Validate_def validPatcher_def completedPatcher_def bind_res_Inr_iff simp del: mapM_res.simps)
  qed
qed

end
