(* ===== verification/SelectorParser.thy ===== *)
theory SelectorParser
  imports Selector
begin

text \<open>
  Reading the text of a label selector: the lexer and the parser of the vendored
  \<^verbatim>\<open>k8s.io/apimachinery/pkg/labels/selector.go\<close> and the validation of keys and values in
  \<^verbatim>\<open>util/validation/validation.go\<close>.

  The lexer's state is the text that it has not read; \<^verbatim>\<open>unread\<close> leaves a character there. The parser's
  state is the list of items that it has not consumed. The verb \<^verbatim>\<open>%q\<close> of an error message is the text
  between quotes, without Go's escapes. \<^verbatim>\<open>sort.Sort\<close> may reorder requirements of the same key, which the model's
  \<open>sort_key\<close> keeps in order; no meaning of a selector depends on it.
\<close>

section \<open>Printing of requirements\<close>

fun operatorText :: "operator \<Rightarrow> string" where
  "operatorText Equals = ''=''"
| "operatorText DoubleEquals = ''==''"
| "operatorText NotEquals = ''!=''"
| "operatorText In = '' in ''"
| "operatorText NotIn = '' notin ''"
| "operatorText GreaterThan = ''>''"
| "operatorText LessThan = ''<''"
| "operatorText _ = []"

definition valuesText :: "Requirement \<Rightarrow> string" where
  "valuesText r = (case rq_strValues r of [v] \<Rightarrow> v | vs \<Rightarrow> Join (sort vs) '','')"

definition Requirement_String :: "Requirement \<Rightarrow> string" where
  "Requirement_String r =
     (if rq_operator r = DoesNotExist then ''!'' @ rq_key r
      else if rq_operator r = operator.Exists then rq_key r
      else if rq_operator r = In \<or> rq_operator r = NotIn
        then rq_key r @ operatorText (rq_operator r) @ ''('' @ valuesText r @ '')''
      else rq_key r @ operatorText (rq_operator r) @ valuesText r)"

definition Selector_String :: "selector \<Rightarrow> string" where
  "Selector_String s = Join (map Requirement_String s) '',''"

section \<open>Validation\<close>

definition isBetween :: "char \<Rightarrow> char \<Rightarrow> char \<Rightarrow> bool" where
  "isBetween a b c \<longleftrightarrow> a \<le> c \<and> c \<le> b"

definition isLowerAlnum :: "char \<Rightarrow> bool" where
  "isLowerAlnum c \<longleftrightarrow> isBetween (CHR ''a'') (CHR ''z'') c \<or> isBetween (CHR ''0'') (CHR ''9'') c"

text \<open>\<^verbatim>\<open>[A-Za-z0-9]\<close> and \<^verbatim>\<open>[-A-Za-z0-9_.]\<close>.\<close>

definition qnameChar :: "char \<Rightarrow> bool" where
  "qnameChar c \<longleftrightarrow> isLowerAlnum c \<or> isBetween (CHR ''A'') (CHR ''Z'') c"

definition qnameExtChar :: "char \<Rightarrow> bool" where
  "qnameExtChar c \<longleftrightarrow> qnameChar c \<or> c \<in> set ''-_.''"

text \<open>The regular expression \<^verbatim>\<open>^(qnameChar qnameExtChar*)?qnameChar$\<close>.\<close>

definition qualifiedNameRegexp :: "string \<Rightarrow> bool" where
  "qualifiedNameRegexp s \<longleftrightarrow> s \<noteq> [] \<and> qnameChar (hd s) \<and> qnameChar (last s) \<and> list_all qnameExtChar s"

definition labelValueRegexp :: "string \<Rightarrow> bool" where
  "labelValueRegexp s \<longleftrightarrow> s = [] \<or> qualifiedNameRegexp s"

definition dns1123LabelRegexp :: "string \<Rightarrow> bool" where
  "dns1123LabelRegexp s \<longleftrightarrow>
     s \<noteq> [] \<and> isLowerAlnum (hd s) \<and> isLowerAlnum (last s) \<and> list_all (\<lambda>c. isLowerAlnum c \<or> c = CHR ''-'') s"

definition dns1123SubdomainRegexp :: "string \<Rightarrow> bool" where
  "dns1123SubdomainRegexp s \<longleftrightarrow> list_all dns1123LabelRegexp (Split s ''.'')"

definition MaxLenError :: "nat \<Rightarrow> string" where
  "MaxLenError n = ''must be no more than '' @ natStr n @ '' characters''"

definition EmptyError :: string where "EmptyError = ''must be non-empty''"

definition example :: "string \<Rightarrow> string" where "example s = quoted s @ '', ''"

definition RegexError :: "string \<Rightarrow> string \<Rightarrow> string list \<Rightarrow> string" where
  "RegexError msg re examples =
     (if examples = [] then msg @ '' (regex used for validation is '' @ quoted re @ '')''
      else msg @ '' (e.g. '' @ Join (map example examples) '' or '' @ ''regex used for validation is '' @ quoted re @ '')'')"

definition qualifiedNameFmt :: string where "qualifiedNameFmt = ''([A-Za-z0-9][-A-Za-z0-9_.]*)?[A-Za-z0-9]''"
definition labelValueFmt :: string where "labelValueFmt = ''('' @ qualifiedNameFmt @ '')?''"
definition dns1123LabelFmt :: string where "dns1123LabelFmt = ''[a-z0-9]([-a-z0-9]*[a-z0-9])?''"

definition dns1123SubdomainFmt :: string where
  "dns1123SubdomainFmt = dns1123LabelFmt @ ''('' @ [CHR 0x5C] @ ''.'' @ dns1123LabelFmt @ '')*''"

definition alnumRule :: string where
  "alnumRule = ''consist of alphanumeric characters, '' @ quoted ''-'' @ '', '' @ quoted ''_'' @ '' or '' @ quoted ''.'' @
     '', and must start and end with an alphanumeric character''"

definition qualifiedNameErrMsg :: string where "qualifiedNameErrMsg = ''must '' @ alnumRule"
definition labelValueErrMsg :: string where
  "labelValueErrMsg = ''a valid label must be an empty string or '' @ alnumRule"

definition dns1123SubdomainErrorMsg :: string where
  "dns1123SubdomainErrorMsg = ''a lowercase RFC 1123 subdomain must consist of lower case alphanumeric characters, '' @
     quoted ''-'' @ '' or '' @ quoted ''.'' @ '', and must start and end with an alphanumeric character''"

definition IsDNS1123Subdomain :: "string \<Rightarrow> string list" where
  "IsDNS1123Subdomain value =
     (if length value > 253 then [MaxLenError 253] else []) @
     (if \<not> dns1123SubdomainRegexp value
      then [RegexError dns1123SubdomainErrorMsg dns1123SubdomainFmt [''example.com'']] else [])"

definition nameExamples :: "string list" where "nameExamples = [''MyName'', ''my.name'', ''123-abc'']"

definition namePart :: "string \<Rightarrow> string list" where
  "namePart name =
     (if length name = 0 then [''name part '' @ EmptyError]
      else if length name > 63 then [''name part '' @ MaxLenError 63] else []) @
     (if \<not> qualifiedNameRegexp name
      then [''name part '' @ RegexError qualifiedNameErrMsg qualifiedNameFmt nameExamples] else [])"

definition IsQualifiedName :: "string \<Rightarrow> string list" where
  "IsQualifiedName value =
     (case Split value ''/'' of
        [name] \<Rightarrow> namePart name
      | [prefix, name] \<Rightarrow>
          (if length prefix = 0 then [''prefix part '' @ EmptyError]
           else map (\<lambda>msg. ''prefix part '' @ msg) (IsDNS1123Subdomain prefix)) @ namePart name
      | _ \<Rightarrow> [''a qualified name '' @ RegexError qualifiedNameErrMsg qualifiedNameFmt nameExamples @
              '' with an optional DNS subdomain prefix and '' @ quoted ''/'' @ '' (e.g. '' @ quoted ''example.com/MyName'' @ '')''])"

definition IsValidLabelValue :: "string \<Rightarrow> string list" where
  "IsValidLabelValue value =
     (if length value > 63 then [MaxLenError 63] else []) @
     (if \<not> labelValueRegexp value
      then [RegexError labelValueErrMsg labelValueFmt [''MyValue'', ''my_value'', ''12345'']] else [])"

text \<open>The text of a \<^verbatim>\<open>field.Invalid\<close> error at a path.\<close>

definition inDoubleQuotes :: "string \<Rightarrow> string" where
  "inDoubleQuotes s = CHR 0x22 # s @ [CHR 0x22]"

definition invalidField :: "string \<Rightarrow> string \<Rightarrow> string \<Rightarrow> string" where
  "invalidField path shown detail = path @ '': Invalid value: '' @ shown @ (if detail \<noteq> [] then '': '' @ detail else [])"

definition validateLabelKey :: "string \<Rightarrow> string \<Rightarrow> string list" where
  "validateLabelKey k path =
     (let errs = IsQualifiedName k in
      if errs \<noteq> [] then [invalidField path (inDoubleQuotes k) (Join errs ''; '')] else [])"

definition validateLabelValue :: "string \<Rightarrow> string \<Rightarrow> string \<Rightarrow> string list" where
  "validateLabelValue k v path =
     (let errs = IsValidLabelValue v in
      if errs \<noteq> [] then [invalidField (path @ ''['' @ k @ '']'') (inDoubleQuotes v) (Join errs ''; '')] else [])"

section \<open>Requirements\<close>

text \<open>A slice of strings as \<^verbatim>\<open>%#v\<close> shows it.\<close>

definition goSlice :: "string list \<Rightarrow> string" where
  "goSlice vals = ''[]string{'' @ Join (map inDoubleQuotes vals) '', '' @ ''}''"

definition needInteger :: string where
  "needInteger = ''for '' @ quoted ''Gt'' @ '', '' @ quoted ''Lt'' @ '' operators, the value must be an integer''"

text \<open>The errors on the number of values and on the values of an integer comparison.\<close>

definition valuesErrors :: "operator \<Rightarrow> string list \<Rightarrow> string list" where
  "valuesErrors op vals =
     (let wrong = (\<lambda>b detail. if b then [invalidField ''values'' (goSlice vals) detail] else []) in
      case op of
        In \<Rightarrow> wrong (length vals = 0) (''for '' @ quoted ''in'' @ '', '' @ quoted ''notin'' @ '' operators, values set can'' @ [CHR 0x27] @ ''t be empty'')
      | NotIn \<Rightarrow> wrong (length vals = 0) (''for '' @ quoted ''in'' @ '', '' @ quoted ''notin'' @ '' operators, values set can'' @ [CHR 0x27] @ ''t be empty'')
      | Equals \<Rightarrow> wrong (length vals \<noteq> 1) ''exact-match compatibility requires one single value''
      | DoubleEquals \<Rightarrow> wrong (length vals \<noteq> 1) ''exact-match compatibility requires one single value''
      | NotEquals \<Rightarrow> wrong (length vals \<noteq> 1) ''exact-match compatibility requires one single value''
      | operator.Exists \<Rightarrow> wrong (length vals \<noteq> 0) ''values set must be empty for exists and does not exist''
      | DoesNotExist \<Rightarrow> wrong (length vals \<noteq> 0) ''values set must be empty for exists and does not exist''
      | _ \<Rightarrow> wrong (length vals \<noteq> 1)
            (''for '' @ quoted ''Gt'' @ '', '' @ quoted ''Lt'' @ '' operators, exactly one value is required'') @
          concat (map (\<lambda>(i, v). if Atoi v = None then [invalidField (''values['' @ natStr i @ '']'') (inDoubleQuotes v) needInteger] else [])
            (enumerate 0 vals)))"

definition requirementErrors :: "string \<Rightarrow> operator \<Rightarrow> string list \<Rightarrow> string list" where
  "requirementErrors key op vals =
     validateLabelKey key ''key'' @ valuesErrors op vals @
     concat (map (\<lambda>(i, v). validateLabelValue key v (''values['' @ natStr i @ '']'')) (enumerate 0 vals))"

text \<open>\<^verbatim>\<open>ToAggregate\<close> drops repeated messages.\<close>

definition ToAggregate :: "string list \<Rightarrow> string option" where
  "ToAggregate errs =
     (case rev (remdups (rev errs)) of
        [] \<Rightarrow> None
      | [msg] \<Rightarrow> Some msg
      | msgs \<Rightarrow> Some (''['' @ Join msgs '', '' @ '']''))"

text \<open>\<^verbatim>\<open>labels.NewRequirement\<close> returns the requirement together with its error; the converter ignores the error, the
  parser does not.\<close>

definition NewRequirement :: "string \<Rightarrow> operator \<Rightarrow> string list \<Rightarrow> Requirement" where
  "NewRequirement key op vals = \<lparr>rq_key = key, rq_operator = op, rq_strValues = vals\<rparr>"

definition checkedRequirement :: "string \<Rightarrow> operator \<Rightarrow> string list \<Rightarrow> Requirement res" where
  "checkedRequirement key op vals =
     (case ToAggregate (requirementErrors key op vals) of
        None \<Rightarrow> Inr (NewRequirement key op vals)
      | Some e \<Rightarrow> Inl (Error e))"

section \<open>The lexer\<close>

datatype Token =
    ErrorToken | EndOfStringToken | ClosedParToken | CommaToken | DoesNotExistToken | DoubleEqualsToken
  | EqualsToken | GreaterThanToken | IdentifierToken | InToken | LessThanToken | NotEqualsToken
  | NotInToken | OpenParToken

definition string2token :: "string \<Rightarrow> Token option" where
  "string2token = map_of
     [('')'', ClosedParToken), ('','', CommaToken), (''!'', DoesNotExistToken), (''=='', DoubleEqualsToken),
      (''='', EqualsToken), (''>'', GreaterThanToken), (''in'', InToken), (''<'', LessThanToken),
      (''!='', NotEqualsToken), (''notin'', NotInToken), (''('', OpenParToken)]"

type_synonym ScannedItem = "Token \<times> string"

definition isWhitespace :: "char \<Rightarrow> bool" where
  "isWhitespace ch \<longleftrightarrow> ch = CHR '' '' \<or> ch = CHR 0x09 \<or> ch = CHR 0x0D \<or> ch = CHR 0x0A"

definition isSpecialSymbol :: "char \<Rightarrow> bool" where
  "isSpecialSymbol ch \<longleftrightarrow> ch \<in> set ''=!(),><''"

text \<open>\<^verbatim>\<open>read\<close> returns 0 at the end of the text, which a zero byte of the text is taken for.\<close>

definition nul :: char where "nul = CHR 0x00"

fun identifierLoop :: "string \<Rightarrow> string \<times> string" where
  "identifierLoop [] = ([], [])"
| "identifierLoop (ch # l) =
     (if ch = nul then ([], l)
      else if isSpecialSymbol ch \<or> isWhitespace ch then ([], ch # l)
      else let (buffer, l') = identifierLoop l in (ch # buffer, l'))"

definition scanIDOrKeyword :: "string \<Rightarrow> ScannedItem \<times> string" where
  "scanIDOrKeyword l =
     (let (s, l') = identifierLoop l in
      ((case string2token s of Some val \<Rightarrow> val | None \<Rightarrow> IdentifierToken, s), l'))"

fun specialSymbolLoop :: "string \<Rightarrow> ScannedItem option \<Rightarrow> string \<Rightarrow> string \<times> ScannedItem option \<times> string" where
  "specialSymbolLoop buffer lastScannedItem [] = (buffer, lastScannedItem, [])"
| "specialSymbolLoop buffer lastScannedItem (ch # l) =
     (if ch = nul then (buffer, lastScannedItem, l)
      else if isSpecialSymbol ch then
        (let buffer' = buffer @ [ch] in
         case string2token buffer' of
           Some token \<Rightarrow> specialSymbolLoop buffer' (Some (token, buffer')) l
         | None \<Rightarrow> if lastScannedItem \<noteq> None then (buffer', lastScannedItem, ch # l)
                   else specialSymbolLoop buffer' None l)
      else (buffer, lastScannedItem, ch # l))"

definition scanSpecialSymbol :: "string \<Rightarrow> ScannedItem \<times> string" where
  "scanSpecialSymbol l =
     (case specialSymbolLoop [] None l of
        (buffer, None, l') \<Rightarrow> ((ErrorToken, ''error expected: keyword found '' @ quoted buffer), l')
      | (buffer, Some item, l') \<Rightarrow> (item, l'))"

fun skipWhiteSpaces :: "string \<Rightarrow> string" where
  "skipWhiteSpaces [] = []"
| "skipWhiteSpaces (ch # l) = (if isWhitespace ch then skipWhiteSpaces l else ch # l)"

definition Lex :: "string \<Rightarrow> ScannedItem \<times> string" where
  "Lex l =
     (case skipWhiteSpaces l of
        [] \<Rightarrow> ((EndOfStringToken, []), [])
      | ch # l' \<Rightarrow>
          if ch = nul then ((EndOfStringToken, []), l')
          else if isSpecialSymbol ch then scanSpecialSymbol (ch # l')
          else scanIDOrKeyword (ch # l'))"

text \<open>The lexer always consumes something before the end.\<close>

lemma identifierLoop_length: "identifierLoop l = (s, r) \<Longrightarrow> length r \<le> length l"
  by (induction l arbitrary: s) (auto split: if_splits prod.splits intro: le_SucI)

lemma specialSymbolLoop_length: "specialSymbolLoop b i l = (b', i', r) \<Longrightarrow> length r \<le> length l"
  by (induction b i l rule: specialSymbolLoop.induct)
    (auto simp: Let_def split: if_splits option.splits intro: le_SucI)

lemma skipWhiteSpaces_length: "length (skipWhiteSpaces l) \<le> length l"
  by (induction l) auto

lemma single_special: "isSpecialSymbol ch \<Longrightarrow> string2token [ch] \<noteq> None"
  by (auto simp: isSpecialSymbol_def string2token_def)

lemma scanSpecialSymbol_length:
  assumes "isSpecialSymbol ch" and "ch \<noteq> nul" and "scanSpecialSymbol (ch # l) = (item, r)"
  shows "length r \<le> length l"
proof -
  obtain t where "string2token [ch] = Some t" using single_special [OF assms(1)] by blast
  with assms show ?thesis
    by (auto simp: scanSpecialSymbol_def Let_def dest!: specialSymbolLoop_length split: prod.splits option.splits)
qed

lemma Lex_length:
  assumes "Lex l = ((tok, lit), r)" and "tok \<noteq> EndOfStringToken"
  shows "length r < length l"
proof (cases "skipWhiteSpaces l")
  case (Cons ch l')
  then have l: "length l' < length l" using skipWhiteSpaces_length [of l] by simp
  have ch: "ch \<noteq> nul" using assms Cons by (auto simp: Lex_def)
  show ?thesis
  proof (cases "isSpecialSymbol ch")
    case True
    with assms ch Cons scanSpecialSymbol_length [OF True ch, of l'] l show ?thesis by (simp add: Lex_def)
  next
    case False
    have "\<not> isWhitespace ch" using Cons by (induction l) (auto split: if_splits)
    with False ch obtain s where "identifierLoop (ch # l') = (ch # s, snd (identifierLoop l'))"
      by (cases "identifierLoop l'") auto
    moreover have "length (snd (identifierLoop l')) \<le> length l'"
      using identifierLoop_length [of l'] by (cases "identifierLoop l'") auto
    ultimately show ?thesis using assms(1) Cons ch False l by (auto simp: Lex_def scanIDOrKeyword_def)
  qed
qed (use assms in \<open>simp add: Lex_def\<close>)

function scan :: "string \<Rightarrow> ScannedItem list" where
  "scan l = (case Lex l of (item, r) \<Rightarrow> item # (if fst item = EndOfStringToken then [] else scan r))"
  by pat_completeness auto
termination
  by (relation "measure length") (auto intro: Lex_length [OF sym])

declare scan.simps [simp del]

section \<open>The parser\<close>

datatype ParserContext = KeyAndOperator | Values

definition inContext :: "ParserContext \<Rightarrow> Token \<Rightarrow> Token" where
  "inContext context tok = (if context = Values \<and> (tok = InToken \<or> tok = NotInToken) then IdentifierToken else tok)"

definition outOfItems :: go_error where "outOfItems = Panic ''index out of range''"

fun lookahead :: "ParserContext \<Rightarrow> ScannedItem list \<Rightarrow> ScannedItem res" where
  "lookahead context [] = Inl outOfItems"
| "lookahead context ((tok, lit) # p) = Inr (inContext context tok, lit)"

fun consume :: "ParserContext \<Rightarrow> ScannedItem list \<Rightarrow> (ScannedItem \<times> ScannedItem list) res" where
  "consume context [] = Inl outOfItems"
| "consume context ((tok, lit) # p) = Inr ((inContext context tok, lit), p)"

definition found :: "string \<Rightarrow> string \<Rightarrow> go_error" where
  "found lit expected = Error (''found '' @ quoted lit @ '', expected: '' @ expected)"

text \<open>A \<^verbatim>\<open>sets.String\<close> is the list of its elements in some order; \<^verbatim>\<open>List\<close> sorts it.\<close>

definition sets_List :: "string list \<Rightarrow> string list" where
  "sets_List s = sorted_list_of_set (set s)"

fun parseIdentifiersList :: "string list \<Rightarrow> ScannedItem list \<Rightarrow> (string list \<times> ScannedItem list) res" where
  "parseIdentifiersList s [] = Inl outOfItems"
| "parseIdentifiersList s [(tok, lit)] =
     (if inContext Values tok = IdentifierToken \<or> inContext Values tok = CommaToken then Inl outOfItems
      else Inl (found lit (quoted '','' @ '', or identifier'')))"
| "parseIdentifiersList s ((tok, lit) # (tok2, lit2) # p) =
     (if inContext Values tok = IdentifierToken then
        (if inContext Values tok2 = CommaToken then parseIdentifiersList (List.insert lit s) ((tok2, lit2) # p)
         else if inContext Values tok2 = ClosedParToken then Inr (List.insert lit s, (tok2, lit2) # p)
         else Inl (found lit2 (quoted '','' @ '' or '' @ quoted '')'')))
      else if inContext Values tok = CommaToken then
        (let s1 = (if length s = 0 then [[]] else s) in
         if inContext Values tok2 = ClosedParToken then Inr (List.insert [] s1, (tok2, lit2) # p)
         else if inContext Values tok2 = CommaToken then parseIdentifiersList (List.insert [] s1) p
         else parseIdentifiersList s1 ((tok2, lit2) # p))
      else Inl (found lit (quoted '','' @ '', or identifier'')))"

definition parseValues :: "ScannedItem list \<Rightarrow> (string list \<times> ScannedItem list) res" where
  "parseValues p =
     bind_res (consume Values p) (\<lambda>((tok, lit), p).
     if tok \<noteq> OpenParToken then Inl (Error (''found '' @ quoted lit @ '' expected: '' @ quoted ''(''))
     else bind_res (lookahead Values p) (\<lambda>(tok, lit).
       if tok = IdentifierToken \<or> tok = CommaToken then
         bind_res (parseIdentifiersList [] p) (\<lambda>(s, p).
         bind_res (consume Values p) (\<lambda>((tok, _), p).
           if tok \<noteq> ClosedParToken then Inl (found lit (quoted '')'')) else Inr (s, p)))
       else if tok = ClosedParToken then bind_res (consume Values p) (\<lambda>(_, p). Inr ([[]], p))
       else Inl (found lit (quoted '','' @ '', '' @ quoted '')'' @ '' or identifier''))))"

definition parseExactValue :: "ScannedItem list \<Rightarrow> (string list \<times> ScannedItem list) res" where
  "parseExactValue p =
     bind_res (lookahead Values p) (\<lambda>(tok, _).
     if tok = EndOfStringToken \<or> tok = CommaToken then Inr ([[]], p)
     else bind_res (consume Values p) (\<lambda>((tok, lit), p).
       if tok = IdentifierToken then Inr ([lit], p) else Inl (found lit ''identifier'')))"

definition parseOperator :: "ScannedItem list \<Rightarrow> (operator \<times> ScannedItem list) res" where
  "parseOperator p =
     bind_res (consume KeyAndOperator p) (\<lambda>((tok, lit), p).
     case tok of
       InToken \<Rightarrow> Inr (In, p)
     | EqualsToken \<Rightarrow> Inr (Equals, p)
     | DoubleEqualsToken \<Rightarrow> Inr (DoubleEquals, p)
     | GreaterThanToken \<Rightarrow> Inr (GreaterThan, p)
     | LessThanToken \<Rightarrow> Inr (LessThan, p)
     | NotInToken \<Rightarrow> Inr (NotIn, p)
     | NotEqualsToken \<Rightarrow> Inr (NotEquals, p)
     | _ \<Rightarrow> Inl (found lit ''in, notin, =, ==, !=, gt, lt''))"

text \<open>The operator is \<open>None\<close> while it is not known.\<close>

definition parseKeyAndInferOperator ::
  "ScannedItem list \<Rightarrow> ((string \<times> operator option) \<times> ScannedItem list) res" where
  "parseKeyAndInferOperator p =
     bind_res (consume Values p) (\<lambda>((tok, literal), p).
     bind_res (if tok = DoesNotExistToken
         then bind_res (consume Values p) (\<lambda>(item, p). Inr (Some DoesNotExist, item, p))
         else Inr (None, (tok, literal), p)) (\<lambda>(operator, (tok, literal), p).
     if tok \<noteq> IdentifierToken then Inl (found literal ''identifier'')
     else case validateLabelKey literal ''<nil>'' of
       err # _ \<Rightarrow> Inl (Error err)
     | [] \<Rightarrow> bind_res (lookahead Values p) (\<lambda>(t, _).
         Inr ((literal, if (t = EndOfStringToken \<or> t = CommaToken) \<and> operator \<noteq> Some DoesNotExist
             then Some operator.Exists else operator), p))))"

definition parseRequirement :: "ScannedItem list \<Rightarrow> (Requirement \<times> ScannedItem list) res" where
  "parseRequirement p =
     bind_res (parseKeyAndInferOperator p) (\<lambda>((key, operator), p).
     case operator of
       Some op \<Rightarrow> bind_res (checkedRequirement key op []) (\<lambda>r. Inr (r, p))
     | None \<Rightarrow>
         bind_res (parseOperator p) (\<lambda>(op, p).
         bind_res (if op = In \<or> op = NotIn then parseValues p else parseExactValue p) (\<lambda>(values, p).
         bind_res (checkedRequirement key op (sets_List values)) (\<lambda>r. Inr (r, p)))))"

text \<open>Every parser leaves no more items than it was given, and a requirement takes at least one.\<close>

lemma consume_length: "consume c p = Inr (i, q) \<Longrightarrow> length p = Suc (length q)"
  by (cases p) auto

lemma parseIdentifiersList_length: "parseIdentifiersList s p = Inr (s', q) \<Longrightarrow> length q \<le> length p"
  by (induction s p rule: parseIdentifiersList.induct) (auto simp: Let_def split: if_splits)

lemma parseValues_length: "parseValues p = Inr (s, q) \<Longrightarrow> length q \<le> length p"
  by (auto simp: parseValues_def bind_res_Inr_iff dest!: consume_length parseIdentifiersList_length split: if_splits)

lemma parseExactValue_length: "parseExactValue p = Inr (s, q) \<Longrightarrow> length q \<le> length p"
  by (auto simp: parseExactValue_def bind_res_Inr_iff dest!: consume_length split: if_splits)

lemma parseOperator_length:
  assumes "parseOperator p = Inr (s, q)"
  shows "length q \<le> length p"
proof -
  from assms obtain tok lit p1 where c: "consume KeyAndOperator p = Inr ((tok, lit), p1)"
    by (auto simp: parseOperator_def bind_res_Inr_iff)
  with assms have "q = p1" by (cases tok) (simp_all add: parseOperator_def)
  with consume_length [OF c] show ?thesis by simp
qed

lemma parseKey_length: "parseKeyAndInferOperator p = Inr (s, q) \<Longrightarrow> length q < length p"
  by (auto simp: parseKeyAndInferOperator_def bind_res_Inr_iff dest!: consume_length split: if_splits list.splits)

lemma parseRequirement_length:
  assumes "parseRequirement p = Inr (r, q)"
  shows "length q < length p"
  using assms
  by (fastforce simp: parseRequirement_def bind_res_Inr_iff
      dest: parseKey_length parseOperator_length parseValues_length parseExactValue_length split: option.splits if_splits)

lemma bind_res_cong [fundef_cong]:
  "m = m' \<Longrightarrow> (\<And>x. m' = Inr x \<Longrightarrow> f x = f' x) \<Longrightarrow> bind_res m f = bind_res m' f'"
  by (cases m') auto

text \<open>The loop of \<^verbatim>\<open>parse\<close>; \<open>requirements\<close> are those found so far.\<close>

definition isKeyToken :: "Token \<Rightarrow> bool" where
  "isKeyToken tok \<longleftrightarrow> tok = IdentifierToken \<or> tok = DoesNotExistToken"

function parseLoop :: "Requirement list \<Rightarrow> ScannedItem list \<Rightarrow> Requirement list res" where
  "parseLoop requirements p =
     bind_res (lookahead Values p) (\<lambda>(tok, lit).
     if isKeyToken tok then
       bind_res (map_error (\<lambda>e. ''unable to parse requirement: '' @ e) (parseRequirement p)) (\<lambda>(r, p1).
       bind_res (consume Values p1) (\<lambda>(item, p2).
         if fst item = EndOfStringToken then Inr (requirements @ [r])
         else if fst item = CommaToken then
           bind_res (lookahead Values p2) (\<lambda>(t2, l2).
             if \<not> isKeyToken t2 then Inl (found l2 (''identifier after '' @ quoted '',''))
             else parseLoop (requirements @ [r]) p2)
         else Inl (found (snd item) (quoted '','' @ '' or '' @ quoted ''end of string''))))
     else if tok = EndOfStringToken then Inr requirements
     else Inl (found lit (''!, identifier, or '' @ quoted ''end of string'')))"
  by pat_completeness auto
termination
  by (relation "measure (\<lambda>(_, p). length p)")
    (auto simp: map_error_Inr_iff dest!: parseRequirement_length consume_length)

declare parseLoop.simps [simp del]

definition ParseToRequirements :: "string \<Rightarrow> Requirement list res" where
  "ParseToRequirements selector =
     bind_res (parseLoop [] (scan selector)) (\<lambda>items. Inr (sort_key rq_key items))"

section \<open>Lexing of words\<close>

definition wordChar :: "char \<Rightarrow> bool" where
  "wordChar c \<longleftrightarrow> c \<noteq> nul \<and> \<not> isSpecialSymbol c \<and> \<not> isWhitespace c"

definition word :: "string \<Rightarrow> bool" where
  "word w \<longleftrightarrow> w \<noteq> [] \<and> list_all wordChar w"

text \<open>What may follow a word.\<close>

definition wordEnd :: "string \<Rightarrow> bool" where
  "wordEnd l \<longleftrightarrow> l = [] \<or> (hd l \<noteq> nul \<and> (isSpecialSymbol (hd l) \<or> isWhitespace (hd l)))"

definition wordToken :: "string \<Rightarrow> Token" where
  "wordToken w = (case string2token w of Some val \<Rightarrow> val | None \<Rightarrow> IdentifierToken)"

lemma wordEnd_simps [simp]:
  "wordEnd []" "wordEnd (CHR '','' # l)" "wordEnd (CHR '')'' # l)" "wordEnd (CHR '' '' # l)"
  by (simp_all add: wordEnd_def isSpecialSymbol_def isWhitespace_def nul_def)

lemma identifierLoop_word: "list_all wordChar w \<Longrightarrow> wordEnd l \<Longrightarrow> identifierLoop (w @ l) = (w, l)"
proof (induction w)
  case Nil
  then show ?case by (cases l) (auto simp: wordEnd_def)
next
  case (Cons c w)
  then show ?case by (auto simp: wordChar_def)
qed

lemma Lex_word:
  assumes "word w" and "wordEnd l"
  shows "Lex (w @ l) = ((wordToken w, w), l)"
proof -
  obtain c v where w: "w = c # v" using assms(1) by (cases w) (auto simp: word_def)
  then have c: "c \<noteq> nul" "\<not> isSpecialSymbol c" "\<not> isWhitespace c"
    using assms(1) by (auto simp: word_def wordChar_def)
  have "identifierLoop (w @ l) = (w, l)"
    using assms by (intro identifierLoop_word) (auto simp: word_def)
  with c show ?thesis by (simp add: Lex_def scanIDOrKeyword_def wordToken_def w del: identifierLoop.simps)
qed

lemma Lex_space: "Lex (CHR '' '' # l) = Lex l"
  by (simp add: Lex_def isWhitespace_def)

lemma Lex_special:
  assumes "ch \<in> set ''!(),''" and "l = [] \<or> hd l \<noteq> nul \<and> (ch = CHR ''!'' \<longrightarrow> hd l \<noteq> CHR ''='')"
  shows "Lex (ch # l) = ((the (string2token [ch]), [ch]), l)"
proof -
  have ch: "isSpecialSymbol ch" "ch \<noteq> nul" "\<not> isWhitespace ch"
    using assms(1) by (auto simp: isSpecialSymbol_def nul_def isWhitespace_def)
  obtain t where t: "string2token [ch] = Some t" using single_special [OF ch(1)] by blast
  have "string2token [ch, hd l] = None" if "l \<noteq> []" "isSpecialSymbol (hd l)"
    using assms that by (auto simp: string2token_def isSpecialSymbol_def)
  then have "specialSymbolLoop [ch] (Some (t, [ch])) l = (case l of [] \<Rightarrow> ([ch], Some (t, [ch]), l)
      | c # _ \<Rightarrow> (if isSpecialSymbol c then [ch, c] else [ch], Some (t, [ch]), l))"
    using assms(2) by (cases l) (auto simp: Let_def)
  with ch t show ?thesis
    by (cases l) (auto simp: Lex_def scanSpecialSymbol_def Let_def)
qed

lemma string2token_word: "word w \<Longrightarrow> string2token w \<in> {None, Some InToken, Some NotInToken}"
  by (cases "string2token w")
    (auto simp: string2token_def word_def wordChar_def isSpecialSymbol_def split: if_splits)

lemma wordToken_cases: "word w \<Longrightarrow> wordToken w = IdentifierToken \<or> wordToken w = InToken \<or> wordToken w = NotInToken"
  using string2token_word [of w] by (auto simp: wordToken_def)

lemma wordToken_value [simp]: "word w \<Longrightarrow> inContext Values (wordToken w) = IdentifierToken"
  using wordToken_cases [of w] by (auto simp: inContext_def)

lemma scan_word: "word w \<Longrightarrow> wordEnd l \<Longrightarrow> scan (w @ l) = (wordToken w, w) # scan l"
  using wordToken_cases [of w] by (auto simp: scan.simps [of "w @ l"] Lex_word)

lemma scan_space: "scan (CHR '' '' # l) = scan l"
  by (simp add: scan.simps [of "CHR '' '' # l"] scan.simps [of l] Lex_space)

lemma scan_Nil: "scan [] = [(EndOfStringToken, [])]"
  by (simp add: scan.simps Lex_def)

lemma scan_special:
  "l = [] \<or> hd l \<noteq> nul \<Longrightarrow> scan (CHR '','' # l) = (CommaToken, '','') # scan l"
  "l = [] \<or> hd l \<noteq> nul \<Longrightarrow> scan (CHR ''('' # l) = (OpenParToken, ''('') # scan l"
  "l = [] \<or> hd l \<noteq> nul \<Longrightarrow> scan (CHR '')'' # l) = (ClosedParToken, '')'') # scan l"
  "l = [] \<or> hd l \<noteq> nul \<and> hd l \<noteq> CHR ''='' \<Longrightarrow> scan (CHR ''!'' # l) = (DoesNotExistToken, ''!'') # scan l"
  by (simp_all add: scan.simps [of "_ # l"] Lex_special) (simp_all add: string2token_def)

lemma wordEnd_not_nul: "wordEnd l \<Longrightarrow> l = [] \<or> hd l \<noteq> nul"
  by (auto simp: wordEnd_def)

lemma word_hd: "word w \<Longrightarrow> hd (w @ l) \<noteq> nul \<and> hd (w @ l) \<noteq> CHR ''=''"
  by (cases w) (auto simp: word_def wordChar_def isSpecialSymbol_def)

section \<open>Reading back a printed selector\<close>

fun valueItems :: "string list \<Rightarrow> ScannedItem list" where
  "valueItems [] = []"
| "valueItems [w] = [(wordToken w, w)]"
| "valueItems (w # v # ws) = (wordToken w, w) # (CommaToken, '','') # valueItems (v # ws)"

lemma scan_values:
  "ws \<noteq> [] \<Longrightarrow> list_all word ws \<Longrightarrow> wordEnd l \<Longrightarrow> scan (Join ws '','' @ l) = valueItems ws @ scan l"
proof (induction ws rule: valueItems.induct)
  case (3 w v ws)
  have "hd (Join (v # ws) '','' @ l) \<noteq> nul"
    using 3(3) word_hd [of v] by (cases ws) auto
  with 3 show ?case by (simp add: scan_word scan_special)
qed (auto simp: scan_word)

text \<open>What a requirement stands for when its text is read: the text between the parentheses is a
  comma-separated list, whose values the parser sorts.\<close>

definition asRead :: "Requirement \<Rightarrow> Requirement" where
  "asRead r = r\<lparr>rq_strValues := (if rq_operator r = In then sets_List (Split (valuesText r) '','') else [])\<rparr>"

text \<open>A requirement that the parser can read: its key is valid, and so is every value between the commas.\<close>

definition readable :: "Requirement \<Rightarrow> bool" where
  "readable r \<longleftrightarrow> IsQualifiedName (rq_key r) = [] \<and>
     (rq_operator r = operator.Exists \<or> rq_operator r = DoesNotExist \<or>
      rq_operator r = In \<and> (\<forall>v\<in>set (Split (valuesText r) '',''). v \<noteq> [] \<and> IsValidLabelValue v = []))"

lemma qnameExtChar_wordChar: "qnameExtChar c \<Longrightarrow> wordChar c"
  by (auto simp: qnameExtChar_def qnameChar_def isLowerAlnum_def isBetween_def wordChar_def isSpecialSymbol_def
      isWhitespace_def nul_def less_eq_char_def)

lemma validValue_word: "IsValidLabelValue v = [] \<Longrightarrow> v \<noteq> [] \<Longrightarrow> word v"
  by (auto simp: IsValidLabelValue_def labelValueRegexp_def qualifiedNameRegexp_def word_def list_all_iff
      qnameExtChar_wordChar split: if_splits)

lemma namePart_word: "namePart n = [] \<Longrightarrow> word n"
  by (auto simp: namePart_def qualifiedNameRegexp_def word_def list_all_iff qnameExtChar_wordChar split: if_splits)

lemma subdomain_chars:
  assumes "IsDNS1123Subdomain d = []"
  shows "list_all wordChar d"
proof -
  have "wordChar c" if "isLowerAlnum c \<or> c = CHR ''-''" for c
    using that by (intro qnameExtChar_wordChar) (auto simp: qnameExtChar_def qnameChar_def)
  then have "\<forall>x\<in>set (Split d ''.''). list_all wordChar x"
    using assms by (auto simp: IsDNS1123Subdomain_def dns1123SubdomainRegexp_def dns1123LabelRegexp_def list_all_iff split: if_splits)
  moreover have "list_all wordChar (Join xs ''.'')" if "\<forall>x\<in>set xs. list_all wordChar x" for xs
    using that
  proof (induction xs rule: induct_list012)
    case (3 x y zs)
    moreover have "wordChar (CHR ''.'')" by (rule qnameExtChar_wordChar) (simp add: qnameExtChar_def)
    ultimately show ?case by (simp add: list_all_append)
  qed simp_all
  ultimately show ?thesis using Join_Split [of d "''.''"] by metis
qed

lemma validKey_word:
  assumes "IsQualifiedName k = []"
  shows "word k"
proof (cases "Split k ''/''" rule: list.exhaust)
  case Nil
  then show ?thesis by simp
next
  case (Cons a as)
  have k: "k = Join (a # as) ''/''" using Join_Split [of k "''/''"] Cons by simp
  consider "as = []" | b where "as = [b]" | b c bs where "as = b # c # bs" by (cases as rule: remdups_adj.cases) auto
  then show ?thesis
  proof cases
    case 1
    with assms Cons k show ?thesis by (simp add: IsQualifiedName_def namePart_word)
  next
    case 2
    with assms Cons have "list_all wordChar a" "word b"
      by (auto simp: IsQualifiedName_def subdomain_chars namePart_word split: if_splits)
    moreover have "wordChar (CHR ''/'')"
      by (simp add: wordChar_def isSpecialSymbol_def isWhitespace_def nul_def)
    ultimately show ?thesis using k 2 by (simp add: word_def)
  next
    case 3
    with assms Cons show ?thesis by (simp add: IsQualifiedName_def)
  qed
qed

definition pieces :: "Requirement \<Rightarrow> string list" where
  "pieces r = Split (valuesText r) '',''"

definition requirementItems :: "Requirement \<Rightarrow> ScannedItem list" where
  "requirementItems r =
     (if rq_operator r = DoesNotExist then [(DoesNotExistToken, ''!''), (wordToken (rq_key r), rq_key r)]
      else if rq_operator r = operator.Exists then [(wordToken (rq_key r), rq_key r)]
      else (wordToken (rq_key r), rq_key r) # (InToken, ''in'') # (OpenParToken, ''('') #
        valueItems (pieces r) @ [(ClosedParToken, '')'')])"

lemma readable_words:
  assumes "readable r"
  shows "word (rq_key r)" and "rq_operator r = In \<Longrightarrow> list_all word (pieces r)"
  using assms by (auto simp: readable_def pieces_def list_all_iff intro: validKey_word validValue_word)

lemma Join_pieces: "Join (pieces r) '','' = valuesText r"
  by (simp add: pieces_def Join_Split)

lemma scan_in: "scan (CHR '' '' # CHR ''i'' # CHR ''n'' # CHR '' '' # l) = (InToken, ''in'') # scan l"
proof -
  have "word ''in''" by (simp add: word_def wordChar_def isSpecialSymbol_def isWhitespace_def nul_def)
  moreover have "wordToken ''in'' = InToken" by (simp add: wordToken_def string2token_def)
  ultimately show ?thesis using scan_word [of "''in''" "CHR '' '' # l"] by (simp add: scan_space)
qed

lemma scan_requirement:
  assumes "readable r" and "wordEnd l"
  shows "scan (Requirement_String r @ l) = requirementItems r @ scan l"
proof -
  note w = readable_words [OF assms(1)]
  from assms(1) consider "rq_operator r = DoesNotExist" | "rq_operator r = operator.Exists" | "rq_operator r = In"
    by (auto simp: readable_def)
  then show ?thesis
  proof cases
    case 1
    then show ?thesis
      using w(1) assms(2) word_hd [OF w(1), of l] by (simp add: Requirement_String_def requirementItems_def scan_special scan_word)
  next
    case 2
    then show ?thesis using w(1) assms(2) by (simp add: Requirement_String_def requirementItems_def scan_word)
  next
    case 3
    have ne: "pieces r \<noteq> []" by (simp add: pieces_def)
    have "hd (valuesText r @ CHR '')'' # l) \<noteq> nul"
      unfolding Join_pieces [symmetric] using w(2) [OF 3] ne word_hd [of "hd (pieces r)"]
      by (cases "pieces r" rule: remdups_adj.cases) auto
    moreover have "scan (valuesText r @ CHR '')'' # l) = valueItems (pieces r) @ (ClosedParToken, '')'') # scan l"
      using scan_values [OF ne w(2) [OF 3], of "CHR '')'' # l"] wordEnd_not_nul [OF assms(2)]
      by (simp add: Join_pieces scan_special)
    ultimately show ?thesis
      using 3 w(1) by (simp add: Requirement_String_def requirementItems_def scan_word scan_in scan_special)
  qed
qed

fun selectorItems :: "Requirement list \<Rightarrow> ScannedItem list" where
  "selectorItems [] = []"
| "selectorItems [r] = requirementItems r"
| "selectorItems (r # r2 # rs) = requirementItems r @ (CommaToken, '','') # selectorItems (r2 # rs)"

lemma Requirement_String_hd:
  assumes "readable r"
  shows "hd (Requirement_String r @ l) \<noteq> nul" "Requirement_String r \<noteq> []"
proof -
  have "rq_key r \<noteq> []" "hd (rq_key r) \<noteq> nul"
    using readable_words(1) [OF assms] by (cases "rq_key r"; simp add: word_def wordChar_def)+
  then show "hd (Requirement_String r @ l) \<noteq> nul" "Requirement_String r \<noteq> []"
    by (simp_all add: Requirement_String_def nul_def)
qed

lemma scan_selector: "list_all readable rs \<Longrightarrow> scan (Selector_String rs) = selectorItems rs @ [(EndOfStringToken, [])]"
proof (induction rs rule: selectorItems.induct)
  case 1
  then show ?case by (simp add: Selector_String_def scan_Nil)
next
  case (2 r)
  then show ?case using scan_requirement [of r "[]"] by (simp add: Selector_String_def scan_Nil)
next
  case (3 r r2 rs)
  have "hd (Selector_String (r2 # rs)) \<noteq> nul"
    using 3(2) Requirement_String_hd [of r2] by (cases rs) (auto simp: Selector_String_def)
  with 3 scan_requirement [of r "CHR '','' # Selector_String (r2 # rs)"] show ?case
    by (simp add: Selector_String_def scan_special)
qed

lemma inContext_simps [simp]:
  "inContext Values CommaToken = CommaToken" "inContext Values ClosedParToken = ClosedParToken"
  "inContext Values OpenParToken = OpenParToken" "inContext Values EndOfStringToken = EndOfStringToken"
  "inContext Values DoesNotExistToken = DoesNotExistToken" "inContext KeyAndOperator tok = tok"
  by (simp_all add: inContext_def)

lemma insert_not_Nil [simp]: "List.insert x s \<noteq> []"
  by (auto simp: List.insert_def)

lemma parseIdentifiersList_values:
  "ws \<noteq> [] \<Longrightarrow> list_all word ws \<Longrightarrow>
     \<exists>s'. parseIdentifiersList s (valueItems ws @ (ClosedParToken, lit) # p) = Inr (s', (ClosedParToken, lit) # p) \<and>
       set s' = set s \<union> set ws"
proof (induction ws arbitrary: s rule: valueItems.induct)
  case (2 w)
  then show ?case by simp
next
  case (3 w v ws)
  have "\<exists>s'. parseIdentifiersList (List.insert w s) (valueItems (v # ws) @ (ClosedParToken, lit) # p) =
      Inr (s', (ClosedParToken, lit) # p) \<and> set s' = set (List.insert w s) \<union> set (v # ws)"
    by (rule 3(1)) (use 3(3) in simp_all)
  then obtain s' where s': "parseIdentifiersList (List.insert w s) (valueItems (v # ws) @ (ClosedParToken, lit) # p) =
      Inr (s', (ClosedParToken, lit) # p)" "set s' = set (List.insert w s) \<union> set (v # ws)"
    by blast
  have "parseIdentifiersList s (valueItems (w # v # ws) @ (ClosedParToken, lit) # p) =
      parseIdentifiersList (List.insert w s) (valueItems (v # ws) @ (ClosedParToken, lit) # p)"
    using 3(3) by (cases ws) simp_all
  with s' show ?case by auto
qed simp

lemma valueItems_hd: "ws \<noteq> [] \<Longrightarrow> valueItems ws = (wordToken (hd ws), hd ws) # tl (valueItems ws)"
  by (induction ws rule: valueItems.induct) simp_all

lemma parseValues_items:
  assumes "ws \<noteq> []" and "list_all word ws"
  shows "\<exists>s. parseValues ((OpenParToken, lit) # valueItems ws @ (ClosedParToken, lit2) # p) = Inr (s, p) \<and> set s = set ws"
proof -
  obtain s where s: "parseIdentifiersList [] (valueItems ws @ (ClosedParToken, lit2) # p) = Inr (s, (ClosedParToken, lit2) # p)"
    "set s = set ws"
    using parseIdentifiersList_values [OF assms, of "[]" lit2 p] by auto
  have "word (hd ws)" using assms by (cases ws) auto
  then have "lookahead Values (valueItems ws @ q) = Inr (IdentifierToken, hd ws)" for q
    using valueItems_hd [OF assms(1)] by (metis append_Cons lookahead.simps(2) wordToken_value)
  with s show ?thesis by (simp add: parseValues_def)
qed

text \<open>A valid requirement is built without an error.\<close>

lemma validValues_errors:
  "\<forall>v\<in>set vals. IsValidLabelValue v = [] \<Longrightarrow>
     concat (map (\<lambda>(i, v). validateLabelValue key v (''values['' @ natStr i @ '']'')) (enumerate n vals)) = []"
  by (induction vals arbitrary: n) (auto simp: validateLabelValue_def)

lemma checkedRequirement_ok:
  assumes "IsQualifiedName key = []" and "valuesErrors op vals = []" and "\<forall>v\<in>set vals. IsValidLabelValue v = []"
  shows "checkedRequirement key op vals = Inr (NewRequirement key op vals)"
proof -
  have "requirementErrors key op vals = []"
    using assms(1,2) validValues_errors [OF assms(3), of key 0]
    by (simp add: requirementErrors_def validateLabelKey_def del: concat_eq_Nil_conv)
  then show ?thesis by (simp add: checkedRequirement_def ToAggregate_def)
qed

lemma valuesErrors_ok:
  "valuesErrors operator.Exists [] = []" "valuesErrors DoesNotExist [] = []" "vals \<noteq> [] \<Longrightarrow> valuesErrors In vals = []"
  by (simp_all add: valuesErrors_def)

lemma parseKey_items:
  assumes "IsQualifiedName k = []"
  shows "parseKeyAndInferOperator ((wordToken k, k) # (t, lit) # p) =
      Inr ((k, if inContext Values t = EndOfStringToken \<or> inContext Values t = CommaToken then Some operator.Exists else None), (t, lit) # p)"
    and "parseKeyAndInferOperator ((DoesNotExistToken, x) # (wordToken k, k) # (t, lit) # p) =
      Inr ((k, Some DoesNotExist), (t, lit) # p)"
  using assms validKey_word [OF assms] by (simp_all add: parseKeyAndInferOperator_def validateLabelKey_def)

lemma parseRequirement_items:
  assumes "readable r" and "t = EndOfStringToken \<or> t = CommaToken"
  shows "parseRequirement (requirementItems r @ (t, lit) # p) = Inr (asRead r, (t, lit) # p)"
proof -
  have k: "IsQualifiedName (rq_key r) = []" using assms(1) by (simp add: readable_def)
  from assms(1) consider "rq_operator r = DoesNotExist" | "rq_operator r = operator.Exists" | "rq_operator r = In"
    by (auto simp: readable_def)
  then show ?thesis
  proof cases
    case 1
    then show ?thesis
      by (simp add: parseRequirement_def requirementItems_def parseKey_items [OF k] checkedRequirement_ok [OF k] valuesErrors_ok
          NewRequirement_def asRead_def)
  next
    case 2
    with assms(2) show ?thesis
      by (auto simp: parseRequirement_def requirementItems_def parseKey_items [OF k] checkedRequirement_ok [OF k] valuesErrors_ok
          NewRequirement_def asRead_def)
  next
    case 3
    have ne: "pieces r \<noteq> []" by (simp add: pieces_def)
    obtain s where s: "parseValues ((OpenParToken, ''('') # valueItems (pieces r) @ (ClosedParToken, '')'') # (t, lit) # p) =
        Inr (s, (t, lit) # p)" "set s = set (pieces r)"
      using parseValues_items [OF ne readable_words(2) [OF assms(1) 3]] by blast
    have v: "\<forall>v\<in>set (sets_List s). IsValidLabelValue v = []"
      using assms(1) 3 s(2) by (simp add: readable_def pieces_def sets_List_def)
    have n: "sets_List s \<noteq> []" using s(2) ne by (simp add: sets_List_def)
    have "asRead r = NewRequirement (rq_key r) In (sets_List s)"
      using 3 s(2) by (simp add: asRead_def NewRequirement_def sets_List_def pieces_def)
    with 3 s(1) show ?thesis
      by (simp add: parseRequirement_def requirementItems_def parseKey_items [OF k] parseOperator_def
          checkedRequirement_ok [OF k valuesErrors_ok(3) [OF n] v] inContext_def [of Values InToken])
  qed
qed

lemma requirementItems_key:
  "readable r \<Longrightarrow> \<exists>t lit q. requirementItems r = (t, lit) # q \<and> isKeyToken (inContext Values t)"
  using readable_words(1) [of r] by (auto simp: requirementItems_def isKeyToken_def)

lemma parseLoop_items:
  "list_all readable rs \<Longrightarrow>
     parseLoop reqs (selectorItems rs @ [(EndOfStringToken, [])]) = Inr (reqs @ map asRead rs)"
proof (induction rs arbitrary: reqs rule: selectorItems.induct)
  case 1
  then show ?case by (simp add: parseLoop.simps isKeyToken_def)
next
  case (2 r)
  then obtain t lit q where q: "requirementItems r = (t, lit) # q" "isKeyToken (inContext Values t)"
    using requirementItems_key [of r] by auto
  with 2 parseRequirement_items [of r EndOfStringToken "[]" "[]"] show ?case
    by (simp add: parseLoop.simps [of reqs])
next
  case (3 r r2 rs)
  then obtain t lit q where q: "requirementItems r = (t, lit) # q" "isKeyToken (inContext Values t)"
    using requirementItems_key [of r] by auto
  obtain t2 lit2 q2 where q2: "selectorItems (r2 # rs) = (t2, lit2) # q2" "isKeyToken (inContext Values t2)"
    using 3(2) requirementItems_key [of r2] by (cases rs) auto
  have "selectorItems (r # r2 # rs) = requirementItems r @ (CommaToken, '','') # (t2, lit2) # q2"
    using q2(1) by simp
  then show ?case
    using 3 q q2 parseRequirement_items [of r CommaToken "'',''" "selectorItems (r2 # rs) @ [(EndOfStringToken, [])]"]
    by (simp add: parseLoop.simps [of reqs] del: selectorItems.simps(3))
qed

text \<open>The parser reads a printed selector back, with the values between the commas split and sorted.\<close>

theorem ParseToRequirements_String:
  assumes "list_all readable rs" and "sorted (map rq_key rs)"
  shows "ParseToRequirements (Selector_String rs) = Inr (map asRead rs)"
proof -
  have "map rq_key (map asRead rs) = map rq_key rs" by (simp add: asRead_def)
  with assms(2) have "sorted (map rq_key (map asRead rs))" by (simp only:)
  then have "sort_key rq_key (map asRead rs) = map asRead rs" by (rule sort_key_id_if_sorted)
  with assms(1) show ?thesis by (simp add: ParseToRequirements_def scan_selector parseLoop_items)
qed

end
