(* ===== verification/PgtLabels.thy ===== *)
theory PgtLabels
  imports PgtFormat PolicyHelper SelectorParser
begin

text \<open>
  \<^verbatim>\<open>pgt2acmpg/packages/labels/labels.go\<close> (binding rules as a label selector), \<^verbatim>\<open>placement/placement.go\<close> (the
  placement file) and \<^verbatim>\<open>stringhelper/stringhelper.go\<close>, with the conversion of a selector text to
  \<^verbatim>\<open>metav1.LabelSelector\<close> from the vendored apimachinery.

  The way of a \<^verbatim>\<open>LabelSelector\<close> through JSON and YAML to a generic map is the parameter \<open>labelEnv\<close>.
\<close>

section \<open>stringhelper\<close>

definition StringInSlice :: "string list \<Rightarrow> string \<Rightarrow> bool \<Rightarrow> bool" where
  "StringInSlice s str contains =
     list_ex (\<lambda>v. if \<not> contains then TrimSpace v = str else Contains (TrimSpace v) str) s"

definition IsNumber :: "string \<Rightarrow> bool" where
  "IsNumber s \<longleftrightarrow> Atoi s \<noteq> None"

section \<open>Label selectors\<close>

definition addRequirement :: "bool \<Rightarrow> selector \<Rightarrow> string \<times> string \<Rightarrow> selector" where
  "addRequirement exclude selector kv =
     (case kv of (key, val) \<Rightarrow>
        if key = [] then selector
        else if exclude then Selector_Add selector [NewRequirement key DoesNotExist [val]]
        else if val = [] then Selector_Add selector [NewRequirement key operator.Exists []]
        else Selector_Add selector [NewRequirement key In [val]])"

definition addRequirements :: "(string, string) gomap \<Rightarrow> selector \<Rightarrow> bool \<Rightarrow> selector" where
  "addRequirements labelList selector exclude = foldl (addRequirement exclude) selector labelList"

definition LabelToSelector :: "(string, string) gomap \<Rightarrow> (string, string) gomap \<Rightarrow> selector" where
  "LabelToSelector labelList excludeLabelList =
     addRequirements excludeLabelList (addRequirements labelList [] False) True"

record LabelSelectorRequirement =
  lr_Key :: string
  lr_Operator :: operator
  lr_Values :: "string list"

record LabelSelector =
  ls_MatchLabels :: "(string, string) gomap"
  ls_MatchExpressions :: "LabelSelectorRequirement list"

record labelEnv =
  le_generic :: "LabelSelector \<Rightarrow> gmap res"

text \<open>One requirement of the loop in \<^verbatim>\<open>ParseToLabelSelector\<close>; the values are a sorted set.\<close>

definition oneValue :: go_error where "oneValue = Error ''equals operator must have exactly one value''"

definition notSupported :: "operator \<Rightarrow> go_error" where
  "notSupported op =
     (if op = GreaterThan then Error (inDoubleQuotes ''gt'' @ '' isn'' @ [CHR 0x27] @ ''t supported in label selectors'')
      else if op = LessThan then Error (inDoubleQuotes ''lt'' @ '' isn'' @ [CHR 0x27] @ ''t supported in label selectors'')
      else Error (inDoubleQuotes ''!='' @ '' is not a valid label selector operator''))"

definition addMatch :: "LabelSelector \<Rightarrow> Requirement \<Rightarrow> LabelSelector res" where
  "addMatch sel req =
     (let vals = sorted_list_of_set (set (rq_strValues req));
          expr = Inr (sel\<lparr>ls_MatchExpressions := ls_MatchExpressions sel @
            [\<lparr>lr_Key = rq_key req, lr_Operator = rq_operator req, lr_Values = vals\<rparr>]\<rparr>) in
      if rq_operator req = Equals \<or> rq_operator req = DoubleEquals
      then (case vals of
          [v] \<Rightarrow> Inr (sel\<lparr>ls_MatchLabels := mput (ls_MatchLabels sel) (rq_key req) v\<rparr>)
        | _ \<Rightarrow> Inl oneValue)
      else if rq_operator req \<in> {In, NotIn, operator.Exists, DoesNotExist} then expr
      else Inl (notSupported (rq_operator req)))"

definition ParseToLabelSelector :: "string \<Rightarrow> LabelSelector res" where
  "ParseToLabelSelector selector =
     bind_res (map_error (\<lambda>e. ''couldn'' @ [CHR 0x27] @ ''t parse the selector string '' @ inDoubleQuotes selector @ '': '' @ e)
       (ParseToRequirements selector)) (\<lambda>reqs.
         fold_res addMatch \<lparr>ls_MatchLabels = [], ls_MatchExpressions = []\<rparr> reqs)"

definition OutputGeneric :: "labelEnv \<Rightarrow> selector \<Rightarrow> gmap res" where
  "OutputGeneric L selector = bind_res (ParseToLabelSelector (Selector_String selector)) (le_generic L)"

section \<open>Placement\<close>

record Toleration =
  tl_Key :: string
  tl_Operator :: string

record Predicate =
  pr_LabelSelector :: gmap

record Placement =
  pl_APIVersion :: string
  pl_Kind :: string
  pl_Name :: string
  pl_Namespace :: string
  pl_Predicates :: "Predicate list"
  pl_Tolerations :: "Toleration list"

definition writeBelow :: "fsys \<Rightarrow> string \<Rightarrow> string \<Rightarrow> fsys res" where
  "writeBelow fs outputFile content =
     (case os_MkdirAll fs (Dir outputFile) of
        Inl e \<Rightarrow> Inl (Error (pathError ''mkdir'' (Dir outputFile) e))
      | Inr fs1 \<Rightarrow>
          (case os_WriteFile fs1 outputFile content of
             Inl e \<Rightarrow> Inl (Error (pathError ''open'' outputFile e))
           | Inr fs2 \<Rightarrow> Inr fs2))"

definition yamlMark :: string where "yamlMark = ''---'' @ newline"

definition writePlacementToFile :: "(Placement \<Rightarrow> string res) \<Rightarrow> fsys \<Rightarrow> Placement \<Rightarrow> string \<Rightarrow> fsys res" where
  "writePlacementToFile marshal fs placement outputFile =
     bind_res (map_error (\<lambda>e. ''could not marshall placement, err: '' @ e) (marshal placement)) (\<lambda>contentYAML.
       writeBelow fs outputFile (yamlMark @ contentYAML))"

definition newPlacement :: "string \<Rightarrow> string \<Rightarrow> gmap \<Rightarrow> Placement" where
  "newPlacement policyName policyNamespace labelSelector =
     \<lparr>pl_APIVersion = ''cluster.open-cluster-management.io/v1beta1'', pl_Kind = ''Placement'',
      pl_Name = ''placement-'' @ policyName, pl_Namespace = policyNamespace,
      pl_Predicates = [\<lparr>pr_LabelSelector = labelSelector\<rparr>],
      pl_Tolerations = [\<lparr>tl_Key = ''cluster.open-cluster-management.io/unreachable'', tl_Operator = ''Exists''\<rparr>]\<rparr>"

definition GeneratePlacementFile ::
  "(Placement \<Rightarrow> string res) \<Rightarrow> fsys \<Rightarrow> string \<Rightarrow> string \<Rightarrow> string \<Rightarrow> gmap \<Rightarrow> (fsys \<times> string) res" where
  "GeneratePlacementFile marshal fs policyName policyNamespace outputDir labelSelector =
     (let placementPathRelative = policyName @ ''-placement.yaml'';
          placementPath = JoinPath [outputDir, placementPathRelative] in
      bind_res (map_error (\<lambda>e. ''error writing placement to file, err: '' @ e)
        (writePlacementToFile marshal fs (newPlacement policyName policyNamespace labelSelector) placementPath)) (\<lambda>fs'.
        Inr (fs', placementPathRelative)))"

section \<open>Lemmas\<close>

text \<open>The requirement that a rule stands for.\<close>

definition ruleRequirement :: "bool \<Rightarrow> string \<times> string \<Rightarrow> Requirement" where
  "ruleRequirement exclude kv =
     NewRequirement (fst kv)
       (if exclude then DoesNotExist else if snd kv = [] then operator.Exists else In)
       (if \<not> exclude \<and> snd kv = [] then [] else [snd kv])"

lemma set_Selector_Add [simp]: "set (Selector_Add s reqs) = set s \<union> set reqs"
  by (simp add: Selector_Add_def)

lemma addRequirement_rule:
  "addRequirement ex s kv = (if fst kv = [] then s else Selector_Add s [ruleRequirement ex kv])"
  by (cases kv) (simp add: addRequirement_def ruleRequirement_def)

lemma set_addRequirements:
  "set (addRequirements rules s ex) = set s \<union> ruleRequirement ex ` {kv \<in> set rules. fst kv \<noteq> []}"
  unfolding addRequirements_def
proof (induction rules arbitrary: s)
  case Nil
  then show ?case by simp
next
  case (Cons kv rules)
  have "{x \<in> set (kv # rules). fst x \<noteq> []} = (if fst kv = [] then {} else {kv}) \<union> {x \<in> set rules. fst x \<noteq> []}"
    by auto
  then show ?case
    using Cons.IH [of "addRequirement ex s kv"] addRequirement_rule [of ex s kv] by (simp add: image_Un)
qed

lemma set_LabelToSelector:
  "set (LabelToSelector b e) =
     ruleRequirement False ` {kv \<in> set b. fst kv \<noteq> []} \<union> ruleRequirement True ` {kv \<in> set e. fst kv \<noteq> []}"
  by (simp add: LabelToSelector_def set_addRequirements)

text \<open>The meaning of a \<^verbatim>\<open>LabelSelector\<close>.\<close>

definition exprRequirement :: "LabelSelectorRequirement \<Rightarrow> Requirement" where
  "exprRequirement x = NewRequirement (lr_Key x) (lr_Operator x) (lr_Values x)"

definition labelSelectorMatches :: "LabelSelector \<Rightarrow> labels \<Rightarrow> bool" where
  "labelSelectorMatches sel ls \<longleftrightarrow>
     list_all (\<lambda>(k, v). mget ls k = Some v) (ls_MatchLabels sel) \<and>
     list_all (\<lambda>x. Requirement_Matches (exprRequirement x) ls) (ls_MatchExpressions sel)"

definition setOperators :: "operator set" where "setOperators = {In, NotIn, operator.Exists, DoesNotExist}"

lemma addMatch_set:
  "rq_operator r \<in> setOperators \<Longrightarrow>
     addMatch sel r = Inr (sel\<lparr>ls_MatchExpressions := ls_MatchExpressions sel @
       [\<lparr>lr_Key = rq_key r, lr_Operator = rq_operator r, lr_Values = sorted_list_of_set (set (rq_strValues r))\<rparr>]\<rparr>)"
  by (auto simp: addMatch_def setOperators_def Let_def)

lemma exprRequirement_matches:
  "Requirement_Matches (exprRequirement \<lparr>lr_Key = rq_key r, lr_Operator = rq_operator r,
      lr_Values = sorted_list_of_set (set (rq_strValues r))\<rparr>) ls \<longleftrightarrow> Requirement_Matches r ls"
  if "rq_operator r \<in> setOperators"
  using that by (auto simp: exprRequirement_def NewRequirement_def setOperators_def Requirement_Matches_def hasValue_def)

lemma fold_addMatch:
  assumes "\<forall>r\<in>set reqs. rq_operator r \<in> setOperators"
  obtains sel' where "fold_res addMatch sel reqs = Inr sel'"
    and "\<And>ls. labelSelectorMatches sel' ls \<longleftrightarrow> labelSelectorMatches sel ls \<and> Selector_Matches reqs ls"
  using assms
proof (induction reqs arbitrary: sel thesis)
  case Nil
  then show ?case by simp
next
  case (Cons r reqs)
  have r: "rq_operator r \<in> setOperators" and rs: "\<forall>r\<in>set reqs. rq_operator r \<in> setOperators"
    using Cons.prems(2) by simp_all
  obtain sel1 where s1: "addMatch sel r = Inr sel1"
    and m1: "\<And>ls. labelSelectorMatches sel1 ls \<longleftrightarrow> labelSelectorMatches sel ls \<and> Requirement_Matches r ls"
    using addMatch_set [OF r] exprRequirement_matches [OF r] by (fastforce simp: labelSelectorMatches_def)
  show ?case
  proof (rule Cons.IH [OF _ rs, of sel1])
    fix sel' assume "fold_res addMatch sel1 reqs = Inr sel'"
      "\<And>ls. labelSelectorMatches sel' ls \<longleftrightarrow> labelSelectorMatches sel1 ls \<and> Selector_Matches reqs ls"
    then show ?thesis using s1 m1 Cons.prems(1) [of sel'] by (simp add: Selector_Matches_def)
  qed
qed

lemma asRead_rule:
  "rq_operator (asRead (ruleRequirement ex kv)) \<in> setOperators"
  "Requirement_Matches (asRead (ruleRequirement False kv)) ls \<longleftrightarrow>
     (\<exists>x. mget ls (fst kv) = Some x \<and> (snd kv = [] \<or> x \<in> set (Split (snd kv) '','')))"
  "Requirement_Matches (asRead (ruleRequirement True kv)) ls \<longleftrightarrow> mget ls (fst kv) = None"
  by (auto simp: asRead_def ruleRequirement_def NewRequirement_def setOperators_def Requirement_Matches_def
      Has_def Get_def hasValue_def valuesText_def mget0_def sets_List_def)

lemma ball_pairs:
  "mwf m \<Longrightarrow> (\<forall>kv\<in>set m. P (fst kv) (snd kv)) \<longleftrightarrow> (\<forall>k v. mget m k = Some v \<longrightarrow> P k v)"
  using mget_in_set [of m] by (metis fst_conv snd_conv surjective_pairing)

text \<open>A selector of binding rules has its requirements sorted by key, and the parser can read all of them when keys and values
  are valid.\<close>

definition validRules :: "(string, string) gomap \<Rightarrow> bool" where
  "validRules rules \<longleftrightarrow>
     list_all (\<lambda>(k, v). IsQualifiedName k = [] \<and>
       (v = [] \<or> list_all (\<lambda>x. x \<noteq> [] \<and> IsValidLabelValue x = []) (Split v '',''))) rules"

definition validKeys :: "(string, string) gomap \<Rightarrow> bool" where
  "validKeys rules \<longleftrightarrow> list_all (\<lambda>(k, v). IsQualifiedName k = []) rules"

lemma LabelToSelector_sorted: "sorted (map rq_key (LabelToSelector b e))"
proof -
  have "sorted (map rq_key (addRequirements rules s ex))" if "sorted (map rq_key s)" for rules s ex
    unfolding addRequirements_def using that
    by (induction rules arbitrary: s) (auto simp: addRequirement_rule Selector_Add_sorted)
  then show ?thesis by (simp add: LabelToSelector_def)
qed

lemma readable_rule:
  "IsQualifiedName k = [] \<Longrightarrow> v = [] \<or> list_all (\<lambda>x. x \<noteq> [] \<and> IsValidLabelValue x = []) (Split v '','') \<Longrightarrow>
     readable (ruleRequirement False (k, v))"
  "IsQualifiedName k = [] \<Longrightarrow> readable (ruleRequirement True (k, v))"
  by (cases "v = []"; simp add: readable_def ruleRequirement_def NewRequirement_def valuesText_def list_all_iff)
    (simp add: readable_def ruleRequirement_def NewRequirement_def)

lemma LabelToSelector_readable:
  assumes "validRules b" and "validKeys e"
  shows "list_all readable (LabelToSelector b e)"
proof -
  have "\<forall>kv\<in>set b. readable (ruleRequirement False kv)" "\<forall>kv\<in>set e. readable (ruleRequirement True kv)"
    using assms by (auto simp: validRules_def validKeys_def list_all_iff intro!: readable_rule)
  then show ?thesis by (auto simp: list_all_iff set_LabelToSelector)
qed

lemma IsQualifiedName_empty: "IsQualifiedName [] \<noteq> []"
  by (simp add: IsQualifiedName_def Split_def namePart_def)

section \<open>Properties\<close>

text \<open>C18. The converted placement keeps the policy generator's meaning where it can: when the keys of all
  rules are valid label keys and the values of the binding rules are comma-separated lists of valid label values,
  the text of the selector is parsed back, the converter succeeds in building a \<^verbatim>\<open>LabelSelector\<close>, and a cluster is
  selected by it iff the placement rule that the policy generator writes for the same binding rules
  selects the cluster and the cluster has none of the excluded labels. So for excluded rules
  without a value both agree, and an excluded rule with a value is widened to every value.\<close>

theorem LabelToSelector_agrees:
  assumes "mwf b" and "mwf e" and "validRules b" and "validKeys e"
  shows "\<exists>sel. ParseToLabelSelector (Selector_String (LabelToSelector b e)) = Inr sel \<and>
    (\<forall>ls. labelSelectorMatches sel ls \<longleftrightarrow>
       ruleSelects (CreatePlacementRule name namespace b e) ls \<and> (\<forall>k v. mget e k = Some v \<longrightarrow> mget ls k = None))"
proof -
  let ?s = "LabelToSelector b e"
  have ops: "\<forall>r\<in>set (map asRead ?s). rq_operator r \<in> setOperators"
    using asRead_rule(1) by (auto simp: set_LabelToSelector)
  obtain sel where sel: "fold_res addMatch \<lparr>ls_MatchLabels = [], ls_MatchExpressions = []\<rparr> (map asRead ?s) = Inr sel"
    and m: "\<And>ls. labelSelectorMatches sel ls \<longleftrightarrow>
      labelSelectorMatches \<lparr>ls_MatchLabels = [], ls_MatchExpressions = []\<rparr> ls \<and> Selector_Matches (map asRead ?s) ls"
    using fold_addMatch [OF ops] by blast
  have keys: "{kv \<in> set b. fst kv \<noteq> []} = set b" "{kv \<in> set e. fst kv \<noteq> []} = set e"
    using assms(3,4) by (auto simp: validRules_def validKeys_def list_all_iff IsQualifiedName_empty)
  have "labelSelectorMatches sel ls \<longleftrightarrow>
      (\<forall>kv\<in>set b. \<exists>x. mget ls (fst kv) = Some x \<and> (snd kv = [] \<or> x \<in> set (Split (snd kv) '',''))) \<and>
      (\<forall>kv\<in>set e. mget ls (fst kv) = None)" for ls
    unfolding m by (simp add: labelSelectorMatches_def Selector_Matches_def list_all_iff set_LabelToSelector keys
        ball_Un asRead_rule(2,3) del: map_of_eq_None_iff)
  then have "labelSelectorMatches sel ls \<longleftrightarrow>
      (\<forall>k v. mget b k = Some v \<longrightarrow> (\<exists>x. mget ls k = Some x \<and> (v = [] \<or> x \<in> set (Split v '','')))) \<and>
      (\<forall>k v. mget e k = Some v \<longrightarrow> mget ls k = None)" for ls
    using ball_pairs [OF assms(1), of "\<lambda>k v. \<exists>x. mget ls k = Some x \<and> (v = [] \<or> x \<in> set (Split v '',''))"]
      ball_pairs [OF assms(2), of "\<lambda>k v. mget ls k = None"] by simp
  moreover have "ruleSelects (CreatePlacementRule name namespace b e) ls \<longleftrightarrow>
      (\<forall>k v. mget b k = Some v \<longrightarrow> (\<exists>x. mget ls k = Some x \<and> (v = [] \<or> x \<in> set (Split v '','')))) \<and>
      (\<forall>k v. mget e k = Some v \<longrightarrow> (\<forall>x. mget ls k = Some x \<longrightarrow> v \<noteq> [] \<and> x \<notin> set (Split v '','')))" for ls
    unfolding ruleSelects_CreatePlacementRule ball_keys [OF assms(1)] ball_keys [OF assms(2)]
    by (simp add: bindingHolds_iff exclusionHolds_iff)
  moreover have "ParseToLabelSelector (Selector_String ?s) = Inr sel"
    using sel ParseToRequirements_String [OF LabelToSelector_readable [OF assms(3,4)] LabelToSelector_sorted]
    by (simp add: ParseToLabelSelector_def)
  ultimately show ?thesis by (intro exI [of _ sel]) auto
qed

theorem LabelToSelector_agrees_witness:
  "\<exists>sel. ParseToLabelSelector (Selector_String (LabelToSelector [(''site'', ''b,a'')] [(''hw'', ''x'')])) = Inr sel \<and>
     labelSelectorMatches sel [(''site'', ''b'')] \<and> \<not> labelSelectorMatches sel [(''site'', ''b''), (''hw'', ''y'')]"
proof -
  let ?b = "[(''site'', ''b,a'')]" and ?e = "[(''hw'', ''x'')]"
  have wf: "mwf ?b" "mwf ?e" by (simp_all add: mwf_def)
  have "IsQualifiedName ''site'' = []" "IsQualifiedName ''hw'' = []" "IsValidLabelValue ''a'' = []" "IsValidLabelValue ''b'' = []"
    by (simp_all add: IsQualifiedName_def Split_def namePart_def IsValidLabelValue_def labelValueRegexp_def
        qualifiedNameRegexp_def qnameExtChar_def qnameChar_def isLowerAlnum_def isBetween_def less_eq_char_def)
  then have "validRules ?b" "validKeys ?e" by (simp_all add: validRules_def validKeys_def Split_def)
  from LabelToSelector_agrees [OF wf this, of "[]" "[]"] obtain sel where
    p: "ParseToLabelSelector (Selector_String (LabelToSelector ?b ?e)) = Inr sel"
    and m: "\<forall>ls. labelSelectorMatches sel ls \<longleftrightarrow>
       ruleSelects (CreatePlacementRule [] [] ?b ?e) ls \<and> (\<forall>k v. mget ?e k = Some v \<longrightarrow> mget ls k = None)"
    by blast
  have "ruleSelects (CreatePlacementRule [] [] ?b ?e) [(''site'', ''b'')]"
    unfolding ruleSelects_CreatePlacementRule ball_keys [OF wf(1)] ball_keys [OF wf(2)]
    by (simp add: bindingHolds_iff exclusionHolds_iff Split_def)
  with m have "labelSelectorMatches sel [(''site'', ''b'')]" "\<not> labelSelectorMatches sel [(''site'', ''b''), (''hw'', ''y'')]"
    by (auto split: if_splits)
  with p show ?thesis by blast
qed

end
