(* ===== verification/MergeKeys.thy ===== *)
theory MergeKeys
  imports GoValue GoFS
begin

text \<open>
  \<^verbatim>\<open>pgt2acmpg/packages/fileutils/mergekeys.go\<close>: the merge keys of list fields, read from an OpenAPI
  schema, and their injection into the patches. A PolicyGenTemplate merges lists by position,
  Kustomize by key: a patch item gets the key of the source CR's item at the same position.

  Decoding the schema and the source CR is a parameter. The patch is mutated in place, so the
  model returns the patch it leaves.
\<close>

section \<open>Schema\<close>

record groupVersionKind =
  gvk_Group :: string
  gvk_Kind :: string
  gvk_Version :: string

datatype schemaProperty =
  SchemaProperty
    (sp_Type: string)
    (sp_PatchStrategy: string)
    (sp_PatchMergeKey: string)
    (sp_Properties: "(string \<times> schemaProperty) list option")
    (sp_GVK: "groupVersionKind list")

record openAPISchema =
  oa_Definitions :: "(string, schemaProperty) gomap"

record mergeKeyInfo =
  mk_fieldPath :: string
  mk_mergeKey :: string

definition fieldPath :: "string \<Rightarrow> string \<Rightarrow> string" where
  "fieldPath prefix fieldName = (if prefix \<noteq> [] then prefix @ ''.'' @ fieldName else fieldName)"

definition isMergeList :: "schemaProperty \<Rightarrow> bool" where
  "isMergeList prop \<longleftrightarrow>
     sp_Type prop = ''array'' \<and> sp_PatchStrategy prop = ''merge'' \<and> sp_PatchMergeKey prop \<noteq> []"

lemma schemaProperty_size:
  "sp_Properties p = Some ps \<Longrightarrow> size_list (size_prod (\<lambda>_. 0) size) ps < size p"
  by (cases p) auto

function collectMergeKeys ::
  "(string \<times> schemaProperty) list \<Rightarrow> string \<Rightarrow> mergeKeyInfo list \<Rightarrow> mergeKeyInfo list" where
  "collectMergeKeys [] prefix result = result"
| "collectMergeKeys ((fieldName, prop) # props) prefix result =
     (let path = fieldPath prefix fieldName;
          result1 = (if isMergeList prop
            then result @ [\<lparr>mk_fieldPath = path, mk_mergeKey = sp_PatchMergeKey prop\<rparr>] else result);
          result2 = (case sp_Properties prop of
              None \<Rightarrow> result1
            | Some ps \<Rightarrow> collectMergeKeys ps path result1)
      in collectMergeKeys props prefix result2)"
  by pat_completeness auto

termination
  by (relation "measure (\<lambda>(props, _, _). size_list (size_prod (\<lambda>_. 0) size) props)")
    (auto dest: schemaProperty_size)

text \<open>The loop over the definitions; \<open>decodeSchema\<close> is \<^verbatim>\<open>json.Unmarshal\<close> into the schema struct.\<close>

definition addDefinition ::
  "(string, mergeKeyInfo list) gomap \<Rightarrow> schemaProperty \<Rightarrow> (string, mergeKeyInfo list) gomap" where
  "addDefinition result def =
     (case sp_GVK def of
        [] \<Rightarrow> result
      | gvk # _ \<Rightarrow>
          (let mergeKeys = collectMergeKeys (case sp_Properties def of None \<Rightarrow> [] | Some ps \<Rightarrow> ps) [] [] in
           if mergeKeys \<noteq> [] then mput result (gvk_Kind gvk) mergeKeys else result))"

definition ParseOpenAPISchema ::
  "(string \<Rightarrow> openAPISchema res) \<Rightarrow> fsys \<Rightarrow> string \<Rightarrow> (string, mergeKeyInfo list) gomap res" where
  "ParseOpenAPISchema decodeSchema fs schemaPath =
     (case os_ReadFile fs schemaPath of
        Inl e \<Rightarrow> Inl (Error (''failed to read schema file '' @ schemaPath @ '': '' @ pathError ''open'' schemaPath e))
      | Inr data \<Rightarrow>
          bind_res (map_error (\<lambda>e. ''failed to parse schema file '' @ schemaPath @ '': '' @ e) (decodeSchema data))
            (\<lambda>schema. Inr (foldl addDefinition [] (map snd (oa_Definitions schema)))))"

section \<open>Injection\<close>

fun navigate :: "gmap \<Rightarrow> string list \<Rightarrow> gmap option" where
  "navigate current [] = Some current"
| "navigate current (part # parts) =
     (case mget current part of Some (GMap nextMap) \<Rightarrow> navigate nextMap parts | _ \<Rightarrow> None)"

definition navigateToParent :: "gmap \<Rightarrow> string list \<Rightarrow> gmap option" where
  "navigateToParent node parts = navigate node (butlast parts)"

fun toSliceOfMaps :: "gval \<Rightarrow> gmap list option" where
  "toSliceOfMaps (GSlice xs) = those (map (\<lambda>x. case x of GMap m \<Rightarrow> Some m | _ \<Rightarrow> None) xs)"
| "toSliceOfMaps (GMapSlice ms) = Some ms"
| "toSliceOfMaps _ = None"

text \<open>The slice with its maps mutated.\<close>

fun withMaps :: "gval \<Rightarrow> gmap list \<Rightarrow> gval" where
  "withMaps (GSlice xs) ms = GSlice (map GMap ms)"
| "withMaps (GMapSlice _) ms = GMapSlice ms"
| "withMaps v ms = v"

definition injectItem :: "string \<Rightarrow> gmap \<Rightarrow> gmap \<Rightarrow> gmap" where
  "injectItem mergeKey patchItem sourceItem =
     (case (mget patchItem mergeKey, mget sourceItem mergeKey) of
        (None, Some val) \<Rightarrow> mput patchItem mergeKey val
      | _ \<Rightarrow> patchItem)"

fun injectItems :: "string \<Rightarrow> gmap list \<Rightarrow> gmap list \<Rightarrow> gmap list" where
  "injectItems mergeKey (p # ps) (s # ss) = injectItem mergeKey p s # injectItems mergeKey ps ss"
| "injectItems mergeKey ps ss = ps"

fun updateAt :: "gmap \<Rightarrow> string list \<Rightarrow> (gmap \<Rightarrow> gmap) \<Rightarrow> gmap" where
  "updateAt current [] f = f current"
| "updateAt current (part # parts) f =
     (case mget current part of
        Some (GMap nextMap) \<Rightarrow> mput current part (GMap (updateAt nextMap parts f))
      | _ \<Rightarrow> current)"

definition injectMergeKeyAtPath :: "gmap \<Rightarrow> gmap \<Rightarrow> string \<Rightarrow> string \<Rightarrow> gmap" where
  "injectMergeKeyAtPath patch sourceCR path mergeKey =
     (let parts = Split path ''.''; lastField = last parts in
      case (navigateToParent patch parts, navigateToParent sourceCR parts) of
        (Some patchNode, Some sourceCRNode) \<Rightarrow>
          (case (toSliceOfMaps (idx patchNode lastField), toSliceOfMaps (idx sourceCRNode lastField)) of
             (Some patchList, Some sourceCRList) \<Rightarrow>
               if patchList = [] \<or> sourceCRList = [] then patch
               else updateAt patch (butlast parts) (\<lambda>node.
                 mput node lastField (withMaps (idx node lastField) (injectItems mergeKey patchList sourceCRList)))
           | _ \<Rightarrow> patch)
      | _ \<Rightarrow> patch)"

definition injectAll :: "mergeKeyInfo list \<Rightarrow> gmap \<Rightarrow> gmap \<Rightarrow> gmap" where
  "injectAll mergeKeys sourceCR patch =
     foldl (\<lambda>p mk. injectMergeKeyAtPath p sourceCR (mk_fieldPath mk) (mk_mergeKey mk)) patch mergeKeys"

definition InjectMergeKeys ::
  "(string \<Rightarrow> gmap res) \<Rightarrow> fsys \<Rightarrow> gmap list \<Rightarrow> string \<Rightarrow> mergeKeyInfo list \<Rightarrow> gmap list res" where
  "InjectMergeKeys unmarshal fs patches sourceCRPath mergeKeys =
     (if patches = [] \<or> mergeKeys = [] then Inr patches
      else case os_ReadFile fs sourceCRPath of
        Inl e \<Rightarrow> Inl (Error (''failed to read source CR '' @ sourceCRPath @ '': '' @ pathError ''open'' sourceCRPath e))
      | Inr sourceCRData \<Rightarrow>
          bind_res (map_error (\<lambda>e. ''failed to unmarshal source CR '' @ sourceCRPath @ '': '' @ e) (unmarshal sourceCRData))
            (\<lambda>sourceCR. Inr (map (injectAll mergeKeys sourceCR) patches)))"

section \<open>Lemmas\<close>

text \<open>A property of the schema with the dotted path that leads to it.\<close>

inductive reaches :: "(string \<times> schemaProperty) list \<Rightarrow> string \<Rightarrow> string \<Rightarrow> schemaProperty \<Rightarrow> bool" where
  here: "(f, p) \<in> set props \<Longrightarrow> reaches props prefix (fieldPath prefix f) p"
| below: "(f, p) \<in> set props \<Longrightarrow> sp_Properties p = Some ps \<Longrightarrow> reaches ps (fieldPath prefix f) path q \<Longrightarrow>
    reaches props prefix path q"

inductive_cases reaches_NilE: "reaches [] prefix path q"

lemma reaches_Cons:
  "reaches ((f, p) # props) prefix path q \<longleftrightarrow>
     path = fieldPath prefix f \<and> q = p \<or>
     (\<exists>ps. sp_Properties p = Some ps \<and> reaches ps (fieldPath prefix f) path q) \<or>
     reaches props prefix path q"
proof
  assume "reaches ((f, p) # props) prefix path q"
  then show "path = fieldPath prefix f \<and> q = p \<or>
     (\<exists>ps. sp_Properties p = Some ps \<and> reaches ps (fieldPath prefix f) path q) \<or> reaches props prefix path q"
    by (cases rule: reaches.cases) (auto intro: reaches.intros)
next
  have "reaches ((f, p) # props) prefix path q" if "reaches props prefix path q"
    using that by (cases rule: reaches.cases) (auto intro: reaches.intros)
  then show "path = fieldPath prefix f \<and> q = p \<or>
     (\<exists>ps. sp_Properties p = Some ps \<and> reaches ps (fieldPath prefix f) path q) \<or> reaches props prefix path q \<Longrightarrow>
    reaches ((f, p) # props) prefix path q"
    by (auto intro: reaches.intros)
qed

lemma reaches_Nil [simp]: "\<not> reaches [] prefix path q"
  by (auto elim: reaches_NilE)

lemma set_collectMergeKeys:
  "set (collectMergeKeys props prefix result) = set result \<union>
     {\<lparr>mk_fieldPath = path, mk_mergeKey = sp_PatchMergeKey p\<rparr> |path p. reaches props prefix path p \<and> isMergeList p}"
proof (induction props prefix result rule: collectMergeKeys.induct)
  case (1 prefix result)
  then show ?case by simp
next
  case (2 f p props prefix result)
  then show ?case
    by (cases "sp_Properties p") (auto simp: Let_def reaches_Cons)
qed

lemma navigate_updateAt:
  "navigate m ps = Some n \<Longrightarrow> navigate (updateAt m ps f) ps = Some (f n)"
  by (induction m ps f rule: updateAt.induct) (auto split: option.splits gval.splits)

lemma mget_injectItem:
  "mget (injectItem mk p s) k = (if k = mk \<and> mget p mk = None then mget s mk else mget p k)"
  by (auto simp: injectItem_def split: option.splits)

lemma length_injectItems [simp]: "length (injectItems mk ps ss) = length ps"
  by (induction mk ps ss rule: injectItems.induct) auto

lemma nth_injectItems:
  "i < length ps \<Longrightarrow> injectItems mk ps ss ! i = (if i < length ss then injectItem mk (ps ! i) (ss ! i) else ps ! i)"
proof (induction mk ps ss arbitrary: i rule: injectItems.induct)
  case (1 mk p ps s ss)
  then show ?case by (cases i) auto
qed auto

lemma those_GMap [simp]: "those (map (\<lambda>x. case x of GMap m \<Rightarrow> Some m | _ \<Rightarrow> None) (map GMap ms)) = Some ms"
  by (induction ms) auto

lemma toSliceOfMaps_withMaps: "toSliceOfMaps v = Some xs \<Longrightarrow> toSliceOfMaps (withMaps v ms) = Some ms"
  by (cases v) (simp_all del: map_map)

section \<open>Properties\<close>

text \<open>C19. The merge keys that the schema walk collects are exactly those of the list fields, at any
  depth, that have the merge patch strategy and a merge key, each with the dotted path to it.\<close>

theorem collectMergeKeys_exact:
  "info \<in> set (collectMergeKeys props [] []) \<longleftrightarrow>
     (\<exists>p. reaches props [] (mk_fieldPath info) p \<and> isMergeList p \<and> mk_mergeKey info = sp_PatchMergeKey p)"
  by (cases info) (auto simp: set_collectMergeKeys)

text \<open>Injection by position: for a list of maps that patch and source CR both have at the path,
  an item of the patch without the merge key gets the key of the source item at its position, if
  that has one; a key that is there is never overwritten, no other field of any item changes, no
  item is added or removed and no other field of the enclosing map changes.\<close>

theorem injectMergeKeyAtPath_by_position:
  assumes "navigateToParent patch (Split path ''.'') = Some pn"
    and "navigateToParent sourceCR (Split path ''.'') = Some sn"
    and "toSliceOfMaps (idx pn (last (Split path ''.''))) = Some ps"
    and "toSliceOfMaps (idx sn (last (Split path ''.''))) = Some ss" and "ps \<noteq> []" and "ss \<noteq> []"
  shows "\<exists>pn' ps'. navigateToParent (injectMergeKeyAtPath patch sourceCR path mk) (Split path ''.'') = Some pn' \<and>
    toSliceOfMaps (idx pn' (last (Split path ''.''))) = Some ps' \<and> length ps' = length ps \<and>
    (\<forall>i k. i < length ps \<longrightarrow> mget (ps' ! i) k =
       (if k = mk \<and> mget (ps ! i) mk = None \<and> i < length ss then mget (ss ! i) mk else mget (ps ! i) k)) \<and>
    (\<forall>k. k \<noteq> last (Split path ''.'') \<longrightarrow> mget pn' k = mget pn k)"
proof -
  let ?parts = "Split path ''.''"
  let ?f = "\<lambda>node. mput node (last ?parts) (withMaps (idx node (last ?parts)) (injectItems mk ps ss))"
  have "injectMergeKeyAtPath patch sourceCR path mk = updateAt patch (butlast ?parts) ?f"
    using assms by (simp add: injectMergeKeyAtPath_def Let_def)
  with assms(1) have "navigateToParent (injectMergeKeyAtPath patch sourceCR path mk) ?parts = Some (?f pn)"
    by (simp add: navigateToParent_def navigate_updateAt)
  moreover have "toSliceOfMaps (idx (?f pn) (last ?parts)) = Some (injectItems mk ps ss)"
    using toSliceOfMaps_withMaps [OF assms(3)] by simp
  ultimately show ?thesis
    by (intro exI [of _ "?f pn"] exI [of _ "injectItems mk ps ss"]) (auto simp: nth_injectItems mget_injectItem)
qed

theorem injectMergeKeyAtPath_by_position_witness:
  "injectMergeKeyAtPath
     [(''spec'', GMap [(''l'', GSlice [GMap [(''v'', GInt 1)], GMap [(''n'', GStr ''y'')]])])]
     [(''spec'', GMap [(''l'', GSlice [GMap [(''n'', GStr ''a'')], GMap [(''n'', GStr ''b'')]])])]
     ''spec.l'' ''n'' =
     [(''spec'', GMap [(''l'', GSlice [GMap [(''v'', GInt 1), (''n'', GStr ''a'')], GMap [(''n'', GStr ''y'')]])])] \<and>
   (\<exists>ps'. toSliceOfMaps (GSlice [GMap [(''v'', GInt 1), (''n'', GStr ''a'')], GMap [(''n'', GStr ''y'')]]) = Some ps' \<and>
     mget (ps' ! 0) ''n'' = Some (GStr ''a''))"
proof -
  let ?p = "[(''spec'', GMap [(''l'', GSlice [GMap [(''v'', GInt 1)], GMap [(''n'', GStr ''y'')]])])]"
  let ?s = "[(''spec'', GMap [(''l'', GSlice [GMap [(''n'', GStr ''a'')], GMap [(''n'', GStr ''b'')]])])]"
  have sp: "Split ''spec.l'' ''.'' = [''spec'', ''l'']" by (simp add: Split_def)
  have e: "injectMergeKeyAtPath ?p ?s ''spec.l'' ''n'' =
     [(''spec'', GMap [(''l'', GSlice [GMap [(''v'', GInt 1), (''n'', GStr ''a'')], GMap [(''n'', GStr ''y'')]])])]"
    by (simp add: injectMergeKeyAtPath_def sp navigateToParent_def mget0_def injectItem_def)
  have "\<exists>pn' ps'. navigateToParent (injectMergeKeyAtPath ?p ?s ''spec.l'' ''n'') [''spec'', ''l''] = Some pn' \<and>
      toSliceOfMaps (idx pn' ''l'') = Some ps' \<and> mget (ps' ! 0) ''n'' = Some (GStr ''a'')"
    using injectMergeKeyAtPath_by_position
      [of ?p "''spec.l''" "[(''l'', GSlice [GMap [(''v'', GInt 1)], GMap [(''n'', GStr ''y'')]])]" ?s
        "[(''l'', GSlice [GMap [(''n'', GStr ''a'')], GMap [(''n'', GStr ''b'')]])]"
        "[[(''v'', GInt 1)], [(''n'', GStr ''y'')]]" "[[(''n'', GStr ''a'')], [(''n'', GStr ''b'')]]" "''n''"]
    by (auto simp: sp navigateToParent_def mget0_def)
  then show ?thesis unfolding e by (auto simp: navigateToParent_def mget0_def)
qed

end
