(* ===== verification/PgtConvert.thy ===== *)
theory PgtConvert
  imports Patches PgtLabels MergeKeys
begin

text \<open>
  \<^verbatim>\<open>pgt2acmpg/main.go\<close> and \<^verbatim>\<open>renderpolicies/renderpolicies.go\<close>: the conversion of PolicyGenTemplates to ACM
  PolicyGenerator files. The packages that decode, encode and kustomize are the parameter \<open>convEnv\<close>;
  the command line is the record \<open>flags\<close>. \<^verbatim>\<open>os.Exit(1)\<close> is the panic \<open>exitOne\<close>.

  The patches of a manifest share their maps with the decoded template; every source file belongs to
  one policy and is read before the patches are changed, so the model copies them.
\<close>

record convEnv =
  cv_fu :: fuYaml
  cv_kust :: kustEnv
  cv_label :: labelEnv
  cv_unmarshalPGT :: "string \<Rightarrow> PolicyGenTemplate res"
  cv_marshalACMPG :: "ACMPG \<Rightarrow> string res"
  cv_marshalPlacement :: "Placement \<Rightarrow> string res"
  cv_decodeSchema :: "string \<Rightarrow> openAPISchema res"
  cv_unmarshalMap :: "string \<Rightarrow> gmap res"
  cv_kind :: "string \<Rightarrow> KindType res"
  cv_RunOnDisk :: "fsys \<Rightarrow> string \<Rightarrow> resMap res"

record flags =
  fl_inputFile :: string
  fl_outputDir :: string
  fl_schema :: string
  fl_customCRList :: string
  fl_preRenderCustomCRPatches :: bool
  fl_generateACMPolicies :: bool
  fl_NSYAML :: string
  fl_skipDefaultPlacementBindings :: bool
  fl_sourceCRs :: string
  fl_workaroundPlacement :: bool

text \<open>A loop over a list of structs that changes each of them in place and threads the files.\<close>

fun mapState :: "('s \<Rightarrow> 'a \<Rightarrow> ('s \<times> 'a) res) \<Rightarrow> 's \<Rightarrow> 'a list \<Rightarrow> ('s \<times> 'a list) res" where
  "mapState f s [] = Inr (s, [])"
| "mapState f s (x # xs) =
     bind_res (f s x) (\<lambda>(s1, y). bind_res (mapState f s1 xs) (\<lambda>(s2, ys). Inr (s2, y # ys)))"

section \<open>One policy\<close>

definition waveAnnotationKey :: string where "waveAnnotationKey = ''ran.openshift.io/ztp-deploy-wave''"
definition sourceCrPrefix :: string where "sourceCrPrefix = ''source-crs''"

definition newManifestPath :: "SourceFile \<Rightarrow> string" where
  "newManifestPath sf =
     (if \<not> HasPrefix (pf_FileName sf) sourceCrPrefix then JoinPath [sourceCrPrefix, pf_FileName sf]
      else pf_FileName sf)"

definition newPatch :: "SourceFile \<Rightarrow> gmap" where
  "newPatch sf =
     (let p0 = (if pf_Metadata sf \<noteq> [] then mput [] ''metadata'' (GMap (pf_Metadata sf)) else []);
          p1 = (if pf_Spec sf \<noteq> [] then mput p0 ''spec'' (GMap (pf_Spec sf)) else p0)
      in if pf_Status sf \<noteq> [] then mput p1 ''status'' (GMap (pf_Status sf)) else p1)"

definition hasPatch :: "SourceFile \<Rightarrow> bool" where
  "hasPatch sf \<longleftrightarrow> pf_Metadata sf \<noteq> [] \<or> pf_Spec sf \<noteq> [] \<or> pf_Status sf \<noteq> []"

definition newManifest :: "SourceFile \<Rightarrow> Manifest" where
  "newManifest sf =
     (newManifestAt (newManifestPath sf))\<lparr>mf_Patches := (if hasPatch sf then [newPatch sf] else [])\<rparr>"

definition setFileInterval :: "SourceFile \<Rightarrow> PolicyConfig \<Rightarrow> PolicyConfig" where
  "setFileInterval sf p =
     (let co = pg_ConfigurationPolicyOptions p; ei = co_EvaluationInterval co; new = pf_EvaluationInterval sf;
          ei1 = (if ei_Compliant new \<noteq> UnsetStringValue then ei\<lparr>ei_Compliant := ei_Compliant new\<rparr> else ei);
          ei2 = (if ei_NonCompliant new \<noteq> UnsetStringValue then ei1\<lparr>ei_NonCompliant := ei_NonCompliant new\<rparr> else ei1)
      in p\<lparr>pg_ConfigurationPolicyOptions := co\<lparr>co_EvaluationInterval := ei2\<rparr>\<rparr>)"

definition setWave :: "string \<Rightarrow> PolicyConfig \<Rightarrow> PolicyConfig" where
  "setWave wave p =
     p\<lparr>pg_PolicyOptions := (pg_PolicyOptions p)\<lparr>po_PolicyAnnotations :=
       mput (po_PolicyAnnotations (pg_PolicyOptions p)) waveAnnotationKey wave\<rparr>\<rparr>"

definition fileWave :: "AnnotationsOnly \<Rightarrow> string" where
  "fileWave annotations =
     (case mget (ao_Annotations annotations) waveAnnotationKey of
        Some wave \<Rightarrow> if wave \<noteq> [] \<and> IsNumber wave then wave else []
      | None \<Rightarrow> [])"

definition malformed :: "PolicyGenTemplate \<Rightarrow> go_error" where
  "malformed pgt = Error (''malformed PGT, could not parse manifest filename in PGT ns: '' @
     pm_Namespace (pt_Metadata pgt) @ '' name: '' @ pm_Name (pt_Metadata pgt))"

definition noAnnotations :: "PolicyGenTemplate \<Rightarrow> SourceFile \<Rightarrow> string \<Rightarrow> string" where
  "noAnnotations pgt sf e = ''could not get annotations from manifest:'' @ pf_FileName sf @ '' in PGT ns: '' @
     pm_Namespace (pt_Metadata pgt) @ '' name: '' @ pm_Name (pt_Metadata pgt) @ '', err: '' @ e"

definition relFailed :: go_error where "relFailed = Error ''failed to get relative path''"

definition convertSourceFile ::
  "fuYaml \<Rightarrow> fsys \<Rightarrow> PolicyGenTemplate \<Rightarrow> string \<Rightarrow> string \<Rightarrow> string \<Rightarrow> string \<Rightarrow> string \<Rightarrow>
    PolicyConfig \<Rightarrow> SourceFile \<Rightarrow> PolicyConfig res" where
  "convertSourceFile Y fs pgt baseDir pgtPath policyName outputDir forceWave p sf =
     (if pf_PolicyName sf \<noteq> policyName then Inr p
      else if pf_FileName sf = [] then Inl (malformed pgt)
      else
        let p1 = setWave forceWave (setFileInterval sf p);
            add = (\<lambda>p. Inr (p\<lparr>pg_Manifests := pg_Manifests p @ [newManifest sf]\<rparr>)) in
        if forceWave \<noteq> [] then add p1
        else case Rel baseDir (Dir pgtPath) of
          None \<Rightarrow> Inl relFailed
        | Some relativePath \<Rightarrow>
            bind_res (map_error (noAnnotations pgt sf)
              (GetAnnotationsOnly Y fs (JoinPath [outputDir, relativePath, newManifestPath sf]))) (\<lambda>annotations.
            add (if fileWave annotations \<noteq> [] then setWave (fileWave annotations) p1 else p1)))"

definition convertPGTPolicyToACMPGPolicy ::
  "fuYaml \<Rightarrow> fsys \<Rightarrow> PolicyGenTemplate \<Rightarrow> string \<Rightarrow> string \<Rightarrow> string \<Rightarrow> string \<Rightarrow> string \<Rightarrow> string \<Rightarrow> PolicyConfig res" where
  "convertPGTPolicyToACMPGPolicy Y fs pgt baseDir pgtPath rootName policyName outputDir forceWave =
     fold_res (convertSourceFile Y fs pgt baseDir pgtPath policyName outputDir forceWave)
       (zeroPolicyConfig\<lparr>pg_Name := rootName @ ''-'' @ policyName\<rparr>) (pp_SourceFiles (pt_Spec pgt))"

definition convertSimpleMiscellaneousFields :: "PolicyGenTemplate \<Rightarrow> ACMPG \<Rightarrow> string \<Rightarrow> ACMPG" where
  "convertSimpleMiscellaneousFields pgt acm rootName =
     (let df = acm_PolicyDefaults acm; co = df_ConfigurationPolicyOptions df;
          interval = pp_EvaluationInterval (pt_Spec pgt) in
      acm\<lparr>acm_PolicyDefaults := df\<lparr>df_Namespace := pm_Namespace (pt_Metadata pgt),
            df_ConfigurationPolicyOptions := co\<lparr>co_RemediationAction := Inform, co_Severity := ''low'',
              co_NamespaceSelector := \<lparr>an_Exclude = [''kube-*''], an_Include = [''*''],
                an_MatchLabels = None, an_MatchExpressions = None\<rparr>,
              co_EvaluationInterval := (co_EvaluationInterval co)\<lparr>ei_Compliant := ei_Compliant interval,
                ei_NonCompliant := ei_NonCompliant interval\<rparr>\<rparr>\<rparr>,
          acm_Kind := ''PolicyGenerator'', acm_APIVersion := ''policy.open-cluster-management.io/v1'',
          acm_MetadataName := rootName, acm_PlacementBindingName := rootName @ ''-placement-binding''\<rparr>)"

section \<open>Rendering manifests\<close>

definition schemaFileName :: string where "schemaFileName = ''schema.openapi''"

definition emptyManifest :: "string \<Rightarrow> go_error" where
  "emptyManifest p = Error (''found empty YAML in the manifest at '' @ p)"

definition processFailed :: "string \<Rightarrow> string \<Rightarrow> string" where
  "processFailed p e = ''failed to process the manifest at '' @ doubleQuoted p @ '': '' @ e"

text \<open>\<^verbatim>\<open>delete(patchedFiles[0], ...)\<close> panics on an empty list.\<close>

fun dropIdentity :: "gmap list \<Rightarrow> gmap list res" where
  "dropIdentity [] = Inl (Panic ''index out of range'')"
| "dropIdentity (m # ms) = Inr (mdel (mdel m ''apiVersion'') ''kind'' # ms)"

definition patchManifest ::
  "convEnv \<Rightarrow> fsys \<Rightarrow> string \<Rightarrow> string \<Rightarrow> string \<Rightarrow> bool \<Rightarrow> gmap list \<Rightarrow> Manifest \<Rightarrow> (fsys \<times> Manifest) res" where
  "patchManifest C fs p acmTemplateDir schema preRenderCustomCRPatches manifestFile m =
     (if preRenderCustomCRPatches then
        bind_res (map_error (processFailed p) (Validate \<lparr>mp_Manifests = manifestFile, mp_Patches = mf_Patches m\<rparr>)) (\<lambda>patcher.
        bind_res (map_error (processFailed p) (ApplyPatches (cv_kust C) fs patcher schema)) (\<lambda>patchedFiles.
        bind_res (dropIdentity patchedFiles) (\<lambda>ps. Inr (fs, m\<lparr>mf_Patches := ps\<rparr>))))
      else
        let dst = JoinPath [acmTemplateDir, schemaFileName] in
        bind_res (map_error (\<lambda>e. ''failed to copy schema file to '' @ dst @ '', err: '' @ e) (Copy fs schema dst)) (\<lambda>(fs1, _).
          Inr (fs1, m\<lparr>mf_OpenAPI := \<lparr>fp_Path = schemaFileName\<rparr>\<rparr>)))"

definition RenderPatchesInManifestForSpecifiedKindsAndMCP ::
  "convEnv \<Rightarrow> PolicyGenTemplate \<Rightarrow> string \<Rightarrow> string \<Rightarrow> string \<Rightarrow> string \<Rightarrow> bool \<Rightarrow> string list \<Rightarrow>
    fsys \<Rightarrow> Manifest \<Rightarrow> (fsys \<times> Manifest) res" where
  "RenderPatchesInManifestForSpecifiedKindsAndMCP C pgt baseDir pgtFilePath outputDir schema
       preRenderCustomCRPatches kindsToRender fs m =
     bind_res (map_error (\<lambda>e. ''failed to get template paths, err: '' @ e)
       (GetTemplatePaths baseDir pgtFilePath outputDir)) (\<lambda>(relativePathTemplate, acmTemplateDir).
     bind_res (map_error (\<lambda>e. ''cannot render MCP lines, err: '' @ e)
       (RenderMCPLines fs (JoinPath [acmTemplateDir, mf_Path m]) (pp_Mcp (pt_Spec pgt)))) (\<lambda>(fs1, renamed).
     case Rel (JoinPath [outputDir, relativePathTemplate]) renamed of
       None \<Rightarrow> Inl (Error (''cannot get the relative path from path: '' @ renamed @ '' and directory: '' @ outputDir))
     | Some relativeManifestPath \<Rightarrow>
       let m1 = m\<lparr>mf_Path := relativeManifestPath\<rparr> in
       bind_res (map_error (\<lambda>e. ''could not unmarshall manifest: '' @ renamed @ '', err: '' @ e)
         (UnmarshalManifestFile (cv_kust C) fs1 renamed)) (\<lambda>manifestFile.
       if manifestFile = [] then Inl (emptyManifest renamed)
       else
         bind_res (map_error (\<lambda>e. ''could not get manifest kind for file: '' @ renamed @ '', err: '' @ e)
           (GetManifestKind (cv_fu C) fs1 renamed)) (\<lambda>kind.
         if \<not> StringInSlice kindsToRender (kt_Kind kind) False then Inr (fs1, m1)
         else if mf_Patches m1 = [] \<or> schema = [] then Inr (fs1, m1)
         else patchManifest C fs1 renamed acmTemplateDir schema preRenderCustomCRPatches manifestFile m1))))"

text \<open>The nested loops over the manifests of all policies.\<close>

definition overManifests ::
  "(fsys \<Rightarrow> Manifest \<Rightarrow> (fsys \<times> Manifest) res) \<Rightarrow> fsys \<Rightarrow> PolicyConfig list \<Rightarrow> (fsys \<times> PolicyConfig list) res" where
  "overManifests f =
     mapState (\<lambda>fs p. bind_res (mapState f fs (pg_Manifests p)) (\<lambda>(fs1, ms). Inr (fs1, p\<lparr>pg_Manifests := ms\<rparr>)))"

section \<open>Merge keys and the schema\<close>

definition getKindFromSourceCR :: "convEnv \<Rightarrow> fsys \<Rightarrow> string \<Rightarrow> string res" where
  "getKindFromSourceCR C fs path =
     bind_res (readOr (\<lambda>f e. Error (''failed to read file: '' @ pathError ''open'' f e)) fs path) (\<lambda>data.
     bind_res (map_error (\<lambda>e. ''failed to unmarshal: '' @ e) (cv_kind C data)) (\<lambda>k. Inr (kt_Kind k)))"

text \<open>Failures to read the kind or to inject keys only print a warning.\<close>

definition injectManifest ::
  "convEnv \<Rightarrow> fsys \<Rightarrow> string \<Rightarrow> (string, mergeKeyInfo list) gomap option \<Rightarrow> Manifest \<Rightarrow> Manifest" where
  "injectManifest C fs outputFile mergeKeyMap m =
     (if mf_Patches m = [] then m
      else
        let m1 = m\<lparr>mf_OpenAPI := \<lparr>fp_Path = schemaFileName\<rparr>\<rparr>;
            sourceCRPath = JoinPath [Dir outputFile, mf_Path m] in
        case mergeKeyMap of
          None \<Rightarrow> m1
        | Some keyMap \<Rightarrow>
          (case getKindFromSourceCR C fs sourceCRPath of
             Inl _ \<Rightarrow> m1
           | Inr kind \<Rightarrow>
             (case mget keyMap kind of
                None \<Rightarrow> m1
              | Some mergeKeys \<Rightarrow>
                (case InjectMergeKeys (cv_unmarshalMap C) fs (mf_Patches m1) sourceCRPath mergeKeys of
                   Inl _ \<Rightarrow> m1
                 | Inr ps \<Rightarrow> m1\<lparr>mf_Patches := ps\<rparr>))))"

definition applySchema :: "convEnv \<Rightarrow> fsys \<Rightarrow> string \<Rightarrow> string \<Rightarrow> ACMPG \<Rightarrow> (fsys \<times> ACMPG) res" where
  "applySchema C fs schema outputFile acm =
     (let mergeKeyMap = (case ParseOpenAPISchema (cv_decodeSchema C) fs schema of Inl _ \<Rightarrow> None | Inr m \<Rightarrow> Some m);
          policies = map (\<lambda>p. p\<lparr>pg_Manifests := map (injectManifest C fs outputFile mergeKeyMap) (pg_Manifests p)\<rparr>)
            (acm_Policies acm);
          schemaDestPath = JoinPath [Dir outputFile, schemaFileName] in
      bind_res (readOr (\<lambda>f e. Error (''failed to read schema file '' @ f @ '', err: '' @ pathError ''open'' f e)) fs schema) (\<lambda>schemaData.
      bind_res (writeOr (\<lambda>f e. Error (''failed to copy schema file to '' @ f @ '', err: '' @ pathError ''open'' f e))
        fs schemaDestPath schemaData) (\<lambda>fs1.
        Inr (fs1, acm\<lparr>acm_Policies := policies\<rparr>))))"

section \<open>One template\<close>

definition writeConvertedTemplateToFile ::
  "convEnv \<Rightarrow> fsys \<Rightarrow> PolicyGenTemplate \<Rightarrow> ACMPG \<Rightarrow> string \<Rightarrow> fsys res" where
  "writeConvertedTemplateToFile C fs pgt acm outputFile =
     bind_res (map_error (\<lambda>e. ''could not marshall acm profile, err: '' @ e) (cv_marshalACMPG C acm)) (\<lambda>convertedContent.
       writeBelow fs outputFile (ReplaceAll (yamlMark @ convertedContent) ''$mcp'' (pp_Mcp (pt_Spec pgt))))"

definition setLabelSelector :: "gmap \<Rightarrow> ACMPG \<Rightarrow> ACMPG" where
  "setLabelSelector sel acm =
     (let df = acm_PolicyDefaults acm; po = df_PolicyOptions df in
      acm\<lparr>acm_PolicyDefaults := df\<lparr>df_PolicyOptions :=
        po\<lparr>po_Placement := (po_Placement po)\<lparr>pc_LabelSelector := sel\<rparr>\<rparr>\<rparr>\<rparr>)"

definition setPlacementPath :: "string \<Rightarrow> ACMPG \<Rightarrow> ACMPG" where
  "setPlacementPath path acm =
     (let df = acm_PolicyDefaults acm; po = df_PolicyOptions df in
      acm\<lparr>acm_PolicyDefaults := df\<lparr>df_PolicyOptions :=
        po\<lparr>po_Placement := (po_Placement po)\<lparr>pc_PlacementPath := path\<rparr>\<rparr>\<rparr>\<rparr>)"

definition placePolicies ::
  "convEnv \<Rightarrow> string \<Rightarrow> string \<Rightarrow> string \<Rightarrow> bool \<Rightarrow> string \<Rightarrow> gmap \<Rightarrow> fsys \<Rightarrow> ACMPG \<Rightarrow> (fsys \<times> ACMPG) res" where
  "placePolicies C outputDir baseDir inputFile workaroundPlacement policyName labelSelector fs acm =
     (if \<not> workaroundPlacement then Inr (fs, setLabelSelector labelSelector acm)
      else
        bind_res (map_error (\<lambda>e. ''failed to get template paths, err: '' @ e)
          (GetTemplatePaths baseDir inputFile outputDir)) (\<lambda>(_, acmTemplateDir).
        bind_res (map_error (\<lambda>e. ''error when generating placement file, err: '' @ e)
          (GeneratePlacementFile (cv_marshalPlacement C) fs policyName (df_Namespace (acm_PolicyDefaults acm))
            acmTemplateDir labelSelector)) (\<lambda>(fs1, path).
          Inr (fs1, setPlacementPath path acm))))"

definition convertPolicy ::
  "convEnv \<Rightarrow> PolicyGenTemplate \<Rightarrow> string \<Rightarrow> string \<Rightarrow> string \<Rightarrow> string \<Rightarrow> bool \<Rightarrow> string list \<Rightarrow> bool \<Rightarrow>
    fsys \<times> ACMPG \<Rightarrow> string \<Rightarrow> (fsys \<times> ACMPG) res" where
  "convertPolicy C pgt outputDir baseDir inputFile schema preRenderCustomCRPatches customCRList workaroundPlacement st policyName =
     (case st of (fs, acm) \<Rightarrow>
      let rootName = pm_Name (pt_Metadata pgt) in
      bind_res (convertPGTPolicyToACMPGPolicy (cv_fu C) fs pgt baseDir inputFile rootName policyName outputDir []) (\<lambda>newPolicy.
      bind_res (OutputGeneric (cv_label C)
        (LabelToSelector (pp_BindingRules (pt_Spec pgt)) (pp_BindingExcludedRules (pt_Spec pgt)))) (\<lambda>labelSelector.
      bind_res (placePolicies C outputDir baseDir inputFile workaroundPlacement (pg_Name newPolicy) labelSelector fs
        (convertSimpleMiscellaneousFields pgt (acm\<lparr>acm_Policies := acm_Policies acm @ [newPolicy]\<rparr>) rootName)) (\<lambda>(fs1, acm1).
      bind_res (map_error (\<lambda>e. ''could not render patches in manifest, err: '' @ e)
        (overManifests (RenderPatchesInManifestForSpecifiedKindsAndMCP C pgt baseDir inputFile outputDir schema
          preRenderCustomCRPatches customCRList) fs1 (acm_Policies acm1))) (\<lambda>(fs2, policies).
        Inr (fs2, acm1\<lparr>acm_Policies := policies\<rparr>))))))"

definition seenPolicies :: "PolicyGenTemplate \<Rightarrow> string list" where
  "seenPolicies pgt = sort (remdups (map pf_PolicyName (pp_SourceFiles (pt_Spec pgt))))"

definition convertPGTtoACM ::
  "convEnv \<Rightarrow> string \<Rightarrow> string \<Rightarrow> string \<Rightarrow> string \<Rightarrow> string \<Rightarrow> bool \<Rightarrow> string list \<Rightarrow> bool \<Rightarrow>
    fsys \<times> (string, bool) gomap \<Rightarrow> (fsys \<times> (string, bool) gomap) res" where
  "convertPGTtoACM C outputDir baseDir inputFile outputFile schema preRenderCustomCRPatches customCRList workaroundPlacement st =
     (case st of (fs, policiesNamespaces) \<Rightarrow>
      bind_res (readOr openFailed fs inputFile) (\<lambda>policyGenFileContent.
      bind_res (map_error (\<lambda>e. ''could not unmarshal PolicyGenTemplate data from '' @ inputFile @ '': '' @ e)
        (cv_unmarshalPGT C policyGenFileContent)) (\<lambda>policyGenTemp.
      bind_res (fold_res (convertPolicy C policyGenTemp outputDir baseDir inputFile schema preRenderCustomCRPatches
        customCRList workaroundPlacement) (fs, zeroACMPG) (seenPolicies policyGenTemp)) (\<lambda>(fs1, acm).
      bind_res (if schema \<noteq> [] then applySchema C fs1 schema outputFile acm else Inr (fs1, acm)) (\<lambda>(fs2, acm).
      bind_res (writeConvertedTemplateToFile C fs2 policyGenTemp acm outputFile) (\<lambda>fs3.
        Inr (fs3, mput policiesNamespaces (pm_Namespace (pt_Metadata policyGenTemp)) True)))))))"

definition convertFile ::
  "convEnv \<Rightarrow> string list \<Rightarrow> string \<Rightarrow> string \<Rightarrow> string \<Rightarrow> bool \<Rightarrow> bool \<Rightarrow>
    fsys \<times> (string, bool) gomap \<Rightarrow> string \<Rightarrow> (fsys \<times> (string, bool) gomap) res" where
  "convertFile C customCRList inputFile outputDir schema preRenderCustomCRPatches workaroundPlacement st file =
     bind_res (map_error (\<lambda>e. ''could not get manifest kind for file:'' @ file @ '', err: '' @ e)
       (GetManifestKind (cv_fu C) (fst st) file)) (\<lambda>kindType.
     if kt_Kind kindType \<noteq> ''PolicyGenTemplate'' then Inr st
     else case Rel inputFile file of
       None \<Rightarrow> Inl (Error ''error getting relative path'')
     | Some relativePath \<Rightarrow>
         map_error (\<lambda>e. ''failed to convert PGT to ACMPG, err='' @ e)
           (convertPGTtoACM C outputDir inputFile file
             (JoinPath [outputDir, PrefixLastPathComponent relativePath ACMPrefix])
             schema preRenderCustomCRPatches customCRList workaroundPlacement st))"

definition convertAllPGTFiles ::
  "convEnv \<Rightarrow> string list \<Rightarrow> string list \<Rightarrow> string \<Rightarrow> string \<Rightarrow> string \<Rightarrow> bool \<Rightarrow> bool \<Rightarrow>
    fsys \<times> (string, bool) gomap \<Rightarrow> (fsys \<times> (string, bool) gomap) res" where
  "convertAllPGTFiles C customCRList allFilesInInputPath inputFile outputDir schema preRenderCustomCRPatches
       workaroundPlacement st =
     fold_res (convertFile C customCRList inputFile outputDir schema preRenderCustomCRPatches workaroundPlacement)
       st allFilesInInputPath"

section \<open>The command\<close>

definition RenderTemplatePolicy :: "convEnv \<Rightarrow> fsys \<Rightarrow> string \<Rightarrow> string res" where
  "RenderTemplatePolicy C fs templatePath =
     bind_res (map_error (\<lambda>e. ''failed to Kustomize template: '' @ e) (cv_RunOnDisk C fs templatePath)) (\<lambda>resMap.
       map_error (\<lambda>e. ''failed to convert the patched manifest(s) back to YAML: '' @ e) (ke_AsYaml (cv_kust C) resMap))"

definition RenderAndWriteTemplateToYAML :: "convEnv \<Rightarrow> fsys \<Rightarrow> string \<Rightarrow> string \<Rightarrow> fsys res" where
  "RenderAndWriteTemplateToYAML C fs templatePath outputFile =
     bind_res (map_error (\<lambda>e. ''error rendering template to file, err: '' @ e) (RenderTemplatePolicy C fs templatePath)) (\<lambda>policyYAML.
       writeOr (\<lambda>f e. Error (''error writing to file, err: '' @ pathError ''open'' f e)) fs outputFile policyYAML)"

definition processFlags :: "flags \<Rightarrow> (string list \<times> string list) res" where
  "processFlags f =
     (if fl_inputFile f = [] \<or> fl_outputDir f = [] then Inl exitOne
      else Inr (Split (fl_customCRList f) '','', Split (fl_sourceCRs f) '',''))"

text \<open>When the post-processing of the kustomization and namespace files fails, the command prints
  a message and goes on with what that step has left; such a run is the error of the step here.\<close>

definition pgtMain :: "convEnv \<Rightarrow> flags \<Rightarrow> fsys \<Rightarrow> fsys res" where
  "pgtMain C f fs =
     bind_res (processFlags f) (\<lambda>(customCRList, preRenderSourceCRList).
     bind_res (orExit (GetAllYAMLFilesInPath fs (fl_inputFile f))) (\<lambda>allFilesInInputPath.
     bind_res (if fl_sourceCRs f \<noteq> []
       then bind_res (orExit (AddSourceCRsInTemplateDir (cv_fu C) fs allFilesInInputPath preRenderSourceCRList
              (fl_inputFile f) (fl_outputDir f))) (\<lambda>fs.
            orExit (AddSourceCRsInTemplateDir (cv_fu C) fs allFilesInInputPath preRenderSourceCRList
              (fl_inputFile f) (fl_inputFile f)))
       else Inr fs) (\<lambda>fs.
     bind_res (orExit (convertAllPGTFiles C customCRList allFilesInInputPath (fl_inputFile f) (fl_outputDir f)
       (fl_schema f) (fl_preRenderCustomCRPatches f) (fl_workaroundPlacement f) (fs, []))) (\<lambda>(fs, policiesNamespaces).
     bind_res (if fl_NSYAML f \<noteq> []
       then CopyAndProcessNSAndKustomizationYAML (cv_fu C) fs (fl_NSYAML f) (fl_inputFile f) (fl_outputDir f)
              (fl_skipDefaultPlacementBindings f) (map fst policiesNamespaces)
       else Inr fs) (\<lambda>fs.
     if fl_generateACMPolicies f
     then bind_res (orExit (RenderAndWriteTemplateToYAML C fs (fl_outputDir f) ''acmpg-out.yaml'')) (\<lambda>fs.
            orExit (RenderAndWriteTemplateToYAML C fs (fl_inputFile f) ''pgt-out.yaml''))
     else Inr fs)))))"

section \<open>Lemmas\<close>

definition policyFiles :: "PolicyGenTemplate \<Rightarrow> string \<Rightarrow> SourceFile list" where
  "policyFiles pgt policyName = filter (\<lambda>sf. pf_PolicyName sf = policyName) (pp_SourceFiles (pt_Spec pgt))"

text \<open>The effect of one source file of the policy once its wave is known.\<close>

definition addFile :: "string \<Rightarrow> PolicyConfig \<Rightarrow> SourceFile \<Rightarrow> PolicyConfig" where
  "addFile wave p sf =
     (setWave wave (setFileInterval sf p))\<lparr>pg_Manifests := pg_Manifests p @ [newManifest sf]\<rparr>"

lemma setWave_setWave [simp]: "setWave w (setWave v p) = setWave w p"
  by (simp add: setWave_def)

lemma setWave_fields [simp]:
  "pg_Name (setWave w p) = pg_Name p" "pg_Manifests (setWave w p) = pg_Manifests p"
  "pg_ConfigurationPolicyOptions (setWave w p) = pg_ConfigurationPolicyOptions p"
  by (simp_all add: setWave_def)

lemma setFileInterval_fields [simp]:
  "pg_Name (setFileInterval sf p) = pg_Name p" "pg_Manifests (setFileInterval sf p) = pg_Manifests p"
  "pg_PolicyOptions (setFileInterval sf p) = pg_PolicyOptions p"
  by (simp_all add: setFileInterval_def Let_def)

lemma addFile_fields [simp]:
  "pg_Name (addFile w p sf) = pg_Name p" "pg_Manifests (addFile w p sf) = pg_Manifests p @ [newManifest sf]"
  "po_PolicyAnnotations (pg_PolicyOptions (addFile w p sf)) =
     mput (po_PolicyAnnotations (pg_PolicyOptions p)) waveAnnotationKey w"
  "pg_ConfigurationPolicyOptions (addFile w p sf) = pg_ConfigurationPolicyOptions (setFileInterval sf p)"
  by (simp_all add: addFile_def) (simp add: setWave_def)

lemma convertSourceFile_other:
  "pf_PolicyName sf \<noteq> policyName \<Longrightarrow>
     convertSourceFile Y fs pgt baseDir pgtPath policyName outputDir forceWave p sf = Inr p"
  by (simp add: convertSourceFile_def)

definition givenWave :: "string \<Rightarrow> AnnotationsOnly \<Rightarrow> string" where
  "givenWave forceWave a = (if forceWave \<noteq> [] then forceWave else fileWave a)"

lemma convertSourceFile_addFile:
  assumes "pf_PolicyName sf = policyName" and "pf_FileName sf \<noteq> []" and "forceWave = [] \<longrightarrow> Rel baseDir (Dir pgtPath) = Some rel"
    and "forceWave = [] \<longrightarrow> GetAnnotationsOnly Y fs (JoinPath [outputDir, rel, newManifestPath sf]) = Inr a"
  shows "convertSourceFile Y fs pgt baseDir pgtPath policyName outputDir forceWave p sf = Inr (addFile (givenWave forceWave a) p sf)"
  using assms by (cases "forceWave = []") (auto simp: convertSourceFile_def addFile_def givenWave_def Let_def)

lemma convertSourceFile_Inr:
  assumes "convertSourceFile Y fs pgt baseDir pgtPath policyName outputDir forceWave p sf = Inr p'"
  shows "pg_Name p' = pg_Name p \<and>
    pg_Manifests p' = pg_Manifests p @ (if pf_PolicyName sf = policyName then [newManifest sf] else [])"
  using assms
  by (auto simp: convertSourceFile_def Let_def res_simps split: if_splits option.splits)

lemma convertPGTPolicy_Inr:
  assumes "convertPGTPolicyToACMPGPolicy Y fs pgt baseDir pgtPath rootName policyName outputDir forceWave = Inr p"
  shows "pg_Name p = rootName @ ''-'' @ policyName \<and> pg_Manifests p = map newManifest (policyFiles pgt policyName)"
proof -
  have "pg_Name p' = pg_Name p \<and>
      pg_Manifests p' = pg_Manifests p @ map newManifest (filter (\<lambda>sf. pf_PolicyName sf = policyName) sfs)"
    if "fold_res (convertSourceFile Y fs pgt baseDir pgtPath policyName outputDir forceWave) p sfs = Inr p'" for p p' sfs
    using that
  proof (induction sfs arbitrary: p)
    case (Cons sf sfs)
    then obtain q where q: "convertSourceFile Y fs pgt baseDir pgtPath policyName outputDir forceWave p sf = Inr q"
      "fold_res (convertSourceFile Y fs pgt baseDir pgtPath policyName outputDir forceWave) q sfs = Inr p'"
      by (auto simp: bind_res_Inr_iff)
    from convertSourceFile_Inr [OF q(1)] Cons.IH [OF q(2)] show ?case by simp
  qed simp
  from this [OF assms [unfolded convertPGTPolicyToACMPGPolicy_def]]
  show ?thesis by (simp add: policyFiles_def zeroPolicyConfig_def)
qed

lemma fold_convertSourceFile:
  assumes "forceWave = [] \<longrightarrow> Rel baseDir (Dir pgtPath) = Some rel"
    and "\<And>sf. sf \<in> set sfs \<Longrightarrow> pf_PolicyName sf = policyName \<Longrightarrow>
      pf_FileName sf \<noteq> [] \<and>
      (forceWave = [] \<longrightarrow> GetAnnotationsOnly Y fs (JoinPath [outputDir, rel, newManifestPath sf]) = Inr (ann sf))"
  shows "fold_res (convertSourceFile Y fs pgt baseDir pgtPath policyName outputDir forceWave) p sfs =
    Inr (foldl (\<lambda>p sf. addFile (givenWave forceWave (ann sf)) p sf) p (filter (\<lambda>sf. pf_PolicyName sf = policyName) sfs))"
  using assms(2)
proof (induction sfs arbitrary: p)
  case (Cons sf sfs)
  show ?case
  proof (cases "pf_PolicyName sf = policyName")
    case True
    then show ?thesis
      using convertSourceFile_addFile [OF True _ assms(1), of Y fs outputDir "ann sf"] Cons.prems [of sf] Cons.IH Cons.prems
      by simp
  qed (use Cons in \<open>simp add: convertSourceFile_other\<close>)
qed simp

text \<open>The last value of a list that is not the unset one.\<close>

definition lastSet :: "string \<Rightarrow> string list \<Rightarrow> string" where
  "lastSet d xs = foldl (\<lambda>a x. if x \<noteq> UnsetStringValue then x else a) d xs"

lemma foldl_addFile_manifests:
  "pg_Name (foldl (\<lambda>p sf. addFile (w sf) p sf) p files) = pg_Name p"
  "pg_Manifests (foldl (\<lambda>p sf. addFile (w sf) p sf) p files) = pg_Manifests p @ map newManifest files"
  by (induction files rule: rev_induct) simp_all

lemma foldl_addFile_wave:
  assumes "files \<noteq> []" and "po_PolicyAnnotations (pg_PolicyOptions p) = []"
  shows "po_PolicyAnnotations (pg_PolicyOptions (foldl (\<lambda>p sf. addFile (w sf) p sf) p files)) =
    [(waveAnnotationKey, w (last files))]"
  using assms
proof (induction files rule: rev_induct)
  case (snoc sf files)
  then show ?case by (cases "files = []") simp_all
qed simp

lemma foldl_addFile_interval:
  "co_EvaluationInterval (pg_ConfigurationPolicyOptions (foldl (\<lambda>p sf. addFile (w sf) p sf) p files)) =
     \<lparr>ei_Compliant = lastSet (ei_Compliant (co_EvaluationInterval (pg_ConfigurationPolicyOptions p)))
        (map (\<lambda>sf. ei_Compliant (pf_EvaluationInterval sf)) files),
      ei_NonCompliant = lastSet (ei_NonCompliant (co_EvaluationInterval (pg_ConfigurationPolicyOptions p)))
        (map (\<lambda>sf. ei_NonCompliant (pf_EvaluationInterval sf)) files)\<rparr>"
  by (induction files rule: rev_induct) (simp_all add: lastSet_def setFileInterval_def Let_def)

text \<open>Loops that keep a relation of each element to what it stands for.\<close>

lemma mapState_keeps:
  assumes "mapState f s xs = Inr (s', ys)" and "list_all2 P zs xs"
    and "\<And>s x s' y z. f s x = Inr (s', y) \<Longrightarrow> P z x \<Longrightarrow> P z y"
  shows "list_all2 P zs ys"
  using assms(1,2)
proof (induction xs arbitrary: s ys zs)
  case (Cons x xs)
  then obtain s1 y ys' where "f s x = Inr (s1, y)" "mapState f s1 xs = Inr (s', ys')" "ys = y # ys'"
    by (auto simp: bind_res_Inr_iff)
  moreover obtain z zs' where "zs = z # zs'" "P z x" "list_all2 P zs' xs"
    using Cons.prems(2) by (auto simp: list_all2_Cons2)
  ultimately show ?case using Cons.IH [of s1 ys' zs'] assms(3) by auto
qed simp

text \<open>The patches of a source file, and the manifests that rendering may leave for it: without a schema or without
  pre-rendering the patches are kept, and pre-rendering never adds patches to a manifest without one.\<close>

definition sourcePatches :: "SourceFile \<Rightarrow> gmap list" where
  "sourcePatches sf = (if hasPatch sf then [newPatch sf] else [])"

definition rendered :: "string \<Rightarrow> bool \<Rightarrow> SourceFile \<Rightarrow> Manifest \<Rightarrow> bool" where
  "rendered schema pre sf m \<longleftrightarrow>
     (if schema = [] \<or> \<not> pre then mf_Patches m = sourcePatches sf else sourcePatches sf = [] \<longrightarrow> mf_Patches m = [])"

lemma RenderPatches_keeps:
  assumes "RenderPatchesInManifestForSpecifiedKindsAndMCP C pgt baseDir pgtFilePath outputDir schema pre kinds fs m = Inr (fs', m')"
    and "rendered schema pre sf m"
  shows "rendered schema pre sf m'"
proof -
  have "mf_Patches m' = mf_Patches m \<or> schema \<noteq> [] \<and> pre \<and> mf_Patches m \<noteq> []"
    using assms(1)
    by (auto simp: RenderPatchesInManifestForSpecifiedKindsAndMCP_def patchManifest_def Let_def bind_res_Inr_iff
        split: option.splits if_splits)
  with assms(2) show ?thesis by (auto simp: rendered_def split: if_splits)
qed

definition policyOf :: "PolicyGenTemplate \<Rightarrow> (SourceFile \<Rightarrow> Manifest \<Rightarrow> bool) \<Rightarrow> string \<Rightarrow> PolicyConfig \<Rightarrow> bool" where
  "policyOf pgt R n p \<longleftrightarrow>
     pg_Name p = pm_Name (pt_Metadata pgt) @ ''-'' @ n \<and> list_all2 R (policyFiles pgt n) (pg_Manifests p)"

lemma overManifests_keeps:
  assumes "overManifests (RenderPatchesInManifestForSpecifiedKindsAndMCP C pgt' baseDir pgtFilePath outputDir schema pre kinds)
    fs ps = Inr (fs', ps')"
    and "list_all2 (policyOf pgt (rendered schema pre)) ns ps"
  shows "list_all2 (policyOf pgt (rendered schema pre)) ns ps'"
proof (rule mapState_keeps [OF assms(1) [unfolded overManifests_def] assms(2)])
  let ?f = "RenderPatchesInManifestForSpecifiedKindsAndMCP C pgt' baseDir pgtFilePath outputDir schema pre kinds"
  fix fs p fs' q n
  assume r: "bind_res (mapState ?f fs (pg_Manifests p)) (\<lambda>(fs1, ms). Inr (fs1, p\<lparr>pg_Manifests := ms\<rparr>)) = Inr (fs', q)"
    and p: "policyOf pgt (rendered schema pre) n p"
  from r obtain ms where ms: "mapState ?f fs (pg_Manifests p) = Inr (fs', ms)" "q = p\<lparr>pg_Manifests := ms\<rparr>"
    by (auto simp: bind_res_Inr_iff)
  have "list_all2 (rendered schema pre) (policyFiles pgt n) ms"
    by (rule mapState_keeps [OF ms(1)]) (use p RenderPatches_keeps in \<open>auto simp: policyOf_def\<close>)
  with p ms(2) show "policyOf pgt (rendered schema pre) n q" by (simp add: policyOf_def)
qed

text \<open>The fields of the output that do not come from a policy.\<close>

definition acmHeader :: "PolicyGenTemplate \<Rightarrow> ACMPG \<Rightarrow> bool" where
  "acmHeader pgt acm \<longleftrightarrow>
     acm_Kind acm = ''PolicyGenerator'' \<and> acm_APIVersion acm = ''policy.open-cluster-management.io/v1'' \<and>
     acm_MetadataName acm = pm_Name (pt_Metadata pgt) \<and>
     acm_PlacementBindingName acm = pm_Name (pt_Metadata pgt) @ ''-placement-binding'' \<and>
     df_Namespace (acm_PolicyDefaults acm) = pm_Namespace (pt_Metadata pgt) \<and>
     co_EvaluationInterval (df_ConfigurationPolicyOptions (acm_PolicyDefaults acm)) = pp_EvaluationInterval (pt_Spec pgt)"

lemma acmHeader_misc: "acmHeader pgt (convertSimpleMiscellaneousFields pgt acm (pm_Name (pt_Metadata pgt)))"
  by (simp add: acmHeader_def convertSimpleMiscellaneousFields_def Let_def)

lemma acmHeader_keep [simp]:
  "acmHeader pgt (setLabelSelector sel acm) = acmHeader pgt acm"
  "acmHeader pgt (setPlacementPath path acm) = acmHeader pgt acm"
  "acmHeader pgt (acm\<lparr>acm_Policies := ps\<rparr>) = acmHeader pgt acm"
  "acm_Policies (setLabelSelector sel acm) = acm_Policies acm"
  "acm_Policies (setPlacementPath path acm) = acm_Policies acm"
  "acm_Policies (convertSimpleMiscellaneousFields pgt acm r) = acm_Policies acm"
  by (simp_all add: acmHeader_def setLabelSelector_def setPlacementPath_def convertSimpleMiscellaneousFields_def Let_def)

lemma placePolicies_Inr:
  assumes "placePolicies C outputDir baseDir inputFile wa name sel fs acm = Inr (fs', acm')"
  shows "acmHeader pgt acm' = acmHeader pgt acm \<and> acm_Policies acm' = acm_Policies acm"
  using assms by (auto simp: placePolicies_def bind_res_Inr_iff split: if_splits)

lemma newPolicy_policyOf:
  assumes "convertPGTPolicyToACMPGPolicy Y fs pgt baseDir pgtPath (pm_Name (pt_Metadata pgt)) n outputDir forceWave = Inr p"
  shows "policyOf pgt (rendered schema pre) n p"
proof -
  have "rendered schema pre sf (newManifest sf)" for sf
    by (simp add: rendered_def newManifest_def sourcePatches_def)
  then show ?thesis
    using convertPGTPolicy_Inr [OF assms] by (simp add: policyOf_def list_all2_conv_all_nth)
qed

lemma convertPolicy_Inr:
  assumes "convertPolicy C pgt outputDir baseDir inputFile schema pre crs wa (fs, acm) n = Inr (fs', acm')"
  shows "acmHeader pgt acm'"
    and "list_all2 (policyOf pgt (rendered schema pre)) ns (acm_Policies acm) \<Longrightarrow>
      list_all2 (policyOf pgt (rendered schema pre)) (ns @ [n]) (acm_Policies acm')"
proof -
  let ?root = "pm_Name (pt_Metadata pgt)"
  from assms obtain p sel fs1 acm1 ps where
    p: "convertPGTPolicyToACMPGPolicy (cv_fu C) fs pgt baseDir inputFile ?root n outputDir [] = Inr p"
    and pl: "placePolicies C outputDir baseDir inputFile wa (pg_Name p) sel fs
      (convertSimpleMiscellaneousFields pgt (acm\<lparr>acm_Policies := acm_Policies acm @ [p]\<rparr>) ?root) = Inr (fs1, acm1)"
    and o: "overManifests (RenderPatchesInManifestForSpecifiedKindsAndMCP C pgt baseDir inputFile outputDir schema pre crs)
      fs1 (acm_Policies acm1) = Inr (fs', ps)" and acm': "acm' = acm1\<lparr>acm_Policies := ps\<rparr>"
    unfolding convertPolicy_def by (auto simp: bind_res_Inr_iff map_error_Inr_iff Let_def)
  note a = placePolicies_Inr [OF pl, of pgt]
  show "acmHeader pgt acm'" using a acmHeader_misc by (simp add: acm')
  assume "list_all2 (policyOf pgt (rendered schema pre)) ns (acm_Policies acm)"
  then have "list_all2 (policyOf pgt (rendered schema pre)) (ns @ [n]) (acm_Policies acm1)"
    using a newPolicy_policyOf [OF p] by (simp add: list_all2_appendI)
  from overManifests_keeps [OF o this]
  show "list_all2 (policyOf pgt (rendered schema pre)) (ns @ [n]) (acm_Policies acm')" by (simp add: acm')
qed

lemma convertPolicies_Inr:
  assumes "fold_res (convertPolicy C pgt outputDir baseDir inputFile schema pre crs wa) (fs, zeroACMPG) ns = Inr (fs', acm)"
  shows "list_all2 (policyOf pgt (rendered schema pre)) ns (acm_Policies acm)"
    and "if ns = [] then acm = zeroACMPG else acmHeader pgt acm"
proof -
  let ?P = "\<lambda>ns st. list_all2 (policyOf pgt (rendered schema pre)) ns (acm_Policies (snd st)) \<and>
      (if ns = [] then snd st = zeroACMPG else acmHeader pgt (snd st))"
  have "?P ([] @ ns) (fs', acm)"
  proof (rule fold_res_prefix_invariant [OF assms, where P = ?P])
    show "?P [] (fs, zeroACMPG)" by (simp add: zeroACMPG_def)
    fix pre' n st t
    assume i: "?P pre' st" and c: "convertPolicy C pgt outputDir baseDir inputFile schema pre crs wa st n = Inr t"
    obtain f1 a1 f2 a2 where st: "st = (f1, a1)" "t = (f2, a2)" by (cases st, cases t)
    from convertPolicy_Inr [OF c [unfolded st]] i show "?P (pre' @ [n]) t" by (simp add: st)
  qed
  then show "list_all2 (policyOf pgt (rendered schema pre)) ns (acm_Policies acm)"
    and "if ns = [] then acm = zeroACMPG else acmHeader pgt acm" by (simp_all split: if_splits)
qed

text \<open>What the output may hold for a source file: without a schema its patches, with one and without pre-rendering its
  patches with merge keys injected, and the path of the schema in every manifest with patches.\<close>

definition outManifest :: "string \<Rightarrow> bool \<Rightarrow> SourceFile \<Rightarrow> Manifest \<Rightarrow> bool" where
  "outManifest schema pre sf m \<longleftrightarrow>
     (schema = [] \<longrightarrow> mf_Patches m = sourcePatches sf) \<and>
     (\<not> pre \<longrightarrow> (\<exists>mergeKeys sourceCR. mf_Patches m = map (injectAll mergeKeys sourceCR) (sourcePatches sf))) \<and>
     (sourcePatches sf = [] \<longrightarrow> mf_Patches m = []) \<and>
     (schema \<noteq> [] \<and> mf_Patches m \<noteq> [] \<longrightarrow> fp_Path (mf_OpenAPI m) = schemaFileName)"

lemma injectAll_Nil: "map (injectAll [] sourceCR) ps = ps"
  by (simp add: injectAll_def map_idI)

lemma InjectMergeKeys_Inr:
  "InjectMergeKeys unmarshal fs ps path mergeKeys = Inr qs \<Longrightarrow> \<exists>mergeKeys sourceCR. qs = map (injectAll mergeKeys sourceCR) ps"
  by (auto simp: InjectMergeKeys_def bind_res_Inr_iff injectAll_Nil intro: exI [of _ "[]"] split: if_splits sum.splits)

lemma injectManifest_patches:
  "\<exists>mergeKeys sourceCR. mf_Patches (injectManifest C fs outputFile mergeKeyMap m) = map (injectAll mergeKeys sourceCR) (mf_Patches m)"
  "mf_Patches (injectManifest C fs outputFile mergeKeyMap m) \<noteq> [] \<Longrightarrow>
     fp_Path (mf_OpenAPI (injectManifest C fs outputFile mergeKeyMap m)) = schemaFileName"
  by (auto simp: injectManifest_def Let_def injectAll_Nil intro: exI [of _ "[]"] dest: InjectMergeKeys_Inr
      split: option.splits sum.splits)

lemma rendered_outManifest:
  "rendered [] pre sf m \<Longrightarrow> outManifest [] pre sf m"
  "schema \<noteq> [] \<Longrightarrow> rendered schema pre sf m \<Longrightarrow> outManifest schema pre sf (injectManifest C fs outputFile mergeKeyMap m)"
  using injectManifest_patches [of C fs outputFile mergeKeyMap m]
  by (auto simp: rendered_def outManifest_def injectAll_Nil intro: exI [of _ "[]"] split: if_splits)

lemma policyOf_mono: "policyOf pgt R n p \<Longrightarrow> (\<And>sf m. R sf m \<Longrightarrow> Q sf (f m)) \<Longrightarrow>
    policyOf pgt Q n (p\<lparr>pg_Manifests := map f (pg_Manifests p)\<rparr>)"
  by (auto simp: policyOf_def list_all2_map2 elim: list_all2_mono)

lemma applySchema_Inr:
  assumes "(if schema \<noteq> [] then applySchema C fs schema outputFile acm else Inr (fs, acm)) = Inr (fs', acm')"
    and "list_all2 (policyOf pgt (rendered schema pre)) ns (acm_Policies acm)"
  shows "list_all2 (policyOf pgt (outManifest schema pre)) ns (acm_Policies acm')"
    and "acmHeader pgt acm' = acmHeader pgt acm" and "acm = zeroACMPG \<Longrightarrow> acm' = zeroACMPG"
proof -
  have "list_all2 (policyOf pgt (outManifest schema pre)) ns (acm_Policies acm') \<and>
      acmHeader pgt acm' = acmHeader pgt acm \<and> (acm = zeroACMPG \<longrightarrow> acm' = zeroACMPG)"
  proof (cases "schema = []")
    case True
    have "policyOf pgt (outManifest [] pre) n p" if "policyOf pgt (rendered [] pre) n p" for n p
      using policyOf_mono [OF that, of "outManifest [] pre" "\<lambda>m. m"] rendered_outManifest(1) by simp
    with assms True show ?thesis by (auto elim: list_all2_mono)
  next
    case False
    with assms(1) obtain keyMap where acm': "acm' = acm\<lparr>acm_Policies :=
        map (\<lambda>p. p\<lparr>pg_Manifests := map (injectManifest C fs outputFile keyMap) (pg_Manifests p)\<rparr>) (acm_Policies acm)\<rparr>"
      by (auto simp: applySchema_def Let_def bind_res_Inr_iff)
    have "policyOf pgt (outManifest schema pre) n (p\<lparr>pg_Manifests := map (injectManifest C fs outputFile keyMap) (pg_Manifests p)\<rparr>)"
      if "policyOf pgt (rendered schema pre) n p" for n p
      by (rule policyOf_mono [OF that]) (rule rendered_outManifest(2) [OF False])
    with assms(2) show ?thesis by (auto simp: acm' list_all2_map2 zeroACMPG_def elim: list_all2_mono)
  qed
  then show "list_all2 (policyOf pgt (outManifest schema pre)) ns (acm_Policies acm')"
    and "acmHeader pgt acm' = acmHeader pgt acm" and "acm = zeroACMPG \<Longrightarrow> acm' = zeroACMPG" by simp_all
qed

lemma writeBelow_read: "writeBelow fs p s = Inr fs' \<Longrightarrow> readOpt fs' p = Some s"
  by (auto simp: writeBelow_def os_WriteFile_Inr split: sum.splits dest: fstore.read_back)

text \<open>The conversion of a policy on every branch without an error; the wave is the one of the last manifest, whatever the
  waves of the other manifests are.\<close>

lemma convertPGTPolicy_last:
  assumes "forceWave = [] \<longrightarrow> Rel baseDir (Dir pgtPath) = Some rel"
    and "policyFiles pgt policyName \<noteq> []"
    and "\<forall>sf\<in>set (policyFiles pgt policyName). pf_FileName sf \<noteq> [] \<and>
      (forceWave = [] \<longrightarrow> GetAnnotationsOnly Y fs (JoinPath [outputDir, rel, newManifestPath sf]) = Inr (ann sf))"
  shows "\<exists>p. convertPGTPolicyToACMPGPolicy Y fs pgt baseDir pgtPath rootName policyName outputDir forceWave = Inr p \<and>
    pg_Name p = rootName @ ''-'' @ policyName \<and>
    pg_Manifests p = map newManifest (policyFiles pgt policyName) \<and>
    po_PolicyAnnotations (pg_PolicyOptions p) =
      [(waveAnnotationKey, givenWave forceWave (ann (last (policyFiles pgt policyName))))] \<and>
    co_EvaluationInterval (pg_ConfigurationPolicyOptions p) =
      \<lparr>ei_Compliant = lastSet [] (map (\<lambda>sf. ei_Compliant (pf_EvaluationInterval sf)) (policyFiles pgt policyName)),
       ei_NonCompliant = lastSet [] (map (\<lambda>sf. ei_NonCompliant (pf_EvaluationInterval sf)) (policyFiles pgt policyName))\<rparr>"
proof -
  let ?start = "zeroPolicyConfig\<lparr>pg_Name := rootName @ ''-'' @ policyName\<rparr>"
  let ?p = "foldl (\<lambda>p sf. addFile (givenWave forceWave (ann sf)) p sf) ?start (policyFiles pgt policyName)"
  have "convertPGTPolicyToACMPGPolicy Y fs pgt baseDir pgtPath rootName policyName outputDir forceWave = Inr ?p"
    unfolding convertPGTPolicyToACMPGPolicy_def policyFiles_def
    by (rule fold_convertSourceFile [OF assms(1)]) (use assms(3) in \<open>simp add: policyFiles_def\<close>)
  moreover have "po_PolicyAnnotations (pg_PolicyOptions ?start) = []"
    "co_EvaluationInterval (pg_ConfigurationPolicyOptions ?start) = \<lparr>ei_Compliant = [], ei_NonCompliant = []\<rparr>"
    "pg_Manifests ?start = []"
    by (simp_all add: zeroPolicyConfig_def zeroPolicyOptions_def zeroConfigurationPolicyOptions_def zeroInterval_def)
  ultimately show ?thesis
    using foldl_addFile_manifests [of "\<lambda>sf. givenWave forceWave (ann sf)" ?start "policyFiles pgt policyName"]
      foldl_addFile_wave [OF assms(2), of ?start "\<lambda>sf. givenWave forceWave (ann sf)"]
      foldl_addFile_interval [of "\<lambda>sf. givenWave forceWave (ann sf)" ?start "policyFiles pgt policyName"] by simp
qed

section \<open>Properties\<close>

text \<open>C16. A policy of a PolicyGenTemplate becomes one ACM policy: when every source file of the policy has a name and,
  unless the wave is forced, the template's relative path exists and the files have readable manifests, the conversion succeeds; the
  policy has one manifest per source file of that name, in order, with the file's path below
  \<^verbatim>\<open>source-crs\<close> and a patch of the file's metadata, spec and status; a forced wave is the policy's wave; otherwise, when the manifests have the same deploy
  wave, as the documentation requires, it is the policy's wave, which is that of the first manifest (empty when they have
  none); and each evaluation interval is the last one that a file sets.\<close>

theorem convertPGTPolicy_maps_files:
  assumes "forceWave = [] \<longrightarrow> Rel baseDir (Dir pgtPath) = Some rel"
    and "policyFiles pgt policyName \<noteq> []"
    and "\<forall>sf\<in>set (policyFiles pgt policyName). pf_FileName sf \<noteq> [] \<and>
      (forceWave = [] \<longrightarrow> GetAnnotationsOnly Y fs (JoinPath [outputDir, rel, newManifestPath sf]) = Inr (ann sf))"
  shows "\<exists>p. convertPGTPolicyToACMPGPolicy Y fs pgt baseDir pgtPath rootName policyName outputDir forceWave = Inr p \<and>
    pg_Name p = rootName @ ''-'' @ policyName \<and>
    pg_Manifests p = map newManifest (policyFiles pgt policyName) \<and>
    (forceWave \<noteq> [] \<longrightarrow> po_PolicyAnnotations (pg_PolicyOptions p) = [(waveAnnotationKey, forceWave)]) \<and>
    (forceWave = [] \<and>
       (\<forall>sf\<in>set (policyFiles pgt policyName). fileWave (ann sf) = fileWave (ann (hd (policyFiles pgt policyName)))) \<longrightarrow>
      po_PolicyAnnotations (pg_PolicyOptions p) = [(waveAnnotationKey, fileWave (ann (hd (policyFiles pgt policyName))))]) \<and>
    co_EvaluationInterval (pg_ConfigurationPolicyOptions p) =
      \<lparr>ei_Compliant = lastSet [] (map (\<lambda>sf. ei_Compliant (pf_EvaluationInterval sf)) (policyFiles pgt policyName)),
       ei_NonCompliant = lastSet [] (map (\<lambda>sf. ei_NonCompliant (pf_EvaluationInterval sf)) (policyFiles pgt policyName))\<rparr>"
proof -
  have "last (policyFiles pgt policyName) \<in> set (policyFiles pgt policyName)" using assms(2) by simp
  moreover obtain p where
    "convertPGTPolicyToACMPGPolicy Y fs pgt baseDir pgtPath rootName policyName outputDir forceWave = Inr p"
    "pg_Name p = rootName @ ''-'' @ policyName" "pg_Manifests p = map newManifest (policyFiles pgt policyName)"
    "po_PolicyAnnotations (pg_PolicyOptions p) = [(waveAnnotationKey, givenWave forceWave (ann (last (policyFiles pgt policyName))))]"
    "co_EvaluationInterval (pg_ConfigurationPolicyOptions p) =
      \<lparr>ei_Compliant = lastSet [] (map (\<lambda>sf. ei_Compliant (pf_EvaluationInterval sf)) (policyFiles pgt policyName)),
       ei_NonCompliant = lastSet [] (map (\<lambda>sf. ei_NonCompliant (pf_EvaluationInterval sf)) (policyFiles pgt policyName))\<rparr>"
    using convertPGTPolicy_last [OF assms, of rootName] by blast
  ultimately show ?thesis by (intro exI [of _ p]) (simp add: givenWave_def)
qed

definition demoPGT :: PolicyGenTemplate where
  "demoPGT =
     \<lparr>pt_ApiVersion = [], pt_Kind = ''PolicyGenTemplate'',
      pt_Metadata = \<lparr>pm_Annotations = [], pm_Labels = [], pm_Name = ''r'', pm_Namespace = ''ns''\<rparr>,
      pt_Spec = pgtSpecDefaults\<lparr>pp_Mcp := ''m'', pp_SourceFiles :=
        [pgtSourceFileDefaults\<lparr>pf_FileName := ''f'', pf_PolicyName := ''p'', pf_Spec := [(''x'', GInt 1)]\<rparr>]\<rparr>\<rparr>"

definition demoConvFS :: fsys where
  "demoConvFS =
     \<lparr>fs_nodes = [([''in''], NDir), ([''in'', ''t''], NFile ''P''), ([''out''], NDir), ([''out'', ''source-crs''], NDir),
        ([''out'', ''source-crs'', ''f''], NFile ''K'')],
      fs_cwd = ''/'', fs_exe = ''/bin/pgt''\<rparr>"

definition demoFuYaml :: fuYaml where
  "demoFuYaml =
     \<lparr>fy_kind = \<lambda>_. Inr \<lparr>kt_Kind = ''K''\<rparr>, fy_annotations = \<lambda>_. Inr \<lparr>ao_Annotations = [(waveAnnotationKey, ''5'')]\<rparr>,
      fy_unmarshalKust = \<lambda>_. Inr \<lparr>ku_Generators = [], ku_Resources = [], ku_Bases = []\<rparr>, fy_marshalKust = \<lambda>_. Inr []\<rparr>"

lemma demoConv_paths:
  "resolve fs ''/in/t'' = [''in'', ''t'']"
  "resolve fs ''/out/source-crs/f'' = [''out'', ''source-crs'', ''f'']"
  "resolve fs ''/out/acm-t'' = [''out'', ''acm-t'']"
  "resolve fs ''/out'' = [''out'']"
  by (simp_all add: resolve_def IsAbs_def slash_def elems_def Split_def cleanElems_def)

lemma demo_joins:
  "Dir ''/in/t'' = ''/in''" "Dir ''/out/acm-t'' = ''/out''" "Rel ''/in'' ''/in'' = Some ''.''"
  "JoinPath [''/out'', ''.''] = ''/out''" "JoinPath [''/out'', ''source-crs/f''] = ''/out/source-crs/f''"
  "JoinPath [''/out'', ''.'', ''source-crs/f''] = ''/out/source-crs/f''"
  "JoinPath [''source-crs'', ''f''] = ''source-crs/f''"
  "Rel ''/out'' ''/out/source-crs/f'' = Some ''source-crs/f''"
  by (simp_all add: Dir_def dirPart_def Clean_def render_def cleanElems_def elems_def Split_def slash_def IsAbs_def
      Rel_def JoinPath_def)

lemma demo_files:
  "policyFiles demoPGT ''p'' = pp_SourceFiles (pt_Spec demoPGT)" "seenPolicies demoPGT = [''p'']"
  by (simp_all add: policyFiles_def seenPolicies_def demoPGT_def)

lemma demo_annotations:
  "GetAnnotationsOnly demoFuYaml demoConvFS ''/out/source-crs/f'' = Inr \<lparr>ao_Annotations = [(waveAnnotationKey, ''5'')]\<rparr>"
  by (simp add: GetAnnotationsOnly_def readOr_def os_ReadFile_def os_Stat_def demoConv_paths nodeAt_def demoConvFS_def
      demoFuYaml_def)

lemma demo_wave: "fileWave \<lparr>ao_Annotations = [(waveAnnotationKey, ''5'')]\<rparr> = ''5''"
  by (simp add: fileWave_def IsNumber_def Atoi_def splitSign_def isDigit_def digitVal_def natVal_def)

theorem convertPGTPolicy_maps_files_witness:
  "\<exists>p. convertPGTPolicyToACMPGPolicy demoFuYaml demoConvFS demoPGT ''/in'' ''/in/t'' ''r'' ''p'' ''/out'' [] = Inr p \<and>
     pg_Name p = ''r-p'' \<and> map mf_Path (pg_Manifests p) = [''source-crs/f''] \<and>
     po_PolicyAnnotations (pg_PolicyOptions p) = [(waveAnnotationKey, ''5'')]"
proof -
  let ?ann = "\<lambda>_. \<lparr>ao_Annotations = [(waveAnnotationKey, ''5'')]\<rparr>"
  have np: "newManifestPath sf = ''source-crs/f''" if "sf \<in> set (pp_SourceFiles (pt_Spec demoPGT))" for sf
    using that by (auto simp: newManifestPath_def demoPGT_def sourceCrPrefix_def demo_joins)
  have a: "\<forall>sf\<in>set (policyFiles demoPGT ''p''). pf_FileName sf \<noteq> [] \<and>
      GetAnnotationsOnly demoFuYaml demoConvFS (JoinPath [''/out'', ''.'', newManifestPath sf]) = Inr (?ann sf)"
  proof
    fix sf assume sf: "sf \<in> set (policyFiles demoPGT ''p'')"
    have "pf_FileName sf \<noteq> []" using sf unfolding demo_files by (auto simp: demoPGT_def)
    then show "pf_FileName sf \<noteq> [] \<and>
      GetAnnotationsOnly demoFuYaml demoConvFS (JoinPath [''/out'', ''.'', newManifestPath sf]) = Inr (?ann sf)"
      using np sf demo_annotations by (simp add: demo_files demo_joins)
  qed
  have rel: "Rel ''/in'' (Dir ''/in/t'') = Some ''.''" by (simp only: demo_joins)
  have ne: "policyFiles demoPGT ''p'' \<noteq> []" unfolding demo_files by (simp add: demoPGT_def)
  from rel have rel': "[] = ([] :: string) \<longrightarrow> Rel ''/in'' (Dir ''/in/t'') = Some ''.''" by simp
  from a have a': "\<forall>sf\<in>set (policyFiles demoPGT ''p''). pf_FileName sf \<noteq> [] \<and> ([] = ([] :: string) \<longrightarrow>
      GetAnnotationsOnly demoFuYaml demoConvFS (JoinPath [''/out'', ''.'', newManifestPath sf]) = Inr (?ann sf))" by blast
  from convertPGTPolicy_maps_files [OF rel' ne a', where rootName = "''r''"]
  obtain p where c: "convertPGTPolicyToACMPGPolicy demoFuYaml demoConvFS demoPGT ''/in'' ''/in/t'' ''r'' ''p'' ''/out'' [] = Inr p"
    and n: "pg_Name p = ''r'' @ ''-'' @ ''p''" and m: "pg_Manifests p = map newManifest (policyFiles demoPGT ''p'')"
    and w: "po_PolicyAnnotations (pg_PolicyOptions p) =
      [(waveAnnotationKey, fileWave \<lparr>ao_Annotations = [(waveAnnotationKey, ''5'')]\<rparr>)]"
    by (elim exE conjE) (rule that; (assumption | (erule mp, simp)))
  have "map mf_Path (pg_Manifests p) = [''source-crs/f'']"
    using np by (simp add: m demo_files newManifest_def newManifestAt_def comp_def) (simp add: demoPGT_def)
  with c n w show ?thesis by (intro exI [of _ p]) (simp only: demo_wave append.simps simp_thms)
qed

text \<open>C17. What a converted template contains, for any schema and flags: after a successful conversion the
  output file holds the text of an ACM configuration, with \<^verbatim>\<open>$mcp\<close> replaced, whose policies are the
  policy names of the template in sorted order, each exactly once, with one manifest for each of the policy's
  source files in order. Without a schema a manifest has the patches of its source file; with a schema and without
  pre-rendering these patches with merge keys injected; with pre-rendering they can be replaced, but a file without patches
  stays without; and with a schema every manifest with patches names the schema. For a template with at least one source file the
  name, namespace and default intervals are the template's; a template without source files is converted to the empty
  configuration. The template's namespace is recorded.\<close>

theorem convertPGTtoACM_output:
  assumes "convertPGTtoACM C outputDir baseDir inputFile outputFile schema pre crs wa (fs, nss) = Inr (fs', nss')"
    and "os_ReadFile fs inputFile = Inr content" and "cv_unmarshalPGT C content = Inr pgt"
  shows "\<exists>acm out. cv_marshalACMPG C acm = Inr out \<and>
    os_ReadFile fs' outputFile = Inr (ReplaceAll (yamlMark @ out) ''$mcp'' (pp_Mcp (pt_Spec pgt))) \<and>
    list_all2 (\<lambda>n p. pg_Name p = pm_Name (pt_Metadata pgt) @ ''-'' @ n \<and>
        list_all2 (outManifest schema pre) (policyFiles pgt n) (pg_Manifests p))
      (sort (remdups (map pf_PolicyName (pp_SourceFiles (pt_Spec pgt))))) (acm_Policies acm) \<and>
    (if pp_SourceFiles (pt_Spec pgt) = [] then acm = zeroACMPG else acmHeader pgt acm) \<and>
    nss' = mput nss (pm_Namespace (pt_Metadata pgt)) True"
proof -
  from assms obtain fs1 acm0 fs2 acm where
    f: "fold_res (convertPolicy C pgt outputDir baseDir inputFile schema pre crs wa) (fs, zeroACMPG) (seenPolicies pgt) = Inr (fs1, acm0)"
    and sc: "(if schema \<noteq> [] then applySchema C fs1 schema outputFile acm0 else Inr (fs1, acm0)) = Inr (fs2, acm)"
    and w: "writeConvertedTemplateToFile C fs2 pgt acm outputFile = Inr fs'"
    and n: "nss' = mput nss (pm_Namespace (pt_Metadata pgt)) True"
    unfolding convertPGTtoACM_def by (auto simp: bind_res_Inr_iff map_error_Inr_iff readOr_Inr)
  from w obtain out where t: "cv_marshalACMPG C acm = Inr out"
    and b: "writeBelow fs2 outputFile (ReplaceAll (yamlMark @ out) ''$mcp'' (pp_Mcp (pt_Spec pgt))) = Inr fs'"
    unfolding writeConvertedTemplateToFile_def bind_res_Inr_iff map_error_Inr_iff by blast
  note ps = convertPolicies_Inr [OF f]
  note out = applySchema_Inr [OF sc ps(1)]
  have "seenPolicies pgt = [] \<longleftrightarrow> pp_SourceFiles (pt_Spec pgt) = []"
    unfolding seenPolicies_def by (metis map_is_Nil_conv mset_sort mset_zero_iff remdups_eq_nil_iff)
  then have "if pp_SourceFiles (pt_Spec pgt) = [] then acm = zeroACMPG else acmHeader pgt acm"
    using ps(2) out(2,3) by (simp split: if_splits)
  moreover have "os_ReadFile fs' outputFile = Inr (ReplaceAll (yamlMark @ out) ''$mcp'' (pp_Mcp (pt_Spec pgt)))"
    using writeBelow_read [OF b] by (simp only: os_ReadFile_Inr)
  ultimately show ?thesis
    using t n out(1) unfolding policyOf_def [abs_def] seenPolicies_def by blast
qed

definition demoConv :: convEnv where
  "demoConv =
     \<lparr>cv_fu = demoFuYaml,
      cv_kust = \<lparr>ke_marshal = \<lambda>_. Inr [], ke_marshalKust = \<lambda>_. Inr [], ke_Run = \<lambda>_ _. Inr [], ke_AsYaml = \<lambda>_. Inr [],
        ke_decode = \<lambda>_. ([GMap []], None)\<rparr>,
      cv_label = \<lparr>le_generic = \<lambda>_. Inr []\<rparr>,
      cv_unmarshalPGT = \<lambda>_. Inr demoPGT, cv_marshalACMPG = \<lambda>_. Inr ''A'', cv_marshalPlacement = \<lambda>_. Inr [],
      cv_decodeSchema = \<lambda>_. Inr \<lparr>oa_Definitions = []\<rparr>, cv_unmarshalMap = \<lambda>_. Inr [],
      cv_kind = \<lambda>_. Inr \<lparr>kt_Kind = []\<rparr>, cv_RunOnDisk = \<lambda>_ _. Inr []\<rparr>"

definition demoConvFS2 :: fsys where
  "demoConvFS2 = setNode [''out'', ''source-crs'', ''f''] (NFile ''K'') (setNode [''out'', ''source-crs'', ''f''] (NFile ''K'') demoConvFS)"

lemma demoConvFS_nodes:
  "nodeAt demoConvFS [''out''] = Some NDir" "nodeAt demoConvFS [''out'', ''source-crs'', ''f''] = Some (NFile ''K'')"
  "nodeAt demoConvFS [''in'', ''t''] = Some (NFile ''P'')" "nodeAt demoConvFS [''out'', ''acm-t''] = None"
  by (simp_all add: nodeAt_def demoConvFS_def)

lemma demo_comment: "commentOutText ''K'' = ''K''"
  by (simp add: commentOutText_def Split_def newline_def commentOutLines_def commentStep_def
      listItemScalarPlaceholderPattern_def scalarPlaceholderPattern_def barePlaceholderPattern_def
      listItemPlaceholderPattern_def keyThenVariable_def skipWs_def isWs_def)

lemma demo_render: "RenderMCPLines demoConvFS ''/out/source-crs/f'' ''m'' = Inr (demoConvFS2, ''/out/source-crs/f'')"
proof -
  have "\<not> Contains ''K'' mcpPattern" by (simp add: mcpPattern_def)
  then show ?thesis
    by (simp add: RenderMCPLines_def readOr_def os_ReadFile_def os_Stat_def demoConv_paths demoConvFS_nodes writeOr_def
        os_WriteFile_def Let_def CommentOutLinesWithPlaceholders_def demo_comment demoConvFS2_def
        del: Contains.simps ReplaceAll.simps)
qed

lemma demoConvFS2_nodes:
  "nodeAt demoConvFS2 [''out'', ''source-crs'', ''f''] = Some (NFile ''K'')" "nodeAt demoConvFS2 [''out''] = Some NDir"
  "nodeAt demoConvFS2 [''out'', ''acm-t''] = None"
  by (simp_all add: demoConvFS2_def demoConvFS_nodes)

lemma demo_env:
  "cv_fu demoConv = demoFuYaml" "ke_decode (cv_kust demoConv) t = ([GMap []], None)"
  "le_generic (cv_label demoConv) l = Inr []"
  "cv_unmarshalPGT demoConv t = Inr demoPGT" "cv_marshalACMPG demoConv a = Inr ''A''"
  by (simp_all add: demoConv_def)

lemma demo_manifest:
  "RenderPatchesInManifestForSpecifiedKindsAndMCP demoConv demoPGT ''/in'' ''/in/t'' ''/out'' [] False [] demoConvFS
     (m\<lparr>mf_Path := ''source-crs/f''\<rparr>) = Inr (demoConvFS2, m\<lparr>mf_Path := ''source-crs/f''\<rparr>)"
proof -
  have mcp: "pp_Mcp (pt_Spec demoPGT) = ''m''" by (simp add: demoPGT_def)
  have "GetTemplatePaths ''/in'' ''/in/t'' ''/out'' = Inr (''.'', ''/out'')"
    by (simp add: GetTemplatePaths_def demo_joins)
  moreover have "UnmarshalManifestFile (cv_kust demoConv) demoConvFS2 ''/out/source-crs/f'' = Inr [[]]"
    by (simp add: UnmarshalManifestFile_def readOr_def os_ReadFile_def os_Stat_def demoConv_paths demoConvFS2_nodes
        unmarshalManifestBytes_def demo_env)
  moreover have "GetManifestKind demoFuYaml demoConvFS2 ''/out/source-crs/f'' = Inr \<lparr>kt_Kind = ''K''\<rparr>"
    by (simp add: GetManifestKind_def readOr_def os_ReadFile_def os_Stat_def demoConv_paths demoConvFS2_nodes demoFuYaml_def)
  ultimately show ?thesis
    unfolding RenderPatchesInManifestForSpecifiedKindsAndMCP_def
    by (simp add: demo_joins demo_render demo_env StringInSlice_def mcp)
qed

lemma demoConv_policy:
  "\<exists>p. convertPGTPolicyToACMPGPolicy demoFuYaml demoConvFS demoPGT ''/in'' ''/in/t'' ''r'' ''p'' ''/out'' [] = Inr p \<and>
     (\<exists>m. pg_Manifests p = [m\<lparr>mf_Path := ''source-crs/f''\<rparr>])"
proof -
  obtain sf where sf: "pp_SourceFiles (pt_Spec demoPGT) = [sf]" "pf_PolicyName sf = ''p''" "pf_FileName sf = ''f''"
    by (simp add: demoPGT_def)
  have np: "newManifestPath sf = ''source-crs/f''" by (simp add: newManifestPath_def sf sourceCrPrefix_def demo_joins)
  have rel: "Rel ''/in'' (Dir ''/in/t'') = Some ''.''" by (simp only: demo_joins)
  have "convertSourceFile demoFuYaml demoConvFS demoPGT ''/in'' ''/in/t'' ''p'' ''/out'' [] q sf = Inr (addFile
      (givenWave [] \<lparr>ao_Annotations = [(waveAnnotationKey, ''5'')]\<rparr>) q sf)" for q
    by (rule convertSourceFile_addFile [OF sf(2), where rel = "''.''"]) (simp_all add: sf np demo_joins demo_annotations)
  moreover have "newManifest sf = (newManifest sf)\<lparr>mf_Path := ''source-crs/f''\<rparr>"
    by (simp add: newManifest_def newManifestAt_def np)
  ultimately show ?thesis
    by (simp add: convertPGTPolicyToACMPGPolicy_def sf(1) zeroPolicyConfig_def del: ex_simps) blast
qed

theorem convertPGTtoACM_output_witness:
  "\<exists>fs'. convertPGTtoACM demoConv ''/out'' ''/in'' ''/in/t'' ''/out/acm-t'' [] False [] False (demoConvFS, []) =
       Inr (fs', [(''ns'', True)]) \<and> os_ReadFile fs' ''/out/acm-t'' = Inr (yamlMark @ ''A'')"
proof -
  let ?run = "convertPGTtoACM demoConv ''/out'' ''/in'' ''/in/t'' ''/out/acm-t'' [] False [] False (demoConvFS, [])"
  have pgt: "pm_Name (pt_Metadata demoPGT) = ''r''" "pm_Namespace (pt_Metadata demoPGT) = ''ns''"
    "pp_Mcp (pt_Spec demoPGT) = ''m''" by (simp_all add: demoPGT_def)
  obtain p m where p: "convertPGTPolicyToACMPGPolicy demoFuYaml demoConvFS demoPGT ''/in'' ''/in/t'' ''r'' ''p'' ''/out'' [] = Inr p"
    and m: "pg_Manifests p = [m\<lparr>mf_Path := ''source-crs/f''\<rparr>]" using demoConv_policy by (elim exE conjE) (rule that)
  have "OutputGeneric (cv_label demoConv) [] = Inr []"
    using ParseToRequirements_String [of "[]"] by (simp add: OutputGeneric_def ParseToLabelSelector_def demo_env)
  moreover have "LabelToSelector (pp_BindingRules (pt_Spec demoPGT)) (pp_BindingExcludedRules (pt_Spec demoPGT)) = []"
    by (simp add: demoPGT_def pgtSpecDefaults_def LabelToSelector_def addRequirements_def)
  ultimately have "\<exists>acm. convertPolicy demoConv demoPGT ''/out'' ''/in'' ''/in/t'' [] False [] False (demoConvFS, zeroACMPG) ''p'' =
      Inr (demoConvFS2, acm)"
    by (simp add: convertPolicy_def demo_env pgt p placePolicies_def overManifests_def m demo_manifest zeroACMPG_def)
  then obtain acm where c: "convertPolicy demoConv demoPGT ''/out'' ''/in'' ''/in/t'' [] False [] False (demoConvFS, zeroACMPG) ''p'' =
      Inr (demoConvFS2, acm)" by (elim exE)
  have rd: "os_ReadFile demoConvFS ''/in/t'' = Inr ''P''"
    by (simp add: os_ReadFile_def os_Stat_def demoConv_paths demoConvFS_nodes)
  have mk: "os_MkdirAll demoConvFS2 ''/out'' = Inr demoConvFS2"
    by (simp add: os_MkdirAll_Inr demoConv_paths upTo_def parents_def addDir_def demoConvFS2_nodes)
  have rp: "ReplaceAll (yamlMark @ ''A'') ''$mcp'' ''m'' = yamlMark @ ''A''"
    by (simp add: yamlMark_def newline_def)
  have "\<exists>fs'. ?run = Inr (fs', [(''ns'', True)])"
    by (simp add: convertPGTtoACM_def readOr_def rd demo_env demo_files c pgt writeConvertedTemplateToFile_def rp
        writeBelow_def demo_joins mk os_WriteFile_def Let_def demoConv_paths demoConvFS2_nodes
        del: ReplaceAll.simps ex_Inr_is_ok)
  then obtain fs' where r: "?run = Inr (fs', [(''ns'', True)])" by (elim exE)
  from convertPGTtoACM_output [OF r rd demo_env(4)]
  obtain out where o: "Inr ''A'' = (Inr out :: string res)"
    and f: "os_ReadFile fs' ''/out/acm-t'' = Inr (ReplaceAll (yamlMark @ out) ''$mcp'' ''m'')"
    unfolding demo_env pgt by (elim exE conjE) (rule that)
  have "out = ''A''" using o by simp
  with f rp have "os_ReadFile fs' ''/out/acm-t'' = Inr (yamlMark @ ''A'')" by (simp only:)
  with r show ?thesis by (intro exI [of _ fs'] conjI)
qed

end
