(* ===== verification/SiteTypes.thy ===== *)
theory SiteTypes
  imports Placeholders GoValue GoNumbers
begin

text \<open>
  The data of \<^verbatim>\<open>siteconfig-converter\<close>: the SiteConfig structs of \<^verbatim>\<open>main.go\<close> and the ClusterInstance and
  Kustomization structs of \<^verbatim>\<open>convert.go\<close>, one record per struct. A pointer field is an \<open>option\<close>; a map
  field is the map itself, since a nil map reads, and is written by \<^verbatim>\<open>omitempty\<close>, like an empty one.
  The string types \<^verbatim>\<open>CPUPartitioningMode\<close> and \<^verbatim>\<open>IronicInspect\<close> are strings.
\<close>

type_synonym strMap = "(string, string) gomap"
type_synonym strMaps = "(string, strMap) gomap"

section \<open>SiteConfig\<close>

record CrAnnotations =
  ca_Add :: strMaps

record BiosConfigRef =
  bc_FilePath :: string

record Filter =
  fi_InclusionDefault :: "string option"
  fi_Exclude :: "string list"
  fi_Include :: "string list"

record ExtraManifests =
  em_SearchPaths :: "string list option"
  em_Filter :: "Filter option"

record SiteConfigMap =
  sm_Name :: string
  sm_Namespace :: string
  sm_Data :: strMap

record ClusterNetwork =
  cn_CIDR :: string
  cn_HostPrefix :: int

record MachineNetworkEntry =
  mn_CIDR :: string

record TangServer =
  ts_URL :: string
  ts_Thumbprint :: string

record DiskEncryption =
  de_Type :: string
  de_Tang :: "TangServer list"
  de_PCRList :: string

record Proxy =
  px_HTTPProxy :: string
  px_HTTPSProxy :: string
  px_NoProxy :: string

record NetworkInterface =
  ni_Name :: string
  ni_MacAddress :: string

record NodeNetwork =
  nn_Config :: gmap
  nn_Interfaces :: "NetworkInterface list"

record Partition =
  pn_MountPoint :: string
  pn_Size :: int
  pn_Start :: int
  pn_FileSystemFormat :: string
  pn_MountFileName :: string
  pn_Label :: string
  pn_Encryption :: bool

record DiskPartition =
  dp_Device :: string
  dp_Partitions :: "Partition list"

record Node =
  nd_BmcAddress :: string
  nd_BootMACAddress :: string
  nd_AutomatedCleaningMode :: string
  nd_RootDeviceHints :: gmap
  nd_Cpuset :: string
  nd_NodeNetwork :: NodeNetwork
  nd_NodeLabels :: strMap
  nd_HostName :: string
  nd_BmcCredentialsName :: string
  nd_BootMode :: string
  nd_UserData :: gmap
  nd_InstallerArgs :: string
  nd_IgnitionConfigOverride :: string
  nd_Role :: string
  nd_CrTemplates :: strMap
  nd_CrAnnotations :: CrAnnotations
  nd_CrSuppression :: "string list"
  nd_BiosConfigRef :: BiosConfigRef
  nd_DiskPartition :: "DiskPartition list"
  nd_IronicInspect :: string

record Cluster =
  cl_ApiVIP :: string
  cl_IngressVIP :: string
  cl_ApiVIPs :: "string list"
  cl_IngressVIPs :: "string list"
  cl_ClusterName :: string
  cl_HoldInstallation :: bool
  cl_AdditionalNTPSources :: "string list"
  cl_Nodes :: "Node list"
  cl_MachineNetwork :: "MachineNetworkEntry list"
  cl_ServiceNetwork :: "string list"
  cl_ClusterLabels :: strMap
  cl_NetworkType :: string
  cl_InstallConfigOverrides :: string
  cl_ClusterNetwork :: "ClusterNetwork list"
  cl_IgnitionConfigOverride :: string
  cl_DiskEncryption :: DiskEncryption
  cl_Proxy :: Proxy
  cl_ExtraManifestPath :: string
  cl_ClusterImageSetNameRef :: string
  cl_BiosConfigRef :: BiosConfigRef
  cl_ExtraManifests :: ExtraManifests
  cl_CPUPartitioningMode :: string
  cl_SiteConfigMap :: SiteConfigMap
  cl_PlatformType :: string
  cl_CPUArchitecture :: string
  cl_ExtraManifestOnly :: bool
  cl_NumMasters :: nat
  cl_NumWorkers :: nat
  cl_ClusterType :: string
  cl_CrTemplates :: strMap
  cl_CrAnnotations :: CrAnnotations
  cl_CrSuppression :: "string list"
  cl_ManifestsConfigMapRefs :: "string list"
  cl_MergeDefaultMachineConfigs :: bool

record Spec =
  sp_PullSecretRef :: string
  sp_ClusterImageSetNameRef :: string
  sp_SshPublicKey :: string
  sp_SshPrivateKeySecretRef :: string
  sp_Clusters :: "Cluster list"
  sp_BaseDomain :: string
  sp_CrTemplates :: strMap
  sp_CrAnnotations :: CrAnnotations
  sp_BiosConfigRef :: BiosConfigRef

record Metadata =
  mt_Name :: string
  mt_Namespace :: string
  mt_Labels :: strMap

record SiteConfig =
  si_ApiVersion :: string
  si_Kind :: string
  si_Metadata :: Metadata
  si_Spec :: Spec

section \<open>ClusterInstance\<close>

record ResourceRef =
  rr_APIVersion :: string
  rr_Kind :: string

record HostRef =
  hr_Name :: string
  hr_Namespace :: string

record LocalObjectReference =
  lo_Name :: string

record ReinstallSpec =
  ri_Generation :: string
  ri_PreservationMode :: string

record ClusterNetworkEntry =
  ce_CIDR :: string
  ce_HostPrefix :: int

record ServiceNetworkEntry =
  se_CIDR :: string

record ClusterInstanceTangServer =
  ct_URL :: string
  ct_Thumbprint :: string

record ClusterInstanceDiskEncryption =
  cd_Type :: string
  cd_Tang :: "ClusterInstanceTangServer list"

record ClusterInstanceProxy =
  cp_HTTPProxy :: string
  cp_HTTPSProxy :: string
  cp_NoProxy :: string

record TemplateRef =
  tr_Name :: string
  tr_Namespace :: string

record ClusterInstanceNetworkInterface =
  cf_Name :: string
  cf_MacAddress :: string

record ClusterInstanceNodeNetwork =
  ck_Config :: gmap
  ck_Interfaces :: "ClusterInstanceNetworkInterface list"

record ClusterInstanceNode =
  cin_BmcAddress :: string
  cin_BmcCredentialsName :: string
  cin_BootMACAddress :: string
  cin_AutomatedCleaningMode :: string
  cin_RootDeviceHints :: gmap
  cin_NodeNetwork :: "ClusterInstanceNodeNetwork option"
  cin_NodeLabels :: strMap
  cin_HostName :: string
  cin_HostRef :: "HostRef option"
  cin_CPUArchitecture :: string
  cin_BootMode :: string
  cin_InstallerArgs :: string
  cin_IgnitionConfigOverride :: string
  cin_Role :: string
  cin_ExtraAnnotations :: strMaps
  cin_ExtraLabels :: strMaps
  cin_SuppressedManifests :: "string list"
  cin_PruneManifests :: "ResourceRef list"
  cin_IronicInspect :: string
  cin_TemplateRefs :: "TemplateRef list"

record ClusterInstanceSpec =
  cis_ClusterName :: string
  cis_PullSecretRef :: LocalObjectReference
  cis_ClusterImageSetNameRef :: string
  cis_SshPublicKey :: string
  cis_BaseDomain :: string
  cis_ApiVIPs :: "string list"
  cis_IngressVIPs :: "string list"
  cis_HoldInstallation :: bool
  cis_AdditionalNTPSources :: "string list"
  cis_MachineNetwork :: "MachineNetworkEntry list"
  cis_ClusterNetwork :: "ClusterNetworkEntry list"
  cis_ServiceNetwork :: "ServiceNetworkEntry list"
  cis_NetworkType :: string
  cis_PlatformType :: string
  cis_ExtraAnnotations :: strMaps
  cis_ExtraLabels :: strMaps
  cis_InstallConfigOverrides :: string
  cis_IgnitionConfigOverride :: string
  cis_DiskEncryption :: "ClusterInstanceDiskEncryption option"
  cis_Proxy :: "ClusterInstanceProxy option"
  cis_ExtraManifestsRefs :: "LocalObjectReference list"
  cis_SuppressedManifests :: "string list"
  cis_PruneManifests :: "ResourceRef list"
  cis_CPUPartitioningMode :: string
  cis_CPUArchitecture :: string
  cis_ClusterType :: string
  cis_TemplateRefs :: "TemplateRef list"
  cis_CaBundleRef :: "LocalObjectReference option"
  cis_Nodes :: "ClusterInstanceNode list"
  cis_Reinstall :: "ReinstallSpec option"

record ClusterInstanceMetadata =
  cim_Name :: string
  cim_Namespace :: string
  cim_Annotations :: strMap

record ClusterInstance =
  ci_ApiVersion :: string
  ci_Kind :: string
  ci_Metadata :: ClusterInstanceMetadata
  ci_Spec :: ClusterInstanceSpec

section \<open>Kustomization\<close>

record ConfigMapGenerator =
  cg_Files :: "string list"
  cg_Name :: string
  cg_Namespace :: string

record GeneratorOptions =
  go_DisableNameSuffixHash :: bool

record SiteKustomization =
  kz_ApiVersion :: string
  kz_Kind :: string
  kz_ConfigMapGenerator :: "ConfigMapGenerator list"
  kz_GeneratorOptions :: GeneratorOptions

definition KustomizationConfigMapGeneratorSnippetFile :: string where
  "KustomizationConfigMapGeneratorSnippetFile = ''kustomization-configMapGenerator-snippet.yaml''"

definition InspectEnabled :: string where "InspectEnabled = ''enabled''"

end
