(* ===== verification/SiteComments.thy ===== *)
theory SiteComments
  imports SiteTypes "HOL-Library.Sublist"
begin

text \<open>
  Comments in \<^verbatim>\<open>siteconfig-converter/convert.go\<close>: collecting the comments of a SiteConfig from the tree of
  \<^verbatim>\<open>yaml.Node\<close>s and inserting them into the text of a ClusterInstance.

  Parsing a text into nodes is the parameter \<open>parseNode\<close>. Go leaves the order of a range over a map
  open: the parameter \<open>visit\<close> is the order in which the collected comments are visited, and \<open>order i\<close>
  the order in which the map of field paths is visited at line \<open>i\<close>. A collector without comments is the
  empty map (\<^verbatim>\<open>AddComment\<close> creates the map).

  The text given to \<open>insertSiteConfigComments\<close> keeps all its lines, in their order; only comment lines are
  added (\<open>insertSiteConfigComments_only_comments\<close>).
\<close>

section \<open>Collecting\<close>

datatype ykind = DocumentNode | MappingNode | SequenceNode | OtherNode

datatype ynode =
  YNode
    (yn_Kind: ykind)
    (yn_Value: string)
    (yn_HeadComment: string)
    (yn_LineComment: string)
    (yn_FootComment: string)
    (yn_Content: "ynode list")

type_synonym comments = strMap

definition AddComment :: "comments \<Rightarrow> string \<Rightarrow> string \<Rightarrow> comments" where
  "AddComment c path comment = mput c path comment"

definition GetComment :: "comments \<Rightarrow> string \<Rightarrow> string" where
  "GetComment c path = mget0 [] c path"

definition addOwnComments :: "string \<Rightarrow> string \<Rightarrow> string \<Rightarrow> string \<Rightarrow> comments \<Rightarrow> comments" where
  "addOwnComments head line foot path c =
     (let c1 = (if head \<noteq> [] then AddComment c path head else c);
          c2 = (if line \<noteq> [] then AddComment c1 (path @ ''_line'') line else c1)
      in if foot \<noteq> [] then AddComment c2 (path @ ''_foot'') foot else c2)"

definition keyPath :: "string \<Rightarrow> string \<Rightarrow> string" where
  "keyPath path key = (if path \<noteq> [] then path @ ''.'' else path) @ key"

definition itemPath :: "string \<Rightarrow> nat \<Rightarrow> string" where
  "itemPath path i = path @ ''['' @ natStr i @ '']''"

definition oddMapping :: go_error where "oddMapping = Panic ''index out of range''"

text \<open>The loops over the children of a document, a mapping and a sequence; a child is given by its
  value and by what extracting from it does.\<close>

type_synonym visit = "string \<Rightarrow> comments \<Rightarrow> comments res"

fun visitChildren :: "(string \<times> visit) list \<Rightarrow> visit" where
  "visitChildren [] path c = Inr c"
| "visitChildren ((_, child) # rest) path c = bind_res (child path c) (visitChildren rest path)"

fun visitPairs :: "(string \<times> visit) list \<Rightarrow> visit" where
  "visitPairs [] path c = Inr c"
| "visitPairs [key] path c = Inl oddMapping"
| "visitPairs ((key, keyVisit) # (_, valueVisit) # rest) path c =
     bind_res (keyVisit (keyPath path key) c) (\<lambda>c1.
     bind_res (valueVisit (keyPath path key) c1) (visitPairs rest path))"

fun visitItems :: "nat \<Rightarrow> (string \<times> visit) list \<Rightarrow> visit" where
  "visitItems i [] path c = Inr c"
| "visitItems i ((_, child) # rest) path c =
     bind_res (child (itemPath path i) c) (visitItems (Suc i) rest path)"

fun extractComments :: "ynode \<Rightarrow> visit" where
  "extractComments (YNode kind val head line foot content) path c =
     (let c1 = addOwnComments head line foot path c;
          visits = map (\<lambda>child. (yn_Value child, \<lambda>p c'. extractComments child p c')) content
      in case kind of
           DocumentNode \<Rightarrow> visitChildren visits path c1
         | MappingNode \<Rightarrow> visitPairs visits path c1
         | SequenceNode \<Rightarrow> visitItems 0 visits path c1
         | OtherNode \<Rightarrow> Inr c1)"

text \<open>\<open>parseNode\<close> gives the contents of the node that \<^verbatim>\<open>yaml.Unmarshal\<close> fills.\<close>

definition parseSiteConfigWithComments :: "(string \<Rightarrow> ynode list res) \<Rightarrow> fsys \<Rightarrow> string \<Rightarrow> comments res" where
  "parseSiteConfigWithComments parseNode fs filename =
     bind_res (readOr (\<lambda>f e. Error (''failed to read file: '' @ pathError ''open'' f e)) fs filename) (\<lambda>content.
     bind_res (map_error (\<lambda>e. ''failed to parse YAML: '' @ e) (parseNode content)) (\<lambda>nodes.
       case nodes of [] \<Rightarrow> Inr [] | node # _ \<Rightarrow> extractComments node [] []))"

section \<open>Inserting\<close>

definition clusterPath :: "nat \<Rightarrow> string \<Rightarrow> string" where
  "clusterPath clusterIndex field = ''spec.clusters['' @ natStr clusterIndex @ ''].'' @ field"

definition globalFields :: "string list" where
  "globalFields = [''baseDomain'', ''pullSecretRef'', ''clusterImageSetNameRef'', ''sshPublicKey'']"

definition clusterFields :: "string list" where
  "clusterFields =
     [''clusterName'', ''networkType'', ''clusterNetwork'', ''machineNetwork'', ''serviceNetwork'',
      ''additionalNTPSources'', ''apiVIP'', ''ingressVIP'', ''apiVIPs'', ''ingressVIPs'', ''holdInstallation'',
      ''installConfigOverrides'', ''ignitionConfigOverride'', ''diskEncryption'', ''proxy'',
      ''cpuPartitioningMode'', ''nodes'']"

definition nodeFieldMappings :: "string list" where
  "nodeFieldMappings =
     [''hostName'', ''bmcAddress'', ''bmcCredentialsName'', ''bootMACAddress'', ''bootMode'', ''role'',
      ''nodeLabels'', ''nodeNetwork'', ''ignitionConfigOverride'', ''installerArgs'', ''ironicInspect'', ''templateRefs'']"

definition nodeMapping :: "nat \<Rightarrow> nat \<Rightarrow> strMap" where
  "nodeMapping clusterIndex i =
     map (\<lambda>f. (clusterPath clusterIndex (''nodes['' @ natStr i @ ''].'' @ f), ''spec.nodes['' @ natStr i @ ''].'' @ f))
       nodeFieldMappings"

definition fieldMapping :: "nat \<Rightarrow> nat \<Rightarrow> strMap" where
  "fieldMapping clusterIndex nodes =
     map (\<lambda>f. (''spec.'' @ f, ''spec.'' @ f)) globalFields @
     map (\<lambda>f. (clusterPath clusterIndex f, ''spec.'' @ f)) clusterFields @
     concat (map (nodeMapping clusterIndex) [0..<nodes])"

definition getFieldName :: "string \<Rightarrow> string" where
  "getFieldName fieldPath = last (Split fieldPath ''.'')"

definition getIndentation :: "string \<Rightarrow> string" where
  "getIndentation line = takeWhile isBlank line"

definition cleanLine :: "string \<Rightarrow> string" where
  "cleanLine s =
     (let clean = TrimSpace s in
      if HasPrefix clean ''#'' then TrimSpace (drop 1 clean) else clean)"

definition isMapped :: "strMap \<Rightarrow> string \<Rightarrow> bool" where
  "isMapped mapping path =
     list_ex (\<lambda>(s, _). path = s \<or> path = s @ ''_line'' \<or> path = s @ ''_foot'') mapping"

definition headerComments :: "strMap \<Rightarrow> comments \<Rightarrow> string list" where
  "headerComments mapping c =
     filter (\<lambda>clean. clean \<noteq> [])
       (map (\<lambda>(path, comment). cleanLine comment)
         (filter (\<lambda>(path, comment). \<not> Contains path ''nodes['' \<and> \<not> isMapped mapping path \<and> comment \<noteq> []) c))"

definition separator :: string where "separator = ''---''"
definition headerTitle :: string where "headerTitle = ''# Comments from original SiteConfig:''"

definition addHeader :: "string list \<Rightarrow> string list \<Rightarrow> string list" where
  "addHeader header lines =
     separator # headerTitle # map (\<lambda>comment. ''# '' @ comment) header @ [''#''] @
     (case lines of [] \<Rightarrow> [] | line # rest \<Rightarrow> if line = separator then rest else line # rest)"

definition fieldComment :: "comments \<Rightarrow> string \<Rightarrow> string" where
  "fieldComment c path =
     (let comment = GetComment c path in
      if comment = [] then GetComment c (path @ ''_line'') else comment)"

definition commentLines :: "string \<Rightarrow> string \<Rightarrow> string list" where
  "commentLines indent comment =
     map (\<lambda>l. indent @ ''# '' @ cleanLine l) (filter (\<lambda>l. l \<noteq> []) (Split (TrimSpace comment) newline))"

text \<open>The inner loop over the field map; each comment goes before the line, after those already
  inserted.\<close>

definition insertAt :: "comments \<Rightarrow> string \<Rightarrow> string list \<times> string list \<Rightarrow> string \<times> string \<Rightarrow> string list \<times> string list" where
  "insertAt c line st m =
     (case (st, m) of ((used, before), (siteConfigPath, clusterInstancePath)) \<Rightarrow>
      if Contains line (getFieldName clusterInstancePath @ '':'') \<and> fieldComment c siteConfigPath \<noteq> [] \<and>
         siteConfigPath \<notin> set used
      then (siteConfigPath # used, before @ commentLines (getIndentation line) (fieldComment c siteConfigPath))
      else (used, before))"

fun insertLines :: "comments \<Rightarrow> (nat \<Rightarrow> strMap) \<Rightarrow> string list \<Rightarrow> nat \<Rightarrow> string list \<Rightarrow> string list" where
  "insertLines c mapping used i [] = []"
| "insertLines c mapping used i (line # rest) =
     (let (used1, before) = foldl (insertAt c line) (used, []) (mapping i)
      in before @ [line] @ insertLines c mapping used1 (Suc i) rest)"

definition insertSiteConfigComments ::
    "(comments \<Rightarrow> comments) \<Rightarrow> (nat \<Rightarrow> strMap \<Rightarrow> strMap) \<Rightarrow> string \<Rightarrow> comments \<Rightarrow> nat \<Rightarrow> nat \<Rightarrow> string" where
  "insertSiteConfigComments visit order content c clusterIndex nodes =
     (if c = [] then content
      else
        let mapping = fieldMapping clusterIndex nodes;
            header = headerComments mapping (visit c);
            content1 = (if header \<noteq> [] then Join (addHeader header (Split content newline)) newline else content)
        in Join (insertLines c (\<lambda>i. order i mapping) [] 0 (Split content1 newline)) newline)"

section \<open>Only comment lines are added\<close>

definition isCommentLine :: "string \<Rightarrow> bool" where
  "isCommentLine line =
     (case dropWhile isBlank line of [] \<Rightarrow> True | ch # _ \<Rightarrow> ch = CHR ''#'')"

inductive commented :: "string list \<Rightarrow> string list \<Rightarrow> bool" where
  commented_Nil: "commented [] []"
| commented_keep: "commented old new \<Longrightarrow> commented (line # old) (line # new)"
| commented_add: "isCommentLine line \<Longrightarrow> commented old new \<Longrightarrow> commented old (line # new)"

inductive_cases commented_ConsE: "commented (x # old) new"

lemma commented_refl: "commented ls ls"
  by (induction ls) (auto intro: commented.intros)

lemma commented_prepend:
  "\<forall>l\<in>set cs. isCommentLine l \<Longrightarrow> commented old new \<Longrightarrow> commented old (cs @ new)"
  by (induction cs) (auto intro: commented.intros)

lemma commented_trans: "commented b c \<Longrightarrow> commented a b \<Longrightarrow> commented a c"
proof (induction b c arbitrary: a rule: commented.induct)
  case commented_Nil
  then show ?case by simp
next
  case (commented_keep old new line)
  from commented_keep.prems commented_keep.IH show ?case
    by (cases rule: commented.cases) (auto intro: commented.intros)
next
  case (commented_add line old new)
  then show ?case by (auto intro: commented.intros)
qed

lemma isCommentLine_hash: "isCommentLine (takeWhile isBlank i @ CHR ''#'' # s)"
proof -
  have "dropWhile isBlank (takeWhile isBlank i @ CHR ''#'' # s) = CHR ''#'' # s"
    by (subst dropWhile_append2) (auto simp: isBlank_def dest: set_takeWhileD)
  then show ?thesis by (simp add: isCommentLine_def)
qed

lemma isCommentLine_hash0 [simp]: "isCommentLine (CHR ''#'' # s)"
  using isCommentLine_hash [of "[]"] by simp

lemma isCommentLine_prefix: "isCommentLine (a @ b) \<Longrightarrow> isCommentLine a"
proof (induction a)
  case Nil
  then show ?case by (simp add: isCommentLine_def)
next
  case (Cons ch a)
  then show ?case by (auto simp: isCommentLine_def split: if_splits)
qed

subsection \<open>Lines of parts of a text\<close>

lemma splitFrom_acc: "splitFrom [c] acc s = (acc @ hd (splitFrom [c] [] s)) # tl (splitFrom [c] [] s)"
proof (induction s arbitrary: acc)
  case (Cons d s)
  from Cons [of "acc @ [d]"] Cons [of "[d]"] show ?case by (cases "d = c") auto
qed simp

lemma Split_Cons:
  "Split (d # s) [c] = (if d = c then [] # Split s [c] else (d # hd (Split s [c])) # tl (Split s [c]))"
  using splitFrom_acc [of c "[d]" s] by (simp add: Split_def)

lemma Split_Nil [simp]: "Split [] [c] = [[]]"
  by (simp add: Split_def)

lemma Split_append:
  "Split (s @ t) [c] = butlast (Split s [c]) @ (last (Split s [c]) @ hd (Split t [c])) # tl (Split t [c])"
proof (induction s)
  case (Cons d s)
  then show ?case by (cases "Split s [c]") (auto simp: Split_Cons)
qed simp

lemma Split_Join_concat: "xs \<noteq> [] \<Longrightarrow> Split (Join xs [c]) [c] = concat (map (\<lambda>x. Split x [c]) xs)"
proof (induction xs rule: induct_list012)
  case (3 x y zs)
  have "Split (x @ [c] @ Join (y # zs) [c]) [c] = Split x [c] @ Split (Join (y # zs) [c]) [c]"
    by (subst Split_append) (simp add: Split_Cons)
  with 3 show ?case by simp
qed simp_all

lemma Split_no_char: "c \<notin> set s \<Longrightarrow> Split s [c] = [s]"
  by (simp add: Split_def Split_no_sep)

definition tailComments :: "string \<Rightarrow> bool" where
  "tailComments s \<longleftrightarrow> (\<forall>l\<in>set (tl (Split s newline)). isCommentLine l)"

lemma tailComments_drop: "tailComments (a @ t) \<Longrightarrow> tailComments t"
  unfolding tailComments_def newline_def
  by (cases "Split a [CHR 0x0A]" rule: rev_cases; cases "butlast (Split a [CHR 0x0A])")
    (auto simp: Split_append)

lemma tailComments_take:
  assumes "tailComments (t @ b)"
  shows "tailComments t"
proof -
  let ?S = "Split t [CHR 0x0A]"
  obtain x xs where S: "?S = x # xs" by (cases ?S) auto
  show ?thesis
  proof (cases xs rule: rev_cases)
    case Nil
    with S show ?thesis by (simp add: tailComments_def newline_def)
  next
    case (snoc ys y)
    with S have eq: "?S = x # ys @ [y]" by simp
    with assms have "\<forall>l\<in>set ys. isCommentLine l" "isCommentLine (y @ hd (Split b [CHR 0x0A]))"
      by (auto simp: tailComments_def newline_def Split_append)
    with eq isCommentLine_prefix show ?thesis by (auto simp: tailComments_def newline_def)
  qed
qed

lemma tailComments_TrimSpace: "tailComments s \<Longrightarrow> tailComments (TrimSpace s)"
  by (metis TrimSpace_infix tailComments_drop tailComments_take)

lemma tailComments_cleanLine: "tailComments s \<Longrightarrow> tailComments (cleanLine s)"
  unfolding cleanLine_def Let_def
  by (metis append_take_drop_id tailComments_drop tailComments_TrimSpace)

lemma lines_of_header:
  assumes "tailComments s"
  shows "\<forall>l\<in>set (Split (CHR ''#'' # CHR '' '' # s) newline). isCommentLine l"
  using assms by (auto simp: tailComments_def newline_def Split_Cons)

subsection \<open>The two passes\<close>

lemma TrimSpace_subset: "set (TrimSpace s) \<subseteq> set s"
proof -
  obtain a b where "s = a @ TrimSpace s @ b" using TrimSpace_infix by blast
  then show ?thesis by (metis Un_iff set_append subsetI)
qed

lemma cleanLine_subset: "set (cleanLine s) \<subseteq> set s"
proof -
  have "set (TrimSpace (drop 1 (TrimSpace s))) \<subseteq> set s"
    using TrimSpace_subset [of "drop 1 (TrimSpace s)"] set_drop_subset [of 1 "TrimSpace s"]
      TrimSpace_subset [of s] by blast
  with TrimSpace_subset [of s] show ?thesis by (simp add: cleanLine_def Let_def)
qed

lemma getIndentation_subset: "set (getIndentation line) \<subseteq> set line"
  unfolding getIndentation_def by (meson set_takeWhileD subsetI)

lemma commentLines_ok:
  "l \<in> set (commentLines (getIndentation line) comment) \<Longrightarrow> CHR 0x0A \<notin> set line \<Longrightarrow>
   isCommentLine l \<and> CHR 0x0A \<notin> set l"
proof -
  assume l: "l \<in> set (commentLines (getIndentation line) comment)" and line: "CHR 0x0A \<notin> set line"
  then obtain k where k: "k \<in> set (Split (TrimSpace comment) [CHR 0x0A])"
    and l_def: "l = getIndentation line @ CHR ''#'' # CHR '' '' # cleanLine k"
    by (auto simp: commentLines_def newline_def)
  from k have "CHR 0x0A \<notin> set k"
    unfolding Split_def by (rule Split_pieces_no_sep_char) simp
  with line have "CHR 0x0A \<notin> set l"
    using cleanLine_subset [of k] getIndentation_subset [of line] by (auto simp: l_def)
  moreover have "isCommentLine l"
    unfolding l_def getIndentation_def by (rule isCommentLine_hash)
  ultimately show ?thesis by simp
qed

abbreviation okLines :: "string list \<Rightarrow> bool" where
  "okLines ls \<equiv> (\<forall>l\<in>set ls. isCommentLine l \<and> CHR 0x0A \<notin> set l)"

lemma insertAt_ok:
  "okLines (snd st) \<Longrightarrow> CHR 0x0A \<notin> set line \<Longrightarrow> okLines (snd (insertAt c line st m))"
  unfolding insertAt_def using commentLines_ok [of _ line]
  by (auto split: prod.splits if_splits)

lemma foldl_insertAt_ok:
  "okLines (snd st) \<Longrightarrow> CHR 0x0A \<notin> set line \<Longrightarrow> okLines (snd (foldl (insertAt c line) st ms))"
proof (induction ms arbitrary: st)
  case (Cons m ms)
  from Cons.IH [OF insertAt_ok [OF Cons.prems]] Cons.prems(2) show ?case by simp
qed simp

lemma insertLines_commented:
  "\<forall>l\<in>set ls. CHR 0x0A \<notin> set l \<Longrightarrow>
   commented ls (insertLines c mapping used i ls) \<and> (\<forall>l\<in>set (insertLines c mapping used i ls). CHR 0x0A \<notin> set l)"
proof (induction ls arbitrary: used i)
  case Nil
  then show ?case by (simp add: commented_Nil)
next
  case (Cons line rest)
  obtain used1 before where fold: "foldl (insertAt c line) (used, []) (mapping i) = (used1, before)"
    by fastforce
  with foldl_insertAt_ok [of "(used, [])" line c "mapping i"] Cons.prems have ok: "okLines before"
    by simp
  from Cons.IH [of used1 "Suc i"] Cons.prems
  have IH: "commented rest (insertLines c mapping used1 (Suc i) rest)"
    "\<forall>l\<in>set (insertLines c mapping used1 (Suc i) rest). CHR 0x0A \<notin> set l" by simp_all
  from ok have "commented (line # rest) (before @ line # insertLines c mapping used1 (Suc i) rest)"
    by (intro commented_prepend commented_keep IH) simp
  with fold ok IH(2) Cons.prems show ?case by auto
qed

lemma Split_newline_free: "\<forall>l\<in>set (Split s [c]). c \<notin> set l"
  unfolding Split_def using Split_pieces_no_sep_char [of _ c "[]" s] by simp

lemma insertLines_text:
  "commented (Split s newline) (Split (Join (insertLines c mapping used i (Split s newline)) newline) newline)"
proof -
  let ?ls = "insertLines c mapping used i (Split s newline)"
  have ls: "commented (Split s newline) ?ls" "\<forall>l\<in>set ?ls. CHR 0x0A \<notin> set l"
    using insertLines_commented [of "Split s newline"] Split_newline_free [of s "CHR 0x0A"]
    by (simp_all add: newline_def)
  have "?ls \<noteq> []" by (cases "Split s newline") (auto simp: newline_def split: prod.splits)
  with ls(2) have "Split (Join ?ls newline) newline = ?ls"
    unfolding newline_def by (intro Split_Join) simp_all
  with ls(1) show ?thesis by simp
qed

lemma headerComments_tail:
  "\<forall>(path, comment)\<in>set c. \<forall>l\<in>set (Split comment newline). isCommentLine l \<Longrightarrow>
   h \<in> set (headerComments mapping c) \<Longrightarrow> tailComments h"
proof -
  assume c: "\<forall>(path, comment)\<in>set c. \<forall>l\<in>set (Split comment newline). isCommentLine l"
    and h: "h \<in> set (headerComments mapping c)"
  from h obtain path comment where "(path, comment) \<in> set c" and h_def: "h = cleanLine comment"
    by (auto simp: headerComments_def)
  with c have "\<forall>l\<in>set (Split comment newline). isCommentLine l" by blast
  then have "tailComments comment"
    unfolding tailComments_def by (meson list.set_sel(2) Split_not_Nil)
  then show ?thesis unfolding h_def by (rule tailComments_cleanLine)
qed

lemma addHeader_commented:
  assumes "Split content newline = separator # rest"
    and "\<forall>h\<in>set header. tailComments h"
  shows "commented (Split content newline) (Split (Join (addHeader header (Split content newline)) newline) newline)"
proof -
  have nl: "newline = [CHR 0x0A]" by (simp add: newline_def)
  let ?hs = "map (\<lambda>h. CHR ''#'' # CHR '' '' # h) header"
  let ?cs = "concat (map (\<lambda>x. Split x newline) (headerTitle # ?hs @ [''#'']))"
  have rest: "\<forall>l\<in>set rest. CHR 0x0A \<notin> set l"
    using Split_newline_free [of content "CHR 0x0A"] assms(1) by (simp add: nl)
  then have rest': "concat (map (\<lambda>x. Split x newline) rest) = rest"
    by (induction rest) (simp_all add: nl Split_no_char)
  have add: "addHeader header (Split content newline) = separator # (headerTitle # ?hs @ [''#'']) @ rest"
    by (simp add: addHeader_def assms(1))
  have sep: "Split separator newline = [separator]" and title: "Split headerTitle newline = [headerTitle]"
    by (simp_all add: nl Split_no_char separator_def headerTitle_def)
  have eq: "Split (Join (addHeader header (Split content newline)) newline) newline = separator # ?cs @ rest"
    unfolding add using Split_Join_concat [of "separator # (headerTitle # ?hs @ [''#'']) @ rest" "CHR 0x0A"]
    by (simp add: nl sep [unfolded nl] rest' [unfolded nl])
  have "\<forall>l\<in>set ?cs. isCommentLine l"
  proof -
    have "isCommentLine headerTitle" by (simp add: headerTitle_def)
    moreover have "Split ''#'' newline = [''#'']" by (simp add: nl Split_no_char)
    moreover have "\<forall>h\<in>set header. \<forall>l\<in>set (Split (CHR ''#'' # CHR '' '' # h) newline). isCommentLine l"
      using assms(2) lines_of_header by blast
    ultimately show ?thesis by (simp add: title)
  qed
  then have "commented (separator # rest) (separator # ?cs @ rest)"
    by (intro commented_keep commented_prepend commented_refl)
  then show ?thesis by (simp only: eq [symmetric] assms(1))
qed

text \<open>C24. Copying the comments of a SiteConfig into the text of a ClusterInstance changes nothing but
  comments: for every order in which Go visits the two maps, the lines of the result are the lines
  of the text, all of them and in their order, with comment lines added. The comments are what the
  YAML parser keeps of a document (each line is blank or starts with \<^verbatim>\<open>#\<close>), and the text starts with the
  document separator, as \<open>writeClusterInstanceToFile\<close> writes it.
\<close>

theorem insertSiteConfigComments_only_comments:
  assumes "Split content newline = separator # rest"
    and "\<forall>(path, comment)\<in>set c. \<forall>l\<in>set (Split comment newline). isCommentLine l"
    and "mset (visit c) = mset c"
  shows "commented (Split content newline)
           (Split (insertSiteConfigComments visit order content c clusterIndex nodes) newline)"
proof (cases "c = []")
  case True
  then show ?thesis by (simp add: insertSiteConfigComments_def commented_refl)
next
  case False
  define header where "header = headerComments (fieldMapping clusterIndex nodes) (visit c)"
  define content1 where
    "content1 = (if header \<noteq> [] then Join (addHeader header (Split content newline)) newline else content)"
  have "set (visit c) = set c" using assms(3) by (rule mset_eq_setD)
  with assms(2) have "\<forall>h\<in>set header. tailComments h"
    unfolding header_def using headerComments_tail [of "visit c"] by blast
  from addHeader_commented [OF assms(1) this]
  have "commented (Split content newline) (Split content1 newline)"
    unfolding content1_def by (cases "header = []") (simp_all add: commented_refl)
  moreover have "insertSiteConfigComments visit order content c clusterIndex nodes =
      Join (insertLines c (\<lambda>i. order i (fieldMapping clusterIndex nodes)) [] 0 (Split content1 newline)) newline"
    unfolding insertSiteConfigComments_def Let_def header_def [symmetric] content1_def [symmetric]
    using False by (rule if_not_P)
  ultimately show ?thesis
    using insertLines_text commented_trans by metis
qed

theorem insertSiteConfigComments_only_comments_witness:
  "commented [separator, ''a'']
     (Split (insertSiteConfigComments id (\<lambda>_ m. m) (separator @ newline @ ''a'') [(''p'', ''# x'')] 0 1) newline)"
  using insertSiteConfigComments_only_comments
    [of "separator @ newline @ ''a''" "[''a'']" "[(''p'', ''# x'')]" id "\<lambda>_ m. m" 0 1]
  by (simp add: Split_def separator_def newline_def isCommentLine_def isBlank_def)

end
