(* ===== verification/SiteConvert.thy ===== *)
theory SiteConvert
  imports SiteComments
begin

text \<open>
  The conversion of \<^verbatim>\<open>siteconfig-converter/convert.go\<close>: warnings, template references, one ClusterInstance per
  cluster, and writing them to files.

  A warnings collector is the list of its warnings. The code outside the repository is gathered in the
  record \<open>siteEnv\<close>: the YAML encoder and parser, the clock (its value for each cluster, formatted) and
  the orders in which Go visits maps. What \<^verbatim>\<open>fmt\<close> prints is not modelled, apart from the warnings.
\<close>

record siteEnv =
  sv_encode :: "ClusterInstance \<Rightarrow> string res"
  sv_parseNode :: "string \<Rightarrow> ynode list res"
  sv_now :: "nat \<Rightarrow> string"
  sv_visit :: "nat \<Rightarrow> comments \<Rightarrow> comments"
  sv_order :: "nat \<Rightarrow> nat \<Rightarrow> strMap \<Rightarrow> strMap"

section \<open>Warnings\<close>

type_synonym warnings = "string list"

definition AddWarning :: "warnings \<Rightarrow> string \<Rightarrow> warnings" where
  "AddWarning w warning = w @ [warning]"

definition PrintWarnings :: "warnings \<Rightarrow> string" where
  "PrintWarnings w = concat w"

definition warningPrefix :: string where "warningPrefix = ''WARNING: ''"
definition warningsTitle :: string where "warningsTitle = ''# Conversion Warnings:''"

definition cleanWarning :: "string \<Rightarrow> string" where
  "cleanWarning warning = TrimSpace (TrimPrefix warning warningPrefix)"

definition GenerateYAMLComments :: "warnings \<Rightarrow> string" where
  "GenerateYAMLComments w =
     (if w = [] then []
      else warningsTitle @ newline @
        concat (map (\<lambda>clean. ''# - '' @ clean @ newline) (filter (\<lambda>clean. clean \<noteq> []) (map cleanWarning w))) @
        ''#'' @ newline)"

definition warnIf :: "bool \<Rightarrow> string \<Rightarrow> warnings" where
  "warnIf b msg = (if b then [warningPrefix @ msg @ newline] else [])"

definition ignored :: string where
  "ignored = '' is not supported in ClusterInstance and will be ignored. ''"

definition firmwareAdvice :: string where
  "firmwareAdvice = '' and reference it through templateRefs instead.Any nodes which use that custom template will then get the bios settings indicated in that CR''"

definition templatesAdvice :: string where
  "templatesAdvice = ''To provide custom CR templates please use ConfigMaps and reference them through templateRefs instead.''"

definition migrationAdvice :: string where
  "migrationAdvice = '' instead. If you are doing a live cluster migration, you need to create a custom template for AgentClusterInstall or suppress it.''"

definition newFirmware :: string where
  "newFirmware = ''Please create a custom node template for HostFirmwareSettings''"

definition siteWarnings :: "Spec \<Rightarrow> warnings" where
  "siteWarnings s =
     warnIf (sp_SshPrivateKeySecretRef s \<noteq> [])
       (''sshPrivateKeySecretRef field '' @ quoted (sp_SshPrivateKeySecretRef s) @
        '' is not supported in ClusterInstance and will be ignored'') @
     warnIf (bc_FilePath (sp_BiosConfigRef s) \<noteq> [])
       (''biosConfigRef field '' @ quoted (bc_FilePath (sp_BiosConfigRef s)) @ '' at SiteConfig spec level'' @ ignored @
        newFirmware @ firmwareAdvice) @
     warnIf (sp_CrTemplates s \<noteq> [])
       (''crTemplates field at SiteConfig spec level'' @ ignored @ templatesAdvice)"

definition nodeWarnings :: "Node \<Rightarrow> warnings" where
  "nodeWarnings n =
     (let onNode = '' on node '' @ quoted (nd_HostName n) in
     warnIf (nd_DiskPartition n \<noteq> [])
       (''diskPartition field'' @ onNode @ ignored @
        ''Consider using IgnitionConfigOverride at the node level to configure disk partitions instead.'') @
     warnIf (nd_UserData n \<noteq> [])
       (''userData field'' @ onNode @
        '' is not supported in ClusterInstance and will be ignored.Add userData through custom templates which add the necessary field to BareMetalHost'') @
     warnIf (bc_FilePath (nd_BiosConfigRef n) \<noteq> [])
       (''biosConfigRef field '' @ quoted (bc_FilePath (nd_BiosConfigRef n)) @ onNode @ ignored @
        ''Please create a custom node template that includes HostFirmwareSettings'' @ firmwareAdvice) @
     warnIf (nd_CrTemplates n \<noteq> []) (''crTemplates field'' @ onNode @ ignored @ templatesAdvice) @
     warnIf (nd_Cpuset n \<noteq> [])
       (''cpuset field '' @ quoted (nd_Cpuset n) @ onNode @ ignored @
        ''Please see Workload Partitioning Feature for setting specific reserved/isolated CPUSets.''))"

definition clusterWarnings :: "Cluster \<Rightarrow> warnings" where
  "clusterWarnings cl =
     warnIf (cl_ApiVIP cl \<noteq> [])
       (''apiVIP is removed in ClusterInstance. Using apiVIPs'' @ migrationAdvice) @
     warnIf (cl_IngressVIP cl \<noteq> [])
       (''ingressVIP is removed in ClusterInstance. Using ingressVIPs'' @ migrationAdvice) @
     warnIf (bc_FilePath (cl_BiosConfigRef cl) \<noteq> [])
       (''biosConfigRef field '' @ quoted (bc_FilePath (cl_BiosConfigRef cl)) @ '' at cluster level'' @ ignored @
        newFirmware @ firmwareAdvice) @
     warnIf (cl_CrTemplates cl \<noteq> []) (''crTemplates field at cluster level'' @ ignored @ templatesAdvice) @
     warnIf (cl_MergeDefaultMachineConfigs cl)
       (''mergeDefaultMachineConfigs field'' @ ignored @
        ''Use a ConfigMap which contains the already merged MachineConfigs and reference it through extraManifestsRefs instead.'') @
     warnIf (cl_ExtraManifestOnly cl)
       (''extraManifestOnly field is not part of ClusterInstance spec. '' @
        ''Extra manifests will be generated from this SiteConfig and included in the extraManifestsRefs ConfigMap, but the full ClusterInstance CR set will also be generated.'') @
     warnIf (cl_ExtraManifestPath cl \<noteq> [])
       (''extraManifestPath field '' @ quoted (cl_ExtraManifestPath cl) @ ignored @ ''Use extraManifests field instead'') @
     warnIf (sm_Name (cl_SiteConfigMap cl) \<noteq> [])
       (''siteConfigMap field '' @ quoted (sm_Name (cl_SiteConfigMap cl)) @ ignored @
        ''Create the site specific ConfigMap and place in git as a separate resource.'') @
     warnIf (de_PCRList (cl_DiskEncryption cl) \<noteq> [])
       (''tpm2 disk encryption configuration'' @ ignored @
        ''Conversion will be done only for the Tang server field.disk encryption MachineConfig with correct parameters must be added directly to the extramanifests configmap'') @
     concat (map nodeWarnings (cl_Nodes cl))"

section \<open>Template references and lists of names\<close>

definition refFormatError :: "string \<Rightarrow> go_error" where
  "refFormatError ref = Error (''invalid template reference format '' @ quoted ref @ '', expected '' @ quoted ''namespace/name'')"

definition refEmptyError :: "string \<Rightarrow> go_error" where
  "refEmptyError ref = Error (''invalid template reference format '' @ quoted ref @ '', namespace and name cannot be empty'')"

definition parseRef :: "string \<Rightarrow> TemplateRef res" where
  "parseRef ref =
     (case Split ref slash of
        [a, b] \<Rightarrow>
          let namespace = TrimSpace a; name = TrimSpace b in
          if namespace = [] \<or> name = [] then Inl (refEmptyError ref)
          else Inr \<lparr>tr_Name = name, tr_Namespace = namespace\<rparr>
      | _ \<Rightarrow> Inl (refFormatError ref))"

definition comma :: string where "comma = '',''"

text \<open>A comma-separated list, each element trimmed and the empty ones skipped.\<close>

definition commaList :: "string \<Rightarrow> string list" where
  "commaList s = (if s = [] then [] else filter (\<lambda>x. x \<noteq> []) (map TrimSpace (Split s comma)))"

definition parseTemplateReferences :: "string \<Rightarrow> TemplateRef list res" where
  "parseTemplateReferences templateRefs = mapM_res parseRef (commaList templateRefs)"

definition extraRefWarning :: "string \<Rightarrow> string" where
  "extraRefWarning name = warningPrefix @ ''The specified extra manifests ConfigMap '' @ quoted name @
     '' is expected to contain the correct set of manifests for the cluster which must match the content generated by the extraManifests content from the original SiteConfig. This tool can't validate that expectation'' @
     newline"

section \<open>One cluster\<close>

definition vips :: "string \<Rightarrow> string list \<Rightarrow> string list" where
  "vips one several = (if several \<noteq> [] then several else if one \<noteq> [] then [one] else [])"

definition vipMismatch :: "string \<Rightarrow> string list \<Rightarrow> bool" where
  "vipMismatch one several \<longleftrightarrow> several \<noteq> [] \<and> one \<noteq> [] \<and> one \<noteq> hd several"

definition apiMismatch :: string where
  "apiMismatch = ''WARNING: apiVIP must be the same as the first element of apiVIPs''"
definition ingressMismatch :: string where
  "ingressMismatch = ''WARNING: IngressVIP must be the same as the first element of IngressVIPs''"

definition defaultMapWarning :: "string \<Rightarrow> string" where
  "defaultMapWarning m = warningPrefix @ ''Added default extraManifest ConfigMap '' @ quoted m @
     '' to extraManifestsRefs. This configmap is created automatically.'' @ newline"

text \<open>The warnings that converting one cluster adds.\<close>

definition conversionWarnings :: "Cluster \<Rightarrow> string \<Rightarrow> warnings" where
  "conversionWarnings cl configMap =
     (if vipMismatch (cl_ApiVIP cl) (cl_ApiVIPs cl) then [apiMismatch] else []) @
     (if vipMismatch (cl_IngressVIP cl) (cl_IngressVIPs cl) then [ingressMismatch] else []) @
     [defaultMapWarning configMap]"

definition convertDiskEncryption :: "DiskEncryption \<Rightarrow> ClusterInstanceDiskEncryption option" where
  "convertDiskEncryption d =
     (if de_Type d = [] then None
      else Some \<lparr>cd_Type = de_Type d,
                 cd_Tang = map (\<lambda>t. \<lparr>ct_URL = ts_URL t, ct_Thumbprint = ts_Thumbprint t\<rparr>) (de_Tang d)\<rparr>)"

definition convertProxy :: "Proxy \<Rightarrow> ClusterInstanceProxy option" where
  "convertProxy p =
     (if px_HTTPProxy p \<noteq> [] \<or> px_HTTPSProxy p \<noteq> [] \<or> px_NoProxy p \<noteq> []
      then Some \<lparr>cp_HTTPProxy = px_HTTPProxy p, cp_HTTPSProxy = px_HTTPSProxy p, cp_NoProxy = px_NoProxy p\<rparr>
      else None)"

definition convertNodeNetwork :: "NodeNetwork \<Rightarrow> ClusterInstanceNodeNetwork option" where
  "convertNodeNetwork nn =
     (if nn_Interfaces nn \<noteq> [] \<or> nn_Config nn \<noteq> []
      then Some \<lparr>ck_Config = nn_Config nn,
                 ck_Interfaces = map (\<lambda>i. \<lparr>cf_Name = ni_Name i, cf_MacAddress = ni_MacAddress i\<rparr>) (nn_Interfaces nn)\<rparr>
      else None)"

definition convertNode :: "TemplateRef list \<Rightarrow> Node \<Rightarrow> ClusterInstanceNode" where
  "convertNode nodeTemplateRefs n =
     \<lparr>cin_BmcAddress = nd_BmcAddress n,
      cin_BmcCredentialsName = nd_BmcCredentialsName n,
      cin_BootMACAddress = nd_BootMACAddress n,
      cin_AutomatedCleaningMode = nd_AutomatedCleaningMode n,
      cin_RootDeviceHints = nd_RootDeviceHints n,
      cin_NodeNetwork = convertNodeNetwork (nd_NodeNetwork n),
      cin_NodeLabels = nd_NodeLabels n,
      cin_HostName = nd_HostName n,
      cin_HostRef = None,
      cin_CPUArchitecture = [],
      cin_BootMode = nd_BootMode n,
      cin_InstallerArgs = nd_InstallerArgs n,
      cin_IgnitionConfigOverride = nd_IgnitionConfigOverride n,
      cin_Role = nd_Role n,
      cin_ExtraAnnotations = ca_Add (nd_CrAnnotations n),
      cin_ExtraLabels = [],
      cin_SuppressedManifests = nd_CrSuppression n,
      cin_PruneManifests = [],
      cin_IronicInspect = (if nd_IronicInspect n = InspectEnabled then [] else nd_IronicInspect n),
      cin_TemplateRefs = nodeTemplateRefs\<rparr>"

definition getClusterImageSetRef :: "SiteConfig \<Rightarrow> Cluster \<Rightarrow> string" where
  "getClusterImageSetRef sc cl =
     (if cl_ClusterImageSetNameRef cl \<noteq> [] then cl_ClusterImageSetNameRef cl
      else sp_ClusterImageSetNameRef (si_Spec sc))"

definition convertSpec :: "SiteConfig \<Rightarrow> Cluster \<Rightarrow> TemplateRef list \<Rightarrow> TemplateRef list \<Rightarrow> string list \<Rightarrow> string \<Rightarrow> string \<Rightarrow>
    ClusterInstanceSpec" where
  "convertSpec sc cl clusterTemplateRefs nodeTemplateRefs extraManifestsRefs suppressedManifests configMap =
     \<lparr>cis_ClusterName = cl_ClusterName cl,
      cis_PullSecretRef = \<lparr>lo_Name = sp_PullSecretRef (si_Spec sc)\<rparr>,
      cis_ClusterImageSetNameRef = getClusterImageSetRef sc cl,
      cis_SshPublicKey = sp_SshPublicKey (si_Spec sc),
      cis_BaseDomain = sp_BaseDomain (si_Spec sc),
      cis_ApiVIPs = vips (cl_ApiVIP cl) (cl_ApiVIPs cl),
      cis_IngressVIPs = vips (cl_IngressVIP cl) (cl_IngressVIPs cl),
      cis_HoldInstallation = cl_HoldInstallation cl,
      cis_AdditionalNTPSources = cl_AdditionalNTPSources cl,
      cis_MachineNetwork = cl_MachineNetwork cl,
      cis_ClusterNetwork = map (\<lambda>n. \<lparr>ce_CIDR = cn_CIDR n, ce_HostPrefix = cn_HostPrefix n\<rparr>) (cl_ClusterNetwork cl),
      cis_ServiceNetwork = map (\<lambda>n. \<lparr>se_CIDR = n\<rparr>) (cl_ServiceNetwork cl),
      cis_NetworkType = cl_NetworkType cl,
      cis_PlatformType = cl_PlatformType cl,
      cis_ExtraAnnotations = ca_Add (cl_CrAnnotations cl),
      cis_ExtraLabels = (if cl_ClusterLabels cl \<noteq> [] then [(''ManagedCluster'', cl_ClusterLabels cl)] else []),
      cis_InstallConfigOverrides = cl_InstallConfigOverrides cl,
      cis_IgnitionConfigOverride = cl_IgnitionConfigOverride cl,
      cis_DiskEncryption = convertDiskEncryption (cl_DiskEncryption cl),
      cis_Proxy = convertProxy (cl_Proxy cl),
      cis_ExtraManifestsRefs =
        map (\<lambda>n. \<lparr>lo_Name = n\<rparr>) (cl_ManifestsConfigMapRefs cl @ extraManifestsRefs @ [configMap]),
      cis_SuppressedManifests = cl_CrSuppression cl @ commaList suppressedManifests,
      cis_PruneManifests = [],
      cis_CPUPartitioningMode = cl_CPUPartitioningMode cl,
      cis_CPUArchitecture = cl_CPUArchitecture cl,
      cis_ClusterType = (if length (cl_Nodes cl) = 1 then ''SNO'' else ''HighlyAvailable''),
      cis_TemplateRefs = clusterTemplateRefs,
      cis_CaBundleRef = None,
      cis_Nodes = map (convertNode nodeTemplateRefs) (cl_Nodes cl),
      cis_Reinstall = None\<rparr>"

definition convertClusterToClusterInstance :: "string \<Rightarrow> SiteConfig \<Rightarrow> Cluster \<Rightarrow> TemplateRef list \<Rightarrow> TemplateRef list \<Rightarrow> string list \<Rightarrow>
    string \<Rightarrow> string \<Rightarrow> string \<Rightarrow> ClusterInstance" where
  "convertClusterToClusterInstance now sc cl clusterTemplateRefs nodeTemplateRefs extraManifestsRefs
       suppressedManifests sourceFilename configMap =
     \<lparr>ci_ApiVersion = ''siteconfig.open-cluster-management.io/v1alpha1'',
      ci_Kind = ''ClusterInstance'',
      ci_Metadata =
        \<lparr>cim_Name = cl_ClusterName cl, cim_Namespace = cl_ClusterName cl,
         cim_Annotations = [(''siteconfig-converter'', ''from '' @ sourceFilename @ '' at '' @ now)]\<rparr>,
      ci_Spec = convertSpec sc cl clusterTemplateRefs nodeTemplateRefs extraManifestsRefs suppressedManifests configMap\<rparr>"

section \<open>Writing\<close>

definition clusterInstanceText :: "siteEnv \<Rightarrow> nat \<Rightarrow> string \<Rightarrow> warnings \<Rightarrow> bool \<Rightarrow> comments \<Rightarrow> bool \<Rightarrow> nat \<Rightarrow> string" where
  "clusterInstanceText env i buf w writeWarnings c copyComments nodes =
     (let content = separator @ newline @ (if writeWarnings \<and> w \<noteq> [] then GenerateYAMLComments w else []) @ buf
      in if copyComments then insertSiteConfigComments (sv_visit env i) (sv_order env i) content c i nodes
         else content)"

definition writeFileFailed :: "string \<Rightarrow> os_error \<Rightarrow> go_error" where
  "writeFileFailed f e = Error (''failed to write file: '' @ pathError ''open'' f e)"

definition writeClusterInstanceToFile :: "siteEnv \<Rightarrow> fsys \<Rightarrow> ClusterInstance \<Rightarrow> string \<Rightarrow> warnings \<Rightarrow> bool \<Rightarrow> comments \<Rightarrow> bool \<Rightarrow>
    nat \<Rightarrow> Cluster \<Rightarrow> fsys res" where
  "writeClusterInstanceToFile env fs ci filename w writeWarnings c copyComments i cl =
     bind_res (map_error (\<lambda>e. ''failed to marshal ClusterInstance to YAML: '' @ e) (sv_encode env ci)) (\<lambda>buf.
       writeOr writeFileFailed fs filename
         (clusterInstanceText env i buf w writeWarnings c copyComments (length (cl_Nodes cl))))"

definition outputPath :: "string \<Rightarrow> Cluster \<Rightarrow> string" where
  "outputPath outputDir cl = JoinPath [outputDir, cl_ClusterName cl @ ''.yaml'']"

definition outputDirFailed :: "string \<Rightarrow> os_error \<Rightarrow> go_error" where
  "outputDirFailed d e = Error (''failed to create output directory: '' @ pathError ''mkdir'' d e)"

text \<open>The arguments of the conversion, as parsed.\<close>

record convArgs =
  cx_clusterRefs :: "TemplateRef list"
  cx_nodeRefs :: "TemplateRef list"
  cx_manifestsRefs :: "string list"
  cx_suppressed :: string
  cx_writeWarnings :: bool
  cx_copyComments :: bool
  cx_source :: string
  cx_configMap :: string
  cx_outputDir :: string

definition convArgsOf :: "TemplateRef list \<Rightarrow> TemplateRef list \<Rightarrow> string list \<Rightarrow> string \<Rightarrow> bool \<Rightarrow> bool \<Rightarrow> string \<Rightarrow> string \<Rightarrow> string \<Rightarrow>
    convArgs" where
  "convArgsOf clusterRefs nodeRefs refs suppressedManifests writeWarnings copyComments inputFile configMap outputDir =
     \<lparr>cx_clusterRefs = clusterRefs, cx_nodeRefs = nodeRefs, cx_manifestsRefs = refs,
      cx_suppressed = suppressedManifests, cx_writeWarnings = writeWarnings, cx_copyComments = copyComments,
      cx_source = Base inputFile, cx_configMap = configMap, cx_outputDir = outputDir\<rparr>"

definition convertOne :: "siteEnv \<Rightarrow> SiteConfig \<Rightarrow> convArgs \<Rightarrow> comments \<Rightarrow> fsys \<times> warnings \<Rightarrow> nat \<times> Cluster \<Rightarrow> (fsys \<times> warnings) res" where
  "convertOne env sc a c st icl =
     (case (st, icl) of ((fs, w), (i, cl)) \<Rightarrow>
      let ci = convertClusterToClusterInstance (sv_now env i) sc cl (cx_clusterRefs a) (cx_nodeRefs a)
                 (cx_manifestsRefs a) (cx_suppressed a) (cx_source a) (cx_configMap a);
          w' = foldl AddWarning w (conversionWarnings cl (cx_configMap a))
      in bind_res (map_error (\<lambda>e. ''failed to write ClusterInstance for cluster '' @ cl_ClusterName cl @ '': '' @ e)
             (writeClusterInstanceToFile env fs ci (outputPath (cx_outputDir a) cl) w' (cx_writeWarnings a) c
                (cx_copyComments a) i cl)) (\<lambda>fs'. Inr (fs', w')))"

definition collectComments :: "siteEnv \<Rightarrow> fsys \<Rightarrow> bool \<Rightarrow> string \<Rightarrow> comments res" where
  "collectComments env fs copyComments inputFile =
     (if copyComments
      then case parseSiteConfigWithComments (sv_parseNode env) fs inputFile of
             Inl (Error _) \<Rightarrow> Inr []
           | r \<Rightarrow> r
      else Inr [])"

definition initialWarnings :: "SiteConfig \<Rightarrow> string list \<Rightarrow> warnings" where
  "initialWarnings sc manifestsRefs =
     map extraRefWarning manifestsRefs @ siteWarnings (si_Spec sc) @ concat (map clusterWarnings (sp_Clusters (si_Spec sc)))"

text \<open>The result is the file system and what the warnings print.\<close>

definition convertToClusterInstance :: "siteEnv \<Rightarrow> fsys \<Rightarrow> SiteConfig \<Rightarrow> string \<Rightarrow> string \<Rightarrow> string \<Rightarrow> string \<Rightarrow> string \<Rightarrow> bool \<Rightarrow> bool \<Rightarrow>
    string \<Rightarrow> string \<Rightarrow> (fsys \<times> string) res" where
  "convertToClusterInstance env fs sc outputDir clusterTemplateRef nodeTemplateRef extraManifestsRefs
       suppressedManifests writeWarnings copyComments inputFile configMap =
     bind_res (collectComments env fs copyComments inputFile) (\<lambda>c.
     bind_res (map_error (\<lambda>e. ''invalid cluster template reference format: '' @ e)
       (parseTemplateReferences clusterTemplateRef)) (\<lambda>clusterRefs.
     bind_res (map_error (\<lambda>e. ''invalid node template reference format: '' @ e)
       (parseTemplateReferences nodeTemplateRef)) (\<lambda>nodeRefs.
     let refs = commaList extraManifestsRefs;
         w = initialWarnings sc refs;
         a = convArgsOf clusterRefs nodeRefs refs suppressedManifests writeWarnings copyComments inputFile configMap outputDir
     in bind_res (case os_MkdirAll fs outputDir of Inl e \<Rightarrow> Inl (outputDirFailed outputDir e) | Inr fs1 \<Rightarrow> Inr fs1) (\<lambda>fs1.
        bind_res (fold_res (convertOne env sc a c) (fs1, w) (enumerate 0 (sp_Clusters (si_Spec sc)))) (\<lambda>(fs2, w2).
          Inr (fs2, if writeWarnings then [] else PrintWarnings w2))))))"

section \<open>Template references: print and parse\<close>

definition printRef :: "TemplateRef \<Rightarrow> string" where
  "printRef r = tr_Namespace r @ slash @ tr_Name r"

definition printRefs :: "TemplateRef list \<Rightarrow> string" where
  "printRefs refs = Join (map printRef refs) comma"

definition plainRefName :: "string \<Rightarrow> bool" where
  "plainRefName s \<longleftrightarrow> s \<noteq> [] \<and> TrimSpace s = s \<and> CHR '','' \<notin> set s \<and> CHR ''/'' \<notin> set s"

definition plainRef :: "TemplateRef \<Rightarrow> bool" where
  "plainRef r \<longleftrightarrow> plainRefName (tr_Namespace r) \<and> plainRefName (tr_Name r)"

lemma Split_ref: "plainRef r \<Longrightarrow> Split (printRef r) slash = [tr_Namespace r, tr_Name r]"
  using Split_Join [of "[tr_Namespace r, tr_Name r]" "CHR ''/''"]
  by (simp add: plainRef_def plainRefName_def printRef_def slash_def)

lemma parseRef_print: "plainRef r \<Longrightarrow> parseRef (printRef r) = Inr r"
  by (simp add: parseRef_def Split_ref) (simp add: plainRef_def plainRefName_def)

lemma commaList_print:
  assumes "list_all plainRef refs"
  shows "commaList (printRefs refs) = map printRef refs"
proof (cases "refs = []")
  case True
  then show ?thesis by (simp add: commaList_def printRefs_def)
next
  case False
  have no_comma: "\<forall>x\<in>set (map printRef refs). CHR '','' \<notin> set x"
    using assms by (auto simp: list_all_iff plainRef_def plainRefName_def printRef_def slash_def)
  have trim: "map TrimSpace (map printRef refs) = map printRef refs"
    using assms by (simp add: list_all_iff plainRef_def plainRefName_def printRef_def slash_def TrimSpace_slash)
  have ne: "\<forall>x\<in>set (map printRef refs). x \<noteq> []"
    by (auto simp: printRef_def slash_def)
  have split: "Split (printRefs refs) comma = map printRef refs"
    unfolding printRefs_def comma_def using False no_comma by (intro Split_Join) simp_all
  moreover from False ne have "printRefs refs \<noteq> []"
    by (cases refs; cases "tl refs") (auto simp: printRefs_def printRef_def slash_def)
  ultimately show ?thesis
    unfolding commaList_def split trim using ne by (simp add: filter_id_conv)
qed

lemma commaList_no_comma: "x \<in> set (commaList s) \<Longrightarrow> CHR '','' \<notin> set x"
proof -
  assume "x \<in> set (commaList s)"
  then obtain y where y: "y \<in> set (Split s comma)" "x = TrimSpace y"
    by (auto simp: commaList_def split: if_splits)
  then have "CHR '','' \<notin> set y" using Split_newline_free [of s "CHR '',''"] by (simp add: comma_def)
  with y(2) TrimSpace_subset [of y] show ?thesis by blast
qed

lemma parseRef_plain:
  assumes "parseRef s = Inr r" and "CHR '','' \<notin> set s"
  shows "plainRef r"
proof -
  from assms(1) obtain a b where ab: "Split s slash = [a, b]" "TrimSpace a \<noteq> []" "TrimSpace b \<noteq> []"
    and r: "r = \<lparr>tr_Name = TrimSpace b, tr_Namespace = TrimSpace a\<rparr>"
    by (auto simp: parseRef_def Let_def split: list.splits if_splits)
  have "CHR ''/'' \<notin> set a" "CHR ''/'' \<notin> set b"
    using Split_newline_free [of s "CHR ''/''"] ab(1) by (auto simp: slash_def)
  moreover have "s = a @ slash @ b" using Join_Split [of s slash] ab(1) by simp
  with assms(2) have "CHR '','' \<notin> set a" "CHR '','' \<notin> set b" by auto
  ultimately show ?thesis
    using ab(2,3) TrimSpace_subset [of a] TrimSpace_subset [of b] by (auto simp: plainRef_def plainRefName_def r)
qed

text \<open>Template references are printed and parsed back: parsing the comma-separated
  \<^verbatim>\<open>namespace/name\<close> form of a list of references gives the list itself exactly if every namespace and
  name is non-empty, has no white space at its ends and contains neither a comma nor a slash. The
  parser accepts nothing else, and loses, reorders or merges no reference.
\<close>

theorem parseTemplateReferences_roundtrip:
  "parseTemplateReferences (printRefs refs) = Inr refs \<longleftrightarrow> list_all plainRef refs"
proof
  assume "list_all plainRef refs"
  then show "parseTemplateReferences (printRefs refs) = Inr refs"
    by (simp add: parseTemplateReferences_def commaList_print mapM_res_Inr_iff list_all2_conv_all_nth
        list_all_length parseRef_print)
next
  assume p: "parseTemplateReferences (printRefs refs) = Inr refs"
  have "plainRef r" if "r \<in> set refs" for r
    using mapM_res_set [OF p [unfolded parseTemplateReferences_def] that] parseRef_plain commaList_no_comma
    by blast
  then show "list_all plainRef refs" by (simp add: list_all_iff)
qed

section \<open>What a conversion keeps\<close>

text \<open>Go's zero values.\<close>

definition zeroNode :: Node where
  "zeroNode =
     \<lparr>nd_BmcAddress = [], nd_BootMACAddress = [], nd_AutomatedCleaningMode = [], nd_RootDeviceHints = [], nd_Cpuset = [],
      nd_NodeNetwork = \<lparr>nn_Config = [], nn_Interfaces = []\<rparr>, nd_NodeLabels = [], nd_HostName = [],
      nd_BmcCredentialsName = [], nd_BootMode = [], nd_UserData = [], nd_InstallerArgs = [],
      nd_IgnitionConfigOverride = [], nd_Role = [], nd_CrTemplates = [], nd_CrAnnotations = \<lparr>ca_Add = []\<rparr>,
      nd_CrSuppression = [], nd_BiosConfigRef = \<lparr>bc_FilePath = []\<rparr>, nd_DiskPartition = [], nd_IronicInspect = []\<rparr>"

definition zeroCluster :: Cluster where
  "zeroCluster =
     \<lparr>cl_ApiVIP = [], cl_IngressVIP = [], cl_ApiVIPs = [], cl_IngressVIPs = [], cl_ClusterName = [],
      cl_HoldInstallation = False, cl_AdditionalNTPSources = [], cl_Nodes = [], cl_MachineNetwork = [],
      cl_ServiceNetwork = [], cl_ClusterLabels = [], cl_NetworkType = [], cl_InstallConfigOverrides = [],
      cl_ClusterNetwork = [], cl_IgnitionConfigOverride = [],
      cl_DiskEncryption = \<lparr>de_Type = [], de_Tang = [], de_PCRList = []\<rparr>,
      cl_Proxy = \<lparr>px_HTTPProxy = [], px_HTTPSProxy = [], px_NoProxy = []\<rparr>, cl_ExtraManifestPath = [],
      cl_ClusterImageSetNameRef = [], cl_BiosConfigRef = \<lparr>bc_FilePath = []\<rparr>,
      cl_ExtraManifests = \<lparr>em_SearchPaths = None, em_Filter = None\<rparr>, cl_CPUPartitioningMode = [],
      cl_SiteConfigMap = \<lparr>sm_Name = [], sm_Namespace = [], sm_Data = []\<rparr>, cl_PlatformType = [],
      cl_CPUArchitecture = [], cl_ExtraManifestOnly = False, cl_NumMasters = 0, cl_NumWorkers = 0,
      cl_ClusterType = [], cl_CrTemplates = [], cl_CrAnnotations = \<lparr>ca_Add = []\<rparr>, cl_CrSuppression = [],
      cl_ManifestsConfigMapRefs = [], cl_MergeDefaultMachineConfigs = False\<rparr>"

definition zeroSite :: SiteConfig where
  "zeroSite =
     \<lparr>si_ApiVersion = [], si_Kind = [], si_Metadata = \<lparr>mt_Name = [], mt_Namespace = [], mt_Labels = []\<rparr>,
      si_Spec = \<lparr>sp_PullSecretRef = [], sp_ClusterImageSetNameRef = [], sp_SshPublicKey = [],
                 sp_SshPrivateKeySecretRef = [], sp_Clusters = [], sp_BaseDomain = [], sp_CrTemplates = [],
                 sp_CrAnnotations = \<lparr>ca_Add = []\<rparr>, sp_BiosConfigRef = \<lparr>bc_FilePath = []\<rparr>\<rparr>\<rparr>"

text \<open>Reading a SiteConfig cluster back from a ClusterInstance, given how many references and how many
  suppressed manifests came from the command line.\<close>

definition recoverNode :: "ClusterInstanceNode \<Rightarrow> Node" where
  "recoverNode n =
     \<lparr>nd_BmcAddress = cin_BmcAddress n,
      nd_BootMACAddress = cin_BootMACAddress n,
      nd_AutomatedCleaningMode = cin_AutomatedCleaningMode n,
      nd_RootDeviceHints = cin_RootDeviceHints n,
      nd_Cpuset = [],
      nd_NodeNetwork =
        (case cin_NodeNetwork n of
           None \<Rightarrow> \<lparr>nn_Config = [], nn_Interfaces = []\<rparr>
         | Some k \<Rightarrow> \<lparr>nn_Config = ck_Config k,
                      nn_Interfaces = map (\<lambda>i. \<lparr>ni_Name = cf_Name i, ni_MacAddress = cf_MacAddress i\<rparr>) (ck_Interfaces k)\<rparr>),
      nd_NodeLabels = cin_NodeLabels n,
      nd_HostName = cin_HostName n,
      nd_BmcCredentialsName = cin_BmcCredentialsName n,
      nd_BootMode = cin_BootMode n,
      nd_UserData = [],
      nd_InstallerArgs = cin_InstallerArgs n,
      nd_IgnitionConfigOverride = cin_IgnitionConfigOverride n,
      nd_Role = cin_Role n,
      nd_CrTemplates = [],
      nd_CrAnnotations = \<lparr>ca_Add = cin_ExtraAnnotations n\<rparr>,
      nd_CrSuppression = cin_SuppressedManifests n,
      nd_BiosConfigRef = \<lparr>bc_FilePath = []\<rparr>,
      nd_DiskPartition = [],
      nd_IronicInspect = cin_IronicInspect n\<rparr>"

definition recoverDisk :: "ClusterInstanceDiskEncryption option \<Rightarrow> DiskEncryption" where
  "recoverDisk d =
     (case d of
        None \<Rightarrow> \<lparr>de_Type = [], de_Tang = [], de_PCRList = []\<rparr>
      | Some e \<Rightarrow> \<lparr>de_Type = cd_Type e,
                   de_Tang = map (\<lambda>t. \<lparr>ts_URL = ct_URL t, ts_Thumbprint = ct_Thumbprint t\<rparr>) (cd_Tang e),
                   de_PCRList = []\<rparr>)"

definition recoverProxy :: "ClusterInstanceProxy option \<Rightarrow> Proxy" where
  "recoverProxy p =
     (case p of
        None \<Rightarrow> \<lparr>px_HTTPProxy = [], px_HTTPSProxy = [], px_NoProxy = []\<rparr>
      | Some q \<Rightarrow> \<lparr>px_HTTPProxy = cp_HTTPProxy q, px_HTTPSProxy = cp_HTTPSProxy q, px_NoProxy = cp_NoProxy q\<rparr>)"

definition dropLast :: "nat \<Rightarrow> 'a list \<Rightarrow> 'a list" where
  "dropLast n xs = take (length xs - n) xs"

definition noExtraManifests :: ExtraManifests where
  "noExtraManifests = \<lparr>em_SearchPaths = None, em_Filter = None\<rparr>"

definition noSiteConfigMap :: SiteConfigMap where
  "noSiteConfigMap = \<lparr>sm_Name = [], sm_Namespace = [], sm_Data = []\<rparr>"

definition recoverCluster :: "nat \<Rightarrow> nat \<Rightarrow> ClusterInstance \<Rightarrow> Cluster" where
  "recoverCluster refs suppressed ci =
     (let s = ci_Spec ci in
     \<lparr>cl_ApiVIP = [], cl_IngressVIP = [],
      cl_ApiVIPs = cis_ApiVIPs s, cl_IngressVIPs = cis_IngressVIPs s,
      cl_ClusterName = cis_ClusterName s,
      cl_HoldInstallation = cis_HoldInstallation s,
      cl_AdditionalNTPSources = cis_AdditionalNTPSources s,
      cl_Nodes = map recoverNode (cis_Nodes s),
      cl_MachineNetwork = cis_MachineNetwork s,
      cl_ServiceNetwork = map se_CIDR (cis_ServiceNetwork s),
      cl_ClusterLabels = mget0 [] (cis_ExtraLabels s) ''ManagedCluster'',
      cl_NetworkType = cis_NetworkType s,
      cl_InstallConfigOverrides = cis_InstallConfigOverrides s,
      cl_ClusterNetwork = map (\<lambda>n. \<lparr>cn_CIDR = ce_CIDR n, cn_HostPrefix = ce_HostPrefix n\<rparr>) (cis_ClusterNetwork s),
      cl_IgnitionConfigOverride = cis_IgnitionConfigOverride s,
      cl_DiskEncryption = recoverDisk (cis_DiskEncryption s),
      cl_Proxy = recoverProxy (cis_Proxy s),
      cl_ExtraManifestPath = [],
      cl_ClusterImageSetNameRef = cis_ClusterImageSetNameRef s,
      cl_BiosConfigRef = \<lparr>bc_FilePath = []\<rparr>,
      cl_ExtraManifests = noExtraManifests,
      cl_CPUPartitioningMode = cis_CPUPartitioningMode s,
      cl_SiteConfigMap = noSiteConfigMap,
      cl_PlatformType = cis_PlatformType s,
      cl_CPUArchitecture = cis_CPUArchitecture s,
      cl_ExtraManifestOnly = False,
      cl_NumMasters = 0, cl_NumWorkers = 0, cl_ClusterType = [],
      cl_CrTemplates = [],
      cl_CrAnnotations = \<lparr>ca_Add = cis_ExtraAnnotations s\<rparr>,
      cl_CrSuppression = dropLast suppressed (cis_SuppressedManifests s),
      cl_ManifestsConfigMapRefs = map lo_Name (dropLast (Suc refs) (cis_ExtraManifestsRefs s)),
      cl_MergeDefaultMachineConfigs = False\<rparr>)"

text \<open>What a silent conversion still leaves out: the extra manifests (they are generated as files),
  the data of a SiteConfigMap without a name, the counts and the type of the cluster (the type is
  computed from the nodes), a disk encryption without a type, and the default value of
  \<^verbatim>\<open>ironicInspect\<close>. The cluster image set is resolved.\<close>

definition keptNode :: "Node \<Rightarrow> Node" where
  "keptNode n = (if nd_IronicInspect n = InspectEnabled then n\<lparr>nd_IronicInspect := []\<rparr> else n)"

definition keptCluster :: "SiteConfig \<Rightarrow> Cluster \<Rightarrow> Cluster" where
  "keptCluster sc cl =
     cl\<lparr>cl_Nodes := map keptNode (cl_Nodes cl),
        cl_DiskEncryption := (if de_Type (cl_DiskEncryption cl) = [] then recoverDisk None else cl_DiskEncryption cl),
        cl_ClusterImageSetNameRef := getClusterImageSetRef sc cl,
        cl_ExtraManifests := noExtraManifests,
        cl_SiteConfigMap := noSiteConfigMap,
        cl_NumMasters := 0, cl_NumWorkers := 0, cl_ClusterType := []\<rparr>"

lemma warnIf_Nil [simp]: "warnIf b msg = [] \<longleftrightarrow> \<not> b"
  by (simp add: warnIf_def)

lemma nodeWarnings_Nil:
  "nodeWarnings n = [] \<longleftrightarrow>
     nd_DiskPartition n = [] \<and> nd_UserData n = [] \<and> bc_FilePath (nd_BiosConfigRef n) = [] \<and>
     nd_CrTemplates n = [] \<and> nd_Cpuset n = []"
  by (simp add: nodeWarnings_def Let_def)

lemma clusterWarnings_Nil:
  "clusterWarnings cl = [] \<longleftrightarrow>
     cl_ApiVIP cl = [] \<and> cl_IngressVIP cl = [] \<and> bc_FilePath (cl_BiosConfigRef cl) = [] \<and> cl_CrTemplates cl = [] \<and>
     \<not> cl_MergeDefaultMachineConfigs cl \<and> \<not> cl_ExtraManifestOnly cl \<and> cl_ExtraManifestPath cl = [] \<and>
     sm_Name (cl_SiteConfigMap cl) = [] \<and> de_PCRList (cl_DiskEncryption cl) = [] \<and>
     (\<forall>n\<in>set (cl_Nodes cl). nodeWarnings n = [])"
  unfolding clusterWarnings_def by (simp only: append_is_Nil_conv warnIf_Nil concat_eq_Nil_conv set_map) auto

lemma recover_network:
  "(case convertNodeNetwork nn of
      None \<Rightarrow> \<lparr>nn_Config = [], nn_Interfaces = []\<rparr>
    | Some k \<Rightarrow> \<lparr>nn_Config = ck_Config k,
                 nn_Interfaces = map (\<lambda>i. \<lparr>ni_Name = cf_Name i, ni_MacAddress = cf_MacAddress i\<rparr>) (ck_Interfaces k)\<rparr>) = nn"
  by (cases nn) (auto simp: convertNodeNetwork_def intro!: map_idI)

lemma recover_convertNode: "nodeWarnings n = [] \<Longrightarrow> recoverNode (convertNode refs n) = keptNode n"
  unfolding nodeWarnings_Nil
  by (cases n) (auto simp: recoverNode_def convertNode_def recover_network keptNode_def)

lemma recover_disk:
  "de_PCRList d = [] \<Longrightarrow>
   recoverDisk (convertDiskEncryption d) = (if de_Type d = [] then recoverDisk None else d)"
  by (cases d) (auto simp: recoverDisk_def convertDiskEncryption_def intro!: map_idI)

lemma recover_proxy: "recoverProxy (convertProxy p) = p"
  by (cases p) (auto simp: recoverProxy_def convertProxy_def)

lemma dropLast_append [simp]: "length ys = n \<Longrightarrow> dropLast n (xs @ ys) = xs"
  by (simp add: dropLast_def)

text \<open>C10. Nothing is dropped without a warning: if no warning is recorded for a cluster, the cluster can be
  read back from its ClusterInstance, whatever the template references, extra manifests and
  suppressed manifests of the command line, up to the fields \<open>keptCluster\<close> lists.
\<close>

theorem convertCluster_lossless:
  assumes "clusterWarnings cl = []"
  shows "recoverCluster (length refs) (length (commaList suppressed))
           (convertClusterToClusterInstance now sc cl clusterRefs nodeRefs refs suppressed source configMap) =
         keptCluster sc cl"
proof -
  have nodes: "\<forall>n\<in>set (cl_Nodes cl). recoverNode (convertNode nodeRefs n) = keptNode n"
    using assms by (auto simp: clusterWarnings_Nil recover_convertNode)
  have disk: "recoverDisk (convertDiskEncryption (cl_DiskEncryption cl)) =
      (if de_Type (cl_DiskEncryption cl) = [] then recoverDisk None else cl_DiskEncryption cl)"
    using assms by (simp add: clusterWarnings_Nil recover_disk)
  have bios: "cl_BiosConfigRef cl = \<lparr>bc_FilePath = []\<rparr>"
    using assms by (cases "cl_BiosConfigRef cl") (simp add: clusterWarnings_Nil)
  have labels: "mget0 [] (if cl_ClusterLabels cl \<noteq> [] then [(''ManagedCluster'', cl_ClusterLabels cl)] else []) ''ManagedCluster'' =
      cl_ClusterLabels cl"
    by (simp add: mget0_def)
  have refs: "map lo_Name (dropLast (Suc (length refs))
      (map (\<lambda>n. \<lparr>lo_Name = n\<rparr>) (cl_ManifestsConfigMapRefs cl @ refs @ [configMap]))) = cl_ManifestsConfigMapRefs cl"
    by (simp add: comp_def)
  have nets: "map (\<lambda>n. \<lparr>cn_CIDR = cn_CIDR n, cn_HostPrefix = cn_HostPrefix n\<rparr>) (cl_ClusterNetwork cl) = cl_ClusterNetwork cl"
    by (auto intro!: map_idI)
  show ?thesis
    using assms unfolding clusterWarnings_Nil
    by (intro Cluster.equality)
      (simp_all add: recoverCluster_def keptCluster_def convertClusterToClusterInstance_def convertSpec_def Let_def
        nodes disk bios labels refs nets recover_proxy vips_def comp_def)
qed

theorem convertCluster_lossless_witness:
  "let cl = zeroCluster\<lparr>cl_ClusterName := ''c'', cl_Nodes := [zeroNode\<lparr>nd_HostName := ''n''\<rparr>],
                        cl_ClusterLabels := [(''a'', ''b'')], cl_CrSuppression := [''X'']\<rparr>
   in clusterWarnings cl = [] \<and>
      recoverCluster 1 (length (commaList ''Y'')) (convertClusterToClusterInstance [] zeroSite cl [] [] [''m''] ''Y'' [] []) =
      keptCluster zeroSite cl"
proof -
  let ?cl = "zeroCluster\<lparr>cl_ClusterName := ''c'', cl_Nodes := [zeroNode\<lparr>nd_HostName := ''n''\<rparr>],
                        cl_ClusterLabels := [(''a'', ''b'')], cl_CrSuppression := [''X'']\<rparr>"
  have w: "clusterWarnings ?cl = []"
    by (simp add: clusterWarnings_Nil nodeWarnings_Nil zeroCluster_def zeroNode_def)
  from convertCluster_lossless [OF w, of "[''m'']" "''Y''" "[]" zeroSite "[]" "[]" "[]" "[]"] w
  show ?thesis by (simp only: Let_def list.size One_nat_def add_0 add_Suc)
qed

section \<open>The files written\<close>

definition instanceAt :: "siteEnv \<Rightarrow> SiteConfig \<Rightarrow> convArgs \<Rightarrow> nat \<Rightarrow> Cluster \<Rightarrow> ClusterInstance" where
  "instanceAt env sc a i cl =
     convertClusterToClusterInstance (sv_now env i) sc cl (cx_clusterRefs a) (cx_nodeRefs a)
       (cx_manifestsRefs a) (cx_suppressed a) (cx_source a) (cx_configMap a)"

definition warningsUpTo :: "convArgs \<Rightarrow> warnings \<Rightarrow> Cluster list \<Rightarrow> warnings" where
  "warningsUpTo a w cls = w @ concat (map (\<lambda>cl. conversionWarnings cl (cx_configMap a)) cls)"

definition written :: "siteEnv \<Rightarrow> SiteConfig \<Rightarrow> convArgs \<Rightarrow> comments \<Rightarrow> fsys \<Rightarrow> nat \<Rightarrow> warnings \<Rightarrow> Cluster \<Rightarrow> bool" where
  "written env sc a c fs i w cl \<longleftrightarrow>
     (\<exists>buf. sv_encode env (instanceAt env sc a i cl) = Inr buf \<and>
        readOpt fs (outputPath (cx_outputDir a) cl) =
          Some (clusterInstanceText env i buf w (cx_writeWarnings a) c (cx_copyComments a) (length (cl_Nodes cl))))"

lemma foldl_AddWarning: "foldl AddWarning w ws = w @ ws"
  by (induction ws arbitrary: w) (auto simp: AddWarning_def)

lemma convertOne_Inr:
  "convertOne env sc a c (fs, w) (i, cl) = Inr (fs', w') \<longleftrightarrow>
     w' = w @ conversionWarnings cl (cx_configMap a) \<and>
     (\<exists>buf. sv_encode env (instanceAt env sc a i cl) = Inr buf \<and>
        writeOpt fs (outputPath (cx_outputDir a) cl)
          (clusterInstanceText env i buf w' (cx_writeWarnings a) c (cx_copyComments a) (length (cl_Nodes cl))) = Some fs')"
  by (auto simp: convertOne_def Let_def res_simps foldl_AddWarning writeClusterInstanceToFile_def instanceAt_def)

lemma convertAll_all:
  "fold_res (convertOne env sc a c) (fs, w) (enumerate n cls) = Inr (fs', w') \<Longrightarrow>
   w' = warningsUpTo a w cls \<and> sameFile fs' = sameFile fs \<and>
   (\<forall>p. (\<forall>cl\<in>set cls. \<not> sameFile fs (outputPath (cx_outputDir a) cl) p) \<longrightarrow> readOpt fs' p = readOpt fs p)"
proof (induction cls arbitrary: fs w n)
  case Nil
  then show ?case by (simp add: warningsUpTo_def)
next
  case (Cons cl cls)
  from Cons.prems obtain fs1 w1 buf where s: "writeOpt fs (outputPath (cx_outputDir a) cl) buf = Some fs1"
      "w1 = w @ conversionWarnings cl (cx_configMap a)"
      "fold_res (convertOne env sc a c) (fs1, w1) (enumerate (Suc n) cls) = Inr (fs', w')"
    by (auto simp: bind_res_Inr_iff convertOne_Inr)
  from fstore.same_write [OF s(1)] Cons.IH [OF s(3)] s(2) fstore.read_write [OF s(1)]
  show ?case by (simp add: warningsUpTo_def)
qed

lemmas convertAll = convertAll_all [THEN conjunct1] convertAll_all [THEN conjunct2, THEN conjunct1]
  convertAll_all [THEN conjunct2, THEN conjunct2, rule_format]

lemma convertAll_written:
  assumes "fold_res (convertOne env sc a c) (fs, w) (enumerate n cls) = Inr (fs', w')"
    and "\<forall>i<length cls. \<forall>j<length cls. i \<noteq> j \<longrightarrow>
           \<not> sameFile fs (outputPath (cx_outputDir a) (cls ! i)) (outputPath (cx_outputDir a) (cls ! j))"
    and "i < length cls"
  shows "written env sc a c fs' (n + i) (warningsUpTo a w (take (Suc i) cls)) (cls ! i)"
  using assms
proof (induction cls arbitrary: fs w n i)
  case (Cons cl cls)
  from Cons.prems(1) obtain fs1 w1 where s: "convertOne env sc a c (fs, w) (n, cl) = Inr (fs1, w1)"
    "fold_res (convertOne env sc a c) (fs1, w1) (enumerate (Suc n) cls) = Inr (fs', w')"
    by (auto simp: bind_res_Inr_iff)
  from s(1) obtain buf where buf: "w1 = w @ conversionWarnings cl (cx_configMap a)"
    "sv_encode env (instanceAt env sc a n cl) = Inr buf"
    "writeOpt fs (outputPath (cx_outputDir a) cl)
      (clusterInstanceText env n buf w1 (cx_writeWarnings a) c (cx_copyComments a) (length (cl_Nodes cl))) = Some fs1"
    by (auto simp: convertOne_Inr)
  have same: "sameFile fs1 = sameFile fs" by (rule fstore.same_write [OF buf(3)])
  show ?case
  proof (cases i)
    case 0
    have "\<not> sameFile fs1 (outputPath (cx_outputDir a) y) (outputPath (cx_outputDir a) cl)" if "y \<in> set cls" for y
    proof -
      from that obtain k where "k < length cls" "y = cls ! k" by (metis in_set_conv_nth)
      with Cons.prems(2) [rule_format, of "Suc k" 0] same show ?thesis by simp
    qed
    then have "readOpt fs' (outputPath (cx_outputDir a) cl) = readOpt fs1 (outputPath (cx_outputDir a) cl)"
      by (intro convertAll(3) [OF s(2)]) simp
    with fstore.read_back [OF buf(3)] buf(1,2) 0 show ?thesis
      by (simp add: written_def warningsUpTo_def)
  next
    case (Suc k)
    have "written env sc a c fs' (Suc n + k) (warningsUpTo a w1 (take (Suc k) cls)) (cls ! k)"
    proof (rule Cons.IH [OF s(2)])
      show "\<forall>i<length cls. \<forall>j<length cls. i \<noteq> j \<longrightarrow>
           \<not> sameFile fs1 (outputPath (cx_outputDir a) (cls ! i)) (outputPath (cx_outputDir a) (cls ! j))"
      proof (intro allI impI)
        fix i j assume "i < length cls" "j < length cls" "i \<noteq> j"
        then show "\<not> sameFile fs1 (outputPath (cx_outputDir a) (cls ! i)) (outputPath (cx_outputDir a) (cls ! j))"
          using Cons.prems(2) [rule_format, of "Suc i" "Suc j"] same by simp
      qed
      show "k < length cls" using Cons.prems(3) Suc by simp
    qed
    with Suc buf(1) show ?thesis by (simp add: warningsUpTo_def)
  qed
qed simp

lemma convertAll_wf:
  "fold_res (convertOne env sc a c) (fs, w) xs = Inr (fs', w') \<Longrightarrow> fs_wf fs \<Longrightarrow> fs_wf fs'"
proof (induction xs arbitrary: fs w)
  case (Cons x xs)
  obtain i cl where x: "x = (i, cl)" by (cases x)
  with Cons.prems(1) obtain fs1 w1 where s: "convertOne env sc a c (fs, w) (i, cl) = Inr (fs1, w1)"
    "fold_res (convertOne env sc a c) (fs1, w1) xs = Inr (fs', w')" by (auto simp: bind_res_Inr_iff)
  from s(1) Cons.prems(2) have "fs_wf fs1" by (auto simp: convertOne_Inr intro: writeOpt_wf)
  with Cons.IH [OF s(2)] show ?case by simp
qed simp

lemma convertToClusterInstance_env:
  assumes "convertToClusterInstance env fs sc outputDir clusterRef nodeRef extraRefs suppressed writeWarnings
             copyComments inputFile configMap = Inr (fs', msg)"
    and "fs_wf fs"
  shows "fs_wf fs'" and "sameFile fs' = sameFile fs" and "outputDir \<noteq> []"
proof -
  from assms(1) obtain a c fs1 w w2 xs where mk: "os_MkdirAll fs outputDir = Inr fs1"
    and loop: "fold_res (convertOne env sc a c) (fs1, w) (enumerate 0 xs) = Inr (fs', w2)"
    by (auto simp: convertToClusterInstance_def Let_def res_simps split: sum.splits)
  have "fs_wf fs1" by (rule os_MkdirAll_wf(1) [OF assms(2) mk])
  then show "fs_wf fs'" by (rule convertAll_wf [OF loop])
  show "sameFile fs' = sameFile fs" "outputDir \<noteq> []"
    using convertAll(2) [OF loop] mk by (auto simp: os_MkdirAll_Inr sameFile_def fun_eq_iff)
qed

lemma outputPath_resolve:
  assumes "outputDir \<noteq> []" and "goodName (cl_ClusterName cl @ ''.yaml'')"
  shows "resolve fs (outputPath outputDir cl) = resolve fs outputDir @ [cl_ClusterName cl @ ''.yaml'']"
    and "outputPath outputDir cl \<noteq> []"
  unfolding outputPath_def using resolve_JoinPath [OF assms(2,1)] by simp_all

lemma outputPath_different:
  assumes "outputDir \<noteq> []" and "\<forall>cl\<in>set cls. goodName (cl_ClusterName cl @ ''.yaml'')"
    and "distinct (map cl_ClusterName cls)" and "i < length cls" "j < length cls" "i \<noteq> j"
  shows "\<not> sameFile fs (outputPath outputDir (cls ! i)) (outputPath outputDir (cls ! j))"
proof -
  have "cl_ClusterName (cls ! i) \<noteq> cl_ClusterName (cls ! j)"
    using assms(3-6) by (metis length_map nth_eq_iff_index_eq nth_map)
  with assms show ?thesis
    using outputPath_resolve(1) [of outputDir "cls ! i" fs] outputPath_resolve(1) [of outputDir "cls ! j" fs]
    by (simp add: sameFile_def)
qed

lemma readOpt_MkdirAll:
  "fs_wf fs \<Longrightarrow> os_MkdirAll fs d = Inr fs' \<Longrightarrow> readOpt fs' p = readOpt fs p"
  by (rule readOpt_eqI) (auto simp: readOpt_Some os_MkdirAll_wf(3) os_MkdirAll_Inr)

lemma MkdirAll_env:
  "os_MkdirAll fs d = Inr fs' \<Longrightarrow> resolve fs' = resolve fs \<and> sameFile fs' = sameFile fs \<and> d \<noteq> []"
  by (auto simp: os_MkdirAll_Inr sameFile_def fun_eq_iff)

lemma convertToClusterInstance_written:
  assumes "convertToClusterInstance env fs sc outputDir clusterRef nodeRef extraRefs suppressed writeWarnings
             copyComments inputFile configMap = Inr (fs', msg)"
    and "fs_wf fs"
    and "\<forall>cl\<in>set (sp_Clusters (si_Spec sc)). goodName (cl_ClusterName cl @ ''.yaml'')"
    and "distinct (map cl_ClusterName (sp_Clusters (si_Spec sc)))"
  shows "\<exists>clusterRefs nodeRefs c.
     parseTemplateReferences clusterRef = Inr clusterRefs \<and> parseTemplateReferences nodeRef = Inr nodeRefs \<and>
     collectComments env fs copyComments inputFile = Inr c \<and>
     (let cls = sp_Clusters (si_Spec sc);
          refs = commaList extraRefs;
          a = convArgsOf clusterRefs nodeRefs refs suppressed writeWarnings copyComments inputFile configMap outputDir
      in (\<forall>i<length cls. written env sc a c fs' i (warningsUpTo a (initialWarnings sc refs) (take (Suc i) cls)) (cls ! i)) \<and>
         (\<forall>p. (\<forall>cl\<in>set cls. \<not> sameFile fs (outputPath outputDir cl) p) \<longrightarrow> readOpt fs' p = readOpt fs p))"
proof -
  let ?cls = "sp_Clusters (si_Spec sc)" and ?refs = "commaList extraRefs"
  let ?a = "\<lambda>cr nr. convArgsOf cr nr ?refs suppressed writeWarnings copyComments inputFile configMap outputDir"
  from assms(1) obtain c clusterRefs nodeRefs fs1 w2 where parse:
    "collectComments env fs copyComments inputFile = Inr c"
    "parseTemplateReferences clusterRef = Inr clusterRefs" "parseTemplateReferences nodeRef = Inr nodeRefs"
    and mk: "os_MkdirAll fs outputDir = Inr fs1"
    and loop: "fold_res (convertOne env sc (?a clusterRefs nodeRefs) c) (fs1, initialWarnings sc ?refs) (enumerate 0 ?cls) = Inr (fs', w2)"
    by (auto simp: convertToClusterInstance_def Let_def res_simps split: sum.splits)
  have d: "cx_outputDir (?a clusterRefs nodeRefs) = outputDir" by (simp add: convArgsOf_def)
  note env = MkdirAll_env [OF mk] and reads = readOpt_MkdirAll [OF assms(2) mk]
  have "\<forall>i<length ?cls. \<forall>j<length ?cls. i \<noteq> j \<longrightarrow>
      \<not> sameFile fs1 (outputPath outputDir (?cls ! i)) (outputPath outputDir (?cls ! j))"
    using outputPath_different [OF _ assms(3,4)] env by blast
  from convertAll_written [OF loop, unfolded d, OF this]
  have "\<forall>i<length ?cls. written env sc (?a clusterRefs nodeRefs) c fs' i
      (warningsUpTo (?a clusterRefs nodeRefs) (initialWarnings sc ?refs) (take (Suc i) ?cls)) (?cls ! i)" by simp
  moreover have "readOpt fs' p = readOpt fs p" if "\<forall>cl\<in>set ?cls. \<not> sameFile fs (outputPath outputDir cl) p" for p
    using convertAll(3) [OF loop, unfolded d, of p] that env reads by simp
  ultimately show ?thesis using parse unfolding Let_def by blast
qed

text \<open>C9. What the conversion writes: when it succeeds on clusters with different names that can name files,
  every cluster has its own file \<^verbatim>\<open><cluster>.yaml\<close> in the output directory, and this file holds the encoding of the
  cluster's ClusterInstance, with the warnings recorded up to this cluster and the copied comments
  if they were asked for. Every other file is as before.
\<close>

theorem convertToClusterInstance_files:
  assumes "convertToClusterInstance env fs sc outputDir clusterRef nodeRef extraRefs suppressed writeWarnings
             copyComments inputFile configMap = Inr (fs', msg)"
    and "fs_wf fs"
    and "\<forall>cl\<in>set (sp_Clusters (si_Spec sc)). goodName (cl_ClusterName cl @ ''.yaml'')"
    and "distinct (map cl_ClusterName (sp_Clusters (si_Spec sc)))"
  shows "\<exists>clusterRefs nodeRefs c.
     parseTemplateReferences clusterRef = Inr clusterRefs \<and> parseTemplateReferences nodeRef = Inr nodeRefs \<and>
     collectComments env fs copyComments inputFile = Inr c \<and>
     (let cls = sp_Clusters (si_Spec sc);
          refs = commaList extraRefs;
          a = convArgsOf clusterRefs nodeRefs refs suppressed writeWarnings copyComments inputFile configMap outputDir
      in (\<forall>i<length cls. written env sc a c fs' i (warningsUpTo a (initialWarnings sc refs) (take (Suc i) cls)) (cls ! i)) \<and>
         (\<forall>p. (\<forall>cl\<in>set cls. \<not> sameFile fs (outputPath outputDir cl) p) \<longrightarrow> readOpt fs' p = readOpt fs p))"
  by (rule convertToClusterInstance_written [OF assms])

definition demoEnv :: siteEnv where
  "demoEnv = \<lparr>sv_encode = (\<lambda>ci. Inr (cim_Name (ci_Metadata ci))), sv_parseNode = (\<lambda>_. Inr []), sv_now = (\<lambda>_. ''t''),
     sv_visit = (\<lambda>_ c. c), sv_order = (\<lambda>_ _ m. m)\<rparr>"

definition demoFs :: fsys where
  "demoFs = \<lparr>fs_nodes = [], fs_cwd = ''/w'', fs_exe = ''/w/x''\<rparr>"

definition demoSite :: SiteConfig where
  "demoSite = zeroSite\<lparr>si_Spec := (si_Spec zeroSite)\<lparr>sp_Clusters :=
     [zeroCluster\<lparr>cl_ClusterName := ''a''\<rparr>, zeroCluster\<lparr>cl_ClusterName := ''b'', cl_ApiVIP := ''1''\<rparr>]\<rparr>\<rparr>"

lemma demo_ok:
  "fs_wf demoFs" "\<forall>cl\<in>set (sp_Clusters (si_Spec demoSite)). goodName (cl_ClusterName cl @ ''.yaml'')"
  "distinct (map cl_ClusterName (sp_Clusters (si_Spec demoSite)))"
  "is_ok (convertToClusterInstance demoEnv demoFs demoSite ''/o'' ''n/t'' [] [] [] True False ''s.yaml'' ''m'')"
  subgoal by (simp add: fs_wf_def demoFs_def nodeAt_def)
  subgoal by (simp add: demoSite_def zeroSite_def zeroCluster_def goodName_def plainElem_def)
  subgoal by (simp add: demoSite_def zeroSite_def zeroCluster_def)
  subgoal by code_simp
  done

theorem convertToClusterInstance_files_witness:
  "\<exists>fs'. \<exists>msg. convertToClusterInstance demoEnv demoFs demoSite ''/o'' ''n/t'' [] [] [] True False ''s.yaml'' ''m'' = Inr (fs', msg) \<and>
     (\<forall>p. (\<forall>cl\<in>set (sp_Clusters (si_Spec demoSite)). \<not> sameFile demoFs (outputPath ''/o'' cl) p) \<longrightarrow>
        readOpt fs' p = readOpt demoFs p)"
proof -
  obtain fs' msg where r: "convertToClusterInstance demoEnv demoFs demoSite ''/o'' ''n/t'' [] [] [] True False ''s.yaml'' ''m'' = Inr (fs', msg)"
    using demo_ok(4) by (auto elim!: is_okE)
  with convertToClusterInstance_files [OF r demo_ok(1-3)] show ?thesis unfolding Let_def by blast
qed

section \<open>The conversion succeeds\<close>

definition canWrite :: "convArgs \<Rightarrow> Cluster list \<Rightarrow> fsys \<Rightarrow> bool" where
  "canWrite a cls fs \<longleftrightarrow> nodeAt fs (resolve fs (cx_outputDir a)) = Some NDir \<and>
     (\<forall>cl\<in>set cls. nodeAt fs (resolve fs (outputPath (cx_outputDir a) cl)) \<noteq> Some NDir)"

lemma convertOne_progress:
  assumes "canWrite a cls fs" and "\<forall>ci. is_ok (sv_encode env ci)" and "cx_outputDir a \<noteq> []"
    and "goodName (cl_ClusterName cl @ ''.yaml'')" and "cl \<in> set cls"
  shows "\<exists>fs' w'. convertOne env sc a c (fs, w) (i, cl) = Inr (fs', w') \<and> canWrite a cls fs'"
proof -
  let ?p = "outputPath (cx_outputDir a) cl"
  note res = outputPath_resolve [OF assms(3,4)]
  obtain buf where buf: "sv_encode env (instanceAt env sc a i cl) = Inr buf"
    using assms(2) by (auto simp: is_ok_iff simp del: ex_Inr_is_ok)
  have node: "nodeAt fs (resolve fs ?p) \<noteq> Some NDir" "nodeAt fs (butlast (resolve fs ?p)) = Some NDir"
    using assms(1,5) by (auto simp: canWrite_def res(1) [of fs])
  then have w: "writeOpt fs ?p s = Some (setNode (resolve fs ?p) (NFile s) fs)" for s
    by (simp add: writeOpt_Some res(2))
  have "canWrite a cls (setNode (resolve fs ?p) (NFile s) fs)" for s
    using assms(1) by (auto simp: canWrite_def res(1) [of fs])
  with w buf show ?thesis by (auto simp: convertOne_Inr)
qed

lemma convertAll_progress:
  assumes "canWrite a cls fs" and "\<forall>ci. is_ok (sv_encode env ci)" and "cx_outputDir a \<noteq> []"
    and "\<forall>cl\<in>set cls. goodName (cl_ClusterName cl @ ''.yaml'')" and "set xs \<subseteq> set cls"
  shows "is_ok (fold_res (convertOne env sc a c) (fs, w) (enumerate n xs))"
  using assms(1,5)
proof (induction xs arbitrary: fs w n)
  case (Cons x xs)
  then obtain fs1 w1 where "convertOne env sc a c (fs, w) (n, x) = Inr (fs1, w1)" "canWrite a cls fs1"
    using convertOne_progress [OF Cons.prems(1) assms(2,3), of x sc c w n] assms(4) by auto
  with Cons show ?case by simp
qed simp

text \<open>C21. The conversion does its work: it returns without an error if the template references are
  well-formed, the comments can be collected, the encoder accepts every ClusterInstance, the output
  directory can be created and no output file is in the way as a directory.
\<close>

theorem convertToClusterInstance_succeeds:
  assumes "is_ok (parseTemplateReferences clusterRef)" and "is_ok (parseTemplateReferences nodeRef)"
    and "is_ok (collectComments env fs copyComments inputFile)" and "\<forall>ci. is_ok (sv_encode env ci)"
    and "fs_wf fs" and "os_MkdirAll fs outputDir = Inr fs1"
    and "\<forall>cl\<in>set (sp_Clusters (si_Spec sc)). goodName (cl_ClusterName cl @ ''.yaml'') \<and>
           nodeAt fs1 (resolve fs1 (outputPath outputDir cl)) \<noteq> Some NDir"
  shows "is_ok (convertToClusterInstance env fs sc outputDir clusterRef nodeRef extraRefs suppressed writeWarnings
           copyComments inputFile configMap)"
proof -
  let ?cls = "sp_Clusters (si_Spec sc)" and ?refs = "commaList extraRefs"
  obtain clusterRefs nodeRefs c where parse: "parseTemplateReferences clusterRef = Inr clusterRefs"
    "parseTemplateReferences nodeRef = Inr nodeRefs" "collectComments env fs copyComments inputFile = Inr c"
    using assms(1-3) by (auto elim!: is_okE)
  define a where "a = convArgsOf clusterRefs nodeRefs ?refs suppressed writeWarnings copyComments inputFile configMap outputDir"
  have d: "cx_outputDir a = outputDir" by (simp add: a_def convArgsOf_def)
  have "canWrite a ?cls fs1"
    using os_MkdirAll_wf(2) [OF assms(5,6)] MkdirAll_env [OF assms(6)] assms(7) by (simp add: canWrite_def d)
  then have "is_ok (fold_res (convertOne env sc a c) (fs1, initialWarnings sc ?refs) (enumerate 0 ?cls))"
    using assms(4,7) MkdirAll_env [OF assms(6)] by (intro convertAll_progress) (auto simp: d)
  then show ?thesis
    unfolding convertToClusterInstance_def using parse assms(6)
    by (auto simp: Let_def a_def [symmetric] elim!: is_okE)
qed

theorem convertToClusterInstance_succeeds_witness:
  "is_ok (convertToClusterInstance demoEnv demoFs demoSite ''/o'' ''n/t'' [] ''r'' [] True False ''s.yaml'' ''m'')"
proof -
  have fs1: "os_MkdirAll demoFs ''/o'' = Inr (setNode [''o''] NDir demoFs)"
    by (simp add: os_MkdirAll_def resolve_def IsAbs_def slash_def elems_def Split_def cleanElems_def parents_def demoFs_def nodeAt_def setNode_def)
  have free: "\<forall>cl\<in>set (sp_Clusters (si_Spec demoSite)). goodName (cl_ClusterName cl @ ''.yaml'') \<and>
      nodeAt (setNode [''o''] NDir demoFs) (resolve (setNode [''o''] NDir demoFs) (outputPath ''/o'' cl)) \<noteq> Some NDir"
    by code_simp
  have refs: "is_ok (parseTemplateReferences ''n/t'')" "is_ok (parseTemplateReferences [])" by code_simp+
  have "is_ok (collectComments demoEnv demoFs False ''s.yaml'')" by (simp add: collectComments_def)
  moreover have "\<forall>ci. is_ok (sv_encode demoEnv ci)" by (simp add: demoEnv_def)
  ultimately show ?thesis
    by (rule convertToClusterInstance_succeeds [OF refs _ _ demo_ok(1) fs1 free])
qed

end
