(* ===== verification/ExtraManifests.thy ===== *)
theory ExtraManifests
  imports SiteConvert
begin

text \<open>
  \<^verbatim>\<open>siteconfig-converter/extraManifests.go\<close>: collecting the extra manifests of a cluster from search paths,
  templates and the workload partitioning files, filtering them, and writing them to files.

  Code outside the repository is in the record \<open>manifestEnv\<close>: the YAML decoder (a nil map is \<open>None\<close>) and
  encoder, the text templates (base name, text, role and cluster), and the orders in which Go
  visits the roles and the manifests of a cluster. The values of the \<^verbatim>\<open>dataMap\<close> are always strings.
\<close>

record manifestEnv =
  me_decode :: "string \<Rightarrow> gmap option res"
  me_encode :: "gmap \<Rightarrow> string res"
  me_render :: "string \<Rightarrow> string \<Rightarrow> string \<Rightarrow> Cluster \<Rightarrow> string res"
  me_roles :: "string \<Rightarrow> string list \<Rightarrow> string list"
  me_order :: "Cluster \<Rightarrow> strMap \<Rightarrow> strMap"

definition localExtraManifestPath :: string where "localExtraManifestPath = ''extra-manifest''"
definition workloadPath :: string where "workloadPath = ''workload''"
definition workloadFile :: string where "workloadFile = ''03-workload-partitioning.yaml''"
definition workloadCrioFile :: string where "workloadCrioFile = ''crio.conf''"
definition workloadKubeletFile :: string where "workloadKubeletFile = ''kubelet.conf''"
definition cpusetMark :: string where "cpusetMark = ''$cpuset''"
definition ZtpAnnotation :: string where "ZtpAnnotation = ''ran.openshift.io/ztp-gitops-generated''"
definition ZtpAnnotationDefaultValue :: string where "ZtpAnnotationDefaultValue = ''{}''"

section \<open>Files\<close>

text \<open>A \<^verbatim>\<open>fs.FileInfo\<close> is its name and whether it is a directory.\<close>

type_synonym fileInfo = "string \<times> bool"

record DirContainFiles =
  dc_Directory :: string
  dc_Files :: "fileInfo list"

definition resolveFilePath :: "fsys \<Rightarrow> string \<Rightarrow> string \<Rightarrow> string" where
  "resolveFilePath fs filePath basedir =
     (if IsAbs filePath then filePath
      else case os_Stat fs filePath of Inr _ \<Rightarrow> filePath | Inl _ \<Rightarrow> JoinPath [basedir, filePath])"

definition statError :: "string \<Rightarrow> os_error \<Rightarrow> go_error" where
  "statError p e = Error (pathError ''stat'' p e)"

definition openError :: "string \<Rightarrow> os_error \<Rightarrow> go_error" where
  "openError p e = Error (pathError ''open'' p e)"

definition entryInfo :: "fsys \<Rightarrow> string \<Rightarrow> string \<Rightarrow> fileInfo" where
  "entryInfo fs path name = (name, nodeAt fs (resolve fs path @ [name]) = Some NDir)"

definition GetFiles :: "fsys \<Rightarrow> string \<Rightarrow> fileInfo list res" where
  "GetFiles fs path =
     (case os_Stat fs path of
        Inl e \<Rightarrow> Inl (statError path e)
      | Inr (NFile _) \<Rightarrow> Inr [(Base path, False)]
      | Inr NDir \<Rightarrow>
          (case os_ReadDir fs path of
             Inl e \<Rightarrow> Inl (openError path e)
           | Inr names \<Rightarrow> Inr (map (entryInfo fs path) names)))"

definition ReadFile :: "fsys \<Rightarrow> string \<Rightarrow> string res" where
  "ReadFile fs filePath = readOr openError fs filePath"

definition ReadExtraManifestResourceFile :: "fsys \<Rightarrow> string \<Rightarrow> string res" where
  "ReadExtraManifestResourceFile fs filePath =
     (case ReadFile fs (resolveFilePath fs filePath (Dir (fs_exe fs))) of
        Inr s \<Rightarrow> Inr s
      | Inl _ \<Rightarrow> ReadFile fs (resolveFilePath fs filePath (fs_cwd fs)))"

definition GetExtraManifestResourceDir :: "fsys \<Rightarrow> string \<Rightarrow> string" where
  "GetExtraManifestResourceDir fs manifestsPath =
     (if IsAbs manifestsPath then manifestsPath else resolveFilePath fs manifestsPath (Dir (fs_exe fs)))"

section \<open>The annotation\<close>

definition nilMapPanic :: go_error where "nilMapPanic = Panic ''assignment to entry in nil map''"

definition ensureMap :: "gmap \<Rightarrow> string \<Rightarrow> gmap" where
  "ensureMap m k = (if idx m k = GNil then mput m k (GMap []) else m)"

definition annotateZtp :: "gmap option \<Rightarrow> gmap res" where
  "annotateZtp data =
     (case data of
        None \<Rightarrow> Inl nilMapPanic
      | Some d \<Rightarrow>
          let d1 = ensureMap d ''metadata'' in
          bind_res (asMap (idx d1 ''metadata'')) (\<lambda>meta.
          let meta1 = ensureMap meta ''annotations'' in
          bind_res (asMap (idx meta1 ''annotations'')) (\<lambda>ann.
            Inr (mput d1 ''metadata'' (GMap (mput meta1 ''annotations''
              (GMap (mput ann ZtpAnnotation (GStr ZtpAnnotationDefaultValue)))))))))"

definition addZTPAnnotationToManifest :: "manifestEnv \<Rightarrow> string \<Rightarrow> string res" where
  "addZTPAnnotationToManifest M manifestStr =
     bind_res (map_error (\<lambda>e. ''could not unmarshal string: '' @ e) (me_decode M manifestStr)) (\<lambda>data.
     bind_res (annotateZtp data) (\<lambda>out.
       map_error (\<lambda>e. ''could not marshal data: '' @ e) (me_encode M out)))"

section \<open>Workload partitioning\<close>

text \<open>The standard base64 encoding with padding.\<close>

definition encodeStd :: string where
  "encodeStd = ''ABCDEFGHIJKLMNOPQRSTUVWXYZabcdefghijklmnopqrstuvwxyz0123456789+/''"

definition base64Char :: "nat \<Rightarrow> char" where
  "base64Char i = encodeStd ! i"

definition byteOf :: "char \<Rightarrow> nat" where "byteOf c = of_char c"

fun EncodeToString :: "string \<Rightarrow> string" where
  "EncodeToString [] = []"
| "EncodeToString [a] =
     (let v = byteOf a * 65536
      in [base64Char (v div 262144), base64Char (v div 4096 mod 64), CHR ''='', CHR ''=''])"
| "EncodeToString [a, b] =
     (let v = byteOf a * 65536 + byteOf b * 256
      in [base64Char (v div 262144), base64Char (v div 4096 mod 64), base64Char (v div 64 mod 64), CHR ''=''])"
| "EncodeToString (a # b # c # rest) =
     (let v = byteOf a * 65536 + byteOf b * 256 + byteOf c
      in [base64Char (v div 262144), base64Char (v div 4096 mod 64), base64Char (v div 64 mod 64), base64Char (v mod 64)] @
         EncodeToString rest)"

definition workloadFileForRole :: "string \<Rightarrow> string" where
  "workloadFileForRole role =
     (let parts = Split workloadFile ''-'' in Join (take 1 parts @ [role] @ drop 1 parts) ''-'')"

definition getWorkloadManifest :: "fsys \<Rightarrow> string \<Rightarrow> string \<Rightarrow> string \<Rightarrow> (string \<times> string) res" where
  "getWorkloadManifest fs fPath cpuSet role =
     (let filePath = JoinPath [fPath, workloadPath] in
      bind_res (ReadExtraManifestResourceFile fs (JoinPath [filePath, workloadCrioFile])) (\<lambda>crio.
      let crioStr = EncodeToString (ReplaceAll crio cpusetMark cpuSet) in
      bind_res (ReadExtraManifestResourceFile fs (JoinPath [filePath, workloadKubeletFile])) (\<lambda>kubelet.
      let kubeletStr = EncodeToString (ReplaceAll kubelet cpusetMark cpuSet) in
      bind_res (ReadExtraManifestResourceFile fs (JoinPath [filePath, workloadFile])) (\<lambda>workload.
        Inr (workloadFileForRole role,
             ReplaceAll (ReplaceAll (ReplaceAll workload ''$crio'' crioStr) ''$k8s'' kubeletStr) ''$mcp'' role)))))"

section \<open>Templates\<close>

text \<open>An output of white space only gives an empty name and text.\<close>

definition getManifestFromTemplate :: "manifestEnv \<Rightarrow> fsys \<Rightarrow> string \<Rightarrow> string \<Rightarrow> Cluster \<Rightarrow> (string \<times> string) res" where
  "getManifestFromTemplate M fs templatePath role cl =
     (let baseName = Base templatePath;
          renderedName = role @ ''-'' @ TrimSuffix baseName ''.tmpl''
      in bind_res (ReadExtraManifestResourceFile fs templatePath) (\<lambda>tStr.
         bind_res (me_render M baseName tStr role cl) (\<lambda>output.
           Inr (if TrimSpace output \<noteq> [] then (renderedName, output) else ([], [])))))"

section \<open>The manifests of a cluster\<close>

definition dirFiles :: "fsys \<Rightarrow> string \<Rightarrow> DirContainFiles res" where
  "dirFiles fs p = bind_res (GetFiles fs p) (\<lambda>files. Inr \<lparr>dc_Directory = p, dc_Files = files\<rparr>)"

definition skipped :: "fileInfo \<Rightarrow> bool" where
  "skipped file \<longleftrightarrow> snd file \<or> HasPrefix (fst file) ''.''"

text \<open>Adding a manifest under a name, annotated, unless it is empty.\<close>

definition addManifest :: "manifestEnv \<Rightarrow> strMap \<Rightarrow> string \<Rightarrow> string \<Rightarrow> strMap res" where
  "addManifest M dataMap name txt =
     (if txt = [] then Inr dataMap
      else bind_res (addZTPAnnotationToManifest M txt) (\<lambda>data. Inr (mput dataMap name data)))"

definition addTemplateRole :: "manifestEnv \<Rightarrow> fsys \<Rightarrow> Cluster \<Rightarrow> string \<Rightarrow> strMap \<Rightarrow> string \<Rightarrow> strMap res" where
  "addTemplateRole M fs cl filePath dataMap role =
     bind_res (getManifestFromTemplate M fs filePath role cl) (\<lambda>(filename, txt). addManifest M dataMap filename txt)"

definition addPathFile :: "manifestEnv \<Rightarrow> fsys \<Rightarrow> string list \<Rightarrow> Cluster \<Rightarrow> string \<Rightarrow> strMap \<Rightarrow> fileInfo \<Rightarrow> strMap res" where
  "addPathFile M fs roles cl directory dataMap file =
     (if skipped file then Inr dataMap
      else let filePath = JoinPath [directory, fst file] in
        if HasSuffix (fst file) ''.tmpl''
        then fold_res (addTemplateRole M fs cl filePath) dataMap (me_roles M filePath roles)
        else bind_res (ReadExtraManifestResourceFile fs filePath) (addManifest M dataMap (fst file)))"

definition addDirFiles :: "manifestEnv \<Rightarrow> fsys \<Rightarrow> string list \<Rightarrow> Cluster \<Rightarrow> strMap \<Rightarrow> DirContainFiles \<Rightarrow> strMap res" where
  "addDirFiles M fs roles cl dataMap v =
     fold_res (addPathFile M fs roles cl (dc_Directory v)) dataMap (dc_Files v)"

definition workloadError :: "Cluster \<Rightarrow> string \<Rightarrow> string" where
  "workloadError cl e = ''Error could not read WorkloadManifest '' @ cl_ClusterName cl @ '' '' @ e @ newline"

definition addWorkload :: "manifestEnv \<Rightarrow> fsys \<Rightarrow> Cluster \<Rightarrow> Node \<Rightarrow> string \<Rightarrow> strMap \<Rightarrow> fileInfo \<Rightarrow> strMap res" where
  "addWorkload M fs cl n directory dataMap file =
     (if fst file = workloadPath
      then bind_res (map_error (workloadError cl) (getWorkloadManifest fs directory (nd_Cpuset n) (nd_Role n)))
             (\<lambda>(k, txt). addManifest M dataMap k txt)
      else Inr dataMap)"

definition addWorkloads :: "manifestEnv \<Rightarrow> fsys \<Rightarrow> Cluster \<Rightarrow> Node \<Rightarrow> strMap \<Rightarrow> DirContainFiles \<Rightarrow> strMap res" where
  "addWorkloads M fs cl n dataMap v =
     fold_res (addWorkload M fs cl n (dc_Directory v)) dataMap (dc_Files v)"

definition getExtraManifestMaps :: "manifestEnv \<Rightarrow> fsys \<Rightarrow> string list \<Rightarrow> Cluster \<Rightarrow> string list \<Rightarrow> strMap res" where
  "getExtraManifestMaps M fs roles cl filePaths =
     bind_res (mapM_res (dirFiles fs) filePaths) (\<lambda>dirFilesArray.
     bind_res (fold_res (addDirFiles M fs roles cl) [] dirFilesArray) (\<lambda>dataMap.
       case cl_Nodes cl of
         [n] \<Rightarrow> if nd_Cpuset n \<noteq> [] then fold_res (addWorkloads M fs cl n) dataMap dirFilesArray else Inr dataMap
       | _ \<Rightarrow> Inr dataMap))"

section \<open>Filtering\<close>

text \<open>\<open>Some True\<close> excludes everything by default.\<close>

definition excludeAllByDefault :: "string option \<Rightarrow> bool option" where
  "excludeAllByDefault d =
     (case d of
        None \<Rightarrow> Some False
      | Some s \<Rightarrow> if EqualFold s ''include'' then Some False
                  else if EqualFold s ''exclude'' then Some True else None)"

definition inclusionError :: "string \<Rightarrow> go_error" where
  "inclusionError s = Error (''acceptable values for inclusionDefault are include and exclude. You have entered '' @ s)"

definition excludeListError :: go_error where
  "excludeListError = Error ''when InclusionDefault is set to exclude, exclude list can not have entries''"

definition includeListError :: go_error where
  "includeListError = Error ''when InclusionDefault is set to include, include list can not have entries''"

definition getDataMapFileNameInStrings :: "strMap \<Rightarrow> string" where
  "getDataMapFileNameInStrings dataMap = Join (map fst dataMap) '',''"

definition invalidName :: "string \<Rightarrow> string \<Rightarrow> strMap \<Rightarrow> go_error" where
  "invalidName list name dataMap =
     Error (''Filename '' @ name @ '' under '' @ list @ '' array is invalid. Valid files names are: '' @
       getDataMapFileNameInStrings dataMap)"

definition includeFile :: "strMap \<Rightarrow> strMap \<Rightarrow> string \<Rightarrow> strMap res" where
  "includeFile dataMap temp name =
     (case mget dataMap name of
        Some v \<Rightarrow> Inr (mput temp name v)
      | None \<Rightarrow> Inl (invalidName ''include'' name dataMap))"

definition excludeFile :: "strMap \<Rightarrow> string \<Rightarrow> strMap res" where
  "excludeFile dataMap name =
     (case mget dataMap name of
        Some _ \<Rightarrow> Inr (mdel dataMap name)
      | None \<Rightarrow> Inl (invalidName ''exclude'' name dataMap))"

definition filterExtraManifests :: "strMap \<Rightarrow> Filter option \<Rightarrow> strMap res" where
  "filterExtraManifests dataMap flt =
     (case flt of
        None \<Rightarrow> Inr dataMap
      | Some f \<Rightarrow>
          (case excludeAllByDefault (fi_InclusionDefault f) of
             None \<Rightarrow> Inl (inclusionError (the (fi_InclusionDefault f)))
           | Some True \<Rightarrow>
               if fi_Exclude f \<noteq> [] then Inl excludeListError
               else fold_res (includeFile dataMap) [] (fi_Include f)
           | Some False \<Rightarrow>
               if fi_Include f \<noteq> [] then Inl includeListError
               else fold_res excludeFile dataMap (fi_Exclude f)))"

section \<open>All extra manifests\<close>

definition fromInput :: "string \<Rightarrow> string \<Rightarrow> string" where
  "fromInput inputFileDir path = (if IsAbs path then path else Clean (JoinPath [inputFileDir, path]))"

definition accessError :: "string \<Rightarrow> string \<Rightarrow> string \<Rightarrow> string" where
  "accessError resolved given e =
     ''failed to access extraManifestPath '' @ resolved @ '' (resolved from '' @ given @ ''): '' @ e"

definition overwriteError :: "string \<Rightarrow> go_error" where
  "overwriteError name = Error (''Pre-defined extra-manifest cannot be over written '' @ name)"

text \<open>The pre-defined manifests: from the search paths, or from the directory beside the executable if
  it exists.\<close>

definition predefinedManifests :: "manifestEnv \<Rightarrow> fsys \<Rightarrow> Cluster \<Rightarrow> string \<Rightarrow> strMap \<Rightarrow> strMap res" where
  "predefinedManifests M fs cl inputFileDir dataMap =
     (let roles = remdups (map nd_Role (cl_Nodes cl)) in
      case em_SearchPaths (cl_ExtraManifests cl) of
        Some paths \<Rightarrow> getExtraManifestMaps M fs roles cl (map (fromInput inputFileDir) paths)
      | None \<Rightarrow>
          let containerPath = GetExtraManifestResourceDir fs localExtraManifestPath in
          (case os_Stat fs containerPath of
             Inr _ \<Rightarrow> getExtraManifestMaps M fs roles cl [containerPath]
           | Inl _ \<Rightarrow> Inr dataMap))"

definition addUserFile :: "manifestEnv \<Rightarrow> fsys \<Rightarrow> string \<Rightarrow> strMap \<Rightarrow> fileInfo \<Rightarrow> strMap res" where
  "addUserFile M fs dir dataMap file =
     (if skipped file then Inr dataMap
      else bind_res (ensure (mget dataMap (fst file) = None) (overwriteError (fst file))) (\<lambda>_.
           bind_res (ReadFile fs (JoinPath [dir, fst file])) (addManifest M dataMap (fst file))))"

definition userManifests :: "manifestEnv \<Rightarrow> fsys \<Rightarrow> Cluster \<Rightarrow> string \<Rightarrow> strMap \<Rightarrow> strMap res" where
  "userManifests M fs cl inputFileDir dataMap =
     (if em_SearchPaths (cl_ExtraManifests cl) = None \<and> cl_ExtraManifestPath cl \<noteq> []
      then let dir = fromInput inputFileDir (cl_ExtraManifestPath cl) in
        bind_res (map_error (accessError dir (cl_ExtraManifestPath cl)) (GetFiles fs dir)) (\<lambda>files.
          fold_res (addUserFile M fs dir) dataMap files)
      else Inr dataMap)"

definition filterError :: "Cluster \<Rightarrow> string \<Rightarrow> string" where
  "filterError cl e = ''could not filter '' @ cl_ClusterName cl @ ''.'' @ cl_ExtraManifestPath cl @ '': '' @ e"

definition getExtraManifest :: "manifestEnv \<Rightarrow> fsys \<Rightarrow> strMap \<Rightarrow> Cluster \<Rightarrow> string \<Rightarrow> strMap res" where
  "getExtraManifest M fs dataMap cl inputFileDir =
     bind_res (predefinedManifests M fs cl inputFileDir dataMap) (\<lambda>m1.
     bind_res (userManifests M fs cl inputFileDir m1) (\<lambda>m2.
       map_error (filterError cl) (filterExtraManifests m2 (em_Filter (cl_ExtraManifests cl)))))"

definition noClusters :: go_error where "noClusters = Error ''no clusters found in SiteConfig''"

definition manifestWriteFailed :: "string \<Rightarrow> os_error \<Rightarrow> go_error" where
  "manifestWriteFailed f e = Error (''failed to write manifest file '' @ f @ '': '' @ pathError ''open'' f e)"

definition writeManifest :: "string \<Rightarrow> fsys \<Rightarrow> string \<times> string \<Rightarrow> fsys res" where
  "writeManifest outputDir fs entry =
     writeOr manifestWriteFailed fs (JoinPath [outputDir, fst entry]) (snd entry)"

definition writeClusterManifests :: "manifestEnv \<Rightarrow> string \<Rightarrow> string \<Rightarrow> fsys \<Rightarrow> Cluster \<Rightarrow> fsys res" where
  "writeClusterManifests M outputDir inputFileDir fs cl =
     bind_res (map_error (\<lambda>e. ''failed to generate extra manifests for cluster '' @ cl_ClusterName cl @ '': '' @ e)
       (getExtraManifest M fs [] cl inputFileDir)) (\<lambda>extraManifests.
       fold_res (writeManifest outputDir) fs (me_order M cl extraManifests))"

definition generateExtraManifests :: "manifestEnv \<Rightarrow> fsys \<Rightarrow> SiteConfig \<Rightarrow> string \<Rightarrow> string \<Rightarrow> fsys res" where
  "generateExtraManifests M fs sc outputDir inputFileDir =
     (if sp_Clusters (si_Spec sc) = [] then Inl noClusters
      else fold_res (writeClusterManifests M outputDir inputFileDir) fs (sp_Clusters (si_Spec sc)))"

section \<open>The filter is exact\<close>

lemma includeFiles:
  "set names \<subseteq> dom (mget dataMap) \<Longrightarrow>
   fold_res (includeFile dataMap) temp names = Inr (fold (\<lambda>name t. mput t name (the (mget dataMap name))) names temp)"
  by (induction names arbitrary: temp) (auto simp: includeFile_def)

lemma includeFiles_fail: "\<not> set names \<subseteq> dom (mget dataMap) \<Longrightarrow> \<not> is_ok (fold_res (includeFile dataMap) temp names)"
  by (induction names arbitrary: temp) (auto simp: includeFile_def split: option.splits)

lemma mget_fold_include:
  "mget (fold (\<lambda>name t. mput t name (the (mget dataMap name))) names temp) k =
     (if k \<in> set names then Some (the (mget dataMap k)) else mget temp k)"
  by (induction names arbitrary: temp) auto

lemma excludeFile_Inr: "excludeFile m n = Inr m' \<longleftrightarrow> n \<in> dom (mget m) \<and> m' = mdel m n"
  by (auto simp: excludeFile_def split: option.splits)

lemma excludeFiles:
  "fold_res excludeFile dataMap names = Inr m \<Longrightarrow>
   distinct names \<and> set names \<subseteq> dom (mget dataMap) \<and> mget m = mget dataMap |` (- set names)"
proof (induction names arbitrary: dataMap)
  case Nil
  then show ?case by simp
next
  case (Cons n names)
  from Cons.prems obtain v where v: "mget dataMap n = Some v" "fold_res excludeFile (mdel dataMap n) names = Inr m"
    by (auto simp: excludeFile_Inr bind_res_Inr_iff)
  from Cons.IH [OF v(2)] v(1) show ?case
    by (auto simp: restrict_map_def fun_eq_iff dom_def split: if_splits)
qed

lemma excludeFiles_ok:
  "distinct names \<Longrightarrow> set names \<subseteq> dom (mget dataMap) \<Longrightarrow> is_ok (fold_res excludeFile dataMap names)"
proof (induction names arbitrary: dataMap)
  case (Cons n names)
  then obtain v where v: "mget dataMap n = Some v" by auto
  from Cons.prems have "set names \<subseteq> dom (mget (mdel dataMap n))" by (auto simp: dom_def)
  from Cons.IH [OF _ this] Cons.prems have "is_ok (fold_res excludeFile (mdel dataMap n) names)" by simp
  moreover have "excludeFile dataMap n = Inr (mdel dataMap n)" using v by (simp add: excludeFile_Inr domI)
  ultimately show ?case by simp
qed simp

text \<open>C23. The filter of extra manifests selects exactly the files its lists name. With \<^verbatim>\<open>exclude\<close> as the
  default it succeeds just when the exclude list is empty and every file to include exists, and gives
  those files; with \<^verbatim>\<open>include\<close> (or no default) it succeeds just when the include list is empty and the files to
  exclude exist and are named once, and gives all others; any other default is an error. The contents
  of the selected files are untouched.
\<close>

theorem filterExtraManifests_exact:
  "(case excludeAllByDefault (fi_InclusionDefault f) of
      None \<Rightarrow> \<not> is_ok (filterExtraManifests dataMap (Some f))
    | Some True \<Rightarrow>
        if fi_Exclude f = [] \<and> set (fi_Include f) \<subseteq> dom (mget dataMap)
        then \<exists>m. filterExtraManifests dataMap (Some f) = Inr m \<and> mget m = mget dataMap |` set (fi_Include f)
        else \<not> is_ok (filterExtraManifests dataMap (Some f))
    | Some False \<Rightarrow>
        if fi_Include f = [] \<and> distinct (fi_Exclude f) \<and> set (fi_Exclude f) \<subseteq> dom (mget dataMap)
        then \<exists>m. filterExtraManifests dataMap (Some f) = Inr m \<and> mget m = mget dataMap |` (- set (fi_Exclude f))
        else \<not> is_ok (filterExtraManifests dataMap (Some f)))"
proof (cases "excludeAllByDefault (fi_InclusionDefault f)")
  case None
  then show ?thesis by (simp add: filterExtraManifests_def)
next
  case (Some b)
  show ?thesis
  proof (cases b)
    case True
    have "mget (fold (\<lambda>name t. mput t name (the (mget dataMap name))) (fi_Include f) []) = mget dataMap |` set (fi_Include f)"
      if "set (fi_Include f) \<subseteq> dom (mget dataMap)"
      using that by (auto simp: mget_fold_include restrict_map_def fun_eq_iff)
    with Some True includeFiles [of "fi_Include f" dataMap "[]"] includeFiles_fail [of "fi_Include f" dataMap "[]"]
    show ?thesis by (simp add: filterExtraManifests_def)
  next
    case False
    have "\<exists>m. fold_res excludeFile dataMap (fi_Exclude f) = Inr m \<and> mget m = mget dataMap |` (- set (fi_Exclude f))"
      if "distinct (fi_Exclude f)" "set (fi_Exclude f) \<subseteq> dom (mget dataMap)"
      using excludeFiles_ok [OF that] excludeFiles by (metis is_okE)
    moreover have "distinct (fi_Exclude f) \<and> set (fi_Exclude f) \<subseteq> dom (mget dataMap)"
      if "is_ok (fold_res excludeFile dataMap (fi_Exclude f))"
      using that excludeFiles by (metis is_okE)
    ultimately show ?thesis using Some False by (auto simp: filterExtraManifests_def)
  qed
qed

section \<open>Every manifest is annotated\<close>

definition annotatedText :: "manifestEnv \<Rightarrow> string \<Rightarrow> bool" where
  "annotatedText M txt \<longleftrightarrow> (\<exists>d. me_encode M d = Inr txt \<and>
     at (GMap d) [Key ''metadata'', Key ''annotations'', Key ZtpAnnotation] = Some (GStr ZtpAnnotationDefaultValue))"

definition allAnnotated :: "manifestEnv \<Rightarrow> strMap \<Rightarrow> bool" where
  "allAnnotated M m \<longleftrightarrow> (\<forall>k v. mget m k = Some v \<longrightarrow> annotatedText M v)"

lemma annotateZtp_at:
  "annotateZtp data = Inr d \<Longrightarrow>
   at (GMap d) [Key ''metadata'', Key ''annotations'', Key ZtpAnnotation] = Some (GStr ZtpAnnotationDefaultValue)"
  by (auto simp: annotateZtp_def Let_def res_simps split: option.splits)

lemma addZTPAnnotation_annotated: "addZTPAnnotationToManifest M s = Inr txt \<Longrightarrow> annotatedText M txt"
  unfolding annotatedText_def using annotateZtp_at
  by (auto simp: addZTPAnnotationToManifest_def bind_res_Inr_iff map_error_Inr_iff)

text \<open>What holds of the empty map and of every map that an annotated manifest is added to holds of the
  manifests of a cluster.\<close>

locale manifest_invariant =
  fixes M :: manifestEnv and inv :: "strMap \<Rightarrow> bool"
  assumes inv_Nil: "inv []"
    and inv_put: "inv m \<Longrightarrow> addZTPAnnotationToManifest M s = Inr txt \<Longrightarrow> inv (mput m name txt)"
begin

lemma inv_loop:
  assumes "fold_res f m xs = Inr m'" and "inv m" and "\<And>s x t. f s x = Inr t \<Longrightarrow> inv s \<Longrightarrow> inv t"
  shows "inv m'"
  by (rule fold_res_invariant [where P = inv, OF assms(1,2)]) (rule assms(3))

lemma inv_addManifest: "addManifest M m name txt = Inr m' \<Longrightarrow> inv m \<Longrightarrow> inv m'"
  using inv_put by (auto simp: addManifest_def bind_res_Inr_iff split: if_splits)

lemma inv_addTemplateRole: "addTemplateRole M fs cl p m role = Inr m' \<Longrightarrow> inv m \<Longrightarrow> inv m'"
  using inv_addManifest by (auto simp: addTemplateRole_def bind_res_Inr_iff)

lemma inv_addPathFile:
  assumes "addPathFile M fs roles cl d m file = Inr m'" and "inv m"
  shows "inv m'"
proof (cases "skipped file \<or> \<not> HasSuffix (fst file) ''.tmpl''")
  case True
  with assms inv_addManifest show ?thesis
    by (auto simp: addPathFile_def Let_def bind_res_Inr_iff split: if_splits)
next
  case False
  let ?p = "JoinPath [d, fst file]"
  from False assms(1) have loop: "fold_res (addTemplateRole M fs cl ?p) m (me_roles M ?p roles) = Inr m'"
    by (simp add: addPathFile_def Let_def)
  show ?thesis by (rule inv_loop [OF loop assms(2) inv_addTemplateRole])
qed

lemma inv_addDirFiles: "addDirFiles M fs roles cl m v = Inr m' \<Longrightarrow> inv m \<Longrightarrow> inv m'"
  unfolding addDirFiles_def by (rule inv_loop [OF _ _ inv_addPathFile])

lemma inv_addWorkload: "addWorkload M fs cl n d m file = Inr m' \<Longrightarrow> inv m \<Longrightarrow> inv m'"
  using inv_addManifest
  by (auto simp: addWorkload_def bind_res_Inr_iff map_error_Inr_iff split: if_splits)

lemma inv_addWorkloads: "addWorkloads M fs cl n m v = Inr m' \<Longrightarrow> inv m \<Longrightarrow> inv m'"
  unfolding addWorkloads_def by (rule inv_loop [OF _ _ inv_addWorkload])

lemma inv_getExtraManifestMaps:
  assumes "getExtraManifestMaps M fs roles cl paths = Inr m"
  shows "inv m"
proof -
  from assms obtain dirs m1 where m1: "fold_res (addDirFiles M fs roles cl) [] dirs = Inr m1"
    and m: "(case cl_Nodes cl of
         [n] \<Rightarrow> if nd_Cpuset n \<noteq> [] then fold_res (addWorkloads M fs cl n) m1 dirs else Inr m1
       | _ \<Rightarrow> Inr m1) = Inr m"
    by (auto simp: getExtraManifestMaps_def bind_res_Inr_iff)
  have a: "inv m1" by (rule inv_loop [OF m1 inv_Nil inv_addDirFiles])
  have "inv m" if "fold_res (addWorkloads M fs cl n) m1 dirs = Inr m" for n
    by (rule inv_loop [OF that a inv_addWorkloads])
  with m a show ?thesis by (auto split: list.splits if_splits)
qed

lemma inv_predefinedManifests: "predefinedManifests M fs cl inputFileDir [] = Inr m \<Longrightarrow> inv m"
  using inv_getExtraManifestMaps inv_Nil
  by (auto simp: predefinedManifests_def Let_def split: option.splits sum.splits)

lemma inv_addUserFile: "addUserFile M fs dir m file = Inr m' \<Longrightarrow> inv m \<Longrightarrow> inv m'"
  using inv_addManifest by (auto simp: addUserFile_def bind_res_Inr_iff split: if_splits)

lemma inv_userManifests: "userManifests M fs cl inputFileDir m = Inr m' \<Longrightarrow> inv m \<Longrightarrow> inv m'"
  using inv_loop [OF _ _ inv_addUserFile]
  by (auto simp: userManifests_def Let_def bind_res_Inr_iff split: if_splits)

text \<open>The manifests of a cluster are a selection of a map with the invariant.\<close>

lemma inv_getExtraManifest:
  assumes "getExtraManifest M fs [] cl inputFileDir = Inr m"
  obtains m2 where "inv m2" and "filterExtraManifests m2 (em_Filter (cl_ExtraManifests cl)) = Inr m"
proof -
  from assms obtain m1 m2 where m1: "predefinedManifests M fs cl inputFileDir [] = Inr m1"
    and m2: "userManifests M fs cl inputFileDir m1 = Inr m2"
    and m: "filterExtraManifests m2 (em_Filter (cl_ExtraManifests cl)) = Inr m"
    by (auto simp: getExtraManifest_def bind_res_Inr_iff map_error_Inr_iff)
  from inv_userManifests [OF m2 inv_predefinedManifests [OF m1]] m show thesis by (rule that)
qed

end

interpretation annotated: manifest_invariant M "allAnnotated M" for M
  using addZTPAnnotation_annotated by unfold_locales (auto simp: allAnnotated_def)

interpretation wfManifests: manifest_invariant M mwf for M
  by unfold_locales simp_all

lemma filterExtraManifests_sub:
  "filterExtraManifests m flt = Inr m' \<Longrightarrow> mget m' \<subseteq>\<^sub>m mget m"
proof (cases flt)
  case (Some f)
  assume r: "filterExtraManifests m flt = Inr m'"
  have "mget m' \<subseteq>\<^sub>m mget m" if "fold_res (includeFile m) [] (fi_Include f) = Inr m'"
  proof -
    from that includeFiles_fail have sub: "set (fi_Include f) \<subseteq> dom (mget m)"
      by (metis is_ok_Inr)
    with that includeFiles [OF sub, of "[]"] show ?thesis by (auto simp: map_le_def mget_fold_include split: if_splits)
  qed
  moreover have "mget m' \<subseteq>\<^sub>m mget m" if "fold_res excludeFile m (fi_Exclude f) = Inr m'"
    using excludeFiles [OF that] by (auto simp: map_le_def restrict_map_def split: if_splits)
  ultimately show ?thesis
    using r Some by (auto simp: filterExtraManifests_def split: option.splits bool.splits if_splits)
qed (simp add: filterExtraManifests_def)

text \<open>C22. Every extra manifest that is generated for a cluster, whether it is a plain file, a rendered
  template, the workload partitioning of a single node or a file of the user, is the encoding of an
  object that carries the ZTP annotation with its default value.
\<close>

theorem getExtraManifest_annotated:
  assumes "getExtraManifest M fs [] cl inputFileDir = Inr m" and "mget m name = Some txt"
  shows "\<exists>d. me_encode M d = Inr txt \<and>
           at (GMap d) [Key ''metadata'', Key ''annotations'', Key ZtpAnnotation] = Some (GStr ZtpAnnotationDefaultValue)"
proof -
  from assms(1) obtain m2 where m2: "allAnnotated M m2"
    and m: "filterExtraManifests m2 (em_Filter (cl_ExtraManifests cl)) = Inr m"
    by (rule annotated.inv_getExtraManifest)
  from filterExtraManifests_sub [OF m] assms(2) have "mget m2 name = Some txt"
    by (auto simp: map_le_def dom_def)
  with m2 show ?thesis by (auto simp: allAnnotated_def annotatedText_def)
qed

definition demoManifestEnv :: manifestEnv where
  "demoManifestEnv =
     \<lparr>me_decode = (\<lambda>s. Inr (Some [(''kind'', GStr s)])),
      me_encode = (\<lambda>d. case idx d ''kind'' of GStr s \<Rightarrow> Inr (s @ ''!'') | _ \<Rightarrow> Inl (Error [])),
      me_render = (\<lambda>_ t role _. Inr (t @ role)), me_roles = (\<lambda>_ r. r), me_order = (\<lambda>_ m. m)\<rparr>"

definition demoManifestFs :: fsys where
  "demoManifestFs =
     \<lparr>fs_nodes =
        [([''x''], NDir), ([''x'', ''extra-manifest''], NDir), ([''x'', ''extra-manifest'', ''p.yaml''], NFile ''P''),
         ([''x'', ''extra-manifest'', ''t.yaml.tmpl''], NFile ''T''), ([''u''], NDir), ([''u'', ''q.yaml''], NFile ''Q'')],
      fs_cwd = ''/w'', fs_exe = ''/x/conv''\<rparr>"

definition demoCluster :: Cluster where
  "demoCluster = zeroCluster\<lparr>cl_ExtraManifestPath := ''u'', cl_Nodes := [zeroNode\<lparr>nd_Role := ''master''\<rparr>]\<rparr>"

lemma demo_manifests:
  "getExtraManifest demoManifestEnv demoManifestFs [] demoCluster ''/'' =
     Inr [(''p.yaml'', ''P!''), (''master-t.yaml'', ''Tmaster!''), (''q.yaml'', ''Q!'')]"
  "predefinedManifests demoManifestEnv demoManifestFs demoCluster ''/'' [] =
     Inr [(''p.yaml'', ''P!''), (''master-t.yaml'', ''Tmaster!'')]"
  by code_simp+

theorem getExtraManifest_annotated_witness:
  "\<exists>d. me_encode demoManifestEnv d = Inr ''Tmaster!'' \<and>
     at (GMap d) [Key ''metadata'', Key ''annotations'', Key ZtpAnnotation] = Some (GStr ZtpAnnotationDefaultValue)"
  by (rule getExtraManifest_annotated [OF demo_manifests(1), of "''master-t.yaml''"]) simp

section \<open>Pre-defined manifests are not overwritten\<close>

lemma addManifest_keeps:
  "addManifest M m name txt = Inr m' \<Longrightarrow> mget m name = None \<Longrightarrow> mget m \<subseteq>\<^sub>m mget m'"
  by (auto simp: addManifest_def bind_res_Inr_iff map_le_def split: if_splits)

lemma addUserFile_keeps: "addUserFile M fs dir m file = Inr m' \<Longrightarrow> mget m \<subseteq>\<^sub>m mget m'"
  using addManifest_keeps by (auto simp: addUserFile_def bind_res_Inr_iff ensure_Inr_iff split: if_splits)

lemma userManifests_keeps:
  assumes "userManifests M fs cl inputFileDir m = Inr m'"
  shows "mget m \<subseteq>\<^sub>m mget m'"
proof -
  have "mget m \<subseteq>\<^sub>m mget m'" if "fold_res (addUserFile M fs dir) m files = Inr m'" for dir files
    by (rule fold_res_invariant [where P = "\<lambda>t. mget m \<subseteq>\<^sub>m mget t", OF that])
      (auto intro: map_le_trans addUserFile_keeps)
  with assms show ?thesis by (auto simp: userManifests_def Let_def bind_res_Inr_iff split: if_splits)
qed

text \<open>The files of the user never replace a pre-defined extra manifest: whenever the manifests of a cluster
  are generated, each pre-defined manifest that the filter lets through has its pre-defined contents;
  a file of the same name is an error instead.
\<close>

theorem getExtraManifest_keeps_predefined:
  assumes "getExtraManifest M fs [] cl inputFileDir = Inr m"
    and "predefinedManifests M fs cl inputFileDir [] = Inr predefined"
    and "mget predefined name = Some txt"
  shows "mget m name \<in> {None, Some txt}"
proof -
  from assms(1,2) obtain m2 where m2: "userManifests M fs cl inputFileDir predefined = Inr m2"
    and m: "filterExtraManifests m2 (em_Filter (cl_ExtraManifests cl)) = Inr m"
    by (auto simp: getExtraManifest_def bind_res_Inr_iff map_error_Inr_iff)
  from userManifests_keeps [OF m2] assms(3) have "mget m2 name = Some txt" by (auto simp: map_le_def dom_def)
  with filterExtraManifests_sub [OF m] show ?thesis
    by (cases "mget m name") (auto simp: map_le_def dom_def)
qed

theorem getExtraManifest_keeps_predefined_witness:
  "mget [(''p.yaml'', ''P!''), (''master-t.yaml'', ''Tmaster!''), (''q.yaml'', ''Q!'')] ''p.yaml'' \<in> {None, Some ''P!''}"
  by (rule getExtraManifest_keeps_predefined [OF demo_manifests, of "''p.yaml''"]) simp

section \<open>Writing the manifests of a cluster\<close>

lemma filterExtraManifests_mwf:
  assumes "filterExtraManifests m flt = Inr m'" and "mwf m"
  shows "mwf m'"
proof -
  have "mwf m'" if "fold_res (includeFile m) [] names = Inr m'" for names
    by (rule fold_res_invariant [where P = mwf, OF that]) (auto simp: includeFile_def split: option.splits)
  moreover have "mwf m'" if "fold_res excludeFile m names = Inr m'" for names
    by (rule fold_res_invariant [where P = mwf, OF that assms(2)]) (auto simp: excludeFile_Inr)
  ultimately show ?thesis
    using assms by (auto simp: filterExtraManifests_def split: option.splits bool.splits if_splits)
qed

lemma getExtraManifest_mwf: "getExtraManifest M fs [] cl inputFileDir = Inr m \<Longrightarrow> mwf m"
  by (rule wfManifests.inv_getExtraManifest) (auto intro: filterExtraManifests_mwf)

lemma writeManifest_Inr:
  "writeManifest outputDir fs e = Inr fs' \<Longrightarrow> writeOpt fs (JoinPath [outputDir, fst e]) (snd e) = Some fs'"
  by (simp add: writeManifest_def writeOr_Inr)

lemma manifestPath_same:
  assumes "outputDir \<noteq> []" and "goodName a" and "goodName b"
  shows "sameFile fs (JoinPath [outputDir, a]) (JoinPath [outputDir, b]) \<longleftrightarrow> a = b"
  using resolve_JoinPath [OF assms(2,1)] resolve_JoinPath [OF assms(3,1)] by (auto simp: sameFile_def)

text \<open>Every manifest is in its file afterwards, and the other files are as before.\<close>

lemma writeClusterManifests_files:
  assumes "writeClusterManifests M outputDir inputFileDir fs cl = Inr fs'" and "outputDir \<noteq> []"
    and "getExtraManifest M fs [] cl inputFileDir = Inr m" and "\<forall>(name, _)\<in>set m. goodName name"
    and "\<forall>cl m. mset (me_order M cl m) = mset m"
  shows "\<forall>(name, txt)\<in>set m. readOpt fs' (JoinPath [outputDir, name]) = Some txt"
    and "\<forall>p. (\<forall>(name, _)\<in>set m. \<not> sameFile fs (JoinPath [outputDir, name]) p) \<longrightarrow> readOpt fs' p = readOpt fs p"
    and "sameFile fs' = sameFile fs"
proof -
  let ?xs = "me_order M cl m"
  from assms(1,3) have loop: "fold_res (writeManifest outputDir) fs ?xs = Inr fs'"
    by (auto simp: writeClusterManifests_def bind_res_Inr_iff map_error_Inr_iff)
  have xs: "set ?xs = set m" using assms(5) by (metis mset_eq_setD)
  have wf: "mwf ?xs" using getExtraManifest_mwf [OF assms(3)] assms(5) by (metis mwf_perm)
  then have dist: "distinct ?xs" by (simp add: mwf_def distinct_map)
  have diff: "\<forall>x\<in>set ?xs. \<forall>y\<in>set ?xs. x \<noteq> y \<longrightarrow>
      \<not> sameFile fs (JoinPath [outputDir, fst x]) (JoinPath [outputDir, fst y])"
  proof (intro ballI impI)
    fix x y assume xy: "x \<in> set ?xs" "y \<in> set ?xs" "x \<noteq> y"
    with wf have "fst x \<noteq> fst y" by (auto simp: mwf_def distinct_map inj_on_def)
    with xy assms(4) xs show "\<not> sameFile fs (JoinPath [outputDir, fst x]) (JoinPath [outputDir, fst y])"
      by (subst manifestPath_same [OF assms(2)]) auto
  qed
  have "readOpt fs' (JoinPath [outputDir, fst e]) = Some (snd e)" if "e \<in> set m" for e
    using fstore.loop_written [OF loop writeManifest_Inr dist diff, of e] that xs by simp
  then show "\<forall>(name, txt)\<in>set m. readOpt fs' (JoinPath [outputDir, name]) = Some txt" by auto
  have step: "\<And>fs e t. writeManifest outputDir fs e = Inr t \<Longrightarrow> \<exists>c. writeOpt fs (JoinPath [outputDir, fst e]) c = Some t"
    using writeManifest_Inr by blast
  show "sameFile fs' = sameFile fs" by (rule fstore.loop_same [OF loop step])
  show "\<forall>p. (\<forall>(name, _)\<in>set m. \<not> sameFile fs (JoinPath [outputDir, name]) p) \<longrightarrow> readOpt fs' p = readOpt fs p"
    using fstore.loop_frame [where place = "\<lambda>e. JoinPath [outputDir, fst e]", OF loop step] xs by fastforce
qed

section \<open>The payloads of the workload manifest\<close>

definition base64Val :: "char \<Rightarrow> nat" where
  "base64Val c = length (takeWhile (\<lambda>d. d \<noteq> c) encodeStd)"

fun DecodeString :: "string \<Rightarrow> string option" where
  "DecodeString [] = Some []"
| "DecodeString (w # x # y # z # rest) =
     (let v = base64Val w * 262144 + base64Val x * 4096 in
      if y = CHR ''='' then Some [char_of (v div 65536)]
      else
        let v = v + base64Val y * 64 in
        if z = CHR ''='' then Some [char_of (v div 65536), char_of (v div 256 mod 256)]
        else
          let v = v + base64Val z in
          map_option (\<lambda>s. char_of (v div 65536) # char_of (v div 256 mod 256) # char_of (v mod 256) # s) (DecodeString rest))"
| "DecodeString _ = None"

lemma byteOf_char_of [simp]: "n < 256 \<Longrightarrow> byteOf (char_of n) = n"
  by (simp add: byteOf_def)

lemma char_of_byteOf [simp]: "char_of (byteOf c) = c"
  by (simp add: byteOf_def)

lemma byteOf_less: "byteOf c < 256"
  unfolding byteOf_def by (rule nat_of_char_less_256)

lemma takeWhile_nth: "distinct xs \<Longrightarrow> i < length xs \<Longrightarrow> length (takeWhile (\<lambda>d. d \<noteq> xs ! i) xs) = i"
proof (induction xs arbitrary: i)
  case (Cons x xs)
  then show ?case by (cases i) (auto simp: nth_mem)
qed simp

lemma encodeStd_facts: "length encodeStd = 64" "distinct encodeStd" "CHR ''='' \<notin> set encodeStd"
  by (simp_all add: encodeStd_def)

lemma base64_char:
  assumes "i < 64"
  shows "base64Val (base64Char i) = i \<and> base64Char i \<noteq> CHR ''=''"
proof -
  have "base64Char i \<in> set encodeStd" using assms encodeStd_facts(1) by (simp add: base64Char_def)
  then have "base64Char i \<noteq> CHR ''=''" using encodeStd_facts(3) by metis
  moreover have "base64Val (base64Char i) = i"
    using assms encodeStd_facts(1,2) takeWhile_nth [of encodeStd i] by (simp add: base64Val_def base64Char_def)
  ultimately show ?thesis by simp
qed

lemma sextets:
  fixes v :: nat
  shows "v div 262144 * 262144 + v div 4096 mod 64 * 4096 + v div 64 mod 64 * 64 + v mod 64 = v"
proof -
  have "v div 64 div 64 = v div 4096" "v div 4096 div 64 = v div 262144" by (simp_all add: div_mult2_eq [symmetric])
  then show ?thesis
    using div_mult_mod_eq [of v 64] div_mult_mod_eq [of "v div 64" 64] div_mult_mod_eq [of "v div 4096" 64] by linarith
qed

lemma octets:
  fixes a b c :: nat
  assumes "a < 256" "b < 256" "c < 256"
  defines "v \<equiv> a * 65536 + b * 256 + c"
  shows "v div 65536 = a" and "v div 256 mod 256 = b" and "v mod 256 = c" and "v div 262144 < 64"
proof -
  have v: "v = c + (a * 256 + b) * 256" by (simp add: v_def)
  have m: "v mod 256 = c mod 256" unfolding v by (rule mod_mult_self1)
  then show "v mod 256 = c" using assms(3) by simp
  have "v div 256 = (a * 256 + b) + c div 256" unfolding v by (rule div_mult_self1) simp
  then have d: "v div 256 = b + a * 256" using assms(3) by simp
  have "v div 256 mod 256 = b mod 256" unfolding d by (rule mod_mult_self1)
  then show "v div 256 mod 256 = b" using assms(2) by simp
  have "v div 256 div 256 = a + b div 256" unfolding d by (rule div_mult_self1) simp
  then show "v div 65536 = a" using assms(2) by (simp add: div_mult2_eq [symmetric])
  show "v div 262144 < 64" using assms(1-3) by (simp add: v_def less_mult_imp_div_less)
qed

lemma encoded3:
  assumes "v = byteOf a * 65536 + byteOf b * 256 + byteOf c"
  shows "base64Val (base64Char (v div 262144)) * 262144 + base64Val (base64Char (v div 4096 mod 64)) * 4096 +
           base64Val (base64Char (v div 64 mod 64)) * 64 + base64Val (base64Char (v mod 64)) = v"
    and "char_of (v div 65536) = a" and "char_of (v div 256) = b" and "char_of v = c"
proof -
  note o = octets [OF byteOf_less byteOf_less byteOf_less, of a b c, folded assms]
  show "base64Val (base64Char (v div 262144)) * 262144 + base64Val (base64Char (v div 4096 mod 64)) * 4096 +
           base64Val (base64Char (v div 64 mod 64)) * 64 + base64Val (base64Char (v mod 64)) = v"
    using o(4) sextets [of v] by (simp add: base64_char)
  have "char_of (v div 65536) = a" "char_of (v div 256 mod 256) = b" "char_of (v mod 256) = c"
    by (simp_all only: o char_of_byteOf)
  then show "char_of (v div 65536) = a" "char_of (v div 256) = b" "char_of v = c" by simp_all
qed

lemma zeroByte: "byteOf (CHR 0x00) = 0"
  by (simp add: byteOf_def)

theorem DecodeString_EncodeToString: "DecodeString (EncodeToString s) = Some s"
proof (induction s rule: EncodeToString.induct)
  case 1
  then show ?case by simp
next
  case (2 a)
  define v where "v = byteOf a * 65536"
  have e: "v = byteOf a * 65536 + byteOf (CHR 0x00) * 256 + byteOf (CHR 0x00)" by (simp add: v_def zeroByte)
  have "v mod 64 = 0" "v div 64 mod 64 = 0" by (simp_all add: v_def)
  with encoded3 [OF e] base64_char [of 0] show ?case
    by (simp add: Let_def v_def [symmetric])
next
  case (3 a b)
  define v where "v = byteOf a * 65536 + byteOf b * 256"
  have e: "v = byteOf a * 65536 + byteOf b * 256 + byteOf (CHR 0x00)" by (simp add: v_def zeroByte)
  have "v mod 64 = 0" by (simp add: v_def)
  with encoded3 [OF e] base64_char [of 0] base64_char [of "v div 64 mod 64"] show ?case
    by (simp add: Let_def v_def [symmetric])
next
  case (4 a b c rest)
  define v where "v = byteOf a * 65536 + byteOf b * 256 + byteOf c"
  from encoded3 [OF v_def] base64_char [of "v div 64 mod 64"] base64_char [of "v mod 64"] 4 show ?case
    by (simp add: Let_def v_def [symmetric])
qed

lemma length_EncodeToString: "length (EncodeToString s) = 4 * ((length s + 2) div 3)"
proof (induction s rule: EncodeToString.induct)
  case (4 a b c rest)
  have "(length rest + 5) div 3 = Suc ((length rest + 2) div 3)" by presburger
  with 4 show ?case by (simp add: Let_def add.commute)
qed (simp_all add: Let_def)

text \<open>The manifest of workload partitioning embeds the two configuration files: it is made from the
  workload file by filling in, for each of them, a base64 text that decodes to the file with the CPU set
  substituted and whose length is four characters per started group of three bytes; the name of the
  manifest carries the role.
\<close>

theorem getWorkloadManifest_payloads:
  assumes "getWorkloadManifest fs dir cpuSet role = Inr (name, txt)"
  shows "\<exists>crio kubelet workload c k.
     ReadExtraManifestResourceFile fs (JoinPath [JoinPath [dir, workloadPath], workloadCrioFile]) = Inr crio \<and>
     ReadExtraManifestResourceFile fs (JoinPath [JoinPath [dir, workloadPath], workloadKubeletFile]) = Inr kubelet \<and>
     ReadExtraManifestResourceFile fs (JoinPath [JoinPath [dir, workloadPath], workloadFile]) = Inr workload \<and>
     DecodeString c = Some (ReplaceAll crio cpusetMark cpuSet) \<and>
     DecodeString k = Some (ReplaceAll kubelet cpusetMark cpuSet) \<and>
     length c = 4 * ((length (ReplaceAll crio cpusetMark cpuSet) + 2) div 3) \<and>
     length k = 4 * ((length (ReplaceAll kubelet cpusetMark cpuSet) + 2) div 3) \<and>
     txt = ReplaceAll (ReplaceAll (ReplaceAll workload ''$crio'' c) ''$k8s'' k) ''$mcp'' role \<and>
     name = ''03-'' @ role @ ''-workload-partitioning.yaml''"
proof -
  have parts: "Split workloadFile ''-'' = [''03'', ''workload'', ''partitioning.yaml'']"
    by (simp add: Split_def workloadFile_def)
  have name: "workloadFileForRole role = ''03-'' @ role @ ''-workload-partitioning.yaml''"
    unfolding workloadFileForRole_def parts by simp
  from assms obtain crio kubelet workload where r:
    "ReadExtraManifestResourceFile fs (JoinPath [JoinPath [dir, workloadPath], workloadCrioFile]) = Inr crio"
    "ReadExtraManifestResourceFile fs (JoinPath [JoinPath [dir, workloadPath], workloadKubeletFile]) = Inr kubelet"
    "ReadExtraManifestResourceFile fs (JoinPath [JoinPath [dir, workloadPath], workloadFile]) = Inr workload"
    "name = workloadFileForRole role"
    "txt = ReplaceAll (ReplaceAll (ReplaceAll workload ''$crio'' (EncodeToString (ReplaceAll crio cpusetMark cpuSet)))
       ''$k8s'' (EncodeToString (ReplaceAll kubelet cpusetMark cpuSet))) ''$mcp'' role"
    by (auto simp: getWorkloadManifest_def Let_def bind_res_Inr_iff)
  show ?thesis
    by (intro exI conjI) (rule r(1-3) DecodeString_EncodeToString length_EncodeToString r(5) r(4) [unfolded name])+
qed

definition demoWorkloadFs :: fsys where
  "demoWorkloadFs =
     \<lparr>fs_nodes =
        [([''m''], NDir), ([''m'', ''workload''], NDir), ([''m'', ''workload'', ''crio.conf''], NFile ''c=$cpuset''),
         ([''m'', ''workload'', ''kubelet.conf''], NFile ''k''),
         ([''m'', ''workload'', ''03-workload-partitioning.yaml''], NFile ''a: $crio b: $k8s c: $mcp'')],
      fs_cwd = ''/w'', fs_exe = ''/x/conv''\<rparr>"

theorem getWorkloadManifest_payloads_witness:
  "\<exists>c k name. DecodeString c = Some (ReplaceAll ''c=$cpuset'' cpusetMark ''0-1'') \<and>
     length k = 4 * ((length (ReplaceAll ''k'' cpusetMark ''0-1'') + 2) div 3) \<and>
     getWorkloadManifest demoWorkloadFs ''/m'' ''0-1'' ''master'' =
       Inr (name, ReplaceAll (ReplaceAll (ReplaceAll ''a: $crio b: $k8s c: $mcp'' ''$crio'' c) ''$k8s'' k) ''$mcp'' ''master'')"
proof -
  have reads:
    "ReadExtraManifestResourceFile demoWorkloadFs (JoinPath [JoinPath [''/m'', workloadPath], workloadCrioFile]) = Inr ''c=$cpuset''"
    "ReadExtraManifestResourceFile demoWorkloadFs (JoinPath [JoinPath [''/m'', workloadPath], workloadKubeletFile]) = Inr ''k''"
    "ReadExtraManifestResourceFile demoWorkloadFs (JoinPath [JoinPath [''/m'', workloadPath], workloadFile]) =
       Inr ''a: $crio b: $k8s c: $mcp''"
    by code_simp+
  obtain name out where m: "getWorkloadManifest demoWorkloadFs ''/m'' ''0-1'' ''master'' = Inr (name, out)"
    by (rule that) (simp only: getWorkloadManifest_def Let_def reads bind_res_simps)
  from getWorkloadManifest_payloads [OF m] obtain c k where
    "DecodeString c = Some (ReplaceAll ''c=$cpuset'' cpusetMark ''0-1'')"
    "length k = 4 * ((length (ReplaceAll ''k'' cpusetMark ''0-1'') + 2) div 3)"
    "out = ReplaceAll (ReplaceAll (ReplaceAll ''a: $crio b: $k8s c: $mcp'' ''$crio'' c) ''$k8s'' k) ''$mcp'' ''master''"
    unfolding reads sum.inject by (elim exE conjE) (rule that, simp_all only:)
  with m show ?thesis by (intro exI conjI) (assumption | simp only:)+
qed

end
