(* ===== verification/SiteMain.thy ===== *)
theory SiteMain
  imports ExtraManifests
begin

text \<open>
  The command \<^verbatim>\<open>siteconfig-converter\<close>: \<^verbatim>\<open>main.go\<close> and the kustomization of \<^verbatim>\<open>convert.go\<close>. Decoding a SiteConfig and
  encoding a Kustomization are parameters; the command line is the record \<open>siteFlags\<close>. \<^verbatim>\<open>os.Exit(1)\<close> is the
  panic \<open>exitOne\<close>.
\<close>

record mainEnv =
  mv_site :: "string \<Rightarrow> SiteConfig res"
  mv_kustomization :: "SiteKustomization \<Rightarrow> string res"
  mv_convert :: siteEnv
  mv_manifests :: manifestEnv

record siteFlags =
  sf_outputDir :: string
  sf_clusterTemplate :: string
  sf_nodeTemplate :: string
  sf_extraManifestsRefs :: string
  sf_suppressedManifests :: string
  sf_writeWarnings :: bool
  sf_copyComments :: bool
  sf_args :: "string list"

section \<open>The kustomization\<close>

definition dirNotFound :: "string \<Rightarrow> go_error" where
  "dirNotFound d = Error (''directory '' @ quoted d @ '' not found'')"

definition readDirFailed :: "string \<Rightarrow> os_error \<Rightarrow> go_error" where
  "readDirFailed d e = Error (''failed to read directory: '' @ pathError ''open'' d e)"

definition relPathFailed :: "string \<Rightarrow> string \<Rightarrow> string \<Rightarrow> go_error" where
  "relPathFailed name targ base =
     Error (''failed to get relative path for '' @ name @ '': Rel: can't make '' @ targ @ '' relative to '' @ base)"

definition hasYamlExt :: "string \<Rightarrow> bool" where
  "hasYamlExt name = (let ext = ToLower (Ext name) in ext = ''.yaml'' \<or> ext = ''.yml'')"

definition listed :: "fsys \<Rightarrow> string \<Rightarrow> string \<Rightarrow> bool" where
  "listed fs manifestsDir name \<longleftrightarrow> nodeAt fs (resolve fs manifestsDir @ [name]) \<noteq> Some NDir \<and> hasYamlExt name"

definition relPath :: "string \<Rightarrow> string \<Rightarrow> string \<Rightarrow> string res" where
  "relPath outputDir manifestsDir name =
     (let targ = JoinPath [manifestsDir, name] in
      case Rel outputDir targ of
        Some p \<Rightarrow> Inr p
      | None \<Rightarrow> Inl (relPathFailed name targ outputDir))"

definition kustomizationOf :: "string list \<Rightarrow> string \<Rightarrow> string \<Rightarrow> SiteKustomization" where
  "kustomizationOf files name namespace =
     \<lparr>kz_ApiVersion = ''kustomize.config.k8s.io/v1beta1'', kz_Kind = ''Kustomization'',
      kz_ConfigMapGenerator = [\<lparr>cg_Files = files, cg_Name = name, cg_Namespace = namespace\<rparr>],
      kz_GeneratorOptions = \<lparr>go_DisableNameSuffixHash = True\<rparr>\<rparr>"

definition snippetFailed :: "string \<Rightarrow> os_error \<Rightarrow> go_error" where
  "snippetFailed f e = Error (''failed to write '' @ KustomizationConfigMapGeneratorSnippetFile @ '': '' @ pathError ''open'' f e)"

definition generateKustomizationYAML ::
    "(SiteKustomization \<Rightarrow> string res) \<Rightarrow> fsys \<Rightarrow> string \<Rightarrow> string \<Rightarrow> string \<Rightarrow> string \<Rightarrow> fsys res" where
  "generateKustomizationYAML enc fs configMapName configMapNamespace manifestsDir outputDir =
     bind_res (ensure (os_Stat fs manifestsDir \<noteq> Inl ENOENT) (dirNotFound manifestsDir)) (\<lambda>_.
     bind_res (case os_ReadDir fs manifestsDir of Inl e \<Rightarrow> Inl (readDirFailed manifestsDir e) | Inr es \<Rightarrow> Inr es) (\<lambda>entries.
     bind_res (mapM_res (relPath outputDir manifestsDir) (filter (listed fs manifestsDir) entries)) (\<lambda>yamlFiles.
     bind_res (map_error (\<lambda>e. ''failed to marshal kustomization to YAML: '' @ e)
       (enc (kustomizationOf (sort yamlFiles) configMapName configMapNamespace))) (\<lambda>content.
       writeOr snippetFailed fs (JoinPath [outputDir, KustomizationConfigMapGeneratorSnippetFile]) content))))"

section \<open>The command\<close>

definition readSiteConfig :: "(string \<Rightarrow> SiteConfig res) \<Rightarrow> fsys \<Rightarrow> string \<Rightarrow> SiteConfig res" where
  "readSiteConfig dec fs filename =
     bind_res (readOr (\<lambda>f e. Error (''failed to read file: '' @ pathError ''open'' f e)) fs filename) (\<lambda>data.
       map_error (\<lambda>e. ''failed to unmarshal YAML: '' @ e) (dec data))"

definition inputDirOf :: "fsys \<Rightarrow> string \<Rightarrow> string" where
  "inputDirOf fs inputFile = (let d = Dir inputFile in if IsAbs d then d else Abs fs d)"

definition handleNewExtraManifestFlags :: "mainEnv \<Rightarrow> fsys \<Rightarrow> string \<Rightarrow> string \<Rightarrow> string \<Rightarrow> string \<Rightarrow> string \<Rightarrow> fsys res" where
  "handleNewExtraManifestFlags E fs configMapName configMapNamespace manifestsDir inputFile outputDir =
     (let dir = JoinPath [outputDir, manifestsDir] in
      bind_res (case os_MkdirAll fs dir of
          Inl e \<Rightarrow> Inl (Error (''failed to create manifests directory: '' @ pathError ''mkdir'' dir e))
        | Inr fs1 \<Rightarrow> Inr fs1) (\<lambda>fs1.
      bind_res (map_error (\<lambda>e. ''failed to read SiteConfig file: '' @ e) (readSiteConfig (mv_site E) fs1 inputFile)) (\<lambda>sc.
      bind_res (map_error (\<lambda>e. ''failed to generate extra manifests: '' @ e)
        (generateExtraManifests (mv_manifests E) fs1 sc dir (inputDirOf fs1 inputFile))) (\<lambda>fs2.
        map_error (\<lambda>e. ''failed to generate kustomization.yaml: '' @ e)
          (generateKustomizationYAML (mv_kustomization E) fs2 configMapName configMapNamespace dir outputDir)))))"

definition extraManifestConfigMapName :: string where "extraManifestConfigMapName = ''extra-manifests-cm''"
definition manifestsDirName :: string where "manifestsDirName = ''extra-manifests''"

definition siteMain :: "mainEnv \<Rightarrow> siteFlags \<Rightarrow> fsys \<Rightarrow> fsys res" where
  "siteMain E f fs =
     (if sf_outputDir f = [] \<or> sf_args f = [] then Inl exitOne
      else let inputFile = hd (sf_args f) in
        bind_res (orExit (readSiteConfig (mv_site E) fs inputFile)) (\<lambda>sc.
        bind_res (ensure (si_Kind sc = ''SiteConfig'') exitOne) (\<lambda>_.
        bind_res (orExit (convertToClusterInstance (mv_convert E) fs sc (sf_outputDir f) (sf_clusterTemplate f)
          (sf_nodeTemplate f) (sf_extraManifestsRefs f) (sf_suppressedManifests f) (sf_writeWarnings f)
          (sf_copyComments f) inputFile extraManifestConfigMapName)) (\<lambda>(fs1, _).
        case sp_Clusters (si_Spec sc) of
          [] \<Rightarrow> Inr fs1
        | cl # _ \<Rightarrow> orExit (handleNewExtraManifestFlags E fs1 extraManifestConfigMapName (cl_ClusterName cl)
            manifestsDirName inputFile (sf_outputDir f))))))"

section \<open>The kustomization lists the manifests\<close>

lemma relPath_Inr: "relPath out d name = Inr p \<longleftrightarrow> Rel out (JoinPath [d, name]) = Some p"
  by (simp add: relPath_def Let_def split: option.splits)

lemma generateKustomizationYAML_written:
  assumes "generateKustomizationYAML enc fs name namespace manifestsDir outputDir = Inr fs'"
  shows "\<exists>entries files content. os_ReadDir fs manifestsDir = Inr entries \<and> sorted files \<and>
     mset (map Some files) =
       image_mset (\<lambda>e. Rel outputDir (JoinPath [manifestsDir, e])) (filter_mset (listed fs manifestsDir) (mset entries)) \<and>
     enc (kustomizationOf files name namespace) = Inr content \<and>
     (\<forall>p. readOpt fs' p =
        (if sameFile fs (JoinPath [outputDir, KustomizationConfigMapGeneratorSnippetFile]) p then Some content else readOpt fs p))"
proof -
  let ?out = "JoinPath [outputDir, KustomizationConfigMapGeneratorSnippetFile]"
  from assms obtain entries yamlFiles content where dir: "os_ReadDir fs manifestsDir = Inr entries"
    and rel: "mapM_res (relPath outputDir manifestsDir) (filter (listed fs manifestsDir) entries) = Inr yamlFiles"
    and enc: "enc (kustomizationOf (sort yamlFiles) name namespace) = Inr content"
    and w: "writeOpt fs ?out content = Some fs'"
    by (auto simp: generateKustomizationYAML_def bind_res_Inr_iff map_error_Inr_iff writeOr_Inr split: sum.splits)
  from rel have "map Some yamlFiles = map (\<lambda>e. Rel outputDir (JoinPath [manifestsDir, e])) (filter (listed fs manifestsDir) entries)"
    by (auto simp: mapM_res_Inr_iff list_all2_conv_all_nth relPath_Inr intro!: nth_equalityI)
  then have "mset (map Some (sort yamlFiles)) =
      image_mset (\<lambda>e. Rel outputDir (JoinPath [manifestsDir, e])) (filter_mset (listed fs manifestsDir) (mset entries))"
    by (metis mset_filter mset_map mset_sort)
  with dir enc fstore.read_write [OF w] show ?thesis by (metis sorted_sort)
qed

text \<open>The generated kustomization snippet names every YAML file of the manifests directory: when it is
  written, it is the encoding of one config map generator whose files are, sorted and each as often as
  it occurs, the paths relative to the output directory of exactly the entries of the directory that
  are no directories and have the extension \<^verbatim>\<open>.yaml\<close> or \<^verbatim>\<open>.yml\<close> in any case; no other file is changed.
\<close>

theorem generateKustomizationYAML_lists:
  assumes "generateKustomizationYAML enc fs name namespace manifestsDir outputDir = Inr fs'"
  shows "\<exists>entries files content. os_ReadDir fs manifestsDir = Inr entries \<and> sorted files \<and>
     mset (map Some files) =
       image_mset (\<lambda>e. Rel outputDir (JoinPath [manifestsDir, e])) (filter_mset (listed fs manifestsDir) (mset entries)) \<and>
     enc (kustomizationOf files name namespace) = Inr content \<and>
     (\<forall>p. readOpt fs' p =
        (if sameFile fs (JoinPath [outputDir, KustomizationConfigMapGeneratorSnippetFile]) p then Some content else readOpt fs p))"
  by (rule generateKustomizationYAML_written [OF assms])

definition demoKustomizationFs :: fsys where
  "demoKustomizationFs =
     \<lparr>fs_nodes =
        [([''o''], NDir), ([''o'', ''m''], NDir), ([''o'', ''m'', ''b.yaml''], NFile []), ([''o'', ''m'', ''a.YML''], NFile []),
         ([''o'', ''m'', ''c.txt''], NFile []), ([''o'', ''m'', ''d.yaml''], NDir)],
      fs_cwd = ''/w'', fs_exe = ''/x/conv''\<rparr>"

definition demoEncode :: "SiteKustomization \<Rightarrow> string res" where
  "demoEncode k = Inr (concat (map (\<lambda>g. Join (cg_Files g) '','') (kz_ConfigMapGenerator k)))"

theorem generateKustomizationYAML_lists_witness:
  "\<exists>fs' files content. generateKustomizationYAML demoEncode demoKustomizationFs ''c'' ''n'' ''/o/m'' ''/o'' = Inr fs' \<and>
     sorted files \<and> demoEncode (kustomizationOf files ''c'' ''n'') = Inr content \<and>
     (\<forall>p. readOpt fs' p =
        (if sameFile demoKustomizationFs (JoinPath [''/o'', KustomizationConfigMapGeneratorSnippetFile]) p then Some content
         else readOpt demoKustomizationFs p))"
proof -
  have "is_ok (generateKustomizationYAML demoEncode demoKustomizationFs ''c'' ''n'' ''/o/m'' ''/o'')"
    by code_simp
  then obtain fs' where r: "generateKustomizationYAML demoEncode demoKustomizationFs ''c'' ''n'' ''/o/m'' ''/o'' = Inr fs'"
    by (rule is_okE)
  from generateKustomizationYAML_lists [OF r] r show ?thesis
    by (elim exE conjE) (intro exI conjI, assumption+)
qed

end
