(* ===== verification/SiteRun.thy ===== *)
theory SiteRun
  imports SiteMain
begin

text \<open>
  A run of \<^verbatim>\<open>siteconfig-converter\<close> on a SiteConfig with one cluster, step by step: the conversion, the directory
  of the extra manifests, the manifests, and the kustomization snippet. The three groups of files are
  in different places, so that no step destroys what an earlier one wrote.
\<close>

definition manifestsDirOf :: "siteFlags \<Rightarrow> string" where
  "manifestsDirOf f = JoinPath [sf_outputDir f, manifestsDirName]"

definition snippetOf :: "siteFlags \<Rightarrow> string" where
  "snippetOf f = JoinPath [sf_outputDir f, KustomizationConfigMapGeneratorSnippetFile]"

lemma fixed_names: "goodName manifestsDirName" "goodName KustomizationConfigMapGeneratorSnippetFile"
  by (simp_all add: manifestsDirName_def KustomizationConfigMapGeneratorSnippetFile_def goodName_def plainElem_def)

lemma run_paths:
  assumes "sf_outputDir f \<noteq> []" and "goodName name" and "goodName (cl_ClusterName cl @ ''.yaml'')"
    and "cl_ClusterName cl @ ''.yaml'' \<noteq> KustomizationConfigMapGeneratorSnippetFile"
  shows "\<not> sameFile fs (JoinPath [manifestsDirOf f, name]) (outputPath (sf_outputDir f) cl)"
    and "\<not> sameFile fs (snippetOf f) (outputPath (sf_outputDir f) cl)"
    and "\<not> sameFile fs (snippetOf f) (JoinPath [manifestsDirOf f, name])"
proof -
  note dir = resolve_JoinPath [OF fixed_names(1) assms(1)] and snip = resolve_JoinPath [OF fixed_names(2) assms(1)]
  have m: "resolve fs (JoinPath [manifestsDirOf f, name]) = resolve fs (sf_outputDir f) @ [manifestsDirName, name]"
    using resolve_JoinPath(1) [OF assms(2), of "manifestsDirOf f" fs] dir by (simp add: manifestsDirOf_def)
  note o = outputPath_resolve(1) [OF assms(1,3), of fs]
  show "\<not> sameFile fs (JoinPath [manifestsDirOf f, name]) (outputPath (sf_outputDir f) cl)"
    "\<not> sameFile fs (snippetOf f) (outputPath (sf_outputDir f) cl)"
    "\<not> sameFile fs (snippetOf f) (JoinPath [manifestsDirOf f, name])"
    using m o snip(1) [of fs] assms(4) by (auto simp: sameFile_def snippetOf_def)
qed

lemma readDir_lists:
  assumes "readOpt fs (JoinPath [d, name]) = Some s" and "os_ReadDir fs d = Inr entries" and "goodName name" and "d \<noteq> []"
  shows "name \<in> set entries" and "hasYamlExt name \<Longrightarrow> listed fs d name"
proof -
  have node: "nodeAt fs (resolve fs d @ [name]) = Some (NFile s)"
    using assms(1) resolve_JoinPath(1) [OF assms(3,4), of fs] by (simp add: readOpt_Some)
  then have "resolve fs d @ [name] \<in> fst ` set (fs_nodes fs)"
    by (metis (no_types, lifting) append_is_Nil_conv domI dom_map_of_conv_image_fst nodeAt_def not_Cons_self2)
  moreover have "entries = childrenOf fs (resolve fs d)"
    using assms(2) by (auto simp: os_ReadDir_def split: sum.splits node.splits)
  ultimately show "name \<in> set entries"
    by (force simp: childrenOf_def)
  show "hasYamlExt name \<Longrightarrow> listed fs d name" using node by (simp add: listed_def)
qed

lemma siteMain_steps:
  assumes "siteMain E f fs = Inr fs'" and "readSiteConfig (mv_site E) fs (hd (sf_args f)) = Inr sc"
    and "sp_Clusters (si_Spec sc) = [cl]" and "fs_wf fs"
    and "goodName (cl_ClusterName cl @ ''.yaml'')" and "\<not> sameFile fs (outputPath (sf_outputDir f) cl) (hd (sf_args f))"
  obtains fs1 fs2 fs3 msg where
    "convertToClusterInstance (mv_convert E) fs sc (sf_outputDir f) (sf_clusterTemplate f) (sf_nodeTemplate f)
       (sf_extraManifestsRefs f) (sf_suppressedManifests f) (sf_writeWarnings f) (sf_copyComments f) (hd (sf_args f))
       extraManifestConfigMapName = Inr (fs1, msg)"
    and "\<forall>p. readOpt fs2 p = readOpt fs1 p" and "sameFile fs2 = sameFile fs"
    and "writeClusterManifests (mv_manifests E) (manifestsDirOf f) (inputDirOf fs2 (hd (sf_args f))) fs2 cl = Inr fs3"
    and "generateKustomizationYAML (mv_kustomization E) fs3 extraManifestConfigMapName (cl_ClusterName cl)
       (manifestsDirOf f) (sf_outputDir f) = Inr fs'"
    and "sf_outputDir f \<noteq> []"
proof -
  let ?in = "hd (sf_args f)"
  from assms(1-3) obtain fs1 msg where ne: "sf_outputDir f \<noteq> []"
    and conv: "convertToClusterInstance (mv_convert E) fs sc (sf_outputDir f) (sf_clusterTemplate f) (sf_nodeTemplate f)
       (sf_extraManifestsRefs f) (sf_suppressedManifests f) (sf_writeWarnings f) (sf_copyComments f) ?in
       extraManifestConfigMapName = Inr (fs1, msg)"
    and rest: "handleNewExtraManifestFlags E fs1 extraManifestConfigMapName (cl_ClusterName cl) manifestsDirName ?in
       (sf_outputDir f) = Inr fs'"
    by (auto simp: siteMain_def Let_def bind_res_Inr_iff orExit_Inr split: if_splits)
  from rest obtain fs2 sc2 fs3 where mk: "os_MkdirAll fs1 (manifestsDirOf f) = Inr fs2"
    and sc2: "readSiteConfig (mv_site E) fs2 ?in = Inr sc2"
    and gen: "generateExtraManifests (mv_manifests E) fs2 sc2 (manifestsDirOf f) (inputDirOf fs2 ?in) = Inr fs3"
    and kus: "generateKustomizationYAML (mv_kustomization E) fs3 extraManifestConfigMapName (cl_ClusterName cl)
       (manifestsDirOf f) (sf_outputDir f) = Inr fs'"
    by (auto simp: handleNewExtraManifestFlags_def Let_def bind_res_Inr_iff map_error_Inr_iff manifestsDirOf_def split: sum.splits)
  note env = convertToClusterInstance_env [OF conv assms(4)]
  have reads: "\<forall>p. readOpt fs2 p = readOpt fs1 p" using readOpt_MkdirAll [OF env(1) mk] by simp
  have "readOpt fs1 ?in = readOpt fs ?in"
    using convertToClusterInstance_written [OF conv assms(4)] assms(3,5,6) by (auto simp: Let_def)
  with reads sc2 assms(2) have "sc2 = sc"
    by (auto simp: readSiteConfig_def bind_res_Inr_iff readOr_Inr os_ReadFile_Inr map_error_Inr_iff)
  with gen assms(3) have "writeClusterManifests (mv_manifests E) (manifestsDirOf f) (inputDirOf fs2 ?in) fs2 cl = Inr fs3"
    by (simp add: generateExtraManifests_def bind_res_Inr_iff)
  moreover have "sameFile fs2 = sameFile fs" using MkdirAll_env [OF mk] env(2) by simp
  ultimately show thesis using that conv reads kus ne by blast
qed

lemma siteMain_files:
  assumes "siteMain E f fs = Inr fs'" and "readSiteConfig (mv_site E) fs (hd (sf_args f)) = Inr sc"
    and "sp_Clusters (si_Spec sc) = [cl]" and "fs_wf fs"
    and "goodName (cl_ClusterName cl @ ''.yaml'')" and "\<not> sameFile fs (outputPath (sf_outputDir f) cl) (hd (sf_args f))"
    and "cl_ClusterName cl @ ''.yaml'' \<noteq> KustomizationConfigMapGeneratorSnippetFile"
    and "\<forall>cl m. mset (me_order (mv_manifests E) cl m) = mset m"
  shows "\<exists>a c w fs2 m files content.
     getExtraManifest (mv_manifests E) fs2 [] cl (inputDirOf fs2 (hd (sf_args f))) = Inr m \<and>
     (\<forall>p. \<not> sameFile fs (outputPath (sf_outputDir f) cl) p \<longrightarrow> readOpt fs2 p = readOpt fs p) \<and>
     mv_kustomization E (kustomizationOf files extraManifestConfigMapName (cl_ClusterName cl)) = Inr content \<and>
     readOpt fs' (snippetOf f) = Some content \<and>
     ((\<forall>(name, _)\<in>set m. goodName name) \<longrightarrow>
        cx_outputDir a = sf_outputDir f \<and> written (mv_convert E) sc a c fs' 0 w cl \<and>
        (\<forall>(name, txt)\<in>set m. readOpt fs' (JoinPath [manifestsDirOf f, name]) = Some txt \<and>
           (hasYamlExt name \<longrightarrow> Rel (sf_outputDir f) (JoinPath [manifestsDirOf f, name]) \<in> Some ` set files)))"
proof -
  obtain fs1 fs2 fs3 msg where conv:
    "convertToClusterInstance (mv_convert E) fs sc (sf_outputDir f) (sf_clusterTemplate f) (sf_nodeTemplate f)
       (sf_extraManifestsRefs f) (sf_suppressedManifests f) (sf_writeWarnings f) (sf_copyComments f) (hd (sf_args f))
       extraManifestConfigMapName = Inr (fs1, msg)"
    and fs2: "\<forall>p. readOpt fs2 p = readOpt fs1 p" "sameFile fs2 = sameFile fs"
    and man: "writeClusterManifests (mv_manifests E) (manifestsDirOf f) (inputDirOf fs2 (hd (sf_args f))) fs2 cl = Inr fs3"
    and kus: "generateKustomizationYAML (mv_kustomization E) fs3 extraManifestConfigMapName (cl_ClusterName cl)
       (manifestsDirOf f) (sf_outputDir f) = Inr fs'"
    and ne: "sf_outputDir f \<noteq> []"
    by (rule siteMain_steps [OF assms(1-6)])
  have dne: "manifestsDirOf f \<noteq> []" using resolve_JoinPath(2) [OF fixed_names(1) ne] by (simp add: manifestsDirOf_def)
  from convertToClusterInstance_written [OF conv assms(4)] assms(3,5) obtain a c w where
    cluster: "written (mv_convert E) sc a c fs1 0 w cl" "cx_outputDir a = sf_outputDir f"
    and frame1: "\<forall>p. \<not> sameFile fs (outputPath (sf_outputDir f) cl) p \<longrightarrow> readOpt fs1 p = readOpt fs p"
    by (auto simp: Let_def convArgsOf_def)
  from man obtain m where m: "getExtraManifest (mv_manifests E) fs2 [] cl (inputDirOf fs2 (hd (sf_args f))) = Inr m"
    by (auto simp: writeClusterManifests_def bind_res_Inr_iff map_error_Inr_iff)
  from generateKustomizationYAML_written [OF kus] obtain entries files content where
    dir: "os_ReadDir fs3 (manifestsDirOf f) = Inr entries"
    and files: "mset (map Some files) = image_mset (\<lambda>e. Rel (sf_outputDir f) (JoinPath [manifestsDirOf f, e]))
        (filter_mset (listed fs3 (manifestsDirOf f)) (mset entries))"
    and content: "mv_kustomization E (kustomizationOf files extraManifestConfigMapName (cl_ClusterName cl)) = Inr content"
    and frame3: "\<forall>p. readOpt fs' p = (if sameFile fs3 (snippetOf f) p then Some content else readOpt fs3 p)"
    by (auto simp: snippetOf_def)
  have snip: "readOpt fs' (snippetOf f) = Some content"
    using frame3 resolve_JoinPath(2) [OF fixed_names(2) ne] by (simp add: sameFile_def snippetOf_def)
  have files': "Rel (sf_outputDir f) (JoinPath [manifestsDirOf f, e]) \<in> Some ` set files"
    if "e \<in> set entries" "listed fs3 (manifestsDirOf f) e" for e
    using that arg_cong [OF files, of set_mset] by auto
  have "written (mv_convert E) sc a c fs' 0 w cl \<and>
      (\<forall>(name, txt)\<in>set m. readOpt fs' (JoinPath [manifestsDirOf f, name]) = Some txt \<and>
         (hasYamlExt name \<longrightarrow> Rel (sf_outputDir f) (JoinPath [manifestsDirOf f, name]) \<in> Some ` set files))"
    if good: "\<forall>(name, _)\<in>set m. goodName name"
  proof -
    note w = writeClusterManifests_files [OF man dne m good assms(8)]
    have same3: "sameFile fs3 = sameFile fs" using w(3) fs2(2) by simp
    have paths: "\<not> sameFile fs (JoinPath [manifestsDirOf f, name]) (outputPath (sf_outputDir f) cl)"
      "\<not> sameFile fs (snippetOf f) (JoinPath [manifestsDirOf f, name])" if "(name, t) \<in> set m" for name t
      using run_paths [OF ne _ assms(5,7)] good that by auto
    have nsnip: "\<not> sameFile fs (snippetOf f) (outputPath (sf_outputDir f) cl)"
      using run_paths(2) [OF ne fixed_names(1) assms(5,7)] .
    have "readOpt fs' (outputPath (sf_outputDir f) cl) = readOpt fs1 (outputPath (sf_outputDir f) cl)"
      using frame3 same3 nsnip w(2) paths(1) fs2 by fastforce
    with cluster have c: "written (mv_convert E) sc a c fs' 0 w cl" by (simp add: written_def)
    have "readOpt fs' (JoinPath [manifestsDirOf f, name]) = Some t \<and>
        (hasYamlExt name \<longrightarrow> Rel (sf_outputDir f) (JoinPath [manifestsDirOf f, name]) \<in> Some ` set files)"
      if e: "(name, t) \<in> set m" for name t
    proof -
      have r3: "readOpt fs3 (JoinPath [manifestsDirOf f, name]) = Some t" using w(1) e by auto
      moreover have "goodName name" using good e by auto
      ultimately show ?thesis
        using readDir_lists [OF r3 dir _ dne] files' frame3 same3 paths(2) [OF e] by auto
    qed
    with c show ?thesis by blast
  qed
  then show ?thesis
    using m frame1 fs2(1) content snip cluster(2)
    by (intro exI [of _ a] exI [of _ c] exI [of _ w] exI [of _ fs2] exI [of _ m] exI [of _ files] exI [of _ content]) simp
qed

text \<open>A concrete run.\<close>

definition runCluster :: Cluster where
  "runCluster = zeroCluster\<lparr>cl_ClusterName := ''c'', cl_Nodes := [zeroNode\<lparr>nd_Role := ''master''\<rparr>]\<rparr>"

definition runSite :: SiteConfig where
  "runSite = zeroSite\<lparr>si_Kind := ''SiteConfig'', si_Spec := (si_Spec zeroSite)\<lparr>sp_Clusters := [runCluster]\<rparr>\<rparr>"

definition runEnv :: mainEnv where
  "runEnv = \<lparr>mv_site = (\<lambda>_. Inr runSite), mv_kustomization = demoEncode, mv_convert = demoEnv, mv_manifests = demoManifestEnv\<rparr>"

definition runFlags :: siteFlags where
  "runFlags =
     \<lparr>sf_outputDir = ''/o'', sf_clusterTemplate = ''n/t'', sf_nodeTemplate = [], sf_extraManifestsRefs = [],
      sf_suppressedManifests = [], sf_writeWarnings = False, sf_copyComments = False, sf_args = [''/in.yaml'']\<rparr>"

definition runFs :: fsys where
  "runFs =
     \<lparr>fs_nodes =
        [([''in.yaml''], NFile ''s''), ([''x''], NDir), ([''x'', ''extra-manifest''], NDir),
         ([''x'', ''extra-manifest'', ''p.yaml''], NFile ''P'')],
      fs_cwd = ''/w'', fs_exe = ''/x/conv''\<rparr>"

lemma run_facts:
  "is_ok (siteMain runEnv runFlags runFs)"
  "readSiteConfig (mv_site runEnv) runFs (hd (sf_args runFlags)) = Inr runSite"
  "sp_Clusters (si_Spec runSite) = [runCluster]" "fs_wf runFs" "goodName (cl_ClusterName runCluster @ ''.yaml'')"
  "\<not> sameFile runFs (outputPath (sf_outputDir runFlags) runCluster) (hd (sf_args runFlags))"
  "cl_ClusterName runCluster @ ''.yaml'' \<noteq> KustomizationConfigMapGeneratorSnippetFile"
  "\<forall>cl m. mset (me_order (mv_manifests runEnv) cl m) = mset m"
  subgoal by code_simp
  subgoal by code_simp
  subgoal by (simp add: runSite_def)
  subgoal by (auto simp: fs_wf_def runFs_def nodeAt_def mwf_def split: if_splits)
  subgoal by (simp add: runCluster_def zeroCluster_def goodName_def plainElem_def)
  subgoal by code_simp
  subgoal by (simp add: runCluster_def zeroCluster_def KustomizationConfigMapGeneratorSnippetFile_def)
  subgoal by (simp add: runEnv_def demoManifestEnv_def)
  done

end
