(* ===== verification/PolicyDiff.thy ===== *)
theory PolicyDiff
  imports Patches
begin

text \<open>
  The command \<^verbatim>\<open>policy-object-template-diff\<close>: it extracts the objects that the policies of two directories wrap
  and reports whether the two sets match.

  The code outside the repository is in the record \<open>diffEnv\<close>: the decoders of policies and configuration
  policies (an object definition stays the raw text it is in Go), the conversion of a raw object, the
  strategic merge with an override, \<^verbatim>\<open>cmp.Diff\<close>, the environment, the path of the source file that
  \<^verbatim>\<open>runtime.Caller\<close> gives, and the orders of directory entries and of the map. Errors that the code
  ignores are part of these functions. What is logged is not modelled; \<^verbatim>\<open>log.Fatalf\<close> is a panic. A nil
  object is the empty map.
\<close>

record Policy =
  pl_Kind :: string
  pl_PolicyTemplates :: "string list"

record CR =
  cr_u :: gmap
  cr_filePath :: string
  cr_hasMatch :: bool

type_synonym crMap = "(string, CR list) gomap"

record diffEnv =
  df_policy :: "string \<Rightarrow> Policy res"
  df_configurationPolicy :: "string \<Rightarrow> string list res"
  df_object :: "string \<Rightarrow> gmap"
  df_patch :: "string \<Rightarrow> string \<Rightarrow> string \<Rightarrow> gmap"
  df_diff :: "gmap \<Rightarrow> gmap \<Rightarrow> string"
  df_getenv :: "string \<Rightarrow> string"
  df_caller :: string
  df_names :: "string list \<Rightarrow> string list"
  df_order :: "crMap \<Rightarrow> crMap"

section \<open>Files\<close>

definition isDirectory :: "fsys \<Rightarrow> string \<Rightarrow> bool" where
  "isDirectory fs path = (os_Stat fs path = Inr NDir)"

definition unreadable :: "string \<Rightarrow> os_error \<Rightarrow> go_error" where
  "unreadable f e = Panic (''unable to read file: '' @ pathError ''open'' f e)"

definition getCR :: "fsys \<Rightarrow> string \<Rightarrow> string res" where
  "getCR fs path = readOr unreadable fs path"

text \<open>The recursive call for a subdirectory works on its own copy of the list and its result is
  dropped, so it changes nothing; an entry that has just been listed can be opened.\<close>

definition readDir :: "diffEnv \<Rightarrow> fsys \<Rightarrow> string \<Rightarrow> string list os" where
  "readDir E fs path =
     (case os_ReadDir fs path of
        Inl e \<Rightarrow> Inl e
      | Inr names \<Rightarrow> Inr (map (\<lambda>name. path @ ''/'' @ name) (df_names E names)))"

definition getFilePaths :: "diffEnv \<Rightarrow> fsys \<Rightarrow> string \<Rightarrow> string list" where
  "getFilePaths E fs dirOrFilePath =
     (if isDirectory fs dirOrFilePath
      then case readDir E fs dirOrFilePath of Inl _ \<Rightarrow> [] | Inr filePaths \<Rightarrow> filePaths
      else [dirOrFilePath])"

section \<open>Objects of a policy file\<close>

definition isEmptyDoc :: "string \<Rightarrow> bool" where
  "isEmptyDoc f \<longleftrightarrow> f = newline \<or> f = []"

definition notPolicy :: go_error where "notPolicy = Error ''not a Policy''"

definition decodePolicy :: "diffEnv \<Rightarrow> string \<Rightarrow> Policy res" where
  "decodePolicy E f =
     bind_res (df_policy E f) (\<lambda>p. bind_res (ensure (pl_Kind p = ''Policy'') notPolicy) (\<lambda>_. Inr p))"

text \<open>\<open>None\<close> is the nil slice of a file with a document that is no policy.\<close>

definition getPolicy :: "diffEnv \<Rightarrow> string \<Rightarrow> Policy list option" where
  "getPolicy E fileR =
     (case mapM_res (decodePolicy E) (filter (\<lambda>f. \<not> isEmptyDoc f) (Split fileR ''---'')) of
        Inl _ \<Rightarrow> None
      | Inr ps \<Rightarrow> Some ps)"

definition getConfigurationPolicy :: "diffEnv \<Rightarrow> Policy list \<Rightarrow> string list list" where
  "getConfigurationPolicy E ps =
     (case mapM_res (df_configurationPolicy E) (concat (map pl_PolicyTemplates ps)) of
        Inl _ \<Rightarrow> []
      | Inr cPs \<Rightarrow> cPs)"

definition gvkKind :: "gmap \<Rightarrow> string" where
  "gvkKind u =
     (if length (filter (\<lambda>c. c = CHR ''/'') (nestedIgnoring u apiVersionField)) \<le> 1
      then nestedIgnoring u kindField else [])"

definition patchCR :: "diffEnv \<Rightarrow> fsys \<Rightarrow> string \<Rightarrow> string \<Rightarrow> string \<Rightarrow> gmap res" where
  "patchCR E fs original crPath kind =
     bind_res (getCR fs crPath) (\<lambda>target. Inr (df_patch E original target kind))"

definition overrideKinds :: "string list" where
  "overrideKinds = [''PtpConfig'', ''SriovOperatorConfig'', ''PerformanceProfile'', ''Tuned'', ''SriovNetworkNodePolicy'']"

definition overridePath :: "diffEnv \<Rightarrow> string \<Rightarrow> string" where
  "overridePath E kind = JoinPath [Dir (df_caller E), ''./override/'' @ kind @ ''.yaml'']"

definition overrideStep :: "diffEnv \<Rightarrow> fsys \<Rightarrow> string \<Rightarrow> gmap \<Rightarrow> string \<Rightarrow> gmap res" where
  "overrideStep E fs raw u kind =
     (if gvkKind u = kind then patchCR E fs raw (overridePath E kind) kind else Inr u)"

definition annotationsField :: "string list" where "annotationsField = [''metadata'', ''annotations'']"

fun stringEntries :: "gmap \<Rightarrow> (string, string) gomap option" where
  "stringEntries [] = Some []"
| "stringEntries ((k, GStr s) # m) = map_option (\<lambda>r. (k, s) # r) (stringEntries m)"
| "stringEntries _ = None"

text \<open>\<^verbatim>\<open>GetAnnotations\<close>; \<open>None\<close> is the nil map.\<close>

definition GetAnnotations :: "gmap \<Rightarrow> (string, string) gomap option" where
  "GetAnnotations u =
     (case NestedFieldNoCopy u annotationsField of
        Inr (Some (GMap m)) \<Rightarrow> stringEntries m
      | _ \<Rightarrow> None)"

definition SetAnnotations :: "gmap \<Rightarrow> (string, string) gomap option \<Rightarrow> gmap" where
  "SetAnnotations u annotations =
     (case annotations of
        None \<Rightarrow> (case idx u ''metadata'' of
            GMap m \<Rightarrow> mput u ''metadata'' (GMap (mdel m ''annotations''))
          | _ \<Rightarrow> u)
      | Some a \<Rightarrow> (case setNested [] u (GMap (map (\<lambda>(k, v). (k, GStr v)) a)) annotationsField of
            Inr u' \<Rightarrow> u'
          | Inl _ \<Rightarrow> u))"

definition removeAnnotation :: "gmap \<Rightarrow> string \<Rightarrow> gmap" where
  "removeAnnotation u key =
     (let u1 = SetAnnotations u (map_option (\<lambda>a. mdel a key) (GetAnnotations u))
      in if GetAnnotations u1 = None \<or> GetAnnotations u1 = Some [] then SetAnnotations u1 None else u1)"

definition deployWaveKey :: string where "deployWaveKey = ''ran.openshift.io/ztp-deploy-wave''"

definition objectOf :: "diffEnv \<Rightarrow> fsys \<Rightarrow> string \<Rightarrow> gmap res" where
  "objectOf E fs raw =
     bind_res (fold_res (overrideStep E fs raw) (df_object E raw) overrideKinds) (\<lambda>u.
       Inr (removeAnnotation u deployWaveKey))"

definition getObjectDefinitionFromConfigurationPolicy :: "diffEnv \<Rightarrow> fsys \<Rightarrow> string list \<Rightarrow> gmap list res" where
  "getObjectDefinitionFromConfigurationPolicy E fs objectTemplates = mapM_res (objectOf E fs) objectTemplates"

definition extractCR :: "diffEnv \<Rightarrow> fsys \<Rightarrow> string \<Rightarrow> gmap list res" where
  "extractCR E fs filePath =
     bind_res (getCR fs filePath) (\<lambda>curYaml.
       case getPolicy E curYaml of
         None \<Rightarrow> Inr []
       | Some policies \<Rightarrow>
           bind_res (mapM_res (getObjectDefinitionFromConfigurationPolicy E fs) (getConfigurationPolicy E policies))
             (\<lambda>crs. Inr (concat crs)))"

section \<open>Recording\<close>

definition getUniqueName :: "gmap \<Rightarrow> string" where
  "getUniqueName cr =
     (let ns = nestedIgnoring cr namespaceField in
      nestedIgnoring cr kindField @ ''-'' @ nestedIgnoring cr apiVersionField @ ''-'' @
      (if ns = [] then ''MISSING-NS'' else ns) @ ''-'' @ nestedIgnoring cr nameField)"

definition diffCRs :: "diffEnv \<Rightarrow> gmap \<Rightarrow> gmap \<Rightarrow> bool \<times> string" where
  "diffCRs E prev cur =
     (let diff = df_diff E prev cur in if diff \<noteq> [] then (True, diff) else (False, []))"

definition newCR :: "gmap \<Rightarrow> string \<Rightarrow> CR" where
  "newCR u filePath = \<lparr>cr_u = u, cr_filePath = filePath, cr_hasMatch = False\<rparr>"

definition indexPanic :: go_error where "indexPanic = Panic ''index out of range''"

definition recordCR :: "diffEnv \<Rightarrow> string \<Rightarrow> crMap \<Rightarrow> gmap \<Rightarrow> crMap res" where
  "recordCR E filePath rec cr =
     (let name = getUniqueName cr in
      if name = [] then Inr rec
      else case mget rec name of
        None \<Rightarrow> Inr (mput rec name [newCR cr filePath])
      | Some [] \<Rightarrow> Inl indexPanic
      | Some (first # others) \<Rightarrow>
          Inr (if fst (diffCRs E (cr_u first) cr) then mput rec name (first # others @ [newCR cr filePath]) else rec))"

definition recordFile :: "diffEnv \<Rightarrow> fsys \<Rightarrow> crMap \<Rightarrow> string \<Rightarrow> crMap res" where
  "recordFile E fs rec filePath =
     bind_res (extractCR E fs filePath) (\<lambda>crs. fold_res (recordCR E filePath) rec crs)"

definition populateMap :: "diffEnv \<Rightarrow> fsys \<Rightarrow> crMap \<Rightarrow> string \<Rightarrow> crMap res" where
  "populateMap E fs rec path = fold_res (recordFile E fs) rec (getFilePaths E fs path)"

section \<open>Comparing\<close>

text \<open>One object of set A against those of set B: the difference texts seen so far and the count.\<close>

fun diffAgainst :: "diffEnv \<Rightarrow> gmap \<Rightarrow> string list \<Rightarrow> nat \<Rightarrow> CR list \<Rightarrow> string list \<times> nat" where
  "diffAgainst E a saw diffCount [] = (saw, diffCount)"
| "diffAgainst E a saw diffCount (b # bs) =
     (let (isDiff, diffString) = diffCRs E a (cr_u b) in
      if \<not> isDiff then (saw, 0)
      else if diffString \<in> set saw then diffAgainst E a saw diffCount bs
      else diffAgainst E a (diffString # saw) (Suc diffCount) bs)"

fun diffMany :: "diffEnv \<Rightarrow> string list \<Rightarrow> CR list \<Rightarrow> CR list \<Rightarrow> bool" where
  "diffMany E saw [] bs = False"
| "diffMany E saw (a # as) bs =
     (let (saw1, diffCount) = diffAgainst E (cr_u a) saw 0 bs in (diffCount \<noteq> 0) \<or> diffMany E saw1 as bs)"

definition diffNamed :: "diffEnv \<Rightarrow> CR list \<Rightarrow> CR list \<Rightarrow> bool res" where
  "diffNamed E crs cur =
     (case crs of
        [a] \<Rightarrow> (case cur of [] \<Rightarrow> Inl indexPanic | b # _ \<Rightarrow> Inr (fst (diffCRs E (cr_u a) (cr_u b))))
      | _ \<Rightarrow> Inr (diffMany E [] crs cur))"

definition compareStep :: "diffEnv \<Rightarrow> crMap \<times> crMap \<times> bool \<Rightarrow> string \<times> CR list \<Rightarrow> (crMap \<times> crMap \<times> bool) res" where
  "compareStep E st entry =
     (case (st, entry) of ((setA, setB, isDiff), (name, crs)) \<Rightarrow>
      case mget setB name of
        None \<Rightarrow> Inr st
      | Some curToCR \<Rightarrow>
          bind_res (diffNamed E crs curToCR) (\<lambda>d. Inr (mdel setA name, mdel setB name, isDiff \<or> d)))"

definition getenvOr :: "diffEnv \<Rightarrow> string \<Rightarrow> string \<Rightarrow> string" where
  "getenvOr E key fallback = (if df_getenv E key = [] then fallback else df_getenv E key)"

definition pathA :: "diffEnv \<Rightarrow> string" where "pathA E = getenvOr E ''A_PATH'' ''./example/acmpolicy''"
definition pathB :: "diffEnv \<Rightarrow> string" where "pathB E = getenvOr E ''B_PATH'' ''./example/ztppolicy''"

definition noMatch :: go_error where "noMatch = Error ''no match''"

definition runDiff :: "diffEnv \<Rightarrow> fsys \<Rightarrow> unit res" where
  "runDiff E fs =
     bind_res (populateMap E fs [] (pathA E)) (\<lambda>setA.
     bind_res (populateMap E fs [] (pathB E)) (\<lambda>setB.
     bind_res (fold_res (compareStep E) (setA, setB, False) (df_order E setA)) (\<lambda>(setA1, setB1, isDiff).
       if \<not> isDiff \<and> setB1 = [] \<and> setA1 = [] then Inr () else Inl noMatch)))"

definition diffMain :: "diffEnv \<Rightarrow> fsys \<Rightarrow> unit res" where
  "diffMain E fs = orExit (runDiff E fs)"

section \<open>What a match means\<close>

text \<open>The objects of all files of a path.\<close>

definition objectsOf :: "diffEnv \<Rightarrow> fsys \<Rightarrow> string \<Rightarrow> gmap list res" where
  "objectsOf E fs path =
     bind_res (mapM_res (extractCR E fs) (getFilePaths E fs path)) (\<lambda>crs. Inr (concat crs))"

text \<open>Objects with the same name are equal.\<close>

definition consistent :: "(gmap \<Rightarrow> gmap \<Rightarrow> bool) \<Rightarrow> gmap list \<Rightarrow> bool" where
  "consistent same us \<longleftrightarrow> (\<forall>x\<in>set us. \<forall>y\<in>set us. getUniqueName x = getUniqueName y \<longrightarrow> same x y)"

definition covered :: "(gmap \<Rightarrow> gmap \<Rightarrow> bool) \<Rightarrow> gmap list \<Rightarrow> gmap list \<Rightarrow> bool" where
  "covered same us vs \<longleftrightarrow> (\<forall>x\<in>set us. \<exists>y\<in>set vs. getUniqueName x = getUniqueName y \<and> same x y)"

text \<open>The map that recording consistent objects leaves: one object per name.\<close>

definition recorded :: "gmap list \<Rightarrow> crMap \<Rightarrow> bool" where
  "recorded us m \<longleftrightarrow> mwf m \<and> (\<forall>x\<in>set us. mget m (getUniqueName x) \<noteq> None) \<and>
     (\<forall>name cs. mget m name = Some cs \<longrightarrow> (\<exists>c. cs = [c] \<and> cr_u c \<in> set us \<and> getUniqueName (cr_u c) = name))"

lemma recorded_cases:
  assumes "recorded us m" and "mget m name = Some cs"
  obtains c where "cs = [c]" and "cr_u c \<in> set us" and "getUniqueName (cr_u c) = name"
  using assms unfolding recorded_def by blast

lemma recorded_dom: "recorded us m \<Longrightarrow> dom (mget m) = getUniqueName ` set us"
  unfolding recorded_def by (auto simp: dom_def) (metis image_eqI)

lemma getUniqueName_not_Nil [simp]: "getUniqueName cr \<noteq> []"
  by (simp add: getUniqueName_def Let_def)

lemma diffCRs_same: "\<forall>a b. df_diff E a b = [] \<longleftrightarrow> same a b \<Longrightarrow> fst (diffCRs E a b) \<longleftrightarrow> \<not> same a b"
  by (auto simp: diffCRs_def Let_def)

lemma recordCR_recorded:
  assumes "recorded us m" and "consistent same (us @ [cr])" and "\<forall>a b. df_diff E a b = [] \<longleftrightarrow> same a b"
  shows "\<exists>m'. recordCR E filePath m cr = Inr m' \<and> recorded (us @ [cr]) m'"
proof (cases "mget m (getUniqueName cr)")
  case None
  then have "recordCR E filePath m cr = Inr (mput m (getUniqueName cr) [newCR cr filePath])"
    by (simp add: recordCR_def Let_def)
  moreover have "recorded (us @ [cr]) (mput m (getUniqueName cr) [newCR cr filePath])"
    using assms(1) unfolding recorded_def by (auto simp: newCR_def) metis
  ultimately show ?thesis by blast
next
  case (Some cs)
  from recorded_cases [OF assms(1) this] obtain c
    where c: "cs = [c]" "cr_u c \<in> set us" "getUniqueName (cr_u c) = getUniqueName cr" by blast
  with assms(2) have "same (cr_u c) cr" by (simp add: consistent_def)
  with Some c(1) diffCRs_same [OF assms(3)] have "recordCR E filePath m cr = Inr m"
    by (simp add: recordCR_def Let_def)
  moreover have "recorded (us @ [cr]) m"
    using assms(1) Some unfolding recorded_def by auto metis
  ultimately show ?thesis by blast
qed

lemma consistent_append: "consistent same (us @ vs) \<Longrightarrow> consistent same us"
  by (simp add: consistent_def)

lemma recordCRs_recorded:
  assumes "recorded us m" and "consistent same (us @ vs)" and "\<forall>a b. df_diff E a b = [] \<longleftrightarrow> same a b"
  shows "\<exists>m'. fold_res (recordCR E filePath) m vs = Inr m' \<and> recorded (us @ vs) m'"
  using assms(1,2)
proof (induction vs arbitrary: us m)
  case (Cons v vs)
  have "consistent same (us @ [v])" using Cons.prems(2) consistent_append [of same "us @ [v]" vs] by simp
  from recordCR_recorded [OF Cons.prems(1) this assms(3)] obtain m1
    where "recordCR E filePath m v = Inr m1" "recorded (us @ [v]) m1" by blast
  with Cons.IH [of "us @ [v]" m1] Cons.prems(2) show ?case by simp
qed simp

lemma recordFiles_recorded:
  assumes "recorded us m" and "mapM_res (extractCR E fs) files = Inr crs" and "consistent same (us @ concat crs)"
    and "\<forall>a b. df_diff E a b = [] \<longleftrightarrow> same a b"
  shows "\<exists>m'. fold_res (recordFile E fs) m files = Inr m' \<and> recorded (us @ concat crs) m'"
  using assms(1-3)
proof (induction files arbitrary: us m crs)
  case (Cons f files)
  from Cons.prems(2) obtain c cs where c: "extractCR E fs f = Inr c" "mapM_res (extractCR E fs) files = Inr cs" "crs = c # cs"
    by (auto simp: bind_res_Inr_iff)
  have "consistent same (us @ c)" using Cons.prems(3) c(3) consistent_append [of same "us @ c" "concat cs"] by simp
  from recordCRs_recorded [OF Cons.prems(1) this assms(4)] obtain m1
    where m1: "fold_res (recordCR E f) m c = Inr m1" "recorded (us @ c) m1" by blast
  with Cons.IH [OF m1(2) c(2)] Cons.prems(3) c show ?case by (simp add: recordFile_def)
qed simp

lemma populateMap_recorded:
  assumes "objectsOf E fs path = Inr us" and "consistent same us" and "\<forall>a b. df_diff E a b = [] \<longleftrightarrow> same a b"
  obtains m where "populateMap E fs [] path = Inr m" and "recorded us m"
proof -
  from assms(1) obtain crs where crs: "mapM_res (extractCR E fs) (getFilePaths E fs path) = Inr crs" "us = concat crs"
    by (auto simp: objectsOf_def bind_res_Inr_iff)
  have "recorded [] []" by (simp add: recorded_def)
  from recordFiles_recorded [OF this crs(1) _ assms(3)] crs(2) assms(2) that show thesis
    by (auto simp: populateMap_def)
qed

text \<open>The loop over set A removes every name of both sets from both.\<close>

definition singles :: "crMap \<Rightarrow> bool" where
  "singles m \<longleftrightarrow> (\<forall>name cs. mget m name = Some cs \<longrightarrow> length cs = 1)"

lemma compareStep_known:
  "mget B name = Some [b] \<Longrightarrow>
   compareStep E (A, B, d) (name, [a]) = Inr (mdel A name, mdel B name, d \<or> fst (diffCRs E (cr_u a) (cr_u b)))"
  by (simp add: compareStep_def diffNamed_def)

lemma compareAll:
  assumes "distinct (map fst xs)" and "\<forall>(name, cs)\<in>set xs. length cs = 1" and "singles B"
  shows "\<exists>A' B' d'. fold_res (compareStep E) (A, B, d) xs = Inr (A', B', d') \<and>
     mget A' = mget A |` (- (fst ` set xs \<inter> dom (mget B))) \<and>
     mget B' = mget B |` (- fst ` set xs) \<and>
     (d' \<longleftrightarrow> d \<or> (\<exists>(name, cs)\<in>set xs. \<exists>a b. cs = [a] \<and> mget B name = Some [b] \<and> fst (diffCRs E (cr_u a) (cr_u b))))"
  using assms
proof (induction xs arbitrary: A B d)
  case Nil
  then show ?case by simp
next
  case (Cons x xs)
  obtain name a where x: "x = (name, [a])"
    using Cons.prems(2) by (cases x) (auto simp: length_Suc_conv)
  have d: "distinct (map fst xs)" "\<forall>(name, cs)\<in>set xs. length cs = 1" "name \<notin> fst ` set xs"
    using Cons.prems(1,2) x by auto
  show ?case
  proof (cases "mget B name")
    case None
    have step: "compareStep E (A, B, d) x = Inr (A, B, d)" using None by (simp add: x compareStep_def)
    from Cons.IH [OF d(1,2) Cons.prems(3), of A d] obtain A' B' d' where
      "fold_res (compareStep E) (A, B, d) xs = Inr (A', B', d')"
      "mget A' = mget A |` (- (fst ` set xs \<inter> dom (mget B)))" "mget B' = mget B |` (- fst ` set xs)"
      "d' \<longleftrightarrow> d \<or> (\<exists>(name, cs)\<in>set xs. \<exists>a b. cs = [a] \<and> mget B name = Some [b] \<and> fst (diffCRs E (cr_u a) (cr_u b)))"
      by blast
    with step None x show ?thesis by (auto simp: restrict_map_def fun_eq_iff domIff)
  next
    case (Some cs)
    then obtain b where b: "mget B name = Some [b]"
      using Cons.prems(3) by (auto simp: singles_def length_Suc_conv)
    let ?d = "d \<or> fst (diffCRs E (cr_u a) (cr_u b))"
    have step: "compareStep E (A, B, d) x = Inr (mdel A name, mdel B name, ?d)"
      using b by (simp add: x compareStep_known)
    have "singles (mdel B name)" using Cons.prems(3) by (simp add: singles_def)
    from Cons.IH [OF d(1,2) this, of "mdel A name" ?d] obtain A' B' d' where
      r: "fold_res (compareStep E) (mdel A name, mdel B name, ?d) xs = Inr (A', B', d')"
      "mget A' = mget (mdel A name) |` (- (fst ` set xs \<inter> dom (mget (mdel B name))))"
      "mget B' = mget (mdel B name) |` (- fst ` set xs)"
      "d' \<longleftrightarrow> ?d \<or> (\<exists>(nm, cs)\<in>set xs. \<exists>a b. cs = [a] \<and> mget (mdel B name) nm = Some [b] \<and> fst (diffCRs E (cr_u a) (cr_u b)))"
      by blast
    have A': "mget A' = mget A |` (- (fst ` set (x # xs) \<inter> dom (mget B)))"
      and B': "mget B' = mget B |` (- fst ` set (x # xs))"
      using r(2,3) b x by (auto simp: restrict_map_def fun_eq_iff domIff)
    have "\<forall>(nm, cs)\<in>set xs. mget (mdel B name) nm = mget B nm" using d(3) by force
    then have "d' \<longleftrightarrow> d \<or> (\<exists>(nm, cs)\<in>set (x # xs). \<exists>a b. cs = [a] \<and> mget B nm = Some [b] \<and> fst (diffCRs E (cr_u a) (cr_u b)))"
      unfolding r(4) using b x by fastforce
    with A' B' r(1) step show ?thesis by auto
  qed
qed

lemma map_of_Nil_iff: "m = [] \<longleftrightarrow> mget m = Map.empty"
  by (cases m) (auto simp: fun_eq_iff)

lemma restrict_empty_iff: "f |` (- X) = Map.empty \<longleftrightarrow> dom f \<subseteq> X"
  by (auto simp: restrict_map_def fun_eq_iff dom_def)

lemma recorded_singles: "recorded us m \<Longrightarrow> singles m"
  by (auto simp: singles_def elim: recorded_cases)

text \<open>Two maps agree when the single objects under a common name are the same.\<close>

definition agreeing :: "(gmap \<Rightarrow> gmap \<Rightarrow> bool) \<Rightarrow> (string, CR list) gomap \<Rightarrow> (string, CR list) gomap \<Rightarrow> bool" where
  "agreeing same A B \<longleftrightarrow> (\<forall>name a b. mget A name = Some [a] \<and> mget B name = Some [b] \<longrightarrow> same (cr_u a) (cr_u b))"

lemma agreeing_covers:
  assumes A: "recorded us A" and B: "recorded vs B" and "consistent same us" and "transp same"
    and eq: "getUniqueName ` set us = getUniqueName ` set vs" and agree: "agreeing same A B"
  shows "covered same us vs"
  unfolding covered_def
proof
  fix x assume x: "x \<in> set us"
  with A obtain cs where cs: "mget A (getUniqueName x) = Some cs" by (auto simp: recorded_def)
  then obtain a where a: "cs = [a]" "cr_u a \<in> set us" "getUniqueName (cr_u a) = getUniqueName x"
    using recorded_cases [OF A] by blast
  have "getUniqueName x \<in> dom (mget B)" using x eq recorded_dom [OF B] by auto
  then obtain bs where "mget B (getUniqueName x) = Some bs" by auto
  with recorded_cases [OF B] obtain b where b: "mget B (getUniqueName x) = Some [b]" "cr_u b \<in> set vs"
    "getUniqueName (cr_u b) = getUniqueName x" by metis
  have "same (cr_u a) (cr_u b)" using agree cs a(1) b(1) by (simp add: agreeing_def)
  moreover have "same x (cr_u a)" using assms(3) x a by (simp add: consistent_def)
  ultimately have "same x (cr_u b)" using assms(4) by (metis transpE)
  with b show "\<exists>y\<in>set vs. getUniqueName x = getUniqueName y \<and> same x y" by metis
qed

lemma covered_agrees:
  assumes A: "recorded us A" and B: "recorded vs B" and "consistent same vs" and "transp same" and cov: "covered same us vs"
  shows "agreeing same A B"
  unfolding agreeing_def
proof (intro allI impI)
  fix name a b assume ab: "mget A name = Some [a] \<and> mget B name = Some [b]"
  with recorded_cases [OF A] have a: "cr_u a \<in> set us" "getUniqueName (cr_u a) = name" by auto
  from ab recorded_cases [OF B] have b: "cr_u b \<in> set vs" "getUniqueName (cr_u b) = name" by auto
  from cov a obtain y where y: "y \<in> set vs" "getUniqueName y = name" "same (cr_u a) y" unfolding covered_def by metis
  with assms(3) b have "same y (cr_u b)" by (simp add: consistent_def)
  with y(3) assms(4) show "same (cr_u a) (cr_u b)" by (metis transpE)
qed

lemma agreeing_covered:
  assumes "recorded us A" and "recorded vs B" and "consistent same us" and "consistent same vs" and "transp same"
    and "getUniqueName ` set us = getUniqueName ` set vs"
  shows "agreeing same A B \<longleftrightarrow> covered same us vs"
  using agreeing_covers [OF assms(1,2,3,5,6)] covered_agrees [OF assms(1,2,4,5)] by blast

text \<open>C32. The verdict of the tool is right: if the objects of the files under each path can be extracted and
  those that share a name are equal, it reports a match exactly when both paths have objects of the
  same names and every object of the first equals one of the second with its name, in whatever order
  Go visits the map; otherwise it ends with the error \<^verbatim>\<open>no match\<close>. \<open>same\<close> is the equality that \<^verbatim>\<open>cmp.Diff\<close>
  decides: the difference is empty just when its arguments are equal.
\<close>

theorem runDiff_verdict:
  assumes "objectsOf E fs (pathA E) = Inr us" and "objectsOf E fs (pathB E) = Inr vs"
    and "consistent same us" and "consistent same vs"
    and "\<forall>a b. df_diff E a b = [] \<longleftrightarrow> same a b" and "transp same"
    and "\<forall>m. mset (df_order E m) = mset m"
  shows "runDiff E fs =
     (if getUniqueName ` set us = getUniqueName ` set vs \<and> covered same us vs then Inr () else Inl noMatch)"
proof -
  obtain A where A: "populateMap E fs [] (pathA E) = Inr A" "recorded us A"
    by (rule populateMap_recorded [OF assms(1,3,5)])
  obtain B where B: "populateMap E fs [] (pathB E) = Inr B" "recorded vs B"
    by (rule populateMap_recorded [OF assms(2,4,5)])
  let ?xs = "df_order E A"
  have perm: "mset ?xs = mset A" using assms(7) by simp
  have wf: "mwf A" using A(2) by (simp add: recorded_def)
  then have "mwf ?xs" using mwf_perm [OF perm] by simp
  have xs: "set ?xs = set A" using perm by (rule mset_eq_setD)
  have entries: "(name, cs) \<in> set ?xs \<longleftrightarrow> mget A name = Some cs" for name cs
    using wf xs by (simp add: mget_in_set)
  have len: "\<forall>(name, cs)\<in>set ?xs. length cs = 1"
    using recorded_singles [OF A(2)] entries by (auto simp: singles_def)
  have names: "fst ` set ?xs = dom (mget A)" by (simp add: xs dom_map_of_conv_image_fst)
  from compareAll [OF \<open>mwf ?xs\<close> [unfolded mwf_def] len recorded_singles [OF B(2)], of E A False]
  obtain A' B' d where loop: "fold_res (compareStep E) (A, B, False) ?xs = Inr (A', B', d)"
    and A': "mget A' = mget A |` (- (fst ` set ?xs \<inter> dom (mget B)))"
    and B': "mget B' = mget B |` (- fst ` set ?xs)"
    and d: "d \<longleftrightarrow> (\<exists>(name, cs)\<in>set ?xs. \<exists>a b. cs = [a] \<and> mget B name = Some [b] \<and> fst (diffCRs E (cr_u a) (cr_u b)))"
    by auto
  have left: "A' = [] \<and> B' = [] \<longleftrightarrow> getUniqueName ` set us = getUniqueName ` set vs"
    unfolding map_of_Nil_iff A' B' restrict_empty_iff names recorded_dom [OF A(2)] recorded_dom [OF B(2)] by blast
  have "\<not> d \<longleftrightarrow> agreeing same A B"
    unfolding d agreeing_def Bex_def split_paired_Ex prod.case entries diffCRs_same [OF assms(5)] by blast
  then have "\<not> d \<longleftrightarrow> covered same us vs" if "getUniqueName ` set us = getUniqueName ` set vs"
    using agreeing_covered [OF A(2) B(2) assms(3,4,6) that] by blast
  with left show ?thesis
    by (auto simp: runDiff_def A(1) B(1) loop)
qed

definition demoDiffEnv :: diffEnv where
  "demoDiffEnv =
     \<lparr>df_policy = (\<lambda>s. Inr \<lparr>pl_Kind = ''Policy'', pl_PolicyTemplates = [s]\<rparr>),
      df_configurationPolicy = (\<lambda>s. Inr [s]),
      df_object = (\<lambda>s. [(''kind'', GStr ''K''), (''apiVersion'', GStr ''v1''), (''data'', GStr s)]),
      df_patch = (\<lambda>_ _ _. []), df_diff = (\<lambda>a b. if a = b then [] else ''-''),
      df_getenv = (\<lambda>k. if k = ''A_PATH'' then ''/a'' else ''/b''), df_caller = ''/s/main.go'',
      df_names = id, df_order = rev\<rparr>"

definition demoDiffFs :: "string \<Rightarrow> fsys" where
  "demoDiffFs s =
     \<lparr>fs_nodes = [([''a''], NDir), ([''a'', ''p''], NFile ''x''), ([''b''], NFile s)], fs_cwd = ''/w'', fs_exe = ''/x''\<rparr>"

definition demoObject :: "string \<Rightarrow> gmap" where
  "demoObject s = [(''kind'', GStr ''K''), (''apiVersion'', GStr ''v1''), (''data'', GStr s)]"

theorem runDiff_verdict_witness:
  "runDiff demoDiffEnv (demoDiffFs ''x'') = Inr () \<and> runDiff demoDiffEnv (demoDiffFs ''y'') = Inl noMatch"
proof -
  have o: "objectsOf demoDiffEnv (demoDiffFs ''x'') (pathA demoDiffEnv) = Inr [demoObject ''x'']"
    "objectsOf demoDiffEnv (demoDiffFs ''x'') (pathB demoDiffEnv) = Inr [demoObject ''x'']"
    "objectsOf demoDiffEnv (demoDiffFs ''y'') (pathA demoDiffEnv) = Inr [demoObject ''x'']"
    "objectsOf demoDiffEnv (demoDiffFs ''y'') (pathB demoDiffEnv) = Inr [demoObject ''y'']"
    by code_simp+
  have h: "\<forall>a b. df_diff demoDiffEnv a b = [] \<longleftrightarrow> a = b" "transp ((=) :: gmap \<Rightarrow> gmap \<Rightarrow> bool)"
    "\<forall>m. mset (df_order demoDiffEnv m) = mset m"
    by (simp_all add: demoDiffEnv_def)
  have c: "consistent (=) [u]" for u :: gmap by (simp add: consistent_def)
  have "demoObject ''x'' \<noteq> demoObject ''y''" by (simp add: demoObject_def)
  with runDiff_verdict [OF o(1,2) c c h] runDiff_verdict [OF o(3,4) c c h] show ?thesis
    by (simp add: covered_def)
qed

end
