(* ===== verification/ReachMatcher.thy ===== *)
theory ReachMatcher
  imports GoStrings GoNumbers
begin

text \<open>
  The connectivity matcher of the multi-networkpolicy tests
  (\<^verbatim>\<open>cnf-tests/testsuites/e2esuite/multinetworkpolicy/reachmatcher.go\<close>) and the image names it uses
  (\<^verbatim>\<open>pkg/images/images.go\<close>): whether one pod reaches another, and the table that a failing assertion prints.

  The cluster is the parameter \<open>reachEnv\<close>: a command or a random number takes the state of the cluster to a
  new one. Decoding the network status, \<^verbatim>\<open>net.ParseIP(s).To4()\<close> and the environment variables are
  parameters too.

  The table is computed by one goroutine per pair of pods that sends its result over a buffered
  channel and one that collects the results in a map; two wait groups order the end. This is the
  step relation \<open>mstep\<close>.
\<close>

section \<open>Images\<close>

definition TestUtils :: string where "TestUtils = ''testutils''"
definition Dpdk :: string where "Dpdk = ''dpdk''"

definition envOr :: "(string \<Rightarrow> string) \<Rightarrow> string \<Rightarrow> string \<Rightarrow> string" where
  "envOr getenv key fallback = (if getenv key = [] then fallback else getenv key)"

text \<open>The map that \<^verbatim>\<open>init\<close> fills: registry and image.\<close>

definition imageMap :: "(string \<Rightarrow> string) \<Rightarrow> (string, string \<times> string) gomap" where
  "imageMap getenv =
     (let registry = envOr getenv ''IMAGE_REGISTRY'' ''quay.io/openshift-kni/'' in
      [(TestUtils, (registry, envOr getenv ''CNF_TESTS_IMAGE'' ''cnf-tests:4.21'')),
       (Dpdk, (registry, envOr getenv ''DPDK_TESTS_IMAGE'' ''dpdk:4.21''))])"

definition imageMissing :: go_error where "imageMissing = Panic ''Image not found''"

definition imageFor :: "(string \<Rightarrow> string) \<Rightarrow> string \<Rightarrow> string res" where
  "imageFor getenv name =
     (case mget (imageMap getenv) name of
        None \<Rightarrow> Inl imageMissing
      | Some (registry, img) \<Rightarrow> Inr (registry @ img))"

section \<open>Pods\<close>

record Container =
  con_Name :: string
  con_Image :: string
  con_Command :: "string list"
  con_Privileged :: "bool option"

record Pod =
  pod_Namespace :: string
  pod_Name :: string
  pod_Labels :: "(string, string) gomap"
  pod_Annotations :: "(string, string) gomap"
  pod_Containers :: "Container list"

datatype IntOrString = FromInt int | FromString string

fun portString :: "IntOrString \<Rightarrow> string" where
  "portString (FromInt i) = Itoa i"
| "portString (FromString s) = s"

definition debugContainerName :: string where "debugContainerName = ''debug-container''"

definition addContainer :: "(string \<Rightarrow> string) \<Rightarrow> Pod \<Rightarrow> string \<Rightarrow> string list \<Rightarrow> bool option \<Rightarrow> Pod res" where
  "addContainer getenv pod name command privileged =
     bind_res (imageFor getenv TestUtils) (\<lambda>img.
       Inr (pod\<lparr>pod_Containers := pod_Containers pod @
         [\<lparr>con_Name = name, con_Image = img, con_Command = command, con_Privileged = privileged\<rparr>]\<rparr>))"

definition AddTCPNetcatServerToPod :: "(string \<Rightarrow> string) \<Rightarrow> Pod \<Rightarrow> IntOrString \<Rightarrow> Pod res" where
  "AddTCPNetcatServerToPod getenv pod port =
     addContainer getenv pod (''netcat-tcp-server-'' @ portString port)
       [''nc'', ''-vv'', ''--keep-open'', ''--listen'', portString port] None"

definition AddUDPNetcatServerToPod :: "(string \<Rightarrow> string) \<Rightarrow> Pod \<Rightarrow> IntOrString \<Rightarrow> Pod res" where
  "AddUDPNetcatServerToPod getenv pod port =
     addContainer getenv pod (''netcat-udp-server-'' @ portString port)
       [''nc'', ''-vv'', ''--udp'', ''--keep-open'', ''--sh-exec'', ''/bin/cat >&2'', ''--listen'', portString port] None"

definition AddSCTPNetcatServerToPod :: "(string \<Rightarrow> string) \<Rightarrow> Pod \<Rightarrow> IntOrString \<Rightarrow> Pod res" where
  "AddSCTPNetcatServerToPod getenv pod port =
     addContainer getenv pod (''netcat-sctp-server-'' @ portString port)
       [''nc'', ''-vv'', ''--sctp'', ''--keep-open'', ''--sh-exec'', ''/bin/cat >&2'', ''--listen'', portString port] None"

definition AddDebugContainer :: "(string \<Rightarrow> string) \<Rightarrow> Pod \<Rightarrow> Pod res" where
  "AddDebugContainer getenv pod =
     addContainer getenv pod debugContainerName
       [''sh'', ''-xc'', ''yum install -y nftables; while true; do nft list ruleset; sleep 10; done''] (Some True)"

section \<open>One connection\<close>

text \<open>\<open>re_exec\<close> gives the new state, the output and the error, if any; \<open>re_rand\<close> is \<^verbatim>\<open>rand.Intn(1000000)\<close>.\<close>

record 'w reachEnv =
  re_getenv :: "string \<Rightarrow> string"
  re_status :: "string \<Rightarrow> (string \<times> string list) list res"
  re_to4 :: "string \<Rightarrow> bool"
  re_rand :: "'w \<Rightarrow> 'w \<times> nat"
  re_exec :: "'w \<Rightarrow> Pod \<Rightarrow> string \<Rightarrow> string list \<Rightarrow> 'w \<times> string \<times> string option"
  re_log :: "'w \<Rightarrow> Pod \<Rightarrow> string \<Rightarrow> string res"

definition NetworkStatusAnnot :: string where "NetworkStatusAnnot = ''k8s.v1.cni.cncf.io/network-status''"
definition IPv4Protocol :: string where "IPv4Protocol = ''IPv4''"
definition IPv6Protocol :: string where "IPv6Protocol = ''IPv6''"
definition ProtocolTCP :: string where "ProtocolTCP = ''TCP''"
definition ProtocolUDP :: string where "ProtocolUDP = ''UDP''"
definition ProtocolSCTP :: string where "ProtocolSCTP = ''SCTP''"

definition getNicIPs :: "'w reachEnv \<Rightarrow> Pod \<Rightarrow> string \<Rightarrow> string list res" where
  "getNicIPs E pod ifcName =
     (case mget (pod_Annotations pod) NetworkStatusAnnot of
        None \<Rightarrow> Inl (Error (''cannot get networks status from pod ['' @ NetworkStatusAnnot @ ''] annotation ['' @ pod_Name pod @ '']''))
      | Some networksStatus \<Rightarrow>
          bind_res (re_status E networksStatus) (\<lambda>nets.
            case find (\<lambda>net. fst net = ifcName) nets of
              Some net \<Rightarrow> Inr (snd net)
            | None \<Rightarrow> Inl (Error (''no IP addresses found for interface ['' @ ifcName @ ''], pod ['' @ pod_Name pod @ '']''))))"

fun errorText :: "go_error \<Rightarrow> string" where
  "errorText (Error s) = s"
| "errorText (Panic s) = s"

definition ofFamily :: "'w reachEnv \<Rightarrow> string \<Rightarrow> string \<Rightarrow> bool" where
  "ofFamily E ipFamily ipStr \<longleftrightarrow>
     (ipFamily = IPv4Protocol \<and> re_to4 E ipStr) \<or> (ipFamily = IPv6Protocol \<and> \<not> re_to4 E ipStr)"

definition getMultusNicIP :: "'w reachEnv \<Rightarrow> Pod \<Rightarrow> string \<Rightarrow> string" where
  "getMultusNicIP E pod ipFamily =
     (case getNicIPs E pod ''net1'' of
        Inl e \<Rightarrow> ''<err: '' @ errorText e @ ''>''
      | Inr ips \<Rightarrow>
          if ips = [] then ''<no IPs>''
          else case find (ofFamily E ipFamily) ips of
            Some ipStr \<Rightarrow> ipStr
          | None \<Rightarrow> ''<no IP for '' @ ipFamily @ ''>'')"

definition findContainerNameByImage :: "Pod \<Rightarrow> string \<Rightarrow> string res" where
  "findContainerNameByImage pod img =
     (case find (\<lambda>c. con_Image c = img) (pod_Containers pod) of
        Some c \<Rightarrow> Inr (con_Name c)
      | None \<Rightarrow> Inl (Error (''can't find container with image ['' @ img @ ''] in pod ['' @ pod_Name pod @ '']'')))"

definition ncatTimeout770 :: string where "ncatTimeout770 = ''Ncat: Connection timed out''"
definition ncatTimeout792 :: string where "ncatTimeout792 = ''Ncat: TIMEOUT''"
definition ncatRefused :: string where "ncatRefused = ''Ncat: Connection refused''"

definition doesErrorMeanNoConnectivity :: "string \<Rightarrow> string \<Rightarrow> bool" where
  "doesErrorMeanNoConnectivity commandOutput protocol =
     (if protocol = ProtocolTCP \<or> protocol = ProtocolSCTP
      then Contains commandOutput ncatTimeout770 \<or> Contains commandOutput ncatTimeout792
      else protocol = ProtocolUDP \<and> Contains commandOutput ncatRefused)"

definition getNFTables :: "'w reachEnv \<Rightarrow> 'w \<Rightarrow> Pod \<Rightarrow> 'w \<times> string" where
  "getNFTables E w pod =
     (case re_exec E w pod debugContainerName [''nft'', ''list'', ''ruleset''] of
        (w', output, Some err) \<Rightarrow> (w', ''<err: '' @ err @ ''>'')
      | (w', output, None) \<Rightarrow> (w', output))"

definition protocolArg :: "string \<Rightarrow> string" where
  "protocolArg protocol =
     (if protocol = ProtocolSCTP then ''--sctp'' else if protocol = ProtocolUDP then ''--udp'' else [])"

definition sendCommand :: "Pod \<Rightarrow> string \<Rightarrow> string \<Rightarrow> string \<Rightarrow> string \<Rightarrow> string list" where
  "sendCommand sourcePod saltString destinationIP destinationPort protocol =
     [''bash'', ''-c'',
      ''echo '' @ quoted (saltString @ '' ('' @ pod_Namespace sourcePod @ ''/'' @ pod_Name sourcePod @ '')-'' @
        destinationIP @ '':'' @ destinationPort @ protocol) @
      '' | nc -w 1 '' @ protocolArg protocol @ '' '' @ destinationIP @ '' '' @ destinationPort]"

definition serverName :: "string \<Rightarrow> string \<Rightarrow> string" where
  "serverName protocol destinationPort = ''netcat-'' @ ToLower protocol @ ''-server-'' @ destinationPort"

definition checkFailed :: "Pod \<Rightarrow> string \<Rightarrow> string" where
  "checkFailed sourcePod e = ''can't check connectivity from source pod ['' @ pod_Name sourcePod @ '']: '' @ e"

definition connectFailed :: "Pod \<Rightarrow> Pod \<Rightarrow> string \<Rightarrow> string \<Rightarrow> string \<Rightarrow> go_error" where
  "connectFailed sourcePod destinationPod err server client =
     Error (''can't connect pods ['' @ pod_Name sourcePod @ ''] -> ['' @ pod_Name destinationPod @ '']: '' @ err @ [CHR 0x0A] @
       ''Server nftables'' @ [CHR 0x0A] @ server @ [CHR 0x0A] @ ''---'' @ [CHR 0x0A] @ ''Client nftables'' @ [CHR 0x0A] @ client)"

definition logsFailed :: "Pod \<Rightarrow> string \<Rightarrow> string \<Rightarrow> string" where
  "logsFailed destinationPod container e =
     ''can't get destination pod logs ['' @ pod_Name destinationPod @ ''/'' @ container @ '']: '' @ e @ '' ''"

definition canSendTraffic :: "'w reachEnv \<Rightarrow> 'w \<Rightarrow> Pod \<Rightarrow> Pod \<Rightarrow> string \<Rightarrow> string \<Rightarrow> string \<Rightarrow> 'w \<times> bool res" where
  "canSendTraffic E w sourcePod destinationPod destinationPort ipFamily protocol =
     (let destinationIP = getMultusNicIP E destinationPod ipFamily;
          (w1, r) = re_rand E w;
          saltString = natStr (r + 1000000)
      in case bind_res (imageFor (re_getenv E) TestUtils)
                (\<lambda>img. map_error (checkFailed sourcePod) (findContainerNameByImage sourcePod img)) of
        Inl e \<Rightarrow> (w1, Inl e)
      | Inr containerName \<Rightarrow>
          (case re_exec E w1 sourcePod containerName
                  (sendCommand sourcePod saltString destinationIP destinationPort protocol) of
             (w2, output, Some err) \<Rightarrow>
               if doesErrorMeanNoConnectivity output protocol then (w2, Inr False)
               else let (w3, server) = getNFTables E w2 destinationPod;
                        (w4, client) = getNFTables E w3 sourcePod
                    in (w4, Inl (connectFailed sourcePod destinationPod err server client))
           | (w2, output, None) \<Rightarrow>
               let container = serverName protocol destinationPort in
               (w2, bind_res (map_error (logsFailed destinationPod container) (re_log E w2 destinationPod container))
                      (\<lambda>logs. Inr (Contains logs saltString)))))"

section \<open>The matcher\<close>

record matcher =
  rm_destinationPod :: Pod
  rm_destinationPort :: string
  rm_destinationAddress :: string
  rm_protocol :: string
  rm_ipFamily :: string

type_synonym reachOpt = "matcher \<Rightarrow> matcher"

definition OnPort :: "IntOrString \<Rightarrow> reachOpt" where
  "OnPort port m = m\<lparr>rm_destinationPort := portString port\<rparr>"
definition ViaTCP :: reachOpt where "ViaTCP m = m\<lparr>rm_protocol := ProtocolTCP\<rparr>"
definition ViaUDP :: reachOpt where "ViaUDP m = m\<lparr>rm_protocol := ProtocolUDP\<rparr>"
definition ViaSCTP :: reachOpt where "ViaSCTP m = m\<lparr>rm_protocol := ProtocolSCTP\<rparr>"
definition ViaIPv4 :: reachOpt where "ViaIPv4 m = m\<lparr>rm_ipFamily := IPv4Protocol\<rparr>"
definition ViaIPv6 :: reachOpt where "ViaIPv6 m = m\<lparr>rm_ipFamily := IPv6Protocol\<rparr>"

definition port5555 :: IntOrString where "port5555 = FromInt 5555"

definition Reach :: "'w reachEnv \<Rightarrow> Pod \<Rightarrow> reachOpt list \<Rightarrow> matcher" where
  "Reach E destinationPod opts =
     (let ret = fold (\<lambda>opt m. opt m) opts
            \<lparr>rm_destinationPod = destinationPod, rm_destinationPort = portString port5555, rm_destinationAddress = [],
             rm_protocol = ProtocolTCP, rm_ipFamily = IPv4Protocol\<rparr>
      in ret\<lparr>rm_destinationAddress := getMultusNicIP E (rm_destinationPod ret) (rm_ipFamily ret)\<rparr>)"

definition notAPod :: "string \<Rightarrow> go_error" where
  "notAPod printed = Error (''ReachMatcher must be passed an *Pod. Got'' @ [CHR 0x0A] @ printed)"

text \<open>The argument is a pod, or another value by its printed form.\<close>

definition Match :: "'w reachEnv \<Rightarrow> 'w \<Rightarrow> matcher \<Rightarrow> string + Pod \<Rightarrow> 'w \<times> bool res" where
  "Match E w m actual =
     (case actual of
        Inl printed \<Rightarrow> (w, Inl (notAPod printed))
      | Inr sourcePod \<Rightarrow>
          canSendTraffic E w sourcePod (rm_destinationPod m) (rm_destinationPort m) (rm_ipFamily m) (rm_protocol m))"

definition connectionText :: "matcher \<Rightarrow> Pod \<Rightarrow> string \<Rightarrow> string" where
  "connectionText m sourcePod verb =
     ''pod ['' @ pod_Namespace (rm_destinationPod m) @ ''/'' @ pod_Name (rm_destinationPod m) @ '' '' @ rm_destinationAddress m @
     ''] is '' @ verb @ '' by pod ['' @ pod_Namespace sourcePod @ ''/'' @ pod_Name sourcePod @ ''] on port['' @
     rm_protocol m @ '':'' @ rm_destinationPort m @ '']''"

definition onlyPods :: string where "onlyPods = ''ReachMatcher should be used against v1.Pod objects''"

text \<open>The messages of a failing assertion; \<open>matrix\<close> is what \<open>makeConnectivityMatrix\<close> has returned.\<close>

definition messageText :: "'w reachEnv \<Rightarrow> 'w \<Rightarrow> matcher \<Rightarrow> Pod \<Rightarrow> string \<Rightarrow> string \<Rightarrow> string \<Rightarrow> string \<Rightarrow> 'w \<times> string" where
  "messageText E w m sourcePod verb but serverTitle matrix =
     (let (w1, server) = getNFTables E w (rm_destinationPod m);
          (w2, client) = getNFTables E w1 sourcePod;
          nl = [CHR 0x0A]
      in (w2, connectionText m sourcePod verb @ '', but it '' @ but @ '' be.'' @ nl @ matrix @ nl @ serverTitle @ nl @
            server @ nl @ ''-----'' @ nl @ ''Client nftables:'' @ nl @ client))"

definition FailureMessage :: "'w reachEnv \<Rightarrow> 'w \<Rightarrow> matcher \<Rightarrow> string + Pod \<Rightarrow> string \<Rightarrow> 'w \<times> string" where
  "FailureMessage E w m actual matrix =
     (case actual of
        Inl _ \<Rightarrow> (w, onlyPods)
      | Inr sourcePod \<Rightarrow> messageText E w m sourcePod ''not reachable'' ''should'' ''Server s:'' matrix)"

definition NegatedFailureMessage :: "'w reachEnv \<Rightarrow> 'w \<Rightarrow> matcher \<Rightarrow> string + Pod \<Rightarrow> string \<Rightarrow> 'w \<times> string" where
  "NegatedFailureMessage E w m actual matrix =
     (case actual of
        Inl _ \<Rightarrow> (w, onlyPods)
      | Inr sourcePod \<Rightarrow> messageText E w m sourcePod ''reachable'' ''shouldn't'' ''Server nftables:'' matrix)"

section \<open>The connectivity matrix\<close>

text \<open>Pods are pointers here, numbers that \<open>heap\<close> takes to pods, or nil. \<open>reach s d\<close> is what \<open>canSendTraffic\<close> returns
  for the pair; the network does not change while the table is computed.\<close>

type_synonym matrix = "(nat, (nat, bool) gomap) gomap"

definition nsX :: string where "nsX = ''sriov-conformance-testing-x''"
definition nsY :: string where "nsY = ''sriov-conformance-testing-y''"
definition nsZ :: string where "nsZ = ''sriov-conformance-testing-z''"

definition shortName :: "Pod \<Rightarrow> string" where
  "shortName p =
     (let ns = (if pod_Namespace p = nsX then ''x'' else if pod_Namespace p = nsY then ''y''
                else if pod_Namespace p = nsZ then ''z'' else [])
      in ns @ ''/'' @ (case mget (pod_Labels p) ''pod'' of None \<Rightarrow> ''?'' | Some podLabel \<Rightarrow> podLabel))"

definition nilPointer :: go_error where
  "nilPointer = Panic ''invalid memory address or nil pointer dereference''"

definition shortNameAt :: "(nat \<Rightarrow> Pod) \<Rightarrow> nat option \<Rightarrow> string res" where
  "shortNameAt heap p = (case p of None \<Rightarrow> Inl nilPointer | Some i \<Rightarrow> Inr (shortName (heap i)))"

definition tab :: string where "tab = [CHR 0x09]"
definition lineEnd :: string where "lineEnd = [CHR 0x0A]"

definition matrixTitle :: "nat \<Rightarrow> string \<Rightarrow> string \<Rightarrow> string \<Rightarrow> string" where
  "matrixTitle n ipFamily protocol destinationPort =
     ''Reachability matrix of '' @ natStr n @ '' pods on '' @ ipFamily @ '', '' @ protocol @ '':'' @ destinationPort @
     '' (X = true, . = false)'' @ lineEnd"

definition cellText :: "bool option \<Rightarrow> string" where
  "cellText c = (case c of None \<Rightarrow> ''?'' | Some True \<Rightarrow> ''X'' | Some False \<Rightarrow> ''.'')"

definition rowText :: "matrix \<Rightarrow> (nat \<Rightarrow> Pod) \<Rightarrow> nat option list \<Rightarrow> nat option \<Rightarrow> string res" where
  "rowText m heap pods source =
     bind_res (shortNameAt heap source) (\<lambda>name.
       Inr (name @
         (case (case source of None \<Rightarrow> None | Some s \<Rightarrow> mget m s) of
            None \<Rightarrow> []
          | Some from \<Rightarrow> concat (map (\<lambda>d. tab @ cellText (case d of None \<Rightarrow> None | Some i \<Rightarrow> mget from i)) pods)) @
         lineEnd))"

definition convertToString :: "string \<Rightarrow> string \<Rightarrow> string \<Rightarrow> matrix \<Rightarrow> (nat \<Rightarrow> Pod) \<Rightarrow> nat option list \<Rightarrow> string res" where
  "convertToString destinationPort ipFamily protocol m heap pods =
     bind_res (mapM_res (shortNameAt heap) pods) (\<lambda>names.
     bind_res (mapM_res (rowText m heap pods) pods) (\<lambda>rows.
       Inr (matrixTitle (length pods) ipFamily protocol destinationPort @
            concat (map (\<lambda>n. tab @ n) names) @ lineEnd @ concat rows)))"

subsection \<open>The goroutines\<close>

text \<open>A producer has not started to check its pair, is about to send its result, or is done.\<close>

datatype task = TStart "nat option" "nat option" | TSend nat nat bool | TDone

record mstate =
  ms_tasks :: "task list"
  ms_data :: "(nat \<times> nat \<times> bool) list"
  ms_closed :: bool
  ms_matrix :: matrix
  ms_collected :: bool

definition mstart :: "nat option list \<Rightarrow> mstate" where
  "mstart pods =
     \<lparr>ms_tasks = map (\<lambda>(s, d). TStart s d) (List.product pods pods), ms_data = [], ms_closed = False, ms_matrix = [],
      ms_collected = False\<rparr>"

definition checkPair :: "(nat \<Rightarrow> nat \<Rightarrow> bool res) \<Rightarrow> nat option \<Rightarrow> nat option \<Rightarrow> task" where
  "checkPair reach s d =
     (case (s, d) of
        (Some i, Some j) \<Rightarrow> (case reach i j of Inr v \<Rightarrow> TSend i j v | Inl _ \<Rightarrow> TDone)
      | _ \<Rightarrow> TDone)"

definition collect :: "matrix \<Rightarrow> nat \<times> nat \<times> bool \<Rightarrow> matrix" where
  "collect m k =
     (case k of (s, d, v) \<Rightarrow> mput m s (mput (case mget m s of None \<Rightarrow> [] | Some from \<Rightarrow> from) d v))"

inductive mstep :: "(nat \<Rightarrow> nat \<Rightarrow> bool res) \<Rightarrow> nat \<Rightarrow> mstate \<Rightarrow> mstate \<Rightarrow> bool" for reach capacity where
  check: "i < length (ms_tasks st) \<Longrightarrow> ms_tasks st ! i = TStart s d \<Longrightarrow>
     mstep reach capacity st (st\<lparr>ms_tasks := (ms_tasks st)[i := checkPair reach s d]\<rparr>)"
| send: "i < length (ms_tasks st) \<Longrightarrow> ms_tasks st ! i = TSend s d v \<Longrightarrow> \<not> ms_closed st \<Longrightarrow>
     length (ms_data st) < capacity \<Longrightarrow>
     mstep reach capacity st (st\<lparr>ms_tasks := (ms_tasks st)[i := TDone], ms_data := ms_data st @ [(s, d, v)]\<rparr>)"
| receive: "ms_data st = k # rest \<Longrightarrow> \<not> ms_collected st \<Longrightarrow>
     mstep reach capacity st (st\<lparr>ms_data := rest, ms_matrix := collect (ms_matrix st) k\<rparr>)"
| close: "\<forall>t\<in>set (ms_tasks st). t = TDone \<Longrightarrow> \<not> ms_closed st \<Longrightarrow>
     mstep reach capacity st (st\<lparr>ms_closed := True\<rparr>)"
| finish: "ms_closed st \<Longrightarrow> ms_data st = [] \<Longrightarrow> \<not> ms_collected st \<Longrightarrow>
     mstep reach capacity st (st\<lparr>ms_collected := True\<rparr>)"

definition dataCapacity :: nat where "dataCapacity = 81"

text \<open>The texts that some schedule of the goroutines can return.\<close>

definition makeConnectivityMatrix :: "(nat \<Rightarrow> nat \<Rightarrow> bool res) \<Rightarrow> string \<Rightarrow> string \<Rightarrow> string \<Rightarrow> (nat \<Rightarrow> Pod) \<Rightarrow> nat option list \<Rightarrow>
    string res \<Rightarrow> bool" where
  "makeConnectivityMatrix reach destinationPort ipFamily protocol heap pods result \<longleftrightarrow>
     (\<exists>st. (mstep reach dataCapacity)\<^sup>*\<^sup>* (mstart pods) st \<and> ms_collected st \<and>
        result = convertToString destinationPort ipFamily protocol (ms_matrix st) heap pods)"

end
