(* ===== verification/ReachMatrix.thy ===== *)
theory ReachMatrix
  imports ReachMatcher
begin

text \<open>
  The goroutines of \<open>makeConnectivityMatrix\<close>: an invariant of the reachable states, progress, termination,
  and that every schedule returns the same table.
\<close>

definition cell :: "matrix \<Rightarrow> nat \<Rightarrow> nat \<Rightarrow> bool option" where
  "cell m s d = (case mget m s of None \<Rightarrow> None | Some from \<Rightarrow> mget from d)"

definition wanted :: "(nat \<Rightarrow> nat \<Rightarrow> bool res) \<Rightarrow> nat option list \<Rightarrow> nat \<Rightarrow> nat \<Rightarrow> bool \<Rightarrow> bool" where
  "wanted reach pods s d v \<longleftrightarrow> Some s \<in> set pods \<and> Some d \<in> set pods \<and> reach s d = Inr v"

text \<open>Where the result of a pair is.\<close>

definition present :: "mstate \<Rightarrow> nat \<Rightarrow> nat \<Rightarrow> bool \<Rightarrow> bool" where
  "present st s d v \<longleftrightarrow>
     TStart (Some s) (Some d) \<in> set (ms_tasks st) \<or> TSend s d v \<in> set (ms_tasks st) \<or>
     (s, d, v) \<in> set (ms_data st) \<or> cell (ms_matrix st) s d = Some v"

definition minv :: "(nat \<Rightarrow> nat \<Rightarrow> bool res) \<Rightarrow> nat option list \<Rightarrow> mstate \<Rightarrow> bool" where
  "minv reach pods st \<longleftrightarrow>
     (ms_closed st \<longrightarrow> (\<forall>t\<in>set (ms_tasks st). t = TDone)) \<and>
     (ms_collected st \<longrightarrow> ms_closed st \<and> ms_data st = []) \<and>
     (\<forall>s d. TStart s d \<in> set (ms_tasks st) \<longrightarrow> s \<in> set pods \<and> d \<in> set pods) \<and>
     (\<forall>s d v. TSend s d v \<in> set (ms_tasks st) \<longrightarrow> wanted reach pods s d v) \<and>
     (\<forall>s d v. (s, d, v) \<in> set (ms_data st) \<longrightarrow> wanted reach pods s d v) \<and>
     (\<forall>s d v. cell (ms_matrix st) s d = Some v \<longrightarrow> wanted reach pods s d v) \<and>
     (\<forall>s from. mget (ms_matrix st) s = Some from \<longrightarrow> (\<exists>d. mget from d \<noteq> None)) \<and>
     (\<forall>s d v. wanted reach pods s d v \<longrightarrow> present st s d v)"

lemma minv_tasks:
  assumes "minv reach pods st"
  shows "TStart p q \<in> set (ms_tasks st) \<Longrightarrow> p \<in> set pods \<and> q \<in> set pods"
    and "TSend s d v \<in> set (ms_tasks st) \<Longrightarrow> wanted reach pods s d v"
  using assms by (simp_all add: minv_def)

lemma cell_collect: "cell (collect m (s, d, v)) s' d' = (if s' = s \<and> d' = d then Some v else cell m s' d')"
  by (auto simp: cell_def collect_def split: option.splits)

lemma rows_collect:
  "\<forall>s from. mget m s = Some from \<longrightarrow> (\<exists>d. mget from d \<noteq> None) \<Longrightarrow>
   mget (collect m k) s = Some from \<Longrightarrow> \<exists>d. mget from d \<noteq> None"
  by (auto simp: collect_def split: prod.splits if_splits option.splits)

lemma checkPair_send: "checkPair reach s d = TSend i j v \<longleftrightarrow> s = Some i \<and> d = Some j \<and> reach i j = Inr v"
  by (auto simp: checkPair_def split: option.splits sum.splits)

lemma checkPair_start: "checkPair reach s d \<noteq> TStart a b"
  by (auto simp: checkPair_def split: option.splits sum.splits)

lemma minv_start: "minv reach pods (mstart pods)"
  by (auto simp: minv_def mstart_def wanted_def present_def cell_def)

lemma task_update:
  "i < length ts \<Longrightarrow> t \<in> set ts \<Longrightarrow> t \<in> set (ts[i := t']) \<or> t = ts ! i"
  by (metis in_set_conv_nth length_list_update nth_list_update_neq)

lemma updated_in: "t \<in> set (ts[i := t']) \<Longrightarrow> t = t' \<or> t \<in> set ts"
  using set_update_subset_insert by fastforce

lemma present_update:
  assumes "present st a b v" and i: "i < length (ms_tasks st)"
  obtains "present (st\<lparr>ms_tasks := (ms_tasks st)[i := t']\<rparr>) a b v"
    | "ms_tasks st ! i = TStart (Some a) (Some b)" | "ms_tasks st ! i = TSend a b v"
proof -
  have "TStart (Some a) (Some b) \<in> set (ms_tasks st) \<Longrightarrow>
      TStart (Some a) (Some b) \<in> set ((ms_tasks st)[i := t']) \<or> TStart (Some a) (Some b) = ms_tasks st ! i"
    and "TSend a b v \<in> set (ms_tasks st) \<Longrightarrow>
      TSend a b v \<in> set ((ms_tasks st)[i := t']) \<or> TSend a b v = ms_tasks st ! i"
    by (rule task_update [OF i]; assumption)+
  with assms(1) that show ?thesis by (auto simp: present_def)
qed

lemma minv_check:
  assumes inv: "minv reach pods st" and i: "i < length (ms_tasks st)" "ms_tasks st ! i = TStart s d"
  shows "minv reach pods (st\<lparr>ms_tasks := (ms_tasks st)[i := checkPair reach s d]\<rparr>)"
proof -
  let ?ts = "(ms_tasks st)[i := checkPair reach s d]"
  have mem: "TStart s d \<in> set (ms_tasks st)" using i by (metis nth_mem)
  with inv have open': "\<not> ms_closed st" and sd: "s \<in> set pods" "d \<in> set pods" by (auto simp: minv_def)
  have new: "checkPair reach s d \<in> set ?ts" using i(1) by (simp add: set_update_memI)
  have "present (st\<lparr>ms_tasks := ?ts\<rparr>) a b v" if w: "wanted reach pods a b v" for a b v
  proof -
    from inv w have p: "present st a b v" by (simp add: minv_def)
    from p i(1) show ?thesis
    proof (cases rule: present_update [where t' = "checkPair reach s d"])
      case 2
      with w i(2) have "checkPair reach s d = TSend a b v" by (auto simp: checkPair_def wanted_def)
      with new show ?thesis by (simp add: present_def)
    qed (use i(2) in simp_all)
  qed
  moreover have "wanted reach pods a b v" if "TSend a b v \<in> set ?ts" for a b v
    using updated_in [OF that]
  proof
    assume "TSend a b v = checkPair reach s d"
    then have "s = Some a \<and> d = Some b \<and> reach a b = Inr v" by (metis checkPair_send)
    with sd show ?thesis by (simp add: wanted_def)
  qed (rule minv_tasks(2) [OF inv])
  moreover have "a \<in> set pods \<and> b \<in> set pods" if "TStart a b \<in> set ?ts" for a b
    using updated_in [OF that] checkPair_start [of reach s d a b] minv_tasks(1) [OF inv, of a b] by metis
  ultimately show ?thesis using inv open' by (simp add: minv_def)
qed

lemma minv_send:
  assumes inv: "minv reach pods st" and i: "i < length (ms_tasks st)" "ms_tasks st ! i = TSend s d v" and "\<not> ms_closed st"
  shows "minv reach pods (st\<lparr>ms_tasks := (ms_tasks st)[i := TDone], ms_data := ms_data st @ [(s, d, v)]\<rparr>)"
    (is "minv reach pods ?st")
proof -
  have "TSend s d v \<in> set (ms_tasks st)" using i by (metis nth_mem)
  with inv have w: "wanted reach pods s d v" by (simp add: minv_def)
  have "present ?st a b u" if "wanted reach pods a b u" for a b u
  proof -
    from inv that have p: "present st a b u" by (simp add: minv_def)
    from p i(1) show ?thesis
      by (cases rule: present_update [where t' = TDone]) (use i(2) in \<open>auto simp: present_def\<close>)
  qed
  moreover have "ms_collected st \<longrightarrow> False" using inv assms(4) by (simp add: minv_def)
  moreover have "wanted reach pods a b u" if "TSend a b u \<in> set ((ms_tasks st)[i := TDone])" for a b u
    using updated_in [OF that] minv_tasks(2) [OF inv, of a b u] by simp
  moreover have "a \<in> set pods \<and> b \<in> set pods" if "TStart a b \<in> set ((ms_tasks st)[i := TDone])" for a b
    using updated_in [OF that] minv_tasks(1) [OF inv, of a b] by simp
  ultimately show ?thesis using inv w assms(4) by (auto simp: minv_def)
qed

lemma minv_receive:
  assumes inv: "minv reach pods st" and k: "ms_data st = k # rest"
  shows "minv reach pods (st\<lparr>ms_data := rest, ms_matrix := collect (ms_matrix st) k\<rparr>)" (is "minv reach pods ?st")
proof -
  obtain s d v where sdv: "k = (s, d, v)" by (cases k) auto
  with inv k have w: "wanted reach pods s d v" by (simp add: minv_def)
  have one: "u = v" if "wanted reach pods s d u" for u using that w by (simp add: wanted_def)
  have "present ?st a b u" if wu: "wanted reach pods a b u" for a b u
  proof (cases "a = s \<and> b = d")
    case True
    with one wu show ?thesis by (simp add: present_def cell_collect sdv)
  next
    case False
    have "present st a b u" using inv wu by (simp add: minv_def)
    with False k sdv show ?thesis by (auto simp: present_def cell_collect)
  qed
  moreover have "\<forall>s from. mget (ms_matrix ?st) s = Some from \<longrightarrow> (\<exists>d. mget from d \<noteq> None)"
    using rows_collect [of "ms_matrix st" k] inv by (simp add: minv_def)
  moreover have "\<not> ms_collected st" using inv k by (auto simp: minv_def)
  moreover have "wanted reach pods a b u" if "cell (ms_matrix ?st) a b = Some u" for a b u
    using that inv w by (auto simp: cell_collect sdv minv_def split: if_splits)
  ultimately show ?thesis using inv k by (simp add: minv_def)
qed

lemma minv_step: "mstep reach capacity st st' \<Longrightarrow> minv reach pods st \<Longrightarrow> minv reach pods st'"
proof (induction rule: mstep.induct)
  case (check i st s d)
  then show ?case by (intro minv_check)
next
  case (send i st s d v)
  then show ?case by (intro minv_send)
next
  case (receive st k rest)
  then show ?case by (intro minv_receive)
next
  case (close st)
  then show ?case by (simp add: minv_def present_def)
next
  case (finish st)
  then show ?case by (simp add: minv_def present_def)
qed

lemma minv_reachable: "(mstep reach capacity)\<^sup>*\<^sup>* (mstart pods) st \<Longrightarrow> minv reach pods st"
  by (induction rule: rtranclp_induct) (auto intro: minv_start minv_step)

section \<open>Progress and termination\<close>

fun taskWork :: "task \<Rightarrow> nat" where
  "taskWork (TStart _ _) = 3"
| "taskWork (TSend _ _ _) = 2"
| "taskWork TDone = 0"

definition work :: "mstate \<Rightarrow> nat" where
  "work st = sum_list (map taskWork (ms_tasks st)) + length (ms_data st) +
     (if ms_closed st then 0 else 1) + (if ms_collected st then 0 else 1)"

lemma taskWork_check: "taskWork (checkPair reach s d) \<le> 2"
  by (auto simp: checkPair_def split: option.splits sum.splits)

lemma sum_update:
  fixes f :: "'a \<Rightarrow> nat"
  shows "i < length xs \<Longrightarrow> sum_list (map f (xs[i := y])) + f (xs ! i) = sum_list (map f xs) + f y"
proof (induction xs arbitrary: i)
  case (Cons x xs)
  then show ?case by (cases i) auto
qed simp

lemma work_decreases: "mstep reach capacity st st' \<Longrightarrow> work st' < work st"
proof (induction rule: mstep.induct)
  case (check i st s d)
  with sum_update [of i "ms_tasks st" taskWork "checkPair reach s d"] taskWork_check [of reach s d]
  show ?case by (simp add: work_def)
next
  case (send i st s d v)
  with sum_update [of i "ms_tasks st" taskWork TDone] show ?case by (simp add: work_def)
qed (auto simp: work_def)

lemma progress:
  assumes "0 < capacity" and "minv reach pods st" and "\<not> ms_collected st"
  shows "\<exists>st'. mstep reach capacity st st'"
proof (cases "ms_data st")
  case (Cons k rest)
  then show ?thesis using assms(3) mstep.receive by blast
next
  case Nil
  show ?thesis
  proof (cases "\<forall>t\<in>set (ms_tasks st). t = TDone")
    case True
    then show ?thesis using Nil assms(3) mstep.close mstep.finish by blast
  next
    case False
    then obtain i where i: "i < length (ms_tasks st)" "ms_tasks st ! i \<noteq> TDone" by (metis in_set_conv_nth)
    with False assms(2) have "\<not> ms_closed st" by (auto simp: minv_def)
    with i Nil assms(1) show ?thesis
      by (cases "ms_tasks st ! i") (auto dest: mstep.check mstep.send)
  qed
qed

lemma work_start: "work (mstart pods) = 3 * (length pods)\<^sup>2 + 2"
proof -
  have "map (taskWork \<circ> (\<lambda>(s, d). TStart s d)) ps = replicate (length ps) 3" for ps
    by (induction ps) auto
  then show ?thesis by (simp add: work_def mstart_def sum_list_replicate power2_eq_square)
qed

lemma work_bounds: "(mstep reach capacity ^^ n) st st' \<Longrightarrow> n + work st' \<le> work st"
proof (induction n arbitrary: st')
  case (Suc n)
  then obtain mid where "(mstep reach capacity ^^ n) st mid" "mstep reach capacity mid st'" by auto
  with Suc.IH [of mid] work_decreases [of reach capacity mid st'] show ?case by simp
qed simp

lemma collected_stuck: "minv reach pods st \<Longrightarrow> ms_collected st \<Longrightarrow> \<not> mstep reach capacity st st'"
  by (auto simp: minv_def elim!: mstep.cases) (metis nth_mem task.distinct)+

lemma every_state_finishes:
  assumes "0 < capacity" and "minv reach pods st"
  shows "\<exists>st'. (mstep reach capacity)\<^sup>*\<^sup>* st st' \<and> ms_collected st'"
  using assms(2)
proof (induction "work st" arbitrary: st rule: less_induct)
  case less
  show ?case
  proof (cases "ms_collected st")
    case False
    with progress [OF assms(1) less.prems] obtain mid where step: "mstep reach capacity st mid" by blast
    with less.hyps [OF work_decreases [OF step] minv_step [OF step less.prems]] show ?thesis
      by (meson converse_rtranclp_into_rtranclp)
  qed blast
qed

text \<open>C25. The goroutines of \<^verbatim>\<open>makeConnectivityMatrix\<close>, in any schedule. A run for \<open>n\<close> pods takes at most \<open>3 n\<^sup>2 + 2\<close>
  steps. It cannot deadlock: a state without a next step is one in which the collector has returned and the
  function goes on, although there can be more results than the channel has places. It cannot send on a closed channel.\<close>

theorem makeConnectivityMatrix_terminates:
  assumes "(mstep reach dataCapacity ^^ n) (mstart pods) st"
  shows "n \<le> 3 * (length pods)\<^sup>2 + 2 \<and> ((\<exists>st'. mstep reach dataCapacity st st') \<longleftrightarrow> \<not> ms_collected st) \<and>
    (ms_closed st \<longrightarrow> (\<forall>t\<in>set (ms_tasks st). t = TDone))"
proof -
  have inv: "minv reach pods st" using minv_reachable relpowp_imp_rtranclp [OF assms] .
  have "n \<le> 3 * (length pods)\<^sup>2 + 2" using work_bounds [OF assms] by (simp add: work_start)
  moreover have "(\<exists>st'. mstep reach dataCapacity st st') \<longleftrightarrow> \<not> ms_collected st"
    using collected_stuck [OF inv] progress [OF _ inv] by (auto simp: dataCapacity_def)
  moreover have "ms_closed st \<longrightarrow> (\<forall>t\<in>set (ms_tasks st). t = TDone)" using inv by (simp add: minv_def)
  ultimately show ?thesis by blast
qed

theorem makeConnectivityMatrix_terminates_witness:
  "(\<exists>st'. mstep (\<lambda>_ _. Inr True) dataCapacity (mstart [Some 0, None]) st')"
  using makeConnectivityMatrix_terminates [of 0 "\<lambda>_ _. Inr True" "[Some 0, None]" "mstart [Some 0, None]"]
  by (simp add: mstart_def)

section \<open>The table\<close>

text \<open>What the table says, without goroutines: a cell per pair, a question mark for a check that failed, and an empty row
  for a pod from which every check failed.\<close>

definition okValue :: "'a res \<Rightarrow> 'a option" where
  "okValue r = (case r of Inl _ \<Rightarrow> None | Inr v \<Rightarrow> Some v)"

definition tableRow :: "(nat \<Rightarrow> nat \<Rightarrow> bool res) \<Rightarrow> (nat \<Rightarrow> Pod) \<Rightarrow> nat list \<Rightarrow> nat \<Rightarrow> string" where
  "tableRow reach heap pods s =
     shortName (heap s) @
     (if \<exists>d\<in>set pods. is_ok (reach s d) then concat (map (\<lambda>d. tab @ cellText (okValue (reach s d))) pods) else []) @
     lineEnd"

definition connectivityTable :: "(nat \<Rightarrow> nat \<Rightarrow> bool res) \<Rightarrow> string \<Rightarrow> string \<Rightarrow> string \<Rightarrow> (nat \<Rightarrow> Pod) \<Rightarrow> nat list \<Rightarrow> string" where
  "connectivityTable reach destinationPort ipFamily protocol heap pods =
     matrixTitle (length pods) ipFamily protocol destinationPort @
     concat (map (\<lambda>d. tab @ shortName (heap d)) pods) @ lineEnd @ concat (map (tableRow reach heap pods) pods)"

lemma final_cell:
  assumes "minv reach pods st" and "ms_collected st" and "Some s \<in> set pods" and "Some d \<in> set pods"
  shows "cell (ms_matrix st) s d = okValue (reach s d)"
proof -
  have cells: "cell (ms_matrix st) s d = Some v \<longleftrightarrow> reach s d = Inr v" for v
  proof
    assume "cell (ms_matrix st) s d = Some v"
    with assms(1) show "reach s d = Inr v" by (simp add: minv_def wanted_def)
  next
    assume "reach s d = Inr v"
    with assms(3,4) have "wanted reach pods s d v" by (simp add: wanted_def)
    with assms(1) have "present st s d v" by (simp add: minv_def)
    moreover have "\<forall>t\<in>set (ms_tasks st). t = TDone" "ms_data st = []" using assms(1,2) by (simp_all add: minv_def)
    ultimately show "cell (ms_matrix st) s d = Some v" by (auto simp: present_def)
  qed
  show ?thesis
  proof (cases "reach s d")
    case (Inl e)
    have "cell (ms_matrix st) s d = None"
    proof (rule ccontr)
      assume "cell (ms_matrix st) s d \<noteq> None"
      then obtain v where "cell (ms_matrix st) s d = Some v" by auto
      with cells [of v] Inl show False by simp
    qed
    with Inl show ?thesis by (simp add: okValue_def)
  next
    case (Inr v)
    with cells [of v] show ?thesis by (simp add: okValue_def)
  qed
qed

lemma final_row:
  assumes inv: "minv reach (map Some pods) st" and "ms_collected st" and s: "s \<in> set pods"
  shows "rowText (ms_matrix st) heap (map Some pods) (Some s) = Inr (tableRow reach heap pods s)"
proof -
  have cells: "cell (ms_matrix st) s d = okValue (reach s d)" if "d \<in> set pods" for d
    using final_cell [OF inv assms(2), of s d] s that by auto
  have inside: "d \<in> set pods \<and> is_ok (reach s d)" if "cell (ms_matrix st) s d = Some v" for d v
  proof -
    from inv that have "wanted reach (map Some pods) s d v" by (simp add: minv_def)
    then show ?thesis by (auto simp: wanted_def)
  qed
  show ?thesis
  proof (cases "mget (ms_matrix st) s")
    case None
    have "\<not> is_ok (reach s d)" if "d \<in> set pods" for d
      using cells [OF that] None by (cases "reach s d") (simp_all add: cell_def okValue_def)
    then have "\<not> (\<exists>d\<in>set pods. is_ok (reach s d))" by blast
    with None show ?thesis by (simp add: rowText_def shortNameAt_def tableRow_def)
  next
    case (Some row)
    have "\<exists>d. mget row d \<noteq> None" using inv Some by (simp add: minv_def)
    then obtain d v where "mget row d = Some v" by auto
    with Some inside [of d v] have "\<exists>d\<in>set pods. is_ok (reach s d)" by (auto simp: cell_def)
    moreover have "mget row d = okValue (reach s d)" if "d \<in> set pods" for d
      using cells [OF that] Some by (simp add: cell_def)
    ultimately show ?thesis using Some
      by (simp add: rowText_def shortNameAt_def tableRow_def comp_def cong: map_cong)
  qed
qed

lemma mapM_res_all: "(\<And>x. x \<in> set xs \<Longrightarrow> f x = Inr (g x)) \<Longrightarrow> mapM_res f xs = Inr (map g xs)"
  by (induction xs) auto

lemma mapM_res_one_error:
  "x \<in> set xs \<Longrightarrow> f x = Inl e \<Longrightarrow> (\<And>y e'. f y = Inl e' \<Longrightarrow> e' = e) \<Longrightarrow> mapM_res f xs = Inl e"
proof (induction xs)
  case (Cons a xs)
  show ?case
  proof (cases "f a")
    case (Inl e')
    with Cons.prems(3) [of a e'] show ?thesis by simp
  next
    case (Inr b)
    with Cons.prems(1,2) have "x \<in> set xs" by auto
    from Cons.IH [OF this Cons.prems(2,3)] Inr show ?thesis by simp
  qed
next
  case Nil
  from Nil.prems(1) show ?case by simp
qed

lemma final_text:
  assumes "minv reach pods st" and "ms_collected st"
  shows "convertToString destinationPort ipFamily protocol (ms_matrix st) heap pods =
    (if None \<in> set pods then Inl nilPointer
     else Inr (connectivityTable reach destinationPort ipFamily protocol heap (map the pods)))"
proof (cases "None \<in> set pods")
  case True
  then have "mapM_res (shortNameAt heap) pods = Inl nilPointer"
    by (rule mapM_res_one_error) (auto simp: shortNameAt_def split: option.splits)
  with True show ?thesis by (simp add: convertToString_def)
next
  case False
  define ps where "ps = map the pods"
  have pods: "pods = map Some ps" using False by (auto simp: ps_def intro!: map_idI [symmetric]) (metis option.collapse)
  have "mapM_res (shortNameAt heap) pods = Inr (map (\<lambda>p. shortName (heap (the p))) pods)"
    by (rule mapM_res_all) (auto simp: pods shortNameAt_def)
  moreover have "mapM_res (rowText (ms_matrix st) heap pods) pods = Inr (map (\<lambda>p. tableRow reach heap ps (the p)) pods)"
    by (rule mapM_res_all) (use assms pods in \<open>auto intro!: final_row\<close>)
  ultimately show ?thesis using False
    by (simp add: convertToString_def connectivityTable_def pods comp_def flip: ps_def)
qed

text \<open>C26. \<^verbatim>\<open>makeConnectivityMatrix\<close> returns one text, whatever the schedule: the table that \<open>connectivityTable\<close> gives from the
  checks alone. A nil pod is not left out of it: the goroutines skip it, but writing its name panics.\<close>

theorem makeConnectivityMatrix_deterministic:
  "makeConnectivityMatrix reach destinationPort ipFamily protocol heap pods result \<longleftrightarrow>
     result = (if None \<in> set pods then Inl nilPointer
               else Inr (connectivityTable reach destinationPort ipFamily protocol heap (map the pods)))"
proof -
  obtain st where "(mstep reach dataCapacity)\<^sup>*\<^sup>* (mstart pods) st" "ms_collected st"
    using every_state_finishes [OF _ minv_start, of dataCapacity] by (auto simp: dataCapacity_def)
  then show ?thesis unfolding makeConnectivityMatrix_def using final_text [OF minv_reachable] by metis
qed

end
