(* ===== verification/CpuSets.thy ===== *)
theory CpuSets
  imports GoNumbers
begin

text \<open>
  CPU sets and the programs that pick CPUs: the vendored \<^verbatim>\<open>k8s.io/utils/cpuset\<close> as far as it is used,
  \<^verbatim>\<open>cnf-tests/pod-utils\<close> (\<^verbatim>\<open>pkg/node\<close> and the latency test runners) and the NUMA lookup of the test
  suites (\<^verbatim>\<open>testsuites/pkg/numa\<close>).

  A CPU set is a map with empty values in Go, a set of numbers here; \<open>List\<close> sorts it, so the order of
  the map is not seen. The runners replace their process by the test program: a run that succeeds
  is the program and the arguments it executes. Waiting and logs are not modelled.
\<close>

section \<open>CPU sets\<close>

type_synonym CPUSet = "int set"

definition cpuSize :: "CPUSet \<Rightarrow> nat" where
  "cpuSize s = card s"

definition cpuNew :: "int list \<Rightarrow> CPUSet" where
  "cpuNew cpus = set cpus"

definition cpuDifference :: "CPUSet \<Rightarrow> CPUSet \<Rightarrow> CPUSet" where
  "cpuDifference s s2 = s - s2"

definition cpuList :: "CPUSet \<Rightarrow> int list" where
  "cpuList s = sorted_list_of_set s"

text \<open>The loop over the sorted elements; \<open>(a, b)\<close> is the last range so far.\<close>

fun rangesFrom :: "int \<Rightarrow> int \<Rightarrow> int list \<Rightarrow> (int \<times> int) list" where
  "rangesFrom a b [] = [(a, b)]"
| "rangesFrom a b (e # es) = (if e = b + 1 then rangesFrom a e es else (a, b) # rangesFrom e e es)"

definition rangeText :: "int \<times> int \<Rightarrow> string" where
  "rangeText r = (case r of (a, b) \<Rightarrow> if a = b then Itoa a else Itoa a @ ''-'' @ Itoa b)"

definition trimRight :: "char \<Rightarrow> string \<Rightarrow> string" where
  "trimRight c s = rev (dropWhile (\<lambda>x. x = c) (rev s))"

definition trimBoth :: "char \<Rightarrow> string \<Rightarrow> string" where
  "trimBoth c s = trimRight c (dropWhile (\<lambda>x. x = c) s)"

definition cpuString :: "CPUSet \<Rightarrow> string" where
  "cpuString s =
     (case cpuList s of
        [] \<Rightarrow> []
      | e # es \<Rightarrow> trimRight (CHR '','') (concat (map (\<lambda>r. rangeText r @ '','') (rangesFrom e e es))))"

text \<open>\<^verbatim>\<open>strings.SplitN(r, c, 2)\<close>.\<close>

definition splitFirst :: "char \<Rightarrow> string \<Rightarrow> string \<times> string option" where
  "splitFirst c r =
     (case dropWhile (\<lambda>x. x \<noteq> c) r of
        [] \<Rightarrow> (r, None)
      | _ # rest \<Rightarrow> (takeWhile (\<lambda>x. x \<noteq> c) r, Some rest))"

definition invalidRange :: "string \<Rightarrow> int \<Rightarrow> int \<Rightarrow> go_error" where
  "invalidRange r start stop =
     Error (''invalid range '' @ [CHR 0x22] @ r @ [CHR 0x22] @ '' ('' @ Itoa start @ '' > '' @ Itoa stop @ '')'')"

text \<open>A range that ends with the largest \<^verbatim>\<open>int\<close> has no end, since the counter wraps around: the loop adds numbers until
  the memory is exhausted.\<close>

definition outOfMemory :: go_error where
  "outOfMemory = Panic ''runtime: out of memory''"

definition addRange :: "CPUSet \<Rightarrow> string \<Rightarrow> CPUSet res" where
  "addRange result r =
     (case splitFirst (CHR ''-'') r of
        (s, None) \<Rightarrow> bind_res (parseInt s) (\<lambda>e. Inr (insert e result))
      | (s, Some t) \<Rightarrow>
          bind_res (parseInt s) (\<lambda>start.
          bind_res (parseInt t) (\<lambda>stop.
            if start > stop then Inl (invalidRange r start stop)
            else if stop = 2 ^ 63 - 1 then Inl outOfMemory
            else Inr (result \<union> {start..stop}))))"

definition cpuParse :: "string \<Rightarrow> CPUSet res" where
  "cpuParse s = (if s = [] then Inr {} else fold_res addRange {} (Split s '',''))"

section \<open>Printing and parsing\<close>

lemma Itoa_nat: "0 \<le> i \<Longrightarrow> Itoa i = natStr (nat i)"
  by (simp add: Itoa_def)

lemma natStr_digits_only: "\<not> isDigit c \<Longrightarrow> c \<notin> set (natStr n)"
  using natStr_digits [of n] by (auto simp: list_all_iff)

lemma not_digits: "\<not> isDigit (CHR '','')" "\<not> isDigit (CHR ''-'')" "\<not> isDigit (CHR 0x0A)" "\<not> isDigit (CHR 0x0D)"
  "\<not> isDigit (CHR ''#'')"
  by (simp_all add: isDigit_def)

lemmas natStr_no_sign = not_digits [THEN natStr_digits_only]

lemma splitFirst_plain: "c \<notin> set s \<Longrightarrow> splitFirst c s = (s, None)"
proof -
  assume "c \<notin> set s"
  then have "dropWhile (\<lambda>x. x \<noteq> c) s = []" by (induction s) auto
  then show ?thesis unfolding splitFirst_def by (simp only: list.case)
qed

lemma splitFirst_pair: "c \<notin> set s \<Longrightarrow> splitFirst c (s @ c # t) = (s, Some t)"
  by (induction s) (auto simp: splitFirst_def split: list.splits)

lemma addRange_text:
  assumes "0 \<le> a" and "a \<le> b" and "b < 2 ^ 63 - 1"
  shows "addRange s (rangeText (a, b)) = Inr (s \<union> {a..b})"
proof -
  have a: "parseInt (natStr (nat a)) = Inr a" using parseInt_natStr [of "nat a"] assms by simp
  have b: "parseInt (natStr (nat b)) = Inr b" using parseInt_natStr [of "nat b"] assms by simp
  show ?thesis
  proof (cases "a = b")
    case True
    then show ?thesis using assms a
      by (simp add: rangeText_def Itoa_nat addRange_def splitFirst_plain natStr_no_sign)
  next
    case False
    have "splitFirst (CHR ''-'') (rangeText (a, b)) = (natStr (nat a), Some (natStr (nat b)))"
      using False assms by (simp add: rangeText_def Itoa_nat splitFirst_pair natStr_no_sign)
    with assms a b show ?thesis by (simp add: addRange_def)
  qed
qed

lemma rangesFrom_bounds:
  "0 \<le> a \<Longrightarrow> a \<le> b \<Longrightarrow> b < m \<Longrightarrow> sorted (b # es) \<Longrightarrow> \<forall>e\<in>set es. e < m \<Longrightarrow>
   (x, y) \<in> set (rangesFrom a b es) \<Longrightarrow> 0 \<le> x \<and> x \<le> y \<and> y < (m::int)"
  by (induction a b es rule: rangesFrom.induct) (auto split: if_splits)

lemma rangesFrom_set:
  "a \<le> b \<Longrightarrow> sorted (b # es) \<Longrightarrow> (\<Union>(x, y)\<in>set (rangesFrom a b es). {x..y}) = {a..b} \<union> set es"
proof (induction a b es rule: rangesFrom.induct)
  case (2 a b e es)
  show ?case
  proof (cases "e = b + 1")
    case True
    with 2 have "(\<Union>(x, y)\<in>set (rangesFrom a e es). {x..y}) = {a..e} \<union> set es" by simp
    moreover have "{a..e} = insert e {a..b}" using True 2(3) by auto
    ultimately show ?thesis using True by simp
  next
    case False
    with 2 show ?thesis by simp
  qed
qed simp

lemma rangesFrom_not_Nil [simp]: "rangesFrom a b es \<noteq> []"
  by (induction a b es rule: rangesFrom.induct) auto

lemma trimRight_join:
  assumes "xs \<noteq> []" and "\<forall>x\<in>set xs. x \<noteq> [] \<and> c \<notin> set x"
  shows "trimRight c (concat (map (\<lambda>x. x @ [c]) xs)) = Join xs [c]"
proof -
  have "concat (map (\<lambda>x. x @ [c]) xs) = Join xs [c] @ [c]"
    using assms(1) by (induction xs rule: induct_list012) auto
  moreover have "Join xs [c] \<noteq> [] \<and> last (Join xs [c]) \<noteq> c"
    using assms by (induction xs rule: induct_list012) (auto simp: last_append)
  ultimately show ?thesis
    by (cases "Join xs [c]" rule: rev_cases) (auto simp: trimRight_def)
qed

lemma fold_addRange:
  "\<forall>(x, y)\<in>set rs. 0 \<le> x \<and> x \<le> y \<and> y < 2 ^ 63 - 1 \<Longrightarrow>
   fold_res addRange s (map rangeText rs) = Inr (s \<union> (\<Union>(x, y)\<in>set rs. {x..y}))"
  by (induction rs arbitrary: s) (auto simp: addRange_text)

lemma rangeText_plain:
  assumes "0 \<le> x" and "x \<le> y"
  shows "rangeText (x, y) \<noteq> [] \<and> CHR '','' \<notin> set (rangeText (x, y))"
  using assms by (simp add: rangeText_def Itoa_nat natStr_no_sign)

lemma rangesFrom_list:
  "a \<le> b \<Longrightarrow> sorted_wrt (<) (b # es) \<Longrightarrow> concat (map (\<lambda>(x, y). [x..y]) (rangesFrom a b es)) = [a..b] @ es"
proof (induction a b es rule: rangesFrom.induct)
  case (2 a b e es)
  show ?case
  proof (cases "e = b + 1")
    case True
    with 2 have "concat (map (\<lambda>(x, y). [x..y]) (rangesFrom a e es)) = [a..e] @ es" by simp
    moreover have "[a..e] = [a..b] @ [e]" using True 2(3) by (simp add: upto_rec2)
    ultimately show ?thesis using True by simp
  next
    case False
    with 2 show ?thesis by simp
  qed
qed simp

text \<open>A set that is not empty is printed as ranges that give its list.\<close>

lemma cpuString_ranges:
  assumes "finite s" and "s \<subseteq> {0..<2 ^ 63 - 1}" and "s \<noteq> {}"
  shows "\<exists>rs. rs \<noteq> [] \<and> cpuString s = Join (map rangeText rs) '','' \<and> (\<forall>(x, y)\<in>set rs. 0 \<le> x \<and> x \<le> y \<and> y < 2 ^ 63 - 1) \<and>
    (\<forall>x\<in>set (map rangeText rs). x \<noteq> [] \<and> CHR '','' \<notin> set x) \<and> concat (map (\<lambda>(x, y). [x..y]) rs) = cpuList s"
proof -
  from assms(1,3) obtain e es where Cons: "cpuList s = e # es" by (cases "cpuList s") (auto simp: cpuList_def)
  have set: "set (e # es) = s" and sorted: "sorted_wrt (<) (e # es)"
    using assms(1) sorted_list_of_set.strict_sorted_key_list_of_set [of s]
    by (simp_all add: cpuList_def flip: Cons)
  let ?rs = "rangesFrom e e es"
  have bounds: "\<forall>(x, y)\<in>set ?rs. 0 \<le> x \<and> x \<le> y \<and> y < 2 ^ 63 - 1"
  proof (intro ballI, clarify)
    fix x y assume xy: "(x, y) \<in> set ?rs"
    have "0 \<le> e" "e < 2 ^ 63 - 1" "\<forall>e\<in>set es. e < 2 ^ 63 - 1" using set assms(2) by auto
    then show "0 \<le> x \<and> x \<le> y \<and> y < 2 ^ 63 - 1"
      using rangesFrom_bounds [OF _ _ _ _ _ xy] strict_sorted_imp_sorted [OF sorted] by blast
  qed
  have plain: "\<forall>x\<in>set (map rangeText ?rs). x \<noteq> [] \<and> CHR '','' \<notin> set x"
  proof
    fix x assume "x \<in> set (map rangeText ?rs)"
    then obtain a b where ab: "(a, b) \<in> set ?rs" "x = rangeText (a, b)" by auto
    with bounds have "0 \<le> a \<and> a \<le> b" by blast
    with rangeText_plain [of a b] ab(2) show "x \<noteq> [] \<and> CHR '','' \<notin> set x" by simp
  qed
  have "cpuString s = Join (map rangeText ?rs) '',''"
    using trimRight_join [OF _ plain] by (simp add: cpuString_def Cons comp_def)
  moreover have "concat (map (\<lambda>(x, y). [x..y]) ?rs) = cpuList s" using rangesFrom_list [OF _ sorted] by (simp add: Cons)
  ultimately show ?thesis using bounds plain by (intro exI [of _ ?rs]) simp
qed

lemma cpuParse_cpuString:
  assumes "finite s" and "s \<subseteq> {0..<2 ^ 63 - 1}"
  shows "cpuParse (cpuString s) = Inr s"
proof (cases "s = {}")
  case True
  then show ?thesis by (simp add: cpuString_def cpuParse_def cpuList_def)
next
  case False
  from cpuString_ranges [OF assms False] obtain rs where rs: "rs \<noteq> []" "cpuString s = Join (map rangeText rs) '',''"
      "\<forall>(x, y)\<in>set rs. 0 \<le> x \<and> x \<le> y \<and> y < 2 ^ 63 - 1" "\<forall>x\<in>set (map rangeText rs). x \<noteq> [] \<and> CHR '','' \<notin> set x"
      "concat (map (\<lambda>(x, y). [x..y]) rs) = cpuList s" by (elim exE conjE)
  have "Split (Join (map rangeText rs) '','') '','' = map rangeText rs"
    using Split_Join [of "map rangeText rs"] rs by simp
  moreover have "Join (map rangeText rs) '','' \<noteq> []"
    using rs(1,4) by (cases "map rangeText rs" rule: remdups_adj.cases) auto
  moreover have "(\<Union>(x, y)\<in>set rs. {x..y}) = set (concat (map (\<lambda>(x, y). [x..y]) rs))" by auto
  ultimately show ?thesis
    using fold_addRange [OF rs(3), of "{}"] assms(1) rs(2) unfolding rs(5) by (simp add: cpuParse_def cpuList_def)
qed

end
