(* ===== verification/LatencyRunners.thy ===== *)
theory LatencyRunners
  imports CpuSets
begin

text \<open>
  The runners of the latency tests (\<^verbatim>\<open>cnf-tests/pod-utils\<close>: \<^verbatim>\<open>oslat-runner\<close>, \<^verbatim>\<open>cyclictest-runner\<close>,
  \<^verbatim>\<open>hwlatdetect-runner\<close>) and the node package they use (\<^verbatim>\<open>pkg/node\<close>): which CPUs the main thread and the
  measuring threads of the test get. The files, the \<^verbatim>\<open>grep\<close> command and the system calls are the
  parameter \<open>nodeEnv\<close>.
\<close>

section \<open>The node package\<close>

text \<open>\<open>ne_allowed\<close> is the output and the error of the command that prints the allowed CPUs; \<open>ne_exec\<close> is the error of
  \<^verbatim>\<open>exec\<close>, which does not return when it succeeds.\<close>

record nodeEnv =
  ne_allowed :: "string \<times> string option"
  ne_read :: "string \<Rightarrow> string res"
  ne_uname :: "unit res"
  ne_exec :: "string \<Rightarrow> string list \<Rightarrow> string option"

definition newLine :: char where "newLine = CHR 0x0A"

definition GetSelfCPUs :: "nodeEnv \<Rightarrow> CPUSet res" where
  "GetSelfCPUs E =
     (case ne_allowed E of
        (out, Some err) \<Rightarrow> Inl (Error err)
      | (out, None) \<Rightarrow> map_error (\<lambda>e. ''failed to parse cpuset; err:'' @ e) (cpuParse (trimBoth newLine out)))"

definition PrintInformation :: "nodeEnv \<Rightarrow> unit res" where
  "PrintInformation E = bind_res (ne_read E ''/proc/cmdline'') (\<lambda>_. ne_uname E)"

definition siblingThreadFile :: "int \<Rightarrow> string" where
  "siblingThreadFile cpu = ''/sys/devices/system/cpu/cpu'' @ Itoa cpu @ ''/topology/thread_siblings_list''"

definition GetCPUSiblings :: "nodeEnv \<Rightarrow> int \<Rightarrow> int list res" where
  "GetCPUSiblings E cpu =
     bind_res (map_error (\<lambda>e. ''failed to read file '' @ [CHR 0x22] @ siblingThreadFile cpu @ [CHR 0x22] @ '': err: '' @ e)
                 (ne_read E (siblingThreadFile cpu))) (\<lambda>out.
     bind_res (map_error (\<lambda>e. ''failed to parse cpuset; err: '' @ e) (cpuParse (trimBoth newLine out))) (\<lambda>cpus.
       Inr (cpuList cpus)))"

section \<open>The runners\<close>

text \<open>\<^verbatim>\<open>klog.Fatalf\<close> ends the process with the message.\<close>

definition fatal :: "string \<Rightarrow> 'a res \<Rightarrow> 'a res" where
  "fatal msg r = (case r of Inl (Error e) \<Rightarrow> Inl (Panic (msg @ e)) | _ \<Rightarrow> r)"

definition firstCPU :: "CPUSet \<Rightarrow> int res" where
  "firstCPU s =
     (case cpuList s of
        [] \<Rightarrow> Inl (Panic ''runtime error: index out of range [0] with length 0'')
      | cpu # _ \<Rightarrow> Inr cpu)"

definition execBinary :: "nodeEnv \<Rightarrow> string \<Rightarrow> string \<Rightarrow> string list \<Rightarrow> (string \<times> string list) res" where
  "execBinary E tool binary args =
     (case ne_exec E binary args of
        None \<Rightarrow> Inr (binary, args)
      | Some err \<Rightarrow> Inl (Panic (''failed to run '' @ tool @ '' command '' @ err)))"

text \<open>The part that the first two runners share: the CPU of the main thread and the CPUs to be tested.\<close>

definition pickCPUs :: "nodeEnv \<Rightarrow> string \<Rightarrow> CPUSet \<Rightarrow> (int \<times> CPUSet) res" where
  "pickCPUs E tool selfCPUs =
     bind_res (firstCPU selfCPUs) (\<lambda>mainThreadCPUs.
     bind_res (fatal ''failed to get main thread CPU siblings: '' (GetCPUSiblings E mainThreadCPUs)) (\<lambda>siblings.
       if length siblings > 1 \<and> cpuSize selfCPUs = 2
       then Inl (Panic (''when hyper-threading enabled '' @ tool @ '' pod requires at least 4 CPUs''))
       else Inr (mainThreadCPUs, cpuDifference selfCPUs (cpuNew siblings))))"

definition oslatBinary :: string where "oslatBinary = ''/usr/bin/oslat''"
definition cyclictestBinary :: string where "cyclictestBinary = ''/usr/bin/cyclictest''"
definition hwlatdetectBinary :: string where "hwlatdetectBinary = ''/usr/bin/hwlatdetect''"

definition informed :: "nodeEnv \<Rightarrow> unit res" where
  "informed E = fatal ''failed to print node information: '' (PrintInformation E)"

definition oslatArgs :: "string \<Rightarrow> string \<Rightarrow> int \<Rightarrow> CPUSet \<Rightarrow> string list" where
  "oslatArgs rtPriority runtime mainThread cpus =
     [''oslat'', ''--duration'', runtime, ''--rtprio'', rtPriority, ''--cpu-list'', cpuString cpus,
      ''--cpu-main-thread'', cpuString (cpuNew [mainThread])]"

definition oslatMain :: "nodeEnv \<Rightarrow> string \<Rightarrow> string \<Rightarrow> (string \<times> string list) res" where
  "oslatMain E rtPriority runtime =
     bind_res (fatal ''failed to get self allowed CPUs: '' (GetSelfCPUs E)) (\<lambda>selfCPUs.
       if cpuSize selfCPUs < 2
       then Inl (Panic ''the amount of requested CPUs less than 2, the oslat requires at least 2 CPUs to run'')
       else bind_res (pickCPUs E ''oslat'' selfCPUs) (\<lambda>(mainThread, cpus).
            bind_res (informed E) (\<lambda>_.
              execBinary E ''oslat'' oslatBinary (oslatArgs rtPriority runtime mainThread cpus))))"

record cyclictestFlags =
  cf_rtPriority :: string
  cf_duration :: string
  cf_histogram :: string
  cf_interval :: int

definition cyclictestArgs :: "cyclictestFlags \<Rightarrow> int \<Rightarrow> CPUSet \<Rightarrow> string list" where
  "cyclictestArgs f mainThread cpus =
     [''cyclictest'', ''--duration'', cf_duration f, ''--priority'', cf_rtPriority f,
      ''--threads'', Itoa (int (cpuSize cpus)), ''--affinity'', cpuString cpus, ''--histogram'', cf_histogram f,
      ''--interval'', Itoa (cf_interval f), ''--mlockall'', ''--mainaffinity'', cpuString (cpuNew [mainThread]), ''--quiet'']"

definition cyclictestMain :: "nodeEnv \<Rightarrow> cyclictestFlags \<Rightarrow> (string \<times> string list) res" where
  "cyclictestMain E f =
     bind_res (fatal ''failed to get self allowed CPUs: '' (GetSelfCPUs E)) (\<lambda>selfCPUs.
     bind_res (pickCPUs E ''cyclictest'' selfCPUs) (\<lambda>(mainThread, cpus).
     bind_res (informed E) (\<lambda>_.
       execBinary E ''cyclictest'' cyclictestBinary (cyclictestArgs f mainThread cpus))))"

text \<open>Durations are numbers of nanoseconds; \<^verbatim>\<open>Microseconds\<close> rounds to zero.\<close>

record hwlatdetectFlags =
  hf_threshold :: int
  hf_hardlimit :: int
  hf_duration :: string
  hf_window :: int
  hf_width :: int

definition Microseconds :: "int \<Rightarrow> int" where
  "Microseconds d = (if d < 0 then - ((- d) div 1000) else d div 1000)"

definition hwlatdetectMain :: "nodeEnv \<Rightarrow> hwlatdetectFlags \<Rightarrow> (string \<times> string list) res" where
  "hwlatdetectMain E f =
     bind_res (informed E) (\<lambda>_.
       execBinary E ''hwlatdetect'' hwlatdetectBinary
         [''hwlatdetect'', ''--threshold'', Itoa (hf_threshold f), ''--hardlimit'', Itoa (hf_hardlimit f),
          ''--duration'', hf_duration f, ''--window'', Itoa (Microseconds (hf_window f)) @ ''us'',
          ''--width'', Itoa (Microseconds (hf_width f)) @ ''us''])"

section \<open>Isolation\<close>

lemma fatal_Inr [res_simps]: "fatal msg r = Inr x \<longleftrightarrow> r = Inr x"
  by (auto simp: fatal_def split: sum.splits go_error.splits)

lemma parseInt_nonneg: "CHR ''-'' \<notin> set s \<Longrightarrow> parseInt s = Inr i \<Longrightarrow> 0 \<le> i"
  by (cases s) (auto simp: parseInt_def Atoi_def splitSign_def Let_def split: option.splits if_splits)

lemma splitFirst_head: "splitFirst c r = (s, t) \<Longrightarrow> c \<notin> set s"
  by (induction r arbitrary: s t) (auto simp: splitFirst_def split: list.splits if_splits)

lemma addRange_nonneg:
  assumes "addRange cpus r = Inr cpus'" and "finite cpus \<and> (\<forall>c\<in>cpus. 0 \<le> c)"
  shows "finite cpus' \<and> (\<forall>c\<in>cpus'. 0 \<le> c)"
  using assms by (auto simp: addRange_def bind_res_Inr_iff dest!: parseInt_nonneg [OF splitFirst_head]
      split: prod.splits option.splits if_splits)

lemma cpuParse_wf:
  assumes "cpuParse s = Inr cpus"
  shows "finite cpus \<and> (\<forall>c\<in>cpus. 0 \<le> c)"
proof (cases "s = []")
  case False
  with assms have "fold_res addRange {} (Split s '','') = Inr cpus" by (simp add: cpuParse_def)
  then show ?thesis
    by (rule fold_res_invariant [where P = "\<lambda>cpus. finite cpus \<and> (\<forall>c\<in>cpus. 0 \<le> c)"]) (auto dest: addRange_nonneg)
qed (use assms in \<open>simp add: cpuParse_def\<close>)

lemma GetSelfCPUs_wf: "GetSelfCPUs E = Inr cpus \<Longrightarrow> finite cpus \<and> (\<forall>c\<in>cpus. 0 \<le> c)"
  by (auto simp: GetSelfCPUs_def map_error_Inr_iff dest: cpuParse_wf split: prod.splits option.splits)

lemma firstCPU_Min: "finite s \<Longrightarrow> firstCPU s = Inr m \<longleftrightarrow> s \<noteq> {} \<and> m = Min s"
  by (cases "s = {}") (auto simp: firstCPU_def cpuList_def sorted_list_of_set_nonempty)

lemma pickCPUs_spec:
  assumes "pickCPUs E tool self = Inr (m, cpus)" and "finite self"
    and "GetCPUSiblings E (Min self) = Inr siblings" and "Min self \<in> set siblings"
  shows "m = Min self \<and> cpus = self - set siblings \<and> m \<in> self \<and> (cpus = {} \<longrightarrow> card self = 1 \<or> 2 < card self)"
proof -
  from assms have m: "self \<noteq> {}" "m = Min self" and cpus: "cpus = self - set siblings"
    and smt: "\<not> (length siblings > 1 \<and> cpuSize self = 2)"
    by (auto simp: pickCPUs_def bind_res_Inr_iff firstCPU_Min fatal_Inr cpuDifference_def cpuNew_def split: if_splits)
  have "card self = 1 \<or> 2 < card self" if "cpus = {}"
  proof -
    from that cpus have "self \<subseteq> set siblings" by blast
    then have "card self \<le> length siblings" by (meson List.finite_set card_length card_mono le_trans)
    moreover have "card self \<noteq> 0" using m(1) assms(2) by simp
    ultimately show ?thesis using smt by (auto simp: cpuSize_def)
  qed
  with m cpus assms(2) show ?thesis by simp
qed

lemma cpuString_parses:
  assumes "finite self" and "\<forall>c\<in>self. 0 \<le> c \<and> c < 2 ^ 63 - 1" and "cpus \<subseteq> self"
  shows "cpuParse (cpuString cpus) = Inr cpus"
proof (rule cpuParse_cpuString)
  show "finite cpus" using assms(1,3) by (rule finite_subset [rotated])
  show "cpus \<subseteq> {0..<2 ^ 63 - 1}" using assms(2,3) by auto
qed

text \<open>C31. The \<^verbatim>\<open>oslat\<close> runner keeps the measured CPUs apart from the main thread. When it starts the test, the main thread is
  on the lowest CPU of the pod, and the tested CPUs, read back from the argument, are all other CPUs of the pod but the
  hyper-threads of that CPU. The list is empty only if the pod has more than two CPUs and all are hyper-threads of one core.\<close>

theorem oslatMain_isolates:
  assumes "oslatMain E rtPriority runtime = Inr (binary, args)" and "GetSelfCPUs E = Inr self"
    and "\<forall>c\<in>self. c < 2 ^ 63 - 1" and "GetCPUSiblings E (Min self) = Inr siblings" and "Min self \<in> set siblings"
  shows "\<exists>cpuArg mainArg tested.
    args = [''oslat'', ''--duration'', runtime, ''--rtprio'', rtPriority, ''--cpu-list'', cpuArg, ''--cpu-main-thread'', mainArg] \<and>
    cpuParse mainArg = Inr {Min self} \<and> Min self \<in> self \<and>
    cpuParse cpuArg = Inr tested \<and> tested = self - set siblings \<and>
    (tested = {} \<longrightarrow> 2 < card self \<and> self \<subseteq> set siblings)"
proof -
  have wf: "finite self" "\<forall>c\<in>self. 0 \<le> c \<and> c < 2 ^ 63 - 1" using GetSelfCPUs_wf [OF assms(2)] assms(3) by auto
  from assms(1,2) obtain m cpus where pick: "pickCPUs E ''oslat'' self = Inr (m, cpus)" and two: "\<not> cpuSize self < 2"
    and args: "args = oslatArgs rtPriority runtime m cpus"
    by (auto simp: oslatMain_def bind_res_Inr_iff fatal_Inr execBinary_def split: if_splits option.splits)
  from pickCPUs_spec [OF pick wf(1) assms(4,5)]
  have m: "m = Min self" "m \<in> self" and cpus: "cpus = self - set siblings" "cpus = {} \<Longrightarrow> 2 < card self"
    using two by (auto simp: cpuSize_def)
  have "cpuParse (cpuString cpus) = Inr cpus" "cpuParse (cpuString {m}) = Inr {m}"
    using cpus(1) m by (auto intro!: cpuString_parses [OF wf])
  with args m cpus show ?thesis by (auto simp: oslatArgs_def cpuNew_def)
qed

text \<open>A pod with four CPUs on two cores.\<close>

definition runnerEnv :: nodeEnv where
  "runnerEnv =
     \<lparr>ne_allowed = (''0-3'' @ [newLine], None),
      ne_read = (\<lambda>f. Inr (if f = siblingThreadFile 0 then ''0,2'' @ [newLine] else ''quiet'')),
      ne_uname = Inr (), ne_exec = (\<lambda>_ _. None)\<rparr>"

lemma small_parse: "cpuParse ''0-3'' = Inr {0, 1, 2, 3}" "cpuParse ''0,2'' = Inr {0, 2}"
proof -
  have "cpuString {0, 1, 2, 3} = ''0-3''" "cpuString {0, 2} = ''0,2''" by code_simp+
  then show "cpuParse ''0-3'' = Inr {0, 1, 2, 3}" "cpuParse ''0,2'' = Inr {0, 2}"
    using cpuParse_cpuString [of "{0, 1, 2, 3}"] cpuParse_cpuString [of "{0, 2}"] by simp_all
qed

lemma runnerEnv_cpus: "GetSelfCPUs runnerEnv = Inr {0, 1, 2, 3}" "GetCPUSiblings runnerEnv 0 = Inr [0, 2]"
  using small_parse
  by (simp_all add: GetSelfCPUs_def GetCPUSiblings_def runnerEnv_def trimBoth_def trimRight_def newLine_def map_error_def cpuList_def)

lemma runnerEnv_oslat:
  "oslatMain runnerEnv ''1'' ''10m'' = Inr (oslatBinary, oslatArgs ''1'' ''10m'' 0 {1, 3})"
proof -
  have "cpuDifference {0, 1, 2, 3} (cpuNew [0, 2]) = {1, 3}" by (auto simp: cpuDifference_def cpuNew_def)
  moreover have "firstCPU {0, 1, 2, 3} = Inr 0" by code_simp
  moreover have "siblingThreadFile 0 \<noteq> ''/proc/cmdline''" by (simp add: siblingThreadFile_def)
  ultimately show ?thesis using runnerEnv_cpus
    by (simp add: oslatMain_def pickCPUs_def fatal_def cpuSize_def informed_def PrintInformation_def execBinary_def runnerEnv_def)
qed

theorem oslatMain_isolates_witness:
  "cpuParse ''0'' = Inr {0} \<and> cpuParse ''1,3'' = Inr {1, 3}"
proof -
  have m: "Min {0, 1, 2, 3 :: int} = 0" by simp
  have t: "cpuString (cpuNew [0]) = ''0''" "cpuString {1, 3} = ''1,3''" by code_simp+
  show ?thesis
    using oslatMain_isolates [OF runnerEnv_oslat runnerEnv_cpus(1), unfolded m, OF _ runnerEnv_cpus(2)]
    by (auto simp: oslatArgs_def t)
qed

text \<open>The \<^verbatim>\<open>cyclictest\<close> runner starts one thread per tested CPU, on the CPUs that its affinity argument names. It has no check for
  the number of CPUs: on a pod with one CPU it asks for no thread at all.\<close>

theorem cyclictestMain_threads:
  assumes "cyclictestMain E f = Inr (binary, args)" and "GetSelfCPUs E = Inr self"
    and "\<forall>c\<in>self. c < 2 ^ 63 - 1" and "GetCPUSiblings E (Min self) = Inr siblings" and "Min self \<in> set siblings"
  shows "\<exists>tested. tested = self - set siblings \<and> args ! 6 = natStr (card tested) \<and> cpuParse (args ! 8) = Inr tested \<and>
    cpuParse (args ! 15) = Inr {Min self} \<and> (card self = 1 \<longrightarrow> args ! 6 = ''0'')"
proof -
  have wf: "finite self" "\<forall>c\<in>self. 0 \<le> c \<and> c < 2 ^ 63 - 1" using GetSelfCPUs_wf [OF assms(2)] assms(3) by auto
  from assms(1,2) obtain m cpus where pick: "pickCPUs E ''cyclictest'' self = Inr (m, cpus)"
    and args: "args = cyclictestArgs f m cpus"
    by (auto simp: cyclictestMain_def bind_res_Inr_iff fatal_Inr execBinary_def split: option.splits)
  from pickCPUs_spec [OF pick wf(1) assms(4,5)] have m: "m = Min self" "m \<in> self" and cpus: "cpus = self - set siblings" by auto
  have "cpuParse (cpuString cpus) = Inr cpus" "cpuParse (cpuString {m}) = Inr {m}"
    using cpus m by (auto intro!: cpuString_parses [OF wf])
  moreover have "natStr (card cpus) = ''0''" if "card self = 1"
  proof -
    from that obtain c where "self = {c}" by (auto simp: card_1_singleton_iff)
    with cpus assms(5) have "card cpus = 0" by simp
    moreover have "natStr 0 = ''0''" by code_simp
    ultimately show ?thesis by simp
  qed
  ultimately show ?thesis using args m cpus by (auto simp: cyclictestArgs_def cpuNew_def cpuSize_def Itoa_def)
qed

end
