(* ===== verification/NumaLookup.thy ===== *)
theory NumaLookup
  imports ReachMatcher CpuSets
begin

text \<open>
  The NUMA node of a list of CPUs (\<^verbatim>\<open>cnf-tests/testsuites/pkg/numa/numa.go\<close>), read from the output of
  \<^verbatim>\<open>lscpu --parse=cpu,node\<close>.
\<close>

definition CRLF :: string where "CRLF = [CHR 0x0D, CHR 0x0A]"
definition LF :: string where "LF = [CHR 0x0A]"

definition convertFailed :: "string \<Rightarrow> string \<Rightarrow> go_error" where
  "convertFailed out line = Error (''can't convert NUMA node from line: '' @ line @ ''. lscpu output: '' @ out)"

definition badLine :: "string \<Rightarrow> go_error" where
  "badLine line = Error (''bad line output for lscpu: '' @ line)"

definition differentNodes :: go_error where
  "differentNodes = Error ''not all the cpus are in the same numa node''"

definition noNode :: "string \<Rightarrow> string list \<Rightarrow> go_error" where
  "noNode out cpus =
     Error (''no NUMA node found for the given CPUs: ['' @ Join cpus '' '' @ '']. lscpu output: '' @ out)"

text \<open>One turn of the loop; \<open>found\<close> is \<open>- 1\<close> until a CPU of the list is met.\<close>

definition numaLine :: "string \<Rightarrow> string list \<Rightarrow> int \<Rightarrow> string \<Rightarrow> int res" where
  "numaLine out cpus found line =
     (if HasPrefix line ''#'' then Inr found
      else if \<not> Contains line '','' then Inr found
      else case Split line '','' of
        [cpu, node] \<Rightarrow>
          (case Atoi node of
             None \<Rightarrow> Inl (convertFailed out line)
           | Some numa \<Rightarrow>
               if cpu \<in> set cpus
               then if found \<noteq> - 1 \<and> found \<noteq> numa then Inl differentNodes else Inr numa
               else Inr found)
      | _ \<Rightarrow> Inl (badLine line))"

definition findForCPUsParseOutput :: "string \<Rightarrow> string list \<Rightarrow> int res" where
  "findForCPUsParseOutput lscpuOutput cpus =
     (let out = ReplaceAll lscpuOutput CRLF LF in
      bind_res (fold_res (numaLine out cpus) (- 1) (Split out LF)) (\<lambda>found.
        if found = - 1 then Inl (noNode out cpus) else Inr found))"

definition ExecCommand :: "'w reachEnv \<Rightarrow> 'w \<Rightarrow> Pod \<Rightarrow> string list \<Rightarrow> 'w \<times> string \<times> string option" where
  "ExecCommand E w pod command =
     (case pod_Containers pod of
        [] \<Rightarrow> (w, [], Some (''pod ['' @ pod_Name pod @ ''] has no containers''))
      | c # _ \<Rightarrow> re_exec E w pod (con_Name c) command)"

definition FindForCPUs :: "'w reachEnv \<Rightarrow> 'w \<Rightarrow> Pod \<Rightarrow> string list \<Rightarrow> 'w \<times> int res" where
  "FindForCPUs E w pod cpus =
     (case ExecCommand E w pod [''lscpu'', ''--parse=cpu,node''] of
        (w', buff, Some err) \<Rightarrow>
          (w', Inl (Error (''cannot issue lscpu on pod '' @ pod_Namespace pod @ ''/'' @ pod_Name pod @ '': '' @ err)))
      | (w', buff, None) \<Rightarrow> (w', findForCPUsParseOutput buff cpus))"

section \<open>Reading a table\<close>

text \<open>The output for a table of CPUs and nodes, after some comment lines.\<close>

definition cpuLine :: "nat \<times> nat \<Rightarrow> string" where
  "cpuLine r = natStr (fst r) @ CHR '','' # natStr (snd r)"

definition lscpuLines :: "string list \<Rightarrow> (nat \<times> nat) list \<Rightarrow> string list" where
  "lscpuLines comments table = map (\<lambda>c. CHR ''#'' # c) comments @ map cpuLine table"

definition lscpuText :: "string \<Rightarrow> string list \<Rightarrow> (nat \<times> nat) list \<Rightarrow> string" where
  "lscpuText eol comments table = concat (map (\<lambda>l. l @ eol) (lscpuLines comments table))"

definition nodesOf :: "(nat \<times> nat) list \<Rightarrow> string list \<Rightarrow> nat set" where
  "nodesOf table cpus = {n. \<exists>c. (c, n) \<in> set table \<and> natStr c \<in> set cpus}"

lemma ReplaceAll_line:
  "CHR 0x0D \<notin> set l \<Longrightarrow> ReplaceAll (l @ CRLF @ t) CRLF LF = l @ LF @ ReplaceAll t CRLF LF"
  "CHR 0x0D \<notin> set l \<Longrightarrow> ReplaceAll (l @ LF @ t) CRLF LF = l @ LF @ ReplaceAll t CRLF LF"
  by (induction l) (auto simp: CRLF_def LF_def)

lemma ReplaceAll_lines:
  "eol = CRLF \<or> eol = LF \<Longrightarrow> \<forall>l\<in>set ls. CHR 0x0D \<notin> set l \<Longrightarrow>
   ReplaceAll (concat (map (\<lambda>l. l @ eol) ls)) CRLF LF = concat (map (\<lambda>l. l @ LF) ls)"
  by (induction ls) (auto simp: ReplaceAll_line)

lemma Split_lines:
  "\<forall>l\<in>set ls. c \<notin> set l \<Longrightarrow> Split (concat (map (\<lambda>l. l @ [c]) ls)) [c] = ls @ [[]]"
  by (induction ls) (simp_all add: Split_def splitFrom_append)

lemma cpuLine_plain: "CHR 0x0A \<notin> set (cpuLine r)" "CHR 0x0D \<notin> set (cpuLine r)"
  by (simp_all add: cpuLine_def natStr_no_sign)

lemma numaLine_cpu:
  assumes "snd r < 2 ^ 63"
  shows "numaLine out cpus found (cpuLine r) =
    (if natStr (fst r) \<in> set cpus
     then if found \<noteq> - 1 \<and> found \<noteq> int (snd r) then Inl differentNodes else Inr (int (snd r))
     else Inr found)"
proof -
  have "Split (cpuLine r) '','' = [natStr (fst r), natStr (snd r)]"
    by (simp add: Split_def cpuLine_def splitFrom_append Split_no_sep natStr_no_sign)
  moreover have "\<not> HasPrefix (cpuLine r) ''#''"
    using natStr_no_sign(5) [of "fst r"] by (cases "natStr (fst r)") (auto simp: cpuLine_def)
  moreover have "Contains (cpuLine r) '',''" unfolding Contains_iff cpuLine_def by (metis append_Cons append_Nil)
  ultimately show ?thesis using assms by (simp add: numaLine_def Atoi_natStr)
qed

fun foundCode :: "nat option \<Rightarrow> int" where
  "foundCode None = - 1"
| "foundCode (Some n) = int n"

lemma numaLine_found:
  "snd r < 2 ^ 63 \<Longrightarrow> numaLine out cpus (foundCode f) (cpuLine r) =
     (if natStr (fst r) \<in> set cpus
      then if f = None \<or> f = Some (snd r) then Inr (foundCode (Some (snd r))) else Inl differentNodes
      else Inr (foundCode f))"
  by (cases f) (simp_all add: numaLine_cpu)

lemma nodesOf_Cons:
  "nodesOf (r # table) cpus = (if natStr (fst r) \<in> set cpus then insert (snd r) (nodesOf table cpus) else nodesOf table cpus)"
  by (cases r) (auto simp: nodesOf_def dest: natStr_inj)

lemma fold_numaLine:
  "\<forall>r\<in>set table. snd r < 2 ^ 63 \<Longrightarrow>
   fold_res (numaLine out cpus) (foundCode f) (map cpuLine table) = Inr found \<longleftrightarrow>
     (\<exists>g. found = foundCode g \<and> set_option g = set_option f \<union> nodesOf table cpus)"
proof (induction table arbitrary: f)
  case Nil
  have "set_option g = set_option f \<longleftrightarrow> g = f" for g by (cases g; cases f) auto
  then show ?case by (auto simp: nodesOf_def)
next
  case (Cons r table)
  show ?case
  proof (cases "natStr (fst r) \<in> set cpus")
    case True
    show ?thesis
    proof (cases "f = None \<or> f = Some (snd r)")
      case f: True
      then have "set_option f \<union> nodesOf (r # table) cpus = set_option (Some (snd r)) \<union> nodesOf table cpus"
        using True by (auto simp: nodesOf_Cons)
      with Cons True f show ?thesis by (simp add: numaLine_found del: foundCode.simps)
    next
      case False
      then obtain m where "f = Some m" "m \<noteq> snd r" by auto
      then have "set_option g \<noteq> set_option f \<union> nodesOf (r # table) cpus" for g
        using True by (cases g) (auto simp: nodesOf_Cons)
      with Cons.prems True False show ?thesis by (auto simp: numaLine_found simp del: foundCode.simps)
    qed
  next
    case False
    with Cons show ?thesis by (simp add: numaLine_found nodesOf_Cons del: foundCode.simps)
  qed
qed

lemma fold_comments: "fold_res (numaLine out cpus) found (map (\<lambda>c. CHR ''#'' # c) comments @ ls) = fold_res (numaLine out cpus) found ls"
  by (induction comments) (simp_all add: numaLine_def)

lemma fold_last_empty: "fold_res (numaLine out cpus) found (ls @ [[]]) = fold_res (numaLine out cpus) found ls"
  by (simp add: fold_res_append numaLine_def bind_res_def split: sum.splits)

text \<open>Reading a table that \<^verbatim>\<open>lscpu\<close> printed, with either line end and any comments, \<^verbatim>\<open>findForCPUsParseOutput\<close> returns a node
  exactly if the CPUs of the list that the table has are all in that node and there is at least one of them. CPUs that the table
  does not have are not noticed.\<close>

theorem findForCPUsParseOutput_exact:
  assumes "eol = CRLF \<or> eol = LF" and "\<forall>r\<in>set table. snd r < 2 ^ 63"
    and "\<forall>c\<in>set comments. CHR 0x0A \<notin> set c \<and> CHR 0x0D \<notin> set c"
  shows "findForCPUsParseOutput (lscpuText eol comments table) cpus = Inr node \<longleftrightarrow>
    (\<exists>n. node = int n \<and> nodesOf table cpus = {n})"
proof -
  let ?ls = "lscpuLines comments table"
  have plain: "\<forall>l\<in>set ?ls. CHR 0x0D \<notin> set l" "\<forall>l\<in>set ?ls. CHR 0x0A \<notin> set l"
    using assms(3) cpuLine_plain by (auto simp: lscpuLines_def)
  have out: "ReplaceAll (lscpuText eol comments table) CRLF LF = concat (map (\<lambda>l. l @ LF) ?ls)" (is "_ = ?out")
    unfolding lscpuText_def using ReplaceAll_lines [OF assms(1) plain(1)] .
  have "Split ?out LF = ?ls @ [[]]" using Split_lines [OF plain(2)] by (simp add: LF_def)
  then have "fold_res (numaLine ?out cpus) (- 1) (Split ?out LF) = fold_res (numaLine ?out cpus) (foundCode None) (map cpuLine table)"
    by (simp add: fold_last_empty lscpuLines_def fold_comments)
  then have fold: "fold_res (numaLine ?out cpus) (- 1) (Split ?out LF) = Inr found \<longleftrightarrow>
      (\<exists>g. found = foundCode g \<and> set_option g = nodesOf table cpus)" for found
    by (simp add: fold_numaLine [OF assms(2)] del: foundCode.simps)
  have "findForCPUsParseOutput (lscpuText eol comments table) cpus = Inr node \<longleftrightarrow>
      fold_res (numaLine ?out cpus) (- 1) (Split ?out LF) = Inr node \<and> node \<noteq> - 1"
    by (auto simp: findForCPUsParseOutput_def out Let_def bind_res_Inr_iff split: if_splits)
  also have "\<dots> \<longleftrightarrow> (\<exists>n. node = int n \<and> nodesOf table cpus = {n})"
    unfolding fold
  proof safe
    fix g assume "set_option g = nodesOf table cpus" "foundCode g \<noteq> - 1"
    then show "\<exists>n. foundCode g = int n \<and> nodesOf table cpus = {n}" by (cases g) auto
  next
    fix n assume "nodesOf table cpus = {n}"
    then show "\<exists>g. int n = foundCode g \<and> set_option g = nodesOf table cpus" by (intro exI [of _ "Some n"]) simp
  qed simp
  finally show ?thesis .
qed

theorem findForCPUsParseOutput_exact_witness:
  "findForCPUsParseOutput (lscpuText CRLF ['' CPU,Node''] [(0, 0), (1, 1), (2, 0)]) [''0'', ''2'', ''9''] = Inr 0"
proof -
  have "natStr 0 = ''0''" "natStr 1 = ''1''" "natStr 2 = ''2''" by code_simp+
  then have "nodesOf [(0, 0), (1, 1), (2, 0)] [''0'', ''2'', ''9''] = {0}" by (auto simp: nodesOf_def)
  then show ?thesis
    using findForCPUsParseOutput_exact [of CRLF "[(0, 0), (1, 1), (2, 0)]" "['' CPU,Node'']" "[''0'', ''2'', ''9'']" 0] by simp
qed

end
