(* ===== verification/ClusterNodes.thy ===== *)
theory ClusterNodes
  imports NumaLookup
begin

text \<open>
  The nodes of the cluster under test (\<^verbatim>\<open>cnf-tests/testsuites/pkg/nodes/nodes.go\<close>): selecting nodes, reading and
  changing their labels, running commands on them.

  The API server is the parameter \<open>clusterApi\<close>, a record of the calls that the package makes; a call that changes
  the cluster or runs a command returns the new state. Label and field selectors are passed on as texts.
\<close>

section \<open>The interface to the cluster\<close>

text \<open>A quantity is what \<^verbatim>\<open>AsInt64\<close> and \<^verbatim>\<open>IsZero\<close> say of it.\<close>

record Quantity =
  qt_int64 :: "int option"
  qt_IsZero :: bool

record Node =
  nd_Name :: string
  nd_Labels :: "(string, string) gomap option"
  nd_Allocatable :: "(string, Quantity) gomap"

record NodePtpDevice =
  ptp_Name :: string
  ptp_Devices :: "string list"

text \<open>An error of a remote command has the exit status if it is an \<^verbatim>\<open>ExitError\<close>. A patch sets a label, or removes it.\<close>

type_synonym execError = "int option \<times> string"
type_synonym labelPatch = "string \<times> string option"

record 'w clusterApi =
  ca_nodes :: "'w \<Rightarrow> string \<Rightarrow> Node list res"
  ca_pods :: "'w \<Rightarrow> string \<Rightarrow> string \<Rightarrow> string \<Rightarrow> Pod list res"
  ca_getNode :: "'w \<Rightarrow> string \<Rightarrow> Node res"
  ca_updateNode :: "'w \<Rightarrow> Node \<Rightarrow> 'w \<times> Node res"
  ca_patchNode :: "'w \<Rightarrow> string \<Rightarrow> labelPatch \<Rightarrow> 'w \<times> unit res"
  ca_exec :: "'w \<Rightarrow> Pod \<Rightarrow> string \<Rightarrow> string list \<Rightarrow> 'w \<times> string \<times> execError option"
  ca_ptpDevices :: "'w \<Rightarrow> NodePtpDevice list res"

section \<open>Finding nodes and daemons\<close>

definition LabelRole :: string where "LabelRole = ''node-role.kubernetes.io''"
definition ResourceSRIOV :: string where "ResourceSRIOV = ''openshift.io/sriovnic''"
definition NamespaceMachineConfigOperator :: string where
  "NamespaceMachineConfigOperator = ''openshift-machine-config-operator''"
definition NamespaceOvn :: string where "NamespaceOvn = ''openshift-ovn-kubernetes''"
definition ContainerMachineConfigDaemon :: string where "ContainerMachineConfigDaemon = ''machine-config-daemon''"
definition ContainerSriovConfigDaemon :: string where "ContainerSriovConfigDaemon = ''sriov-network-config-daemon''"
definition FilePathKubeletConfig :: string where "FilePathKubeletConfig = ''/etc/kubernetes/kubelet.conf''"

definition GetByRole :: "'w clusterApi \<Rightarrow> 'w \<Rightarrow> string \<Rightarrow> Node list res" where
  "GetByRole C w role = ca_nodes C w (LabelRole @ ''/'' @ role @ ''='')"

text \<open>The resource argument of the function is not used.\<close>

definition FilterByResource :: "Node list \<Rightarrow> string \<Rightarrow> Node list" where
  "FilterByResource nodes resource =
     concat (map (\<lambda>node. map (\<lambda>_. node) (filter (\<lambda>(name, quantity). name = ResourceSRIOV \<and> \<not> qt_IsZero quantity)
       (nd_Allocatable node))) nodes)"

definition dquoted :: "string \<Rightarrow> string" where
  "dquoted s = CHR 0x22 # s @ [CHR 0x22]"

definition daemonMissing :: "string \<Rightarrow> string \<Rightarrow> string \<Rightarrow> go_error" where
  "daemonMissing what labelSelector fieldSelector =
     Error (''failed to find '' @ what @ '' with label selector '' @ dquoted labelSelector @ '' and field selector '' @ dquoted fieldSelector)"

definition onNode :: "Node \<Rightarrow> string" where
  "onNode node = ''spec.nodeName='' @ nd_Name node"

definition GetMachineConfigDaemonByNode :: "'w clusterApi \<Rightarrow> 'w \<Rightarrow> Node \<Rightarrow> Pod res" where
  "GetMachineConfigDaemonByNode C w node =
     bind_res (ca_pods C w NamespaceMachineConfigOperator ''k8s-app=machine-config-daemon'' (onNode node)) (\<lambda>mcds.
       case mcds of
         [] \<Rightarrow> Inl (daemonMissing ''machine-config-daemon'' ''k8s-app=machine-config-daemon'' (onNode node))
       | p # _ \<Rightarrow> Inr p)"

definition GetSriovConfigDaemonByNode :: "'w clusterApi \<Rightarrow> 'w \<Rightarrow> string \<Rightarrow> Node \<Rightarrow> Pod res" where
  "GetSriovConfigDaemonByNode C w SRIOVOperator node =
     bind_res (ca_pods C w SRIOVOperator ''app=sriov-network-config-daemon'' (onNode node)) (\<lambda>srds.
       case srds of
         [] \<Rightarrow> Inl (daemonMissing ''sriov-config-daemon'' ''app=sriov-network-config-daemon'' (onNode node))
       | p # _ \<Rightarrow> Inr p)"

definition GetOvnkubePodByNode :: "'w clusterApi \<Rightarrow> 'w \<Rightarrow> Node \<Rightarrow> Pod res" where
  "GetOvnkubePodByNode C w node =
     bind_res (ca_pods C w NamespaceOvn ''app=ovnkube-node'' (onNode node)) (\<lambda>pods.
       case pods of
         [p] \<Rightarrow> Inr p
       | _ \<Rightarrow> Inl (daemonMissing ''ovnkube-node pod'' ''app=ovnkube-node'' (onNode node)))"

definition execOn :: "'w clusterApi \<Rightarrow> 'w \<Rightarrow> Pod res \<Rightarrow> string \<Rightarrow> string list \<Rightarrow> 'w \<times> string \<times> execError option" where
  "execOn C w daemon container command =
     (case daemon of
        Inl e \<Rightarrow> (w, [], Some (None, errorText e))
      | Inr p \<Rightarrow> ca_exec C w p container command)"

definition ExecCommandOnMachineConfigDaemon :: "'w clusterApi \<Rightarrow> 'w \<Rightarrow> Node \<Rightarrow> string list \<Rightarrow> 'w \<times> string \<times> execError option" where
  "ExecCommandOnMachineConfigDaemon C w node command =
     execOn C w (GetMachineConfigDaemonByNode C w node) ContainerMachineConfigDaemon command"

definition ExecCommandOnNodeViaSriovDaemon :: "'w clusterApi \<Rightarrow> 'w \<Rightarrow> string \<Rightarrow> Node \<Rightarrow> string list \<Rightarrow> 'w \<times> string \<times> execError option" where
  "ExecCommandOnNodeViaSriovDaemon C w SRIOVOperator node command =
     execOn C w (GetSriovConfigDaemonByNode C w SRIOVOperator node) ContainerSriovConfigDaemon command"

text \<open>\<open>decode\<close> is \<^verbatim>\<open>yaml.Unmarshal\<close> into the kubelet configuration.\<close>

definition GetKubeletConfig :: "'w clusterApi \<Rightarrow> (string \<Rightarrow> 'k res) \<Rightarrow> 'w \<Rightarrow> Node \<Rightarrow> 'w \<times> 'k res" where
  "GetKubeletConfig C decode w node =
     (case ExecCommandOnMachineConfigDaemon C w node [''cat'', ''/rootfs'' @ FilePathKubeletConfig] of
        (w', out, Some (_, err)) \<Rightarrow> (w', Inl (Error err))
      | (w', out, None) \<Rightarrow> (w', decode out))"

section \<open>Node selectors\<close>

text \<open>The variable \<^verbatim>\<open>NodesSelector\<close> is the environment variable \<^verbatim>\<open>NODES_SELECTOR\<close>. The three filters differ in the type of
  their elements: \<open>nameOf\<close> gives the node's name.\<close>

definition selectorError :: "string \<Rightarrow> string \<Rightarrow> string" where
  "selectorError sel e = ''Error in getting nodes matching the '' @ sel @ '' label selector, '' @ e"

definition matchNodes :: "('a \<Rightarrow> string) \<Rightarrow> 'w clusterApi \<Rightarrow> 'w \<Rightarrow> string \<Rightarrow> 'a list \<Rightarrow> 'a list res" where
  "matchNodes nameOf C w NodesSelector toFilter =
     (if NodesSelector = [] then Inr toFilter
      else bind_res (map_error (selectorError NodesSelector) (ca_nodes C w NodesSelector)) (\<lambda>toMatch.
        if toMatch = [] then Inl (Error (''Failed to get nodes matching '' @ NodesSelector @ '' label selector''))
        else let found = filter (\<lambda>n. \<exists>m\<in>set toMatch. nameOf n = nd_Name m) toFilter in
          if found = [] then Inl (Error (''Failed to find matching nodes with '' @ NodesSelector @ '' label selector''))
          else Inr found))"

definition MatchingOptionalSelector :: "'w clusterApi \<Rightarrow> 'w \<Rightarrow> string \<Rightarrow> Node list \<Rightarrow> Node list res" where
  "MatchingOptionalSelector = matchNodes nd_Name"

definition MatchingOptionalSelectorPTP :: "'w clusterApi \<Rightarrow> 'w \<Rightarrow> string \<Rightarrow> NodePtpDevice list \<Rightarrow> NodePtpDevice list res" where
  "MatchingOptionalSelectorPTP = matchNodes ptp_Name"

text \<open>This filter has no \<^verbatim>\<open>break\<close>: a name is taken once for every match.\<close>

definition MatchingCustomSelectorByName :: "'w clusterApi \<Rightarrow> 'w \<Rightarrow> string list \<Rightarrow> string \<Rightarrow> string list res" where
  "MatchingCustomSelectorByName C w toFilter nodesSelector =
     bind_res (map_error (\<lambda>e. ''Error in getting nodes matching '' @ nodesSelector @ '', '' @ e) (ca_nodes C w nodesSelector))
       (\<lambda>toMatch.
        if toMatch = [] then Inl (Error (''Failed to get nodes matching '' @ nodesSelector @ '', <nil>''))
        else let found = concat (map (\<lambda>n. map (\<lambda>_. n) (filter (\<lambda>m. n = nd_Name m) toMatch)) toFilter) in
          if found = [] then Inl (Error (''Failed to find matching nodes with '' @ nodesSelector)) else Inr found)"

definition MatchingOptionalSelectorByName :: "'w clusterApi \<Rightarrow> 'w \<Rightarrow> string \<Rightarrow> string list \<Rightarrow> string list res" where
  "MatchingOptionalSelectorByName C w NodesSelector toFilter =
     (if NodesSelector = [] then Inr toFilter else MatchingCustomSelectorByName C w toFilter NodesSelector)"

definition PodLabelSelector :: "string \<Rightarrow> (string, string) gomap option" where
  "PodLabelSelector NodesSelector =
     (if NodesSelector = [] then None
      else case Split NodesSelector ''='' of [k, v] \<Rightarrow> Some [(k, v)] | _ \<Rightarrow> None)"

record NodeTopology =
  nt_NodeName :: string
  nt_InterfaceList :: "string list"

text \<open>The error of the filter is not looked at; the list it comes with is empty.\<close>

definition PtpEnabled :: "'w clusterApi \<Rightarrow> 'w \<Rightarrow> string \<Rightarrow> NodeTopology list res" where
  "PtpEnabled C w NodesSelector =
     bind_res (ca_ptpDevices C w) (\<lambda>items.
       if items = [] then Inl (Error ''Zero nodes found'')
       else let nodesList = (case MatchingOptionalSelectorPTP C w NodesSelector items of Inl _ \<Rightarrow> [] | Inr l \<Rightarrow> l)
         in Inr (map (\<lambda>n. \<lparr>nt_NodeName = ptp_Name n, nt_InterfaceList = ptp_Devices n\<rparr>)
                  (filter (\<lambda>n. ptp_Devices n \<noteq> []) nodesList)))"

section \<open>SCTP\<close>

definition sctpCommand :: "string list" where
  "sctpCommand = [''chroot'', ''/rootfs'', ''bash'', ''-c'', ''lsmod | grep sctp'']"

definition sctpUnknown :: "Node \<Rightarrow> int \<Rightarrow> string \<Rightarrow> string \<Rightarrow> go_error" where
  "sctpUnknown node status out e =
     Error (''can't determine if node ['' @ nd_Name node @ ''] has SCTP enabled. cmd [['' @ Join sctpCommand '' '' @
       '']] exited with code ['' @ Itoa status @ ''], output:['' @ out @ '']: '' @ e)"

text \<open>Where the error is not an \<^verbatim>\<open>ExitError\<close>, the message asks a nil value for its exit status.\<close>

definition HasSCTPEnabled :: "'w clusterApi \<Rightarrow> 'w \<Rightarrow> Node \<Rightarrow> 'w \<times> bool res" where
  "HasSCTPEnabled C w node =
     (case ExecCommandOnMachineConfigDaemon C w node sctpCommand of
        (w', out, None) \<Rightarrow> (w', Inr True)
      | (w', out, Some (Some status, e)) \<Rightarrow>
          (w', if status = 1 then Inr False else Inl (sctpUnknown node status out e))
      | (w', out, Some (None, e)) \<Rightarrow> (w', Inl nilPointer))"

text \<open>The loop over the nodes; on an error the names found so far are returned with it.\<close>

fun sctpLoop :: "'w clusterApi \<Rightarrow> string \<Rightarrow> 'w \<Rightarrow> string list \<Rightarrow> Node list \<Rightarrow> 'w \<times> string list \<times> go_error option" where
  "sctpLoop C names w ret [] = (w, ret, None)"
| "sctpLoop C names w ret (node # nodes) =
     (if \<not> Contains names (nd_Name node) then sctpLoop C names w ret nodes
      else case HasSCTPEnabled C w node of
        (w', Inl e) \<Rightarrow> (w', ret, Some e)
      | (w', Inr b) \<Rightarrow> sctpLoop C names w' (if b then ret @ [nd_Name node] else ret) nodes)"

definition HavingSCTPEnabled :: "'w clusterApi \<Rightarrow> 'w \<Rightarrow> string list \<Rightarrow> 'w \<times> string list \<times> go_error option" where
  "HavingSCTPEnabled C w inputNodeNames =
     (case map_error (\<lambda>e. ''failed to get nodes while searching for SCTP: '' @ e) (ca_nodes C w []) of
        Inl e \<Rightarrow> (w, [], Some e)
      | Inr allNodes \<Rightarrow> sctpLoop C (Join inputNodeNames '' '') w [] allNodes)"

section \<open>Selectors as texts\<close>

text \<open>\<open>first\<close> is only cleared where it is already false, so the comma is never written.\<close>

fun selectorLoop :: "bool \<Rightarrow> string \<Rightarrow> (string, string) gomap \<Rightarrow> string" where
  "selectorLoop first result [] = result"
| "selectorLoop first result ((k, v) # rest) =
     (if \<not> first then selectorLoop False ((result @ '', '') @ k @ ''='' @ v) rest
      else selectorLoop first (result @ k @ ''='' @ v) rest)"

definition nodeSelectorAsString :: "(string, string) gomap \<Rightarrow> string" where
  "nodeSelectorAsString nodeSelector = selectorLoop True [] nodeSelector"

definition AvailableForSelector :: "'w clusterApi \<Rightarrow> 'w \<Rightarrow> (string, string) gomap \<Rightarrow> Node list res" where
  "AvailableForSelector C w nodeSelector = ca_nodes C w (nodeSelectorAsString nodeSelector)"

definition SelectorUnion :: "(string, string) gomap \<Rightarrow> (string, string) gomap \<Rightarrow> (string, string) gomap" where
  "SelectorUnion nodeSelector1 nodeSelector2 =
     fold (\<lambda>(k, v) m. mput m k v) nodeSelector2 (fold (\<lambda>(k, v) m. mput m k v) nodeSelector1 [])"

definition IsSingleNodeCluster :: "'w clusterApi \<Rightarrow> 'w \<Rightarrow> bool res" where
  "IsSingleNodeCluster C w = bind_res (ca_nodes C w []) (\<lambda>nodes. Inr (length nodes = 1))"

section \<open>Labels\<close>

definition LabelNode :: "'w clusterApi \<Rightarrow> 'w \<Rightarrow> string \<Rightarrow> string \<Rightarrow> string \<Rightarrow> 'w \<times> Node res" where
  "LabelNode C w nodeName key v =
     (case ca_getNode C w nodeName of
        Inl e \<Rightarrow> (w, Inl e)
      | Inr node \<Rightarrow>
          (case nd_Labels node of
             None \<Rightarrow> (w, Inl (Panic ''assignment to entry in nil map''))
           | Some ls \<Rightarrow> ca_updateNode C w (node\<lparr>nd_Labels := Some (mput ls key v)\<rparr>)))"

definition LabeledNodesCount :: "'w clusterApi \<Rightarrow> 'w \<Rightarrow> string \<Rightarrow> nat res" where
  "LabeledNodesCount C w label = bind_res (ca_nodes C w (label @ ''='')) (\<lambda>nodes. Inr (length nodes))"

definition rolePrefix :: string where "rolePrefix = ''node-role.kubernetes.io/''"
definition workerRole :: string where "workerRole = ''node-role.kubernetes.io/worker''"

definition customRole :: "string \<Rightarrow> bool" where
  "customRole label \<longleftrightarrow> HasPrefix label rolePrefix \<and> label \<noteq> workerRole"

text \<open>The first label in the order of the map.\<close>

definition FindRoleLabel :: "Node \<Rightarrow> string" where
  "FindRoleLabel node =
     (case find (\<lambda>(label, _). customRole label) (case nd_Labels node of None \<Rightarrow> [] | Some ls \<Rightarrow> ls) of
        None \<Rightarrow> []
      | Some (label, _) \<Rightarrow> TrimPrefix label rolePrefix)"

text \<open>The patch as JSON, for the error message. Labels have no characters that JSON escapes.\<close>

definition patchText :: "labelPatch \<Rightarrow> string" where
  "patchText p =
     ''{'' @ dquoted ''metadata'' @ '':{'' @ dquoted ''labels'' @ '':{'' @ dquoted (fst p) @ '':'' @
     (case snd p of None \<Rightarrow> ''null'' | Some v \<Rightarrow> dquoted v) @ ''}}}''"

definition setLabel :: "'w clusterApi \<Rightarrow> 'w \<Rightarrow> string \<Rightarrow> string \<Rightarrow> string option \<Rightarrow> 'w \<times> unit res" where
  "setLabel C w nodeName label v =
     (case ca_patchNode C w nodeName (label, v) of (w', r) \<Rightarrow>
        (w', map_error (\<lambda>e. ''can't patch labels['' @ patchText (label, v) @ ''] of node['' @ nodeName @ '']: '' @ e) r))"

definition AddRoleTo :: "'w clusterApi \<Rightarrow> 'w \<Rightarrow> string \<Rightarrow> string \<Rightarrow> 'w \<times> unit res" where
  "AddRoleTo C w nodeName role = setLabel C w nodeName (rolePrefix @ role) (Some [])"

definition RemoveRoleFrom :: "'w clusterApi \<Rightarrow> 'w \<Rightarrow> string \<Rightarrow> string \<Rightarrow> 'w \<times> unit res" where
  "RemoveRoleFrom C w nodeName role = setLabel C w nodeName (rolePrefix @ role) None"

end
