(* ===== verification/MachinePools.thy ===== *)
theory MachinePools
  imports ClusterNodes
begin

text \<open>
  Machine config pools (\<^verbatim>\<open>cnf-tests/testsuites/pkg/machineconfigpool/machineconfigpool.go\<close>): waiting for pools, finding
  the pool of a label, and \<open>ApplyKubeletConfigToNode\<close>, which moves a node to a pool of its own and returns a
  function that moves it back.

  The cluster goes on working while the code waits: \<open>mc_tick\<close> is what happens to it in a number of seconds.
\<close>

section \<open>Pools and polling\<close>

text \<open>Of the selector for machine configs the values of its expressions and its labels are used.\<close>

record Pool =
  mp_Name :: string
  mp_Labels :: "(string, string) gomap"
  mp_MachineConfigSelector :: "(string list list \<times> (string, string) gomap) option"
  mp_NodeSelector :: "(string, string) gomap option"
  mp_MachineCount :: int
  mp_Conditions :: "(string \<times> string) list"
  mp_Sources :: "string list"

record 's KubeletConfig =
  kc_Name :: string
  kc_Spec :: 's
  kc_MachineConfigPoolSelector :: "(string, string) gomap"

text \<open>An error of the API server, as far as the code tells them apart.\<close>

datatype apiError = NotFound string | ApiError string

fun apiFailure :: "apiError \<Rightarrow> go_error" where
  "apiFailure (NotFound e) = Error e"
| "apiFailure (ApiError e) = Error e"

record ('s, 'w) poolApi = "'w clusterApi" +
  mc_pool :: "'w \<Rightarrow> string \<Rightarrow> apiError + Pool"
  mc_pools :: "'w \<Rightarrow> Pool list res"
  mc_createPool :: "'w \<Rightarrow> Pool \<Rightarrow> 'w \<times> (apiError + Pool)"
  mc_kubelet :: "'w \<Rightarrow> string \<Rightarrow> apiError + 's KubeletConfig"
  mc_createKubelet :: "'w \<Rightarrow> 's KubeletConfig \<Rightarrow> 'w \<times> (apiError + 's KubeletConfig)"
  mc_tick :: "nat \<Rightarrow> 'w \<Rightarrow> 'w"

text \<open>What a step leaves and returns; \<open>None\<close> is a step that never returns.\<close>

type_synonym ('w, 'a) effect = "('w \<times> 'a res) option"

definition andThen :: "('w, 'a) effect \<Rightarrow> ('w \<Rightarrow> 'a \<Rightarrow> ('w, 'b) effect) \<Rightarrow> ('w, 'b) effect" where
  "andThen r f =
     (case r of
        None \<Rightarrow> None
      | Some (w, Inl e) \<Rightarrow> Some (w, Inl e)
      | Some (w, Inr x) \<Rightarrow> f w x)"

text \<open>\<open>Expect(err)\<close> in a test: an error is a failed assertion.\<close>

definition expectNil :: "('w, 'a) effect \<Rightarrow> ('w \<Rightarrow> 'a \<Rightarrow> ('w, 'b) effect) \<Rightarrow> ('w, 'b) effect" where
  "expectNil r f =
     (case r of
        None \<Rightarrow> None
      | Some (w, Inr x) \<Rightarrow> f w x
      | Some (w, Inl (Error e)) \<Rightarrow> Some (w, Inl (Panic (''Unexpected error: '' @ e)))
      | Some (w, Inl (Panic e)) \<Rightarrow> Some (w, Inl (Panic e)))"

text \<open>\<^verbatim>\<open>controllerutil.CreateOrUpdate\<close> with a function that changes nothing: an object that exists is only read.\<close>

definition CreateOrUpdate :: "('w \<Rightarrow> apiError + 'o) \<Rightarrow> ('w \<Rightarrow> 'o \<Rightarrow> 'w \<times> (apiError + 'o)) \<Rightarrow> 'w \<Rightarrow> 'o \<Rightarrow> ('w, 'o) effect" where
  "CreateOrUpdate get create w obj =
     Some (case get w of
        Inr existing \<Rightarrow> (w, Inr existing)
      | Inl (ApiError e) \<Rightarrow> (w, Inl (Error e))
      | Inl (NotFound _) \<Rightarrow>
          (case create w obj of (w', Inl e) \<Rightarrow> (w', Inl (apiFailure e)) | (w', Inr created) \<Rightarrow> (w', Inr created)))"

text \<open>\<^verbatim>\<open>wait.PollImmediate\<close> checks at once and then after every interval until the time is over, the last time when
  it is over; \<^verbatim>\<open>wait.Poll\<close> waits for the first interval too. A timeout of zero is no timeout.\<close>

definition timedOut :: go_error where "timedOut = Error ''timed out waiting for the condition''"

fun pollLoop :: "('w \<Rightarrow> 'w) \<Rightarrow> ('w \<Rightarrow> bool) \<Rightarrow> nat \<Rightarrow> 'w \<Rightarrow> 'w \<times> unit res" where
  "pollLoop tick cond 0 w = (w, if cond w then Inr () else Inl timedOut)"
| "pollLoop tick cond (Suc n) w = (if cond w then (w, Inr ()) else pollLoop tick cond n (tick w))"

partial_function (option) pollForever :: "('w \<Rightarrow> 'w) \<Rightarrow> ('w \<Rightarrow> bool) \<Rightarrow> 'w \<Rightarrow> 'w option" where
  "pollForever tick cond w = (if cond w then Some w else pollForever tick cond (tick w))"

definition PollImmediate :: "(nat \<Rightarrow> 'w \<Rightarrow> 'w) \<Rightarrow> nat \<Rightarrow> int \<Rightarrow> ('w \<Rightarrow> bool) \<Rightarrow> 'w \<Rightarrow> ('w, unit) effect" where
  "PollImmediate tick interval timeout cond w =
     (if timeout = 0
      then (case pollForever (tick interval) cond w of None \<Rightarrow> None | Some w' \<Rightarrow> Some (w', Inr ()))
      else Some (pollLoop (tick interval) cond (nat timeout div interval) w))"

definition Poll :: "(nat \<Rightarrow> 'w \<Rightarrow> 'w) \<Rightarrow> nat \<Rightarrow> int \<Rightarrow> ('w \<Rightarrow> bool) \<Rightarrow> 'w \<Rightarrow> ('w, unit) effect" where
  "Poll tick interval timeout cond w =
     (if timeout = 0
      then (case pollForever (tick interval) cond (tick interval w) of
              None \<Rightarrow> None | Some w' \<Rightarrow> Some (w', Inr ()))
      else Some (pollLoop (tick interval) cond (nat timeout div interval - 1) (tick interval w)))"

definition mcpHasCondition :: "Pool \<Rightarrow> string \<Rightarrow> string \<Rightarrow> bool" where
  "mcpHasCondition mcp conditionType conditionStatus \<longleftrightarrow> (conditionType, conditionStatus) \<in> set (mp_Conditions mcp)"

definition WaitForCondition :: "('s, 'w) poolApi \<Rightarrow> Pool \<Rightarrow> string \<Rightarrow> string \<Rightarrow> int \<Rightarrow> 'w \<Rightarrow> ('w, unit) effect" where
  "WaitForCondition C mcp conditionType conditionStatus timeout w =
     PollImmediate (mc_tick C) 3 timeout (\<lambda>w. case mc_pool C w (mp_Name mcp) of
         Inl _ \<Rightarrow> False
       | Inr mcpUpdated \<Rightarrow> mcpHasCondition mcpUpdated conditionType conditionStatus) w"

definition minutes :: "int \<Rightarrow> int" where "minutes n = 60 * n"

definition WaitForMCPUpdated :: "('s, 'w) poolApi \<Rightarrow> Pool \<Rightarrow> 'w \<Rightarrow> ('w, unit) effect" where
  "WaitForMCPUpdated C mcp w = WaitForCondition C mcp ''Updated'' ''True'' (minutes (30 * mp_MachineCount mcp)) w"

definition WaitForMCPStable :: "('s, 'w) poolApi \<Rightarrow> Pool \<Rightarrow> 'w \<Rightarrow> ('w, unit) effect" where
  "WaitForMCPStable C mcp w =
     andThen (WaitForCondition C mcp ''Updating'' ''True'' (minutes 2) w) (\<lambda>w _. WaitForMCPUpdated C mcp w)"

definition WaitForAtLeastOneMCPUpdating :: "('s, 'w) poolApi \<Rightarrow> 'w \<Rightarrow> ('w, unit) effect" where
  "WaitForAtLeastOneMCPUpdating C w =
     PollImmediate (mc_tick C) 3 (minutes 2) (\<lambda>w. case mc_pools C w of
         Inl _ \<Rightarrow> False
       | Inr items \<Rightarrow> \<exists>mcp\<in>set items. mcpHasCondition mcp ''Updating'' ''True'') w"

fun waitAll :: "('s, 'w) poolApi \<Rightarrow> Pool list \<Rightarrow> 'w \<Rightarrow> ('w, unit) effect" where
  "waitAll C [] w = Some (w, Inr ())"
| "waitAll C (mcp # mcps) w = andThen (WaitForCondition C mcp ''Updating'' ''False'' (minutes 15) w) (\<lambda>w _. waitAll C mcps w)"

definition WaitForAllMCPStable :: "('s, 'w) poolApi \<Rightarrow> 'w \<Rightarrow> ('w, unit) effect" where
  "WaitForAllMCPStable C w =
     (case map_error (\<lambda>e. ''can't list MachineConfigPools: '' @ e) (mc_pools C w) of
        Inl e \<Rightarrow> Some (w, Inl e)
      | Inr items \<Rightarrow> waitAll C items w)"

definition waitUntilKubeletConfigHasUpdatedTheMCP :: "('s, 'w) poolApi \<Rightarrow> string \<Rightarrow> 'w \<Rightarrow> ('w, unit) effect" where
  "waitUntilKubeletConfigHasUpdatedTheMCP C name w =
     Poll (mc_tick C) 10 (minutes 3) (\<lambda>w. case mc_pool C w name of
         Inl _ \<Rightarrow> False
       | Inr mcp \<Rightarrow> (''99-'' @ name @ ''-generated-kubelet'') \<in> set (mp_Sources mcp)) w"

section \<open>The pool of a label\<close>

definition noPool :: "string \<Rightarrow> go_error" where
  "noPool mcLabel = Error (''cannot find MCP that targets MC with label: '' @ mcLabel)"

fun findPool :: "string \<Rightarrow> Pool list \<Rightarrow> Pool res" where
  "findPool mcLabel [] = Inl (noPool mcLabel)"
| "findPool mcLabel (mcp # mcps) =
     (case mp_MachineConfigSelector mcp of
        None \<Rightarrow> Inl nilPointer
      | Some (exprs, ls) \<Rightarrow>
          if (\<exists>vs\<in>set exprs. mcLabel \<in> set vs) \<or> mcLabel \<in> snd ` set ls then Inr mcp else findPool mcLabel mcps)"

definition FindMCPByMCLabel :: "('s, 'w) poolApi \<Rightarrow> 'w \<Rightarrow> string \<Rightarrow> Pool res" where
  "FindMCPByMCLabel C w mcLabel = bind_res (mc_pools C w) (findPool mcLabel)"

text \<open>The loops look for the label once more; at the first match that finds a node label they return it.\<close>

definition firstNodeLabel :: "Pool \<Rightarrow> string option res" where
  "firstNodeLabel mcp =
     (case mp_NodeSelector mcp of
        None \<Rightarrow> Inl nilPointer
      | Some [] \<Rightarrow> Inr None
      | Some ((k, v) # _) \<Rightarrow> Inr (Some (k @ ''='' @ v)))"

definition FindNodeSelectorByMCLabel :: "('s, 'w) poolApi \<Rightarrow> 'w \<Rightarrow> string \<Rightarrow> string res" where
  "FindNodeSelectorByMCLabel C w mcLabel =
     bind_res (FindMCPByMCLabel C w mcLabel) (\<lambda>mcp.
     bind_res (firstNodeLabel mcp) (\<lambda>sel.
       case sel of None \<Rightarrow> Inl (noPool mcLabel) | Some s \<Rightarrow> Inr s))"

section \<open>A pool for one node\<close>

definition roleLabel :: string where "roleLabel = ''machineconfiguration.openshift.io/role''"

definition nodePool :: "string \<Rightarrow> Pool" where
  "nodePool name =
     \<lparr>mp_Name = name, mp_Labels = [(roleLabel, name)],
      mp_MachineConfigSelector = Some ([[name, ''worker'']], []),
      mp_NodeSelector = Some [(rolePrefix @ name, [])], mp_MachineCount = 0, mp_Conditions = [], mp_Sources = []\<rparr>"

definition kubeletConfigFor :: "string \<Rightarrow> 's \<Rightarrow> 's KubeletConfig" where
  "kubeletConfigFor name spec =
     \<lparr>kc_Name = name, kc_Spec = spec, kc_MachineConfigPoolSelector = [(roleLabel, name)]\<rparr>"

text \<open>The function that is returned with the result.\<close>

type_synonym 'w undo = "'w \<Rightarrow> ('w, unit) effect"

definition nilFn :: "'w undo" where "nilFn w = Some (w, Inr ())"

definition addRole :: "('s, 'w) poolApi \<Rightarrow> Node \<Rightarrow> string \<Rightarrow> 'w undo" where
  "addRole C node role w = Some (AddRoleTo (clusterApi.truncate C) w (nd_Name node) role)"

definition removeRole :: "('s, 'w) poolApi \<Rightarrow> Node \<Rightarrow> string \<Rightarrow> 'w undo" where
  "removeRole C node role w = Some (RemoveRoleFrom (clusterApi.truncate C) w (nd_Name node) role)"

definition moveBack :: "('s, 'w) poolApi \<Rightarrow> Node \<Rightarrow> string \<Rightarrow> string \<Rightarrow> 'w undo" where
  "moveBack C node newNodeRole previousNodeRole w =
     andThen (removeRole C node newNodeRole w) (\<lambda>w _. addRole C node previousNodeRole w)"

definition moveBackAndWait :: "('s, 'w) poolApi \<Rightarrow> Node \<Rightarrow> string \<Rightarrow> string \<Rightarrow> 'w undo" where
  "moveBackAndWait C node newNodeRole previousNodeRole w =
     andThen (moveBack C node newNodeRole previousNodeRole w) (\<lambda>w _.
     andThen (WaitForAtLeastOneMCPUpdating C w) (\<lambda>w _. WaitForAllMCPStable C w))"

text \<open>The result of the function: the state, the function that undoes the change, and the error.\<close>

type_synonym 'w applied = "('w \<times> 'w undo \<times> unit res) option"

definition orUndo :: "('w, 'a) effect \<Rightarrow> 'w undo \<Rightarrow> ('w \<Rightarrow> 'a \<Rightarrow> 'w applied) \<Rightarrow> 'w applied" where
  "orUndo r undo f =
     (case r of
        None \<Rightarrow> None
      | Some (w, Inl e) \<Rightarrow> Some (w, undo, Inl e)
      | Some (w, Inr x) \<Rightarrow> f w x)"

definition moveNode :: "('s, 'w) poolApi \<Rightarrow> Node \<Rightarrow> string \<Rightarrow> Pool \<Rightarrow> 'w \<Rightarrow> 'w applied" where
  "moveNode C node name mcp w =
     (let previousNodeRole = FindRoleLabel node in
      orUndo (if previousNodeRole \<noteq> [] then removeRole C node previousNodeRole w else Some (w, Inr ())) nilFn (\<lambda>w _.
      orUndo (addRole C node name w) (addRole C node previousNodeRole) (\<lambda>w _.
      orUndo (WaitForMCPStable C mcp w) (moveBack C node name previousNodeRole) (\<lambda>w _.
        Some (w, moveBackAndWait C node name previousNodeRole, Inr ())))))"

definition ApplyKubeletConfigToNode :: "('s, 'w) poolApi \<Rightarrow> Node \<Rightarrow> string \<Rightarrow> 's \<Rightarrow> 'w \<Rightarrow> 'w applied" where
  "ApplyKubeletConfigToNode C node name spec w =
     orUndo (CreateOrUpdate (\<lambda>w. mc_kubelet C w name) (mc_createKubelet C) w (kubeletConfigFor name spec)) nilFn (\<lambda>w _.
     orUndo (CreateOrUpdate (\<lambda>w. mc_pool C w name) (mc_createPool C) w (nodePool name)) nilFn (\<lambda>w mcp.
     orUndo (waitUntilKubeletConfigHasUpdatedTheMCP C name w) nilFn (\<lambda>w _.
       moveNode C node name mcp w)))"

section \<open>Steps that keep a view of the cluster\<close>

text \<open>A view \<open>L\<close> of the cluster, for instance the labels of its nodes, is steady if it does not change by itself.\<close>

definition steady :: "('w \<Rightarrow> 'l) \<Rightarrow> ('s, 'w) poolApi \<Rightarrow> bool" where
  "steady L C \<longleftrightarrow> (\<forall>w s. L (mc_tick C s w) = L w)"

definition keeps :: "('w \<Rightarrow> 'l) \<Rightarrow> 'w \<Rightarrow> ('w, 'a) effect \<Rightarrow> bool" where
  "keeps L w r \<longleftrightarrow> (\<forall>w' x. r = Some (w', x) \<longrightarrow> L w' = L w)"

lemma andThen_ok: "andThen r f = Some (w, Inr y) \<longleftrightarrow> (\<exists>v x. r = Some (v, Inr x) \<and> f v x = Some (w, Inr y))"
  by (auto simp: andThen_def split: option.splits sum.splits)

lemma andThen_Some:
  assumes "andThen r f = Some (w'', y)"
  obtains (failed) e where "r = Some (w'', Inl e)" "y = Inl e"
    | (went) w' x where "r = Some (w', Inr x)" "f w' x = Some (w'', y)"
  using assms by (auto simp: andThen_def split: option.splits sum.splits)

lemma keeps_andThen:
  assumes "keeps L w r" and "\<And>w' x. L w' = L w \<Longrightarrow> keeps L w' (f w' x)"
  shows "keeps L w (andThen r f)"
  unfolding keeps_def
proof (intro allI impI)
  fix w'' y
  assume "andThen r f = Some (w'', y)"
  then show "L w'' = L w"
  proof (cases rule: andThen_Some)
    case (failed e)
    with assms(1) show ?thesis unfolding keeps_def by blast
  next
    case (went w' x)
    with assms(1) have "L w' = L w" unfolding keeps_def by blast
    with assms(2) [OF this, of x] went(2) show ?thesis unfolding keeps_def by metis
  qed
qed

lemma pollLoop_done: "cond w \<Longrightarrow> pollLoop tick cond n w = (w, Inr ())"
  by (cases n) auto

lemma pollLoop_Inr_iff:
  "pollLoop tick cond n w = (w', Inr ()) \<longleftrightarrow>
     (\<exists>k\<le>n. w' = (tick ^^ k) w \<and> cond w' \<and> (\<forall>j<k. \<not> cond ((tick ^^ j) w)))"
proof (induction n arbitrary: w)
  case 0
  then show ?case by auto
next
  case (Suc n)
  show ?case
  proof (cases "cond w")
    case True
    then have "(\<forall>j<k. \<not> cond ((tick ^^ j) w)) \<longleftrightarrow> k = 0" for k by (cases k) auto
    with True show ?thesis by auto
  next
    case False
    let ?P = "\<lambda>k. w' = (tick ^^ k) w \<and> cond w' \<and> (\<forall>j<k. \<not> cond ((tick ^^ j) w))"
    have step: "?P (Suc k) \<longleftrightarrow> w' = (tick ^^ k) (tick w) \<and> cond w' \<and> (\<forall>j<k. \<not> cond ((tick ^^ j) (tick w)))" for k
      using False by (auto simp: funpow_Suc_right less_Suc_eq_0_disj simp del: funpow.simps(2))
    have "(\<exists>k\<le>Suc n. ?P k) \<longleftrightarrow> (\<exists>k\<le>n. ?P (Suc k))"
      using False by (metis Suc_le_mono funpow_0 not0_implies_Suc)
    with Suc [of "tick w"] False show ?thesis unfolding step by simp
  qed
qed

lemma pollLoop_total: "pollLoop tick cond n w = (fst (pollLoop tick cond n w), Inr ()) \<or>
    pollLoop tick cond n w = ((tick ^^ n) w, Inl timedOut)"
  by (induction n arbitrary: w) (auto simp: funpow_Suc_right simp del: funpow.simps(2))

lemma keeps_pollLoop:
  "(\<And>w. L (tick w) = L w) \<Longrightarrow> keeps L w (Some (pollLoop tick cond n w))"
  by (induction n arbitrary: w) (auto simp: keeps_def)

lemma keeps_pollForever:
  assumes "pollForever tick cond w = Some w'" and "\<And>w. L (tick w) = L w"
  shows "L w' = L w"
proof -
  have "(\<forall>w. L (tick w) = L w) \<longrightarrow> L w' = L w"
    by (rule pollForever.raw_induct [where P = "\<lambda>tick cond w w'. (\<forall>w. L (tick w) = L w) \<longrightarrow> L w' = L w", OF _ assms(1)])
      (auto split: if_splits)
  with assms(2) show ?thesis by blast
qed

lemma keeps_Poll:
  assumes "steady L C"
  shows "keeps L w (PollImmediate (mc_tick C) interval timeout cond w)" and "keeps L w (Poll (mc_tick C) interval timeout cond w)"
proof -
  have tick: "L (mc_tick C interval w) = L w" for w using assms by (simp add: steady_def)
  show "keeps L w (PollImmediate (mc_tick C) interval timeout cond w)"
    using keeps_pollLoop [of L "mc_tick C interval", OF tick] keeps_pollForever [where L = L, OF _ tick]
    by (auto simp: PollImmediate_def keeps_def split: option.splits)
  show "keeps L w (Poll (mc_tick C) interval timeout cond w)"
    using keeps_pollLoop [of L "mc_tick C interval" "mc_tick C interval w", OF tick] keeps_pollForever [where L = L, OF _ tick] tick
    by (fastforce simp: Poll_def keeps_def split: option.splits)
qed

lemma keeps_waits:
  assumes "steady L C"
  shows "keeps L w (WaitForMCPStable C mcp w)" and "keeps L w (WaitForAtLeastOneMCPUpdating C w)"
    and "keeps L w (WaitForAllMCPStable C w)" and "keeps L w (waitUntilKubeletConfigHasUpdatedTheMCP C name w)"
proof -
  note polls = keeps_Poll [OF assms]
  show "keeps L w (WaitForMCPStable C mcp w)"
    unfolding WaitForMCPStable_def WaitForMCPUpdated_def WaitForCondition_def by (intro keeps_andThen polls)
  show "keeps L w (WaitForAtLeastOneMCPUpdating C w)" unfolding WaitForAtLeastOneMCPUpdating_def by (rule polls)
  show "keeps L w (waitUntilKubeletConfigHasUpdatedTheMCP C name w)"
    unfolding waitUntilKubeletConfigHasUpdatedTheMCP_def by (rule polls)
  have "keeps L w (waitAll C mcps w)" for mcps w
    by (induction mcps arbitrary: w) (auto simp: keeps_def [of L _ "Some _"] WaitForCondition_def intro!: keeps_andThen polls)
  then show "keeps L w (WaitForAllMCPStable C w)"
    by (auto simp: WaitForAllMCPStable_def keeps_def [of L _ "Some _"] split: sum.splits)
qed

lemma keeps_CreateOrUpdate:
  assumes "\<And>w x. L (fst (create w x)) = L w"
  shows "keeps L w (CreateOrUpdate get create w obj)"
  using assms [of w obj] by (auto simp: keeps_def CreateOrUpdate_def split: sum.splits apiError.splits prod.splits)

end
