(* ===== verification/PerfProfiles.thy ===== *)
theory PerfProfiles
  imports MachinePools
begin

text \<open>
  The performance profiles of the tests (\<^verbatim>\<open>cnf-tests/testsuites/pkg/performanceprofile/performanceprofile.go\<close>): finding a usable
  profile, replacing the one of the cluster and putting it back.

  The package keeps two variables, the profile it has replaced and the size of the huge pages; with the cluster they are the
  state \<open>ppState\<close>.
\<close>

section \<open>Profiles\<close>

record HugePage =
  hp_Size :: string
  hp_Count :: int
  hp_Node :: "int option"

record PerformanceProfile =
  pp_Name :: string
  pp_Labels :: "(string, string) gomap"
  pp_Annotations :: "(string, string) gomap"
  pp_Isolated :: "string option"
  pp_Reserved :: "string option"
  pp_HugePages :: "(string option \<times> HugePage list) option"
  pp_NodeSelector :: "(string, string) gomap"
  pp_MachineConfigPoolSelector :: "(string, string) gomap"
  pp_KernelPageSize :: "string option"
  pp_TopologyPolicy :: "string option"

definition Arm64KPerformanceProfileHugepageSize :: string where "Arm64KPerformanceProfileHugepageSize = ''512M''"
definition X86PerformanceProfileHugepageSize :: string where "X86PerformanceProfileHugepageSize = ''1G''"

text \<open>One page entry: the size it provides, if there are enough pages.\<close>

definition usablePage :: "HugePage \<Rightarrow> string option" where
  "usablePage page =
     (if hp_Size page = X86PerformanceProfileHugepageSize
      then if hp_Count page < (if hp_Node page = None then 5 * 2 else 5) then None else Some X86PerformanceProfileHugepageSize
      else if hp_Size page = Arm64KPerformanceProfileHugepageSize
      then if hp_Count page < 4 then None else Some Arm64KPerformanceProfileHugepageSize
      else None)"

fun findPage :: "HugePage list \<Rightarrow> string option" where
  "findPage [] = None"
| "findPage (page # pages) = (case usablePage page of None \<Rightarrow> findPage pages | Some sz \<Rightarrow> Some sz)"

text \<open>The result, and the size that \<^verbatim>\<open>HugePageSize\<close> is set to.\<close>

definition ValidatePerformanceProfile :: "PerformanceProfile \<Rightarrow> (bool \<times> string option) res" where
  "ValidatePerformanceProfile p =
     (case pp_Isolated p of
        None \<Rightarrow> Inl nilPointer
      | Some isolated \<Rightarrow>
          bind_res (cpuParse isolated) (\<lambda>cpuSet.
            if length (cpuList cpuSet) < 6 then Inr (False, None)
            else case pp_HugePages p of
              None \<Rightarrow> Inr (False, None)
            | Some (_, []) \<Rightarrow> Inr (False, None)
            | Some (_, pages) \<Rightarrow> Inr (findPage pages \<noteq> None, findPage pages)))"

definition IsSingleNUMANode :: "PerformanceProfile \<Rightarrow> bool" where
  "IsSingleNUMANode p \<longleftrightarrow> pp_TopologyPolicy p = Some ''single-numa-node''"

section \<open>Cluster and state\<close>

record ('s, 'w) profileApi = "('s, 'w) poolApi" +
  pf_get :: "'w \<Rightarrow> string \<Rightarrow> apiError + PerformanceProfile"
  pf_list :: "'w \<Rightarrow> PerformanceProfile list res"
  pf_create :: "'w \<Rightarrow> PerformanceProfile \<Rightarrow> 'w \<times> unit res"
  pf_delete :: "'w \<Rightarrow> string \<Rightarrow> 'w \<times> unit res"
  pf_archs :: "'w \<Rightarrow> (string, string) gomap \<Rightarrow> string list res"

record 'w ppState =
  ps_cluster :: 'w
  ps_Original :: "PerformanceProfile option"
  ps_HugePageSize :: string

text \<open>A step on the cluster alone.\<close>

definition onCluster :: "'w ppState \<Rightarrow> ('w \<Rightarrow> ('w, 'a) effect) \<Rightarrow> ('w ppState, 'a) effect" where
  "onCluster st f =
     (case f (ps_cluster st) of None \<Rightarrow> None | Some (w, r) \<Rightarrow> Some (st\<lparr>ps_cluster := w\<rparr>, r))"

definition returns :: "'a res \<Rightarrow> 'w \<Rightarrow> ('w, 'a) effect" where
  "returns r w = Some (w, r)"

definition setSize :: "string option \<Rightarrow> 'w ppState \<Rightarrow> 'w ppState" where
  "setSize sz st = (case sz of None \<Rightarrow> st | Some s \<Rightarrow> st\<lparr>ps_HugePageSize := s\<rparr>)"

abbreviation pools :: "('s, 'w) profileApi \<Rightarrow> ('s, 'w) poolApi" where
  "pools A \<equiv> poolApi.truncate A"

definition poolOf :: "('s, 'w) profileApi \<Rightarrow> string \<Rightarrow> 'w \<Rightarrow> Pool res" where
  "poolOf A name w = (case mc_pool A w name of Inl e \<Rightarrow> Inl (apiFailure e) | Inr mcp \<Rightarrow> Inr mcp)"

section \<open>Creating and deleting\<close>

definition kubeletOptions :: string where
  "kubeletOptions = ''{'' @ dquoted ''topologyManagerPolicyOptions'' @ '': {'' @ dquoted ''max-allowable-numa-nodes'' @ '':'' @ dquoted ''16'' @ ''}}''"

definition baseProfile :: "string \<Rightarrow> Pool \<Rightarrow> PerformanceProfile" where
  "baseProfile name mcp =
     \<lparr>pp_Name = name, pp_Labels = [], pp_Annotations = [], pp_Isolated = Some ''8-15'', pp_Reserved = Some ''0-7'',
      pp_HugePages = None, pp_NodeSelector = [(''node-role.kubernetes.io/'' @ mp_Name mcp, [])],
      pp_MachineConfigPoolSelector = [], pp_KernelPageSize = None, pp_TopologyPolicy = None\<rparr>"

definition hugePages :: "string \<Rightarrow> int \<Rightarrow> (string option \<times> HugePage list) option" where
  "hugePages sz n = Some (Some sz, [\<lparr>hp_Size = sz, hp_Count = n, hp_Node = None\<rparr>])"

text \<open>The profile for the architecture of the first node, with the size of its huge pages.\<close>

definition newProfile :: "string \<Rightarrow> Pool \<Rightarrow> string \<Rightarrow> (PerformanceProfile \<times> string) res" where
  "newProfile name mcp arch =
     bind_res
       (if arch = ''amd64''
        then Inr ((baseProfile name mcp)\<lparr>pp_HugePages := hugePages X86PerformanceProfileHugepageSize 10\<rparr>,
                  X86PerformanceProfileHugepageSize)
        else if arch = ''arm64''
        then Inr ((baseProfile name mcp)\<lparr>pp_HugePages := hugePages Arm64KPerformanceProfileHugepageSize 32,
                    pp_KernelPageSize := Some ''64k'', pp_Annotations := [(''kubeletconfig.experimental'', kubeletOptions)]\<rparr>,
                  Arm64KPerformanceProfileHugepageSize)
        else Inl (Error ''unsupported system''))
       (\<lambda>(p, sz).
          Inr (if mp_Name mcp = ''master''
               then p\<lparr>pp_MachineConfigPoolSelector := [(''pools.operator.machineconfiguration.openshift.io/master'', [])]\<rparr>
               else p, sz))"

definition noNodes :: "Pool \<Rightarrow> go_error" where
  "noNodes mcp = Error (''Failed to find nodes for machine config pool: '' @ mp_Name mcp)"

definition poolArch :: "('s, 'w) profileApi \<Rightarrow> Pool \<Rightarrow> 'w \<Rightarrow> string res" where
  "poolArch A mcp w =
     (case mp_NodeSelector mcp of
        None \<Rightarrow> Inl nilPointer
      | Some ls \<Rightarrow>
          bind_res (pf_archs A w ls) (\<lambda>archs. case archs of [] \<Rightarrow> Inl (noNodes mcp) | arch # _ \<Rightarrow> Inr arch))"

definition CreatePerformanceProfile :: "('s, 'w) profileApi \<Rightarrow> string \<Rightarrow> Pool \<Rightarrow> 'w ppState \<Rightarrow> ('w ppState, unit) effect" where
  "CreatePerformanceProfile A name mcp st =
     (case bind_res (poolArch A mcp (ps_cluster st)) (newProfile name mcp) of
        Inl e \<Rightarrow> Some (st, Inl e)
      | Inr (p, sz) \<Rightarrow> onCluster (st\<lparr>ps_HugePageSize := sz\<rparr>) (\<lambda>w. Some (pf_create A w p)))"

fun deleteAll :: "('s, 'w) profileApi \<Rightarrow> PerformanceProfile list \<Rightarrow> 'w \<Rightarrow> ('w, unit) effect" where
  "deleteAll A [] w = Some (w, Inr ())"
| "deleteAll A (p # ps) w = andThen (Some (pf_delete A w (pp_Name p))) (\<lambda>w _. deleteAll A ps w)"

definition CleanPerformanceProfiles :: "('s, 'w) profileApi \<Rightarrow> 'w \<Rightarrow> ('w, unit) effect" where
  "CleanPerformanceProfiles A w = andThen (Some (w, pf_list A w)) (\<lambda>w items. deleteAll A items w)"

section \<open>Overriding and restoring\<close>

text \<open>The part of the function that replaces the profile \<open>found\<close>, if there was one.\<close>

definition overrideProfile :: "('s, 'w) profileApi \<Rightarrow> string \<Rightarrow> string \<Rightarrow> PerformanceProfile option \<Rightarrow> 'w ppState \<Rightarrow> ('w ppState, unit) effect" where
  "overrideProfile A name poolName found st =
     andThen (onCluster st (\<lambda>w. Some (w, poolOf A poolName w))) (\<lambda>st mcp.
     andThen
       (case found of
          None \<Rightarrow> Some (st, Inr ())
        | Some p \<Rightarrow>
            andThen (onCluster (st\<lparr>ps_Original := Some p\<rparr>) (CleanPerformanceProfiles A)) (\<lambda>st _.
              onCluster st (WaitForMCPStable (pools A) mcp))) (\<lambda>st _.
     andThen (CreatePerformanceProfile A name mcp st) (\<lambda>st _.
       onCluster st (WaitForMCPStable (pools A) mcp))))"

definition FindOrOverridePerformanceProfile :: "('s, 'w) profileApi \<Rightarrow> string \<Rightarrow> string \<Rightarrow> 'w ppState \<Rightarrow> ('w ppState, unit) effect" where
  "FindOrOverridePerformanceProfile A name poolName st =
     (case pf_get A (ps_cluster st) name of
        Inl (ApiError e) \<Rightarrow> Some (st, Inl (Error e))
      | Inl (NotFound _) \<Rightarrow> overrideProfile A name poolName None st
      | Inr p \<Rightarrow>
          (case ValidatePerformanceProfile p of
             Inl e \<Rightarrow> Some (st, Inl e)
           | Inr (valid, sz) \<Rightarrow>
               if valid then Some (setSize sz st, Inr ())
               else overrideProfile A name poolName (Some p) (setSize sz st)))"

definition onlyName :: "PerformanceProfile \<Rightarrow> PerformanceProfile" where
  "onlyName p = p\<lparr>pp_Labels := [], pp_Annotations := []\<rparr>"

definition RestorePerformanceProfile :: "('s, 'w) profileApi \<Rightarrow> string \<Rightarrow> 'w ppState \<Rightarrow> ('w ppState, unit) effect" where
  "RestorePerformanceProfile A poolName st =
     (case ps_Original st of
        None \<Rightarrow> Some (st, Inr ())
      | Some p \<Rightarrow>
          andThen (onCluster st (CleanPerformanceProfiles A)) (\<lambda>st _.
          andThen (onCluster st (\<lambda>w. Some (w, poolOf A poolName w))) (\<lambda>st mcp.
          andThen (onCluster st (WaitForMCPStable (pools A) mcp)) (\<lambda>st _.
          andThen (onCluster (st\<lparr>ps_Original := Some (onlyName p)\<rparr>) (\<lambda>w. Some (pf_create A w (onlyName p)))) (\<lambda>st _.
            onCluster st (WaitForMCPStable (pools A) mcp))))))"

section \<open>Discovery mode\<close>

text \<open>\<^verbatim>\<open>fmt\<close> prints a nil error with \<open>%s\<close> as \<open>nilText\<close>.\<close>

definition nilText :: string where "nilText = ''%!s(<nil>)''"

definition discoveryFailed :: "string \<Rightarrow> bool \<times> string \<times> PerformanceProfile list" where
  "discoveryFailed e = (False, ''Can not run tests in discovery mode. Failed to find a valid perfomance profile. '' @ e, [])"

text \<open>The loop over the list: an error of the validation skips the profile, a panic ends the loop.\<close>

fun validProfiles :: "PerformanceProfile list \<Rightarrow> string option \<Rightarrow> (PerformanceProfile list \<times> string option) res" where
  "validProfiles [] sz = Inr ([], sz)"
| "validProfiles (p # ps) sz =
     (case ValidatePerformanceProfile p of
        Inl (Panic e) \<Rightarrow> Inl (Panic e)
      | Inl (Error _) \<Rightarrow> validProfiles ps sz
      | Inr (valid, s) \<Rightarrow>
          bind_res (validProfiles ps (if s = None then sz else s)) (\<lambda>(found, sz').
            Inr (if valid then p # found else found, sz')))"

definition enforcedProfile :: "('s, 'w) profileApi \<Rightarrow> string \<Rightarrow> 'w ppState \<Rightarrow> ('w ppState, bool \<times> string \<times> PerformanceProfile list) effect" where
  "enforcedProfile A name st =
     (case pf_get A (ps_cluster st) name of
        Inl e \<Rightarrow> Some (st, Inr (discoveryFailed (errorText (apiFailure e))))
      | Inr p \<Rightarrow>
          (case ValidatePerformanceProfile p of
             Inl (Panic e) \<Rightarrow> Some (st, Inl (Panic e))
           | Inl (Error e) \<Rightarrow> Some (st, Inr (discoveryFailed e))
           | Inr (valid, sz) \<Rightarrow>
               Some (setSize sz st, Inr (if valid then (True, [], [p]) else discoveryFailed nilText))))"

definition DiscoverPerformanceProfiles :: "('s, 'w) profileApi \<Rightarrow> string \<Rightarrow> 'w ppState \<Rightarrow> ('w ppState, bool \<times> string \<times> PerformanceProfile list) effect" where
  "DiscoverPerformanceProfiles A enforced st =
     (if enforced \<noteq> [] then enforcedProfile A enforced st
      else case pf_list A (ps_cluster st) of
        Inl e \<Rightarrow> Some (st, Inr (discoveryFailed (errorText e)))
      | Inr items \<Rightarrow>
          (case validProfiles items None of
             Inl e \<Rightarrow> Some (st, Inl e)
           | Inr (found, sz) \<Rightarrow>
               Some (setSize sz st, Inr (if found \<noteq> [] then (True, [], found) else discoveryFailed nilText))))"

end
