(* ===== verification/Discovery.thy ===== *)
theory Discovery
  imports PerfProfiles
begin

text \<open>
  Discovery mode (\<^verbatim>\<open>cnf-tests/testsuites/pkg/discovery/discovery.go\<close>): the search for a performance profile and a SR-IOV
  policy for which a node has resources. Discovering the devices of the nodes and matching a device
  with the NIC selector of a policy are calls of the SR-IOV operator's packages: the parameter \<open>sriovApi\<close>.
\<close>

section \<open>Model\<close>

text \<open>\<^verbatim>\<open>strconv.ParseBool\<close> of the environment variable; an error counts as false.\<close>

definition discoveryEnabled :: "(string \<Rightarrow> string) \<Rightarrow> bool" where
  "discoveryEnabled getenv \<longleftrightarrow> getenv ''DISCOVERY_MODE'' \<in> {''1'', ''t'', ''T'', ''TRUE'', ''true'', ''True''}"

record SriovPolicy =
  snp_Name :: string
  snp_ResourceName :: string
  snp_IsRdma :: bool
  snp_DeviceType :: string

record Device =
  dv_Name :: string
  dv_Vendor :: string
  dv_VFs :: nat

record DpdkResources =
  dr_Profile :: PerformanceProfile
  dr_Resource :: string
  dr_Device :: Device

text \<open>\<open>so_devices\<close> is what \<^verbatim>\<open>DiscoverSriov\<close> returns, with the method \<^verbatim>\<open>FindSriovDevices\<close>.\<close>

record sriovApi =
  so_devices :: "(string \<Rightarrow> Device list res) res"
  so_policies :: "SriovPolicy list res"
  so_Selected :: "SriovPolicy \<Rightarrow> Device \<Rightarrow> bool"

definition resourceCountOf :: "SriovPolicy \<Rightarrow> Node \<Rightarrow> int" where
  "resourceCountOf policy node =
     (case mget (nd_Allocatable node) (''openshift.io/'' @ snp_ResourceName policy) of
        None \<Rightarrow> 0
      | Some quantity \<Rightarrow> (case qt_int64 quantity of None \<Rightarrow> 0 | Some n \<Rightarrow> n))"

definition suitable :: "sriovApi \<Rightarrow> SriovPolicy \<Rightarrow> Device \<Rightarrow> bool" where
  "suitable S policy d \<longleftrightarrow>
     \<not> (dv_Vendor d = ''15b3'' \<and> (\<not> snp_IsRdma policy \<or> snp_DeviceType policy \<noteq> ''netdevice'')) \<and>
     \<not> (dv_Vendor d = ''8086'' \<and> snp_DeviceType policy \<noteq> ''vfio-pci'') \<and>
     dv_VFs d \<noteq> 0 \<and> so_Selected S policy d"

text \<open>The loops. The state is the largest count so far with its result; \<open>Inl\<close> is an early return.\<close>

type_synonym searchState = "int \<times> DpdkResources option"

fun searchNodes :: "sriovApi \<Rightarrow> (string \<Rightarrow> Device list res) \<Rightarrow> string \<Rightarrow> PerformanceProfile \<Rightarrow> SriovPolicy \<Rightarrow> searchState \<Rightarrow> Node list \<Rightarrow>
    DpdkResources + searchState" where
  "searchNodes S devices resourceName profile policy st [] = Inr st"
| "searchNodes S devices resourceName profile policy st (node # nodes) =
     (let resourceCount = resourceCountOf policy node;
          continue = (\<lambda>st. searchNodes S devices resourceName profile policy st nodes)
      in if resourceCount = 0 then continue st
         else case devices (nd_Name node) of
           Inl _ \<Rightarrow> continue st
         | Inr ds \<Rightarrow>
             (case find (suitable S policy) ds of
                None \<Rightarrow> continue st
              | Some device \<Rightarrow>
                  let r = \<lparr>dr_Profile = profile, dr_Resource = snp_ResourceName policy, dr_Device = device\<rparr> in
                  if snp_ResourceName policy = resourceName then Inl r
                  else continue (if resourceCount > fst st then (resourceCount, Some r) else st)))"

fun searchPolicies :: "sriovApi \<Rightarrow> (string \<Rightarrow> Device list res) \<Rightarrow> string \<Rightarrow> PerformanceProfile \<Rightarrow> Node list \<Rightarrow> searchState \<Rightarrow> SriovPolicy list \<Rightarrow>
    DpdkResources + searchState" where
  "searchPolicies S devices resourceName profile nodes st [] = Inr st"
| "searchPolicies S devices resourceName profile nodes st (policy # policies) =
     (case searchNodes S devices resourceName profile policy st nodes of
        Inl r \<Rightarrow> Inl r
      | Inr st' \<Rightarrow> searchPolicies S devices resourceName profile nodes st' policies)"

fun searchProfiles :: "sriovApi \<Rightarrow> (string \<Rightarrow> Device list res) \<Rightarrow> string \<Rightarrow> SriovPolicy list \<Rightarrow> (PerformanceProfile \<Rightarrow> Node list res) \<Rightarrow>
    searchState \<Rightarrow> PerformanceProfile list \<Rightarrow> (DpdkResources + searchState) res" where
  "searchProfiles S devices resourceName policies available st [] = Inr (Inr st)"
| "searchProfiles S devices resourceName policies available st (profile # profiles) =
     bind_res (available profile) (\<lambda>nodes.
       case searchPolicies S devices resourceName profile nodes st policies of
         Inl r \<Rightarrow> Inr (Inl r)
       | Inr st' \<Rightarrow> searchProfiles S devices resourceName policies available st' profiles)"

definition noResources :: go_error where
  "noResources = Error ''Unable to find a node with available resources''"

definition DiscoverPerformanceProfileAndPolicyWithAvailableNodes ::
    "'w clusterApi \<Rightarrow> sriovApi \<Rightarrow> 'w \<Rightarrow> string \<Rightarrow> PerformanceProfile list \<Rightarrow> (string, string) gomap \<Rightarrow> DpdkResources res" where
  "DiscoverPerformanceProfileAndPolicyWithAvailableNodes C S w resourceName performanceProfiles nodeSelector =
     bind_res (so_devices S) (\<lambda>devices.
     bind_res (so_policies S) (\<lambda>policies.
     bind_res (searchProfiles S devices resourceName policies
         (\<lambda>profile. AvailableForSelector C w (SelectorUnion nodeSelector (pp_NodeSelector profile))) (0, None) performanceProfiles)
       (\<lambda>found.
         case found of
           Inl r \<Rightarrow> Inr r
         | Inr (n, r) \<Rightarrow>
             if n = 0 then Inl noResources
             else case r of None \<Rightarrow> Inl nilPointer | Some r \<Rightarrow> Inr r)))"

section \<open>Candidates\<close>

text \<open>All the pairs of a profile and a policy that the loops consider, in their order, with the count on the node.\<close>

definition candidatesOn :: "sriovApi \<Rightarrow> (string \<Rightarrow> Device list res) \<Rightarrow> PerformanceProfile \<Rightarrow> SriovPolicy \<Rightarrow> Node \<Rightarrow> (int \<times> DpdkResources) list" where
  "candidatesOn S devices profile policy node =
     (case (resourceCountOf policy node \<noteq> 0, devices (nd_Name node)) of
        (True, Inr ds) \<Rightarrow>
          (case find (suitable S policy) ds of
             None \<Rightarrow> []
           | Some device \<Rightarrow> [(resourceCountOf policy node,
               \<lparr>dr_Profile = profile, dr_Resource = snp_ResourceName policy, dr_Device = device\<rparr>)])
      | _ \<Rightarrow> [])"

definition candidates :: "sriovApi \<Rightarrow> (string \<Rightarrow> Device list res) \<Rightarrow> SriovPolicy list \<Rightarrow> (PerformanceProfile \<Rightarrow> Node list) \<Rightarrow>
    PerformanceProfile list \<Rightarrow> (int \<times> DpdkResources) list" where
  "candidates S devices policies listed profiles =
     concat (map (\<lambda>profile. concat (map (\<lambda>policy. concat (map (candidatesOn S devices profile policy) (listed profile)))
       policies)) profiles)"

fun scan :: "string \<Rightarrow> searchState \<Rightarrow> (int \<times> DpdkResources) list \<Rightarrow> DpdkResources + searchState" where
  "scan name st [] = Inr st"
| "scan name st (c # cs) =
     (if dr_Resource (snd c) = name then Inl (snd c)
      else scan name (if fst c > fst st then (fst c, Some (snd c)) else st) cs)"

lemma scan_append:
  "scan name st (xs @ ys) = (case scan name st xs of Inl r \<Rightarrow> Inl r | Inr st' \<Rightarrow> scan name st' ys)"
  by (induction xs arbitrary: st) auto

lemma searchNodes_scan:
  "searchNodes S devices name profile policy st nodes = scan name st (concat (map (candidatesOn S devices profile policy) nodes))"
  by (induction nodes arbitrary: st) (auto simp: candidatesOn_def Let_def split: sum.splits option.splits)

lemma searchPolicies_scan:
  "searchPolicies S devices name profile nodes st policies =
     scan name st (concat (map (\<lambda>policy. concat (map (candidatesOn S devices profile policy) nodes)) policies))"
  by (induction policies arbitrary: st) (auto simp: searchNodes_scan scan_append split: sum.splits)

lemma searchProfiles_scan:
  "\<forall>p\<in>set profiles. available p = Inr (listed p) \<Longrightarrow>
   searchProfiles S devices name policies available st profiles = Inr (scan name st (candidates S devices policies listed profiles))"
  by (induction profiles arbitrary: st)
    (auto simp: candidates_def searchPolicies_scan scan_append split: sum.splits)

lemma scan_preferred:
  "find (\<lambda>c. dr_Resource (snd c) = name) cs = Some c \<Longrightarrow> scan name st cs = Inl (snd c)"
  by (induction cs arbitrary: st) (auto split: if_splits)

text \<open>Without a preferred candidate the scan ends with the first of those with the largest count.\<close>

definition firstLargest :: "(int \<times> 'a) list \<Rightarrow> nat \<Rightarrow> bool" where
  "firstLargest cs i \<longleftrightarrow> i < length cs \<and> (\<forall>j<length cs. fst (cs ! j) \<le> fst (cs ! i)) \<and> (\<forall>j<i. fst (cs ! j) < fst (cs ! i))"

lemma scan_largest:
  "\<forall>c\<in>set cs. dr_Resource (snd c) \<noteq> name \<Longrightarrow>
   (\<exists>i. firstLargest cs i \<and> 0 < fst (cs ! i) \<and> scan name (0, None) cs = Inr (fst (cs ! i), Some (snd (cs ! i)))) \<or>
   (\<forall>c\<in>set cs. fst c \<le> 0) \<and> scan name (0, None) cs = Inr (0, None)"
proof (induction cs rule: rev_induct)
  case (snoc c cs)
  then consider (old) i where "firstLargest cs i" "0 < fst (cs ! i)" "scan name (0, None) cs = Inr (fst (cs ! i), Some (snd (cs ! i)))"
    | (none) "\<forall>c\<in>set cs. fst c \<le> 0" "scan name (0, None) cs = Inr (0, None)" by auto
  then show ?case
  proof cases
    case old
    show ?thesis
    proof (cases "fst c > fst (cs ! i)")
      case True
      with old snoc.prems have "firstLargest (cs @ [c]) (length cs)"
        by (auto simp: firstLargest_def nth_append less_Suc_eq)
      with True old snoc.prems show ?thesis by (intro disjI1 exI [of _ "length cs"]) (simp add: scan_append)
    next
      case False
      with old have "firstLargest (cs @ [c]) i" by (auto simp: firstLargest_def nth_append)
      with False old snoc.prems show ?thesis by (intro disjI1 exI [of _ i]) (simp add: scan_append nth_append firstLargest_def)
    qed
  next
    case none
    show ?thesis
    proof (cases "fst c > 0")
      case True
      have "fst (cs ! j) < fst c" if "j < length cs" for j using none(1) True nth_mem [OF that] by force
      then have "firstLargest (cs @ [c]) (length cs)" by (auto simp: firstLargest_def nth_append less_Suc_eq less_imp_le)
      with True none snoc.prems show ?thesis by (intro disjI1 exI [of _ "length cs"]) (simp add: scan_append)
    next
      case False
      with none snoc.prems show ?thesis by (simp add: scan_append)
    qed
  qed
qed simp

section \<open>The result\<close>

text \<open>C30. The search of discovery mode, when the nodes of every profile can be listed: if some candidate has the preferred
  resource name, the first such candidate is returned; otherwise the result is the first of the candidates with the largest
  count, if a count is positive, and an error if none is. Candidates are the pairs of a profile and a policy with a node that has a
  suitable device.\<close>

theorem Discover_best:
  assumes "so_devices S = Inr devices" and "so_policies S = Inr policies"
    and "\<forall>p\<in>set profiles. AvailableForSelector C w (SelectorUnion nodeSelector (pp_NodeSelector p)) = Inr (listed p)"
    and "cs = candidates S devices policies listed profiles"
    and "found = DiscoverPerformanceProfileAndPolicyWithAvailableNodes C S w name profiles nodeSelector"
  shows "case find (\<lambda>c. dr_Resource (snd c) = name) cs of
       Some c \<Rightarrow> found = Inr (snd c)
     | None \<Rightarrow>
         if \<forall>c\<in>set cs. fst c \<le> 0 then found = Inl noResources
         else \<exists>i. firstLargest cs i \<and> found = Inr (snd (cs ! i))"
proof -
  have run: "found =
      (case scan name (0, None) cs of
         Inl r \<Rightarrow> Inr r
       | Inr (n, r) \<Rightarrow> if n = 0 then Inl noResources else case r of None \<Rightarrow> Inl nilPointer | Some r \<Rightarrow> Inr r)"
  proof -
    have "searchProfiles S devices name policies (\<lambda>p. AvailableForSelector C w (SelectorUnion nodeSelector (pp_NodeSelector p)))
        (0, None) profiles = Inr (scan name (0, None) cs)"
      unfolding assms(4) by (rule searchProfiles_scan) (use assms(3) in blast)
    with assms(1,2,5) show ?thesis by (simp add: DiscoverPerformanceProfileAndPolicyWithAvailableNodes_def)
  qed
  show ?thesis
  proof (cases "find (\<lambda>c. dr_Resource (snd c) = name) cs")
    case (Some c)
    with run scan_preferred [OF this] show ?thesis by simp
  next
    case None
    then have "\<forall>c\<in>set cs. dr_Resource (snd c) \<noteq> name" unfolding find_None_iff by blast
    from scan_largest [OF this] show ?thesis
    proof (elim disjE exE conjE)
      fix i
      assume i: "firstLargest cs i" "0 < fst (cs ! i)" "scan name (0, None) cs = Inr (fst (cs ! i), Some (snd (cs ! i)))"
      have "\<not> (\<forall>c\<in>set cs. fst c \<le> 0)" using i(1,2) by (auto simp: firstLargest_def not_le intro!: bexI [of _ "cs ! i"])
      with run None i show ?thesis by auto
    next
      assume "\<forall>c\<in>set cs. fst c \<le> 0" "scan name (0, None) cs = Inr (0, None)"
      with run None show ?thesis by simp
    qed
  qed
qed

text \<open>Two policies on one node: without the preferred name the one with more resources is taken.\<close>

definition twoPolicies :: sriovApi where
  "twoPolicies =
     \<lparr>so_devices = Inr (\<lambda>_. Inr [\<lparr>dv_Name = ''eth0'', dv_Vendor = ''8086'', dv_VFs = 4\<rparr>]),
      so_policies = Inr [\<lparr>snp_Name = ''a'', snp_ResourceName = ''small'', snp_IsRdma = False, snp_DeviceType = ''vfio-pci''\<rparr>,
        \<lparr>snp_Name = ''b'', snp_ResourceName = ''large'', snp_IsRdma = False, snp_DeviceType = ''vfio-pci''\<rparr>],
      so_Selected = (\<lambda>_ _. True)\<rparr>"

definition resourceNode :: Node where
  "resourceNode = \<lparr>nd_Name = ''n'', nd_Labels = None,
     nd_Allocatable = [(''openshift.io/small'', \<lparr>qt_int64 = Some 2, qt_IsZero = False\<rparr>),
       (''openshift.io/large'', \<lparr>qt_int64 = Some 5, qt_IsZero = False\<rparr>)]\<rparr>"

definition oneNodeCluster :: "unit clusterApi" where
  "oneNodeCluster =
     \<lparr>ca_nodes = (\<lambda>_ _. Inr [resourceNode]), ca_pods = (\<lambda>_ _ _ _. Inr []), ca_getNode = (\<lambda>_ _. Inl nilPointer),
      ca_updateNode = (\<lambda>w n. (w, Inr n)), ca_patchNode = (\<lambda>w n p. (w, Inr ())),
      ca_exec = (\<lambda>w _ _ _. (w, [], None)), ca_ptpDevices = (\<lambda>_. Inr [])\<rparr>"

theorem Discover_best_witness:
  "case DiscoverPerformanceProfileAndPolicyWithAvailableNodes oneNodeCluster twoPolicies () ''other''
      [baseProfile ''p'' (nodePool ''cnf'')] [] of
     Inl _ \<Rightarrow> False | Inr r \<Rightarrow> dr_Resource r = ''large''"
proof -
  obtain devices policies where S: "so_devices twoPolicies = Inr devices" "so_policies twoPolicies = Inr policies"
    by (simp add: twoPolicies_def)
  let ?cs = "candidates twoPolicies devices policies (\<lambda>_. [resourceNode]) [baseProfile ''p'' (nodePool ''cnf'')]"
  have cs: "map (\<lambda>c. (fst c, dr_Resource (snd c))) ?cs = [(2, ''small''), (5, ''large'')]"
    using S by (auto simp: candidates_def candidatesOn_def resourceCountOf_def twoPolicies_def resourceNode_def suitable_def)
  then obtain c d where cd: "?cs = [c, d]" "fst c = 2" "fst d = 5" "dr_Resource (snd c) = ''small''" "dr_Resource (snd d) = ''large''"
    by (auto simp: map_eq_Cons_conv)
  let ?found = "DiscoverPerformanceProfileAndPolicyWithAvailableNodes oneNodeCluster twoPolicies () ''other''
      [baseProfile ''p'' (nodePool ''cnf'')] []"
  have "AvailableForSelector oneNodeCluster () sel = Inr [resourceNode]" for sel
    by (simp add: AvailableForSelector_def oneNodeCluster_def)
  with Discover_best [OF S _ cd(1) [symmetric] refl, of oneNodeCluster "()" "[]" "''other''"] cd(2-)
  obtain i where i: "firstLargest [c, d] i" "?found = Inr (snd ([c, d] ! i))" by auto
  from i(1) cd(2,3) have "i = 1" by (auto simp: firstLargest_def less_Suc_eq nth_Cons' split: if_splits)
  with i(2) cd(5) show ?thesis by simp
qed

end
