(* ===== verification/NodeRoles.thy ===== *)
theory NodeRoles
  imports MachinePools
begin

text \<open>
  \<open>ApplyKubeletConfigToNode\<close> and the labels of the nodes: the function it returns moves the node back to its role,
  whichever step failed.
\<close>

section \<open>Labels of nodes\<close>

text \<open>The labels of all nodes in a state are \<open>L w\<close>. A successful merge patch sets or removes one label of one node, a
  failed one changes nothing, and no other step of the procedure relabels nodes.\<close>

definition putLabel :: "(string \<Rightarrow> string \<Rightarrow> string option) \<Rightarrow> string \<Rightarrow> labelPatch \<Rightarrow> string \<Rightarrow> string \<Rightarrow> string option" where
  "putLabel ls node p = ls(node := (ls node)(fst p := snd p))"

definition labelStore :: "('w \<Rightarrow> string \<Rightarrow> string \<Rightarrow> string option) \<Rightarrow> ('s, 'w) poolApi \<Rightarrow> bool" where
  "labelStore L C \<longleftrightarrow>
     (\<forall>w n p w' r. ca_patchNode C w n p = (w', r) \<longrightarrow> L w' = (if is_ok r then putLabel (L w) n p else L w)) \<and>
     steady L C \<and>
     (\<forall>w p. L (fst (mc_createPool C w p)) = L w) \<and>
     (\<forall>w k. L (fst (mc_createKubelet C w k)) = L w)"

section \<open>Moving a node and moving it back\<close>

lemma store_steady: "labelStore L C \<Longrightarrow> steady L C"
  by (simp add: labelStore_def)

lemma setLabel_effect:
  assumes "labelStore L C" and "setLabel (clusterApi.truncate C) w n k v = (w', r)"
  shows "L w' = (if is_ok r then putLabel (L w) n (k, v) else L w)"
proof -
  obtain r' where p: "ca_patchNode C w n (k, v) = (w', r')" and r: "is_ok r \<longleftrightarrow> is_ok r'"
    using assms(2) by (auto simp: setLabel_def clusterApi.truncate_def map_error_def is_ok_iff split: prod.splits sum.splits go_error.splits)
  with assms(1) show ?thesis unfolding labelStore_def by metis
qed

lemma role_effects:
  assumes "labelStore L C"
  shows "addRole C node role w = Some (w', r) \<Longrightarrow>
      L w' = (if is_ok r then putLabel (L w) (nd_Name node) (rolePrefix @ role, Some []) else L w)"
    and "removeRole C node role w = Some (w', r) \<Longrightarrow>
      L w' = (if is_ok r then putLabel (L w) (nd_Name node) (rolePrefix @ role, None) else L w)"
  using setLabel_effect [OF assms] by (auto simp: addRole_def removeRole_def AddRoleTo_def RemoveRoleFrom_def)

definition movedBack :: "(string \<Rightarrow> string \<Rightarrow> string option) \<Rightarrow> string \<Rightarrow> string \<Rightarrow> string \<Rightarrow> string \<Rightarrow> string \<Rightarrow> string option" where
  "movedBack ls n newRole role = putLabel (putLabel ls n (rolePrefix @ newRole, None)) n (rolePrefix @ role, Some [])"

lemma moveBack_effect:
  assumes "labelStore L C" and "moveBack C node newRole role w = Some (w', Inr ())"
  shows "L w' = movedBack (L w) (nd_Name node) newRole role"
  using assms(2) unfolding moveBack_def
proof (cases rule: andThen_Some)
  case (went v x)
  with role_effects(2) [OF assms(1) went(1)] role_effects(1) [OF assms(1) went(2)] show ?thesis by (simp add: movedBack_def)
qed simp

lemma moveBackAndWait_effect:
  assumes "labelStore L C" and "moveBackAndWait C node newRole role w = Some (w', Inr ())"
  shows "L w' = movedBack (L w) (nd_Name node) newRole role"
  using assms(2) unfolding moveBackAndWait_def
proof (cases rule: andThen_Some)
  case (went v x)
  have "keeps L v (andThen (WaitForAtLeastOneMCPUpdating C v) (\<lambda>w _. WaitForAllMCPStable C w))"
    by (intro keeps_andThen keeps_waits [OF store_steady [OF assms(1)]])
  with went(2) have "L w' = L v" unfolding keeps_def by blast
  with moveBack_effect [OF assms(1)] went(1) show ?thesis by simp
qed simp

lemma orUndo_Some:
  assumes "orUndo r undo f = Some (w', u, y)"
  obtains (failed) e where "r = Some (w', Inl e)" "u = undo" "y = Inl e"
    | (went) v x where "r = Some (v, Inr x)" "f v x = Some (w', u, y)"
  using assms by (auto simp: orUndo_def split: option.splits sum.splits)

text \<open>The labels after the move, and moving back from there.\<close>

lemma movedBack_restores:
  assumes "ls n (rolePrefix @ role) = Some []" and "ls n (rolePrefix @ newRole) = None"
  shows "movedBack (putLabel (putLabel ls n (rolePrefix @ role, None)) n (rolePrefix @ newRole, Some [])) n newRole role = ls"
    and "putLabel (putLabel ls n (rolePrefix @ role, None)) n (rolePrefix @ role, Some []) = ls"
  using assms by (auto simp: movedBack_def putLabel_def fun_eq_iff)

lemma moveNode_undo:
  assumes store: "labelStore L C" and role: "FindRoleLabel node = role" "role \<noteq> []"
    and ls: "L w (nd_Name node) (rolePrefix @ role) = Some []" "L w (nd_Name node) (rolePrefix @ name) = None"
    and run: "moveNode C node name mcp w = Some (w1, undo, r)"
    and undo: "undo w2 = Some (w3, Inr ())" "L w2 = L w1"
  shows "L w3 = L w"
proof -
  note effects = role_effects [OF store]
  from run role have "orUndo (removeRole C node role w) nilFn (\<lambda>w _.
      orUndo (addRole C node name w) (addRole C node role) (\<lambda>w _.
      orUndo (WaitForMCPStable C mcp w) (moveBack C node name role) (\<lambda>w _.
        Some (w, moveBackAndWait C node name role, Inr ())))) = Some (w1, undo, r)"
    by (simp add: moveNode_def)
  then show ?thesis
  proof (cases rule: orUndo_Some)
    case (failed e)
    with effects(2) [OF failed(1)] undo show ?thesis by (simp add: nilFn_def)
  next
    case (went v x)
    have v: "L v = putLabel (L w) (nd_Name node) (rolePrefix @ role, None)" using effects(2) [OF went(1)] by simp
    from went(2) show ?thesis
    proof (cases rule: orUndo_Some)
      case (failed e)
      with effects(1) [OF failed(1)] undo v effects(1) [of node role w2 w3 "Inr ()"] movedBack_restores(2) [of "L w", OF ls] show ?thesis by simp
    next
      case added: (went u y)
      have u: "L u = putLabel (L v) (nd_Name node) (rolePrefix @ name, Some [])" using effects(1) [OF added(1)] by simp
      have stable: "L u' = L u" if "WaitForMCPStable C mcp u = Some (u', z)" for u' z
        using keeps_waits(1) [OF store_steady [OF store], of u mcp] that unfolding keeps_def by blast
      from added(2) have "L w1 = L u \<and> (undo = moveBack C node name role \<or> undo = moveBackAndWait C node name role)"
        by (cases rule: orUndo_Some) (auto dest: stable)
      with undo have "L w3 = movedBack (L u) (nd_Name node) name role"
        using moveBack_effect [OF store] moveBackAndWait_effect [OF store] by metis
      with u v movedBack_restores(1) [of "L w", OF ls] show ?thesis by simp
    qed
  qed
qed

lemma FindRoleLabel_unique:
  assumes "nd_Labels node = Some ls" and "(rolePrefix @ role, v) \<in> set ls" and "customRole (rolePrefix @ role)"
    and "\<forall>k\<in>fst ` set ls. customRole k \<longrightarrow> k = rolePrefix @ role"
  shows "FindRoleLabel node = role"
proof -
  have "find (\<lambda>(label, _). customRole label) ls \<noteq> None" using assms(2,3) by (auto simp: find_None_iff)
  then obtain k u where f: "find (\<lambda>(label, _). customRole label) ls = Some (k, u)" by auto
  then have "(k, u) \<in> set ls" "customRole k" by (auto simp: find_Some_iff in_set_conv_nth)
  with assms(4) have "k = rolePrefix @ role" by force
  with f assms(1) show ?thesis by (simp add: FindRoleLabel_def)
qed

text \<open>C27. \<^verbatim>\<open>ApplyKubeletConfigToNode\<close> can be undone whatever happened: for a node with exactly one role besides \<^verbatim>\<open>worker\<close>,
  if the function it returns, with a nil error or with an error, is called later on the same labels and succeeds, all nodes have the
  labels they had before.\<close>

theorem ApplyKubeletConfigToNode_undo:
  assumes "labelStore L C" and "nd_Labels node = Some ls" and "L w (nd_Name node) = mget ls"
    and "mget ls (rolePrefix @ role) = Some []" and "role \<noteq> []" and "customRole (rolePrefix @ role)"
    and "\<forall>k\<in>fst ` set ls. customRole k \<longrightarrow> k = rolePrefix @ role" and "mget ls (rolePrefix @ name) = None"
    and "ApplyKubeletConfigToNode C node name spec w = Some (w1, undo, r)"
    and "undo w2 = Some (w3, Inr ())" and "L w2 = L w1"
  shows "L w3 = L w"
proof -
  have role: "FindRoleLabel node = role"
    using FindRoleLabel_unique [OF assms(2) map_of_SomeD [OF assms(4)] assms(6,7)] .
  have creates: "keeps L w (CreateOrUpdate get (mc_createKubelet C) w obj)" "keeps L w (CreateOrUpdate get' (mc_createPool C) w obj')"
    for w get obj get' obj'
    using assms(1) by (auto simp: labelStore_def intro!: keeps_CreateOrUpdate)
  from assms(9) show ?thesis unfolding ApplyKubeletConfigToNode_def
  proof (cases rule: orUndo_Some)
    case (failed e)
    with creates(1) assms(10,11) show ?thesis unfolding keeps_def nilFn_def by fastforce
  next
    case (went u x)
    then have u: "L u = L w" using creates(1) unfolding keeps_def by blast
    from went(2) show ?thesis
    proof (cases rule: orUndo_Some)
      case (failed e)
      with creates(2) [of u] u assms(10,11) show ?thesis unfolding keeps_def nilFn_def by fastforce
    next
      case pool: (went v mcp)
      then have v: "L v = L w" using creates(2) [of u] u unfolding keeps_def by metis
      note wait = keeps_waits(4) [OF store_steady [OF assms(1)], of v name]
      from pool(2) show ?thesis
      proof (cases rule: orUndo_Some)
        case (failed e)
        with wait v assms(10,11) show ?thesis unfolding keeps_def nilFn_def by fastforce
      next
        case moved: (went z y)
        then have z: "L z = L w" using wait v unfolding keeps_def by metis
        have ls: "L z (nd_Name node) (rolePrefix @ role) = Some []" "L z (nd_Name node) (rolePrefix @ name) = None"
          using z assms(3,4,8) by simp_all
        from moveNode_undo [OF assms(1) role assms(5) ls moved(2) assms(10,11)] z show ?thesis by simp
      qed
    qed
  qed
qed

text \<open>A cluster whose state is the labels of its nodes, and in which every pool is ready.\<close>

definition readyPool :: "string \<Rightarrow> Pool" where
  "readyPool name = (nodePool name)\<lparr>mp_MachineCount := 1,
     mp_Conditions := [(''Updating'', ''True''), (''Updated'', ''True''), (''Updating'', ''False'')],
     mp_Sources := [''99-'' @ name @ ''-generated-kubelet'']\<rparr>"

type_synonym labelState = "string \<Rightarrow> string \<Rightarrow> string option"

definition readyCluster :: "(unit, labelState) poolApi" where
  "readyCluster =
     \<lparr>ca_nodes = (\<lambda>_ _. Inr []), ca_pods = (\<lambda>_ _ _ _. Inr []), ca_getNode = (\<lambda>_ _. Inl nilPointer),
      ca_updateNode = (\<lambda>w n. (w, Inr n)), ca_patchNode = (\<lambda>w n p. (putLabel w n p, Inr ())),
      ca_exec = (\<lambda>w _ _ _. (w, [], None)), ca_ptpDevices = (\<lambda>_. Inr []),
      mc_pool = (\<lambda>_ name. Inr (readyPool name)), mc_pools = (\<lambda>_. Inr [readyPool ''test'']),
      mc_createPool = (\<lambda>w p. (w, Inr p)), mc_kubelet = (\<lambda>_ name. Inr (kubeletConfigFor name ())),
      mc_createKubelet = (\<lambda>w k. (w, Inr k)), mc_tick = (\<lambda>_ w. w)\<rparr>"

definition roleNode :: Node where
  "roleNode = \<lparr>nd_Name = ''n1'', nd_Labels = Some [(rolePrefix @ ''cnf'', [])], nd_Allocatable = []\<rparr>"

definition roleState :: labelState where
  "roleState = (\<lambda>_ _. None)(''n1'' := map_of [(rolePrefix @ ''cnf'', [])])"

lemma readyCluster_store: "labelStore (\<lambda>w. w) readyCluster"
  by (auto simp: labelStore_def steady_def readyCluster_def)

lemma readyCluster_waits:
  "WaitForMCPStable readyCluster (readyPool name) w = Some (w, Inr ())"
  "waitUntilKubeletConfigHasUpdatedTheMCP readyCluster name w = Some (w, Inr ())"
  "WaitForAtLeastOneMCPUpdating readyCluster w = Some (w, Inr ())"
  "WaitForAllMCPStable readyCluster w = Some (w, Inr ())"
  by (simp_all add: WaitForMCPStable_def WaitForMCPUpdated_def WaitForCondition_def PollImmediate_def Poll_def andThen_def
      waitUntilKubeletConfigHasUpdatedTheMCP_def WaitForAtLeastOneMCPUpdating_def WaitForAllMCPStable_def map_error_def
      minutes_def readyCluster_def readyPool_def mcpHasCondition_def pollLoop_done)

lemma readyCluster_roles:
  "addRole readyCluster node role w = Some (putLabel w (nd_Name node) (rolePrefix @ role, Some []), Inr ())"
  "removeRole readyCluster node role w = Some (putLabel w (nd_Name node) (rolePrefix @ role, None), Inr ())"
  by (simp_all add: addRole_def removeRole_def AddRoleTo_def RemoveRoleFrom_def setLabel_def clusterApi.truncate_def
      readyCluster_def map_error_def)

lemma cnfRole: "customRole (rolePrefix @ ''cnf'')" "FindRoleLabel roleNode = ''cnf''"
  by (simp_all add: customRole_def rolePrefix_def workerRole_def FindRoleLabel_def roleNode_def TrimPrefix_def)

theorem ApplyKubeletConfigToNode_undo_witness:
  "\<exists>w1 undo w3. ApplyKubeletConfigToNode readyCluster roleNode ''test'' () roleState = Some (w1, undo, Inr ()) \<and>
     w1 ''n1'' (rolePrefix @ ''test'') = Some [] \<and> undo w1 = Some (w3, Inr ()) \<and> w3 = roleState"
proof -
  let ?w1 = "putLabel (putLabel roleState ''n1'' (rolePrefix @ ''cnf'', None)) ''n1'' (rolePrefix @ ''test'', Some [])"
  let ?undo = "moveBackAndWait readyCluster roleNode ''test'' ''cnf''"
  have run: "ApplyKubeletConfigToNode readyCluster roleNode ''test'' () roleState = Some (?w1, ?undo, Inr ())"
    using readyCluster_waits readyCluster_roles [of roleNode] cnfRole(2)
    by (simp add: Let_def ApplyKubeletConfigToNode_def CreateOrUpdate_def orUndo_def moveNode_def readyCluster_def [THEN arg_cong [where f = mc_kubelet]]
        readyCluster_def [THEN arg_cong [where f = mc_pool]] roleNode_def)
  obtain w3 where undone: "?undo ?w1 = Some (w3, Inr ())"
    by (simp add: moveBackAndWait_def moveBack_def andThen_def readyCluster_roles readyCluster_waits)
  let ?ls = "[(rolePrefix @ ''cnf'', [])]"
  have node: "nd_Labels roleNode = Some ?ls" "roleState (nd_Name roleNode) = mget ?ls" by (simp_all add: roleNode_def roleState_def fun_eq_iff)
  have labels: "mget ?ls (rolePrefix @ ''cnf'') = Some []" "mget ?ls (rolePrefix @ ''test'') = None"
    "\<forall>k\<in>fst ` set ?ls. customRole k \<longrightarrow> k = rolePrefix @ ''cnf''" by simp_all
  have "w3 = roleState"
  proof (rule ApplyKubeletConfigToNode_undo [where L = "\<lambda>w. w" and C = readyCluster and node = roleNode and ls = ?ls and
        role = "''cnf''" and name = "''test''" and spec = "()" and w = roleState and ?w1.0 = ?w1 and undo = ?undo and
        r = "Inr ()" and ?w2.0 = ?w1 and ?w3.0 = w3])
    show "''cnf'' \<noteq> []" by simp
  qed (fact readyCluster_store node labels cnfRole run undone refl)+
  moreover have "?w1 ''n1'' (rolePrefix @ ''test'') = Some []" by (simp add: putLabel_def)
  ultimately show ?thesis using run undone by blast
qed

section \<open>Where it fails\<close>

text \<open>A node without such a role gets the label of an empty role when it is moved back.\<close>

lemma moveBack_empty_role:
  "labelStore L C \<Longrightarrow> moveBack C node name [] w = Some (w', Inr ()) \<Longrightarrow> L w' (nd_Name node) rolePrefix = Some []"
  using moveBack_effect [of L C node name "[]" w w'] by (simp add: movedBack_def putLabel_def)

text \<open>A pool that was just created has no machines in its status: the wait for its update has no timeout.\<close>

lemma WaitForMCPUpdated_unlimited:
  "mp_MachineCount mcp = 0 \<Longrightarrow> WaitForMCPUpdated C mcp w \<noteq> Some (w', Inl e)"
  by (auto simp: WaitForMCPUpdated_def WaitForCondition_def PollImmediate_def minutes_def split: option.splits)

end
