(* ===== verification/ProfileSwap.thy ===== *)
theory ProfileSwap
  imports PerfProfiles NodeRoles
begin

text \<open>
  What overriding and restoring do to the profiles of the cluster: a created profile is valid, a second call finds it and
  changes nothing, and restoring leaves exactly the replaced profile.
\<close>

section \<open>The profiles of a cluster\<close>

text \<open>The profiles in a state are \<open>P w\<close>. What the API server promises: successful calls read or change the stored
  objects, and no profile appears or goes by itself.\<close>

definition profileStore :: "('w \<Rightarrow> string \<Rightarrow> PerformanceProfile option) \<Rightarrow> ('s, 'w) profileApi \<Rightarrow> bool" where
  "profileStore P A \<longleftrightarrow>
     (\<forall>w n p. P w n = Some p \<longrightarrow> pp_Name p = n) \<and>
     (\<forall>w n p. pf_get A w n = Inr p \<longrightarrow> P w n = Some p) \<and>
     (\<forall>w n e. pf_get A w n = Inl (NotFound e) \<longrightarrow> P w n = None) \<and>
     (\<forall>w ps. pf_list A w = Inr ps \<longrightarrow> P w = map_of (map (\<lambda>p. (pp_Name p, p)) ps)) \<and>
     (\<forall>w p w'. pf_create A w p = (w', Inr ()) \<longrightarrow> P w' = (P w)(pp_Name p \<mapsto> p)) \<and>
     (\<forall>w n w'. pf_delete A w n = (w', Inr ()) \<longrightarrow> P w' = (P w)(n := None)) \<and>
     (\<forall>w s. P (mc_tick A s w) = P w)"

lemma onCluster_Some:
  "onCluster st f = Some (st', r) \<longleftrightarrow> (\<exists>w. f (ps_cluster st) = Some (w, r) \<and> st' = st\<lparr>ps_cluster := w\<rparr>)"
  by (auto simp: onCluster_def split: option.splits)

lemma wait_keeps:
  assumes "profileStore P A" and "WaitForMCPStable (pools A) mcp w = Some (w', r)"
  shows "P w' = P w"
proof -
  have "steady P (pools A)" using assms(1) by (simp add: profileStore_def steady_def poolApi.truncate_def)
  from keeps_waits(1) [OF this, of w mcp] assms(2) show ?thesis unfolding keeps_def by blast
qed

lemma wait_profiles:
  assumes "profileStore P A" and "onCluster st (WaitForMCPStable (pools A) mcp) = Some (st', r)"
  shows "P (ps_cluster st') = P (ps_cluster st) \<and> st' = st\<lparr>ps_cluster := ps_cluster st'\<rparr>"
  using assms wait_keeps [OF assms(1)] by (auto simp: onCluster_Some)

lemma deleteAll_profiles:
  "profileStore P A \<Longrightarrow> deleteAll A ps w = Some (w', Inr ()) \<Longrightarrow> P w' = (\<lambda>n. if n \<in> pp_Name ` set ps then None else P w n)"
proof (induction ps arbitrary: w)
  case (Cons p ps)
  then obtain v where v: "pf_delete A w (pp_Name p) = (v, Inr ())" "deleteAll A ps v = Some (w', Inr ())"
    by (auto simp: andThen_ok)
  from v(1) Cons.prems(1) have "P v = (P w)(pp_Name p := None)" by (simp add: profileStore_def)
  with Cons.IH [OF Cons.prems(1) v(2)] show ?case by (auto simp: fun_eq_iff)
qed simp

lemma Clean_profiles:
  assumes "profileStore P A" and "CleanPerformanceProfiles A w = Some (w', Inr ())"
  shows "P w' = Map.empty"
proof -
  from assms(2) obtain ps where ps: "pf_list A w = Inr ps" "deleteAll A ps w = Some (w', Inr ())"
    by (auto simp: CleanPerformanceProfiles_def andThen_ok)
  then have "P w n = None" if "n \<notin> pp_Name ` set ps" for n
    using assms(1) that by (auto simp: profileStore_def map_of_eq_None_iff)
  with deleteAll_profiles [OF assms(1) ps(2)] show ?thesis by auto
qed

section \<open>A created profile is valid\<close>

lemma isolated_parse: "cpuParse ''8-15'' = Inr {8..15}"
proof -
  have "cpuString {8..15} = ''8-15''" by code_simp
  moreover have "{8..15 :: int} \<subseteq> {0..<2 ^ 63 - 1}" by auto
  ultimately show ?thesis using cpuParse_cpuString [of "{8..15}"] by simp
qed

lemma newProfile_valid:
  assumes "newProfile name mcp arch = Inr (p, sz)"
  shows "ValidatePerformanceProfile p = Inr (True, Some sz) \<and> pp_Name p = name"
proof -
  have "length (cpuList {8..15}) = 8" by (simp add: cpuList_def)
  with assms isolated_parse show ?thesis
    by (auto simp: newProfile_def ValidatePerformanceProfile_def baseProfile_def hugePages_def usablePage_def
        X86PerformanceProfileHugepageSize_def Arm64KPerformanceProfileHugepageSize_def split: if_splits)
qed

lemma Create_profiles:
  assumes "profileStore P A" and "CreatePerformanceProfile A name mcp st = Some (st', Inr ())"
  obtains p sz where "ValidatePerformanceProfile p = Inr (True, Some sz)" "P (ps_cluster st') = (P (ps_cluster st))(name \<mapsto> p)"
    "ps_HugePageSize st' = sz" "ps_Original st' = ps_Original st"
proof -
  from assms(2) obtain p sz where run: "bind_res (poolArch A mcp (ps_cluster st)) (newProfile name mcp) = Inr (p, sz)"
    "onCluster (st\<lparr>ps_HugePageSize := sz\<rparr>) (\<lambda>w. Some (pf_create A w p)) = Some (st', Inr ())"
    by (auto simp: CreatePerformanceProfile_def split: sum.splits)
  from run(1) newProfile_valid have valid: "ValidatePerformanceProfile p = Inr (True, Some sz)" "pp_Name p = name"
    by (auto simp: bind_res_Inr_iff)
  from run(2) obtain w where w: "pf_create A (ps_cluster st) p = (w, Inr ())" "st' = st\<lparr>ps_HugePageSize := sz, ps_cluster := w\<rparr>"
    by (auto simp: onCluster_Some)
  from w(1) valid(2) assms(1) have "P w = (P (ps_cluster st))(name \<mapsto> p)" unfolding profileStore_def by blast
  with valid(1) w(2) show ?thesis by (intro that) simp_all
qed

lemma override_profiles:
  assumes store: "profileStore P A" and "overrideProfile A name poolName found st = Some (st', Inr ())"
  obtains p sz where "ValidatePerformanceProfile p = Inr (True, Some sz)" "P (ps_cluster st') name = Some p"
    "ps_HugePageSize st' = sz" "ps_Original st' = (if found = None then ps_Original st else found)"
proof -
  from assms(2) obtain mcp u v where u: "(case found of
          None \<Rightarrow> Some (st, Inr ())
        | Some p \<Rightarrow> andThen (onCluster (st\<lparr>ps_Original := Some p\<rparr>) (CleanPerformanceProfiles A)) (\<lambda>st _.
              onCluster st (WaitForMCPStable (pools A) mcp))) = Some (u, Inr ())"
    and v: "CreatePerformanceProfile A name mcp u = Some (v, Inr ())"
    and w: "onCluster v (WaitForMCPStable (pools A) mcp) = Some (st', Inr ())"
    by (auto simp: overrideProfile_def andThen_ok onCluster_Some)
  have u': "ps_Original u = (if found = None then ps_Original st else found)"
    using u wait_profiles [OF store] by (cases found) (fastforce simp: andThen_ok onCluster_Some)+
  from Create_profiles [OF store v] obtain p sz where p: "ValidatePerformanceProfile p = Inr (True, Some sz)"
    "P (ps_cluster v) = (P (ps_cluster u))(name \<mapsto> p)" "ps_HugePageSize v = sz" "ps_Original v = ps_Original u" .
  from wait_profiles [OF store w] have "P (ps_cluster st') = P (ps_cluster v)" "ps_HugePageSize st' = ps_HugePageSize v"
    "ps_Original st' = ps_Original v" by (metis ppState.select_convs ppState.surjective ppState.update_convs)+
  with p u' show ?thesis by (intro that [of p sz]) simp_all
qed

section \<open>Overriding twice, and restoring\<close>

text \<open>C28. \<^verbatim>\<open>FindOrOverridePerformanceProfile\<close> is idempotent: once it has succeeded, a second call finds a valid profile of the name
  and leaves the cluster, the saved profile and the huge page size as they are, so that nodes are not rebooted again. It
  succeeds, or the server fails to answer.\<close>

theorem FindOrOverride_idempotent:
  assumes "profileStore P A" and "FindOrOverridePerformanceProfile A name poolName st = Some (st1, Inr ())"
    and "FindOrOverridePerformanceProfile A name poolName st1 = Some (st2, r)"
  shows "st2 = st1 \<and> (r = Inr () \<or> (\<exists>e. pf_get A (ps_cluster st1) name = Inl (ApiError e)))"
proof (cases "\<exists>p sz. pf_get A (ps_cluster st) name = Inr p \<and> ValidatePerformanceProfile p = Inr (True, sz)")
  case True
  then obtain p sz where p: "pf_get A (ps_cluster st) name = Inr p" "ValidatePerformanceProfile p = Inr (True, sz)" by blast
  with assms(2) have st1: "st1 = setSize sz st" by (simp add: FindOrOverridePerformanceProfile_def)
  then have "ps_cluster st1 = ps_cluster st" "setSize sz st1 = st1" by (simp_all add: setSize_def split: option.splits)
  with assms(3) p show ?thesis by (simp add: FindOrOverridePerformanceProfile_def)
next
  case False
  with assms(2) obtain found st0 where "overrideProfile A name poolName found st0 = Some (st1, Inr ())"
    by (auto simp: FindOrOverridePerformanceProfile_def split: sum.splits apiError.splits if_splits)
  from override_profiles [OF assms(1) this] obtain p where p: "ValidatePerformanceProfile p = Inr (True, Some (ps_HugePageSize st1))"
    "P (ps_cluster st1) name = Some p" by metis
  show ?thesis
  proof (cases "pf_get A (ps_cluster st1) name")
    case (Inl e)
    with p(2) assms(1) obtain m where "e = ApiError m" by (cases e) (auto simp: profileStore_def)
    with Inl assms(3) show ?thesis by (simp add: FindOrOverridePerformanceProfile_def)
  next
    case (Inr q)
    with p(2) assms(1) have "q = p" by (simp add: profileStore_def)
    with Inr p(1) assms(3) show ?thesis by (simp add: FindOrOverridePerformanceProfile_def setSize_def)
  qed
qed

text \<open>C29. Restoring undoes an override of an existing profile, but not more: when an invalid profile was overridden and
  \<^verbatim>\<open>RestorePerformanceProfile\<close> succeeds later, the cluster has exactly one profile, the replaced one without its labels
  and annotations. Every other profile that the cluster had is gone.\<close>

theorem RestorePerformanceProfile_restores:
  assumes "profileStore P A" and "P (ps_cluster st) name = Some p" and "pf_get A (ps_cluster st) name = Inr p"
    and "ValidatePerformanceProfile p = Inr (False, sz)"
    and "FindOrOverridePerformanceProfile A name poolName st = Some (st1, Inr ())"
    and "ps_Original st2 = ps_Original st1"
    and "RestorePerformanceProfile A poolName st2 = Some (st3, Inr ())"
  shows "P (ps_cluster st3) = [name \<mapsto> onlyName p]"
proof -
  from assms(3-5) have "overrideProfile A name poolName (Some p) (setSize sz st) = Some (st1, Inr ())"
    by (simp add: FindOrOverridePerformanceProfile_def)
  from override_profiles [OF assms(1) this] assms(6) have saved: "ps_Original st2 = Some p" by (metis option.distinct(1))
  have name: "pp_Name (onlyName p) = name" using assms(1,2) by (simp add: profileStore_def onlyName_def)
  from assms(7) saved obtain mcp u v x y where
    u: "CleanPerformanceProfiles A (ps_cluster st2) = Some (u, Inr ())" and
    v: "WaitForMCPStable (pools A) mcp u = Some (v, Inr ())" and
    x: "pf_create A v (onlyName p) = (x, Inr ())" and
    y: "WaitForMCPStable (pools A) mcp x = Some (y, Inr ())" "ps_cluster st3 = y"
    by (auto simp: RestorePerformanceProfile_def andThen_ok onCluster_Some)
  have "P v = Map.empty" using Clean_profiles [OF assms(1) u] wait_keeps [OF assms(1) v] by simp
  moreover have "P x = (P v)(name \<mapsto> onlyName p)" using assms(1) x name unfolding profileStore_def by metis
  ultimately show ?thesis using wait_keeps [OF assms(1) y(1)] y(2) by simp
qed

section \<open>A cluster that keeps its promises\<close>

text \<open>The state is the list of the profiles; every pool is ready and has one node.\<close>

definition profileMap :: "PerformanceProfile list \<Rightarrow> string \<Rightarrow> PerformanceProfile option" where
  "profileMap w = map_of (map (\<lambda>p. (pp_Name p, p)) w)"

definition profileCluster :: "(unit, PerformanceProfile list) profileApi" where
  "profileCluster =
     \<lparr>ca_nodes = (\<lambda>_ _. Inr []), ca_pods = (\<lambda>_ _ _ _. Inr []), ca_getNode = (\<lambda>_ _. Inl nilPointer),
      ca_updateNode = (\<lambda>w n. (w, Inr n)), ca_patchNode = (\<lambda>w n p. (w, Inr ())),
      ca_exec = (\<lambda>w _ _ _. (w, [], None)), ca_ptpDevices = (\<lambda>_. Inr []),
      mc_pool = (\<lambda>_ name. Inr (readyPool name)), mc_pools = (\<lambda>_. Inr []),
      mc_createPool = (\<lambda>w p. (w, Inr p)), mc_kubelet = (\<lambda>_ name. Inr (kubeletConfigFor name ())),
      mc_createKubelet = (\<lambda>w k. (w, Inr k)), mc_tick = (\<lambda>_ w. w),
      pf_get = (\<lambda>w n. case profileMap w n of None \<Rightarrow> Inl (NotFound ''not found'') | Some p \<Rightarrow> Inr p),
      pf_list = Inr, pf_create = (\<lambda>w p. (p # w, Inr ())),
      pf_delete = (\<lambda>w n. (filter (\<lambda>p. pp_Name p \<noteq> n) w, Inr ())), pf_archs = (\<lambda>_ _. Inr [''amd64''])\<rparr>"

lemma profileMap_delete: "profileMap (filter (\<lambda>p. pp_Name p \<noteq> n) w) = (profileMap w)(n := None)"
  by (induction w) (auto simp: profileMap_def)

lemma profileMap_name: "profileMap w n = Some p \<Longrightarrow> pp_Name p = n"
  unfolding profileMap_def by (drule map_of_SomeD) auto

lemma profileCluster_store: "profileStore profileMap profileCluster"
  unfolding profileStore_def
proof (intro conjI allI impI)
  fix w n p
  assume "profileMap w n = Some p"
  then show "pp_Name p = n" by (rule profileMap_name)
qed (auto simp: profileCluster_def profileMap_delete split: option.splits, simp_all add: profileMap_def)

lemma profileCluster_wait: "WaitForMCPStable (pools profileCluster) (readyPool name) w = Some (w, Inr ())"
  by (simp add: WaitForMCPStable_def WaitForMCPUpdated_def WaitForCondition_def PollImmediate_def andThen_def minutes_def
      poolApi.truncate_def profileCluster_def readyPool_def mcpHasCondition_def pollLoop_done)

definition smallProfile :: PerformanceProfile where
  "smallProfile = (baseProfile ''perf'' (readyPool ''cnf''))\<lparr>pp_Annotations := [(''a'', ''b'')]\<rparr>"

lemma smallProfile_invalid: "ValidatePerformanceProfile smallProfile = Inr (False, None)"
  using isolated_parse by (simp add: ValidatePerformanceProfile_def smallProfile_def baseProfile_def cpuList_def)

definition swapState :: "PerformanceProfile list \<Rightarrow> PerformanceProfile list ppState" where
  "swapState w = \<lparr>ps_cluster = w, ps_Original = None, ps_HugePageSize = []\<rparr>"

definition largeProfile :: PerformanceProfile where
  "largeProfile = (baseProfile ''perf'' (readyPool ''cnf''))\<lparr>pp_HugePages := hugePages X86PerformanceProfileHugepageSize 10\<rparr>"

lemma largeProfile_new: "newProfile ''perf'' (readyPool ''cnf'') ''amd64'' = Inr (largeProfile, X86PerformanceProfileHugepageSize)"
  by (simp add: newProfile_def largeProfile_def readyPool_def nodePool_def)

lemma profileCluster_create:
  "CreatePerformanceProfile profileCluster ''perf'' (readyPool ''cnf'') st =
     Some (st\<lparr>ps_HugePageSize := X86PerformanceProfileHugepageSize, ps_cluster := largeProfile # ps_cluster st\<rparr>, Inr ())"
proof -
  have "poolArch profileCluster (readyPool ''cnf'') w = Inr ''amd64''" for w
    by (simp add: poolArch_def profileCluster_def readyPool_def nodePool_def)
  moreover have "pf_create profileCluster w p = (p # w, Inr ())" for w p by (simp add: profileCluster_def)
  ultimately show ?thesis by (simp add: CreatePerformanceProfile_def largeProfile_new onCluster_def)
qed

definition swapped :: "PerformanceProfile list ppState" where
  "swapped = \<lparr>ps_cluster = [largeProfile], ps_Original = Some smallProfile, ps_HugePageSize = X86PerformanceProfileHugepageSize\<rparr>"

lemma profileCluster_override:
  "overrideProfile profileCluster ''perf'' ''cnf'' (Some smallProfile) (swapState [smallProfile]) = Some (swapped, Inr ())"
proof -
  have "poolOf profileCluster ''cnf'' w = Inr (readyPool ''cnf'')" for w by (simp add: poolOf_def profileCluster_def)
  moreover have "CleanPerformanceProfiles profileCluster [smallProfile] = Some ([], Inr ())"
    by (simp add: CleanPerformanceProfiles_def andThen_def profileCluster_def)
  ultimately show ?thesis
    by (simp add: overrideProfile_def onCluster_def andThen_def profileCluster_wait profileCluster_create swapState_def swapped_def)
qed

lemma profileCluster_run:
  "FindOrOverridePerformanceProfile profileCluster ''perf'' ''cnf'' (swapState [smallProfile]) = Some (swapped, Inr ())"
proof -
  have "pf_get profileCluster [smallProfile] ''perf'' = Inr smallProfile"
    by (simp add: profileCluster_def profileMap_def smallProfile_def baseProfile_def)
  moreover have "ps_cluster (swapState [smallProfile]) = [smallProfile]" by (simp add: swapState_def)
  ultimately show ?thesis using profileCluster_override
    by (simp add: FindOrOverridePerformanceProfile_def smallProfile_invalid setSize_def)
qed

theorem FindOrOverride_idempotent_witness:
  "FindOrOverridePerformanceProfile profileCluster ''perf'' ''cnf'' swapped = Some (swapped, Inr ())"
proof -
  have get: "pf_get profileCluster (ps_cluster swapped) ''perf'' = Inr largeProfile"
    by (simp add: profileCluster_def swapped_def profileMap_def largeProfile_def baseProfile_def)
  moreover have "ValidatePerformanceProfile largeProfile = Inr (True, Some X86PerformanceProfileHugepageSize)"
    using newProfile_valid [OF largeProfile_new] by simp
  ultimately obtain st2 where r: "FindOrOverridePerformanceProfile profileCluster ''perf'' ''cnf'' swapped = Some (st2, Inr ())"
    by (simp add: FindOrOverridePerformanceProfile_def)
  from FindOrOverride_idempotent [OF profileCluster_store profileCluster_run r] r show ?thesis by simp
qed

theorem RestorePerformanceProfile_restores_witness:
  "\<exists>st3. RestorePerformanceProfile profileCluster ''cnf'' swapped = Some (st3, Inr ()) \<and>
     profileMap (ps_cluster st3) = [''perf'' \<mapsto> onlyName smallProfile]"
proof -
  have pool: "poolOf profileCluster ''cnf'' w = Inr (readyPool ''cnf'')" for w by (simp add: poolOf_def profileCluster_def)
  have clean: "CleanPerformanceProfiles profileCluster [largeProfile] = Some ([], Inr ())"
    by (simp add: CleanPerformanceProfiles_def andThen_def profileCluster_def)
  have create: "pf_create profileCluster w p = (p # w, Inr ())" for w p by (simp add: profileCluster_def)
  obtain st3 where r: "RestorePerformanceProfile profileCluster ''cnf'' swapped = Some (st3, Inr ())"
    by (simp add: RestorePerformanceProfile_def swapped_def andThen_def onCluster_def pool clean create profileCluster_wait)
  have small: "profileMap (ps_cluster (swapState [smallProfile])) ''perf'' = Some smallProfile"
    "pf_get profileCluster (ps_cluster (swapState [smallProfile])) ''perf'' = Inr smallProfile"
    by (simp_all add: swapState_def profileCluster_def profileMap_def smallProfile_def baseProfile_def)
  from RestorePerformanceProfile_restores [OF profileCluster_store small smallProfile_invalid profileCluster_run refl r] r
  show ?thesis by blast
qed

end
