(* ===== verification/NamespaceOps.thy ===== *)
theory NamespaceOps
  imports MachinePools
begin

text \<open>
  Namespaces of the tests (\<^verbatim>\<open>cnf-tests/testsuites/pkg/namespaces/namespaces.go\<close>) and the fixtures that set them up and clean
  them (\<^verbatim>\<open>cnf-tests/testsuites/pkg/features/features.go\<close>).

  The API server is the parameter \<open>nsApi\<close>; what the code relies on is the locale \<open>cluster\<close>. A failed assertion of
  the test framework ends the test and is a panic here.
\<close>

section \<open>Names\<close>

record nsVars =
  nv_DpdkTest :: string
  nv_SCTPTest :: string
  nv_OVSQOSTest :: string
  nv_SRIOVOperator :: string
  nv_PTPOperator :: string

definition SriovTuningTest :: string where "SriovTuningTest = ''tuningsriov-testing''"
definition TuningTest :: string where "TuningTest = ''tuning-testing''"
definition BondTestNamespace :: string where "BondTestNamespace = ''bond-testing''"

definition orElse :: "string \<Rightarrow> string \<Rightarrow> string" where
  "orElse v dflt = (if v = [] then dflt else v)"

definition initNamespaces :: "(string \<Rightarrow> string option) \<Rightarrow> nsVars" where
  "initNamespaces lookup =
     (let env = (\<lambda>n. case lookup n of None \<Rightarrow> [] | Some v \<Rightarrow> v);
          override = (\<lambda>n v. case lookup n of None \<Rightarrow> v | Some v' \<Rightarrow> v') in
      \<lparr>nv_DpdkTest = orElse (env ''DPDK_TEST_NAMESPACE'') ''dpdk-testing'',
       nv_SCTPTest = orElse (env ''SCTP_TEST_NAMESPACE'') ''sctptest'',
       nv_OVSQOSTest = orElse (env ''OVS_QOS_TEST_NAMESPACE'') ''ovs-qos-testing'',
       nv_SRIOVOperator = override ''SRIOV_OPERATOR_NAMESPACE'' (override ''OPERATOR_NAMESPACE'' ''openshift-sriov-network-operator''),
       nv_PTPOperator = override ''PTP_OPERATOR_NAMESPACE'' ''openshift-ptp''\<rparr>)"

definition namespaceLabels :: "(string, string) gomap" where
  "namespaceLabels =
     [(''pod-security.kubernetes.io/audit'', ''privileged''), (''pod-security.kubernetes.io/enforce'', ''privileged''),
      (''pod-security.kubernetes.io/warn'', ''privileged''), (''security.openshift.io/scc.podSecurityLabelSync'', ''false'')]"

definition GetPSALabels :: "(string, string) gomap" where
  "GetPSALabels = fold (\<lambda>(k, v) m. mput m k v) namespaceLabels []"

section \<open>The API\<close>

record Namespace =
  ns_Name :: string
  ns_Labels :: "(string, string) gomap option"

datatype objectKind = NetworkPolicies | Pods | Services

datatype createError = AlreadyExists string | CreateError string

record 'w nsApi =
  na_get :: "'w \<Rightarrow> string \<Rightarrow> apiError + Namespace"
  na_create :: "'w \<Rightarrow> Namespace \<Rightarrow> 'w \<times> createError option"
  na_update :: "'w \<Rightarrow> Namespace \<Rightarrow> 'w \<times> apiError option"
  na_delete :: "'w \<Rightarrow> string \<Rightarrow> 'w \<times> apiError option"
  na_list :: "'w \<Rightarrow> objectKind \<Rightarrow> string \<Rightarrow> apiError + string list"
  na_deleteObject :: "'w \<Rightarrow> objectKind \<Rightarrow> string \<Rightarrow> string \<Rightarrow> 'w \<times> apiError option"
  na_deletePods :: "'w \<Rightarrow> string \<Rightarrow> 'w \<times> apiError option"
  na_tick :: "nat \<Rightarrow> 'w \<Rightarrow> 'w"

fun isNotFound :: "apiError \<Rightarrow> bool" where
  "isNotFound (NotFound _) = True"
| "isNotFound (ApiError _) = False"

definition nsGone :: "'w nsApi \<Rightarrow> string \<Rightarrow> 'w \<Rightarrow> bool" where
  "nsGone A nsName w \<longleftrightarrow> (case na_get A w nsName of Inl e \<Rightarrow> isNotFound e | Inr _ \<Rightarrow> False)"

section \<open>Operations\<close>

definition WaitForNamespaceDeletion :: "'w nsApi \<Rightarrow> string \<Rightarrow> int \<Rightarrow> 'w \<Rightarrow> ('w, unit) effect" where
  "WaitForNamespaceDeletion A nsName timeout w = PollImmediate (na_tick A) 1 timeout (nsGone A nsName) w"

fun errorResult :: "apiError option \<Rightarrow> unit res" where
  "errorResult None = Inr ()"
| "errorResult (Some e) = Inl (apiFailure e)"

definition AddPSALabelsToNamespace :: "'w nsApi \<Rightarrow> string \<Rightarrow> 'w \<Rightarrow> 'w \<times> unit res" where
  "AddPSALabelsToNamespace A namespace w =
     (case na_get A w namespace of
        Inl e \<Rightarrow> (w, Inl (apiFailure e))
      | Inr ns \<Rightarrow>
          (let labels = (case ns_Labels ns of None \<Rightarrow> [] | Some ls \<Rightarrow> ls);
               labels = fold (\<lambda>(k, v) m. mput m k v) GetPSALabels labels;
               (w', err) = na_update A w (ns\<lparr>ns_Labels := Some labels\<rparr>) in
           (w', errorResult err)))"

definition CreateNamespace :: "'w nsApi \<Rightarrow> string \<Rightarrow> 'w \<Rightarrow> 'w \<times> unit res" where
  "CreateNamespace A namespace w =
     (case na_create A w \<lparr>ns_Name = namespace, ns_Labels = Some namespaceLabels\<rparr> of
        (w', None) \<Rightarrow> (w', Inr ())
      | (w', Some (AlreadyExists _)) \<Rightarrow> AddPSALabelsToNamespace A namespace w'
      | (w', Some (CreateError e)) \<Rightarrow> (w', Inl (Error e)))"

definition DeleteNamespace :: "'w nsApi \<Rightarrow> string \<Rightarrow> 'w \<Rightarrow> ('w, unit) effect" where
  "DeleteNamespace A namespace w =
     (case na_delete A w namespace of
        (w', Some (ApiError e)) \<Rightarrow> Some (w', Inl (Error e))
      | (w', _) \<Rightarrow> WaitForNamespaceDeletion A namespace (minutes 5) w')"

text \<open>A loop of \<open>Clean\<close>: \<open>Inl\<close> is an error that is returned at once, \<open>Inr\<close> the value of \<^verbatim>\<open>err\<close> after the loop.\<close>

fun cleanLoop :: "'w nsApi \<Rightarrow> objectKind \<Rightarrow> string \<Rightarrow> string \<Rightarrow> apiError option \<Rightarrow> string list \<Rightarrow> 'w \<Rightarrow> 'w \<times> (apiError + apiError option)" where
  "cleanLoop A k namespace pre err [] w = (w, Inr err)"
| "cleanLoop A k namespace pre err (name # names) w =
     (if HasPrefix name pre then
        (case na_deleteObject A w k namespace name of
           (w', Some (ApiError e)) \<Rightarrow> (w', Inl (ApiError e))
         | (w', err') \<Rightarrow> cleanLoop A k namespace pre err' names w')
      else cleanLoop A k namespace pre err names w)"

definition cleanKind :: "'w nsApi \<Rightarrow> objectKind \<Rightarrow> string \<Rightarrow> string \<Rightarrow> 'w \<Rightarrow> 'w \<times> (apiError + apiError option)" where
  "cleanKind A k namespace pre w =
     (case na_list A w k namespace of
        Inl e \<Rightarrow> (w, Inl e)
      | Inr items \<Rightarrow> cleanLoop A k namespace pre None items w)"

definition CleanNamespace :: "'w nsApi \<Rightarrow> string \<Rightarrow> string \<Rightarrow> 'w \<Rightarrow> 'w \<times> apiError option" where
  "CleanNamespace A namespace pre w =
     (if nsGone A namespace w then (w, None)
      else case cleanKind A NetworkPolicies namespace pre w of
        (w1, Inl e) \<Rightarrow> (w1, Some e)
      | (w1, Inr _) \<Rightarrow>
          (case cleanKind A Pods namespace pre w1 of
             (w2, Inl e) \<Rightarrow> (w2, Some e)
           | (w2, Inr _) \<Rightarrow>
               (case cleanKind A Services namespace pre w2 of
                  (w3, Inl e) \<Rightarrow> (w3, Some e)
                | (w3, Inr err) \<Rightarrow> (w3, err))))"

definition NamespaceExists :: "'w nsApi \<Rightarrow> string \<Rightarrow> 'w \<Rightarrow> bool" where
  "NamespaceExists A namespace w \<longleftrightarrow> \<not> nsGone A namespace w"

text \<open>\<^verbatim>\<open>Eventually\<close> asks at once and then after every interval before the time is over. An assertion that fails inside the
  function ends the test.\<close>

fun eventuallyLoop :: "('w \<Rightarrow> 'w) \<Rightarrow> ('w \<Rightarrow> bool res) \<Rightarrow> nat \<Rightarrow> 'w \<Rightarrow> 'w \<times> unit res" where
  "eventuallyLoop tick f 0 w =
     (case f w of Inl e \<Rightarrow> (w, Inl e) | Inr True \<Rightarrow> (w, Inr ()) | Inr False \<Rightarrow> (w, Inl (Panic ''Timed out'')))"
| "eventuallyLoop tick f (Suc n) w =
     (case f w of Inl e \<Rightarrow> (w, Inl e) | Inr True \<Rightarrow> (w, Inr ()) | Inr False \<Rightarrow> eventuallyLoop tick f n (tick w))"

definition Eventually :: "(nat \<Rightarrow> 'w \<Rightarrow> 'w) \<Rightarrow> nat \<Rightarrow> nat \<Rightarrow> ('w \<Rightarrow> bool res) \<Rightarrow> 'w \<Rightarrow> 'w \<times> unit res" where
  "Eventually tick interval timeout f w = eventuallyLoop (tick interval) f ((timeout - 1) div interval) w"

definition unexpected :: "apiError \<Rightarrow> go_error" where
  "unexpected e = Panic ''Unexpected error''"

definition CleanPods :: "'w nsApi \<Rightarrow> string \<Rightarrow> 'w \<Rightarrow> 'w \<times> unit res" where
  "CleanPods A namespace w =
     (if \<not> NamespaceExists A namespace w then (w, Inr ())
      else case na_deletePods A w namespace of
        (w', Some e) \<Rightarrow> (w', Inl (unexpected e))
      | (w', None) \<Rightarrow>
          Eventually (na_tick A) 10 180 (\<lambda>w. case na_list A w Pods namespace of
              Inl e \<Rightarrow> Inl (unexpected e)
            | Inr items \<Rightarrow> Inr (items = [])) w')"

fun CleanPodsIn :: "'w nsApi \<Rightarrow> string list \<Rightarrow> 'w \<Rightarrow> 'w \<times> unit res" where
  "CleanPodsIn A [] w = (w, Inr ())"
| "CleanPodsIn A (ns # nss) w = (case CleanPods A ns w of (w', Inl e) \<Rightarrow> (w', Inl e) | (w', Inr _) \<Rightarrow> CleanPodsIn A nss w')"

section \<open>Fixtures\<close>

datatype SuiteFixture =
  PAOFixture | DPDKFixture | PTPFixture | SriovFixture | SCTPFixture | VRFFixture | OVSQOSFixture | FECFixture
| TuningcniFixture | BondcniFixture | MultiNetworkPolicyFixture

text \<open>What the fixtures call of other packages: names, and functions that clean or set up the state of operators.\<close>

record 'w fixtureEnv =
  fx_discovery :: bool
  fx_perfNamespace :: string
  fx_sriovNamespace :: string
  fx_perfCleanAll :: "'w \<Rightarrow> 'w"
  fx_ptpSetup :: "'w \<Rightarrow> 'w"
  fx_ptpCleanAll :: "'w \<Rightarrow> 'w \<times> unit res"
  fx_sriovCleanAll :: "'w \<Rightarrow> 'w"
  fx_fecClean :: "'w \<Rightarrow> 'w"

definition vrfNamespace :: string where "vrfNamespace = ''vrf-testing''"
definition multiNamespaces :: "string list" where "multiNamespaces = 
  [''sriov-conformance-testing-x'', ''sriov-conformance-testing-y'', ''sriov-conformance-testing-z'']"

definition SetupFixture :: "'w nsApi \<Rightarrow> nsVars \<Rightarrow> 'w fixtureEnv \<Rightarrow> SuiteFixture \<Rightarrow> 'w \<Rightarrow> 'w \<times> unit res" where
  "SetupFixture A V F fixture w =
     (case fixture of
        PAOFixture \<Rightarrow> CreateNamespace A (fx_perfNamespace F) w
      | DPDKFixture \<Rightarrow> CreateNamespace A (nv_DpdkTest V) w
      | PTPFixture \<Rightarrow> (fx_ptpSetup F w, Inr ())
      | SCTPFixture \<Rightarrow>
          (case CreateNamespace A (nv_SCTPTest V) w of
             (w', Inl e) \<Rightarrow> (w', Inl e)
           | (w', Inr _) \<Rightarrow> AddPSALabelsToNamespace A ''default'' w')
      | _ \<Rightarrow> (w, Inr ()))"

fun deleteNamespaces :: "'w nsApi \<Rightarrow> string list \<Rightarrow> 'w \<Rightarrow> ('w, unit) effect" where
  "deleteNamespaces A [] w = Some (w, Inr ())"
| "deleteNamespaces A (ns # nss) w = andThen (DeleteNamespace A ns w) (\<lambda>w _. deleteNamespaces A nss w)"

definition CleanupFixture :: "'w nsApi \<Rightarrow> nsVars \<Rightarrow> 'w fixtureEnv \<Rightarrow> SuiteFixture \<Rightarrow> 'w \<Rightarrow> ('w, unit) effect" where
  "CleanupFixture A V F fixture w =
     (case fixture of
        PAOFixture \<Rightarrow> DeleteNamespace A (fx_perfNamespace F) (if fx_discovery F then w else fx_perfCleanAll F w)
      | DPDKFixture \<Rightarrow> DeleteNamespace A (nv_DpdkTest V) w
      | PTPFixture \<Rightarrow> Some (fx_ptpCleanAll F w)
      | SriovFixture \<Rightarrow> deleteNamespaces A [SriovTuningTest, fx_sriovNamespace F] (fx_sriovCleanAll F w)
      | SCTPFixture \<Rightarrow>
          (case CleanNamespace A ''default'' ''testsctp-'' w of
             (w', Some _) \<Rightarrow> Some (w', Inl (Error ''failed to clean 'default' namespace 'testsctp' prefix''))
           | (w', None) \<Rightarrow> DeleteNamespace A (nv_SCTPTest V) w')
      | VRFFixture \<Rightarrow> DeleteNamespace A vrfNamespace w
      | OVSQOSFixture \<Rightarrow> DeleteNamespace A (nv_OVSQOSTest V) w
      | FECFixture \<Rightarrow> Some (fx_fecClean F w, Inr ())
      | TuningcniFixture \<Rightarrow> DeleteNamespace A TuningTest w
      | BondcniFixture \<Rightarrow> DeleteNamespace A BondTestNamespace w
      | MultiNetworkPolicyFixture \<Rightarrow> deleteNamespaces A multiNamespaces (fx_sriovCleanAll F w))"

section \<open>Cleaning a namespace\<close>

text \<open>What a list and a deletion mean for the objects of the cluster: a list names the objects of its kind, and a deletion
  that does not fail, or finds nothing, leaves all objects but the deleted one.\<close>

type_synonym 'w objects = "'w \<Rightarrow> objectKind \<Rightarrow> string \<Rightarrow> string set"

definition apiFailed :: "apiError option \<Rightarrow> bool" where
  "apiFailed r \<longleftrightarrow> (\<exists>e. r = Some (ApiError e))"

definition objectLaws :: "'w nsApi \<Rightarrow> 'w objects \<Rightarrow> bool" where
  "objectLaws A objs \<longleftrightarrow>
     (\<forall>w k ns items. na_list A w k ns = Inr items \<longrightarrow> set items = objs w k ns) \<and>
     (\<forall>w k ns n w' r. na_deleteObject A w k ns n = (w', r) \<longrightarrow>
        objs w' = (if apiFailed r then objs w else (objs w)(k := (objs w k)(ns := objs w k ns - {n}))))"

definition without :: "('k \<Rightarrow> 's \<Rightarrow> string set) \<Rightarrow> 'k \<Rightarrow> 's \<Rightarrow> string set \<Rightarrow> 'k \<Rightarrow> 's \<Rightarrow> string set" where
  "without m k ns ds = m(k := (m k)(ns := m k ns - ds))"

lemma without_empty [simp]: "without m k ns {} = m"
  by (simp add: without_def)

lemma without_without [simp]: "without (without m k ns ds) k ns es = without m k ns (ds \<union> es)"
  by (intro ext) (auto simp: without_def)

lemma without_apply: "without m k ns ds k' ns' = m k' ns' - (if k' = k \<and> ns' = ns then ds else {})"
  by (simp add: without_def)

lemma cleanLoop_objects:
  assumes "objectLaws A objs" and "cleanLoop A k ns pre err names w = (w', r)"
  shows "\<exists>ds. ds \<subseteq> {n. HasPrefix n pre} \<and> objs w' = without (objs w) k ns ds \<and>
    (\<forall>x. r = Inr x \<longrightarrow> ds = {n \<in> set names. HasPrefix n pre})"
  using assms(2)
proof (induction names arbitrary: err w)
  case Nil
  then show ?case by (intro exI [of _ "{}"]) auto
next
  case (Cons n names)
  show ?case
  proof (cases "HasPrefix n pre")
    case False
    with Cons.prems have "cleanLoop A k ns pre err names w = (w', r)" by simp
    moreover have "{n' \<in> set (n # names). HasPrefix n' pre} = {n' \<in> set names. HasPrefix n' pre}" using False by auto
    ultimately show ?thesis using Cons.IH by presburger
  next
    case True
    obtain w1 e where d: "na_deleteObject A w k ns n = (w1, e)" by fastforce
    then have o1: "objs w1 = without (objs w) k ns (if apiFailed e then {} else {n})"
      using assms(1) by (simp add: objectLaws_def without_def)
    show ?thesis
    proof (cases "apiFailed e")
      case failed: True
      then have "w' = w1" and "\<forall>x. r \<noteq> Inr x" using Cons.prems True d by (auto simp: apiFailed_def)
      with o1 failed show ?thesis by (intro exI [of _ "{}"]) simp
    next
      case False
      then have "cleanLoop A k ns pre e names w1 = (w', r)"
        using Cons.prems True d by (auto simp: apiFailed_def split: option.splits apiError.splits)
      from Cons.IH [OF this] obtain ds where "ds \<subseteq> {n. HasPrefix n pre}" and "objs w' = without (objs w1) k ns ds"
        and "\<forall>x. r = Inr x \<longrightarrow> ds = {n \<in> set names. HasPrefix n pre}" by blast
      with o1 False True show ?thesis by (intro exI [of _ "insert n ds"]) auto
    qed
  qed
qed

lemma cleanKind_objects:
  assumes "objectLaws A objs" and "cleanKind A k ns pre w = (w', r)"
  shows "\<exists>ds. ds \<subseteq> {n. HasPrefix n pre} \<and> objs w' = without (objs w) k ns ds \<and>
    (\<forall>x. r = Inr x \<longrightarrow> ds = {n \<in> objs w k ns. HasPrefix n pre})"
proof (cases "na_list A w k ns")
  case (Inl e)
  with assms(2) show ?thesis by (intro exI [of _ "{}"]) (auto simp: cleanKind_def)
next
  case (Inr items)
  then have "set items = objs w k ns" using assms(1) by (simp add: objectLaws_def)
  with cleanLoop_objects [OF assms(1), of k ns pre None items w w' r] assms(2) Inr show ?thesis by (simp add: cleanKind_def)
qed

text \<open>The objects of a namespace without those of a prefix.\<close>

definition cleaned :: "(objectKind \<Rightarrow> string \<Rightarrow> string set) \<Rightarrow> string \<Rightarrow> string \<Rightarrow> objectKind \<Rightarrow> string \<Rightarrow> string set" where
  "cleaned m ns pre k ns' = (if ns' = ns then {n \<in> m k ns. \<not> HasPrefix n pre} else m k ns')"

text \<open>C35. Cleaning a namespace never touches other namespaces or objects without the prefix, whether it fails or not; if it
  returns no error and the namespace exists, no network policy, pod or service with the prefix is left in it.\<close>

theorem CleanNamespace_exact:
  assumes laws: "objectLaws A objs" and run: "CleanNamespace A ns pre w = (w', r)"
  shows "objs w' k ns' \<subseteq> objs w k ns' \<and> cleaned (objs w) ns pre k ns' \<subseteq> objs w' k ns' \<and>
    (r = None \<and> \<not> nsGone A ns w \<longrightarrow> objs w' = cleaned (objs w) ns pre)"
proof (cases "nsGone A ns w")
  case True
  with run show ?thesis by (auto simp: CleanNamespace_def cleaned_def)
next
  case False
  obtain w1 r1 where 1: "cleanKind A NetworkPolicies ns pre w = (w1, r1)" by fastforce
  obtain w2 r2 where 2: "cleanKind A Pods ns pre w1 = (w2, r2)" by fastforce
  obtain w3 r3 where 3: "cleanKind A Services ns pre w2 = (w3, r3)" by fastforce
  note objects = cleanKind_objects [OF laws 1] cleanKind_objects [OF laws 2] cleanKind_objects [OF laws 3]
  have all: "objs w' = cleaned (objs w) ns pre" if "r1 = Inr x1" "r2 = Inr x2" "r3 = Inr x3" for x1 x2 x3
  proof (intro ext)
    fix k ns'
    have "w' = w3" using run False 1 2 3 that by (simp add: CleanNamespace_def)
    with objects that show "objs w' k ns' = cleaned (objs w) ns pre k ns'"
      by (cases k) (auto simp: without_apply cleaned_def)
  qed
  have "w' = w1 \<or> w' = w2 \<or> w' = w3" and "r = None \<Longrightarrow> \<exists>x1 x2 x3. r1 = Inr x1 \<and> r2 = Inr x2 \<and> r3 = Inr x3"
    using run False 1 2 3 by (auto simp: CleanNamespace_def split: sum.splits)
  moreover have "objs w1 k ns' \<subseteq> objs w k ns'" "objs w2 k ns' \<subseteq> objs w1 k ns'" "objs w3 k ns' \<subseteq> objs w2 k ns'"
    using objects by (auto simp: without_apply)
  moreover have "cleaned (objs w) ns pre k ns' \<subseteq> objs w1 k ns'" "cleaned (objs w1) ns pre k ns' \<subseteq> objs w2 k ns'"
      "cleaned (objs w2) ns pre k ns' \<subseteq> objs w3 k ns'"
    using objects by (auto simp: without_apply cleaned_def)
  ultimately show ?thesis using all by (auto simp: cleaned_def split: if_splits)
qed

section \<open>Creating and deleting namespaces\<close>

text \<open>A created or updated namespace is the one that is read, only a new one can be created, and deletions and time do not
  bring a namespace back.\<close>

definition namespaceLaws :: "'w nsApi \<Rightarrow> bool" where
  "namespaceLaws A \<longleftrightarrow>
     (\<forall>w ns w'. na_create A w ns = (w', None) \<longrightarrow> na_get A w' (ns_Name ns) = Inr ns \<and> nsGone A (ns_Name ns) w) \<and>
     (\<forall>w ns w' e n. na_create A w ns = (w', Some e) \<longrightarrow> na_get A w' n = na_get A w n) \<and>
     (\<forall>w ns w'. na_update A w ns = (w', None) \<longrightarrow> na_get A w' (ns_Name ns) = Inr ns) \<and>
     (\<forall>w n ns. na_get A w n = Inr ns \<longrightarrow> ns_Name ns = n) \<and>
     (\<forall>w n ns. nsGone A n w \<longrightarrow> nsGone A n (fst (na_delete A w ns))) \<and>
     (\<forall>w n t. nsGone A n w \<longrightarrow> nsGone A n (na_tick A t w))"

definition labelOf :: "Namespace \<Rightarrow> string \<Rightarrow> string option" where
  "labelOf ns k = (case ns_Labels ns of None \<Rightarrow> None | Some ls \<Rightarrow> mget ls k)"

lemma GetPSALabels_copy: "GetPSALabels = namespaceLabels"
  by (simp add: GetPSALabels_def namespaceLabels_def)

lemma namespaceLabels_distinct: "distinct (map fst namespaceLabels)"
  by (simp add: namespaceLabels_def)

text \<open>Creating a namespace that reports success leaves a namespace that has every pod security label with the value for
  privileged pods; if the namespace existed before, its other labels are as they were.\<close>

theorem CreateNamespace_labelled:
  assumes laws: "namespaceLaws A" and run: "CreateNamespace A name w = (w', Inr ())"
  shows "\<exists>ns. na_get A w' name = Inr ns \<and> (\<forall>k v. mget namespaceLabels k = Some v \<longrightarrow> labelOf ns k = Some v) \<and>
    (\<forall>old k. na_get A w name = Inr old \<and> mget namespaceLabels k = None \<longrightarrow> labelOf ns k = labelOf old k)"
proof -
  let ?new = "\<lparr>ns_Name = name, ns_Labels = Some namespaceLabels\<rparr>"
  obtain w1 e where c: "na_create A w ?new = (w1, e)" by fastforce
  show ?thesis
  proof (cases e)
    case None
    then have "na_get A w1 (ns_Name ?new) = Inr ?new" and "nsGone A (ns_Name ?new) w"
      using laws c unfolding namespaceLaws_def by blast+
    moreover from run c None have "w' = w1" by (simp add: CreateNamespace_def)
    ultimately show ?thesis by (auto simp: nsGone_def labelOf_def)
  next
    case (Some err)
    then have same: "na_get A w1 name = na_get A w name" using laws c unfolding namespaceLaws_def by blast
    from run c Some have add: "AddPSALabelsToNamespace A name w1 = (w', Inr ())"
      by (auto simp: CreateNamespace_def split: createError.splits)
    then obtain old where old: "na_get A w1 name = Inr old"
      by (auto simp: AddPSALabelsToNamespace_def split: sum.splits)
    let ?ls = "fold (\<lambda>(k, v) m. mput m k v) namespaceLabels (case ns_Labels old of None \<Rightarrow> [] | Some ls \<Rightarrow> ls)"
    let ?ns = "old\<lparr>ns_Labels := Some ?ls\<rparr>"
    from add old obtain e' where u: "na_update A w1 ?ns = (w', e')" and "errorResult e' = Inr ()"
      by (auto simp: AddPSALabelsToNamespace_def GetPSALabels_copy Let_def split: prod.splits)
    then have "e' = None" by (cases e') (auto split: apiError.splits)
    with u have "na_get A w' (ns_Name ?ns) = Inr ?ns" using laws unfolding namespaceLaws_def by blast
    moreover have "ns_Name ?ns = name" using laws old unfolding namespaceLaws_def by simp
    moreover have "labelOf ?ns k = (case mget namespaceLabels k of None \<Rightarrow> labelOf old k | Some v \<Rightarrow> Some v)" for k
      by (simp add: labelOf_def amap.get_puts namespaceLabels_distinct split: option.splits)
    ultimately show ?thesis using old same by (intro exI [of _ ?ns]) simp
  qed
qed

text \<open>The namespaces that a fixture owns.\<close>

fun ownNamespaces :: "nsVars \<Rightarrow> 'w fixtureEnv \<Rightarrow> SuiteFixture \<Rightarrow> string list" where
  "ownNamespaces V F PAOFixture = [fx_perfNamespace F]"
| "ownNamespaces V F DPDKFixture = [nv_DpdkTest V]"
| "ownNamespaces V F PTPFixture = []"
| "ownNamespaces V F SriovFixture = [SriovTuningTest, fx_sriovNamespace F]"
| "ownNamespaces V F SCTPFixture = [nv_SCTPTest V]"
| "ownNamespaces V F VRFFixture = [vrfNamespace]"
| "ownNamespaces V F OVSQOSFixture = [nv_OVSQOSTest V]"
| "ownNamespaces V F FECFixture = []"
| "ownNamespaces V F TuningcniFixture = [TuningTest]"
| "ownNamespaces V F BondcniFixture = [BondTestNamespace]"
| "ownNamespaces V F MultiNetworkPolicyFixture = multiNamespaces"

lemma WaitForNamespaceDeletion_loop:
  "WaitForNamespaceDeletion A ns (minutes 5) w = Some (pollLoop (na_tick A 1) (nsGone A ns) 300 w)"
  by (simp add: WaitForNamespaceDeletion_def PollImmediate_def minutes_def)

lemma nsGone_ticks: "namespaceLaws A \<Longrightarrow> nsGone A n w \<Longrightarrow> nsGone A n ((na_tick A t ^^ k) w)"
  by (induction k) (simp_all add: namespaceLaws_def)

lemma pollLoop_ends: "\<exists>k r. pollLoop tick cond n w = ((tick ^^ k) w, r) \<and> (r = Inr () \<longrightarrow> cond ((tick ^^ k) w))"
proof (induction n arbitrary: w)
  case 0
  show ?case by (intro exI [of _ 0]) simp
next
  case (Suc n)
  show ?case
  proof (cases "cond w")
    case True
    then show ?thesis by (intro exI [of _ 0]) simp
  next
    case False
    obtain k r where "pollLoop tick cond n (tick w) = ((tick ^^ k) (tick w), r)" and "r = Inr () \<longrightarrow> cond ((tick ^^ k) (tick w))"
      using Suc by blast
    with False show ?thesis by (intro exI [of _ "Suc k"] exI [of _ r]) (simp add: funpow_swap1)
  qed
qed

lemma DeleteNamespace_gone:
  assumes laws: "namespaceLaws A"
  shows "\<exists>w' r. DeleteNamespace A ns w = Some (w', r) \<and> (r = Inr () \<longrightarrow> nsGone A ns w') \<and> (\<forall>n. nsGone A n w \<longrightarrow> nsGone A n w')"
proof -
  obtain w1 e where d: "na_delete A w ns = (w1, e)" by fastforce
  have stays: "nsGone A n w1" if "nsGone A n w" for n using laws that d unfolding namespaceLaws_def by (metis fst_conv)
  obtain k r where "pollLoop (na_tick A 1) (nsGone A ns) 300 w1 = ((na_tick A 1 ^^ k) w1, r)"
      and "r = Inr () \<longrightarrow> nsGone A ns ((na_tick A 1 ^^ k) w1)"
    using pollLoop_ends [of "na_tick A 1" "nsGone A ns" 300 w1] by (elim exE conjE)
  note loop = this
  show ?thesis
  proof (cases "apiFailed e")
    case True
    then obtain m where "e = Some (ApiError m)" by (auto simp: apiFailed_def)
    with d have "DeleteNamespace A ns w = Some (w1, Inl (Error m))" by (simp add: DeleteNamespace_def)
    with stays show ?thesis by simp
  next
    case False
    then have "DeleteNamespace A ns w = WaitForNamespaceDeletion A ns (minutes 5) w1"
      using d by (cases e rule: errorResult.cases) (simp_all add: DeleteNamespace_def apiFailed_def split: apiError.split)
    then have "DeleteNamespace A ns w = Some ((na_tick A 1 ^^ k) w1, r)"
      unfolding WaitForNamespaceDeletion_loop loop(1) .
    with loop(2) stays nsGone_ticks [OF laws] show ?thesis by blast
  qed
qed

lemma deleteNamespaces_gone:
  assumes laws: "namespaceLaws A"
  shows "\<exists>w' r. deleteNamespaces A nss w = Some (w', r) \<and> (r = Inr () \<longrightarrow> (\<forall>ns\<in>set nss. nsGone A ns w')) \<and>
    (\<forall>n. nsGone A n w \<longrightarrow> nsGone A n w')"
proof (induction nss arbitrary: w)
  case (Cons ns nss)
  obtain w1 r1 where 1: "DeleteNamespace A ns w = Some (w1, r1)" "r1 = Inr () \<longrightarrow> nsGone A ns w1" "\<forall>n. nsGone A n w \<longrightarrow> nsGone A n w1"
    using DeleteNamespace_gone [OF laws] by blast
  show ?case
  proof (cases r1)
    case (Inl e)
    with 1 show ?thesis by (auto simp: andThen_def)
  next
    case (Inr u)
    obtain w' r where "deleteNamespaces A nss w1 = Some (w', r)" "r = Inr () \<longrightarrow> (\<forall>ns\<in>set nss. nsGone A ns w')"
        "\<forall>n. nsGone A n w1 \<longrightarrow> nsGone A n w'" using Cons.IH by blast
    with 1 Inr show ?thesis by (auto simp: andThen_def)
  qed
qed simp

text \<open>C36. The cleanup of every fixture returns, and when it reports success, the namespaces that the fixture owns no longer
  exist; those that its setup creates are among them.\<close>

theorem CleanupFixture_removes:
  assumes laws: "namespaceLaws A"
  shows "\<exists>w' r. CleanupFixture A V F fixture w = Some (w', r) \<and>
    (r = Inr () \<longrightarrow> (\<forall>ns\<in>set (ownNamespaces V F fixture). nsGone A ns w'))"
proof -
  have one: "\<exists>w' r. DeleteNamespace A ns w = Some (w', r) \<and> (r = Inr () \<longrightarrow> nsGone A ns w')" for ns w
    using DeleteNamespace_gone [OF laws] by blast
  have many: "\<exists>w' r. deleteNamespaces A nss w = Some (w', r) \<and> (r = Inr () \<longrightarrow> (\<forall>ns\<in>set nss. nsGone A ns w'))" for nss w
    using deleteNamespaces_gone [OF laws] by blast
  show ?thesis
  proof (cases fixture)
    case SriovFixture
    then show ?thesis using many [of "[SriovTuningTest, fx_sriovNamespace F]"]
      by (simp only: CleanupFixture_def SuiteFixture.case ownNamespaces.simps)
  next
    case MultiNetworkPolicyFixture
    then show ?thesis using many by (simp only: CleanupFixture_def SuiteFixture.case ownNamespaces.simps)
  next
    case SCTPFixture
    obtain w1 e where "CleanNamespace A ''default'' ''testsctp-'' w = (w1, e)" by fastforce
    with SCTPFixture one [of "nv_SCTPTest V" w1] show ?thesis
      by (cases e) (simp_all add: CleanupFixture_def)
  next
    case PTPFixture
    then show ?thesis by (cases "fx_ptpCleanAll F w") (simp add: CleanupFixture_def)
  qed (simp_all add: CleanupFixture_def one)
qed

section \<open>A small cluster\<close>

type_synonym demoCluster = "(string, (string, string) gomap) gomap \<times> (objectKind \<times> string \<times> string) list"

definition demoNs :: "demoCluster nsApi" where
  "demoNs = \<lparr>na_get = (\<lambda>(spaces, os) n. case mget spaces n of None \<Rightarrow> Inl (NotFound n) | Some ls \<Rightarrow> Inr \<lparr>ns_Name = n, ns_Labels = Some ls\<rparr>),
     na_create = (\<lambda>(spaces, os) ns. if mget spaces (ns_Name ns) = None \<and> ns_Labels ns \<noteq> None
       then ((mput spaces (ns_Name ns) (the (ns_Labels ns)), os), None) else ((spaces, os), Some (AlreadyExists (ns_Name ns)))),
     na_update = (\<lambda>(spaces, os) ns. case ns_Labels ns of None \<Rightarrow> ((spaces, os), Some (ApiError []))
       | Some ls \<Rightarrow> ((mput spaces (ns_Name ns) ls, os), None)),
     na_delete = (\<lambda>(spaces, os) n. ((mdel spaces n, os), if mget spaces n = None then Some (NotFound n) else None)),
     na_list = (\<lambda>(spaces, os) k ns. Inr (map (snd \<circ> snd) (filter (\<lambda>(k', ns', _). k' = k \<and> ns' = ns) os))),
     na_deleteObject = (\<lambda>(spaces, os) k ns n. ((spaces, removeAll (k, ns, n) os), if (k, ns, n) \<in> set os then None else Some (NotFound n))),
     na_deletePods = (\<lambda>(spaces, os) ns. ((spaces, filter (\<lambda>(k, ns', _). \<not> (k = Pods \<and> ns' = ns)) os), None)),
     na_tick = (\<lambda>_ w. w)\<rparr>"

definition demoObjects :: "demoCluster objects" where
  "demoObjects w k ns = {n. (k, ns, n) \<in> set (snd w)}"

lemma demo_objectLaws: "objectLaws demoNs demoObjects"
  unfolding objectLaws_def
proof (intro conjI allI impI)
  fix w :: demoCluster and k ns items
  assume "na_list demoNs w k ns = Inr items"
  then show "set items = demoObjects w k ns" by (cases w) (force simp: demoNs_def demoObjects_def)
next
  fix w :: demoCluster and k ns n w' r
  assume "na_deleteObject demoNs w k ns n = (w', r)"
  then have "w' = (fst w, removeAll (k, ns, n) (snd w))" and "\<not> apiFailed r"
    by (cases w; auto simp: demoNs_def apiFailed_def split: if_splits)+
  then show "demoObjects w' = (if apiFailed r then demoObjects w
      else (demoObjects w)(k := (demoObjects w k)(ns := demoObjects w k ns - {n})))"
    by (auto simp: demoObjects_def fun_eq_iff)
qed

lemma demo_namespaceLaws: "namespaceLaws demoNs"
  by (auto simp: namespaceLaws_def demoNs_def nsGone_def split: option.splits if_splits)

definition demoState :: demoCluster where
  "demoState = ([(''default'', [(''a'', ''b'')])], [(Pods, ''default'', ''testsctp-1''), (Pods, ''default'', ''web'')])"

theorem CleanNamespace_exact_witness:
  "demoObjects (fst (CleanNamespace demoNs ''default'' ''testsctp-'' demoState)) Pods ''default'' = {''web''}"
proof -
  obtain w' r where run: "CleanNamespace demoNs ''default'' ''testsctp-'' demoState = (w', r)" by fastforce
  moreover have "r = None" and "\<not> nsGone demoNs ''default'' demoState"
    using run by (simp_all add: demoNs_def demoState_def CleanNamespace_def cleanKind_def nsGone_def)
  ultimately show ?thesis
    using CleanNamespace_exact [OF demo_objectLaws run, of Pods "''default''"]
    by (auto simp: cleaned_def demoObjects_def demoState_def)
qed

theorem CreateNamespace_labelled_witness:
  "\<exists>ns. na_get demoNs (fst (CreateNamespace demoNs ''default'' demoState)) ''default'' = Inr ns \<and> labelOf ns ''a'' = Some ''b''"
proof -
  have run: "CreateNamespace demoNs ''default'' demoState = (fst (CreateNamespace demoNs ''default'' demoState), Inr ())"
    by (simp add: CreateNamespace_def AddPSALabelsToNamespace_def demoNs_def demoState_def Let_def)
  have "na_get demoNs demoState ''default'' = Inr \<lparr>ns_Name = ''default'', ns_Labels = Some [(''a'', ''b'')]\<rparr>"
    and "mget namespaceLabels ''a'' = None"
    by (simp_all add: demoNs_def demoState_def namespaceLabels_def)
  with CreateNamespace_labelled [OF demo_namespaceLaws run] show ?thesis by (fastforce simp: labelOf_def)
qed

definition demoFixtureEnv :: "demoCluster fixtureEnv" where
  "demoFixtureEnv = \<lparr>fx_discovery = False, fx_perfNamespace = ''perf'', fx_sriovNamespace = ''sriov'', fx_perfCleanAll = id, fx_ptpSetup = id,
     fx_ptpCleanAll = (\<lambda>w. (w, Inr ())), fx_sriovCleanAll = id, fx_fecClean = id\<rparr>"

theorem CleanupFixture_removes_witness:
  "\<exists>w'. CleanupFixture demoNs (initNamespaces (\<lambda>_. None)) demoFixtureEnv VRFFixture ([(vrfNamespace, [])], []) = Some (w', Inr ()) \<and>
     nsGone demoNs vrfNamespace w'"
proof -
  let ?run = "CleanupFixture demoNs (initNamespaces (\<lambda>_. None)) demoFixtureEnv VRFFixture ([(vrfNamespace, [])], [])"
  have "nsGone demoNs vrfNamespace ([], [])" by (simp add: nsGone_def demoNs_def)
  then have "pollLoop (na_tick demoNs 1) (nsGone demoNs vrfNamespace) 300 ([], []) = (([], []), Inr ())" by (rule pollLoop_done)
  moreover have "na_delete demoNs ([(vrfNamespace, [])], []) vrfNamespace = (([], []), None)" by (simp add: demoNs_def)
  ultimately have "?run = Some (([], []), Inr ())"
    by (simp add: CleanupFixture_def DeleteNamespace_def WaitForNamespaceDeletion_loop)
  with CleanupFixture_removes [OF demo_namespaceLaws, of "initNamespaces (\<lambda>_. None)" demoFixtureEnv VRFFixture "([(vrfNamespace, [])], [])"]
  show ?thesis by auto
qed

end
