(* ===== verification/TestPods.thy ===== *)
theory TestPods
  imports NodeRoles
begin

text \<open>
  The pods of the tests (\<^verbatim>\<open>cnf-tests/testsuites/pkg/pods/pods.go\<close>): definitions of pods, functions that redefine them, creating them
  and waiting for them.

  A pod is a record of the fields that the package sets. Parsing of quantities is the parameter \<open>valid\<close>, the API
  server the parameter \<open>podApi\<close>.
\<close>

section \<open>Pods\<close>

record SecurityContext =
  sc_RunAsNonRoot :: "bool option"
  sc_RunAsUser :: "int option"
  sc_RunAsGroup :: "int option"
  sc_Privileged :: "bool option"
  sc_AllowPrivilegeEscalation :: "bool option"
  sc_Capabilities :: "(string list \<times> string list) option"

record PodContainer =
  pc_Name :: string
  pc_Image :: string
  pc_Command :: "string list"
  pc_Args :: "string list"
  pc_Env :: "(string, string) gomap"
  pc_Requests :: "(string, string) gomap"
  pc_Limits :: "(string, string) gomap"
  pc_VolumeMounts :: "(string \<times> string) list"
  pc_SecurityContext :: "SecurityContext option"
  pc_Ports :: "(string \<times> string \<times> int) list"

record TestPod =
  tp_GenerateName :: string
  tp_Name :: string
  tp_Namespace :: string
  tp_Labels :: "(string, string) gomap option"
  tp_Annotations :: "(string, string) gomap"
  tp_Containers :: "PodContainer list"
  tp_Volumes :: "string list"
  tp_NodeSelector :: "(string, string) gomap"
  tp_RestartPolicy :: string
  tp_HostNetwork :: bool
  tp_TerminationGracePeriodSeconds :: "int option"
  tp_PodAffinity :: "((string, string) gomap \<times> string) list option"
  tp_PodSecurity :: "(string \<times> int) option"
  tp_Conditions :: "(string \<times> string) list"
  tp_Phase :: string

definition emptyContext :: SecurityContext where
  "emptyContext = \<lparr>sc_RunAsNonRoot = None, sc_RunAsUser = None, sc_RunAsGroup = None, sc_Privileged = None,
     sc_AllowPrivilegeEscalation = None, sc_Capabilities = None\<rparr>"

definition plainContainer :: "string \<Rightarrow> string \<Rightarrow> string list \<Rightarrow> PodContainer" where
  "plainContainer name img command =
     \<lparr>pc_Name = name, pc_Image = img, pc_Command = command, pc_Args = [], pc_Env = [], pc_Requests = [], pc_Limits = [],
      pc_VolumeMounts = [], pc_SecurityContext = None, pc_Ports = []\<rparr>"

definition plainPod :: "string \<Rightarrow> string \<Rightarrow> PodContainer list \<Rightarrow> TestPod" where
  "plainPod generateName namespace containers =
     \<lparr>tp_GenerateName = generateName, tp_Name = [], tp_Namespace = namespace, tp_Labels = None, tp_Annotations = [],
      tp_Containers = containers, tp_Volumes = [], tp_NodeSelector = [], tp_RestartPolicy = [], tp_HostNetwork = False,
      tp_TerminationGracePeriodSeconds = None, tp_PodAffinity = None, tp_PodSecurity = None, tp_Conditions = [], tp_Phase = []\<rparr>"

section \<open>Definitions\<close>

definition getDefinition :: "(string \<Rightarrow> string) \<Rightarrow> string \<Rightarrow> TestPod res" where
  "getDefinition getenv namespace =
     bind_res (imageFor getenv TestUtils) (\<lambda>img.
       Inr ((plainPod ''testpod-'' namespace [plainContainer ''test'' img [''/bin/bash'', ''-c'', ''sleep INF'']])
         \<lparr>tp_TerminationGracePeriodSeconds := Some 0\<rparr>))"

definition networksAnnotation :: string where "networksAnnotation = ''k8s.v1.cni.cncf.io/networks''"
definition hostnameLabel :: string where "hostnameLabel = ''kubernetes.io/hostname''"

definition DefinePod :: "(string \<Rightarrow> string) \<Rightarrow> string \<Rightarrow> TestPod res" where
  "DefinePod getenv namespace = getDefinition getenv namespace"

definition DefineWithNetworks :: "(string \<Rightarrow> string) \<Rightarrow> string \<Rightarrow> string list \<Rightarrow> TestPod res" where
  "DefineWithNetworks getenv namespace networks =
     bind_res (getDefinition getenv namespace) (\<lambda>pod.
       Inr (pod\<lparr>tp_Annotations := [(networksAnnotation, Join networks '','')]\<rparr>))"

definition DefinePodOnNode :: "(string \<Rightarrow> string) \<Rightarrow> string \<Rightarrow> string \<Rightarrow> TestPod res" where
  "DefinePodOnNode getenv namespace nodeName =
     bind_res (getDefinition getenv namespace) (\<lambda>pod. Inr (pod\<lparr>tp_NodeSelector := [(hostnameLabel, nodeName)]\<rparr>))"

definition DefinePodOnHostNetwork :: "(string \<Rightarrow> string) \<Rightarrow> string \<Rightarrow> string \<Rightarrow> TestPod res" where
  "DefinePodOnHostNetwork getenv namespace nodeName =
     bind_res (DefinePodOnNode getenv namespace nodeName) (\<lambda>pod. Inr (pod\<lparr>tp_HostNetwork := True\<rparr>))"

section \<open>Redefinitions\<close>

definition indexZero :: go_error where
  "indexZero = Panic ''runtime error: index out of range [0] with length 0''"

text \<open>Changing \<^verbatim>\<open>pod.Spec.Containers[0]\<close>.\<close>

definition onFirst :: "TestPod \<Rightarrow> (PodContainer \<Rightarrow> PodContainer) \<Rightarrow> TestPod res" where
  "onFirst pod f =
     (case tp_Containers pod of [] \<Rightarrow> Inl indexZero | c # cs \<Rightarrow> Inr (pod\<lparr>tp_Containers := f c # cs\<rparr>))"

definition RedefineWithCommand :: "TestPod \<Rightarrow> string list \<Rightarrow> string list \<Rightarrow> TestPod res" where
  "RedefineWithCommand pod command args = onFirst pod (\<lambda>c. c\<lparr>pc_Command := command, pc_Args := args\<rparr>)"

definition RedefineWithRestartPolicy :: "TestPod \<Rightarrow> string \<Rightarrow> TestPod" where
  "RedefineWithRestartPolicy pod restartPolicy = pod\<lparr>tp_RestartPolicy := restartPolicy\<rparr>"

definition RedefinePodWithNetwork :: "TestPod \<Rightarrow> string \<Rightarrow> TestPod" where
  "RedefinePodWithNetwork pod networksSpec = pod\<lparr>tp_Annotations := [(networksAnnotation, networksSpec)]\<rparr>"

definition RedefineWithLabel :: "TestPod \<Rightarrow> string \<Rightarrow> string \<Rightarrow> TestPod" where
  "RedefineWithLabel pod key v =
     pod\<lparr>tp_Labels := Some (mput (case tp_Labels pod of None \<Rightarrow> [] | Some ls \<Rightarrow> ls) key v)\<rparr>"

definition RedefineWithPodAffinityOnLabel :: "TestPod \<Rightarrow> string \<Rightarrow> string \<Rightarrow> TestPod" where
  "RedefineWithPodAffinityOnLabel pod key v = pod\<lparr>tp_PodAffinity := Some [([(key, v)], hostnameLabel)]\<rparr>"

text \<open>The loop writes through the security context and its capabilities, which must not be nil.\<close>

definition restrictContainer :: "PodContainer \<Rightarrow> PodContainer res" where
  "restrictContainer c =
     (case pc_SecurityContext c of
        None \<Rightarrow> Inl nilPointer
      | Some sc \<Rightarrow>
          (case sc_Capabilities sc of
             None \<Rightarrow> Inl nilPointer
           | Some (add, _) \<Rightarrow>
               Inr (c\<lparr>pc_SecurityContext := Some (sc\<lparr>sc_RunAsNonRoot := Some True, sc_RunAsUser := Some 1001,
                 sc_RunAsGroup := Some 1001, sc_Privileged := Some False, sc_Capabilities := Some (add, [''ALL'']),
                 sc_AllowPrivilegeEscalation := Some True\<rparr>)\<rparr>)))"

definition RedefineWithRestrictedPrivileges :: "TestPod \<Rightarrow> TestPod res" where
  "RedefineWithRestrictedPrivileges pod =
     bind_res (mapM_res restrictContainer (tp_Containers pod)) (\<lambda>cs.
       Inr (pod\<lparr>tp_PodSecurity := Some (''RuntimeDefault'', 1001), tp_Containers := cs\<rparr>))"

definition privileged :: "PodContainer \<Rightarrow> PodContainer" where
  "privileged c = c\<lparr>pc_SecurityContext :=
     Some ((case pc_SecurityContext c of None \<Rightarrow> emptyContext | Some sc \<Rightarrow> sc)\<lparr>sc_Privileged := Some True\<rparr>)\<rparr>"

text \<open>A named container is found by a range loop, which gives a pointer to a copy of it. The copy shares the security
  context with the pod, if there is one; a new security context is only set in the copy.\<close>

fun privilegeNamed :: "string \<Rightarrow> PodContainer list \<Rightarrow> PodContainer list option" where
  "privilegeNamed name [] = None"
| "privilegeNamed name (c # cs) =
     (if pc_Name c = name then Some ((if pc_SecurityContext c = None then c else privileged c) # cs)
      else case privilegeNamed name cs of None \<Rightarrow> None | Some cs' \<Rightarrow> Some (c # cs'))"

definition containerMissing :: "string \<Rightarrow> go_error" where
  "containerMissing name = Error (''container with name: '' @ name @ '' not found in pod'')"

definition RedefineAsPrivileged :: "TestPod \<Rightarrow> string \<Rightarrow> TestPod res" where
  "RedefineAsPrivileged pod containerName =
     (if containerName = [] then onFirst pod privileged
      else case privilegeNamed containerName (tp_Containers pod) of
        None \<Rightarrow> Inl (containerMissing containerName)
      | Some cs \<Rightarrow> Inr (pod\<lparr>tp_Containers := cs\<rparr>))"

definition badQuantity :: "string \<Rightarrow> go_error" where
  "badQuantity q = Panic (''cannot parse '' @ quoted q)"

definition RedefineWithGuaranteedQoS :: "(string \<Rightarrow> bool) \<Rightarrow> TestPod \<Rightarrow> string \<Rightarrow> string \<Rightarrow> TestPod res" where
  "RedefineWithGuaranteedQoS valid pod cpu memory =
     (if \<not> valid memory then Inl (badQuantity memory)
      else if \<not> valid cpu then Inl (badQuantity cpu)
      else onFirst pod (\<lambda>c. c\<lparr>pc_Requests := [(''memory'', memory), (''cpu'', cpu)], pc_Limits := [(''memory'', memory), (''cpu'', cpu)]\<rparr>))"

section \<open>Workloads with huge pages\<close>

definition hugeResources :: "string \<Rightarrow> string \<Rightarrow> string \<Rightarrow> (string, string) gomap" where
  "hugeResources sz amount cpu = [(''hugepages-'' @ sz @ ''i'', amount), (''memory'', ''1Gi''), (''cpu'', cpu)]"

definition hugePagesCommand :: "string \<Rightarrow> string" where
  "hugePagesCommand sz = ''/usr/bin/hugepages-allocator'' @ (if sz \<noteq> ''1G'' then '' --hugepage-size 536870912'' else [])"

definition DefineWithHugePages :: "(string \<Rightarrow> string) \<Rightarrow> string \<Rightarrow> string \<Rightarrow> string \<Rightarrow> TestPod res" where
  "DefineWithHugePages getenv hugepagesSize namespace nodeName =
     bind_res (getDefinition getenv namespace) (\<lambda>pod.
     bind_res (RedefineWithCommand pod [''/bin/bash'', ''-c'', hugePagesCommand hugepagesSize @ '' > /dev/null''] []) (\<lambda>pod.
     bind_res (onFirst ((RedefineWithRestartPolicy pod ''Never'')\<lparr>tp_NodeSelector := [(hostnameLabel, nodeName)]\<rparr>) (\<lambda>c.
         c\<lparr>pc_Requests := hugeResources hugepagesSize ''1Gi'' ''2'', pc_Limits := hugeResources hugepagesSize ''1Gi'' ''2'',
           pc_VolumeMounts := [(''hugepages'', ''/dev/hugepages'')],
           pc_SecurityContext := Some (emptyContext\<lparr>sc_RunAsUser := Some 0, sc_Capabilities := Some ([''IPC_LOCK''], [])\<rparr>)\<rparr>)) (\<lambda>pod.
       Inr (pod\<lparr>tp_Volumes := [''hugepages'']\<rparr>))))"

definition dpdkContainer :: "string \<Rightarrow> string \<Rightarrow> string list \<Rightarrow> string \<Rightarrow> PodContainer" where
  "dpdkContainer command img additionalCapabilities hugepagesSize =
     (plainContainer ''dpdk'' img [''/bin/bash'', ''-c'', command])
       \<lparr>pc_SecurityContext := Some (emptyContext\<lparr>sc_RunAsUser := Some 0,
          sc_Capabilities := Some ([''IPC_LOCK'', ''SYS_RESOURCE'', ''NET_RAW''] @ additionalCapabilities, [])\<rparr>),
        pc_Env := [(''RUN_TYPE'', ''testpmd'')], pc_Requests := hugeResources hugepagesSize ''2Gi'' ''4'',
        pc_Limits := hugeResources hugepagesSize ''2Gi'' ''4'', pc_VolumeMounts := [(''hugepages'', ''/mnt/huge'')]\<rparr>"

text \<open>The node selector is used as it is; the loop that follows writes its own entries into it again.\<close>

definition DefineDPDKWorkload :: "string \<Rightarrow> (string, string) gomap \<Rightarrow> string \<Rightarrow> string \<Rightarrow> string list \<Rightarrow> string \<Rightarrow> TestPod" where
  "DefineDPDKWorkload DpdkTest nodeSelector command img additionalCapabilities hugepagesSize =
     (plainPod ''dpdk-'' DpdkTest [dpdkContainer command img additionalCapabilities hugepagesSize])
       \<lparr>tp_Labels := Some [(''app'', ''dpdk'')], tp_Volumes := [''hugepages''],
        tp_NodeSelector := fold (\<lambda>(k, v) m. mput m k v) nodeSelector nodeSelector\<rparr>"

section \<open>Creating pods and waiting for them\<close>

text \<open>\<open>pa_create\<close> gives the new state, the pod as the server has it (an empty one on an error) and the error, if any;
  \<open>pa_tick\<close> is what happens in a number of seconds; \<open>pa_stream\<close> opens a log, \<open>pa_copy\<close> reads it.\<close>

record ('l, 'w) podApi =
  pa_create :: "'w \<Rightarrow> TestPod \<Rightarrow> 'w \<times> TestPod \<times> string option"
  pa_get :: "'w \<Rightarrow> string \<Rightarrow> string \<Rightarrow> apiError + TestPod"
  pa_exec :: "'w \<Rightarrow> TestPod \<Rightarrow> string \<Rightarrow> string list \<Rightarrow> 'w \<times> string \<times> string option"
  pa_stream :: "'w \<Rightarrow> TestPod \<Rightarrow> string \<Rightarrow> string + 'l"
  pa_copy :: "'l \<Rightarrow> string + string"
  pa_events :: "'w \<Rightarrow> string \<Rightarrow> string \<Rightarrow> string + (string \<times> string) list"
  pa_tick :: "nat \<Rightarrow> 'w \<Rightarrow> 'w"

definition WaitForPodDeletion :: "('l, 'w) podApi \<Rightarrow> TestPod \<Rightarrow> int \<Rightarrow> 'w \<Rightarrow> ('w, unit) effect" where
  "WaitForPodDeletion A pod timeout w =
     PollImmediate (pa_tick A) 1 timeout (\<lambda>w. case pa_get A w (tp_Namespace pod) (tp_Name pod) of
         Inl (NotFound _) \<Rightarrow> True
       | _ \<Rightarrow> False) w"

definition podHasCondition :: "('l, 'w) podApi \<Rightarrow> TestPod \<Rightarrow> string \<Rightarrow> string \<Rightarrow> 'w \<Rightarrow> bool" where
  "podHasCondition A pod conditionType conditionStatus w \<longleftrightarrow>
     (case pa_get A w (tp_Namespace pod) (tp_Name pod) of
        Inl _ \<Rightarrow> False
      | Inr updatePod \<Rightarrow> (conditionType, conditionStatus) \<in> set (tp_Conditions updatePod))"

definition WaitForPodCondition :: "('l, 'w) podApi \<Rightarrow> TestPod \<Rightarrow> string \<Rightarrow> string \<Rightarrow> int \<Rightarrow> 'w \<Rightarrow> ('w, unit) effect" where
  "WaitForPodCondition A pod conditionType conditionStatus timeout w =
     PollImmediate (pa_tick A) 1 timeout (podHasCondition A pod conditionType conditionStatus) w"

definition WaitForPhase :: "('l, 'w) podApi \<Rightarrow> TestPod \<Rightarrow> string \<Rightarrow> int \<Rightarrow> 'w \<Rightarrow> ('w, unit) effect" where
  "WaitForPhase A pod phaseType timeout w =
     PollImmediate (pa_tick A) 1 timeout (\<lambda>w. case pa_get A w (tp_Namespace pod) (tp_Name pod) of
         Inl _ \<Rightarrow> False
       | Inr updatePod \<Rightarrow> tp_Phase updatePod = phaseType) w"

definition podFailure :: "string \<Rightarrow> TestPod \<Rightarrow> string \<Rightarrow> string \<Rightarrow> go_error" where
  "podFailure a pod b err = Error (a @ tp_Name pod @ b @ err)"

fun failure :: "go_error \<Rightarrow> string" where
  "failure (Error e) = e"
| "failure (Panic e) = e"

definition getCreated :: "('l, 'w) podApi \<Rightarrow> TestPod \<Rightarrow> 'w \<Rightarrow> TestPod res" where
  "getCreated A pod w =
     (case pa_get A w (tp_Namespace pod) (tp_Name pod) of
        Inl e \<Rightarrow> Inl (podFailure ''cannot get just created pod ['' pod '']: '' (failure (apiFailure e)))
      | Inr pod' \<Rightarrow> Inr pod')"

definition CreateAndStart :: "('l, 'w) podApi \<Rightarrow> TestPod \<Rightarrow> 'w \<Rightarrow> ('w, TestPod) effect" where
  "CreateAndStart A pod w =
     (case pa_create A w pod of
        (w1, pod1, Some err) \<Rightarrow> Some (w1, Inl (podFailure ''cannot create pod ['' pod1 '']: '' err))
      | (w1, pod1, None) \<Rightarrow>
          (case WaitForPodCondition A pod1 ''ContainersReady'' ''True'' (minutes 3) w1 of
             None \<Rightarrow> None
           | Some (w2, Inl e) \<Rightarrow>
               Some (w2, Inl (podFailure ''error while waiting pod ['' pod1 ''] to be ready: '' (failure e)))
           | Some (w2, Inr _) \<Rightarrow> Some (w2, getCreated A pod1 w2)))"

definition inQuotes :: "string \<Rightarrow> string" where
  "inQuotes s = [CHR 0x22] @ s @ [CHR 0x22]"

definition dpdkNetwork :: "string \<Rightarrow> string \<Rightarrow> string" where
  "dpdkNetwork mac DpdkTest =
     ''[{'' @ inQuotes ''name'' @ '': '' @ inQuotes ''test-dpdk-network'' @ '','' @ inQuotes ''mac'' @ '': '' @ inQuotes mac @ '','' @
     inQuotes ''namespace'' @ '': '' @ inQuotes DpdkTest @ ''}]''"

definition CreateDPDKWorkload :: "('l, 'w) podApi \<Rightarrow> string \<Rightarrow> (string, string) gomap \<Rightarrow> string \<Rightarrow> string \<Rightarrow> string list \<Rightarrow>
    string \<Rightarrow> string \<Rightarrow> 'w \<Rightarrow> ('w, TestPod) effect" where
  "CreateDPDKWorkload A DpdkTest nodeSelector command img additionalCapabilities mac hugepagesSize w =
     CreateAndStart A (RedefinePodWithNetwork
       (DefineDPDKWorkload DpdkTest nodeSelector command img additionalCapabilities hugepagesSize) (dpdkNetwork mac DpdkTest)) w"

section \<open>Reading from pods\<close>

definition GetLogForContainer :: "('l, 'w) podApi \<Rightarrow> 'w \<Rightarrow> TestPod \<Rightarrow> string \<Rightarrow> string res" where
  "GetLogForContainer A w p containerName =
     (case pa_stream A w p containerName of
        Inl e \<Rightarrow> Inl (podFailure ''cannot get logs for pod '' p '': '' e)
      | Inr log \<Rightarrow>
          (case pa_copy A log of
             Inl e \<Rightarrow> Inl (podFailure ''cannot copy logs to buffer for pod '' p '': '' e)
           | Inr buf \<Rightarrow> Inr buf))"

definition GetLog :: "('l, 'w) podApi \<Rightarrow> 'w \<Rightarrow> TestPod \<Rightarrow> string res" where
  "GetLog A w p = (case tp_Containers p of [] \<Rightarrow> Inl indexZero | c # _ \<Rightarrow> GetLogForContainer A w p (pc_Name c))"

definition getStringEventsForPod :: "('l, 'w) podApi \<Rightarrow> 'w \<Rightarrow> TestPod option \<Rightarrow> string" where
  "getStringEventsForPod A w pod =
     (case pod of
        None \<Rightarrow> ''can't retrieve events for nil pod''
      | Some p \<Rightarrow>
          (case pa_events A w (tp_Namespace p) (tp_Name p) of
             Inl e \<Rightarrow> ''can't retrieve events for pod '' @ tp_Namespace p @ ''/'' @ tp_Name p @ '': '' @ e
           | Inr items \<Rightarrow> concat (map (\<lambda>(lastTimestamp, message). lastTimestamp @ '': '' @ message @ [CHR 0x0A]) items)))"

text \<open>The fields of a row of the route table: 1 is the destination, 7 the mask.\<close>

definition routeField :: "string \<Rightarrow> nat \<Rightarrow> string res" where
  "routeField route i =
     (let fs = Split (Join (Fields route) '' '') '' '' in
      if i < length fs then Inr (fs ! i) else Inl (Panic ''runtime error: index out of range''))"

definition zeroAddress :: string where "zeroAddress = ''00000000''"

fun defaultRoute :: "string list \<Rightarrow> string res" where
  "defaultRoute [] = Inl (Error ''default route not present'')"
| "defaultRoute (route # routes) =
     bind_res (routeField route 1) (\<lambda>destination.
       if destination \<noteq> zeroAddress then defaultRoute routes
       else bind_res (routeField route 7) (\<lambda>mask.
         if mask \<noteq> zeroAddress then defaultRoute routes else routeField route 0))"

definition parseRoutes :: "string \<Rightarrow> string res" where
  "parseRoutes routeTable =
     (let rows = Split routeTable LF in
      if length rows < 2 then Inl (Panic ''runtime error: slice bounds out of range [1:0]'')
      else defaultRoute (butlast (tl rows)))"

definition DetectDefaultRouteInterface :: "('l, 'w) podApi \<Rightarrow> TestPod \<Rightarrow> 'w \<Rightarrow> 'w \<times> string res" where
  "DetectDefaultRouteInterface A pod w =
     (case (case tp_Containers pod of
              [] \<Rightarrow> (w, [], Some (''pod ['' @ tp_Name pod @ ''] has no containers''))
            | c # _ \<Rightarrow> pa_exec A w pod (pc_Name c) [''cat'', ''/proc/net/route'']) of
        (w', out, Some err) \<Rightarrow> (w', Inl (Error (''command [cat /proc/net/route] error: '' @ err)))
      | (w', out, None) \<Rightarrow> (w', parseRoutes out))"

section \<open>Pods that are built\<close>

text \<open>The pods that the definitions and redefinitions of the package give, in any order.\<close>

inductive built :: "(string \<Rightarrow> string) \<Rightarrow> (string \<Rightarrow> bool) \<Rightarrow> TestPod \<Rightarrow> bool" for getenv valid where
  plain: "DefinePod getenv ns = Inr p \<Longrightarrow> built getenv valid p"
| networks: "DefineWithNetworks getenv ns networks = Inr p \<Longrightarrow> built getenv valid p"
| node: "DefinePodOnNode getenv ns node = Inr p \<Longrightarrow> built getenv valid p"
| hostNetwork: "DefinePodOnHostNetwork getenv ns node = Inr p \<Longrightarrow> built getenv valid p"
| hugePages: "DefineWithHugePages getenv sz ns node = Inr p \<Longrightarrow> built getenv valid p"
| dpdk: "built getenv valid (DefineDPDKWorkload ns selector command img capabilities sz)"
| command: "\<lbrakk>built getenv valid p; RedefineWithCommand p command args = Inr q\<rbrakk> \<Longrightarrow> built getenv valid q"
| restartPolicy: "built getenv valid p \<Longrightarrow> built getenv valid (RedefineWithRestartPolicy p policy)"
| network: "built getenv valid p \<Longrightarrow> built getenv valid (RedefinePodWithNetwork p networksSpec)"
| label: "built getenv valid p \<Longrightarrow> built getenv valid (RedefineWithLabel p key v)"
| affinity: "built getenv valid p \<Longrightarrow> built getenv valid (RedefineWithPodAffinityOnLabel p key v)"
| restricted: "\<lbrakk>built getenv valid p; RedefineWithRestrictedPrivileges p = Inr q\<rbrakk> \<Longrightarrow> built getenv valid q"
| privileged: "\<lbrakk>built getenv valid p; RedefineAsPrivileged p name = Inr q\<rbrakk> \<Longrightarrow> built getenv valid q"
| guaranteed: "\<lbrakk>built getenv valid p; RedefineWithGuaranteedQoS valid p cpu memory = Inr q\<rbrakk> \<Longrightarrow> built getenv valid q"

text \<open>A well-formed pod has a container, the names of its containers differ, every mounted volume is a volume of the pod,
  and the requests of a container are its limits.\<close>

definition containerOK :: "string list \<Rightarrow> PodContainer \<Rightarrow> bool" where
  "containerOK volumes c \<longleftrightarrow> fst ` set (pc_VolumeMounts c) \<subseteq> set volumes \<and> pc_Requests c = pc_Limits c"

definition podOK :: "TestPod \<Rightarrow> bool" where
  "podOK p \<longleftrightarrow> tp_Containers p \<noteq> [] \<and> distinct (map pc_Name (tp_Containers p)) \<and>
     (\<forall>c\<in>set (tp_Containers p). containerOK (tp_Volumes p) c)"

text \<open>Changing containers one by one, without changing their names.\<close>

lemma podOK_update:
  assumes "podOK p" and "list_all2 (\<lambda>c d. pc_Name d = pc_Name c \<and> (containerOK (tp_Volumes p) c \<longrightarrow> containerOK (tp_Volumes p) d))
    (tp_Containers p) cs"
  shows "podOK (p\<lparr>tp_Containers := cs\<rparr>)"
proof -
  have "map pc_Name cs = map pc_Name (tp_Containers p)"
    using assms(2) by (induction rule: list_all2_induct) auto
  moreover have "\<forall>c\<in>set cs. containerOK (tp_Volumes p) c"
    using assms(2) assms(1)[unfolded podOK_def, THEN conjunct2, THEN conjunct2]
    by (induction rule: list_all2_induct) auto
  ultimately show ?thesis using assms(1) by (auto simp: podOK_def)
qed

lemma podOK_onFirst:
  assumes "podOK p" and "onFirst p f = Inr q"
    and "\<And>c. pc_Name (f c) = pc_Name c \<and> (containerOK (tp_Volumes p) c \<longrightarrow> containerOK (tp_Volumes p) (f c))"
  shows "podOK q"
proof -
  from assms(2) obtain c cs where "tp_Containers p = c # cs" and q: "q = p\<lparr>tp_Containers := f c # cs\<rparr>"
    by (auto simp: onFirst_def split: list.splits)
  then show ?thesis
    using podOK_update [OF assms(1), of "f c # cs"] assms(3) by (simp add: list.rel_refl)
qed

lemma containerOK_updates [simp]:
  "containerOK vs (c\<lparr>pc_SecurityContext := sc\<rparr>) = containerOK vs c"
  "containerOK vs (c\<lparr>pc_Command := cmd\<rparr>) = containerOK vs c"
  "containerOK vs (c\<lparr>pc_Args := cmd\<rparr>) = containerOK vs c"
  "containerOK vs (c\<lparr>pc_Requests := rs, pc_Limits := rs\<rparr>) \<longleftrightarrow> fst ` set (pc_VolumeMounts c) \<subseteq> set vs"
  by (simp_all add: containerOK_def)

lemma restrict_each:
  "mapM_res restrictContainer cs = Inr ds \<Longrightarrow> list_all2 (\<lambda>c d. pc_Name d = pc_Name c \<and> (containerOK vs c \<longrightarrow> containerOK vs d)) cs ds"
  by (induction cs arbitrary: ds) (auto simp: res_simps restrictContainer_def split: option.splits)

lemma privilegeNamed_each:
  "privilegeNamed name cs = Some ds \<Longrightarrow> list_all2 (\<lambda>c d. pc_Name d = pc_Name c \<and> (containerOK vs c \<longrightarrow> containerOK vs d)) cs ds"
  by (induction cs arbitrary: ds) (auto simp: privileged_def list.rel_refl split: if_splits option.splits)

lemma podOK_getDefinition: "getDefinition getenv ns = Inr p \<Longrightarrow> podOK p \<and> tp_Volumes p = []"
  by (auto simp: getDefinition_def res_simps podOK_def containerOK_def plainPod_def plainContainer_def)

lemma podOK_fields [simp]:
  "podOK (p\<lparr>tp_Annotations := a\<rparr>) = podOK p" "podOK (p\<lparr>tp_NodeSelector := sel\<rparr>) = podOK p"
  "podOK (p\<lparr>tp_HostNetwork := b\<rparr>) = podOK p" "podOK (p\<lparr>tp_RestartPolicy := r\<rparr>) = podOK p"
  "podOK (p\<lparr>tp_Labels := ls\<rparr>) = podOK p" "podOK (p\<lparr>tp_PodAffinity := x\<rparr>) = podOK p"
  "podOK (p\<lparr>tp_PodSecurity := y\<rparr>) = podOK p"
  by (simp_all add: podOK_def)

lemma podOK_DefineWithHugePages: "DefineWithHugePages getenv sz ns node = Inr p \<Longrightarrow> podOK p"
  by (auto simp: DefineWithHugePages_def getDefinition_def RedefineWithCommand_def RedefineWithRestartPolicy_def onFirst_def
      res_simps podOK_def containerOK_def plainPod_def plainContainer_def)

lemma podOK_DefineDPDKWorkload: "podOK (DefineDPDKWorkload ns selector command img capabilities sz)"
  by (simp add: DefineDPDKWorkload_def dpdkContainer_def podOK_def containerOK_def plainPod_def plainContainer_def)

text \<open>C33. Every pod that the definitions and redefinitions of the package build, in any order, is well-formed: it has a
  container (so that the redefinitions of the first container do not panic), no two containers share a name, every volume
  mount names a volume of the pod, and requests and limits agree.\<close>

theorem built_pods_wellformed:
  assumes "built getenv valid p"
  shows "podOK p"
  using assms
proof induction
  case (command p command args q)
  then show ?case by (auto simp: RedefineWithCommand_def intro: podOK_onFirst)
next
  case (restricted p q)
  then show ?case
    by (auto simp: RedefineWithRestrictedPrivileges_def res_simps intro!: podOK_update restrict_each)
next
  case (privileged p name q)
  then show ?case
    by (auto simp: RedefineAsPrivileged_def privileged_def intro: podOK_onFirst podOK_update privilegeNamed_each
        split: if_splits option.splits)
next
  case (guaranteed p cpu memory q)
  then show ?case
    by (auto simp: RedefineWithGuaranteedQoS_def containerOK_def split: if_splits intro: podOK_onFirst)
qed (auto simp: DefinePod_def DefineWithNetworks_def DefinePodOnNode_def DefinePodOnHostNetwork_def res_simps
    RedefineWithRestartPolicy_def RedefinePodWithNetwork_def RedefineWithLabel_def RedefineWithPodAffinityOnLabel_def
    podOK_DefineWithHugePages podOK_DefineDPDKWorkload dest: podOK_getDefinition)

definition demoWorkload :: TestPod where
  "demoWorkload = DefineDPDKWorkload ''dpdk-testing'' [] ''sleep INF'' ''dpdk'' [] ''1G''"

theorem built_pods_wellformed_witness: "podOK (RedefineWithLabel demoWorkload ''a'' ''b'')"
  unfolding demoWorkload_def
  by (rule built_pods_wellformed [of "\<lambda>_. []" "\<lambda>_. True"]) (intro built.label built.dpdk)

section \<open>Privileges\<close>

text \<open>A container that is asked for by its name becomes privileged only if it has a security context: a new one is
  written to the copy of the container that the search made, and lost.\<close>

theorem RedefineAsPrivileged_named:
  assumes "name \<noteq> []" and "find (\<lambda>c. pc_Name c = name) (tp_Containers pod) = Some c"
  shows "\<exists>pod'. RedefineAsPrivileged pod name = Inr pod' \<and>
    find (\<lambda>c. pc_Name c = name) (tp_Containers pod') = Some (if pc_SecurityContext c = None then c else privileged c)"
proof -
  let ?d = "if pc_SecurityContext c = None then c else privileged c"
  have "\<exists>ds. privilegeNamed name cs = Some ds \<and> find (\<lambda>c. pc_Name c = name) ds = Some ?d"
    if "find (\<lambda>c. pc_Name c = name) cs = Some c" for cs
    using that by (induction cs) (auto simp: privileged_def split: if_splits)
  from this [OF assms(2)] obtain ds
    where "privilegeNamed name (tp_Containers pod) = Some ds" and "find (\<lambda>c. pc_Name c = name) ds = Some ?d" by blast
  then show ?thesis
    using assms(1) by (intro exI [of _ "pod\<lparr>tp_Containers := ds\<rparr>"]) (simp add: RedefineAsPrivileged_def)
qed

section \<open>Starting a pod\<close>

lemma getCreated_ready:
  "podHasCondition A pod c st w \<Longrightarrow> \<exists>p. pa_get A w (tp_Namespace pod) (tp_Name pod) = Inr p \<and> getCreated A pod w = Inr p \<and>
     (c, st) \<in> set (tp_Conditions p)"
  by (auto simp: podHasCondition_def getCreated_def split: sum.splits)

text \<open>C34. Starting a pod returns a pod exactly if the containers of the created pod become ready within the 180 seconds after
  its creation, and then at the first second at which they are; the pod that is returned is the one of the server
  at that time, and ready. Otherwise it waits 180 seconds and reports the timeout.\<close>

theorem CreateAndStart_ready:
  fixes A :: "('l, 'w) podApi"
  assumes "pa_create A w pod = (w1, pod1, None)"
  defines "ready \<equiv> podHasCondition A pod1 ''ContainersReady'' ''True''"
    and "at \<equiv> \<lambda>k. (pa_tick A 1 ^^ k) w1"
  shows "(\<exists>k\<le>180. \<exists>p. ready (at k) \<and> (\<forall>j<k. \<not> ready (at j)) \<and>
      pa_get A (at k) (tp_Namespace pod1) (tp_Name pod1) = Inr p \<and> (''ContainersReady'', ''True'') \<in> set (tp_Conditions p) \<and>
      CreateAndStart A pod w = Some (at k, Inr p)) \<or>
    (\<forall>k\<le>180. \<not> ready (at k)) \<and> (\<exists>e. CreateAndStart A pod w = Some (at 180, Inl (Error e)))"
proof -
  let ?l = "pollLoop (pa_tick A 1) ready 180 w1"
  have wait: "WaitForPodCondition A pod1 ''ContainersReady'' ''True'' (minutes 3) w1 = Some ?l"
    by (simp add: WaitForPodCondition_def PollImmediate_def minutes_def ready_def)
  from pollLoop_total [of "pa_tick A 1" ready 180 w1] show ?thesis
  proof
    assume "?l = (fst ?l, Inr ())"
    then obtain k where k: "k \<le> 180" "fst ?l = at k" "ready (at k)" "\<forall>j<k. \<not> ready (at j)"
      unfolding at_def pollLoop_Inr_iff by auto
    then have l: "?l = (at k, Inr ())" using \<open>?l = (fst ?l, Inr ())\<close> by simp
    obtain p where p: "pa_get A (at k) (tp_Namespace pod1) (tp_Name pod1) = Inr p" "getCreated A pod1 (at k) = Inr p"
        "(''ContainersReady'', ''True'') \<in> set (tp_Conditions p)"
      using getCreated_ready [OF k(3) [unfolded ready_def]] by (elim exE conjE)
    then have "CreateAndStart A pod w = Some (at k, Inr p)"
      by (simp add: CreateAndStart_def assms(1) wait l del: One_nat_def)
    with k p show ?thesis by blast
  next
    assume l: "?l = ((pa_tick A 1 ^^ 180) w1, Inl timedOut)"
    have "\<not> ready (at k)" if "k \<le> 180" for k
    proof
      assume "ready (at k)"
      then obtain m where m: "ready (at m)" "\<forall>j<m. \<not> ready (at j)" "m \<le> k"
        using ex_least_nat_le [of "\<lambda>m. ready (at m)" k] by blast
      then have "?l = (at m, Inr ())"
        unfolding pollLoop_Inr_iff using \<open>k \<le> 180\<close> by (auto simp: at_def intro!: exI [of _ m])
      with l show False by simp
    qed
    moreover have "\<exists>e. CreateAndStart A pod w = Some (at 180, Inl (Error e))"
      by (simp add: CreateAndStart_def assms(1) wait l podFailure_def at_def del: One_nat_def)
    ultimately show ?thesis by blast
  qed
qed

text \<open>A cluster whose state is the number of seconds since the pod was created: ready after three.\<close>

definition startedPod :: TestPod where
  "startedPod = demoWorkload\<lparr>tp_Name := ''dpdk-1''\<rparr>"

definition demoPods :: "(unit, nat) podApi" where
  "demoPods = \<lparr>pa_create = (\<lambda>_ p. (0, p\<lparr>tp_Name := ''dpdk-1''\<rparr>, None)),
     pa_get = (\<lambda>t _ _. Inr (startedPod\<lparr>tp_Conditions := if 3 \<le> t then [(''ContainersReady'', ''True'')] else []\<rparr>)),
     pa_exec = (\<lambda>w _ _ _. (w, [], None)), pa_stream = (\<lambda>_ _ _. Inr ()), pa_copy = (\<lambda>_. Inr []), pa_events = (\<lambda>_ _ _. Inr []),
     pa_tick = (\<lambda>n t. t + n)\<rparr>"

lemma demoPods_ready: "podHasCondition demoPods pod ''ContainersReady'' ''True'' t \<longleftrightarrow> 3 \<le> t"
  by (simp add: podHasCondition_def demoPods_def)

lemma demoPods_tick: "(pa_tick demoPods (Suc 0) ^^ k) 0 = k"
  by (induction k) (simp_all add: demoPods_def)

lemma demoPods_create: "pa_create demoPods w demoWorkload = (0, startedPod, None)"
  by (simp add: demoPods_def startedPod_def)

theorem CreateAndStart_ready_witness: "\<exists>p. CreateAndStart demoPods demoWorkload 0 = Some (3, Inr p)"
proof -
  from CreateAndStart_ready [OF demoPods_create [of 0]] show ?thesis
    unfolding demoPods_ready One_nat_def demoPods_tick
  proof (elim disjE exE conjE)
    fix k p
    assume "3 \<le> k" and "\<forall>j<k. \<not> 3 \<le> j" and r: "CreateAndStart demoPods demoWorkload 0 = Some (k, Inr p)"
    then have "k = 3" by (metis le_neq_implies_less order_refl)
    with r show ?thesis by simp
  next
    assume "\<forall>k\<le>180. \<not> 3 \<le> (k :: nat)"
    from this [THEN spec, of 3] show ?thesis by simp
  qed
qed

section \<open>The default route\<close>

text \<open>A route table as the kernel prints it: a header and rows of fields between tabs, a line each.\<close>

definition routeTable :: "string \<Rightarrow> string list list \<Rightarrow> string" where
  "routeTable header rows = concat (map (\<lambda>l. l @ LF) (header # map (\<lambda>r. Join r [CHR 0x09]) rows))"

definition routeRow :: "string list \<Rightarrow> bool" where
  "routeRow r \<longleftrightarrow> 8 \<le> length r \<and> (\<forall>f\<in>set r. f \<noteq> [] \<and> (\<forall>c\<in>set f. visible c))"

lemma visible_neq: "visible c \<Longrightarrow> c \<noteq> CHR 0x20 \<and> c \<noteq> CHR 0x0A"
  by (auto simp: visible_def)

lemma routeField_row:
  assumes "routeRow r" and "i < 8"
  shows "routeField (Join r [CHR 0x09]) i = Inr (r ! i)"
proof -
  have "Fields (Join r [CHR 0x09]) = r" using assms by (intro Fields_tabs) (simp add: routeRow_def)
  moreover have "Split (Join r [CHR 0x20]) [CHR 0x20] = r"
  proof (rule Split_Join)
    show "r \<noteq> []" using assms by (auto simp: routeRow_def)
    show "\<forall>x\<in>set r. CHR 0x20 \<notin> set x" using assms visible_neq unfolding routeRow_def by blast
  qed
  ultimately show ?thesis using assms by (simp add: routeField_def routeRow_def Let_def)
qed

lemma Join_set: "set (Join xs s) \<subseteq> \<Union> (set ` set xs) \<union> set s"
  by (induction xs s rule: Join.induct) auto

lemma routeRow_line: "routeRow r \<Longrightarrow> CHR 0x0A \<notin> set (Join r [CHR 0x09])"
  using Join_set [of r "[CHR 0x09]"] visible_neq unfolding routeRow_def by fastforce

lemma defaultRoute_rows:
  "\<forall>r\<in>set rows. routeRow r \<Longrightarrow> defaultRoute (map (\<lambda>r. Join r [CHR 0x09]) rows) =
     (case find (\<lambda>r. r ! 1 = zeroAddress \<and> r ! 7 = zeroAddress) rows of
        None \<Rightarrow> Inl (Error ''default route not present'')
      | Some r \<Rightarrow> Inr (r ! 0))"
  by (induction rows) (simp_all add: routeField_row)

text \<open>On a route table as the kernel prints it, the interface of the first route whose destination and mask are zero is
  returned, and the error if there is no such route; the metric plays no part.\<close>

theorem parseRoutes_table:
  assumes "CHR 0x0A \<notin> set header" and "\<forall>r\<in>set rows. routeRow r"
  shows "parseRoutes (routeTable header rows) =
    (case find (\<lambda>r. r ! 1 = zeroAddress \<and> r ! 7 = zeroAddress) rows of
       None \<Rightarrow> Inl (Error ''default route not present'')
     | Some r \<Rightarrow> Inr (r ! 0))"
proof -
  have "Split (routeTable header rows) LF = header # map (\<lambda>r. Join r [CHR 0x09]) rows @ [[]]"
    using Split_lines [of "header # map (\<lambda>r. Join r [CHR 0x09]) rows" "CHR 0x0A"] assms routeRow_line
    by (simp add: routeTable_def LF_def)
  then show ?thesis
    unfolding parseRoutes_def using defaultRoute_rows [OF assms(2)] by (simp add: butlast_append)
qed

definition demoRow :: "string \<Rightarrow> string \<Rightarrow> string \<Rightarrow> string \<Rightarrow> string list" where
  "demoRow iface destination metric msk = [iface, destination, ''016FA8C0'', ''0003'', ''0'', ''0'', metric, msk]"

theorem parseRoutes_table_witness:
  "parseRoutes (routeTable ''Iface'' [demoRow ''tun0'' ''0000800A'' ''0'' ''0000FCFF'', demoRow ''enp2s0'' zeroAddress ''101'' zeroAddress])
     = Inr ''enp2s0''"
  by (subst parseRoutes_table) (simp_all add: demoRow_def routeRow_def zeroAddress_def visible_def)

end
