(* ===== verification/SriovNetworks.thy ===== *)
theory SriovNetworks
  imports Discovery NamespaceOps TestPods
begin

text \<open>
  Secondary networks of the tests: the builder of network attachment definitions and the SR-IOV policies and networks
  (\<^verbatim>\<open>cnf-tests/testsuites/pkg/networks\<close>), multi-network policies (\<^verbatim>\<open>cnf-tests/testsuites/pkg/networkpolicy\<close>), the SELinux
  boolean of a node (\<^verbatim>\<open>cnf-tests/testsuites/pkg/utils/selinux.go\<close>) and the helpers of the FEC operator's API
  (\<^verbatim>\<open>cnf-tests/testsuites/pkg/apis/sriov-fec/api/v2/helper.go\<close>).
\<close>

section \<open>Network attachment definitions\<close>

record nadBuilder =
  nb_Name :: string
  nb_Namespace :: string
  nb_config :: string
  nb_metaPluginConfigs :: "string list"
  nb_ipam :: string
  nb_errorMsg :: string

record NetworkAttachment =
  nad_Name :: string
  nad_Namespace :: string
  nad_Config :: string

definition NewNetworkAttachmentDefinitionBuilder :: "string \<Rightarrow> string \<Rightarrow> nadBuilder" where
  "NewNetworkAttachmentDefinitionBuilder namespace nadName =
     \<lparr>nb_Name = nadName, nb_Namespace = namespace, nb_config = [], nb_metaPluginConfigs = [], nb_ipam = [], nb_errorMsg = []\<rparr>"

definition twice :: string where "twice = ''Main plugin set more than twice''"

definition setConfig :: "nadBuilder \<Rightarrow> string \<Rightarrow> nadBuilder" where
  "setConfig b config = (if nb_config b \<noteq> [] then b\<lparr>nb_errorMsg := twice\<rparr> else b)\<lparr>nb_config := config\<rparr>"

definition braces :: "string \<Rightarrow> string" where "braces s = ''{'' @ s @ ''}''"

definition field :: "string \<Rightarrow> string \<Rightarrow> string" where "field k v = inQuotes k @ '': '' @ v"

definition WithTuning :: "nadBuilder \<Rightarrow> string \<Rightarrow> nadBuilder" where
  "WithTuning b sysctls = b\<lparr>nb_metaPluginConfigs := nb_metaPluginConfigs b @ [braces sysctls]\<rparr>"

definition tab2 :: string where "tab2 = [CHR 0x2C, CHR 0x0A, CHR 0x09, CHR 0x09]"

definition bondConfig :: "string \<Rightarrow> string \<Rightarrow> string \<Rightarrow> int \<Rightarrow> string" where
  "bondConfig bondName link1 link2 mtu =
     [CHR 0x0A, CHR 0x09] @ ''    '' @
     Join [field ''type'' (inQuotes ''bond''), field ''ifname'' (inQuotes bondName), field ''mode'' (inQuotes ''active-backup''),
       field ''failOverMac'' ''1'', field ''linksInContainer'' ''true'', field ''miimon'' (inQuotes ''100''), field ''mtu'' (Itoa mtu),
       field ''links'' (''[ '' @ braces (field ''name'' (inQuotes link1)) @ '', '' @ braces (field ''name'' (inQuotes link2)) @ '' ]'')] tab2"

definition WithBond :: "nadBuilder \<Rightarrow> string \<Rightarrow> string \<Rightarrow> string \<Rightarrow> int \<Rightarrow> nadBuilder" where
  "WithBond b bondName link1 link2 mtu = setConfig b (bondConfig bondName link1 link2 mtu)"

definition WithStaticIpam :: "nadBuilder \<Rightarrow> string \<Rightarrow> nadBuilder" where
  "WithStaticIpam b ip =
     b\<lparr>nb_ipam := field ''ipam'' (braces (inQuotes ''type'' @ '':'' @ inQuotes ''static'' @ '','' @ inQuotes ''addresses'' @ '':['' @
       braces (inQuotes ''address'' @ '':'' @ inQuotes (ip @ ''/24'')) @ '']'')) @ '',''\<rparr>"

definition WithHostLocalIpam :: "nadBuilder \<Rightarrow> string \<Rightarrow> nadBuilder" where
  "WithHostLocalIpam b ip =
     b\<lparr>nb_ipam := field ''ipam'' (braces (field ''type'' (inQuotes ''host-local'') @ '', '' @ field ''subnet'' (inQuotes (ip @ ''/24'')))) @ '',''\<rparr>"

definition WithMacVlan :: "nadBuilder \<Rightarrow> nadBuilder" where
  "WithMacVlan b = setConfig b (field ''type'' (inQuotes ''macvlan''))"

definition boolText :: "bool \<Rightarrow> string" where "boolText b = (if b then ''true'' else ''false'')"

definition vlanConfig :: "string \<Rightarrow> int \<Rightarrow> bool \<Rightarrow> string" where
  "vlanConfig master vlanID linkInContainer =
     Join [field ''type'' (inQuotes ''vlan''), field ''master'' (inQuotes master), field ''vlanId'' (Itoa vlanID),
       field ''linkInContainer'' (boolText linkInContainer)] '', ''"

definition WithVlan :: "nadBuilder \<Rightarrow> string \<Rightarrow> int \<Rightarrow> bool \<Rightarrow> nadBuilder" where
  "WithVlan b master vlanID linkInContainer = setConfig b (vlanConfig master vlanID linkInContainer)"

definition tapConfig :: string where
  "tapConfig = Join [field ''type'' (inQuotes ''tap''), field ''selinuxcontext'' (inQuotes ''system_u:system_r:container_t:s0''),
     field ''multiQueue'' ''true''] '', ''"

definition WithTap :: "nadBuilder \<Rightarrow> nadBuilder" where
  "WithTap b = setConfig b tapConfig"

definition BuildNetwork :: "nadBuilder \<Rightarrow> NetworkAttachment res" where
  "BuildNetwork b =
     (if nb_errorMsg b \<noteq> [] then Inl (Error (nb_errorMsg b))
      else Inr \<lparr>nad_Name = nb_Name b, nad_Namespace = nb_Namespace b,
        nad_Config = braces (inQuotes ''cniVersion'' @ '':'' @ inQuotes ''0.4.0'' @ '','' @ inQuotes ''name'' @ '':'' @ inQuotes (nb_Name b) @
          '','' @ inQuotes ''plugins'' @ '':['' @ Join (braces (nb_ipam b @ '' '' @ nb_config b) # nb_metaPluginConfigs b) '', '' @ '']'')\<rparr>)"

definition SysctlConfig :: "((string, string) gomap \<Rightarrow> string + string) \<Rightarrow> (string, string) gomap \<Rightarrow> string res" where
  "SysctlConfig marshal sysctls =
     (case marshal sysctls of
        Inl e \<Rightarrow> Inl (Error e)
      | Inr s \<Rightarrow> Inr (inQuotes ''type'' @ '':'' @ inQuotes ''tuning'' @ '','' @ inQuotes ''sysctl'' @ '':'' @ s))"

section \<open>Multi-network policies\<close>

record ('s, 'i, 'e) MultiPolicy =
  mnp_GenerateName :: string
  mnp_Annotations :: "(string, string) gomap"
  mnp_PodSelector :: 's
  mnp_PolicyTypes :: "string list"
  mnp_Ingress :: "'i list"
  mnp_Egress :: "'e list"

datatype ('s, 'i, 'e) policyOpt =
  WithPodSelector 's | WithEmptyIngressRules | WithIngressRule 'i | WithEmptyEgressRules | WithEgressRule 'e
| CreateInNamespace string

definition appendIfNotPresent :: "string list \<Rightarrow> string \<Rightarrow> string list" where
  "appendIfNotPresent input newElement = (if newElement \<in> set input then input else input @ [newElement])"

definition PolicyTypeIngress :: string where "PolicyTypeIngress = ''Ingress''"
definition PolicyTypeEgress :: string where "PolicyTypeEgress = ''Egress''"

text \<open>Creating gives the policy as the server has it; a failed assertion ends the test.\<close>

fun applyOpt :: "('w \<Rightarrow> string \<Rightarrow> ('s, 'i, 'e) MultiPolicy \<Rightarrow> 'w \<times> (string + ('s, 'i, 'e) MultiPolicy)) \<Rightarrow> ('s, 'i, 'e) policyOpt \<Rightarrow>
    ('s, 'i, 'e) MultiPolicy \<Rightarrow> 'w \<Rightarrow> 'w \<times> ('s, 'i, 'e) MultiPolicy res" where
  "applyOpt create (WithPodSelector s) pol w = (w, Inr (pol\<lparr>mnp_PodSelector := s\<rparr>))"
| "applyOpt create WithEmptyIngressRules pol w =
     (w, Inr (pol\<lparr>mnp_PolicyTypes := appendIfNotPresent (mnp_PolicyTypes pol) PolicyTypeIngress, mnp_Ingress := []\<rparr>))"
| "applyOpt create (WithIngressRule r) pol w =
     (w, Inr (pol\<lparr>mnp_PolicyTypes := appendIfNotPresent (mnp_PolicyTypes pol) PolicyTypeIngress, mnp_Ingress := mnp_Ingress pol @ [r]\<rparr>))"
| "applyOpt create WithEmptyEgressRules pol w =
     (w, Inr (pol\<lparr>mnp_PolicyTypes := appendIfNotPresent (mnp_PolicyTypes pol) PolicyTypeEgress, mnp_Egress := []\<rparr>))"
| "applyOpt create (WithEgressRule r) pol w =
     (w, Inr (pol\<lparr>mnp_PolicyTypes := appendIfNotPresent (mnp_PolicyTypes pol) PolicyTypeEgress, mnp_Egress := mnp_Egress pol @ [r]\<rparr>))"
| "applyOpt create (CreateInNamespace ns) pol w =
     (case create w ns pol of (w', Inl e) \<Rightarrow> (w', Inl (Panic ''Unexpected error'')) | (w', Inr ret) \<Rightarrow> (w', Inr ret))"

fun applyOpts :: "('w \<Rightarrow> string \<Rightarrow> ('s, 'i, 'e) MultiPolicy \<Rightarrow> 'w \<times> (string + ('s, 'i, 'e) MultiPolicy)) \<Rightarrow> ('s, 'i, 'e) policyOpt list \<Rightarrow>
    ('s, 'i, 'e) MultiPolicy \<Rightarrow> 'w \<Rightarrow> 'w \<times> ('s, 'i, 'e) MultiPolicy res" where
  "applyOpts create [] pol w = (w, Inr pol)"
| "applyOpts create (opt # opts) pol w =
     (case applyOpt create opt pol w of (w', Inl e) \<Rightarrow> (w', Inl e) | (w', Inr pol') \<Rightarrow> applyOpts create opts pol' w')"

definition MakeMultiNetworkPolicy :: "('w \<Rightarrow> string \<Rightarrow> ('s, 'i, 'e) MultiPolicy \<Rightarrow> 'w \<times> (string + ('s, 'i, 'e) MultiPolicy)) \<Rightarrow> 's \<Rightarrow> string \<Rightarrow>
    ('s, 'i, 'e) policyOpt list \<Rightarrow> 'w \<Rightarrow> 'w \<times> ('s, 'i, 'e) MultiPolicy res" where
  "MakeMultiNetworkPolicy create emptySelector targetNetwork opts w =
     applyOpts create opts
       \<lparr>mnp_GenerateName = ''test-multinetwork-policy-'', mnp_Annotations = [(''k8s.v1.cni.cncf.io/policy-for'', targetNetwork)],
        mnp_PodSelector = emptySelector, mnp_PolicyTypes = [], mnp_Ingress = [], mnp_Egress = []\<rparr> w"

definition IsMultiEnabled :: "apiError option \<Rightarrow> bool res" where
  "IsMultiEnabled getCrd =
     (case getCrd of
        None \<Rightarrow> Inr True
      | Some (NotFound _) \<Rightarrow> Inr False
      | Some (ApiError e) \<Rightarrow> Inl (Error (''can't get CRD `multi-networkpolicies.k8s.cni.cncf.io` on cluster: '' @ e)))"

section \<open>SELinux and FEC\<close>

definition getMachineConfigDaemon :: "'w clusterApi \<Rightarrow> 'w \<Rightarrow> string \<Rightarrow> Pod res" where
  "getMachineConfigDaemon C w node =
     bind_res (ca_pods C w NamespaceMachineConfigOperator ''k8s-app=machine-config-daemon'' (''spec.nodeName='' @ node)) (\<lambda>items.
       case items of
         [] \<Rightarrow> Inl (Error ''cluster machines are not managed by the machine operator'')
       | mcd # _ \<Rightarrow> Inr mcd)"

definition sebool :: "string \<Rightarrow> string list" where
  "sebool cmd = [''sh'', ''-c'', ''nsenter --mount=/proc/1/ns/mnt -- sh -c '' @ [CHR 0x27] @ cmd @ [CHR 0x27]]"

text \<open>\<^verbatim>\<open>pods.ExecCommand\<close> on the first container.\<close>

definition execFirst :: "'w clusterApi \<Rightarrow> 'w \<Rightarrow> Pod \<Rightarrow> string list \<Rightarrow> 'w \<times> string res" where
  "execFirst C w pod command =
     (case pod_Containers pod of
        [] \<Rightarrow> (w, Inl (Error (''pod ['' @ pod_Name pod @ ''] has no containers'')))
      | c # _ \<Rightarrow>
          (case ca_exec C w pod (con_Name c) command of
             (w', out, None) \<Rightarrow> (w', Inr out)
           | (w', out, Some (_, e)) \<Rightarrow> (w', Inl (Error e))))"

definition onDaemon :: "'w clusterApi \<Rightarrow> 'w \<Rightarrow> string \<Rightarrow> string \<Rightarrow> 'w \<times> string res" where
  "onDaemon C w node cmd =
     (case getMachineConfigDaemon C w node of Inl e \<Rightarrow> (w, Inl e) | Inr mcd \<Rightarrow> execFirst C w mcd (sebool cmd))"

definition IsContainerUseDevicesSEBooleanDisabled :: "'w clusterApi \<Rightarrow> 'w \<Rightarrow> string \<Rightarrow> 'w \<times> bool res" where
  "IsContainerUseDevicesSEBooleanDisabled C w node =
     (case onDaemon C w node ''getsebool container_use_devices'' of
        (w', Inl e) \<Rightarrow> (w', Inl e)
      | (w', Inr out) \<Rightarrow> (w', Inr (Contains out ''off'')))"

definition SetContainerUseDevicesSEBoolean :: "'w clusterApi \<Rightarrow> 'w \<Rightarrow> string \<Rightarrow> 'w \<times> unit res" where
  "SetContainerUseDevicesSEBoolean C w node =
     (case onDaemon C w node ''setsebool container_use_devices 1'' of (w', r) \<Rightarrow> (w', bind_res r (\<lambda>_. Inr ())))"

definition UnsetContainerUseDevicesSEBoolean :: "'w clusterApi \<Rightarrow> 'w \<Rightarrow> string \<Rightarrow> 'w \<times> unit res" where
  "UnsetContainerUseDevicesSEBoolean C w node =
     (case onDaemon C w node ''setsebool container_use_devices 0'' of (w', r) \<Rightarrow> (w', bind_res r (\<lambda>_. Inr ())))"

record FecConfig =
  fc_Name :: string
  fc_Priority :: int

definition fecLess :: "FecConfig \<Rightarrow> FecConfig \<Rightarrow> bool" where
  "fecLess a b \<longleftrightarrow> (if fc_Priority a \<noteq> fc_Priority b then fc_Priority a > fc_Priority b else fc_Name a < fc_Name b)"

record Accelerator =
  ac_VendorID :: string
  ac_DeviceID :: string
  ac_PCIAddress :: string
  ac_PFDriver :: string
  ac_MaxVFs :: int

definition acceleratorMatches :: "Accelerator \<Rightarrow> Accelerator \<Rightarrow> bool" where
  "acceleratorMatches s a \<longleftrightarrow>
     (if ac_VendorID s \<noteq> [] \<and> ac_VendorID s \<noteq> ac_VendorID a then False
      else if ac_PCIAddress s \<noteq> [] \<and> ac_PCIAddress s \<noteq> ac_PCIAddress a then False
      else if ac_PFDriver s \<noteq> [] \<and> ac_PFDriver s \<noteq> ac_PFDriver a then False
      else if ac_MaxVFs s \<noteq> 0 \<and> ac_MaxVFs s \<noteq> ac_MaxVFs a then False
      else if ac_DeviceID s \<noteq> [] \<and> ac_DeviceID s \<noteq> ac_DeviceID a then False
      else True)"

section \<open>SR-IOV policies and networks\<close>

text \<open>\<open>sv_policy\<close> and \<open>sv_network\<close> are \<^verbatim>\<open>CreateSriovPolicy\<close> and \<^verbatim>\<open>CreateSriovNetwork\<close> of the SR-IOV operator's test
  packages (without the client), \<open>sv_create\<close> creates a policy, \<open>sv_attachment\<close> reads a network attachment definition.\<close>

record nodePolicy = SriovPolicy +
  np_GenerateName :: string
  np_Namespace :: string
  np_NodeSelector :: "(string, string) gomap"
  np_NumVfs :: int
  np_Priority :: int
  np_PfNames :: "string list"
  np_NeedVhostNet :: bool

record sriovDiscovery =
  sd_Nodes :: "string list"
  sd_FindOne :: "string \<Rightarrow> Device res"

record 'w sriovEnv =
  sv_cluster :: "'w clusterApi"
  sv_discover :: "'w \<Rightarrow> string \<Rightarrow> sriovDiscovery option res"
  sv_policy :: "'w \<Rightarrow> string \<Rightarrow> string \<Rightarrow> string \<Rightarrow> string \<Rightarrow> int \<Rightarrow> string \<Rightarrow> string \<Rightarrow> 'w \<times> unit res"
  sv_network :: "'w \<Rightarrow> Device \<Rightarrow> string \<Rightarrow> string \<Rightarrow> string \<Rightarrow> string \<Rightarrow> string \<Rightarrow> string \<Rightarrow> int \<Rightarrow> 'w \<times> unit res"
  sv_create :: "'w \<Rightarrow> nodePolicy \<Rightarrow> 'w \<times> unit res"
  sv_attachment :: "'w \<Rightarrow> string \<Rightarrow> string \<Rightarrow> unit res"
  sv_cleanNetworks :: "'w \<Rightarrow> string \<Rightarrow> 'w \<times> unit res"
  sv_cleanPolicies :: "'w \<Rightarrow> string \<Rightarrow> 'w \<times> unit res"
  sv_sriovStable :: "'w \<Rightarrow> string \<Rightarrow> bool"
  sv_clusterStable :: "'w \<Rightarrow> bool"
  sv_nodeStates :: "'w \<Rightarrow> string \<Rightarrow> apiError option"
  sv_configMap :: "'w \<Rightarrow> string \<Rightarrow> string \<Rightarrow> (string, string) gomap res"
  sv_tick :: "nat \<Rightarrow> 'w \<Rightarrow> 'w"

definition MlxVendorID :: string where "MlxVendorID = ''15b3''"
definition IntelVendorID :: string where "IntelVendorID = ''8086''"

text \<open>Seconds, from \<^verbatim>\<open>SRIOV_WAITING_TIME\<close>.\<close>

definition waitingTime :: "(string \<Rightarrow> string) \<Rightarrow> int" where
  "waitingTime getenv =
     (case Atoi (getenv ''SRIOV_WAITING_TIME'') of
        Some newTime \<Rightarrow> if newTime \<noteq> 0 then minutes newTime else minutes 20
      | None \<Rightarrow> minutes 20)"

text \<open>A failed assertion ends the test.\<close>

definition expectOk :: "'w \<times> 'a res \<Rightarrow> ('w \<Rightarrow> 'a \<Rightarrow> 'w \<times> 'b res) \<Rightarrow> 'w \<times> 'b res" where
  "expectOk r f =
     (case r of
        (w, Inr x) \<Rightarrow> f w x
      | (w, Inl (Error e)) \<Rightarrow> (w, Inl (Panic (''Unexpected error: '' @ e)))
      | (w, Inl (Panic e)) \<Rightarrow> (w, Inl (Panic e)))"

definition expect :: "bool \<Rightarrow> 'w \<Rightarrow> ('w \<Rightarrow> 'w \<times> 'b res) \<Rightarrow> 'w \<times> 'b res" where
  "expect b w f = (if b then f w else (w, Inl (Panic ''Expectation failed'')))"

definition IsSriovOperatorInstalled :: "'w sriovEnv \<Rightarrow> string \<Rightarrow> 'w \<Rightarrow> 'w \<times> bool res" where
  "IsSriovOperatorInstalled E SRIOVOperator w =
     (case sv_nodeStates E w SRIOVOperator of
        Some (NotFound _) \<Rightarrow> (w, Inr False)
      | err \<Rightarrow> expect (err = None) w (\<lambda>w. (w, Inr True)))"

text \<open>The operator's namespace is fixed here.\<close>

definition WaitStable :: "'w sriovEnv \<Rightarrow> nat \<Rightarrow> 'w \<Rightarrow> 'w \<times> unit res" where
  "WaitStable E waiting w =
     expectOk (w, IsSingleNodeCluster (sv_cluster E) w) (\<lambda>w isSNO.
       let timeout = waiting * (if isSNO then 2 else 1) in
       expectOk (Eventually (sv_tick E) 1 timeout (\<lambda>w. Inr (sv_sriovStable E w ''openshift-sriov-network-operator'')) (sv_tick E 15 w)) (\<lambda>w _.
         Eventually (sv_tick E) 1 timeout (\<lambda>w. Inr (sv_clusterStable E w)) w))"

definition CleanSriov :: "'w sriovEnv \<Rightarrow> string \<Rightarrow> nat \<Rightarrow> bool \<Rightarrow> 'w \<Rightarrow> 'w \<times> unit res" where
  "CleanSriov E SRIOVOperator waiting enabled w =
     expectOk (sv_cleanNetworks E w SRIOVOperator) (\<lambda>w _.
     expectOk (if enabled then (w, Inr ()) else sv_cleanPolicies E w SRIOVOperator) (\<lambda>w _. WaitStable E waiting w))"

definition sriovIpam :: string where
  "sriovIpam = braces (field ''type'' (inQuotes ''host-local'') @ '','' @ field ''ranges'' (''[['' @ braces (field ''subnet'' (inQuotes ''1.1.1.0/24'')) @ '']]'')
     @ '','' @ field ''dataDir'' (inQuotes ''/run/my-orchestrator/container-ipam-state''))"

definition CreateSriovNetworkWithVlan :: "'w sriovEnv \<Rightarrow> Device \<Rightarrow> string \<Rightarrow> string \<Rightarrow> string \<Rightarrow> string \<Rightarrow> string \<Rightarrow> int \<Rightarrow> 'w \<Rightarrow> 'w \<times> unit res" where
  "CreateSriovNetworkWithVlan E sriovDevice sriovNetworkName sriovNetworkNamespace operatorNamespace resourceName metaPluginsConfig vlan w =
     expectOk (sv_network E w sriovDevice sriovNetworkName sriovNetworkNamespace operatorNamespace resourceName sriovIpam metaPluginsConfig vlan) (\<lambda>w _.
       Eventually (sv_tick E) 5 60 (\<lambda>w. Inr (is_ok (sv_attachment E w sriovNetworkName sriovNetworkNamespace))) w)"

definition CreateSriovNetwork :: "'w sriovEnv \<Rightarrow> Device \<Rightarrow> string \<Rightarrow> string \<Rightarrow> string \<Rightarrow> string \<Rightarrow> string \<Rightarrow> 'w \<Rightarrow> 'w \<times> unit res" where
  "CreateSriovNetwork E sriovDevice sriovNetworkName sriovNetworkNamespace operatorNamespace resourceName metaPluginsConfig w =
     CreateSriovNetworkWithVlan E sriovDevice sriovNetworkName sriovNetworkNamespace operatorNamespace resourceName metaPluginsConfig 0 w"

definition capacityOf :: "Node \<Rightarrow> string \<Rightarrow> int" where
  "capacityOf node resourceName =
     (case mget (nd_Allocatable node) (''openshift.io/'' @ resourceName) of
        None \<Rightarrow> 0
      | Some q \<Rightarrow> (case qt_int64 q of None \<Rightarrow> 0 | Some n \<Rightarrow> n))"

text \<open>The node on which a policy is created, and its device.\<close>

definition chooseDevice :: "'w sriovEnv \<Rightarrow> string \<Rightarrow> ('w \<Rightarrow> string list \<Rightarrow> string list res) \<Rightarrow> 'w \<Rightarrow> 'w \<times> (string \<times> Device) res" where
  "chooseDevice E SRIOVOperator matching w =
     expectOk (w, sv_discover E w SRIOVOperator) (\<lambda>w infos.
       case infos of
         None \<Rightarrow> (w, Inl (Panic ''Expectation failed''))
       | Some sriovInfos \<Rightarrow>
           expectOk (w, matching w (sd_Nodes sriovInfos)) (\<lambda>w nodes.
             case nodes of
               [] \<Rightarrow> (w, Inl (Panic ''Expectation failed''))
             | node # _ \<Rightarrow> expectOk (w, sd_FindOne sriovInfos node) (\<lambda>w d. (w, Inr (node, d)))))"

definition CreateSriovPolicyAndNetwork :: "'w sriovEnv \<Rightarrow> string \<Rightarrow> string \<Rightarrow> nat \<Rightarrow> string \<Rightarrow> string \<Rightarrow> string \<Rightarrow> string \<Rightarrow> 'w \<Rightarrow> 'w \<times> unit res" where
  "CreateSriovPolicyAndNetwork E SRIOVOperator NodesSelector waiting namespace networkName resourceName metaPluginsConfig w =
     expectOk (chooseDevice E SRIOVOperator (\<lambda>w ns. MatchingOptionalSelectorByName (sv_cluster E) w NodesSelector ns) w) (\<lambda>w (node, sriovDevice).
     expectOk (sv_policy E w ''test-policy'' SRIOVOperator (dv_Name sriovDevice) node 4 resourceName ''netdevice'') (\<lambda>w _.
     expectOk (WaitStable E waiting w) (\<lambda>w _.
     expectOk (Eventually (sv_tick E) 1 600 (\<lambda>w. case ca_getNode (sv_cluster E) w node of
         Inl e \<Rightarrow> Inl (Panic ''Unexpected error'')
       | Inr testedNode \<Rightarrow> Inr (capacityOf testedNode resourceName = 4)) w) (\<lambda>w _.
       CreateSriovNetwork E sriovDevice networkName namespace SRIOVOperator resourceName metaPluginsConfig w))))"

definition GetSupportedSriovNics :: "'w sriovEnv \<Rightarrow> string \<Rightarrow> 'w \<Rightarrow> (string, string) gomap res" where
  "GetSupportedSriovNics E SRIOVOperator w =
     map_error (\<lambda>e. ''cannot get supportedNicsConfigMap: '' @ e) (sv_configMap E w ''supported-nic-ids'' SRIOVOperator)"

text \<open>The vendor and the number of virtual functions of an interface.\<close>

definition IsIntelDisabledNic :: "string \<Rightarrow> int \<Rightarrow> bool" where
  "IsIntelDisabledNic vendor totalVfs \<longleftrightarrow> vendor = IntelVendorID \<and> totalVfs = 0"

definition dpdkPolicy :: "string \<Rightarrow> Device \<Rightarrow> string \<Rightarrow> string \<Rightarrow> string \<Rightarrow> int \<Rightarrow> bool \<Rightarrow> nodePolicy" where
  "dpdkPolicy SRIOVOperator sriovDevice testNode dpdkResourceName pfPartition vfsNum needVhostNet =
     (let p = \<lparr>snp_Name = [], snp_ResourceName = dpdkResourceName, snp_IsRdma = False, snp_DeviceType = ''netdevice'',
         np_GenerateName = ''test-dpdkpolicy-'', np_Namespace = SRIOVOperator, np_NodeSelector = [(hostnameLabel, testNode)],
         np_NumVfs = vfsNum, np_Priority = 99, np_PfNames = [dv_Name sriovDevice @ pfPartition], np_NeedVhostNet = needVhostNet\<rparr>;
          p = (if dv_Vendor sriovDevice = MlxVendorID then p\<lparr>snp_IsRdma := True\<rparr> else p) in
      if dv_Vendor sriovDevice = IntelVendorID then p\<lparr>snp_DeviceType := ''vfio-pci''\<rparr> else p)"

definition CreateDpdkPolicy :: "'w sriovEnv \<Rightarrow> string \<Rightarrow> Device \<Rightarrow> string \<Rightarrow> string \<Rightarrow> string \<Rightarrow> int \<Rightarrow> bool \<Rightarrow> 'w \<Rightarrow> 'w \<times> unit res" where
  "CreateDpdkPolicy E SRIOVOperator sriovDevice testNode dpdkResourceName pfPartition vfsNum needVhostNet w =
     expectOk (sv_create E w (dpdkPolicy SRIOVOperator sriovDevice testNode dpdkResourceName pfPartition vfsNum needVhostNet))
       (\<lambda>w _. (w, Inr ()))"

definition CreatePoliciesDPDKOnly :: "'w sriovEnv \<Rightarrow> string \<Rightarrow> nat \<Rightarrow> Device \<Rightarrow> string \<Rightarrow> string \<Rightarrow> bool \<Rightarrow> 'w \<Rightarrow> 'w \<times> unit res" where
  "CreatePoliciesDPDKOnly E SRIOVOperator waiting sriovDevice testNode dpdkResourceName needVhostNet w =
     expectOk (CreateDpdkPolicy E SRIOVOperator sriovDevice testNode dpdkResourceName [] 5 needVhostNet w) (\<lambda>w _.
     expectOk (WaitStable E waiting w) (\<lambda>w _.
       Eventually (sv_tick E) 1 600 (\<lambda>w. Inr ((case ca_getNode (sv_cluster E) w testNode of
           Inl e \<Rightarrow> - 1
         | Inr testedNode \<Rightarrow> capacityOf testedNode dpdkResourceName) = 5)) w))"

definition createDpdkPolicyAndNetwork :: "'w sriovEnv \<Rightarrow> string \<Rightarrow> string \<Rightarrow> nat \<Rightarrow> string \<Rightarrow> string \<Rightarrow> bool \<Rightarrow> 'w \<Rightarrow> 'w \<times> unit res" where
  "createDpdkPolicyAndNetwork E SRIOVOperator DpdkTest waiting dpdkResourceName workerCnfLabelSelector needVhostNet w =
     expectOk (chooseDevice E SRIOVOperator (\<lambda>w ns. MatchingCustomSelectorByName (sv_cluster E) w ns workerCnfLabelSelector) w) (\<lambda>w (node, sriovDevice).
     expectOk (CreatePoliciesDPDKOnly E SRIOVOperator waiting sriovDevice node dpdkResourceName needVhostNet w) (\<lambda>w _.
       CreateSriovNetwork E sriovDevice ''test-dpdk-network'' DpdkTest SRIOVOperator dpdkResourceName [] w))"

section \<open>What the builder builds\<close>

datatype nadOp = Tuning string | Bond string string string int | StaticIpam string | HostLocalIpam string | MacVlan
  | Vlan string int bool | Tap

fun applyNad :: "nadOp \<Rightarrow> nadBuilder \<Rightarrow> nadBuilder" where
  "applyNad (Tuning t) b = WithTuning b t"
| "applyNad (Bond n l1 l2 mtu) b = WithBond b n l1 l2 mtu"
| "applyNad (StaticIpam ip) b = WithStaticIpam b ip"
| "applyNad (HostLocalIpam ip) b = WithHostLocalIpam b ip"
| "applyNad MacVlan b = WithMacVlan b"
| "applyNad (Vlan m i l) b = WithVlan b m i l"
| "applyNad Tap b = WithTap b"

text \<open>The main plugins and the tunings that a sequence of calls asks for, in their order.\<close>

fun mainPlugin :: "nadOp \<Rightarrow> string list" where
  "mainPlugin (Bond n l1 l2 mtu) = [bondConfig n l1 l2 mtu]"
| "mainPlugin MacVlan = [field ''type'' (inQuotes ''macvlan'')]"
| "mainPlugin (Vlan m i l) = [vlanConfig m i l]"
| "mainPlugin Tap = [tapConfig]"
| "mainPlugin _ = []"

fun tuningOf :: "nadOp \<Rightarrow> string list" where
  "tuningOf (Tuning t) = [braces t]"
| "tuningOf _ = []"

lemma field_not_Nil [simp]: "field k v \<noteq> []"
  by (simp add: field_def inQuotes_def)

lemma mainPlugin_not_Nil: "c \<in> set (mainPlugin op) \<Longrightarrow> c \<noteq> []"
  by (cases op) (auto simp: bondConfig_def vlanConfig_def tapConfig_def)

text \<open>The state of the builder after a sequence of calls.\<close>

definition builderAfter :: "nadOp list \<Rightarrow> nadBuilder \<Rightarrow> bool" where
  "builderAfter ops b \<longleftrightarrow>
     (let mains = concat (map mainPlugin ops) in
      nb_metaPluginConfigs b = concat (map tuningOf ops) \<and>
      nb_config b = (if mains = [] then [] else last mains) \<and>
      nb_errorMsg b = (if length mains \<le> 1 then [] else twice))"

lemma builderAfter_step:
  assumes "builderAfter ops b"
  shows "builderAfter (ops @ [op]) (applyNad op b)"
proof (cases "mainPlugin op")
  case Nil
  with assms show ?thesis
    by (cases op) (auto simp: builderAfter_def Let_def WithTuning_def WithStaticIpam_def WithHostLocalIpam_def)
next
  case (Cons c cs)
  then have op: "mainPlugin op = [c]" "applyNad op b = setConfig b c" "tuningOf op = []"
    by (cases op; simp add: WithBond_def WithMacVlan_def WithVlan_def WithTap_def)+
  define mains where "mains = concat (map mainPlugin ops)"
  have "last mains \<noteq> []" if "mains \<noteq> []"
    using mainPlugin_not_Nil last_in_set [OF that] by (auto simp: mains_def)
  moreover from assms have "nb_metaPluginConfigs b = concat (map tuningOf ops)" "nb_config b = (if mains = [] then [] else last mains)"
      "nb_errorMsg b = (if length mains \<le> 1 then [] else twice)"
    by (simp_all add: builderAfter_def Let_def mains_def)
  ultimately show ?thesis
    using op by (cases mains) (simp_all add: builderAfter_def Let_def setConfig_def flip: mains_def)
qed

lemma builderAfter_all: "builderAfter ops (fold applyNad ops (NewNetworkAttachmentDefinitionBuilder ns name))"
proof (induction ops rule: rev_induct)
  case Nil
  show ?case by (simp add: builderAfter_def NewNetworkAttachmentDefinitionBuilder_def)
qed (simp add: builderAfter_step)

lemma fold_applyNad_name:
  "nb_Name (fold applyNad ops b) = nb_Name b" "nb_Namespace (fold applyNad ops b) = nb_Namespace b"
proof -
  have "nb_Name (applyNad op b) = nb_Name b \<and> nb_Namespace (applyNad op b) = nb_Namespace b" for op b
    by (cases op) (simp_all add: WithTuning_def WithBond_def WithStaticIpam_def WithHostLocalIpam_def WithMacVlan_def WithVlan_def
        WithTap_def setConfig_def)
  then show "nb_Name (fold applyNad ops b) = nb_Name b" "nb_Namespace (fold applyNad ops b) = nb_Namespace b"
    by (induction ops arbitrary: b) auto
qed

text \<open>After any sequence of calls, building gives an error exactly if a main plugin was set twice or more; otherwise the
  plugins of the network are the main plugin with the addresses, then the tunings in the order of the calls.\<close>

theorem BuildNetwork_plugins:
  fixes ops ns name
  defines "b \<equiv> fold applyNad ops (NewNetworkAttachmentDefinitionBuilder ns name)" and "mains \<equiv> concat (map mainPlugin ops)"
  shows "BuildNetwork b =
    (if 2 \<le> length mains then Inl (Error twice)
     else Inr \<lparr>nad_Name = name, nad_Namespace = ns,
       nad_Config = braces (inQuotes ''cniVersion'' @ '':'' @ inQuotes ''0.4.0'' @ '','' @ inQuotes ''name'' @ '':'' @ inQuotes name @
         '','' @ inQuotes ''plugins'' @ '':['' @ Join (braces (nb_ipam b @ '' '' @ concat mains) # concat (map tuningOf ops)) '', '' @ '']'')\<rparr>)"
proof -
  have "builderAfter ops b" unfolding b_def by (rule builderAfter_all)
  then have b: "nb_metaPluginConfigs b = concat (map tuningOf ops)" "nb_config b = (if mains = [] then [] else last mains)"
      "nb_errorMsg b = (if length mains \<le> 1 then [] else twice)"
    by (simp_all add: builderAfter_def Let_def mains_def)
  have names: "nb_Name b = name" "nb_Namespace b = ns"
    by (simp_all add: b_def fold_applyNad_name NewNetworkAttachmentDefinitionBuilder_def)
  have "(if mains = [] then [] else last mains) = concat mains" if "length mains \<le> 1"
    using that by (cases mains) auto
  then show ?thesis unfolding BuildNetwork_def b names by (auto simp: twice_def)
qed

section \<open>What a policy selects\<close>

text \<open>The policy that is created for a device is one that the discovery mode accepts for this device: RDMA and a
  network device for Mellanox, a userspace driver for Intel.\<close>

theorem dpdkPolicy_suitable:
  assumes "dv_VFs d \<noteq> 0" and "so_Selected S (SriovPolicy.truncate p) d"
    and "p = dpdkPolicy SRIOVOperator d testNode dpdkResourceName pfPartition vfsNum needVhostNet"
  shows "suitable S (SriovPolicy.truncate p) d"
  using assms
  by (auto simp: suitable_def dpdkPolicy_def SriovPolicy.truncate_def MlxVendorID_def IntelVendorID_def Let_def)

lemma eventuallyLoop_true: "eventuallyLoop tick f n w = (w', Inr ()) \<Longrightarrow> f w' = Inr True"
  by (induction n arbitrary: w) (auto split: sum.splits bool.splits)

lemma expectOk_Inr: "expectOk r f = (w', Inr x) \<longleftrightarrow> (\<exists>w y. r = (w, Inr y) \<and> f w y = (w', Inr x))"
  by (auto simp: expectOk_def split: prod.splits sum.splits go_error.splits)

text \<open>When the policies are created, the node has the five devices of the resource.\<close>

lemma CreatePoliciesDPDKOnly_capacity:
  assumes "CreatePoliciesDPDKOnly E SRIOVOperator waiting d testNode res needVhostNet w = (w', Inr ())"
  shows "\<exists>node. ca_getNode (sv_cluster E) w' testNode = Inr node \<and> capacityOf node res = 5"
  using assms
  by (auto simp: CreatePoliciesDPDKOnly_def expectOk_Inr Eventually_def dest!: eventuallyLoop_true split: sum.splits)

text \<open>The order of FEC configurations is a strict order that tells configurations of different names apart.\<close>

lemma fecLess_order:
  "\<not> fecLess a a" "fecLess a b \<Longrightarrow> fecLess b c \<Longrightarrow> fecLess a c" "fc_Name a \<noteq> fc_Name b \<Longrightarrow> fecLess a b \<or> fecLess b a"
  by (auto simp: fecLess_def split: if_splits)

section \<open>The types of a multi-network policy\<close>

fun ingressOpt :: "('s, 'i, 'e) policyOpt \<Rightarrow> bool" where
  "ingressOpt WithEmptyIngressRules = True"
| "ingressOpt (WithIngressRule _) = True"
| "ingressOpt _ = False"

fun egressOpt :: "('s, 'i, 'e) policyOpt \<Rightarrow> bool" where
  "egressOpt WithEmptyEgressRules = True"
| "egressOpt (WithEgressRule _) = True"
| "egressOpt _ = False"

fun localOpt :: "('s, 'i, 'e) policyOpt \<Rightarrow> bool" where
  "localOpt (CreateInNamespace _) = False"
| "localOpt _ = True"

lemma set_appendIfNotPresent [simp]: "set (appendIfNotPresent ts t) = insert t (set ts)"
  by (auto simp: appendIfNotPresent_def)

lemma distinct_appendIfNotPresent [simp]: "distinct ts \<Longrightarrow> distinct (appendIfNotPresent ts t)"
  by (simp add: appendIfNotPresent_def)

lemma applyOpt_local:
  assumes "localOpt opt"
  shows "\<exists>pol'. applyOpt create opt pol w = (w, Inr pol') \<and> (distinct (mnp_PolicyTypes pol) \<longrightarrow> distinct (mnp_PolicyTypes pol')) \<and>
    set (mnp_PolicyTypes pol') = set (mnp_PolicyTypes pol) \<union> (if ingressOpt opt then {PolicyTypeIngress} else {}) \<union>
      (if egressOpt opt then {PolicyTypeEgress} else {})"
  using assms by (cases opt) auto

lemma applyOpts_local:
  assumes "\<forall>opt\<in>set opts. localOpt opt"
  shows "\<exists>pol'. applyOpts create opts pol w = (w, Inr pol') \<and> (distinct (mnp_PolicyTypes pol) \<longrightarrow> distinct (mnp_PolicyTypes pol')) \<and>
    set (mnp_PolicyTypes pol') = set (mnp_PolicyTypes pol) \<union> (if \<exists>opt\<in>set opts. ingressOpt opt then {PolicyTypeIngress} else {}) \<union>
      (if \<exists>opt\<in>set opts. egressOpt opt then {PolicyTypeEgress} else {})"
  using assms
proof (induction opts arbitrary: pol)
  case (Cons opt opts)
  from Cons.prems obtain pol1 where 1: "applyOpt create opt pol w = (w, Inr pol1)"
      "distinct (mnp_PolicyTypes pol) \<longrightarrow> distinct (mnp_PolicyTypes pol1)"
      "set (mnp_PolicyTypes pol1) = set (mnp_PolicyTypes pol) \<union> (if ingressOpt opt then {PolicyTypeIngress} else {}) \<union>
        (if egressOpt opt then {PolicyTypeEgress} else {})"
    using applyOpt_local [of opt create pol w] by (auto simp del: applyOpt.simps)
  obtain pol2 where "applyOpts create opts pol1 w = (w, Inr pol2)"
      "distinct (mnp_PolicyTypes pol1) \<longrightarrow> distinct (mnp_PolicyTypes pol2)"
      "set (mnp_PolicyTypes pol2) = set (mnp_PolicyTypes pol1) \<union> (if \<exists>opt\<in>set opts. ingressOpt opt then {PolicyTypeIngress} else {}) \<union>
        (if \<exists>opt\<in>set opts. egressOpt opt then {PolicyTypeEgress} else {})"
    using Cons.IH [of pol1] Cons.prems by auto
  with 1 show ?case by (intro exI [of _ pol2] conjI) (simp, simp, auto)
qed simp

lemma MakeMultiNetworkPolicy_types:
  assumes "\<forall>opt\<in>set opts. localOpt opt"
  shows "\<exists>pol. MakeMultiNetworkPolicy create sel net opts w = (w, Inr pol) \<and> distinct (mnp_PolicyTypes pol) \<and>
    set (mnp_PolicyTypes pol) = (if \<exists>opt\<in>set opts. ingressOpt opt then {PolicyTypeIngress} else {}) \<union>
      (if \<exists>opt\<in>set opts. egressOpt opt then {PolicyTypeEgress} else {})"
  using applyOpts_local [OF assms, of create "\<lparr>mnp_GenerateName = ''test-multinetwork-policy-'',
      mnp_Annotations = [(''k8s.v1.cni.cncf.io/policy-for'', net)], mnp_PodSelector = sel, mnp_PolicyTypes = [], mnp_Ingress = [],
      mnp_Egress = []\<rparr>" w]
  unfolding MakeMultiNetworkPolicy_def by simp

end
