(* ===== verification/DpdkWorkload.thy ===== *)
theory DpdkWorkload
  imports SriovNetworks LatencyRunners GoPath
begin

text \<open>
  The helpers of the DPDK tests (\<^verbatim>\<open>cnf-tests/testsuites/e2esuite/dpdk/dpdk.go\<close>, \<^verbatim>\<open>numa_node_sriov.go\<close>) and of the tests
  of source-to-image (\<^verbatim>\<open>e2esuite/s2i/s2i.go\<close>): reading the output of the test applications and of the system, choosing devices and
  nodes, and the policies that share a device.

  Failed assertions are panics. The functions that read annotations with regular expressions are not modelled.
\<close>

section \<open>Statistics of packets\<close>

definition LOG_ENTRY :: string where "LOG_ENTRY = ''Accumulated forward statistics for all ports''"

definition failed :: go_error where "failed = Panic ''Expectation failed''"

definition outOfRange :: go_error where "outOfRange = Panic ''runtime error: index out of range''"

definition at :: "'a list \<Rightarrow> nat \<Rightarrow> 'a res" where
  "at xs i = (if i < length xs then Inr (xs ! i) else Inl outOfRange)"

text \<open>A line of statistics with \<open>n\<close> fields, the number in field \<open>i\<close>.\<close>

definition packetsIn :: "nat \<Rightarrow> nat \<Rightarrow> string \<Rightarrow> string \<Rightarrow> int res" where
  "packetsIn n i line firstFieldSubstr =
     (let r = Fields line in
      bind_res (at r 0) (\<lambda>f.
      bind_res (ensure (Contains f firstFieldSubstr) failed) (\<lambda>_.
      bind_res (ensure (length r = n) failed) (\<lambda>_.
      bind_res (at r i) (\<lambda>s. case Atoi s of None \<Rightarrow> Inl failed | Some d \<Rightarrow> Inr d)))))"

definition getNumberOfPackets :: "string \<Rightarrow> string \<Rightarrow> int res" where
  "getNumberOfPackets line firstFieldSubstr = packetsIn 6 1 line firstFieldSubstr"

definition checkLines :: "string list \<Rightarrow> string \<Rightarrow> (string list \<Rightarrow> unit res) \<Rightarrow> unit res" where
  "checkLines lines entry check =
     bind_res (ensure (3 \<le> length lines) failed) (\<lambda>_.
       case dropWhile (\<lambda>l. \<not> Contains l entry) lines of [] \<Rightarrow> Inr () | _ # rest \<Rightarrow> check rest)"

definition positive :: "int res \<Rightarrow> unit res" where
  "positive r = bind_res r (\<lambda>d. ensure (0 < d) failed)"

definition checkRxTx :: "string \<Rightarrow> unit res" where
  "checkRxTx out =
     checkLines (Split out LF) LOG_ENTRY (\<lambda>rest.
       bind_res (at rest 0) (\<lambda>l1. bind_res (positive (getNumberOfPackets l1 ''RX'')) (\<lambda>_.
       bind_res (at rest 1) (\<lambda>l2. positive (getNumberOfPackets l2 ''TX'')))))"

definition checkTxOnly :: "string \<Rightarrow> unit res" where
  "checkTxOnly out =
     checkLines (Split out LF) LOG_ENTRY (\<lambda>rest. bind_res (at rest 1) (\<lambda>l2. positive (getNumberOfPackets l2 ''TX'')))"

fun rxOnlyLoop :: "string list \<Rightarrow> bool res" where
  "rxOnlyLoop [] = Inr False"
| "rxOnlyLoop (line # lines) =
     (if Contains line ''NIC statistics for port'' then
        bind_res (at lines 0) (\<lambda>l1. bind_res (getNumberOfPackets l1 ''RX'') (\<lambda>d. if 0 < d then Inr True else rxOnlyLoop lines))
      else rxOnlyLoop lines)"

definition checkRxOnly :: "string \<Rightarrow> bool res" where
  "checkRxOnly out = (let lines = Split out LF in bind_res (ensure (3 \<le> length lines) failed) (\<lambda>_. rxOnlyLoop lines))"

text \<open>The same for the application of the source-to-image tests.\<close>

fun s2iLoop :: "string \<Rightarrow> string list \<Rightarrow> bool res" where
  "s2iLoop entry [] = Inr False"
| "s2iLoop entry (line # lines) =
     (if Contains line entry then
        (case lines of
           l1 # l2 # _ \<Rightarrow>
             bind_res (packetsIn 4 3 l1 ''Total'') (\<lambda>d. if d \<le> 1000 then s2iLoop entry lines
             else bind_res (packetsIn 4 3 l2 ''Total'') (\<lambda>d. if d \<le> 1000 then s2iLoop entry lines else Inr True))
         | _ \<Rightarrow> Inr False)
      else s2iLoop entry lines)"

definition s2iCheckRxTx :: "string \<Rightarrow> string \<Rightarrow> bool res" where
  "s2iCheckRxTx entry out = s2iLoop entry (Split out LF)"

section \<open>CPUs\<close>

definition GetSeparator :: "string \<Rightarrow> string" where
  "GetSeparator data = (if Contains data CRLF then CRLF else LF)"

text \<open>\<^verbatim>\<open>strings.Replace(s, old, new, 1)\<close> for an old string that is not empty.\<close>

fun ReplaceFirst :: "string \<Rightarrow> string \<Rightarrow> string \<Rightarrow> string" where
  "ReplaceFirst [] old new = []"
| "ReplaceFirst (c # s) old new = (if HasPrefix (c # s) old then new @ drop (length old) (c # s) else c # ReplaceFirst s old new)"

definition badCpuList :: "string \<Rightarrow> go_error" where
  "badCpuList out = Error (''unexpected cpu list: '' @ out)"

definition badNumber :: "string \<Rightarrow> go_error" where
  "badNumber s = Error (''bad conversion for string '' @ s)"

definition cpusOfRange :: "string \<Rightarrow> string list \<Rightarrow> string \<Rightarrow> string list res" where
  "cpusOfRange out acc cpuRange =
     (case Split cpuRange ''-'' of
        [cpu] \<Rightarrow> Inr (acc @ [cpu])
      | [a, b] \<Rightarrow>
          (case Atoi a of
             None \<Rightarrow> Inl (badNumber a)
           | Some idx \<Rightarrow>
               (case Atoi b of
                  None \<Rightarrow> Inl (badNumber b)
                | Some endIdx \<Rightarrow>
                    if endIdx = 2 ^ 63 - 1 then Inl outOfMemory else Inr (acc @ map Itoa [idx..endIdx])))
      | _ \<Rightarrow> Inl (badCpuList out))"

definition getCpuSet :: "string \<Rightarrow> string list res" where
  "getCpuSet cpuListOutput =
     (let clean = ReplaceAll (ReplaceFirst cpuListOutput (GetSeparator cpuListOutput) []) '' '' [] in
      fold_res (cpusOfRange cpuListOutput) [] (Split clean '',''))"

text \<open>The CPUs of a pod are on a NUMA node; \<open>ExecCommand\<close> runs in the first container.\<close>

definition cpusetCommand :: "string list" where
  "cpusetCommand = [''sh'', ''-c'', ''cat /sys/fs/cgroup/cpuset/cpuset.cpus 2>/dev/null || cat /sys/fs/cgroup/cpuset.cpus 2>/dev/null'']"

definition expectPodCPUsAreOnNUMANode :: "'w reachEnv \<Rightarrow> 'w \<Rightarrow> Pod \<Rightarrow> int \<Rightarrow> 'w \<times> unit res" where
  "expectPodCPUsAreOnNUMANode E w pod expectedCPUsNUMA =
     (case ExecCommand E w pod cpusetCommand of
        (w1, buff, Some err) \<Rightarrow> (w1, Inl failed)
      | (w1, buff, None) \<Rightarrow>
          (case getCpuSet buff of
             Inl e \<Rightarrow> (w1, Inl failed)
           | Inr cpus \<Rightarrow>
               (case FindForCPUs E w1 pod cpus of
                  (w2, Inl e) \<Rightarrow> (w2, Inl failed)
                | (w2, Inr numaNode) \<Rightarrow> (w2, ensure (numaNode = expectedCPUsNUMA) failed))))"

text \<open>The NUMA node of a device: its address is in the environment of the pod, under a name in upper case.\<close>

fun lastValue :: "string \<Rightarrow> string \<Rightarrow> string list \<Rightarrow> string res" where
  "lastValue name found [] = Inr found"
| "lastValue name found (line # lines) =
     (if Contains line (name @ ''='') then
        (case Split line ''='' of [_, v] \<Rightarrow> lastValue name v lines | _ \<Rightarrow> Inl failed)
      else lastValue name found lines)"

definition numaTag :: string where "numaTag = ''NUMANode:'' @ [CHR 0x09]"

fun firstNuma :: "string \<Rightarrow> string list \<Rightarrow> int res" where
  "firstNuma name [] = Inl (Error (''failed to find the numa for pci '' @ name))"
| "firstNuma name (line # lines) =
     (if Contains line ''NUMANode:'' then
        (case Split line numaTag of
           [_, v] \<Rightarrow> (case Atoi v of None \<Rightarrow> Inl failed | Some n \<Rightarrow> Inr n)
         | _ \<Rightarrow> Inl failed)
      else firstNuma name lines)"

definition findNUMAForSRIOV :: "'w reachEnv \<Rightarrow> 'w \<Rightarrow> Pod \<Rightarrow> string \<Rightarrow> 'w \<times> int res" where
  "findNUMAForSRIOV E w pod upperResourceName =
     (let name = ''PCIDEVICE_OPENSHIFT_IO_'' @ upperResourceName in
      case ExecCommand E w pod [''env''] of
        (w1, buff, Some err) \<Rightarrow> (w1, Inl failed)
      | (w1, buff, None) \<Rightarrow>
          (case lastValue name [] (Split buff (GetSeparator buff)) of
             Inl e \<Rightarrow> (w1, Inl e)
           | Inr pciAddress \<Rightarrow>
               if pciAddress = [] then (w1, Inl failed)
               else case ExecCommand E w1 pod [''lspci'', ''-v'', ''-nn'', ''-mm'', ''-s'', pciAddress] of
                 (w2, buff, Some err) \<Rightarrow> (w2, Inl failed)
               | (w2, buff, None) \<Rightarrow> (w2, firstNuma name (Split buff (GetSeparator buff)))))"

section \<open>Received bytes\<close>

definition noRx :: "string \<Rightarrow> go_error" where "noRx msg = Error msg"

fun rxBytes :: "string list \<Rightarrow> int res" where
  "rxBytes [] = Inl (noRx ''could not find RX stats'')"
| "rxBytes (line # lines) =
     (if Contains (trimBoth (CHR '' '') line) ''RX:'' then
        (case lines of
           [] \<Rightarrow> Inl (noRx ''could not find RX in stats'')
         | nextLine # _ \<Rightarrow>
             (case Atoi (hd (Split (trimBoth (CHR '' '') (trimBoth (CHR '' '') nextLine)) '' '')) of
                None \<Rightarrow> Inl (noRx ''invalid syntax'')
              | Some n \<Rightarrow> Inr n))
      else rxBytes lines)"

definition getDeviceRXBytes :: "'w reachEnv \<Rightarrow> 'w \<Rightarrow> Pod \<Rightarrow> string \<Rightarrow> 'w \<times> int res" where
  "getDeviceRXBytes E w pod device =
     (case ExecCommand E w pod [''ip'', ''-s'', ''l'', ''show'', ''dev'', device] of
        (w1, out, Some err) \<Rightarrow> (w1, Inl (Error (''command [ip -s l show dev '' @ device @ ''] error: '' @ err)))
      | (w1, out, None) \<Rightarrow> (w1, rxBytes (Split out LF)))"

section \<open>Devices and nodes\<close>

record Interface =
  if_Name :: string
  if_Vendor :: string
  if_DeviceID :: string
  if_TotalVfs :: int

fun firstInterface :: "string \<Rightarrow> string \<Rightarrow> bool \<Rightarrow> Interface list \<Rightarrow> Interface option" where
  "firstInterface vendorID deviceID secureBoot [] = None"
| "firstInterface vendorID deviceID secureBoot (iface # ifaces) =
     (if if_DeviceID iface = deviceID \<and> if_Vendor iface = vendorID then
        if secureBoot \<and> if_Vendor iface = MlxVendorID then firstInterface vendorID deviceID secureBoot ifaces
        else if IsIntelDisabledNic (if_Vendor iface) (if_TotalVfs iface) then firstInterface vendorID deviceID secureBoot ifaces
        else Some iface
      else firstInterface vendorID deviceID secureBoot ifaces)"

fun findSriovDeviceForDPDK :: "(string \<Rightarrow> Interface list) \<Rightarrow> (string \<Rightarrow> bool) \<Rightarrow> string list \<Rightarrow> string \<Rightarrow> string \<Rightarrow> (string \<times> Interface) option" where
  "findSriovDeviceForDPDK states secureBoot [] vendorID deviceID = None"
| "findSriovDeviceForDPDK states secureBoot (nodeName # nodeNames) vendorID deviceID =
     (case firstInterface vendorID deviceID (secureBoot nodeName) (states nodeName) of
        Some iface \<Rightarrow> Some (nodeName, iface)
      | None \<Rightarrow> findSriovDeviceForDPDK states secureBoot nodeNames vendorID deviceID)"

text \<open>A device whose NUMA node cannot be read is left out.\<close>

fun findDevicesOnNUMANode :: "'w clusterApi \<Rightarrow> string \<Rightarrow> 'w \<Rightarrow> Node \<Rightarrow> Device list \<Rightarrow> string \<Rightarrow> 'w \<times> Device list" where
  "findDevicesOnNUMANode C SRIOVOperator w node [] numaNode = (w, [])"
| "findDevicesOnNUMANode C SRIOVOperator w node (device # devices) numaNode =
     (let (w1, out, err) = ExecCommandOnNodeViaSriovDaemon C w SRIOVOperator node
            [''cat'', Clean (JoinPath [''/sys/class/net/'', dv_Name device, ''/device/numa_node''])];
          (w2, rest) = findDevicesOnNUMANode C SRIOVOperator w1 node devices numaNode in
      (w2, if err = None \<and> ReplaceAll (trimBoth (CHR 0x0A) out) [CHR 0x0D] [] = numaNode then device # rest else rest))"

definition dumpLspciForEthernetDevices :: "'w clusterApi \<Rightarrow> string \<Rightarrow> 'w \<Rightarrow> Node \<Rightarrow> 'w" where
  "dumpLspciForEthernetDevices C SRIOVOperator w node =
     fst (ExecCommandOnNodeViaSriovDaemon C w SRIOVOperator node
       [''sh'', ''-c'', ''for d in /sys/class/net/*/device/numa_node; do echo -n '' @ inQuotes ''$d '' @ ''; cat ${d}; done''])"

text \<open>The text of the failure is not kept, but the commands that make it are run.\<close>

fun numaNodesLoop :: "'w clusterApi \<Rightarrow> string \<Rightarrow> (string \<Rightarrow> Device list res) \<Rightarrow> 'w \<Rightarrow> string list \<Rightarrow>
    'w \<times> (Node \<times> Device list \<times> Device list) res" where
  "numaNodesLoop C SRIOVOperator devices w [] = (w, Inl failed)"
| "numaNodesLoop C SRIOVOperator devices w (nodeName # nodeNames) =
     (case ca_getNode C w nodeName of
        Inl e \<Rightarrow> (w, Inl failed)
      | Inr testingNode \<Rightarrow>
          (case devices (nd_Name testingNode) of
             Inl e \<Rightarrow> (w, Inl failed)
           | Inr sriovDevices \<Rightarrow>
               (let (w1, numa0) = findDevicesOnNUMANode C SRIOVOperator w testingNode sriovDevices ''0'' in
                if numa0 = [] then numaNodesLoop C SRIOVOperator devices (dumpLspciForEthernetDevices C SRIOVOperator w1 testingNode) nodeNames
                else let (w2, numa1) = findDevicesOnNUMANode C SRIOVOperator w1 testingNode sriovDevices ''1'' in
                  if numa1 = [] then numaNodesLoop C SRIOVOperator devices (dumpLspciForEthernetDevices C SRIOVOperator w2 testingNode) nodeNames
                  else (w2, Inr (testingNode, numa0, numa1)))))"

definition findTestingNodeWithDevicesInTwoNUMANodes :: "'w clusterApi \<Rightarrow> string \<Rightarrow> (string \<Rightarrow> Device list res) \<Rightarrow> 'w \<Rightarrow> string list \<Rightarrow>
    'w \<times> (Node \<times> Device list \<times> Device list) res" where
  "findTestingNodeWithDevicesInTwoNUMANodes C SRIOVOperator devices w nodeNames =
     (if nodeNames = [] then (w, Inl failed) else numaNodesLoop C SRIOVOperator devices w nodeNames)"

section \<open>Sharing a device\<close>

definition regularPolicy :: "string \<Rightarrow> Device \<Rightarrow> string \<Rightarrow> string \<Rightarrow> string \<Rightarrow> int \<Rightarrow> nodePolicy" where
  "regularPolicy SRIOVOperator sriovDevice testNode dpdkResourceName pfPartition vfsNum =
     \<lparr>snp_Name = [], snp_ResourceName = dpdkResourceName, snp_IsRdma = False, snp_DeviceType = ''netdevice'',
      np_GenerateName = ''test-policy'', np_Namespace = SRIOVOperator, np_NodeSelector = [(hostnameLabel, testNode)],
      np_NumVfs = vfsNum, np_Priority = 99, np_PfNames = [dv_Name sriovDevice @ pfPartition], np_NeedVhostNet = False\<rparr>"

definition createRegularPolicy :: "'w sriovEnv \<Rightarrow> string \<Rightarrow> Device \<Rightarrow> string \<Rightarrow> string \<Rightarrow> string \<Rightarrow> int \<Rightarrow> 'w \<Rightarrow> 'w \<times> unit res" where
  "createRegularPolicy E SRIOVOperator sriovDevice testNode dpdkResourceName pfPartition vfsNum w =
     expectOk (sv_create E w (regularPolicy SRIOVOperator sriovDevice testNode dpdkResourceName pfPartition vfsNum)) (\<lambda>w _. (w, Inr ()))"

definition waitForCapacity :: "'w sriovEnv \<Rightarrow> string \<Rightarrow> string \<Rightarrow> int \<Rightarrow> 'w \<Rightarrow> 'w \<times> unit res" where
  "waitForCapacity E testNode resourceName n w =
     Eventually (sv_tick E) 1 600 (\<lambda>w. case ca_getNode (sv_cluster E) w testNode of
         Inl e \<Rightarrow> Inl failed
       | Inr testedNode \<Rightarrow> Inr (capacityOf testedNode resourceName = n)) w"

definition createPoliciesSharedPF :: "'w sriovEnv \<Rightarrow> string \<Rightarrow> nat \<Rightarrow> Device \<Rightarrow> string \<Rightarrow> string \<Rightarrow> string \<Rightarrow> 'w \<Rightarrow> 'w \<times> unit res" where
  "createPoliciesSharedPF E SRIOVOperator waiting sriovDevice testNode dpdkResourceName regularResourceName w =
     expectOk (CreateDpdkPolicy E SRIOVOperator sriovDevice testNode dpdkResourceName ''#0-1'' 5 False w) (\<lambda>w _.
     expectOk (createRegularPolicy E SRIOVOperator sriovDevice testNode regularResourceName ''#2-4'' 5 w) (\<lambda>w _.
     expectOk (WaitStable E waiting w) (\<lambda>w _.
     expectOk (waitForCapacity E testNode dpdkResourceName 2 w) (\<lambda>w _. waitForCapacity E testNode regularResourceName 3 w))))"

definition createSriovPolicyAndNetworkShared :: "'w sriovEnv \<Rightarrow> string \<Rightarrow> string \<Rightarrow> nat \<Rightarrow> string \<Rightarrow> 'w \<Rightarrow> 'w \<times> unit res" where
  "createSriovPolicyAndNetworkShared E SRIOVOperator DpdkTest waiting workerCnfLabelSelector w =
     expectOk (chooseDevice E SRIOVOperator (\<lambda>w ns. MatchingCustomSelectorByName (sv_cluster E) w ns workerCnfLabelSelector) w) (\<lambda>w (node, sriovDevice).
     expectOk (createPoliciesSharedPF E SRIOVOperator waiting sriovDevice node ''dpdknic'' ''regularnic'' w) (\<lambda>w _.
     expectOk (CreateSriovNetwork E sriovDevice ''test-dpdk-network'' DpdkTest SRIOVOperator ''dpdknic'' [] w) (\<lambda>w _.
       CreateSriovNetwork E sriovDevice ''test-regular-network'' DpdkTest SRIOVOperator ''regularnic'' [] w)))"

section \<open>Finding the workload\<close>

text \<open>The pods that a label selector selects are given; the first that runs is waited for.\<close>

definition findDPDKWorkloadPodByLabelSelector :: "('l, 'w) podApi \<Rightarrow> ('w \<Rightarrow> string \<Rightarrow> string \<Rightarrow> TestPod list res) \<Rightarrow> string \<Rightarrow> string \<Rightarrow> 'w \<Rightarrow>
    ('w, TestPod option) effect" where
  "findDPDKWorkloadPodByLabelSelector A podsOf labelSelector namespace w =
     (case map_error (\<lambda>e. ''cannot list pods for '' @ labelSelector @ '': '' @ e) (podsOf w namespace labelSelector) of
        Inl e \<Rightarrow> Some (w, Inl e)
      | Inr items \<Rightarrow>
          (case find (\<lambda>p. tp_Phase p = ''Running'') items of
             None \<Rightarrow> Some (w, Inr None)
           | Some pod \<Rightarrow>
               (case WaitForPodCondition A pod ''ContainersReady'' ''True'' (minutes 3) w of
                  None \<Rightarrow> None
                | Some (w', Inl e) \<Rightarrow>
                    Some (w', Inl (podFailure ''error while waiting for pod '' pod '' to be ready: '' (failure e)))
                | Some (w', Inr _) \<Rightarrow> Some (w', Inr (Some pod)))))"

definition findDPDKWorkloadPod :: "('l, 'w) podApi \<Rightarrow> ('w \<Rightarrow> string \<Rightarrow> string \<Rightarrow> TestPod list res) \<Rightarrow> string \<Rightarrow> 'w \<Rightarrow> ('w, TestPod option) effect" where
  "findDPDKWorkloadPod A podsOf DpdkTest w = findDPDKWorkloadPodByLabelSelector A podsOf ''app=dpdk'' DpdkTest w"

section \<open>Reading a CPU set\<close>

lemma cpusOfRange_text:
  assumes "0 \<le> x" and "x \<le> y" and "y < 2 ^ 63 - 1"
  shows "cpusOfRange out acc (rangeText (x, y)) = Inr (acc @ map Itoa [x..y])"
proof (cases "x = y")
  case True
  have "Split (natStr (nat x)) ''-'' = [natStr (nat x)]" by (simp add: Split_def Split_no_sep natStr_no_sign)
  with True assms show ?thesis by (simp add: cpusOfRange_def rangeText_def Itoa_nat)
next
  case False
  have "Split (rangeText (x, y)) ''-'' = [natStr (nat x), natStr (nat y)]"
    using False assms by (simp add: Split_def rangeText_def Itoa_nat splitFrom_append Split_no_sep natStr_no_sign)
  moreover have "Atoi (natStr (nat x)) = Some x" "Atoi (natStr (nat y)) = Some y" using assms by (simp_all add: Atoi_natStr)
  ultimately show ?thesis using assms by (simp add: cpusOfRange_def)
qed

lemma fold_cpusOfRange:
  "\<forall>(x, y)\<in>set rs. 0 \<le> x \<and> x \<le> y \<and> y < 2 ^ 63 - 1 \<Longrightarrow>
   fold_res (cpusOfRange out) acc (map rangeText rs) = Inr (acc @ map Itoa (concat (map (\<lambda>(x, y). [x..y]) rs)))"
  by (induction rs arbitrary: acc) (auto simp: cpusOfRange_text)

definition cpuChar :: "char \<Rightarrow> bool" where
  "cpuChar c \<longleftrightarrow> isDigit c \<or> c = CHR '','' \<or> c = CHR ''-''"

lemma rangeText_chars: "0 \<le> x \<Longrightarrow> x \<le> y \<Longrightarrow> \<forall>c\<in>set (rangeText (x, y)). cpuChar c"
  using natStr_digits [of "nat x"] natStr_digits [of "nat y"]
  by (auto simp: rangeText_def Itoa_nat cpuChar_def list_all_iff)

lemma cpuChar_not: "\<not> cpuChar (CHR 0x0A)" "\<not> cpuChar (CHR 0x0D)" "\<not> cpuChar (CHR 0x20)"
  by (simp_all add: cpuChar_def isDigit_def)

lemma Contains_first: "Contains s (c # p) \<Longrightarrow> c \<in> set s"
  unfolding Contains_iff by auto

lemma ReplaceFirst_end: "c \<notin> set u \<Longrightarrow> ReplaceFirst (u @ [c]) [c] [] = u"
  by (induction u) auto

text \<open>C40. Two readers of CPU lists agree: on what the kernel prints for a set that is not empty, with a line end, the reader of
  the DPDK tests gives the decimal names of exactly its CPUs in ascending order, where the CPU sets of Kubernetes read the set itself.\<close>

theorem getCpuSet_agrees:
  assumes "finite s" and "s \<subseteq> {0..<2 ^ 63 - 1}" and "s \<noteq> {}"
  shows "getCpuSet (cpuString s @ LF) = Inr (map Itoa (sorted_list_of_set s)) \<and> cpuParse (cpuString s) = Inr s"
proof
  show "cpuParse (cpuString s) = Inr s" using assms(1,2) by (rule cpuParse_cpuString)
  from cpuString_ranges [OF assms] obtain rs where rs: "rs \<noteq> []" "cpuString s = Join (map rangeText rs) '',''"
      "\<forall>(x, y)\<in>set rs. 0 \<le> x \<and> x \<le> y \<and> y < 2 ^ 63 - 1" "\<forall>x\<in>set (map rangeText rs). x \<noteq> [] \<and> CHR '','' \<notin> set x"
      "concat (map (\<lambda>(x, y). [x..y]) rs) = cpuList s" by (elim exE conjE)
  have chars: "cpuChar c" if "c \<in> set (cpuString s)" for c
    using that Join_set [of "map rangeText rs" "'',''"] rangeText_chars rs(3) unfolding rs(2) by (fastforce simp: cpuChar_def)
  have no: "CHR 0x0A \<notin> set (cpuString s)" "CHR 0x0D \<notin> set (cpuString s @ LF)" "CHR 0x20 \<notin> set (cpuString s)"
    using chars cpuChar_not by (auto simp: LF_def)
  have "GetSeparator (cpuString s @ LF) = LF"
    using no(2) Contains_first [of "cpuString s @ LF" "CHR 0x0D" "[CHR 0x0A]"] by (auto simp: GetSeparator_def CRLF_def)
  moreover have "ReplaceFirst (cpuString s @ LF) LF [] = cpuString s"
    unfolding LF_def using no(1) by (rule ReplaceFirst_end)
  moreover have "ReplaceAll (cpuString s) '' '' [] = cpuString s"
    using no(3) Contains_first [of "cpuString s" "CHR 0x20" "[]"] by (intro ReplaceAll_absent) blast
  moreover have "Split (Join (map rangeText rs) '','') '','' = map rangeText rs"
    using Split_Join [of "map rangeText rs"] rs by simp
  ultimately show "getCpuSet (cpuString s @ LF) = Inr (map Itoa (sorted_list_of_set s))"
    using fold_cpusOfRange [OF rs(3), of _ "[]"] rs(2,5) by (simp add: getCpuSet_def Let_def cpuList_def)
qed

theorem getCpuSet_agrees_witness: "getCpuSet (cpuString {2, 3, 7} @ LF) = Inr (map Itoa [2, 3, 7])"
  using getCpuSet_agrees [of "{2, 3, 7}"] by simp

section \<open>Reading statistics\<close>

text \<open>Words with one or more blanks before each.\<close>

definition spaced :: "(nat \<times> string) list \<Rightarrow> string" where
  "spaced gws = concat (map (\<lambda>(g, w). replicate g (CHR 0x20) @ w) gws)"

definition statWord :: "string \<Rightarrow> bool" where
  "statWord w \<longleftrightarrow> w \<noteq> [] \<and> (\<forall>c\<in>set w. visible c)"

lemma fieldsFrom_space: "fieldsFrom acc (CHR 0x20 # s) = flushField acc @ fieldsFrom [] s"
  by (simp add: spaceRunes_def)

lemma fieldsFrom_spaces: "0 < g \<Longrightarrow> fieldsFrom acc (replicate g (CHR 0x20) @ s) = flushField acc @ fieldsFrom [] s"
proof (induction g arbitrary: acc)
  case (Suc g)
  then show ?case
    by (cases g) (simp_all add: fieldsFrom_space flushField_def del: fieldsFrom.simps(2))
qed simp

lemma Fields_spaced:
  "\<forall>(g, w)\<in>set gws. 0 < g \<and> statWord w \<Longrightarrow> fieldsFrom acc (spaced gws) = flushField acc @ map snd gws"
proof (induction gws arbitrary: acc)
  case Nil
  then show ?case by (simp add: spaced_def)
next
  case (Cons gw gws)
  obtain g w where gw: "gw = (g, w)" by (cases gw)
  with Cons.prems have g: "0 < g" and w: "w \<noteq> []" "\<forall>c\<in>set w. visible c" by (simp_all add: statWord_def)
  have "fieldsFrom acc (spaced (gw # gws)) = flushField acc @ fieldsFrom [] (w @ spaced gws)"
    using fieldsFrom_spaces [OF g] gw by (simp add: spaced_def)
  also have "fieldsFrom [] (w @ spaced gws) = fieldsFrom w (spaced gws)"
    using fieldsFrom_visible [OF w(2), of "[]"] by simp
  also have "\<dots> = [w] @ map snd gws" using Cons.IH [of w] Cons.prems w(1) by (simp add: flushField_def)
  finally show ?case using gw by simp
qed

text \<open>A line of statistics: a name for the direction, a number, and four more words.\<close>

definition statLine :: "string \<Rightarrow> nat \<Rightarrow> (nat \<times> string) list \<Rightarrow> bool" where
  "statLine line n gws \<longleftrightarrow> line = spaced gws \<and> length gws = 6 \<and> (\<forall>(g, w)\<in>set gws. 0 < g \<and> statWord w) \<and> snd (gws ! 1) = natStr n \<and> n < 2 ^ 63"

lemma getNumberOfPackets_line:
  assumes "statLine line n gws" and "Contains (snd (gws ! 0)) d"
  shows "getNumberOfPackets line d = Inr (int n)"
proof -
  have "Fields line = map snd gws" using assms(1) Fields_spaced [of gws "[]"] by (auto simp: statLine_def Fields_def flushField_def)
  moreover have "gws \<noteq> []" using assms(1) by (auto simp: statLine_def)
  ultimately show ?thesis using assms
    by (simp add: getNumberOfPackets_def packetsIn_def Let_def statLine_def at_def Atoi_natStr)
qed

text \<open>On the output of the test application, whose statistics follow the first line with the title, the check passes
  exactly if packets were received and sent; an output without the title passes always.\<close>

theorem checkRxTx_exact:
  assumes "Split out LF = before @ title # rx # tx # after" and "\<forall>l\<in>set before. \<not> Contains l LOG_ENTRY"
    and "Contains title LOG_ENTRY" and "statLine rx r gws" and "Contains (snd (gws ! 0)) ''RX''"
    and "statLine tx t hws" and "Contains (snd (hws ! 0)) ''TX''"
  shows "(is_ok (checkRxTx out) \<longleftrightarrow> 0 < r \<and> 0 < t) \<and>
    ((\<forall>l\<in>set (Split other LF). \<not> Contains l LOG_ENTRY) \<and> 3 \<le> length (Split other LF) \<longrightarrow> is_ok (checkRxTx other))"
proof
  have "dropWhile (\<lambda>l. \<not> Contains l LOG_ENTRY) (Split out LF) = title # rx # tx # after"
    using assms(1-3) by (simp add: dropWhile_append2)
  with assms(1) show "is_ok (checkRxTx out) \<longleftrightarrow> 0 < r \<and> 0 < t"
    using getNumberOfPackets_line [OF assms(4,5)] getNumberOfPackets_line [OF assms(6,7)]
    by (auto simp: checkRxTx_def checkLines_def positive_def at_def ensure_def)
  show "(\<forall>l\<in>set (Split other LF). \<not> Contains l LOG_ENTRY) \<and> 3 \<le> length (Split other LF) \<longrightarrow> is_ok (checkRxTx other)"
    by (auto simp: checkRxTx_def checkLines_def dropWhile_eq_Nil_conv [THEN iffD2])
qed

definition demoStat :: "string \<Rightarrow> string \<Rightarrow> (nat \<times> string) list" where
  "demoStat d n = [(2, d @ ''-packets:''), (1, n), (3, d @ ''-dropped:''), (1, ''0''), (3, d @ ''-total:''), (1, n)]"

definition demoStats :: "string list" where
  "demoStats = [''testpmd>'', LOG_ENTRY, spaced (demoStat ''RX'' ''7''), spaced (demoStat ''TX'' ''9''), ''bye'']"

lemma demoDigits: "natStr 7 = ''7''" "natStr 9 = ''9''"
  by code_simp+

lemma demoStat_line: "statLine (spaced (demoStat ''RX'' ''7'')) 7 (demoStat ''RX'' ''7'')" "statLine (spaced (demoStat ''TX'' ''9'')) 9 (demoStat ''TX'' ''9'')"
  by (simp_all add: statLine_def demoStat_def statWord_def visible_def demoDigits)

theorem checkRxTx_exact_witness: "is_ok (checkRxTx (Join demoStats LF))"
proof -
  have "\<forall>l\<in>set demoStats. CHR 0x0A \<notin> set l"
    by (simp add: demoStats_def demoStat_def LOG_ENTRY_def spaced_def numeral_2_eq_2 numeral_3_eq_3)
  then have "Split (Join demoStats LF) LF = demoStats" unfolding LF_def by (intro Split_Join) (simp_all add: demoStats_def)
  then have "Split (Join demoStats LF) LF = [''testpmd>''] @ LOG_ENTRY # spaced (demoStat ''RX'' ''7'') # spaced (demoStat ''TX'' ''9'') # [''bye'']"
    by (simp add: demoStats_def)
  from checkRxTx_exact [OF this _ _ demoStat_line(1) _ demoStat_line(2)] show ?thesis
    by (simp add: LOG_ENTRY_def demoStat_def)
qed

end
