(* ===== verification/QosLimits.thy ===== *)
theory QosLimits
  imports TestPods NumaLookup
begin

text \<open>
  The helpers of the quality-of-service tests (\<^verbatim>\<open>cnf-tests/testsuites/e2esuite/ovs_qos/ovs_qos.go\<close>): finding the rate that a machine
  configuration limits, writing such configurations, measuring the rate, and validating limits on nodes.

  Floating-point numbers are a type with the operations of the record \<open>floats\<close>; JSON, YAML and the API server are parameters. The two
  regular expressions of the same shape are \<open>findSubmatch\<close>: the leftmost match of a literal, the longest run of other characters
  of the same line, another literal, and the digits after it.
\<close>

section \<open>Rates in machine configurations\<close>

record 'f floats =
  fl_parse :: "string \<Rightarrow> 'f option"
  fl_ratio :: "int \<Rightarrow> int \<Rightarrow> 'f"
  fl_add :: "'f \<Rightarrow> 'f \<Rightarrow> 'f"
  fl_mul :: "'f \<Rightarrow> 'f \<Rightarrow> 'f"
  fl_div :: "'f \<Rightarrow> 'f \<Rightarrow> 'f"
  fl_less :: "'f \<Rightarrow> 'f \<Rightarrow> bool"
  fl_eq :: "'f \<Rightarrow> 'f \<Rightarrow> bool"
  fl_int64 :: "'f \<Rightarrow> int"

definition minusOne :: "'f floats \<Rightarrow> 'f" where "minusOne F = fl_ratio F (- 1) 1"

fun lastAfter :: "string \<Rightarrow> string \<Rightarrow> string option" where
  "lastAfter b [] = None"
| "lastAfter b (c # s) =
     (if c = CHR 0x0A then None
      else case lastAfter b s of
        Some r \<Rightarrow> Some r
      | None \<Rightarrow> if HasPrefix (c # s) b then Some (drop (length b) (c # s)) else None)"

fun findSubmatch :: "string \<Rightarrow> string \<Rightarrow> string \<Rightarrow> string option" where
  "findSubmatch a b [] = None"
| "findSubmatch a b (c # s) =
     (case (if HasPrefix (c # s) a then lastAfter b (drop (length a) (c # s)) else None) of
        Some r \<Rightarrow> Some (takeWhile isDigit r)
      | None \<Rightarrow> findSubmatch a b s)"

definition limitOf :: "'f floats \<Rightarrow> ('f \<Rightarrow> 'f) \<Rightarrow> string \<Rightarrow> string \<Rightarrow> string \<Rightarrow> 'f" where
  "limitOf F unit a b s =
     (case findSubmatch a b s of
        None \<Rightarrow> minusOne F
      | Some m \<Rightarrow> (case fl_parse F m of None \<Rightarrow> minusOne F | Some bitRate \<Rightarrow> unit bitRate))"

definition egressStart :: string where "egressStart = ''create qos ''"
definition egressEnd :: string where "egressEnd = '' other-config:max-rate=''"
definition ingressStart :: string where "ingressStart = ''set interface ''"
definition ingressEnd :: string where "ingressEnd = '' ingress_policing_rate=''"

definition isEgressLimiting :: "'f floats \<Rightarrow> string \<Rightarrow> 'f" where
  "isEgressLimiting F s = limitOf F id egressStart egressEnd s"

definition isIngressLimiting :: "'f floats \<Rightarrow> string \<Rightarrow> 'f" where
  "isIngressLimiting F s = limitOf F (\<lambda>bitRate. fl_mul F bitRate (fl_ratio F 1000 1)) ingressStart ingressEnd s"

text \<open>Of a machine configuration: its raw ignition configuration, and its labels. Decoding gives the contents of the units.\<close>

record MachineConfig =
  mc_Name :: string
  mc_Labels :: "(string, string) gomap"
  mc_Raw :: "string option"

fun firstLimit :: "'f floats \<Rightarrow> (string \<Rightarrow> 'f) \<Rightarrow> string list \<Rightarrow> 'f" where
  "firstLimit F qosType [] = minusOne F"
| "firstLimit F qosType (contents # units) =
     (let bitLimit = qosType contents in if \<not> fl_eq F bitLimit (minusOne F) then bitLimit else firstLimit F qosType units)"

definition isMCLimiting :: "'f floats \<Rightarrow> (string \<Rightarrow> string + string list) \<Rightarrow> MachineConfig \<Rightarrow> (string \<Rightarrow> 'f) \<Rightarrow> 'f res" where
  "isMCLimiting F decode mc qosType =
     (case mc_Raw mc of
        None \<Rightarrow> Inr (minusOne F)
      | Some raw \<Rightarrow>
          (case decode raw of
             Inl e \<Rightarrow> Inl (Error (''failed to unmarshal ignition config '' @ e))
           | Inr units \<Rightarrow> Inr (firstLimit F qosType units)))"

definition noLimit :: go_error where
  "noLimit = Error ''cannot find a machine configuration with specified qosNodeSelector that applies limitation''"

fun findQoSRate :: "'f floats \<Rightarrow> (string \<Rightarrow> string + string list) \<Rightarrow> (string \<Rightarrow> string res) \<Rightarrow> (string \<Rightarrow> 'f) \<Rightarrow> string \<Rightarrow> MachineConfig list \<Rightarrow>
    (string \<times> 'f) res" where
  "findQoSRate F decode nodeSelectorOf qosType qosNodeSelector [] = Inl noLimit"
| "findQoSRate F decode nodeSelectorOf qosType qosNodeSelector (mc # mcs) =
     (let continue = findQoSRate F decode nodeSelectorOf qosType qosNodeSelector mcs in
      case isMCLimiting F decode mc qosType of
        Inl e \<Rightarrow> Inl e
      | Inr enables \<Rightarrow>
          if fl_eq F enables (minusOne F) then continue
          else case mget (mc_Labels mc) roleLabel of
            None \<Rightarrow> continue
          | Some mcLabel \<Rightarrow>
              (case nodeSelectorOf mcLabel of
                 Inl (Panic e) \<Rightarrow> Inl (Panic e)
               | Inl (Error e) \<Rightarrow> continue
               | Inr nodeSelector \<Rightarrow>
                   if qosNodeSelector \<noteq> [] \<and> qosNodeSelector \<noteq> nodeSelector then continue else Inr (nodeSelector, enables)))"

text \<open>A list that fails is a failed assertion.\<close>

definition findQoSRateWithNodeSelector :: "'f floats \<Rightarrow> (string \<Rightarrow> string + string list) \<Rightarrow> ('s, 'w) poolApi \<Rightarrow> ('w \<Rightarrow> MachineConfig list res) \<Rightarrow> 'w \<Rightarrow>
    (string \<Rightarrow> 'f) \<Rightarrow> string \<Rightarrow> (string \<times> 'f) res" where
  "findQoSRateWithNodeSelector F decode C mcsOf w qosType qosNodeSelector =
     (case mcsOf w of
        Inl e \<Rightarrow> Inl (Panic ''Unexpected error'')
      | Inr mcs \<Rightarrow> findQoSRate F decode (FindNodeSelectorByMCLabel C w) qosType qosNodeSelector mcs)"

section \<open>Writing the configurations\<close>

definition lines :: "string list \<Rightarrow> string" where "lines ls = concat (map (\<lambda>l. l @ [CHR 0x0A]) ls)"

text \<open>The contents of the unit, after the indentation of the template has been removed as YAML does.\<close>

definition unitHead :: "string \<Rightarrow> string list" where
  "unitHead kind =
     [''[Unit]'', ''Description=Configure '' @ kind @ '' bandwidth limiting on br-ex'', ''Requires=ovs-configuration.service'',
      ''After=ovs-configuration.service'', ''Before=kubelet.service crio.service'', ''[Service]'', ''Type=oneshot'', ''RemainAfterExit=yes'']"

definition unitTail :: "string list" where
  "unitTail = [''[Install]'', ''WantedBy=multi-user.target'']"

definition q1 :: string where "q1 = [CHR 0x27]"
definition bs :: string where "bs = [CHR 0x5C]"

definition findPhs :: string where
  "findPhs = ''phs=$(/bin/nmcli --get-values GENERAL.DEVICES conn show ovs-if-phys0)''"

definition egressExec :: "int \<Rightarrow> string list" where
  "egressExec rate =
     [''ExecStart=/bin/bash -c '' @ q1 @ findPhs @ ''; '' @ bs,
      ''            /bin/ovs-vsctl set port $phs qos=[]; '' @ bs,
      ''            existing_qos=$(ovs-vsctl --columns=_uuid find qos other_config={max-rate='' @ inQuotes (Itoa rate) @ ''} | head -n1 | awk ''
        @ bs @ q1 @ ''{print $NF}'' @ bs @ q1 @ ''); '' @ bs,
      ''            if [ '' @ inQuotes ''$existing_qos'' @ '' == '' @ inQuotes [] @ '' ]; then '' @ bs,
      ''            /bin/ovs-vsctl set port $phs qos=@newqos -- --id=@newqos create qos type=linux-htb other-config:max-rate='' @ Itoa rate @ ''; else '' @ bs,
      ''            /bin/ovs-vsctl set port $phs qos=$existing_qos; fi'' @ q1,
      ''ExecStop=/bin/bash -c '' @ q1 @ findPhs @ ''; /bin/ovs-vsctl set port $phs qos=[]'' @ q1]"

definition egressUnit :: "int \<Rightarrow> string" where
  "egressUnit rate = lines (unitHead ''egress'' @ egressExec rate @ unitTail)"

text \<open>Division rounds towards zero.\<close>

definition tenth :: "int \<Rightarrow> int" where "tenth n = (if 0 \<le> n then n div 10 else - (- n div 10))"

definition ingressExec :: "int \<Rightarrow> string list" where
  "ingressExec rate =
     [''ExecStart=/bin/bash -c '' @ q1 @ findPhs @ ''; /bin/ovs-vsctl set interface $phs ingress_policing_rate='' @ Itoa rate
        @ ''; /bin/ovs-vsctl set interface $phs ingress_policing_burst='' @ Itoa (tenth rate) @ q1,
      ''ExecStop=/bin/bash -c '' @ q1 @ findPhs @ ''; /bin/ovs-vsctl set interface $phs ingress_policing_rate=0''
        @ ''; /bin/ovs-vsctl set interface $phs ingress_policing_burst=0'' @ q1]"

definition ingressUnit :: "int \<Rightarrow> string" where
  "ingressUnit rate = lines (unitHead ''ingress'' @ ingressExec rate @ unitTail)"

text \<open>The text of the configuration; the second value of \<open>kind\<close> is the name of the unit with what follows it on its line.\<close>

definition indented :: "string list \<Rightarrow> string list" where "indented ls = map (\<lambda>l. replicate 12 (CHR '' '') @ l) ls"

definition mcContent :: "string \<Rightarrow> string \<Rightarrow> string \<Rightarrow> string list \<Rightarrow> string" where
  "mcContent roleWorkerCNF name unitName unit =
     [CHR 0x0A] @ lines (
       [''apiVersion: machineconfiguration.openshift.io/v1'', ''kind: MachineConfig'', ''metadata:'', ''  labels:'',
        ''    machineconfiguration.openshift.io/role: '' @ roleWorkerCNF, ''  name: '' @ name, ''spec:'', ''  config:'', ''    ignition:'',
        ''      version: 2.2.0'', ''    systemd:'', ''      units:'', ''        - contents: |''] @
       indented unit @ [''          enabled: true'', ''          name: '' @ unitName])"

text \<open>When the client fails, the error comes with the configuration.\<close>

definition createMCWithQOSContent :: "(string \<Rightarrow> string + MachineConfig) \<Rightarrow> ('w \<Rightarrow> MachineConfig \<Rightarrow> 'w \<times> MachineConfig \<times> string option) \<Rightarrow>
    'w \<Rightarrow> string \<Rightarrow> 'w \<times> MachineConfig option \<times> string option" where
  "createMCWithQOSContent DecodeMCYaml createMC w content =
     (case DecodeMCYaml content of
        Inl e \<Rightarrow> (w, None, Some e)
      | Inr mc \<Rightarrow> (let (w1, mc1, err) = createMC w mc in (w1, Some mc1, err)))"

definition createEgressMC :: "(string \<Rightarrow> string + MachineConfig) \<Rightarrow> ('w \<Rightarrow> MachineConfig \<Rightarrow> 'w \<times> MachineConfig \<times> string option) \<Rightarrow>
    string \<Rightarrow> int \<Rightarrow> 'w \<Rightarrow> 'w \<times> MachineConfig option \<times> string option" where
  "createEgressMC DecodeMCYaml createMC roleWorkerCNF egressRate w =
     createMCWithQOSContent DecodeMCYaml createMC w
       (mcContent roleWorkerCNF ''qos-egress'' ''egress-limit.service '' (unitHead ''egress'' @ egressExec egressRate @ unitTail))"

definition createIngressMC :: "(string \<Rightarrow> string + MachineConfig) \<Rightarrow> ('w \<Rightarrow> MachineConfig \<Rightarrow> 'w \<times> MachineConfig \<times> string option) \<Rightarrow>
    string \<Rightarrow> int \<Rightarrow> 'w \<Rightarrow> 'w \<times> MachineConfig option \<times> string option" where
  "createIngressMC DecodeMCYaml createMC roleWorkerCNF ingressRate w =
     createMCWithQOSContent DecodeMCYaml createMC w
       (mcContent roleWorkerCNF ''qos-ingress'' ''ingress-limit.service'' (unitHead ''ingress'' @ ingressExec ingressRate @ unitTail))"

section \<open>Measuring the rate\<close>

text \<open>The rates of the intervals that \<^verbatim>\<open>iperf3\<close> reports. Decoding is a parameter.\<close>

type_synonym 'f iperf3Output = "'f list"

definition parseIperfOutput :: "('l, 'w) podApi \<Rightarrow> (string \<Rightarrow> string + 'f iperf3Output) \<Rightarrow> 'w \<Rightarrow> TestPod \<Rightarrow> 'f iperf3Output res" where
  "parseIperfOutput A Unmarshal w pod =
     bind_res (GetLog A w pod) (\<lambda>out.
       case Unmarshal out of
         Inl e \<Rightarrow> Inl (Error e)
       | Inr o' \<Rightarrow> if o' = [] then Inl (Error ''parsed iperf3output returned 0 intervals'') else Inr o')"

definition rateEnforced :: "'f floats \<Rightarrow> 'f iperf3Output \<Rightarrow> 'f \<Rightarrow> bool" where
  "rateEnforced F o' limitRate \<longleftrightarrow> (\<forall>bps\<in>set o'. \<not> fl_less F (fl_mul F (fl_ratio F 11 10) limitRate) bps)"

text \<open>The environment: \<^verbatim>\<open>OVS_QOS_TEST_NAMESPACE\<close>, \<^verbatim>\<open>IPERF3_BITRATE_OVERRIDE\<close> and \<^verbatim>\<open>ROLE_WORKER_CNF\<close>, with their defaults.\<close>

definition envOr :: "(string \<Rightarrow> string) \<Rightarrow> string \<Rightarrow> string \<Rightarrow> string" where
  "envOr getenv name other = (if getenv name = [] then other else getenv name)"

definition iperf3BitrateOverride :: "(string \<Rightarrow> string) \<Rightarrow> string" where
  "iperf3BitrateOverride getenv = envOr getenv ''IPERF3_BITRATE_OVERRIDE'' ''0''"

definition roleWorkerCNF :: "(string \<Rightarrow> string) \<Rightarrow> string" where
  "roleWorkerCNF getenv = envOr getenv ''ROLE_WORKER_CNF'' ''worker-cnf''"

definition qosNodeSelector :: "(string \<Rightarrow> string) \<Rightarrow> string" where
  "qosNodeSelector getenv = ''node-role.kubernetes.io/'' @ roleWorkerCNF getenv @ ''=''"

definition OVSQOSTest :: "(string \<Rightarrow> string) \<Rightarrow> string" where
  "OVSQOSTest getenv = envOr getenv ''OVS_QOS_TEST_NAMESPACE'' ''ovs-qos-testing''"

definition iperfPort :: string where "iperfPort = ''30003''"

definition defineQosPod :: "(string \<Rightarrow> string) \<Rightarrow> string \<Rightarrow> bool \<Rightarrow> string \<Rightarrow> TestPod res" where
  "defineQosPod getenv nodeName hostNetwork cmd =
     bind_res ((if hostNetwork then DefinePodOnHostNetwork else DefinePodOnNode) getenv (OVSQOSTest getenv) nodeName) (\<lambda>pod.
     bind_res (RedefineWithCommand pod [''/bin/bash'', ''-c''] [cmd]) (\<lambda>pod. Inr (RedefineWithRestartPolicy pod ''Never'')))"

text \<open>A pod is created with a generated name; the server does so, given the prefix.\<close>

definition createdPod :: "('l, 'w) podApi \<Rightarrow> 'w \<Rightarrow> TestPod \<Rightarrow> ('w, TestPod) effect" where
  "createdPod A w pod = (case pa_create A w pod of (w1, pod1, Some e) \<Rightarrow> Some (w1, Inl (Error e)) | (w1, pod1, None) \<Rightarrow> Some (w1, Inr pod1))"

definition createSenderPod :: "('l, 'w) podApi \<Rightarrow> (string \<Rightarrow> string) \<Rightarrow> string \<Rightarrow> bool \<Rightarrow> string \<Rightarrow> 'w \<Rightarrow> ('w, TestPod) effect" where
  "createSenderPod A getenv nodeName hostNetwork receiverIP w =
     (case defineQosPod getenv nodeName hostNetwork
         (''iperf3 -u -b '' @ iperf3BitrateOverride getenv @ '' -c '' @ receiverIP @ '' -t 10 -J -p '' @ iperfPort @ '' --pacing-timer 10;'') of
        Inl e \<Rightarrow> Some (w, Inl e)
      | Inr senderPodDefinition \<Rightarrow>
          expectNil (createdPod A w (senderPodDefinition\<lparr>tp_GenerateName := ''sender-''\<rparr>)) (\<lambda>w senderPod.
          expectNil (WaitForPhase A senderPod ''Succeeded'' (minutes 5) w) (\<lambda>w _. Some (w, Inr senderPod))))"

definition createReceiverPod :: "('l, 'w) podApi \<Rightarrow> (string \<Rightarrow> string) \<Rightarrow> string \<Rightarrow> bool \<Rightarrow> 'w \<Rightarrow> ('w, TestPod) effect" where
  "createReceiverPod A getenv nodeName hostNetwork w =
     (case defineQosPod getenv nodeName hostNetwork (''iperf3 -s -J -1 -p '' @ iperfPort @ '';'') of
        Inl e \<Rightarrow> Some (w, Inl e)
      | Inr receiverPodDefinition \<Rightarrow>
          expectNil (createdPod A w (receiverPodDefinition\<lparr>tp_GenerateName := ''receiver-''\<rparr>)) (\<lambda>w receiverPod.
          expectNil (WaitForPodCondition A receiverPod ''ContainersReady'' ''True'' (minutes 5) w) (\<lambda>w _.
          expectNil (Some (w, map_sum apiFailure id (pa_get A w (tp_Namespace receiverPod) (tp_Name receiverPod)))) (\<lambda>w pod.
            Some (w, Inr pod)))))"

definition hostToHost :: string where "hostToHost = ''Host Pod to Host Pod''"
definition hostToSDN :: string where "hostToSDN = ''Host Pod to SDN Pod''"
definition sdnToSDN :: string where "sdnToSDN = ''SDN Pod to SDN Pod''"

definition networksByConnectivity :: "string \<Rightarrow> (bool \<times> bool) res" where
  "networksByConnectivity connectivity =
     (if connectivity = hostToHost then Inr (True, True)
      else if connectivity = hostToSDN then Inr (True, False)
      else if connectivity = sdnToSDN then Inr (False, False)
      else Inl (Error ''requested connectivity not in supported list''))"

fun paramInParamList :: "string \<Rightarrow> string list \<Rightarrow> string option" where
  "paramInParamList param [] = Some (''error: wrong parameter '' @ param)"
| "paramInParamList param (parameter # rest) = (if param = parameter then None else paramInParamList param rest)"

definition newQoSTestParameters :: "string \<Rightarrow> string res" where
  "newQoSTestParameters connectivity =
     (case paramInParamList connectivity [hostToHost, hostToSDN, sdnToSDN] of
        Some e \<Rightarrow> Inl (Error e)
      | None \<Rightarrow> Inr connectivity)"

text \<open>The average of the intervals. \<open>podIP\<close> reads the address in the status of a pod.\<close>

definition average :: "'f floats \<Rightarrow> 'f iperf3Output \<Rightarrow> 'f" where
  "average F o' = fl_div F (foldl (fl_add F) (fl_ratio F 0 1) o') (fl_ratio F (int (length o')) 1)"

definition findInitialRate :: "'f floats \<Rightarrow> ('l, 'w) podApi \<Rightarrow> (string \<Rightarrow> string + 'f iperf3Output) \<Rightarrow> (TestPod \<Rightarrow> string) \<Rightarrow>
    (string \<Rightarrow> string) \<Rightarrow> string \<Rightarrow> string \<Rightarrow> bool \<Rightarrow> 'w \<Rightarrow> ('w, 'f) effect" where
  "findInitialRate F A Unmarshal podIP getenv receiverNode senderNode grabSender w =
     (case networksByConnectivity sdnToSDN of
        Inl e \<Rightarrow> Some (w, Inl e)
      | Inr (senderHostNetwork, receiverHostNetwork) \<Rightarrow>
          andThen (createReceiverPod A getenv receiverNode receiverHostNetwork w) (\<lambda>w receiverPod.
          andThen (createSenderPod A getenv senderNode senderHostNetwork (podIP receiverPod) w) (\<lambda>w senderPod.
            Some (w, bind_res (parseIperfOutput A Unmarshal w (if grabSender then senderPod else receiverPod)) (\<lambda>o'.
              let s = average F o' in
              if fl_eq F s (fl_ratio F 0 1) then Inl (Error ''rate sum of iperf3 intervals is 0, can't determine rate'') else Inr s)))))"

section \<open>Validation on the nodes\<close>

definition CRLF :: string where "CRLF = [CHR 0x0D, CHR 0x0A]"

definition findOvsPhysicalNic :: "'w reachEnv \<Rightarrow> 'w \<Rightarrow> Pod \<Rightarrow> 'w \<times> string res" where
  "findOvsPhysicalNic E w ovsPod =
     (case ExecCommand E w ovsPod [''/bin/bash'', ''-c'', ''/usr/bin/ovs-vsctl list-ports br-ex | /usr/bin/grep -v patch''] of
        (w1, buf, Some e) \<Rightarrow> (w1, Inl (Error e))
      | (w1, buf, None) \<Rightarrow> (w1, Inr (ReplaceAll buf CRLF [])))"

text \<open>The command is the template with the interface at its end.\<close>

definition qosOnNode :: "'w clusterApi \<Rightarrow> 'w reachEnv \<Rightarrow> string \<Rightarrow> 'w \<Rightarrow> Node \<Rightarrow> 'w \<times> string res" where
  "qosOnNode C E cmd w node =
     (case GetOvnkubePodByNode C w node of
        Inl e \<Rightarrow> (w, Inl e)
      | Inr ovsPod \<Rightarrow>
          (case findOvsPhysicalNic E w ovsPod of
             (w1, Inl e) \<Rightarrow> (w1, Inl e)
           | (w1, Inr nic) \<Rightarrow>
               (case ExecCommand E w1 ovsPod [''/bin/bash'', ''-c'', cmd @ nic] of
                  (w2, buf, Some e) \<Rightarrow> (w2, Inl (Error e))
                | (w2, buf, None) \<Rightarrow> (w2, Inr buf))))"

definition getFilteredNodes :: "'w clusterApi \<Rightarrow> string \<Rightarrow> string \<Rightarrow> 'w \<Rightarrow> Node list res" where
  "getFilteredNodes C NodesSelector selector w =
     bind_res (ca_nodes C w selector) (\<lambda>nodes. MatchingOptionalSelector C w NodesSelector nodes)"

definition notApplied :: "string \<Rightarrow> Node \<Rightarrow> int \<Rightarrow> go_error" where
  "notApplied kind node limit =
     Error (kind @ '' QoS not applied correctly on node '' @ nd_Name node @ '' for limit: '' @ Itoa limit)"

definition checkIngress :: "int \<Rightarrow> Node \<Rightarrow> string \<Rightarrow> go_error option" where
  "checkIngress limit node qos =
     (if Contains qos (''ingress_policing_rate: '' @ Itoa limit) then None else Some (notApplied ''ingress'' node limit))"

text \<open>The first occurrence of a literal, and the digits after it.\<close>

fun digitsAfter :: "string \<Rightarrow> string \<Rightarrow> string option" where
  "digitsAfter a [] = None"
| "digitsAfter a (c # s) =
     (if HasPrefix (c # s) a then Some (takeWhile isDigit (drop (length a) (c # s))) else digitsAfter a s)"

definition maxRate :: string where "maxRate = ''max-rate: ''"

definition badInt :: "string \<Rightarrow> go_error" where
  "badInt s = Error (''strconv.ParseInt: parsing '' @ inQuotes s @ '': '' @ (if s = [] then ''invalid syntax'' else ''value out of range''))"

text \<open>The difference of the limits wraps around at 64 bits.\<close>

definition int64 :: "int \<Rightarrow> int" where "int64 n = (n + 2 ^ 63) mod 2 ^ 64 - 2 ^ 63"

definition checkEgress :: "int \<Rightarrow> Node \<Rightarrow> string \<Rightarrow> go_error option" where
  "checkEgress limit node qos =
     (if limit = 0 then (if Contains qos ''QoS not configured'' then None else Some (notApplied ''egress'' node limit))
      else case digitsAfter maxRate qos of
        None \<Rightarrow> Some (Error (''couldn't find rate from ovs-appctl qos/show on node '' @ nd_Name node))
      | Some m \<Rightarrow>
          (case Atoi m of
             None \<Rightarrow> Some (badInt m)
           | Some appliedLimit \<Rightarrow> if \<bar>int64 (limit - appliedLimit)\<bar> > 100 then Some (notApplied ''egress'' node limit) else None))"

fun checkNodes :: "('w \<Rightarrow> Node \<Rightarrow> 'w \<times> string res) \<Rightarrow> (Node \<Rightarrow> string \<Rightarrow> go_error option) \<Rightarrow> 'w \<Rightarrow> Node list \<Rightarrow> 'w \<times> unit res" where
  "checkNodes qosOn check w [] = (w, Inr ())"
| "checkNodes qosOn check w (node # nodes) =
     (case qosOn w node of
        (w1, Inl e) \<Rightarrow> (w1, Inl e)
      | (w1, Inr qos) \<Rightarrow> (case check node qos of Some e \<Rightarrow> (w1, Inl e) | None \<Rightarrow> checkNodes qosOn check w1 nodes))"

definition validateQosOnNodes :: "string \<Rightarrow> (int \<Rightarrow> Node \<Rightarrow> string \<Rightarrow> go_error option) \<Rightarrow> 'w clusterApi \<Rightarrow> 'w reachEnv \<Rightarrow> string \<Rightarrow> string \<Rightarrow>
    int \<Rightarrow> 'w \<Rightarrow> 'w \<times> unit res" where
  "validateQosOnNodes cmd check C E NodesSelector selector limit w =
     (case getFilteredNodes C NodesSelector selector w of
        Inl e \<Rightarrow> (w, Inl e)
      | Inr filtered \<Rightarrow> checkNodes (qosOnNode C E cmd) (check limit) w filtered)"

definition validateIngressQosOnNodes :: "'w clusterApi \<Rightarrow> 'w reachEnv \<Rightarrow> string \<Rightarrow> string \<Rightarrow> int \<Rightarrow> 'w \<Rightarrow> 'w \<times> unit res" where
  "validateIngressQosOnNodes = validateQosOnNodes ''/usr/bin/ovs-vsctl list interface '' checkIngress"

definition validateEgressQosOnNodes :: "'w clusterApi \<Rightarrow> 'w reachEnv \<Rightarrow> string \<Rightarrow> string \<Rightarrow> int \<Rightarrow> 'w \<Rightarrow> 'w \<times> unit res" where
  "validateEgressQosOnNodes = validateQosOnNodes ''/usr/bin/ovs-appctl qos/show '' checkEgress"

section \<open>Reading a written rate\<close>

text \<open>A text is skipped when the literal starts nowhere in it, whatever follows the text.\<close>

fun skips :: "string \<Rightarrow> string \<Rightarrow> bool" where
  "skips a [] = True"
| "skips a (c # s) = (\<not> HasPrefix (c # s) a \<and> \<not> HasPrefix a (c # s) \<and> skips a s)"

lemma prefix_append_cases: "HasPrefix (s @ t) a \<Longrightarrow> HasPrefix s a \<or> HasPrefix a s"
  by (auto simp: HasPrefix_iff append_eq_append_conv2)

lemma findSubmatch_skip: "skips a s \<Longrightarrow> findSubmatch a b (s @ t) = findSubmatch a b t"
proof (induction s)
  case (Cons c s)
  then have "\<not> HasPrefix (c # s @ t) a" using prefix_append_cases [of "c # s" t a] by auto
  with Cons show ?case by simp
qed simp

lemma lastAfter_skip: "skips b s \<Longrightarrow> CHR 0x0A \<notin> set s \<Longrightarrow> lastAfter b (s @ t) = lastAfter b t"
proof (induction s)
  case (Cons c s)
  then have "\<not> HasPrefix (c # s @ t) b" using prefix_append_cases [of "c # s" t b] by auto
  with Cons show ?case by (auto split: option.splits)
qed simp

lemma skips_append: "skips a s \<Longrightarrow> skips a t \<Longrightarrow> skips a (s @ t)"
proof (induction s)
  case (Cons c s)
  then have "\<not> HasPrefix (c # s @ t) a" using prefix_append_cases [of "c # s" t a] by auto
  moreover have "\<not> HasPrefix a (c # s @ t)" using Cons.prems by (auto simp: HasPrefix_iff)
  ultimately show ?case using Cons by simp
qed simp

lemma skips_absent: "c \<notin> set s \<Longrightarrow> skips (c # a) s"
  by (induction s) auto

lemma findSubmatch_here:
  assumes "lastAfter b t = Some r"
  shows "findSubmatch (c # a) b ((c # a) @ t) = Some (takeWhile isDigit r)"
  using assms by simp

lemma lastAfter_here: "c \<noteq> CHR 0x0A \<Longrightarrow> lastAfter (c # b) (b @ t) = None \<Longrightarrow> lastAfter (c # b) ((c # b) @ t) = Some t"
  by simp

lemma lines_Cons: "lines (l # ls) = l @ [CHR 0x0A] @ lines ls"
  by (simp add: lines_def)

lemma lines_append: "lines (ls @ ks) = lines ls @ lines ks"
  by (simp add: lines_def)

lemma takeDigits: "takeWhile isDigit (natStr n @ CHR '';'' # t) = natStr n"
  using natStr_digits [of n] by (simp add: takeWhile_append2 list_all_iff isDigit_def)

text \<open>The pieces of the written text around the rate.\<close>

definition egressBefore :: string where
  "egressBefore = lines (unitHead ''egress'') @
     lines [''ExecStart=/bin/bash -c '' @ q1 @ findPhs @ ''; '' @ bs, ''            /bin/ovs-vsctl set port $phs qos=[]; '' @ bs] @
     ''            existing_qos=$(ovs-vsctl --columns=_uuid find qos other_config={max-rate='' @ [CHR 0x22]"

definition egressBetween :: string where
  "egressBetween = [CHR 0x22] @ ''} | head -n1 | awk '' @ bs @ q1 @ ''{print $NF}'' @ bs @ q1 @ ''); '' @ bs @ [CHR 0x0A] @
     lines [''            if [ '' @ inQuotes ''$existing_qos'' @ '' == '' @ inQuotes [] @ '' ]; then '' @ bs] @
     ''            /bin/ovs-vsctl set port $phs qos=@newqos -- --id=@newqos ''"

definition egressAfter :: string where
  "egressAfter = '' else '' @ bs"

lemma egressUnit_split:
  "\<exists>rest. egressUnit rate = egressBefore @ Itoa rate @ egressBetween @ egressStart @ ''type=linux-htb'' @ egressEnd @
     Itoa rate @ CHR '';'' # egressAfter @ CHR 0x0A # rest"
  by (rule exI [where x = "lines (drop 5 (egressExec rate) @ unitTail)"])
     (simp add: egressUnit_def egressBefore_def egressBetween_def egressAfter_def egressStart_def egressEnd_def lines_append lines_Cons
       egressExec_def inQuotes_def lines_def)

definition ingressBefore :: string where
  "ingressBefore = lines (unitHead ''ingress'') @ ''ExecStart=/bin/bash -c '' @ q1 @ findPhs @ ''; /bin/ovs-vsctl ''"

definition ingressAfter :: string where
  "ingressAfter = '' /bin/ovs-vsctl set interface $phs ingress_policing_burst=''"

lemma ingressUnit_split:
  "\<exists>rest. ingressUnit rate = ingressBefore @ ingressStart @ ''$phs'' @ ingressEnd @ Itoa rate @ CHR '';'' # ingressAfter @
     Itoa (tenth rate) @ q1 @ CHR 0x0A # rest"
  by (rule exI [where x = "lines (tl (ingressExec rate) @ unitTail)"])
     (simp add: ingressUnit_def ingressBefore_def ingressAfter_def ingressStart_def ingressEnd_def lines_append lines_Cons
       ingressExec_def lines_def)

lemma egress_static:
  "skips egressStart egressBefore" "skips egressStart egressBetween" "skips egressEnd ''type=linux-htb''" "skips egressEnd (tl egressEnd)"
  "skips egressEnd (CHR '';'' # egressAfter)"
  by code_simp+

lemma ingress_static:
  "skips ingressStart ingressBefore" "skips ingressEnd ''$phs''" "skips ingressEnd (tl ingressEnd)" "skips ingressEnd (CHR '';'' # ingressAfter)"
  "skips ingressEnd q1"
  by code_simp+

lemma natStr_skip: "\<not> isDigit c \<Longrightarrow> skips (c # a) (natStr n)"
  by (rule skips_absent) (rule natStr_digits_only)

lemma natStr_one_line: "CHR 0x0A \<notin> set (natStr n)"
  by (rule natStr_digits_only) (simp add: isDigit_def)

lemma digits_skipped:
  "skips egressStart (natStr n)" "skips egressEnd (natStr n)" "skips ingressStart (natStr n)" "skips ingressEnd (natStr n)"
  unfolding egressStart_def egressEnd_def ingressStart_def ingressEnd_def by (rule natStr_skip, simp add: isDigit_def)+

text \<open>A line with one occurrence of the two literals: what stands between the second one and the next semicolon is found.\<close>

lemma findSubmatch_line:
  assumes before: "skips a before" and middle: "skips b middle" "CHR 0x0A \<notin> set middle"
    and one: "skips b (tl b)" "CHR 0x0A \<notin> set b" "a \<noteq> []" "b \<noteq> []"
    and after: "skips b after" "CHR 0x0A \<notin> set after"
    and digits: "skips b (natStr n)" and semicolon: "after = CHR '';'' # after'"
  shows "findSubmatch a b (before @ a @ middle @ b @ natStr n @ after @ CHR 0x0A # t) = Some (natStr n)"
proof -
  obtain c a' d b' where ab: "a = c # a'" "b = d # b'" using one by (auto simp: neq_Nil_conv)
  have "lastAfter b (natStr n @ after @ CHR 0x0A # t) = None"
    using after digits natStr_one_line by (simp add: lastAfter_skip)
  then have "lastAfter b (b' @ natStr n @ after @ CHR 0x0A # t) = None"
    using one ab by (simp add: lastAfter_skip)
  then have "lastAfter b (b @ natStr n @ after @ CHR 0x0A # t) = Some (natStr n @ after @ CHR 0x0A # t)"
    using one unfolding ab(2) by (intro lastAfter_here) auto
  then have "lastAfter b (middle @ b @ natStr n @ after @ CHR 0x0A # t) = Some (natStr n @ after @ CHR 0x0A # t)"
    by (subst lastAfter_skip [OF middle])
  then have "findSubmatch a b (a @ middle @ b @ natStr n @ after @ CHR 0x0A # t) = Some (takeWhile isDigit (natStr n @ after @ CHR 0x0A # t))"
    unfolding ab(1) by (rule findSubmatch_here)
  with before semicolon show ?thesis by (simp only: findSubmatch_skip append_Cons takeDigits)
qed

lemma egress_found:
  assumes "0 \<le> rate"
  shows "findSubmatch egressStart egressEnd (egressUnit rate) = Some (Itoa rate)"
proof -
  obtain rest where split: "egressUnit rate = egressBefore @ Itoa rate @ egressBetween @ egressStart @ ''type=linux-htb'' @ egressEnd @
     Itoa rate @ CHR '';'' # egressAfter @ CHR 0x0A # rest" using egressUnit_split by blast
  have "findSubmatch egressStart egressEnd ([] @ egressStart @ ''type=linux-htb'' @ egressEnd @ natStr (nat rate) @
      (CHR '';'' # egressAfter) @ CHR 0x0A # rest) = Some (natStr (nat rate))"
    by (rule findSubmatch_line [OF _ egress_static(3) _ egress_static(4) _ _ _ egress_static(5) _ digits_skipped(2) refl])
      (simp_all add: egressStart_def egressEnd_def egressAfter_def bs_def)
  then show ?thesis
    unfolding split using assms egress_static digits_skipped
    by (simp only: Itoa_nat findSubmatch_skip append_Nil append_Cons)
qed

lemma ingress_found:
  assumes "0 \<le> rate"
  shows "findSubmatch ingressStart ingressEnd (ingressUnit rate) = Some (Itoa rate)"
proof -
  obtain rest where split: "ingressUnit rate = ingressBefore @ ingressStart @ ''$phs'' @ ingressEnd @ Itoa rate @ CHR '';'' # ingressAfter @
     Itoa (tenth rate) @ q1 @ CHR 0x0A # rest" using ingressUnit_split by blast
  have "0 \<le> tenth rate" using assms by (simp add: tenth_def)
  then obtain k where k: "Itoa (tenth rate) = natStr k" by (auto simp: Itoa_nat)
  have "skips ingressEnd ((CHR '';'' # ingressAfter) @ natStr k @ q1)"
    using ingress_static digits_skipped by (intro skips_append)
  then have after: "skips ingressEnd (CHR '';'' # (ingressAfter @ natStr k @ q1))" by simp
  have "findSubmatch ingressStart ingressEnd (ingressBefore @ ingressStart @ ''$phs'' @ ingressEnd @ natStr (nat rate) @
      (CHR '';'' # (ingressAfter @ natStr k @ q1)) @ CHR 0x0A # rest) = Some (natStr (nat rate))"
    by (rule findSubmatch_line [OF ingress_static(1) ingress_static(2) _ ingress_static(3) _ _ _ after _ digits_skipped(4) refl])
      (use natStr_one_line in \<open>simp_all add: ingressStart_def ingressEnd_def ingressAfter_def q1_def\<close>)
  then show ?thesis unfolding split k Itoa_nat [OF assms] by (simp only: append_assoc append_Cons)
qed

text \<open>Numbers that are integers, for examples.\<close>

definition demoFloats :: "int floats" where
  "demoFloats =
     \<lparr>fl_parse = Atoi, fl_ratio = (\<lambda>a b. a div b), fl_add = (+), fl_mul = (*), fl_div = (div), fl_less = (<), fl_eq = (=), fl_int64 = (\<lambda>x. x)\<rparr>"

text \<open>C38. The rate that a written configuration limits is read back from its unit, in both directions; a machine configuration whose
  only unit it is limits that rate.\<close>

theorem QoS_limits_read_back:
  assumes "0 \<le> rate" and "fl_parse F (Itoa rate) = Some x"
  shows "isEgressLimiting F (egressUnit rate) = x \<and>
    isIngressLimiting F (ingressUnit rate) = fl_mul F x (fl_ratio F 1000 1) \<and>
    (mc_Raw mc = Some raw \<and> decode raw = Inr [egressUnit rate] \<and> \<not> fl_eq F x (minusOne F) \<longrightarrow>
       isMCLimiting F decode mc (isEgressLimiting F) = Inr x)"
  using assms by (simp add: isEgressLimiting_def isIngressLimiting_def limitOf_def egress_found ingress_found isMCLimiting_def)

theorem QoS_limits_read_back_witness:
  "isEgressLimiting demoFloats (egressUnit 9500000) = 9500000 \<and> isIngressLimiting demoFloats (ingressUnit 9500000) = 9500000000 \<and>
   isMCLimiting demoFloats (\<lambda>raw. Inr [egressUnit 9500000]) \<lparr>mc_Name = ''qos'', mc_Labels = [], mc_Raw = Some ''{}''\<rparr>
     (isEgressLimiting demoFloats) = Inr 9500000"
proof -
  have "fl_parse demoFloats (Itoa 9500000) = Some 9500000" by (simp add: demoFloats_def Itoa_def Atoi_natStr)
  from QoS_limits_read_back [OF _ this, of "\<lparr>mc_Name = ''qos'', mc_Labels = [], mc_Raw = Some ''{}''\<rparr>" "''{}''"
      "\<lambda>raw. Inr [egressUnit 9500000]"]
  show ?thesis by (simp add: demoFloats_def minusOne_def)
qed

text \<open>On a node whose interface shows a rate of at most 100 bits per second away from the limit, the egress check passes.\<close>

lemma digitsAfter_skip: "skips a s \<Longrightarrow> digitsAfter a (s @ t) = digitsAfter a t"
proof (induction s)
  case (Cons c s)
  then have "\<not> HasPrefix (c # s @ t) a" using prefix_append_cases [of "c # s" t a] by auto
  with Cons show ?case by simp
qed simp

lemma checkEgress_accepts:
  assumes "skips maxRate before" and "n < 2 ^ 63" and "0 < limit" and "limit < 2 ^ 63" and "rest = [] \<or> \<not> isDigit (hd rest)"
  shows "checkEgress limit node (before @ maxRate @ natStr n @ rest) = None \<longleftrightarrow> \<bar>limit - int n\<bar> \<le> 100"
proof -
  have "takeWhile isDigit (natStr n @ rest) = natStr n"
    using assms(5) natStr_digits [of n] by (cases rest) (simp_all add: takeWhile_append2 list_all_iff)
  moreover have "digitsAfter maxRate (maxRate @ t) = Some (takeWhile isDigit t)" for t
    by (simp add: maxRate_def)
  ultimately have "digitsAfter maxRate (before @ maxRate @ natStr n @ rest) = Some (natStr n)"
    using assms(1) by (simp add: digitsAfter_skip)
  moreover have "int64 (limit - int n) = limit - int n"
    using assms(2-4) by (simp add: int64_def)
  ultimately show ?thesis using assms(2,3) by (auto simp: checkEgress_def Atoi_natStr)
qed

text \<open>The ingress check accepts every rate whose digits begin with those of the limit.\<close>

lemma checkIngress_prefix: "checkIngress limit node (before @ ''ingress_policing_rate: '' @ Itoa limit @ digits @ rest) = None"
proof -
  have "Contains (before @ ''ingress_policing_rate: '' @ Itoa limit @ digits @ rest) (''ingress_policing_rate: '' @ Itoa limit)"
    unfolding Contains_iff by (rule exI [of _ before], rule exI [of _ "digits @ rest"]) simp
  then show ?thesis by (simp only: checkIngress_def if_True)
qed

text \<open>No pod of the tests has a generated name that a clean-up of \<open>testpod-\<close> finds.\<close>

lemma qosPod_names:
  "HasPrefix (''sender-'' @ s) ''testpod-'' = False" "HasPrefix (''receiver-'' @ s) ''testpod-'' = False"
  by simp_all

end
