(* ===== verification/SctpTests.thy ===== *)
theory SctpTests
  imports QosLimits SriovNetworks
begin

text \<open>
  The helpers of the SCTP tests (\<^verbatim>\<open>cnf-tests/testsuites/e2esuite/sctp/sctp.go\<close>): the nodes with SCTP, server, client and check
  pods, services and network policies.

  A failed assertion is a panic. \<open>sctpApi\<close> is what the code uses of the API server beside pods and nodes.
\<close>

section \<open>The nodes with SCTP\<close>

definition sctpBlacklistPath :: string where "sctpBlacklistPath = ''/etc/modprobe.d/sctp-blacklist.conf''"
definition sctpLoadPath :: string where "sctpLoadPath = ''/etc/modules-load.d/sctp-load.conf''"

text \<open>Decoding gives the paths of the files of the ignition configuration.\<close>

fun pathsFound :: "bool \<times> bool \<Rightarrow> string list \<Rightarrow> bool \<times> bool" where
  "pathsFound found [] = found"
| "pathsFound (blacklistPathFound, loadPathFound) (path # paths) =
     pathsFound (blacklistPathFound \<or> path = sctpBlacklistPath, loadPathFound \<or> path = sctpLoadPath) paths"

definition enablesSCTP :: "(string \<Rightarrow> string + string list) \<Rightarrow> MachineConfig \<Rightarrow> bool res" where
  "enablesSCTP decode mc =
     (case mc_Raw mc of
        None \<Rightarrow> Inr False
      | Some raw \<Rightarrow>
          (case decode raw of
             Inl e \<Rightarrow> Inl (Error (''Failed to unmarshal ignition config '' @ e))
           | Inr paths \<Rightarrow> (let (blacklistPathFound, loadPathFound) = pathsFound (False, False) paths in
               Inr (blacklistPathFound \<and> loadPathFound))))"

definition noSelector :: go_error where "noSelector = Error ''Cannot find SCTPNodeSelector''"

definition targets :: "string \<Rightarrow> string list list \<times> (string, string) gomap \<Rightarrow> bool" where
  "targets mcLabel sel \<longleftrightarrow> (\<exists>vs\<in>set (fst sel). mcLabel \<in> set vs) \<or> mcLabel \<in> snd ` set (snd sel)"

text \<open>A pool that targets the label and has no node label does not end the loops. The node label is the first in the order in which
  the map is visited.\<close>

fun sctpPool :: "string \<Rightarrow> Pool list \<Rightarrow> string res" where
  "sctpPool mcLabel [] = Inl noSelector"
| "sctpPool mcLabel (mcp # mcps) =
     (case mp_MachineConfigSelector mcp of
        None \<Rightarrow> Inl nilPointer
      | Some sel \<Rightarrow>
          if \<not> targets mcLabel sel then sctpPool mcLabel mcps
          else case firstNodeLabel mcp of
            Inl e \<Rightarrow> Inl e
          | Inr None \<Rightarrow> sctpPool mcLabel mcps
          | Inr (Some newSCTPNodeSelector) \<Rightarrow> Inr newSCTPNodeSelector)"

text \<open>\<open>Expect(err)\<close>.\<close>

definition asserted :: "'a res \<Rightarrow> 'a res" where
  "asserted r = (case r of Inl (Error e) \<Rightarrow> Inl (Panic (''Unexpected error: '' @ e)) | _ \<Rightarrow> r)"

definition findSCTPNodeSelectorByMCLabel :: "('s, 'w) poolApi \<Rightarrow> 'w \<Rightarrow> string \<Rightarrow> string res" where
  "findSCTPNodeSelectorByMCLabel C w mcLabel = bind_res (asserted (mc_pools C w)) (sctpPool mcLabel)"

fun sctpConfig :: "(string \<Rightarrow> string + string list) \<Rightarrow> (string \<Rightarrow> string res) \<Rightarrow> MachineConfig list \<Rightarrow> string res" where
  "sctpConfig decode selectorOf [] = Inl (Error ''Cannot find a machine configuration that enables SCTP'')"
| "sctpConfig decode selectorOf (mc # mcs) =
     bind_res (enablesSCTP decode mc) (\<lambda>enables.
       if \<not> enables then sctpConfig decode selectorOf mcs
       else case mget (mc_Labels mc) roleLabel of
         None \<Rightarrow> sctpConfig decode selectorOf mcs
       | Some mcLabel \<Rightarrow>
           (case selectorOf mcLabel of
              Inl (Panic e) \<Rightarrow> Inl (Panic e)
            | Inl (Error e) \<Rightarrow> sctpConfig decode selectorOf mcs
            | Inr sctpNodeSelector \<Rightarrow> Inr sctpNodeSelector))"

definition findSCTPNodeSelector :: "(string \<Rightarrow> string + string list) \<Rightarrow> ('s, 'w) poolApi \<Rightarrow> ('w \<Rightarrow> MachineConfig list res) \<Rightarrow> 'w \<Rightarrow> string res" where
  "findSCTPNodeSelector decode C mcsOf w =
     bind_res (asserted (mcsOf w)) (sctpConfig decode (findSCTPNodeSelectorByMCLabel C w))"

text \<open>Nodes for the test. \<open>addresses\<close> reads the addresses in the status of a node.\<close>

record nodesInfo =
  ni_clientNode :: string
  ni_serverNode :: string
  ni_nodeAddress :: string

definition getSCTPNodes :: "'w clusterApi \<Rightarrow> string \<Rightarrow> 'w \<Rightarrow> string \<Rightarrow> Node list res" where
  "getSCTPNodes C NodesSelector w sel =
     bind_res (asserted (getFilteredNodes C NodesSelector sel w)) (\<lambda>filtered.
       if filtered = [] then Inl (Panic ''Expectation failed'') else Inr filtered)"

definition hostOf :: "Node \<Rightarrow> string" where
  "hostOf n = (case nd_Labels n of None \<Rightarrow> [] | Some ls \<Rightarrow> (case mget ls hostnameLabel of None \<Rightarrow> [] | Some h \<Rightarrow> h))"

definition nodesToInfo :: "(Node \<Rightarrow> string list) \<Rightarrow> Node \<Rightarrow> Node \<Rightarrow> nodesInfo res" where
  "nodesToInfo addresses client server =
     (case addresses client of
        [] \<Rightarrow> Inl indexZero
      | a # _ \<Rightarrow> Inr \<lparr>ni_clientNode = hostOf client, ni_serverNode = hostOf server, ni_nodeAddress = a\<rparr>)"

definition selectSctpNodes :: "'w clusterApi \<Rightarrow> string \<Rightarrow> (Node \<Rightarrow> string list) \<Rightarrow> 'w \<Rightarrow> string \<Rightarrow> nodesInfo res" where
  "selectSctpNodes C NodesSelector addresses w sel =
     bind_res (getSCTPNodes C NodesSelector w sel) (\<lambda>filtered.
       case filtered of
         n0 # n1 # _ \<Rightarrow> nodesToInfo addresses n0 n1
       | [n0] \<Rightarrow> nodesToInfo addresses n0 n0
       | [] \<Rightarrow> Inl indexZero)"

section \<open>Pods, services and policies\<close>

record SctpService =
  ss_Name :: string
  ss_Namespace :: string
  ss_Selector :: "(string, string) gomap"
  ss_Ports :: "(string \<times> int \<times> int \<times> int) list"
  ss_Type :: string
  ss_ClusterIP :: string

text \<open>A policy for the pods with the label \<open>app\<close>: the direction, the label of the peers, and the port.\<close>

record SctpPolicy =
  np_Name :: string
  np_Namespace :: string
  np_App :: string
  np_Type :: string
  np_PeerApp :: string
  np_Protocol :: string
  np_Port :: int

record 'w sctpApi =
  sa_podList :: "'w \<Rightarrow> string \<Rightarrow> string \<Rightarrow> TestPod list res"
  sa_createService :: "'w \<Rightarrow> SctpService \<Rightarrow> 'w \<times> SctpService res"
  sa_createPolicy :: "'w \<Rightarrow> SctpPolicy \<Rightarrow> 'w \<times> unit res"

definition nodePod :: "(string \<Rightarrow> string) \<Rightarrow> string \<Rightarrow> string \<Rightarrow> string \<Rightarrow> string \<Rightarrow> string list \<Rightarrow> string list \<Rightarrow> TestPod res" where
  "nodePod getenv name node app namespace cmd args =
     bind_res (imageFor getenv TestUtils) (\<lambda>img.
       Inr ((plainPod name namespace [(plainContainer name img cmd)\<lparr>pc_Args := args\<rparr>])
         \<lparr>tp_Labels := Some [(''app'', app)], tp_RestartPolicy := ''Never'', tp_NodeSelector := [(hostnameLabel, node)]\<rparr>))"

definition sctpTestPod :: "(string \<Rightarrow> string) \<Rightarrow> string \<Rightarrow> string \<Rightarrow> string \<Rightarrow> string \<Rightarrow> string list \<Rightarrow> TestPod res" where
  "sctpTestPod getenv name node app namespace args = nodePod getenv name node app namespace [''/usr/bin/sctptest''] args"

definition jobForNode :: "(string \<Rightarrow> string) \<Rightarrow> nsVars \<Rightarrow> string \<Rightarrow> string \<Rightarrow> string \<Rightarrow> string list \<Rightarrow> string list \<Rightarrow> TestPod res" where
  "jobForNode getenv V name node app cmd args = nodePod getenv name node app (nv_SCTPTest V) cmd args"

definition madePod :: "('l, 'w) podApi \<Rightarrow> 'w \<Rightarrow> TestPod \<Rightarrow> 'w \<times> TestPod res" where
  "madePod A w pod = (case pa_create A w pod of (w1, pod1, Some e) \<Rightarrow> (w1, Inl (Error e)) | (w1, pod1, None) \<Rightarrow> (w1, Inr pod1))"

definition gotPod :: "('l, 'w) podApi \<Rightarrow> 'w \<Rightarrow> string \<Rightarrow> string \<Rightarrow> TestPod res" where
  "gotPod A w namespace name = asserted (map_sum apiFailure id (pa_get A w namespace name))"

definition onNetworks :: "string list \<Rightarrow> TestPod \<Rightarrow> TestPod" where
  "onNetworks networks pod =
     (if networks = [] then pod else pod\<lparr>tp_Annotations := [(networksAnnotation, Join networks '','')]\<rparr>)"

definition phaseIs :: "('l, 'w) podApi \<Rightarrow> string \<Rightarrow> string \<Rightarrow> string \<Rightarrow> 'w \<Rightarrow> bool res" where
  "phaseIs A namespace name phase w = bind_res (gotPod A w namespace name) (\<lambda>p. Inr (tp_Phase p = phase))"

text \<open>The pod is fetched in the same state of the cluster in which the wait ended.\<close>

definition startServerPod :: "('l, 'w) podApi \<Rightarrow> (string \<Rightarrow> string) \<Rightarrow> bool \<Rightarrow> string \<Rightarrow> string \<Rightarrow> string list \<Rightarrow> 'w \<Rightarrow> 'w \<times> TestPod res" where
  "startServerPod A getenv isSingleNode node namespace networks w =
     (case sctpTestPod getenv ''testsctp-server'' node ''sctpserver'' namespace [''-ip'', ''0.0.0.0'', ''-port'', ''30101'', ''-server''] of
        Inl e \<Rightarrow> (w, Inl e)
      | Inr pod0 \<Rightarrow>
          (case onFirst pod0 (\<lambda>c. c\<lparr>pc_Ports := [(''sctpport'', ''SCTP'', 30101)]\<rparr>) of
             Inl e \<Rightarrow> (w, Inl e)
           | Inr pod \<Rightarrow>
               expectOk (madePod A w (onNetworks networks pod)) (\<lambda>w serverPod.
               expectOk (Eventually (pa_tick A) 1 (if isSingleNode then 300 else 180) (phaseIs A namespace (tp_Name serverPod) ''Running'') w)
                 (\<lambda>w _. (w, gotPod A w namespace (tp_Name serverPod))))))"

text \<open>The check pods: errors of their creation are dropped.\<close>

definition checkScript :: string where
  "checkScript = ''set -x; x='' @ inQuotes ''$(checksctp 2>&1)'' @ ''; echo '' @ inQuotes ''$x'' @ '' ; if [ '' @ inQuotes ''$x'' @ '' = '' @
     inQuotes ''SCTP supported'' @ '' ]; then echo '' @ inQuotes ''succeeded'' @ ''; exit 0; else echo '' @ inQuotes ''failed'' @ ''; exit 1; fi''"

fun createChecks :: "('l, 'w) podApi \<Rightarrow> (string \<Rightarrow> string) \<Rightarrow> nsVars \<Rightarrow> 'w \<Rightarrow> Node list \<Rightarrow> 'w \<times> unit res" where
  "createChecks A getenv V w [] = (w, Inr ())"
| "createChecks A getenv V w (n # ns) =
     (case jobForNode getenv V ''testsctp-check'' (hostOf n) ''checksctp'' [''/bin/bash'', ''-c''] [checkScript] of
        Inl e \<Rightarrow> (w, Inl e)
      | Inr job \<Rightarrow> createChecks A getenv V (fst (pa_create A w job)) ns)"

definition allSucceeded :: "'w sctpApi \<Rightarrow> string \<Rightarrow> 'w \<Rightarrow> bool res" where
  "allSucceeded S namespace w =
     bind_res (asserted (sa_podList S w namespace ''app=checksctp'')) (\<lambda>pods. Inr (list_all (\<lambda>p. tp_Phase p = ''Succeeded'') pods))"

definition checkForSctpReady :: "'w clusterApi \<Rightarrow> ('l, 'w) podApi \<Rightarrow> 'w sctpApi \<Rightarrow> (string \<Rightarrow> string) \<Rightarrow> nsVars \<Rightarrow> string \<Rightarrow> string \<Rightarrow>
    'w \<Rightarrow> 'w \<times> unit res" where
  "checkForSctpReady C A S getenv V NodesSelector sctpNodeSelector w =
     (case getSCTPNodes C NodesSelector w sctpNodeSelector of
        Inl e \<Rightarrow> (w, Inl e)
      | Inr filtered \<Rightarrow>
          expectOk (createChecks A getenv V w filtered) (\<lambda>w _. Eventually (pa_tick A) 10 600 (allSucceeded S (nv_SCTPTest V)) w))"

text \<open>\<^verbatim>\<open>Consistently\<close> asks as often as \<^verbatim>\<open>Eventually\<close>; the first failure ends it.\<close>

fun consistentlyLoop :: "('w \<Rightarrow> 'w) \<Rightarrow> ('w \<Rightarrow> bool res) \<Rightarrow> nat \<Rightarrow> 'w \<Rightarrow> 'w \<times> unit res" where
  "consistentlyLoop tick f n w =
     (case f w of
        Inl e \<Rightarrow> (w, Inl e)
      | Inr False \<Rightarrow> (w, Inl (Panic ''Failed''))
      | Inr True \<Rightarrow> (case n of 0 \<Rightarrow> (w, Inr ()) | Suc n' \<Rightarrow> consistentlyLoop tick f n' (tick w)))"

definition Consistently :: "(nat \<Rightarrow> 'w \<Rightarrow> 'w) \<Rightarrow> nat \<Rightarrow> nat \<Rightarrow> ('w \<Rightarrow> bool res) \<Rightarrow> 'w \<Rightarrow> 'w \<times> unit res" where
  "Consistently tick interval timeout f w = consistentlyLoop (tick interval) f ((timeout - 1) div interval) w"

definition testClientServerConnection :: "('l, 'w) podApi \<Rightarrow> (string \<Rightarrow> string) \<Rightarrow> bool \<Rightarrow> string \<Rightarrow> string \<Rightarrow> int \<Rightarrow> string \<Rightarrow> string \<Rightarrow>
    bool \<Rightarrow> string list \<Rightarrow> 'w \<Rightarrow> 'w \<times> unit res" where
  "testClientServerConnection A getenv isSingleNode namespace destIP port clientNode serverPodName shouldSucceed networks w =
     (case sctpTestPod getenv ''testsctp-client'' clientNode ''sctpclient'' namespace
         [''-ip'', destIP, ''-port'', Itoa port, ''-lport'', ''30102''] of
        Inl e \<Rightarrow> (w, Inl e)
      | Inr clientPod \<Rightarrow>
          expectOk (madePod A w (onNetworks networks clientPod)) (\<lambda>w _.
            if shouldSucceed
            then Eventually (pa_tick A) 1 (if isSingleNode then 300 else 60) (phaseIs A namespace serverPodName ''Succeeded'') w
            else Consistently (pa_tick A) 1 30 (phaseIs A namespace serverPodName ''Running'') w))"

definition createSctpService :: "'w sctpApi \<Rightarrow> string \<Rightarrow> 'w \<Rightarrow> 'w \<times> SctpService res" where
  "createSctpService S namespace w =
     expectOk (sa_createService S w
       \<lparr>ss_Name = ''testsctp-service'', ss_Namespace = namespace, ss_Selector = [(''app'', ''sctpserver'')],
        ss_Ports = [(''SCTP'', 30101, 30101, 30101)], ss_Type = ''NodePort'', ss_ClusterIP = []\<rparr>) (\<lambda>w svc. (w, Inr svc))"

definition setupIngress :: "'w sctpApi \<Rightarrow> string \<Rightarrow> string \<Rightarrow> string \<Rightarrow> int \<Rightarrow> 'w \<Rightarrow> 'w \<times> unit res" where
  "setupIngress S namespace fromPod toPod port w =
     sa_createPolicy S w \<lparr>np_Name = ''testsctp-block-ingress'', np_Namespace = namespace, np_App = toPod, np_Type = ''Ingress'',
       np_PeerApp = fromPod, np_Protocol = ''SCTP'', np_Port = port\<rparr>"

definition setupEgress :: "'w sctpApi \<Rightarrow> string \<Rightarrow> string \<Rightarrow> string \<Rightarrow> int \<Rightarrow> 'w \<Rightarrow> 'w \<times> unit res" where
  "setupEgress S namespace fromPod toPod port w =
     sa_createPolicy S w \<lparr>np_Name = ''testsctp-block-egress'', np_Namespace = namespace, np_App = fromPod, np_Type = ''Egress'',
       np_PeerApp = toPod, np_Protocol = ''SCTP'', np_Port = port\<rparr>"

section \<open>What the functions find\<close>

lemma pathsFound_eq: "pathsFound (b, l) paths = (b \<or> sctpBlacklistPath \<in> set paths, l \<or> sctpLoadPath \<in> set paths)"
  by (induction paths arbitrary: b l) auto

lemma enablesSCTP_exact:
  "enablesSCTP decode mc = Inr True \<longleftrightarrow>
     (\<exists>raw paths. mc_Raw mc = Some raw \<and> decode raw = Inr paths \<and> sctpBlacklistPath \<in> set paths \<and> sctpLoadPath \<in> set paths)"
  by (auto simp: enablesSCTP_def pathsFound_eq split: option.splits sum.splits)

text \<open>Both searches of a node selector agree when the pools that target the label have node labels.\<close>

lemma targets_iff: "targets mcLabel (exprs, ls) \<longleftrightarrow> (\<exists>vs\<in>set exprs. mcLabel \<in> set vs) \<or> mcLabel \<in> snd ` set ls"
  by (simp add: targets_def)

lemma sctpPool_agrees:
  assumes "\<forall>p\<in>set mcps. \<exists>sel. mp_MachineConfigSelector p = Some sel \<and> (targets mcLabel sel \<longrightarrow> (\<exists>k v ls. mp_NodeSelector p = Some ((k, v) # ls)))"
  shows "sctpPool mcLabel mcps = Inr s \<longleftrightarrow>
    bind_res (bind_res (findPool mcLabel mcps) firstNodeLabel) (\<lambda>sel. case sel of None \<Rightarrow> Inl (noPool mcLabel) | Some s \<Rightarrow> Inr s) = Inr s"
  using assms
proof (induction mcps)
  case (Cons p ps)
  then obtain exprs ls where sel: "mp_MachineConfigSelector p = Some (exprs, ls)"
    and ns: "targets mcLabel (exprs, ls) \<longrightarrow> (\<exists>k v ls. mp_NodeSelector p = Some ((k, v) # ls))" by fastforce
  show ?case
  proof (cases "targets mcLabel (exprs, ls)")
    case True
    with ns show ?thesis using sel by (auto simp: firstNodeLabel_def targets_iff)
  next
    case False
    with Cons sel show ?thesis by (simp add: targets_iff)
  qed
qed (simp add: noSelector_def)

text \<open>A machine configuration that the search passes over.\<close>

definition passedOver :: "(string \<Rightarrow> string + string list) \<Rightarrow> (string \<Rightarrow> string res) \<Rightarrow> MachineConfig \<Rightarrow> bool" where
  "passedOver decode selectorOf mc \<longleftrightarrow>
     enablesSCTP decode mc = Inr False \<or>
     enablesSCTP decode mc = Inr True \<and>
       (case mget (mc_Labels mc) roleLabel of None \<Rightarrow> True | Some l \<Rightarrow> (\<exists>e. selectorOf l = Inl (Error e)))"

definition chosen :: "(string \<Rightarrow> string + string list) \<Rightarrow> (string \<Rightarrow> string res) \<Rightarrow> MachineConfig \<Rightarrow> string \<Rightarrow> bool" where
  "chosen decode selectorOf mc s \<longleftrightarrow>
     enablesSCTP decode mc = Inr True \<and> (\<exists>l. mget (mc_Labels mc) roleLabel = Some l \<and> selectorOf l = Inr s)"

lemma sctpConfig_step:
  "sctpConfig decode selectorOf (mc # mcs) = Inr s \<longleftrightarrow>
     chosen decode selectorOf mc s \<or> passedOver decode selectorOf mc \<and> sctpConfig decode selectorOf mcs = Inr s"
  by (cases "enablesSCTP decode mc") (auto simp: chosen_def passedOver_def split: option.splits sum.splits go_error.splits)

text \<open>The first element with a property after elements with another one.\<close>

lemma first_Cons:
  "(\<exists>pre m post. x # xs = pre @ m # post \<and> P m \<and> list_all Q pre) \<longleftrightarrow> P x \<or> Q x \<and> (\<exists>pre m post. xs = pre @ m # post \<and> P m \<and> list_all Q pre)"
  (is "?l \<longleftrightarrow> P x \<or> Q x \<and> ?r")
proof
  assume ?l
  then obtain pre m post where "x # xs = pre @ m # post" "P m" "list_all Q pre" by blast
  then show "P x \<or> Q x \<and> ?r" by (cases pre) auto
next
  assume "P x \<or> Q x \<and> ?r"
  then show ?l
  proof
    assume "P x"
    then show ?l by (intro exI [where x = "[]"] exI [where x = x] exI [where x = xs]) simp
  next
    assume "Q x \<and> ?r"
    then obtain pre m post where "Q x" "xs = pre @ m # post" "P m" "list_all Q pre" by blast
    then show ?l by (intro exI [where x = "x # pre"] exI [where x = m] exI [where x = post]) simp
  qed
qed

lemma sctpConfig_finds:
  "sctpConfig decode selectorOf mcs = Inr s \<longleftrightarrow>
     (\<exists>pre mc post. mcs = pre @ mc # post \<and> chosen decode selectorOf mc s \<and> list_all (passedOver decode selectorOf) pre)"
  by (induction mcs) (simp_all only: sctpConfig_step first_Cons, simp)

lemma findSCTPNodeSelector_first:
  "findSCTPNodeSelector decode C mcsOf w = Inr s \<longleftrightarrow>
     (\<exists>pre mc post. mcsOf w = Inr (pre @ mc # post) \<and> chosen decode (findSCTPNodeSelectorByMCLabel C w) mc s \<and>
        list_all (passedOver decode (findSCTPNodeSelectorByMCLabel C w)) pre)"
proof (cases "mcsOf w")
  case (Inl e)
  then show ?thesis by (cases e) (simp_all add: findSCTPNodeSelector_def asserted_def)
next
  case (Inr mcs)
  then show ?thesis by (simp add: findSCTPNodeSelector_def asserted_def sctpConfig_finds)
qed

text \<open>When no check pod can be created and there is none, the check passes.\<close>

lemma createChecks_same:
  assumes "\<And>pod. fst (pa_create A w pod) = w"
  shows "fst (createChecks A getenv V w ns) = w"
  using assms by (induction ns) (auto split: sum.splits)

lemma checkForSctpReady_vacuous:
  assumes "getSCTPNodes C NodesSelector w sel = Inr nodes" and "\<And>pod. fst (pa_create A w pod) = w"
    and "snd (createChecks A getenv V w nodes) = Inr ()" and "sa_podList S w (nv_SCTPTest V) ''app=checksctp'' = Inr []"
  shows "checkForSctpReady C A S getenv V NodesSelector sel w = (w, Inr ())"
proof -
  have "createChecks A getenv V w nodes = (w, Inr ())"
    using assms(3) createChecks_same [OF assms(2), of getenv V nodes] by (simp add: prod_eq_iff)
  moreover have "allSucceeded S (nv_SCTPTest V) w = Inr True" using assms(4) by (simp add: allSucceeded_def asserted_def)
  then have "eventuallyLoop tick (allSucceeded S (nv_SCTPTest V)) n w = (w, Inr ())" for tick n
    by (cases n) auto
  ultimately show ?thesis using assms(1) by (simp add: checkForSctpReady_def expectOk_def Eventually_def)
qed

end
