(* ===== verification/FecDevices.thy ===== *)
theory FecDevices
  imports SriovNetworks
begin

text \<open>
  The FEC accelerator tests (\<^verbatim>\<open>cnf-tests/testsuites/e2esuite/fec/fec.go\<close>): choosing a node with an ACC100 card, configuring the card,
  waiting for its resources, and removing the configuration.

  The API server is \<open>fecApi\<close> beside the API for nodes. \<^verbatim>\<open>Skip\<close> leaves the test as a panic does.
\<close>

section \<open>The card\<close>

record queueGroup =
  qg_AqDepthLog2 :: int
  qg_NumAqsPerGroups :: int
  qg_NumQueueGroups :: int

record acc100Config =
  bb_Downlink4G :: queueGroup
  bb_Downlink5G :: queueGroup
  bb_Uplink4G :: queueGroup
  bb_Uplink5G :: queueGroup
  bb_PFMode :: bool
  bb_MaxQueueSize :: int
  bb_NumVfBundles :: int

record FecCluster =
  fec_Name :: string
  fec_Namespace :: string
  fec_Priority :: int
  fec_NodeSelector :: "(string, string) gomap"
  fec_PCIAddress :: string
  fec_PFDriver :: string
  fec_VFAmount :: int
  fec_VFDriver :: string
  fec_ACC100 :: acc100Config
  fec_DrainSkip :: bool

text \<open>An error of the cluster configuration says whether it means that there is none: not found, no match, or failed discovery.\<close>

record 'w fecApi =
  fa_nodes :: "'w \<Rightarrow> string \<Rightarrow> (string \<times> Accelerator list) list res"
  fa_node :: "'w \<Rightarrow> string \<Rightarrow> string \<Rightarrow> Accelerator list res"
  fa_create :: "'w \<Rightarrow> FecCluster \<Rightarrow> 'w \<times> unit res"
  fa_cluster :: "'w \<Rightarrow> string \<Rightarrow> string \<Rightarrow> (bool \<times> string) + unit"
  fa_delete :: "'w \<Rightarrow> string \<Rightarrow> string \<Rightarrow> 'w \<times> unit res"
  fa_tick :: "nat \<Rightarrow> 'w \<Rightarrow> 'w"

definition IntelOperator :: string where "IntelOperator = ''vran-acceleration-operators''"
definition sriovFecClusterConfigName :: string where "sriovFecClusterConfigName = ''config''"
definition acc100DeviceID :: string where "acc100DeviceID = ''0d5c''"
definition acc100ResourceName :: string where "acc100ResourceName = ''intel.com/intel_fec_acc100''"

text \<open>A node is listed once for every card.\<close>

definition getSriovFecNodes :: "'w fecApi \<Rightarrow> 'w \<Rightarrow> string \<Rightarrow> string list res" where
  "getSriovFecNodes A w devID =
     bind_res (fa_nodes A w IntelOperator) (\<lambda>items.
       Inr (concat (map (\<lambda>(name, accs). map (\<lambda>_. name) (filter (\<lambda>a. ac_DeviceID a = devID) accs)) items)))"

definition getAcc100PciFromNode :: "'w fecApi \<Rightarrow> 'w \<Rightarrow> string \<Rightarrow> string res" where
  "getAcc100PciFromNode A w nodeName =
     bind_res (fa_node A w nodeName IntelOperator) (\<lambda>accs.
       case find (\<lambda>a. ac_DeviceID a = acc100DeviceID) accs of
         None \<Rightarrow> Inl (Error (''acc100 card not found under node '' @ nodeName))
       | Some a \<Rightarrow> Inr (ac_PCIAddress a))"

definition isSecureBoot :: "'w clusterApi \<Rightarrow> 'w \<Rightarrow> string \<Rightarrow> 'w \<times> bool res" where
  "isSecureBoot C w nodeName =
     (case ca_getNode C w nodeName of
        Inl e \<Rightarrow> (w, Inl e)
      | Inr node \<Rightarrow>
          (case ExecCommandOnMachineConfigDaemon C w node [''cat'', ''/rootfs/sys/kernel/security/lockdown''] of
             (w1, stdout, Some (_, e)) \<Rightarrow> (w1, Inl (Error e))
           | (w1, stdout, None) \<Rightarrow> (w1, Inr (Contains stdout ''[integrity]'' \<or> Contains stdout ''[confidentiality]''))))"

definition getAcc100Device :: "'w clusterApi \<Rightarrow> 'w fecApi \<Rightarrow> string \<Rightarrow> 'w \<Rightarrow> 'w \<times> (string \<times> string \<times> bool) res" where
  "getAcc100Device C A NodesSelector w =
     (case getSriovFecNodes A w acc100DeviceID of
        Inl e \<Rightarrow> (w, Inl e)
      | Inr nodesWithAcc100 \<Rightarrow>
          if nodesWithAcc100 = [] then (w, Inl (Panic ''0 nodes with ACC100 accelerator found''))
          else case MatchingOptionalSelectorByName C w NodesSelector nodesWithAcc100 of
            Inl e \<Rightarrow> (w, Inl e)
          | Inr [] \<Rightarrow> (w, Inl indexZero)
          | Inr (n # _) \<Rightarrow>
              (case getAcc100PciFromNode A w n of
                 Inl e \<Rightarrow> (w, Inl e)
               | Inr pci \<Rightarrow>
                   (case isSecureBoot C w n of
                      (w1, Inl e) \<Rightarrow> (w1, Inl e)
                    | (w1, Inr isSecureBootEnabled) \<Rightarrow> (w1, Inr (n, pci, isSecureBootEnabled)))))"

section \<open>Its configuration\<close>

definition queueGroupConfig :: queueGroup where
  "queueGroupConfig = \<lparr>qg_AqDepthLog2 = 4, qg_NumAqsPerGroups = 16, qg_NumQueueGroups = 2\<rparr>"

definition fecClusterObject :: "string \<Rightarrow> string \<Rightarrow> int \<Rightarrow> bool \<Rightarrow> bool \<Rightarrow> FecCluster" where
  "fecClusterObject nodeName pciAddress numVfs isSingleNode isSecureBootEnabled =
     \<lparr>fec_Name = sriovFecClusterConfigName, fec_Namespace = IntelOperator, fec_Priority = 1, fec_NodeSelector = [(hostnameLabel, nodeName)],
      fec_PCIAddress = pciAddress, fec_PFDriver = (if isSecureBootEnabled then ''vfio-pci'' else ''pci-pf-stub''), fec_VFAmount = numVfs,
      fec_VFDriver = ''vfio-pci'',
      fec_ACC100 = \<lparr>bb_Downlink4G = queueGroupConfig, bb_Downlink5G = queueGroupConfig, bb_Uplink4G = queueGroupConfig,
        bb_Uplink5G = queueGroupConfig, bb_PFMode = False, bb_MaxQueueSize = 1024, bb_NumVfBundles = numVfs\<rparr>,
      fec_DrainSkip = isSingleNode\<rparr>"

definition createSriovFecClusterObject :: "'w fecApi \<Rightarrow> string \<Rightarrow> string \<Rightarrow> int \<Rightarrow> bool \<Rightarrow> bool \<Rightarrow> 'w \<Rightarrow> 'w \<times> unit res" where
  "createSriovFecClusterObject A nodeName pciAddress numVfs isSingleNode isSecureBootEnabled w =
     fa_create A w (fecClusterObject nodeName pciAddress numVfs isSingleNode isSecureBootEnabled)"

definition CleanFec :: "'w fecApi \<Rightarrow> bool \<Rightarrow> 'w \<Rightarrow> 'w \<times> unit res" where
  "CleanFec A enabled w =
     (if enabled then (w, Inr ())
      else case fa_cluster A w sriovFecClusterConfigName IntelOperator of
        Inl (absent, e) \<Rightarrow> if absent then (w, Inr ()) else (w, Inl (Panic (''Unexpected error: '' @ e)))
      | Inr _ \<Rightarrow> expectOk (fa_delete A w sriovFecClusterConfigName IntelOperator) (\<lambda>w _. (w, Inr ())))"

section \<open>The test\<close>

text \<open>The amount of a resource; what is no 64-bit number counts as zero.\<close>

definition allocatable :: "Node \<Rightarrow> string \<Rightarrow> int" where
  "allocatable n name =
     (case mget (nd_Allocatable n) name of None \<Rightarrow> 0 | Some q \<Rightarrow> (case qt_int64 q of None \<Rightarrow> 0 | Some i \<Rightarrow> i))"

definition showsResources :: "'w clusterApi \<Rightarrow> string \<Rightarrow> int \<Rightarrow> 'w \<Rightarrow> bool res" where
  "showsResources C nodeName numVfs w =
     (case ca_getNode C w nodeName of
        Inl e \<Rightarrow> Inl (Panic ''Unexpected error'')
      | Inr n \<Rightarrow> Inr (allocatable n acc100ResourceName = numVfs))"

definition fecTest :: "'w clusterApi \<Rightarrow> 'w fecApi \<Rightarrow> string \<Rightarrow> bool \<Rightarrow> 'w \<Rightarrow> 'w \<times> unit res" where
  "fecTest C A NodesSelector enabled w =
     (if enabled then (w, Inl (Panic ''sriov-fec test doesn't support discovery mode''))
      else
        expectOk (getAcc100Device C A NodesSelector w) (\<lambda>w (nodeName, pciAddress, isSecureBootEnabled).
        expectOk (w, IsSingleNodeCluster C w) (\<lambda>w isSingleNode.
        expectOk (createSriovFecClusterObject A nodeName pciAddress 2 isSingleNode isSecureBootEnabled w) (\<lambda>w _.
          Eventually (fa_tick A) 1 600 (showsResources C nodeName 2) w))))"

section \<open>The chosen card\<close>

definition isAcc100 :: "Accelerator \<Rightarrow> bool" where "isAcc100 a \<longleftrightarrow> ac_DeviceID a = acc100DeviceID"

lemma getSriovFecNodes_has:
  assumes "getSriovFecNodes A w acc100DeviceID = Inr ns" and "n \<in> set ns"
  shows "\<exists>items accs. fa_nodes A w IntelOperator = Inr items \<and> (n, accs) \<in> set items \<and> list_ex isAcc100 accs"
  using assms by (fastforce simp: getSriovFecNodes_def bind_res_Inr_iff list_ex_iff isAcc100_def)

lemma getAcc100PciFromNode_has:
  assumes "getAcc100PciFromNode A w n = Inr pci"
  shows "\<exists>accs a. fa_node A w n IntelOperator = Inr accs \<and> a \<in> set accs \<and> isAcc100 a \<and> ac_PCIAddress a = pci"
proof -
  obtain accs a where "fa_node A w n IntelOperator = Inr accs" "find (\<lambda>a. ac_DeviceID a = acc100DeviceID) accs = Some a" "ac_PCIAddress a = pci"
    using assms by (auto simp: getAcc100PciFromNode_def bind_res_Inr_iff split: option.splits)
  then show ?thesis by (auto simp: find_Some_iff isAcc100_def intro!: exI [of _ accs] exI [of _ a])
qed

lemma MatchingOptionalSelectorByName_subset:
  assumes "MatchingOptionalSelectorByName C w sel ns = Inr found"
  shows "set found \<subseteq> set ns"
  using assms by (auto simp: MatchingOptionalSelectorByName_def MatchingCustomSelectorByName_def matchNodes_def bind_res_Inr_iff Let_def
      split: if_splits)

text \<open>The selector of the configuration, as the operator's matcher reads it, selects the card that was found.\<close>

definition selectorOf :: "FecCluster \<Rightarrow> Accelerator" where
  "selectorOf c = \<lparr>ac_VendorID = [], ac_DeviceID = [], ac_PCIAddress = fec_PCIAddress c, ac_PFDriver = [], ac_MaxVFs = 0\<rparr>"

lemma getAcc100Device_selects:
  assumes "getAcc100Device C A sel w = (w', Inr (n, pci, sb))"
  shows "(\<exists>items accs. fa_nodes A w IntelOperator = Inr items \<and> (n, accs) \<in> set items \<and> list_ex isAcc100 accs) \<and>
    (\<exists>accs a. fa_node A w n IntelOperator = Inr accs \<and> a \<in> set accs \<and> isAcc100 a \<and>
       acceleratorMatches (selectorOf (fecClusterObject n pci vfs single sb)) a)"
proof -
  obtain ns found where "getSriovFecNodes A w acc100DeviceID = Inr ns" "MatchingOptionalSelectorByName C w sel ns = Inr (n # found)"
    "getAcc100PciFromNode A w n = Inr pci"
    using assms by (auto simp: getAcc100Device_def split: sum.splits if_splits list.splits prod.splits)
  moreover from this have "n \<in> set ns" using MatchingOptionalSelectorByName_subset by fastforce
  ultimately show ?thesis
    using getSriovFecNodes_has [of A w ns n] getAcc100PciFromNode_has [of A w n pci]
    by (auto simp: acceleratorMatches_def selectorOf_def fecClusterObject_def)
qed

end
