(* ===== verification/ClusterValidation.thy ===== *)
theory ClusterValidation
  imports SctpTests FecDevices
begin

text \<open>
  The validation suite (\<^verbatim>\<open>cnf-tests/testsuites/validationsuite/cluster/validation.go\<close>): every test of the suite is a function of the
  cluster that gives its result and leaves the cluster as it is after the waits of the test.

  Decoding of ignition configurations is the parameter \<open>va_decode\<close>, the API server the other fields of \<open>valApi\<close>. Durations are
  in nanoseconds.
\<close>

section \<open>The cluster and the results\<close>

record ValPool =
  vp_Name :: string
  vp_MachineCount :: int
  vp_ReadyMachineCount :: int
  vp_NodeSelector :: "(string, string) gomap option"
  vp_Selector :: "((string \<times> string list) list \<times> (string, string) gomap) option"
  vp_Conditions :: "(string \<times> string) list"
  vp_Sources :: "string list"

record ignition =
  ig_Files :: "string list"
  ig_Units :: "string list"

text \<open>Of deployments the replicas and the ready ones, of daemon sets the desired number and the ready one, of pods name and phase.\<close>

record 'w valApi =
  va_pools :: "'w \<Rightarrow> ValPool list res"
  va_pool :: "'w \<Rightarrow> string \<Rightarrow> ValPool res"
  va_configs :: "'w \<Rightarrow> MachineConfig list res"
  va_decode :: "string \<Rightarrow> string + ignition"
  va_namespace :: "'w \<Rightarrow> string \<Rightarrow> apiError option"
  va_crd :: "'w \<Rightarrow> string \<Rightarrow> apiError option"
  va_deployment :: "'w \<Rightarrow> string \<Rightarrow> string \<Rightarrow> apiError + int \<times> int"
  va_daemonset :: "'w \<Rightarrow> string \<Rightarrow> string \<Rightarrow> apiError + int \<times> int"
  va_podList :: "'w \<Rightarrow> string \<Rightarrow> string \<Rightarrow> apiError + (string \<times> string) list"
  va_nodeConditions :: "Node \<Rightarrow> (string \<times> string) list"
  va_operatorConfig :: "'w \<Rightarrow> string \<Rightarrow> apiError + bool \<times> bool"
  va_imageTags :: "'w \<Rightarrow> apiError + nat"
  va_nfds :: "'w \<Rightarrow> apiError + nat"
  va_clusterOperator :: "'w \<Rightarrow> string \<Rightarrow> apiError + (string \<times> string) list"
  va_tick :: "nat \<Rightarrow> 'w \<Rightarrow> 'w"

datatype testResult = Passed | Failed | Skipped string

text \<open>A test that never ends is \<open>None\<close>.\<close>

type_synonym 'w test = "'w \<Rightarrow> ('w \<times> testResult) option"

definition result :: "bool \<Rightarrow> testResult" where "result b = (if b then Passed else Failed)"

definition asking :: "('w \<Rightarrow> bool) \<Rightarrow> 'w test" where "asking f w = Some (w, result (f w))"

text \<open>The result of steps that may fail: every error or panic fails the test.\<close>

definition running :: "('w \<Rightarrow> ('w, 'a) effect) \<Rightarrow> 'w test" where
  "running f w = (case f w of None \<Rightarrow> None | Some (w1, Inl e) \<Rightarrow> Some (w1, Failed) | Some (w1, Inr x) \<Rightarrow> Some (w1, Passed))"

section \<open>Settings\<close>

definition getTimeDurationFromEnv :: "(string \<Rightarrow> string option) \<Rightarrow> string \<Rightarrow> int \<Rightarrow> int option" where
  "getTimeDurationFromEnv lookup envVar fallback = (case lookup envVar of None \<Rightarrow> Some fallback | Some v \<Rightarrow> ParseDuration v)"

definition second :: int where "second = 1000000000"

record valSettings =
  vs_Selector :: string
  vs_Timeout :: int
  vs_Interval :: int

text \<open>A duration that cannot be read is a panic of the program.\<close>

definition initValidation :: "(string \<Rightarrow> string option) \<Rightarrow> valSettings option" where
  "initValidation lookup =
     (let role = (case lookup ''ROLE_WORKER_CNF'' of None \<Rightarrow> [] | Some v \<Rightarrow> v) in
      case getTimeDurationFromEnv lookup ''MCP_UPDATE_TIMEOUT'' (30 * 60 * second) of
        None \<Rightarrow> None
      | Some timeout \<Rightarrow>
          (case getTimeDurationFromEnv lookup ''MCP_UPDATE_INTERVAL'' (30 * second) of
             None \<Rightarrow> None
           | Some interval \<Rightarrow>
               Some \<lparr>vs_Selector = ''node-role.kubernetes.io/'' @ (if role = [] then ''worker-cnf'' else role),
                 vs_Timeout = timeout, vs_Interval = interval\<rparr>))"

section \<open>Machine configurations and their pools\<close>

fun firstMatch :: "(string \<Rightarrow> string + ignition) \<Rightarrow> (ignition \<Rightarrow> MachineConfig \<Rightarrow> bool) \<Rightarrow> MachineConfig list \<Rightarrow> MachineConfig option res" where
  "firstMatch decode match [] = Inr None"
| "firstMatch decode match (mc # mcs) =
     (case mc_Raw mc of
        None \<Rightarrow> firstMatch decode match mcs
      | Some raw \<Rightarrow>
          (case decode raw of
             Inl e \<Rightarrow> Inl (Panic (''Failed to unmarshal raw config for '' @ mc_Name mc))
           | Inr ignitionConfig \<Rightarrow> if match ignitionConfig mc then Inr (Some mc) else firstMatch decode match mcs))"

definition findMatchingMachineConfig :: "'w valApi \<Rightarrow> (ignition \<Rightarrow> MachineConfig \<Rightarrow> bool) \<Rightarrow> 'w \<Rightarrow> MachineConfig option res" where
  "findMatchingMachineConfig V match w = bind_res (asserted (va_configs V w)) (firstMatch (va_decode V) match)"

text \<open>The operator of an expression and the keys of the labels are not looked at.\<close>

definition poolSelects :: "string \<Rightarrow> string \<Rightarrow> ValPool \<Rightarrow> bool" where
  "poolSelects lbl name mcpItem \<longleftrightarrow>
     (case vp_Selector mcpItem of
        None \<Rightarrow> False
      | Some (exprs, ls) \<Rightarrow> list_ex (\<lambda>(k, vs). k = lbl \<and> name \<in> set vs) exprs \<or> name \<in> set (map snd ls))"

definition findMachineConfigPool :: "'w valApi \<Rightarrow> string \<Rightarrow> string \<Rightarrow> 'w \<Rightarrow> ValPool option res" where
  "findMachineConfigPool V lbl name w = bind_res (asserted (va_pools V w)) (\<lambda>items. Inr (find (poolSelects lbl name) items))"

text \<open>
  \<^verbatim>\<open>wait.Poll\<close> with a condition that may fail: a check after every interval before the timeout, and one at the timeout. A timeout of
  zero never ends; a ticker needs a positive interval.
\<close>

fun pollChecks :: "(nat \<Rightarrow> 'w \<Rightarrow> 'w) \<Rightarrow> ('w \<Rightarrow> bool res) \<Rightarrow> nat \<Rightarrow> nat list \<Rightarrow> 'w \<Rightarrow> 'w \<times> unit res" where
  "pollChecks tick f rest [] w =
     (let w' = tick rest w in case f w' of Inl e \<Rightarrow> (w', Inl e) | Inr True \<Rightarrow> (w', Inr ()) | Inr False \<Rightarrow> (w', Inl timedOut))"
| "pollChecks tick f rest (i # is) w =
     (let w' = tick i w in case f w' of Inl e \<Rightarrow> (w', Inl e) | Inr True \<Rightarrow> (w', Inr ()) | Inr False \<Rightarrow> pollChecks tick f rest is w')"

partial_function (option) pollEndless :: "('w \<Rightarrow> 'w) \<Rightarrow> ('w \<Rightarrow> bool res) \<Rightarrow> 'w \<Rightarrow> ('w, unit) effect" where
  "pollEndless tick f w =
     (case f (tick w) of
        Inl e \<Rightarrow> Some (tick w, Inl e)
      | Inr b \<Rightarrow> if b then Some (tick w, Inr ()) else pollEndless tick f (tick w))"

definition wholeIntervals :: "int \<Rightarrow> int \<Rightarrow> nat" where
  "wholeIntervals interval timeout = nat ((timeout - 1) div interval)"

definition pollFallible :: "(nat \<Rightarrow> 'w \<Rightarrow> 'w) \<Rightarrow> int \<Rightarrow> int \<Rightarrow> ('w \<Rightarrow> bool res) \<Rightarrow> 'w \<Rightarrow> ('w, unit) effect" where
  "pollFallible tick interval timeout f w =
     (if interval \<le> 0 then Some (w, Inl (Panic ''non-positive interval for NewTicker''))
      else if timeout = 0 then pollEndless (tick (nat interval)) f w
      else let n = wholeIntervals interval timeout in
        Some (pollChecks tick f (nat timeout - n * nat interval) (replicate n (nat interval)) w))"

text \<open>The first condition of the type decides.\<close>

definition poolCondition :: "string \<Rightarrow> ValPool \<Rightarrow> bool" where
  "poolCondition condType mcp = (case map_of (vp_Conditions mcp) condType of None \<Rightarrow> False | Some status \<Rightarrow> status = ''True'')"

definition waitForMachineConfigPoolCondition :: "'w valApi \<Rightarrow> ValPool \<Rightarrow> string \<Rightarrow> int \<Rightarrow> int \<Rightarrow> 'w \<Rightarrow> ('w, ValPool) effect" where
  "waitForMachineConfigPoolCondition V mcp condType pollInterval pollTimeout w =
     andThen (pollFallible (va_tick V) pollInterval pollTimeout
         (\<lambda>w. bind_res (va_pool V w (vp_Name mcp)) (\<lambda>updated. Inr (poolCondition condType updated))) w)
       (\<lambda>w _. Some (w, va_pool V w (vp_Name mcp)))"

text \<open>A configuration without the label gives the empty name.\<close>

definition roleOf :: "MachineConfig \<Rightarrow> string" where
  "roleOf mc = (case mget (mc_Labels mc) roleLabel of None \<Rightarrow> [] | Some r \<Rightarrow> r)"

definition findMachineConfigPoolForMC :: "'w valApi \<Rightarrow> valSettings \<Rightarrow> (ignition \<Rightarrow> MachineConfig \<Rightarrow> bool) \<Rightarrow> 'w \<Rightarrow> ('w, ValPool) effect" where
  "findMachineConfigPoolForMC V G match w =
     (case findMatchingMachineConfig V match w of
        Inl e \<Rightarrow> Some (w, Inl e)
      | Inr None \<Rightarrow> Some (w, Inl (Panic ''Expectation failed''))
      | Inr (Some mc) \<Rightarrow>
          (case findMachineConfigPool V roleLabel (roleOf mc) w of
             Inl e \<Rightarrow> Some (w, Inl e)
           | Inr None \<Rightarrow> Some (w, Inl (Panic ''Expectation failed''))
           | Inr (Some mcp) \<Rightarrow>
               expectNil (waitForMachineConfigPoolCondition V mcp ''Updated'' (vs_Interval G) (vs_Timeout G) w) (\<lambda>w updated.
                 Some (w, if mc_Name mc \<in> set (vp_Sources updated) then Inr updated else Inl (Panic ''Expectation failed'')))))"

section \<open>The tests\<close>

definition exists :: "apiError option \<Rightarrow> bool" where "exists r \<longleftrightarrow> r = None"

fun missing :: "apiError option \<Rightarrow> bool" where
  "missing (Some (NotFound _)) = True"
| "missing _ = False"

definition balanced :: "apiError + int \<times> int \<Rightarrow> bool" where
  "balanced r \<longleftrightarrow> (case r of Inl e \<Rightarrow> False | Inr (a, b) \<Rightarrow> a = b)"

definition crds :: "'w valApi \<Rightarrow> string list \<Rightarrow> 'w test" where
  "crds V names = asking (\<lambda>w. list_all (\<lambda>n. exists (va_crd V w n)) names)"

definition namespaceTest :: "'w valApi \<Rightarrow> string \<Rightarrow> 'w test" where
  "namespaceTest V ns = asking (\<lambda>w. exists (va_namespace V w ns))"

definition deploymentTest :: "'w valApi \<Rightarrow> string \<Rightarrow> string \<Rightarrow> 'w test" where
  "deploymentTest V ns name = asking (\<lambda>w. balanced (va_deployment V w ns name))"

definition daemonsetTest :: "'w valApi \<Rightarrow> string \<Rightarrow> string list \<Rightarrow> 'w test" where
  "daemonsetTest V ns names = asking (\<lambda>w. list_all (\<lambda>n. balanced (va_daemonset V w ns n)) names)"

text \<open>The operator's deployment is ready and its label selects one running pod.\<close>

definition operatorTest :: "'w valApi \<Rightarrow> string \<Rightarrow> string \<Rightarrow> 'w test" where
  "operatorTest V ns name = asking (\<lambda>w.
     balanced (va_deployment V w ns name) \<and>
     (case va_podList V w ns (''name='' @ name) of Inl e \<Rightarrow> False | Inr pods \<Rightarrow> map snd pods = [''Running'']))"

text \<open>As many pods as replicas, all of them running; the first conversion keeps the pods of the operator.\<close>

definition replicasRun :: "'w valApi \<Rightarrow> string \<Rightarrow> string \<Rightarrow> string \<Rightarrow> string \<Rightarrow> (string \<times> string \<Rightarrow> bool) \<Rightarrow> 'w test" where
  "replicasRun V depNs name ns sel keep = asking (\<lambda>w.
     case va_deployment V w depNs name of
       Inl e \<Rightarrow> False
     | Inr (replicas, ready) \<Rightarrow>
         replicas = ready \<and>
         (case va_podList V w ns sel of
            Inl e \<Rightarrow> False
          | Inr pods \<Rightarrow> (let ps = filter keep pods in int (length ps) = replicas \<and> list_all (\<lambda>(n, phase). phase = ''Running'') ps)))"

definition poolsReady :: "'w valApi \<Rightarrow> 'w test" where
  "poolsReady V = asking (\<lambda>w. case va_pools V w of Inl e \<Rightarrow> False | Inr items \<Rightarrow> list_all (\<lambda>p. vp_MachineCount p = vp_ReadyMachineCount p) items)"

definition poolWithLabel :: "'w valApi \<Rightarrow> valSettings \<Rightarrow> 'w test" where
  "poolWithLabel V G = asking (\<lambda>w. case va_pools V w of
       Inl e \<Rightarrow> False
     | Inr items \<Rightarrow> list_ex (\<lambda>p. case vp_NodeSelector p of None \<Rightarrow> False | Some ls \<Rightarrow> mget ls (vs_Selector G) \<noteq> None) items)"

definition ovnNamespace :: "'w valApi \<Rightarrow> 'w test" where
  "ovnNamespace V = asking (\<lambda>w. exists (va_namespace V w ''openshift-ovn-kubernetes'') \<and> missing (va_namespace V w ''openshift-sdn''))"

text \<open>The error of the filter is dropped, and the list is empty then.\<close>

definition nodesReady :: "'w clusterApi \<Rightarrow> 'w valApi \<Rightarrow> string \<Rightarrow> 'w test" where
  "nodesReady C V NodesSelector = asking (\<lambda>w.
     case ca_nodes C w [] of
       Inl e \<Rightarrow> False
     | Inr nodes \<Rightarrow>
         (let filtered = (case MatchingOptionalSelector C w NodesSelector nodes of Inl e \<Rightarrow> [] | Inr ns \<Rightarrow> ns) in
          list_all (\<lambda>n. (''Ready'', ''True'') \<in> set (va_nodeConditions V n)) filtered))"

text \<open>A daemon set that is deployed exactly if the operator is configured so.\<close>

definition onRequest :: "'w valApi \<Rightarrow> string \<Rightarrow> (bool \<times> bool \<Rightarrow> bool) \<Rightarrow> string \<Rightarrow> 'w test" where
  "onRequest V ns enabled name = asking (\<lambda>w.
     case va_operatorConfig V w ns of
       Inl e \<Rightarrow> False
     | Inr conf \<Rightarrow>
         if enabled conf then balanced (va_daemonset V w ns name)
         else (case va_daemonset V w ns name of Inl (NotFound _) \<Rightarrow> True | _ \<Rightarrow> False))"

definition matchSCTPMachineConfig :: "ignition \<Rightarrow> MachineConfig \<Rightarrow> bool" where
  "matchSCTPMachineConfig ignitionConfig mc \<longleftrightarrow> sctpBlacklistPath \<in> set (ig_Files ignitionConfig)"

definition matchContainerMountNamespaceMCFor :: "string \<Rightarrow> ignition \<Rightarrow> MachineConfig \<Rightarrow> bool" where
  "matchContainerMountNamespaceMCFor role ignitionConfig mc \<longleftrightarrow>
     ''container-mount-namespace.service'' \<in> set (ig_Units ignitionConfig) \<and> roleOf mc = role"

definition configTest :: "'w valApi \<Rightarrow> (ignition \<Rightarrow> MachineConfig \<Rightarrow> bool) \<Rightarrow> 'w test" where
  "configTest V match = asking (\<lambda>w. case findMatchingMachineConfig V match w of Inr (Some mc) \<Rightarrow> True | _ \<Rightarrow> False)"

definition configPoolTest :: "'w valApi \<Rightarrow> valSettings \<Rightarrow> (ignition \<Rightarrow> MachineConfig \<Rightarrow> bool) \<Rightarrow> 'w test" where
  "configPoolTest V G match = running (findMachineConfigPoolForMC V G match)"

definition imageTest :: "'w valApi \<Rightarrow> 'w test" where
  "imageTest V w = Some (w,
     case va_imageTags V w of
       Inl (NotFound e) \<Rightarrow> Skipped ''No dpdk imagestream found, relying on dpdk image''
     | Inl (ApiError e) \<Rightarrow> Failed
     | Inr tags \<Rightarrow> result (0 < tags))"

definition nfdTest :: "'w valApi \<Rightarrow> 'w test" where
  "nfdTest V = asking (\<lambda>w. case va_nfds V w of Inl e \<Rightarrow> False | Inr n \<Rightarrow> 0 < n)"

text \<open>Without the condition the status is that of an empty condition.\<close>

definition registryTest :: "'w valApi \<Rightarrow> 'w test" where
  "registryTest V = asking (\<lambda>w. case va_clusterOperator V w ''image-registry'' of
       Inl e \<Rightarrow> False
     | Inr conditions \<Rightarrow> (case map_of conditions ''Available'' of None \<Rightarrow> False | Some status \<Rightarrow> status = ''True''))"

definition multiTest :: "'w valApi \<Rightarrow> 'w test" where
  "multiTest V = asking (\<lambda>w. IsMultiEnabled (va_crd V w ''multi-networkpolicies.k8s.cni.cncf.io'') = Inr True)"

section \<open>The suite\<close>

text \<open>The tests of each context by name. \<open>NV\<close> are the namespaces, \<open>E\<close> is the environment of the SR-IOV tools.\<close>

definition generalTests :: "'w clusterApi \<Rightarrow> 'w valApi \<Rightarrow> valSettings \<Rightarrow> string \<Rightarrow> (string \<times> 'w test) list" where
  "generalTests C V G NodesSelector =
     [(''should report all machine config pools are in ready status'', poolsReady V),
      (''should have one machine config pool with the requested label'', poolWithLabel V G),
      (''[ovn] should have a openshift-ovn-kubernetes namespace'', ovnNamespace V),
      (''should have all the nodes in ready'', nodesReady C V NodesSelector)]"

definition performanceTests :: "'w valApi \<Rightarrow> (string \<times> 'w test) list" where
  "performanceTests V =
     [(''Should have the performance CRD available in the cluster'', crds V [''performanceprofiles.performance.openshift.io''])]"

definition sriovTests :: "'w valApi \<Rightarrow> 'w sriovEnv \<Rightarrow> nat \<Rightarrow> string \<Rightarrow> (string \<times> 'w test) list" where
  "sriovTests V E waiting SRIOVOperator =
     [(''should have the sriov namespace'', namespaceTest V SRIOVOperator),
      (''should have the sriov operator deployment in running state'', operatorTest V SRIOVOperator ''sriov-network-operator''),
      (''Should have the sriov CRDs available in the cluster'',
       crds V [''sriovnetworknodepolicies.sriovnetwork.openshift.io'', ''sriovnetworknodestates.sriovnetwork.openshift.io'',
         ''sriovnetworks.sriovnetwork.openshift.io'', ''sriovoperatorconfigs.sriovnetwork.openshift.io'']),
      (''should deploy the injector pod if requested'', onRequest V SRIOVOperator fst ''network-resources-injector''),
      (''should deploy the operator webhook if requested'', onRequest V SRIOVOperator snd ''operator-webhook''),
      (''should have SR-IOV node statuses not in progress'', running (\<lambda>w. Some (WaitStable E waiting w)))]"

definition sctpTests :: "'w valApi \<Rightarrow> valSettings \<Rightarrow> (string \<times> 'w test) list" where
  "sctpTests V G =
     [(''should have a sctp enable machine config'', configTest V matchSCTPMachineConfig),
      (''should have the sctp enable machine config as part of the CNF machine config pool'', configPoolTest V G matchSCTPMachineConfig)]"

definition PtpNamespace :: string where "PtpNamespace = ''openshift-ptp''"

definition ptpTests :: "'w valApi \<Rightarrow> (string \<times> 'w test) list" where
  "ptpTests V =
     [(''should have the ptp namespace'', namespaceTest V PtpNamespace),
      (''should have the ptp operator deployment in running state'', operatorTest V PtpNamespace ''ptp-operator''),
      (''should have the linuxptp daemonset in running state'', daemonsetTest V PtpNamespace [''linuxptp-daemon'']),
      (''should have the ptp CRDs available in the cluster'',
       crds V [''nodeptpdevices.ptp.openshift.io'', ''ptpconfigs.ptp.openshift.io'', ''ptpoperatorconfigs.ptp.openshift.io''])]"

definition s2iTests :: "'w valApi \<Rightarrow> (string \<times> 'w test) list" where
  "s2iTests V = [(''should have a tag ready from the dpdk imagestream'', imageTest V)]"

definition n3000Tests :: "'w valApi \<Rightarrow> (string \<times> 'w test) list" where
  "n3000Tests V =
     [(''should have the n3000 CRDs available in the cluster'', crds V [''n3000nodes.fpga.intel.com'', ''n3000clusters.fpga.intel.com'']),
      (''should have a ready deployment for the OpenNESS Operator for Intel FPGA PAC N3000 (Programming) operator'',
       deploymentTest V IntelOperator ''n3000-controller-manager''),
      (''should have all the required OpenNESS Operator for Intel FPGA PAC N3000 (Programming) operands'',
       daemonsetTest V IntelOperator [''fpga-driver-daemonset'', ''fpgainfo-exporter'', ''n3000-daemonset'', ''accelerator-discovery''])]"

definition fecTests :: "'w valApi \<Rightarrow> (string \<times> 'w test) list" where
  "fecTests V =
     [(''should have the fec CRDs available in the cluster'',
       crds V [''sriovfecnodeconfigs.sriovfec.intel.com'', ''sriovfecclusterconfigs.sriovfec.intel.com'']),
      (''should have a ready deployment for the OpenNESS Operator for Intel FPGA PAC N3000 (Management) operator'',
       deploymentTest V IntelOperator ''sriov-fec-controller-manager''),
      (''should have all the required OpenNESS Operator for Intel FPGA PAC N3000 (Management) operands'',
       daemonsetTest V IntelOperator [''sriov-device-plugin'', ''sriov-fec-daemonset'', ''accelerator-discovery''])]"

definition containerTests :: "'w valApi \<Rightarrow> valSettings \<Rightarrow> (string \<times> 'w test) list" where
  "containerTests V G = concat (map (\<lambda>role.
     [(''should have a container-mount-namespace machine config for '' @ role, configTest V (matchContainerMountNamespaceMCFor role)),
      (''should have the container-mount-namespace machine config as part of the '' @ role @ '' machine config pool'',
       configPoolTest V G (matchContainerMountNamespaceMCFor role))]) [''worker'', ''master''])"

definition GatekeeperNamespace :: string where "GatekeeperNamespace = ''openshift-gatekeeper-system''"
definition OperatorNamespace :: string where "OperatorNamespace = ''openshift-operators''"

definition gatekeeperTests :: "'w valApi \<Rightarrow> (string \<times> 'w test) list" where
  "gatekeeperTests V =
     [(''should have the gatekeeper namespace'', namespaceTest V GatekeeperNamespace),
      (''should have the gatekeeper-operator-controller-manager deployment in running state'',
       replicasRun V OperatorNamespace ''gatekeeper-operator-controller'' OperatorNamespace [] (\<lambda>(name, phase). Contains name ''operator'')),
      (''should have the gatekeeper-controller-manager deployment in running state'',
       replicasRun V GatekeeperNamespace ''gatekeeper-controller-manager'' GatekeeperNamespace ''gatekeeper.sh/operation=webhook'' (\<lambda>p. True)),
      (''should have the gatekeeper-audit deployment in running state'',
       replicasRun V GatekeeperNamespace ''gatekeeper-audit'' GatekeeperNamespace ''gatekeeper.sh/operation=audit'' (\<lambda>p. True))]"

definition sroTests :: "'w valApi \<Rightarrow> (string \<times> 'w test) list" where
  "sroTests V =
     [(''should have the node feature discovery CRDs available in the cluster'',
       crds V [''nodefeaturediscoveries.nfd.openshift.io'', ''specialresources.sro.openshift.io'']),
      (''should have a ready deployment for the NFD Operator'', deploymentTest V ''openshift-nfd'' ''nfd-controller-manager''),
      (''should have at least one nfd CR apply on the cluster to deploy the operand daemonsets'', nfdTest V),
      (''Should have nfd daemonsets'', daemonsetTest V ''openshift-nfd'' [''nfd-master'', ''nfd-worker'']),
      (''should have a ready deployment for the Special Resource Operator'',
       deploymentTest V ''openshift-special-resource-operator'' ''special-resource-controller-manager''),
      (''should have the special resource operator CRDs available in the cluster'', crds V [''specialresources.sro.openshift.io'']),
      (''should have the internal registry available in the cluster'', registryTest V)]"

definition networkTests :: "'w valApi \<Rightarrow> (string \<times> 'w test) list" where
  "networkTests V =
     [(''should have MultiNetworkPolicy CRD available in the cluster'', multiTest V),
      (''should have the daemonset in running state'', daemonsetTest V ''openshift-multus'' [''multus-networkpolicy'']),
      (''should have NMState CRD available in the cluster'', crds V [''nmstates.nmstate.io'']),
      (''should have the operator pod in running state'', deploymentTest V ''openshift-nmstate'' ''nmstate-operator'')]"

definition validation :: "'w clusterApi \<Rightarrow> 'w valApi \<Rightarrow> 'w sriovEnv \<Rightarrow> valSettings \<Rightarrow> nat \<Rightarrow> string \<Rightarrow> string \<Rightarrow> (string \<times> 'w test) list" where
  "validation C V E G waiting NodesSelector SRIOVOperator =
     generalTests C V G NodesSelector @ performanceTests V @ sriovTests V E waiting SRIOVOperator @ sctpTests V G @ ptpTests V @ s2iTests V @
     n3000Tests V @ fecTests V @ containerTests V G @ gatekeeperTests V @ sroTests V @ networkTests V"

text \<open>Tests that run one after another, each on the cluster that the one before left.\<close>

fun runTests :: "(string \<times> 'w test) list \<Rightarrow> 'w \<Rightarrow> ('w \<times> (string \<times> testResult) list) option" where
  "runTests [] w = Some (w, [])"
| "runTests ((name, t) # ts) w =
     (case t w of
        None \<Rightarrow> None
      | Some (w1, r) \<Rightarrow> (case runTests ts w1 of None \<Rightarrow> None | Some (w2, rs) \<Rightarrow> Some (w2, (name, r) # rs)))"

section \<open>What the suite establishes\<close>

definition ends :: "'w test \<Rightarrow> bool" where "ends t \<longleftrightarrow> (\<forall>w. t w \<noteq> None)"

named_theorems ending

lemma asking_ends [ending]: "ends (asking f)"
  by (simp add: ends_def asking_def)

lemma imageTest_ends [ending]: "ends (imageTest V)"
  by (simp add: ends_def imageTest_def)

lemma total_ends [ending]: "ends (running (\<lambda>w. Some (f w)))"
  by (auto simp: ends_def running_def split: prod.splits sum.splits)

lemma running_ends: "(\<And>w. f w \<noteq> None) \<Longrightarrow> ends (running f)"
  by (auto simp: ends_def running_def split: option.splits sum.splits)

lemma andThen_ends: "r \<noteq> None \<Longrightarrow> (\<And>w x. f w x \<noteq> None) \<Longrightarrow> andThen r f \<noteq> None"
  by (auto simp: andThen_def split: sum.splits)

lemma expectNil_ends: "r \<noteq> None \<Longrightarrow> (\<And>w x. f w x \<noteq> None) \<Longrightarrow> expectNil r f \<noteq> None"
  by (auto simp: expectNil_def split: sum.splits go_error.splits)

lemma pollFallible_ends: "timeout \<noteq> 0 \<Longrightarrow> pollFallible tick interval timeout f w \<noteq> None"
  by (simp add: pollFallible_def Let_def)

lemma poolWait_ends:
  assumes "vs_Timeout G \<noteq> 0"
  shows "findMachineConfigPoolForMC V G match w \<noteq> None"
proof -
  have "waitForMachineConfigPoolCondition V mcp c (vs_Interval G) (vs_Timeout G) w \<noteq> None" for mcp c w
    unfolding waitForMachineConfigPoolCondition_def by (rule andThen_ends) (use assms in \<open>simp_all add: pollFallible_ends\<close>)
  then have "expectNil (waitForMachineConfigPoolCondition V mcp c (vs_Interval G) (vs_Timeout G) w) (\<lambda>w x. Some (g w x)) \<noteq> None"
    for mcp c w and g :: "'a \<Rightarrow> ValPool \<Rightarrow> 'a \<times> ValPool res" by (rule expectNil_ends) simp
  then show ?thesis unfolding findMachineConfigPoolForMC_def by (simp split: sum.split option.split)
qed

lemma configPoolTest_ends [ending]: "vs_Timeout G \<noteq> 0 \<Longrightarrow> ends (configPoolTest V G match)"
  unfolding configPoolTest_def by (rule running_ends) (rule poolWait_ends)

lemmas test_defs = crds_def namespaceTest_def deploymentTest_def daemonsetTest_def operatorTest_def replicasRun_def poolsReady_def
  poolWithLabel_def ovnNamespace_def nodesReady_def onRequest_def configTest_def nfdTest_def registryTest_def multiTest_def

lemma test_ends [ending]:
  "ends (crds V ns)" "ends (namespaceTest V n)" "ends (deploymentTest V n d)" "ends (daemonsetTest V n ns)" "ends (operatorTest V n d)"
  "ends (replicasRun V n d n' l k)" "ends (poolsReady V)" "ends (poolWithLabel V G)" "ends (ovnNamespace V)" "ends (nodesReady C V l)"
  "ends (onRequest V n e d)" "ends (configTest V mt)" "ends (nfdTest V)" "ends (registryTest V)" "ends (multiTest V)"
  unfolding test_defs by (rule asking_ends)+

lemma runTests_ends: "list_all (\<lambda>(n, t). ends t) ts \<Longrightarrow> \<exists>w' rs. runTests ts w = Some (w', rs) \<and> map fst rs = map fst ts"
proof (induction ts arbitrary: w)
  case (Cons nt ts)
  obtain n t where nt: "nt = (n, t)" by (cases nt)
  with Cons.prems have "t w \<noteq> None" by (simp add: ends_def)
  then obtain w1 r where "t w = Some (w1, r)" by auto
  with Cons.IH [of w1] Cons.prems nt show ?case by auto
qed simp

lemmas suite_defs = generalTests_def performanceTests_def sriovTests_def sctpTests_def ptpTests_def s2iTests_def n3000Tests_def fecTests_def
  containerTests_def gatekeeperTests_def sroTests_def networkTests_def

lemma validation_ends:
  assumes "vs_Timeout G \<noteq> 0"
  shows "\<exists>w' rs. runTests (validation C V E G waiting NodesSelector SRIOVOperator) w = Some (w', rs) \<and>
    map fst rs = map fst (validation C V E G waiting NodesSelector SRIOVOperator)"
  by (rule runTests_ends) (simp add: validation_def suite_defs ending assms)

text \<open>Without settings in the environment the waits are half an hour long, with a check every thirty seconds.\<close>

lemma initValidation_default:
  "initValidation (\<lambda>n. None) = Some \<lparr>vs_Selector = ''node-role.kubernetes.io/worker-cnf'', vs_Timeout = 1800 * second, vs_Interval = 30 * second\<rparr>"
  by (simp add: initValidation_def getTimeDurationFromEnv_def second_def)

text \<open>The waits of a poll add up to its timeout.\<close>

lemma poll_time:
  assumes "0 < interval" and "0 < timeout"
  shows "wholeIntervals interval timeout * nat interval + (nat timeout - wholeIntervals interval timeout * nat interval) = nat timeout"
proof -
  have "(timeout - 1) div interval * interval \<le> timeout - 1" using assms pos_mod_sign [of interval "timeout - 1"] minus_mod_eq_div_mult [of "timeout - 1" interval] by linarith
  then have "nat ((timeout - 1) div interval * interval) \<le> nat timeout" by simp
  moreover have "nat ((timeout - 1) div interval * interval) = wholeIntervals interval timeout * nat interval"
    using assms by (simp add: wholeIntervals_def nat_mult_distrib pos_imp_zdiv_nonneg_iff)
  ultimately show ?thesis by simp
qed

text \<open>A pool test that passes has found a matching configuration in an updated pool that is selected by its role.\<close>

lemma pollChecks_ok: "pollChecks tick f rest is w = (w', Inr ()) \<Longrightarrow> f w' = Inr True"
  by (induction "is" arbitrary: w) (auto simp: Let_def split: sum.splits bool.splits)

lemma pollEndless_ok:
  assumes "pollEndless tick f w = Some (w', Inr ())"
  shows "f w' = Inr True"
proof -
  have "snd r = Inr () \<longrightarrow> f (fst r) = Inr True" if "pollEndless tick f w = Some r" for r
    by (rule pollEndless.raw_induct [where P = "\<lambda>tick f w r. snd r = Inr () \<longrightarrow> f (fst r) = Inr True", OF _ that])
      (auto split: sum.splits if_splits)
  from this [OF assms] show ?thesis by simp
qed

lemma pollFallible_ok: "pollFallible tick interval timeout f w = Some (w', Inr ()) \<Longrightarrow> f w' = Inr True"
  by (auto simp: pollFallible_def Let_def split: if_splits dest: pollChecks_ok pollEndless_ok)

lemma poll_ok: "pollFallible tick interval timeout f w = Some (w', Inr u) \<Longrightarrow> f w' = Inr True"
  by (cases u) (simp add: pollFallible_ok)

lemma expectNil_Some: "expectNil r f = Some (w', Inr y) \<Longrightarrow> \<exists>w x. r = Some (w, Inr x) \<and> f w x = Some (w', Inr y)"
  by (auto simp: expectNil_def split: option.splits sum.splits go_error.splits)

lemma wait_updated:
  assumes "waitForMachineConfigPoolCondition V mcp c interval timeout w = Some (w', Inr updated)"
  shows "va_pool V w' (vp_Name mcp) = Inr updated \<and> poolCondition c updated"
proof -
  from assms [unfolded waitForMachineConfigPoolCondition_def andThen_ok] obtain w1 u where
    poll: "pollFallible (va_tick V) interval timeout
      (\<lambda>w. bind_res (va_pool V w (vp_Name mcp)) (\<lambda>updated. Inr (poolCondition c updated))) w = Some (w1, Inr u)"
    and w1: "w1 = w'" "va_pool V w1 (vp_Name mcp) = Inr updated" by auto
  from poll_ok [OF poll] w1 show ?thesis by simp
qed

lemma configPoolTest_sound:
  assumes "configPoolTest V G match w = Some (w', Passed)"
  shows "\<exists>mc mcp updated. findMatchingMachineConfig V match w = Inr (Some mc) \<and>
    findMachineConfigPool V roleLabel (roleOf mc) w = Inr (Some mcp) \<and> va_pool V w' (vp_Name mcp) = Inr updated \<and>
    poolCondition ''Updated'' updated \<and> mc_Name mc \<in> set (vp_Sources updated)"
proof -
  obtain p where p: "findMachineConfigPoolForMC V G match w = Some (w', Inr p)"
    using assms by (auto simp: configPoolTest_def running_def split: option.splits sum.splits)
  then obtain mc where mc: "findMatchingMachineConfig V match w = Inr (Some mc)"
    by (auto simp: findMachineConfigPoolForMC_def split: sum.splits option.splits)
  with p obtain mcp where mcp: "findMachineConfigPool V roleLabel (roleOf mc) w = Inr (Some mcp)"
    by (auto simp: findMachineConfigPoolForMC_def split: sum.splits option.splits)
  have "expectNil (waitForMachineConfigPoolCondition V mcp ''Updated'' (vs_Interval G) (vs_Timeout G) w)
      (\<lambda>w updated. Some (w, if mc_Name mc \<in> set (vp_Sources updated) then Inr updated else Inl (Panic ''Expectation failed''))) =
    Some (w', Inr p)"
    using p mc mcp unfolding findMachineConfigPoolForMC_def by (simp only: sum.case option.case)
  from expectNil_Some [OF this] obtain w1 updated where
    wait: "waitForMachineConfigPoolCondition V mcp ''Updated'' (vs_Interval G) (vs_Timeout G) w = Some (w1, Inr updated)"
    and rest: "Some (w1, if mc_Name mc \<in> set (vp_Sources updated) then Inr updated else Inl (Panic ''Expectation failed'')) = Some (w', Inr p)"
    by (elim exE conjE)
  from rest have "w1 = w'" "mc_Name mc \<in> set (vp_Sources updated)" by (simp_all split: if_splits)
  with mc mcp wait_updated [OF wait] show ?thesis by (intro exI [of _ mc] exI [of _ mcp] exI [of _ updated]) simp
qed

text \<open>When the node filter fails, the test of the nodes passes.\<close>

lemma nodesReady_vacuous:
  assumes "ca_nodes C w [] = Inr nodes" and "MatchingOptionalSelector C w NodesSelector nodes = Inl e"
  shows "nodesReady C V NodesSelector w = Some (w, Passed)"
  using assms by (simp add: nodesReady_def asking_def result_def)

end
