(* ===== verification/QosSuite.thy ===== *)
theory QosSuite
  imports ClusterValidation
begin

text \<open>
  The quality-of-service tests themselves (\<^verbatim>\<open>cnf-tests/testsuites/e2esuite/ovs_qos/ovs_qos.go\<close>): the setup that finds or applies a
  limit, and the tests of the egress and of the ingress direction, over the helpers of \<open>QosLimits\<close>.

  The two directions are one description; \<open>qosDirection\<close> holds what differs. A test sees the variables of its suite, \<open>qosState\<close>,
  as the setup has left them, also when the setup was stopped.
\<close>

section \<open>The environment\<close>

record ('f, 'l, 's, 'w) qosEnv =
  qe_F :: "'f floats"
  qe_pods :: "('l, 'w) podApi"
  qe_cluster :: "'w clusterApi"
  qe_pools :: "('s, 'w) poolApi"
  qe_ns :: "'w nsApi"
  qe_exec :: "'w reachEnv"
  qe_configs :: "'w \<Rightarrow> MachineConfig list res"
  qe_decode :: "string \<Rightarrow> string + string list"
  qe_DecodeMC :: "string \<Rightarrow> string + MachineConfig"
  qe_createMC :: "'w \<Rightarrow> MachineConfig \<Rightarrow> 'w \<times> MachineConfig \<times> string option"
  qe_deleteMC :: "'w \<Rightarrow> string \<Rightarrow> 'w \<times> unit res"
  qe_iperf :: "string \<Rightarrow> string + 'f list"
  qe_podIP :: "TestPod \<Rightarrow> string"
  qe_getenv :: "string \<Rightarrow> string"
  qe_NodesSelector :: string
  qe_discovery :: bool

record 'f qosState =
  qs_Selector :: string
  qs_Reason :: string
  qs_Receiver :: string
  qs_Sender :: string
  qs_Limit :: 'f
  qs_Pool :: "Pool option"
  qs_Updated :: bool

text \<open>What a step leaves, and its value or the result with which it ended the test.\<close>

type_synonym ('w, 'f, 'a) run = "('w \<times> 'f qosState \<times> (testResult + 'a)) option"

definition thenRun :: "('w, 'f, 'a) run \<Rightarrow> ('w \<Rightarrow> 'f qosState \<Rightarrow> 'a \<Rightarrow> ('w, 'f, 'b) run) \<Rightarrow> ('w, 'f, 'b) run" where
  "thenRun r f =
     (case r of
        None \<Rightarrow> None
      | Some (w, st, Inl e) \<Rightarrow> Some (w, st, Inl e)
      | Some (w, st, Inr x) \<Rightarrow> f w st x)"

definition stopped :: "'w \<Rightarrow> 'f qosState \<Rightarrow> (string \<Rightarrow> testResult) \<Rightarrow> string \<Rightarrow> ('w, 'f, 'a) run" where
  "stopped w st how reason = Some (w, st\<lparr>qs_Reason := reason\<rparr>, Inl (how reason))"

definition failingWith :: "string \<Rightarrow> testResult" where "failingWith reason = Failed"

text \<open>\<open>Expect(err)\<close>: the test fails, and no reason is recorded.\<close>

definition asserting :: "'f qosState \<Rightarrow> ('w, 'a) effect \<Rightarrow> ('w, 'f, 'a) run" where
  "asserting st r =
     (case r of None \<Rightarrow> None | Some (w, Inl e) \<Rightarrow> Some (w, st, Inl Failed) | Some (w, Inr x) \<Rightarrow> Some (w, st, Inr x))"

text \<open>An error is recorded and ends the setup; a panic fails the test.\<close>

definition recording :: "(string \<Rightarrow> testResult) \<Rightarrow> 'f qosState \<Rightarrow> ('w, 'a) effect \<Rightarrow> ('w, 'f, 'a) run" where
  "recording how st r =
     (case r of
        None \<Rightarrow> None
      | Some (w, Inl (Panic e)) \<Rightarrow> Some (w, st, Inl Failed)
      | Some (w, Inl (Error e)) \<Rightarrow> stopped w st how e
      | Some (w, Inr x) \<Rightarrow> Some (w, st, Inr x))"

section \<open>The directions\<close>

text \<open>\<open>qd_unit\<close> gives the rate for the configuration; \<open>qd_waiting\<close> is how a failing wait ends the setup; \<open>qd_onSender\<close> says that the
  output of the sender is read and that the tests within a node use the node of the sender.\<close>

record 'f qosDirection =
  qd_limiting :: "string \<Rightarrow> 'f"
  qd_unit :: "'f \<Rightarrow> int"
  qd_onSender :: bool
  qd_waiting :: "string \<Rightarrow> testResult"
  qd_MCName :: string

definition egress :: "'f floats \<Rightarrow> 'f qosDirection" where
  "egress F = \<lparr>qd_limiting = isEgressLimiting F, qd_unit = fl_int64 F, qd_onSender = True, qd_waiting = failingWith, qd_MCName = ''qos-egress''\<rparr>"

definition ingress :: "'f floats \<Rightarrow> 'f qosDirection" where
  "ingress F = \<lparr>qd_limiting = isIngressLimiting F, qd_unit = (\<lambda>l. fl_int64 F (fl_div F l (fl_ratio F 1000 1))), qd_onSender = False,
     qd_waiting = Skipped, qd_MCName = ''qos-ingress''\<rparr>"

definition createMC :: "('f, 'l, 's, 'w) qosEnv \<Rightarrow> 'f qosDirection \<Rightarrow> int \<Rightarrow> 'w \<Rightarrow> 'w \<times> MachineConfig option \<times> string option" where
  "createMC E D = (if qd_onSender D then createEgressMC else createIngressMC) (qe_DecodeMC E) (qe_createMC E) (roleWorkerCNF (qe_getenv E))"

definition validateQos :: "('f, 'l, 's, 'w) qosEnv \<Rightarrow> 'f qosDirection \<Rightarrow> string \<Rightarrow> int \<Rightarrow> 'w \<Rightarrow> 'w \<times> unit res" where
  "validateQos E D selector limit w =
     (if qd_onSender D then validateEgressQosOnNodes else validateIngressQosOnNodes) (qe_cluster E) (qe_exec E) (qe_NodesSelector E) selector limit w"

definition findRate :: "('f, 'l, 's, 'w) qosEnv \<Rightarrow> 'f qosDirection \<Rightarrow> string \<Rightarrow> 'w \<Rightarrow> (string \<times> 'f) res" where
  "findRate E D selector w =
     findQoSRateWithNodeSelector (qe_F E) (qe_decode E) (qe_pools E) (qe_configs E) w (qd_limiting D) selector"

section \<open>The setup\<close>

text \<open>In discovery mode a failure leaves the empty selector and the limit -1 in the variables.\<close>

definition discoverLimit :: "('f, 'l, 's, 'w) qosEnv \<Rightarrow> 'f qosDirection \<Rightarrow> 'w \<Rightarrow> 'f qosState \<Rightarrow> ('w, 'f, unit) run" where
  "discoverLimit E D w st =
     (if \<not> qe_discovery E then Some (w, st, Inr ())
      else case findRate E D (qs_Selector st) w of
        Inl (Panic e) \<Rightarrow> Some (w, st, Inl Failed)
      | Inl (Error e) \<Rightarrow> stopped w (st\<lparr>qs_Selector := [], qs_Limit := minusOne (qe_F E)\<rparr>) Skipped e
      | Inr (selector, limit) \<Rightarrow> Some (w, st\<lparr>qs_Selector := selector, qs_Limit := limit\<rparr>, Inr ()))"

definition chooseNodes :: "('f, 'l, 's, 'w) qosEnv \<Rightarrow> 'w \<Rightarrow> 'f qosState \<Rightarrow> ('w, 'f, unit) run" where
  "chooseNodes E w st =
     (case getFilteredNodes (qe_cluster E) (qe_NodesSelector E) (qs_Selector st) w of
        Inl e \<Rightarrow> stopped w st failingWith (errorText e)
      | Inr (n0 # n1 # _) \<Rightarrow> Some (w, st\<lparr>qs_Receiver := nd_Name n0, qs_Sender := nd_Name n1\<rparr>, Inr ())
      | Inr _ \<Rightarrow>
          if qe_discovery E then stopped w st Skipped ''Did not find enough nodes with ovs_qos limitations''
          else stopped w st failingWith ''Not enough nodes for ovs_qos tests'')"

definition fraction :: "'f floats \<Rightarrow> 'f \<Rightarrow> 'f" where "fraction F r = fl_mul F r (fl_ratio F 3 10)"

text \<open>The error of the clean-up is not looked at. A limit that no configuration gives is -1 until the new one is computed.\<close>

definition applyLimit :: "('f, 'l, 's, 'w) qosEnv \<Rightarrow> 'f qosDirection \<Rightarrow> 'w \<Rightarrow> 'f qosState \<Rightarrow> ('w, 'f, unit) run" where
  "applyLimit E D w st =
     (case findRate E D (qs_Selector st) w of
        Inl (Panic e) \<Rightarrow> Some (w, st, Inl Failed)
      | Inr (selector, limit) \<Rightarrow> Some (w, st\<lparr>qs_Limit := limit\<rparr>, Inr ())
      | Inl (Error _) \<Rightarrow>
          let st = st\<lparr>qs_Limit := minusOne (qe_F E)\<rparr> in
          (case findInitialRate (qe_F E) (qe_pods E) (qe_iperf E) (qe_podIP E) (qe_getenv E) (qs_Receiver st) (qs_Sender st) (qd_onSender D) w of
             None \<Rightarrow> None
           | Some (w1, Inl (Panic e)) \<Rightarrow> Some (w1, st, Inl Failed)
           | Some (w1, Inl (Error e)) \<Rightarrow> stopped (fst (CleanNamespace (qe_ns E) (OVSQOSTest (qe_getenv E)) ''testpod-'' w1)) st failingWith e
           | Some (w1, Inr initialRate) \<Rightarrow>
               (let limit = fraction (qe_F E) initialRate; st = st\<lparr>qs_Limit := limit\<rparr> in
                case createMC E D (qd_unit D limit) w1 of
                  (w2, mc, Some e) \<Rightarrow> stopped w2 st failingWith e
                | (w2, mc, None) \<Rightarrow> Some (w2, st\<lparr>qs_Updated := True\<rparr>, Inr ()))))"

definition limitOnPool :: "('f, 'l, 's, 'w) qosEnv \<Rightarrow> 'f qosDirection \<Rightarrow> 'w \<Rightarrow> 'f qosState \<Rightarrow> ('w, 'f, unit) run" where
  "limitOnPool E D w st =
     (if qe_discovery E then Some (w, st, Inr ())
      else
        thenRun (recording failingWith st (Some (w, FindMCPByMCLabel (qe_pools E) w (roleWorkerCNF (qe_getenv E))))) (\<lambda>w st mcp.
        thenRun (applyLimit E D w (st\<lparr>qs_Pool := Some mcp\<rparr>)) (\<lambda>w st _.
        if qs_Updated st then recording (qd_waiting D) st (WaitForMCPStable (qe_pools E) mcp w) else Some (w, st, Inr ()))))"

definition qosSetup :: "('f, 'l, 's, 'w) qosEnv \<Rightarrow> 'f qosDirection \<Rightarrow> string \<Rightarrow> 'w \<Rightarrow> 'f qosState \<Rightarrow> ('w, 'f, unit) run" where
  "qosSetup E D gSkipReason w st =
     (if gSkipReason \<noteq> [] then Some (w, st, Inl (Skipped gSkipReason))
      else thenRun (discoverLimit E D w st) (\<lambda>w st _. thenRun (chooseNodes E w st) (\<lambda>w st _. limitOnPool E D w st)))"

section \<open>The tests\<close>

definition beforeEachQos :: "('f, 'l, 's, 'w) qosEnv \<Rightarrow> string \<Rightarrow> 'w \<Rightarrow> 'f qosState \<Rightarrow> ('w, 'f, unit) run" where
  "beforeEachQos E gSkipReason w st =
     (if gSkipReason \<noteq> [] then Some (w, st, Inl (Skipped gSkipReason))
      else if qs_Reason st \<noteq> [] then Some (w, st, Inl (Skipped (qs_Reason st)))
      else case CleanNamespace (qe_ns E) (OVSQOSTest (qe_getenv E)) ''testpod-'' w of
        (w1, Some e) \<Rightarrow> Some (w1, st, Inl Failed)
      | (w1, None) \<Rightarrow> Some (w1, st, Inr ()))"

definition limitApplied :: "('f, 'l, 's, 'w) qosEnv \<Rightarrow> 'f qosDirection \<Rightarrow> 'w \<Rightarrow> 'f qosState \<Rightarrow> ('w, 'f, unit) run" where
  "limitApplied E D w st = asserting st (Some (validateQos E D (qs_Selector st) (qd_unit D (qs_Limit st)) w))"

text \<open>One measurement: the receiver, then the sender; the output of one of them, and whether the limit holds for it.\<close>

definition measure :: "('f, 'l, 's, 'w) qosEnv \<Rightarrow> 'f qosDirection \<Rightarrow> string \<Rightarrow> string \<Rightarrow> string \<Rightarrow> 'f \<Rightarrow> 'w \<Rightarrow> ('w, bool) effect" where
  "measure E D connectivity receiverNode senderNode limit w =
     (case networksByConnectivity connectivity of
        Inl e \<Rightarrow> Some (w, Inl e)
      | Inr (senderHostNetwork, receiverHostNetwork) \<Rightarrow>
          andThen (createReceiverPod (qe_pods E) (qe_getenv E) receiverNode receiverHostNetwork w) (\<lambda>w receiverPod.
          andThen (createSenderPod (qe_pods E) (qe_getenv E) senderNode senderHostNetwork (qe_podIP E receiverPod) w) (\<lambda>w senderPod.
            Some (w, bind_res (parseIperfOutput (qe_pods E) (qe_iperf E) w (if qd_onSender D then senderPod else receiverPod)) (\<lambda>o'.
              Inr (rateEnforced (qe_F E) o' limit))))))"

definition measured :: "bool \<Rightarrow> 'f qosState \<Rightarrow> ('w, bool) effect \<Rightarrow> ('w, 'f, unit) run" where
  "measured wanted st r = thenRun (asserting st r) (\<lambda>w st enforced. Some (w, st, if enforced = wanted then Inr () else Inl Failed))"

definition limitEnforced :: "('f, 'l, 's, 'w) qosEnv \<Rightarrow> 'f qosDirection \<Rightarrow> string \<Rightarrow> 'w \<Rightarrow> 'f qosState \<Rightarrow> ('w, 'f, unit) run" where
  "limitEnforced E D connectivity w st = measured True st (measure E D connectivity (qs_Receiver st) (qs_Sender st) (qs_Limit st) w)"

definition limitWithinNode :: "('f, 'l, 's, 'w) qosEnv \<Rightarrow> 'f qosDirection \<Rightarrow> string \<Rightarrow> 'w \<Rightarrow> 'f qosState \<Rightarrow> ('w, 'f, unit) run" where
  "limitWithinNode E D connectivity w st =
     (let node = (if qd_onSender D then qs_Sender st else qs_Receiver st) in
      measured False st (measure E D connectivity node node (qs_Limit st) w))"

text \<open>Where the setup has applied a configuration there is a pool; without one its use is a nil dereference.\<close>

definition limitRemoved :: "('f, 'l, 's, 'w) qosEnv \<Rightarrow> 'f qosDirection \<Rightarrow> 'w \<Rightarrow> 'f qosState \<Rightarrow> ('w, 'f, unit) run" where
  "limitRemoved E D w st =
     (if \<not> qs_Updated st then Some (w, st, Inl (Skipped (''No '' @ (if qd_onSender D then ''egress'' else ''ingress'') @ '' MC was applied by the test'')))
      else
        thenRun (asserting st (Some (qe_deleteMC E w (qd_MCName D)))) (\<lambda>w st _.
        case qs_Pool st of
          None \<Rightarrow> Some (w, st, Inl Failed)
        | Some mcp \<Rightarrow>
            thenRun (asserting st (WaitForMCPStable (qe_pools E) mcp w)) (\<lambda>w st _.
            thenRun (asserting st (Some (validateQos E D (qs_Selector st) 0 w))) (\<lambda>w st _.
              measured False st (measure E D sdnToSDN (qs_Receiver st) (qs_Sender st) (qs_Limit st) w)))))"

definition qosTests :: "('f, 'l, 's, 'w) qosEnv \<Rightarrow> 'f qosDirection \<Rightarrow> (string \<times> ('w \<Rightarrow> 'f qosState \<Rightarrow> ('w, 'f, unit) run)) list" where
  "qosTests E D =
     (''applied'', limitApplied E D) #
     map (\<lambda>c. (''enforced '' @ c, limitEnforced E D c)) [sdnToSDN, hostToSDN, hostToHost] @
     map (\<lambda>c. (''within a node '' @ c, limitWithinNode E D c)) [sdnToSDN, hostToSDN] @
     [(''removed'', limitRemoved E D)]"

definition runResult :: "testResult + unit \<Rightarrow> testResult" where
  "runResult r = (case r of Inl how \<Rightarrow> how | Inr _ \<Rightarrow> Passed)"

text \<open>The tests after the setup.\<close>

fun runQos :: "('f, 'l, 's, 'w) qosEnv \<Rightarrow> string \<Rightarrow> (string \<times> ('w \<Rightarrow> 'f qosState \<Rightarrow> ('w, 'f, unit) run)) list \<Rightarrow> 'w \<Rightarrow> 'f qosState \<Rightarrow>
    ('w \<times> 'f qosState \<times> (string \<times> testResult) list) option" where
  "runQos E gSkipReason [] w st = Some (w, st, [])"
| "runQos E gSkipReason ((name, t) # ts) w st =
     (case thenRun (beforeEachQos E gSkipReason w st) (\<lambda>w st _. t w st) of
        None \<Rightarrow> None
      | Some (w1, st1, r) \<Rightarrow>
          (case runQos E gSkipReason ts w1 st1 of
             None \<Rightarrow> None
           | Some (w2, st2, rs) \<Rightarrow> Some (w2, st2, (name, runResult r) # rs)))"

definition startState :: "('f, 'l, 's, 'w) qosEnv \<Rightarrow> string \<Rightarrow> 'f qosState" where
  "startState E selector = \<lparr>qs_Selector = selector, qs_Reason = [], qs_Receiver = [], qs_Sender = [], qs_Limit = fl_ratio (qe_F E) 0 1,
     qs_Pool = None, qs_Updated = False\<rparr>"

text \<open>The setup runs before the first test and is not repeated; a setup that stops decides the result of the first test.\<close>

definition runDirection :: "('f, 'l, 's, 'w) qosEnv \<Rightarrow> 'f qosDirection \<Rightarrow> string \<Rightarrow> 'w \<Rightarrow> 'f qosState \<Rightarrow>
    ('w \<times> 'f qosState \<times> (string \<times> testResult) list) option" where
  "runDirection E D gSkipReason w st =
     (case qosTests E D of
        [] \<Rightarrow> Some (w, st, [])
      | (name, t) # ts \<Rightarrow>
          (case thenRun (qosSetup E D gSkipReason w st) (\<lambda>w st _. thenRun (beforeEachQos E gSkipReason w st) (\<lambda>w st _. t w st)) of
             None \<Rightarrow> None
           | Some (w1, st1, r) \<Rightarrow>
               (case runQos E gSkipReason ts w1 st1 of
                  None \<Rightarrow> None
                | Some (w2, st2, rs) \<Rightarrow> Some (w2, st2, (name, runResult r) # rs))))"

text \<open>Before both directions: the namespace, and the reason to skip everything on one node.\<close>

definition qosBeforeAll :: "('f, 'l, 's, 'w) qosEnv \<Rightarrow> 'w \<Rightarrow> 'w \<times> string res" where
  "qosBeforeAll E w =
     expectOk (CreateNamespace (qe_ns E) (OVSQOSTest (qe_getenv E)) w) (\<lambda>w _.
     expectOk (w, IsSingleNodeCluster (qe_cluster E) w) (\<lambda>w isSingleNode.
       (w, Inr (if isSingleNode then ''At least two nodes are required for ovs_qos tests.'' else []))))"

definition egressSetup :: "('f, 'l, 's, 'w) qosEnv \<Rightarrow> string \<Rightarrow> 'w \<Rightarrow> 'f qosState \<Rightarrow> ('w, 'f, unit) run" where
  "egressSetup E = qosSetup E (egress (qe_F E))"

definition ingressSetup :: "('f, 'l, 's, 'w) qosEnv \<Rightarrow> string \<Rightarrow> 'w \<Rightarrow> 'f qosState \<Rightarrow> ('w, 'f, unit) run" where
  "ingressSetup E = qosSetup E (ingress (qe_F E))"

definition egressTests :: "('f, 'l, 's, 'w) qosEnv \<Rightarrow> (string \<times> ('w \<Rightarrow> 'f qosState \<Rightarrow> ('w, 'f, unit) run)) list" where
  "egressTests E = qosTests E (egress (qe_F E))"

definition ingressTests :: "('f, 'l, 's, 'w) qosEnv \<Rightarrow> (string \<times> ('w \<Rightarrow> 'f qosState \<Rightarrow> ('w, 'f, unit) run)) list" where
  "ingressTests E = qosTests E (ingress (qe_F E))"

section \<open>What the setup leaves\<close>

text \<open>After a setup that ended well the receiver and the sender are the first two nodes.\<close>

lemma thenRun_ok: "thenRun r f = Some (w', st', Inr y) \<longleftrightarrow> (\<exists>w st x. r = Some (w, st, Inr x) \<and> f w st x = Some (w', st', Inr y))"
  by (auto simp: thenRun_def split: option.splits sum.splits)

lemma recording_ok: "recording how st r = Some (w', st', Inr y) \<longleftrightarrow> st' = st \<and> r = Some (w', Inr y)"
  by (auto simp: recording_def stopped_def split: option.splits sum.splits go_error.splits)

lemma qosSetup_nodes:
  assumes "qosSetup E D gSkipReason w st = Some (w', st', Inr ())"
  shows "\<exists>v sel n0 n1 ns. getFilteredNodes (qe_cluster E) (qe_NodesSelector E) sel v = Inr (n0 # n1 # ns) \<and>
    qs_Receiver st' = nd_Name n0 \<and> qs_Sender st' = nd_Name n1"
proof -
  obtain w1 st1 w2 st2 u v where s2: "chooseNodes E w1 st1 = Some (w2, st2, Inr u)" and s3: "limitOnPool E D w2 st2 = Some (w', st', Inr v)"
    using assms by (auto simp: qosSetup_def thenRun_ok split: if_splits)
  have "qs_Receiver st' = qs_Receiver st2" "qs_Sender st' = qs_Sender st2"
    using s3 by (auto simp: limitOnPool_def thenRun_ok recording_ok applyLimit_def stopped_def Let_def split: if_splits sum.splits go_error.splits
        option.splits prod.splits)
  moreover obtain n0 n1 ns where "getFilteredNodes (qe_cluster E) (qe_NodesSelector E) (qs_Selector st1) w1 = Inr (n0 # n1 # ns)"
    "qs_Receiver st2 = nd_Name n0" "qs_Sender st2 = nd_Name n1"
    using s2 by (auto simp: chooseNodes_def stopped_def split: sum.splits list.splits if_splits)
  ultimately show ?thesis by metis
qed

text \<open>A recorded reason skips all tests that follow.\<close>

lemma recorded_skips:
  assumes "qs_Reason st \<noteq> []"
  shows "runQos E [] ts w st = Some (w, st, map (\<lambda>(n, t). (n, Skipped (qs_Reason st))) ts)"
  using assms by (induction ts) (auto simp: beforeEachQos_def thenRun_def runResult_def)

text \<open>A panic of the measurement records no reason and leaves the limit at -1: the tests run.\<close>

lemma panic_leaves_limit:
  assumes "findRate E D (qs_Selector st) w = Inl (Error e)"
    and "findInitialRate (qe_F E) (qe_pods E) (qe_iperf E) (qe_podIP E) (qe_getenv E) (qs_Receiver st) (qs_Sender st) (qd_onSender D) w =
      Some (w1, Inl (Panic p))"
  shows "applyLimit E D w st = Some (w1, st\<lparr>qs_Limit := minusOne (qe_F E)\<rparr>, Inl Failed)"
  using assms by (simp add: applyLimit_def)

text \<open>The clean-up before a test keeps the pods of the tests: their names do not begin with its prefix.\<close>

lemma cleanKind_kept:
  assumes "na_list A w k ns = Inr names" and "list_all (\<lambda>n. \<not> HasPrefix n pre) names"
  shows "cleanKind A k ns pre w = (w, Inr None)"
proof -
  have "cleanLoop A k ns pre err names w = (w, Inr err)" for err
    using assms(2) by (induction names) auto
  then show ?thesis using assms(1) by (simp add: cleanKind_def)
qed

lemma qosClean_keeps:
  assumes "\<not> nsGone N ns w" and "na_list N w NetworkPolicies ns = Inr []" and "na_list N w Services ns = Inr []"
    and "na_list N w Pods ns = Inr names" and "\<forall>n\<in>set names. \<exists>s. n = ''sender-'' @ s \<or> n = ''receiver-'' @ s"
  shows "CleanNamespace N ns ''testpod-'' w = (w, None)"
proof -
  have "\<not> HasPrefix n ''testpod-''" if "\<exists>s. n = ''sender-'' @ s \<or> n = ''receiver-'' @ s" for n
    using that by (elim exE disjE) (simp_all only: qosPod_names not_False_eq_True)
  with assms(5) have "list_all (\<lambda>n. \<not> HasPrefix n ''testpod-'') names" unfolding list_all_iff by blast
  from cleanKind_kept [OF assms(4) this] cleanKind_kept [OF assms(2)] cleanKind_kept [OF assms(3)] show ?thesis
    using assms(1) by (simp add: CleanNamespace_def)
qed

end
