(* ===== verification/NetworkPolicyTests.thy ===== *)
theory NetworkPolicyTests
  imports SriovNetworks ReachMatcher
begin

text \<open>
  The multi-network policy suite (\<^verbatim>\<open>cnf-tests/testsuites/e2esuite/multinetworkpolicy/multinetworkpolicy_sriov.go\<close>): the policies
  that each test creates, the connections that it expects, its setup, and a run of the suite.

  The documented meaning of network policies is the specification \<open>connects\<close>: on a cluster that enforces it, every test passes, and on
  one that enforces nothing every test fails.
\<close>

section \<open>Policies\<close>

text \<open>A label selector has labels and expressions: key, operator, values.\<close>

record labelSelector =
  ls_MatchLabels :: "(string, string) gomap"
  ls_MatchExpressions :: "(string \<times> string \<times> string list) list"

record policyPeer =
  pp_PodSelector :: "labelSelector option"
  pp_NamespaceSelector :: "labelSelector option"

text \<open>An ingress rule and an egress rule: the ports with their protocols, and the peers.\<close>

record policyRule =
  pr_Ports :: "(IntOrString \<times> string) list"
  pr_Peers :: "policyPeer list"

type_synonym testPolicy = "(labelSelector, policyRule, policyRule) MultiPolicy"
type_synonym testOpt = "(labelSelector, policyRule, policyRule) policyOpt"

definition anyPod :: labelSelector where "anyPod = \<lparr>ls_MatchLabels = [], ls_MatchExpressions = []\<rparr>"

definition labelled :: "string \<Rightarrow> string \<Rightarrow> labelSelector" where
  "labelled k v = \<lparr>ls_MatchLabels = [(k, v)], ls_MatchExpressions = []\<rparr>"

definition oneOf :: "string \<Rightarrow> string list \<Rightarrow> labelSelector" where
  "oneOf k vs = \<lparr>ls_MatchLabels = [], ls_MatchExpressions = [(k, ''In'', vs)]\<rparr>"

definition podLabel :: "string \<Rightarrow> labelSelector" where "podLabel l = labelled ''pod'' l"

definition namespaceName :: string where "namespaceName = ''kubernetes.io/metadata.name''"

definition podPeer :: "string \<Rightarrow> policyPeer" where
  "podPeer l = \<lparr>pp_PodSelector = Some (podLabel l), pp_NamespaceSelector = None\<rparr>"

definition namespacePeer :: "string \<Rightarrow> policyPeer" where
  "namespacePeer ns = \<lparr>pp_PodSelector = None, pp_NamespaceSelector = Some (labelled namespaceName ns)\<rparr>"

definition peerRule :: "policyPeer list \<Rightarrow> policyRule" where "peerRule peers = \<lparr>pr_Ports = [], pr_Peers = peers\<rparr>"

definition port6666 :: IntOrString where "port6666 = FromInt 6666"

section \<open>Tests\<close>

text \<open>The pods are known by namespace and label. An expectation is: source, whether it should reach, destination, options. Those of
  the last field hold where SCTP is enabled.\<close>

type_synonym podKey = "string \<times> string"
type_synonym expectation = "podKey \<times> bool \<times> podKey \<times> reachOpt list"

record policyTest =
  pt_Name :: string
  pt_Skip :: string
  pt_NeedsSctp :: bool
  pt_Policies :: "testOpt list list"
  pt_Expect :: "expectation list"
  pt_ExpectSctp :: "expectation list"

definition xA :: podKey where "xA = (nsX, ''a'')"
definition xB :: podKey where "xB = (nsX, ''b'')"
definition xC :: podKey where "xC = (nsX, ''c'')"
definition yA :: podKey where "yA = (nsY, ''a'')"
definition yB :: podKey where "yB = (nsY, ''b'')"
definition yC :: podKey where "yC = (nsY, ''c'')"
definition zA :: podKey where "zA = (nsZ, ''a'')"
definition zB :: podKey where "zB = (nsZ, ''b'')"
definition zC :: podKey where "zC = (nsZ, ''c'')"

definition plainTest :: "string \<Rightarrow> testOpt list list \<Rightarrow> expectation list \<Rightarrow> policyTest" where
  "plainTest name policies es =
     \<lparr>pt_Name = name, pt_Skip = [], pt_NeedsSctp = False, pt_Policies = policies, pt_Expect = es, pt_ExpectSctp = []\<rparr>"

text \<open>A policy of namespace X for pod A with one rule.\<close>

definition ingressToA :: "policyRule \<Rightarrow> testOpt list" where
  "ingressToA r = [WithPodSelector (podLabel ''a''), WithIngressRule r, CreateInNamespace nsX]"

definition denyToA :: policyTest where
  "denyToA = plainTest ''DENY all traffic to a pod''
     [[WithPodSelector (podLabel ''a''), WithEmptyIngressRules, CreateInNamespace nsX]]
     [(xB, True, xC, [ViaTCP]), (xB, True, xC, [ViaUDP]),
      (xB, False, xA, [ViaTCP]), (xB, False, xA, [ViaUDP]), (xC, False, xA, [ViaTCP]), (xC, False, xA, [ViaUDP])]"

definition denyNamespace :: policyTest where
  "denyNamespace = plainTest ''DENY all traffic to and within a namespace''
     [[WithEmptyIngressRules, CreateInNamespace nsX]]
     [(xA, False, xB, []), (xB, False, xC, []), (xC, False, xA, []), (yA, False, xA, []), (zA, False, xA, []),
      (yA, True, yB, []), (zA, True, zB, []), (yA, True, zA, []), (zB, True, yC, [])]"

definition allowLabelled :: policyTest where
  "allowLabelled = plainTest ''ALLOW traffic to a pod from pods selected by labels''
     [ingressToA (peerRule [podPeer ''b''])]
     [(xB, True, xA, []), (xC, False, xA, []), (xB, True, xC, [])]"

definition allowNamespace :: policyTest where
  "allowNamespace = plainTest ''ALLOW traffic to a pod from all pods in a namespace''
     [ingressToA (peerRule [namespacePeer nsY])]
     [(yA, True, xA, []), (yB, True, xA, []), (yC, True, xA, []),
      (zA, False, xA, []), (zB, False, xA, []), (zC, False, xA, []), (xB, False, xA, []), (xC, False, xA, [])]"

definition allowOr :: policyTest where
  "allowOr = plainTest ''ALLOW traffic to a pod from using an OR combination of namespace and pod labels''
     [ingressToA (peerRule [namespacePeer nsY, podPeer ''b''])]
     [(yA, True, xA, []), (yB, True, xA, []), (yC, True, xA, []), (xB, True, xA, []),
      (zA, False, xA, []), (zB, False, xA, []), (zC, False, xA, []), (xC, False, xA, [])]"

definition allowAnd :: policyTest where
  "allowAnd = (plainTest ''ALLOW traffic to a pod using an AND combination of namespace and pod labels''
     [ingressToA (peerRule
        [\<lparr>pp_PodSelector = Some (oneOf ''pod'' [''b'', ''c'']), pp_NamespaceSelector = Some (oneOf namespaceName [nsY, nsZ])\<rparr>])]
     [(yB, True, xA, []), (yC, True, xA, []), (zB, True, xA, []), (zC, True, xA, []), (xA, True, xA, []),
      (xB, False, xA, []), (xC, False, xA, []), (yA, False, xA, []), (zA, False, xA, [])])
     \<lparr>pt_Skip := ''LabelSelectorwith multiple In values is not yet supported by multi-networkpolicy-iptables - '' @
        ''https://github.com/k8snetworkplumbingwg/multi-networkpolicy/issues/4''\<rparr>"

definition denyFromA :: policyTest where
  "denyFromA = plainTest ''DENY all traffic from a pod''
     [[WithPodSelector (podLabel ''a''), WithEmptyEgressRules, CreateInNamespace nsX]]
     [(xB, True, xC, []), (xA, False, xB, []), (xA, False, xC, [])]"

definition allowFromA :: policyTest where
  "allowFromA = plainTest ''ALLOW traffic from a specific pod only to a specific pod''
     [[WithPodSelector (podLabel ''a''), WithEgressRule (peerRule [podPeer ''b'']), CreateInNamespace nsX]]
     [(xA, True, xB, []), (xA, False, xC, []), (xB, True, xC, [])]"

definition stacked :: policyTest where
  "stacked = plainTest ''enforce multiple Ingress stacked policies with overlapping podSelector''
     [ingressToA (peerRule [podPeer ''b'']), ingressToA (peerRule [namespacePeer nsY])]
     [(yA, True, xA, []), (yB, True, xA, []), (yC, True, xA, []), (xB, True, xA, []),
      (zA, False, xA, []), (zB, False, xA, []), (zC, False, xA, []), (xC, False, xA, [])]"

definition portRule :: "(IntOrString \<times> string) list \<Rightarrow> policyPeer list \<Rightarrow> policyRule" where
  "portRule ports peers = \<lparr>pr_Ports = ports, pr_Peers = peers\<rparr>"

definition stackedPorts :: policyTest where
  "stackedPorts = plainTest ''enforce multiple Ingress stacked policies with overlapping podSelector and different ports''
     [ingressToA (portRule [(port5555, ProtocolTCP)] [podPeer ''b'']), ingressToA (portRule [(port6666, ProtocolTCP)] [podPeer ''c''])]
     [(xB, True, xA, [OnPort port5555]), (xC, True, xA, [OnPort port6666]),
      (xB, False, xA, [OnPort port6666]), (yB, False, xA, [OnPort port6666]), (zB, False, xA, [OnPort port6666]),
      (yC, False, xA, [OnPort port6666]), (zC, False, xA, [OnPort port6666]),
      (yB, False, xA, [OnPort port5555]), (zB, False, xA, [OnPort port5555]), (xC, False, xA, [OnPort port5555]),
      (yC, False, xA, [OnPort port5555]), (zC, False, xA, [OnPort port5555])]"

definition onlyTcp :: policyTest where
  "onlyTcp = (plainTest ''Allow access only to a specific port/protocol TCP''
     [ingressToA (portRule [(port5555, ProtocolTCP)] [podPeer ''b''])]
     [(xB, True, xA, [OnPort port5555, ViaTCP]),
      (xB, False, xA, [OnPort port6666, ViaTCP]), (xB, False, xA, [OnPort port6666, ViaUDP]), (xB, False, xA, [OnPort port5555, ViaUDP])])
     \<lparr>pt_ExpectSctp := [(xB, False, xA, [OnPort port6666, ViaSCTP]), (xB, False, xA, [OnPort port5555, ViaSCTP])]\<rparr>"

definition onlyUdp :: policyTest where
  "onlyUdp = (plainTest ''Allow access only to a specific port/protocol UDP''
     [ingressToA (portRule [(port6666, ProtocolUDP)] [podPeer ''b''])]
     [(xB, True, xA, [OnPort port6666, ViaUDP]),
      (xB, False, xA, [OnPort port6666, ViaTCP]), (xB, False, xA, [OnPort port5555, ViaUDP]), (xB, False, xA, [OnPort port5555, ViaTCP]),
      (xC, False, xA, [OnPort port6666, ViaUDP])])
     \<lparr>pt_ExpectSctp := [(xB, False, xA, [OnPort port6666, ViaSCTP]), (xB, False, xA, [OnPort port5555, ViaSCTP])]\<rparr>"

definition onlySctp :: policyTest where
  "onlySctp = (plainTest ''Allow access only to a specific port/protocol SCTP''
     [ingressToA (portRule [(port6666, ProtocolSCTP)] [podPeer ''b''])]
     [(xB, True, xA, [OnPort port6666, ViaSCTP]),
      (xB, False, xA, [OnPort port6666, ViaUDP]), (xB, False, xA, [OnPort port6666, ViaTCP]), (xB, False, xA, [OnPort port5555, ViaTCP]),
      (xB, False, xA, [OnPort port5555, ViaUDP]), (xB, False, xA, [OnPort port5555, ViaSCTP])])
     \<lparr>pt_NeedsSctp := True\<rparr>"

definition tcpAndUdp :: policyTest where
  "tcpAndUdp = plainTest ''Allow access only to a specific port/protocol TCP+UDP''
     [ingressToA (portRule [(port5555, ProtocolTCP), (port6666, ProtocolUDP)] [podPeer ''b''])]
     [(xB, True, xA, [OnPort port5555, ViaTCP]), (xB, True, xA, [OnPort port6666, ViaUDP]),
      (xB, False, xA, [OnPort port6666, ViaTCP]), (xB, False, xA, [OnPort port5555, ViaUDP])]"

definition udpFromAny :: policyTest where
  "udpFromAny = plainTest ''Allow access only to a specific UDP port from any pod''
     [ingressToA (portRule [(port6666, ProtocolUDP)] [])]
     [(xB, True, xA, [OnPort port6666, ViaUDP]),
      (xB, False, xA, [OnPort port5555, ViaTCP]), (xB, False, xA, [OnPort port5555, ViaUDP]), (xB, False, xA, [OnPort port6666, ViaTCP])]"

definition families :: policyTest where
  "families = plainTest ''ALLOW traffic to a specific pod only from a specific pod''
     [ingressToA (peerRule [podPeer ''b''])]
     [(xB, True, xA, [ViaIPv4]), (xC, False, xA, [ViaIPv4]), (xB, True, xC, [ViaIPv4]),
      (xB, True, xA, [ViaIPv6]), (xC, False, xA, [ViaIPv6]), (xB, True, xC, [ViaIPv6])]"

definition policyTests :: "policyTest list" where
  "policyTests =
     [denyToA, denyNamespace, allowLabelled, allowNamespace, allowOr, allowAnd, denyFromA, allowFromA, stacked, stackedPorts,
      onlyTcp, onlyUdp, onlySctp, tcpAndUdp, udpFromAny, families]"

section \<open>The pods\<close>

definition TestNetworkNamespacedName :: string where
  "TestNetworkNamespacedName = ''default/test-multi-networkpolicy-sriov-network''"

definition addNetcatContainers :: "(string \<Rightarrow> string) \<Rightarrow> bool \<Rightarrow> Pod \<Rightarrow> Pod res" where
  "addNetcatContainers getenv addSCTPServer pod =
     bind_res (AddTCPNetcatServerToPod getenv pod port5555) (\<lambda>pod.
     bind_res (AddUDPNetcatServerToPod getenv pod port5555) (\<lambda>pod.
     bind_res (AddTCPNetcatServerToPod getenv pod port6666) (\<lambda>pod.
     bind_res (AddUDPNetcatServerToPod getenv pod port6666) (\<lambda>pod.
     if addSCTPServer
     then bind_res (AddSCTPNetcatServerToPod getenv pod port5555) (\<lambda>pod. AddSCTPNetcatServerToPod getenv pod port6666)
     else Inr pod))))"

text \<open>The containers of a connectivity pod as containers of a test pod.\<close>

definition podContainer :: "Container \<Rightarrow> PodContainer" where
  "podContainer c = (plainContainer (con_Name c) (con_Image c) (con_Command c))
     \<lparr>pc_SecurityContext := (case con_Privileged c of None \<Rightarrow> None | Some b \<Rightarrow> Some (emptyContext\<lparr>sc_Privileged := Some b\<rparr>))\<rparr>"

definition noPod :: Pod where
  "noPod = \<lparr>pod_Namespace = [], pod_Name = [], pod_Labels = [], pod_Annotations = [], pod_Containers = []\<rparr>"

definition withContainers :: "(Pod \<Rightarrow> Pod res) \<Rightarrow> TestPod \<Rightarrow> TestPod res" where
  "withContainers add pod =
     bind_res (add noPod) (\<lambda>p. Inr (pod\<lparr>tp_Containers := tp_Containers pod @ map podContainer (pod_Containers p)\<rparr>))"

definition connectivityPod :: "(string \<Rightarrow> string) \<Rightarrow> string \<Rightarrow> bool \<Rightarrow> string \<Rightarrow> TestPod res" where
  "connectivityPod getenv namespace addSCTPServer l =
     bind_res (DefinePod getenv namespace) (\<lambda>pod.
     bind_res (withContainers (addNetcatContainers getenv addSCTPServer)
       (RedefinePodWithNetwork (RedefineWithLabel pod ''pod'' l) TestNetworkNamespacedName)) (\<lambda>pod.
     bind_res (withContainers (AddDebugContainer getenv) pod) (\<lambda>pod.
       Inr (pod\<lparr>tp_GenerateName := ''testpod-'' @ l @ ''-''\<rparr>))))"

definition startConnectivityPod :: "('l, 'w) podApi \<Rightarrow> (string \<Rightarrow> string) \<Rightarrow> string \<Rightarrow> bool \<Rightarrow> string \<Rightarrow> 'w \<Rightarrow> ('w, TestPod) effect" where
  "startConnectivityPod A getenv namespace addSCTPServer l w =
     (case connectivityPod getenv namespace addSCTPServer l of
        Inl e \<Rightarrow> Some (w, Inl e)
      | Inr pod \<Rightarrow> expectNil (CreateAndStart A pod w) (\<lambda>w pod. Some (w, Inr pod)))"

definition createPodsInNamespace :: "('l, 'w) podApi \<Rightarrow> (string \<Rightarrow> string) \<Rightarrow> string \<Rightarrow> bool \<Rightarrow> 'w \<Rightarrow> ('w, TestPod \<times> TestPod \<times> TestPod) effect" where
  "createPodsInNamespace A getenv namespace addSCTPServer w =
     andThen (startConnectivityPod A getenv namespace addSCTPServer ''a'' w) (\<lambda>w podA.
     andThen (startConnectivityPod A getenv namespace addSCTPServer ''b'' w) (\<lambda>w podB.
     andThen (startConnectivityPod A getenv namespace addSCTPServer ''c'' w) (\<lambda>w podC.
       Some (w, Inr (podA, podB, podC)))))"

section \<open>The setup of the suite\<close>

text \<open>An effect that always returns.\<close>

definition returning :: "'w \<times> 'a res \<Rightarrow> ('w, 'a) effect" where "returning r = Some r"

definition nodesForTest :: "'w sriovEnv \<Rightarrow> string \<Rightarrow> string \<Rightarrow> 'w \<Rightarrow> 'w \<times> (bool \<times> string list \<times> sriovDiscovery) res" where
  "nodesForTest E SRIOVOperator NodesSelector w =
     expectOk (w, sv_discover E w SRIOVOperator) (\<lambda>w infos.
       case infos of
         None \<Rightarrow> (w, Inl (Panic ''Expectation failed''))
       | Some sriovInfos \<Rightarrow>
           expectOk (w, MatchingOptionalSelectorByName (sv_cluster E) w NodesSelector (sd_Nodes sriovInfos)) (\<lambda>w sriovNodes.
           expect (sriovNodes \<noteq> []) w (\<lambda>w.
             case HavingSCTPEnabled (sv_cluster E) w sriovNodes of
               (w1, ns, Some e) \<Rightarrow> (w1, Inl (Panic (''Unexpected error: '' @ errorText e)))
             | (w1, ns, None) \<Rightarrow> (w1, Inr (ns \<noteq> [], if ns = [] then sriovNodes else ns, sriovInfos)))))"

definition ipam :: string where
  "ipam = braces (field ''type'' (inQuotes ''host-local'') @ '','' @ inQuotes ''ranges'' @ '': [ ['' @
     braces (field ''subnet'' (inQuotes ''3ffe:ffff:0:01ff::/64'')) @ ''], ['' @ braces (field ''subnet'' (inQuotes ''2.2.2.0/24'')) @ ''] ]'')"

definition prepareNetwork :: "'w sriovEnv \<Rightarrow> nat \<Rightarrow> string \<Rightarrow> string \<Rightarrow> sriovDiscovery \<Rightarrow> 'w \<Rightarrow> 'w \<times> unit res" where
  "prepareNetwork E waiting SRIOVOperator nodeName sriovInfos w =
     expectOk (w, sd_FindOne sriovInfos nodeName) (\<lambda>w sriovDevice.
     expectOk (sv_policy E w ''test-policy-'' SRIOVOperator (dv_Name sriovDevice) nodeName 10 ''sriovnicMultiNetworkpolicyResource'' ''netdevice'') (\<lambda>w _.
     expectOk (WaitStable E waiting w) (\<lambda>w _.
     expectOk (sv_network E w sriovDevice ''test-multi-networkpolicy-sriov-network'' ''default'' SRIOVOperator
       ''sriovnicMultiNetworkpolicyResource'' ipam [] 0) (\<lambda>w _.
       Eventually (sv_tick E) 1 120 (\<lambda>w. Inr (is_ok (sv_attachment E w ''test-multi-networkpolicy-sriov-network'' ''default''))) w))))"

text \<open>Without the operator nothing is set up. The pods come by namespace, in the order X, Y, Z.\<close>

definition setupPolicySuite :: "'w nsApi \<Rightarrow> 'w sriovEnv \<Rightarrow> ('l, 'w) podApi \<Rightarrow> (string \<Rightarrow> string) \<Rightarrow> nat \<Rightarrow> string \<Rightarrow> string \<Rightarrow> bool \<Rightarrow> 'w \<Rightarrow>
    ('w, (bool \<times> (TestPod \<times> TestPod \<times> TestPod) list) option) effect" where
  "setupPolicySuite N E A getenv waiting SRIOVOperator NodesSelector discovery w =
     andThen (returning (IsSriovOperatorInstalled E SRIOVOperator w)) (\<lambda>w sriovEnabled.
     if \<not> sriovEnabled then Some (w, Inr None)
     else
       andThen (returning (expectOk (CleanPodsIn N [nsX, nsY, nsZ] w) (\<lambda>w _.
         expectOk (CreateNamespace N nsX w) (\<lambda>w _. expectOk (CreateNamespace N nsY w) (\<lambda>w _. expectOk (CreateNamespace N nsZ w) (\<lambda>w _.
         expectOk (CleanSriov E SRIOVOperator waiting discovery w) (\<lambda>w _. nodesForTest E SRIOVOperator NodesSelector w))))))) (\<lambda>w (sctpEnabled, testNodeNames, sriovInfos).
       andThen (returning (prepareNetwork E waiting SRIOVOperator (hd testNodeNames) sriovInfos w)) (\<lambda>w _.
       andThen (createPodsInNamespace A getenv nsX sctpEnabled w) (\<lambda>w xs.
       andThen (createPodsInNamespace A getenv nsY sctpEnabled w) (\<lambda>w ys.
       andThen (createPodsInNamespace A getenv nsZ sctpEnabled w) (\<lambda>w zs.
         Some (w, Inr (Some (sctpEnabled, [xs, ys, zs])))))))))"

section \<open>Running a test\<close>

text \<open>\<open>ma_create\<close> creates a policy, \<open>ma_deleteAll\<close> deletes those of a namespace, \<open>ma_list\<close> lists them.\<close>

record 'w multiApi =
  ma_create :: "'w \<Rightarrow> string \<Rightarrow> testPolicy \<Rightarrow> 'w \<times> (string + testPolicy)"
  ma_deleteAll :: "'w \<Rightarrow> string \<Rightarrow> 'w \<times> unit res"
  ma_list :: "'w \<Rightarrow> string \<Rightarrow> testPolicy list res"
  ma_tick :: "nat \<Rightarrow> 'w \<Rightarrow> 'w"

definition cleanMultiNetworkPoliciesFromNamespace :: "'w multiApi \<Rightarrow> string \<Rightarrow> 'w \<Rightarrow> 'w \<times> unit res" where
  "cleanMultiNetworkPoliciesFromNamespace M namespace w =
     expectOk (ma_deleteAll M w namespace) (\<lambda>w _.
       Eventually (ma_tick M) 1 30 (\<lambda>w. case ma_list M w namespace of
           Inl e \<Rightarrow> Inl (Panic ''Unexpected error'')
         | Inr items \<Rightarrow> Inr (items = [])) w)"

fun makePolicies :: "'w multiApi \<Rightarrow> testOpt list list \<Rightarrow> 'w \<Rightarrow> 'w \<times> unit res" where
  "makePolicies M [] w = (w, Inr ())"
| "makePolicies M (opts # policies) w =
     expectOk (MakeMultiNetworkPolicy (ma_create M) anyPod TestNetworkNamespacedName opts w) (\<lambda>w _. makePolicies M policies w)"

text \<open>
  \<open>eventually30s\<close>: the matcher is asked at once and after every second before the thirty seconds are over. An attempt that
  gives an error fails, whatever is expected.
\<close>

fun matchLoop :: "('w \<Rightarrow> 'w) \<Rightarrow> ('w \<Rightarrow> 'w \<times> bool res) \<Rightarrow> bool \<Rightarrow> nat \<Rightarrow> 'w \<Rightarrow> 'w \<times> unit res" where
  "matchLoop tick ask should n w =
     (let (w1, r) = ask w in
      if r = Inr should then (w1, Inr ())
      else case n of 0 \<Rightarrow> (w1, Inl (Panic ''Timed out'')) | Suc n' \<Rightarrow> matchLoop tick ask should n' (tick w1))"

text \<open>\<open>asks\<close> is the matcher as the polling loop calls it.\<close>

type_synonym 'w asks = "'w \<Rightarrow> matcher \<Rightarrow> Pod \<Rightarrow> 'w \<times> bool res"

definition expectReach :: "'w multiApi \<Rightarrow> 'w asks \<Rightarrow> 'w reachEnv \<Rightarrow> (podKey \<Rightarrow> Pod) \<Rightarrow> expectation \<Rightarrow> 'w \<Rightarrow> 'w \<times> unit res" where
  "expectReach M ask E P e w =
     (case e of (source, should, destination, opts) \<Rightarrow>
        let m = Reach E (P destination) opts in
        matchLoop (ma_tick M 1) (\<lambda>w. ask w m (P source)) should 29 w)"

fun expectAll :: "'w multiApi \<Rightarrow> 'w asks \<Rightarrow> 'w reachEnv \<Rightarrow> (podKey \<Rightarrow> Pod) \<Rightarrow> expectation list \<Rightarrow> 'w \<Rightarrow> 'w \<times> unit res" where
  "expectAll M ask E P [] w = (w, Inr ())"
| "expectAll M ask E P (e # es) w = expectOk (expectReach M ask E P e w) (\<lambda>w _. expectAll M ask E P es w)"

datatype outcome = Succeeded | Failing | Skipping

definition expectations :: "bool \<Rightarrow> policyTest \<Rightarrow> expectation list" where
  "expectations sctpEnabled t = pt_Expect t @ (if sctpEnabled then pt_ExpectSctp t else [])"

definition outcomeOf :: "'w \<times> unit res \<Rightarrow> 'w \<times> outcome" where
  "outcomeOf r = (case r of (w, Inl e) \<Rightarrow> (w, Failing) | (w, Inr _) \<Rightarrow> (w, Succeeded))"

text \<open>The state of the setup: whether the CRD is there, discovery, the operator, whether the pods are there, and SCTP.\<close>

record suiteState =
  su_crdPresent :: "bool res"
  su_discovery :: bool
  su_sriovEnabled :: bool
  su_initialized :: bool
  su_sctpEnabled :: bool

definition cleanPolicies :: "'w multiApi \<Rightarrow> 'w \<Rightarrow> 'w \<times> unit res" where
  "cleanPolicies M w =
     expectOk (cleanMultiNetworkPoliciesFromNamespace M nsX w) (\<lambda>w _.
     expectOk (cleanMultiNetworkPoliciesFromNamespace M nsY w) (\<lambda>w _.
     cleanMultiNetworkPoliciesFromNamespace M nsZ w))"

definition runTestWith :: "'w multiApi \<Rightarrow> 'w asks \<Rightarrow> 'w reachEnv \<Rightarrow> (podKey \<Rightarrow> Pod) \<Rightarrow> suiteState \<Rightarrow> policyTest \<Rightarrow> 'w \<Rightarrow> 'w \<times> outcome" where
  "runTestWith M ask E P S t w =
     (if su_crdPresent S \<noteq> Inr True then (w, Failing)
      else if su_discovery S then (w, Skipping)
      else if \<not> su_sriovEnabled S then (w, Skipping)
      else if \<not> su_initialized S then (w, Failing)
      else case cleanPolicies M w of
        (w1, Inl e) \<Rightarrow> (w1, Failing)
      | (w1, Inr _) \<Rightarrow>
          if pt_Skip t \<noteq> [] then (w1, Skipping)
          else if pt_NeedsSctp t \<and> \<not> su_sctpEnabled S then (w1, Skipping)
          else outcomeOf (expectOk (makePolicies M (pt_Policies t) w1) (\<lambda>w _.
            expectAll M ask E P (expectations (su_sctpEnabled S) t) w)))"

definition runPolicyTest :: "'w multiApi \<Rightarrow> 'w reachEnv \<Rightarrow> (podKey \<Rightarrow> Pod) \<Rightarrow> suiteState \<Rightarrow> policyTest \<Rightarrow> 'w \<Rightarrow> 'w \<times> outcome" where
  "runPolicyTest M E = runTestWith M (\<lambda>w m p. Match E w m (Inr p)) E"

section \<open>What policies mean\<close>

text \<open>
  The documentation of network policies: a pod is isolated for a direction when a policy with this direction selects it; then only
  the connections that some rule of such a policy allows are possible. Without policies, everything is allowed; no policy keeps a pod from
  itself.
\<close>

definition selMatches :: "labelSelector \<Rightarrow> (string, string) gomap \<Rightarrow> bool" where
  "selMatches s ls \<longleftrightarrow>
     list_all (\<lambda>(k, v). mget ls k = Some v) (ls_MatchLabels s) \<and>
     list_all (\<lambda>(k, op, vs). op = ''In'' \<and> (case mget ls k of None \<Rightarrow> False | Some v \<Rightarrow> v \<in> set vs)) (ls_MatchExpressions s)"

definition podLabels :: "podKey \<Rightarrow> (string, string) gomap" where "podLabels p = [(''pod'', snd p)]"
definition namespaceLabelsOf :: "podKey \<Rightarrow> (string, string) gomap" where "namespaceLabelsOf p = [(namespaceName, fst p)]"

type_synonym policies = "(string \<times> testPolicy) list"

definition peerMatches :: "string \<Rightarrow> podKey \<Rightarrow> policyPeer \<Rightarrow> bool" where
  "peerMatches ns p peer \<longleftrightarrow>
     (case pp_NamespaceSelector peer of None \<Rightarrow> fst p = ns | Some s \<Rightarrow> selMatches s (namespaceLabelsOf p)) \<and>
     (case pp_PodSelector peer of None \<Rightarrow> True | Some s \<Rightarrow> selMatches s (podLabels p))"

definition ruleAllows :: "string \<Rightarrow> podKey \<Rightarrow> string \<Rightarrow> string \<Rightarrow> policyRule \<Rightarrow> bool" where
  "ruleAllows ns peer port protocol r \<longleftrightarrow>
     (pr_Peers r = [] \<or> list_ex (peerMatches ns peer) (pr_Peers r)) \<and>
     (pr_Ports r = [] \<or> list_ex (\<lambda>(p, proto). portString p = port \<and> proto = protocol) (pr_Ports r))"

definition isolating :: "string \<Rightarrow> podKey \<Rightarrow> string \<times> testPolicy \<Rightarrow> bool" where
  "isolating direction p pol \<longleftrightarrow>
     direction \<in> set (mnp_PolicyTypes (snd pol)) \<and> fst pol = fst p \<and> selMatches (mnp_PodSelector (snd pol)) (podLabels p)"

definition allowedBy :: "string \<Rightarrow> (testPolicy \<Rightarrow> policyRule list) \<Rightarrow> policies \<Rightarrow> podKey \<Rightarrow> podKey \<Rightarrow> string \<Rightarrow> string \<Rightarrow> bool" where
  "allowedBy direction rules pols p peer port protocol \<longleftrightarrow>
     (let ps = filter (isolating direction p) pols in
      ps = [] \<or> list_ex (\<lambda>(ns, pol). list_ex (ruleAllows ns peer port protocol) (rules pol)) ps)"

definition connects :: "policies \<Rightarrow> podKey \<Rightarrow> podKey \<Rightarrow> string \<Rightarrow> string \<Rightarrow> bool" where
  "connects pols source destination port protocol \<longleftrightarrow>
     source = destination \<or>
     allowedBy PolicyTypeEgress mnp_Egress pols source destination port protocol \<and>
     allowedBy PolicyTypeIngress mnp_Ingress pols destination source port protocol"

section \<open>The policies of a test\<close>

text \<open>A store of policies that grants every request.\<close>

definition storeApi :: "policies multiApi" where
  "storeApi =
     \<lparr>ma_create = (\<lambda>w ns pol. (w @ [(ns, pol)], Inr pol)), ma_deleteAll = (\<lambda>w ns. (filter (\<lambda>p. fst p \<noteq> ns) w, Inr ())),
      ma_list = (\<lambda>w ns. Inr (map snd (filter (\<lambda>p. fst p = ns) w))), ma_tick = (\<lambda>n w. w)\<rparr>"

definition policiesOf :: "policyTest \<Rightarrow> policies" where "policiesOf t = fst (makePolicies storeApi (pt_Policies t) [])"

text \<open>Port, protocol and family of a connection depend on the options of the tests alone, and these keep the destination.\<close>

definition traffic :: "matcher \<Rightarrow> string \<times> string \<times> string" where
  "traffic m = (rm_destinationPort m, rm_protocol m, rm_ipFamily m)"

definition trafficOf :: "reachOpt list \<Rightarrow> string \<times> string \<times> string" where
  "trafficOf opts = traffic (fold (\<lambda>opt m. opt m) opts
     \<lparr>rm_destinationPod = noPod, rm_destinationPort = portString port5555, rm_destinationAddress = [],
      rm_protocol = ProtocolTCP, rm_ipFamily = IPv4Protocol\<rparr>)"

definition protocols :: "string set" where "protocols = {ProtocolTCP, ProtocolUDP, ProtocolSCTP}"

definition uniform :: "reachOpt list \<Rightarrow> bool" where
  "uniform opts \<longleftrightarrow> (\<forall>m m'. traffic m = traffic m' \<longrightarrow>
     traffic (fold (\<lambda>opt m. opt m) opts m) = traffic (fold (\<lambda>opt m. opt m) opts m')) \<and>
     (\<forall>m. rm_destinationPod (fold (\<lambda>opt m. opt m) opts m) = rm_destinationPod m) \<and>
     (\<forall>m. rm_protocol m \<in> protocols \<longrightarrow> rm_protocol (fold (\<lambda>opt m. opt m) opts m) \<in> protocols)"

lemmas opt_defs = OnPort_def ViaTCP_def ViaUDP_def ViaSCTP_def ViaIPv4_def ViaIPv6_def

lemma uniform_options [simp]:
  "uniform []"
  "uniform opts \<Longrightarrow> uniform (OnPort q # opts)" "uniform opts \<Longrightarrow> uniform (ViaTCP # opts)" "uniform opts \<Longrightarrow> uniform (ViaUDP # opts)"
  "uniform opts \<Longrightarrow> uniform (ViaSCTP # opts)" "uniform opts \<Longrightarrow> uniform (ViaIPv4 # opts)" "uniform opts \<Longrightarrow> uniform (ViaIPv6 # opts)"
  by (simp_all add: uniform_def traffic_def opt_defs protocols_def)

lemma Reach_traffic: "uniform opts \<Longrightarrow> traffic (Reach E p opts) = trafficOf opts"
  unfolding uniform_def trafficOf_def by (simp add: Reach_def Let_def traffic_def)

lemmas each_test = denyToA_def denyNamespace_def allowLabelled_def allowNamespace_def allowOr_def allowAnd_def denyFromA_def allowFromA_def
  stacked_def stackedPorts_def onlyTcp_def onlyUdp_def onlySctp_def tcpAndUdp_def udpFromAny_def families_def

lemma tests_uniform: "t \<in> set policyTests \<Longrightarrow> list_all (\<lambda>(s, b, d, opts). uniform opts) (expectations sctp t)"
  by (auto simp: policyTests_def each_test plainTest_def expectations_def)

text \<open>Every expectation of the tests is what the documentation of policies says.\<close>

definition documented :: "policies \<Rightarrow> expectation \<Rightarrow> bool" where
  "documented pols e \<longleftrightarrow> (case e of (s, b, d, opts) \<Rightarrow> case trafficOf opts of (port, protocol, family) \<Rightarrow> connects pols s d port protocol = b)"

lemma ports_differ: "portString port5555 \<noteq> portString port6666" "portString port6666 \<noteq> portString port5555"
  using natStr_inj [of 5555 6666] natStr_inj [of 6666 5555] by (auto simp: port5555_def port6666_def Itoa_def)

lemma namespaces_differ: "nsX \<noteq> nsY" "nsY \<noteq> nsX" "nsX \<noteq> nsZ" "nsZ \<noteq> nsX" "nsY \<noteq> nsZ" "nsZ \<noteq> nsY"
  by (simp_all add: nsX_def nsY_def nsZ_def)

lemma protocols_differ:
  "ProtocolTCP \<noteq> ProtocolUDP" "ProtocolUDP \<noteq> ProtocolTCP" "ProtocolTCP \<noteq> ProtocolSCTP" "ProtocolSCTP \<noteq> ProtocolTCP"
  "ProtocolUDP \<noteq> ProtocolSCTP" "ProtocolSCTP \<noteq> ProtocolUDP"
  by (simp_all add: ProtocolTCP_def ProtocolUDP_def ProtocolSCTP_def)

lemma directions_differ: "PolicyTypeIngress \<noteq> PolicyTypeEgress" "PolicyTypeEgress \<noteq> PolicyTypeIngress"
  by (simp_all add: PolicyTypeIngress_def PolicyTypeEgress_def)

lemmas pods = xA_def xB_def xC_def yA_def yB_def yC_def zA_def zB_def zC_def

lemmas store_rules = policiesOf_def storeApi_def MakeMultiNetworkPolicy_def expectOk_def ingressToA_def peerRule_def portRule_def
  appendIfNotPresent_def podPeer_def namespacePeer_def podLabel_def labelled_def oneOf_def anyPod_def

lemmas meaning = documented_def connects_def allowedBy_def isolating_def ruleAllows_def peerMatches_def selMatches_def podLabels_def
  namespaceLabelsOf_def trafficOf_def traffic_def opt_defs

lemmas by_documentation = plainTest_def store_rules meaning pods ports_differ namespaces_differ protocols_differ directions_differ

definition asDocumented :: "policyTest \<Rightarrow> bool" where
  "asDocumented t \<longleftrightarrow> list_all (documented (policiesOf t)) (pt_Expect t @ pt_ExpectSctp t)"

lemma denials_documented: "asDocumented denyToA" "asDocumented denyNamespace" "asDocumented denyFromA"
  by (simp_all add: asDocumented_def denyToA_def denyNamespace_def denyFromA_def by_documentation)

lemma allowances_documented:
  "asDocumented allowLabelled" "asDocumented allowNamespace" "asDocumented allowOr" "asDocumented allowAnd" "asDocumented allowFromA"
  "asDocumented families"
  by (simp_all add: asDocumented_def allowLabelled_def allowNamespace_def allowOr_def allowAnd_def allowFromA_def families_def by_documentation)

lemma stacks_documented: "asDocumented stacked" "asDocumented stackedPorts"
  by (simp_all add: asDocumented_def stacked_def stackedPorts_def by_documentation)

lemma ports_documented:
  "asDocumented onlyTcp" "asDocumented onlyUdp" "asDocumented onlySctp" "asDocumented tcpAndUdp" "asDocumented udpFromAny"
  by (simp_all add: asDocumented_def onlyTcp_def onlyUdp_def onlySctp_def tcpAndUdp_def udpFromAny_def by_documentation)

lemma tests_documented: "t \<in> set policyTests \<Longrightarrow> asDocumented t"
  by (auto simp: policyTests_def denials_documented allowances_documented stacks_documented ports_documented)

section \<open>Running the suite on a cluster\<close>

text \<open>
  A cluster that keeps the policies \<open>L\<close> and answers the matcher with the verdict \<open>V\<close> on them.
\<close>

definition keepsPolicies :: "'w multiApi \<Rightarrow> ('w \<Rightarrow> policies) \<Rightarrow> bool" where
  "keepsPolicies M L \<longleftrightarrow>
     (\<forall>w ns pol. \<exists>w' pol'. ma_create M w ns pol = (w', Inr pol') \<and> L w' = L w @ [(ns, pol)]) \<and>
     (\<forall>w ns. \<exists>w'. ma_deleteAll M w ns = (w', Inr ()) \<and> L w' = filter (\<lambda>p. fst p \<noteq> ns) (L w)) \<and>
     (\<forall>w ns. ma_list M w ns = Inr (map snd (filter (\<lambda>p. fst p = ns) (L w)))) \<and>
     (\<forall>n w. L (ma_tick M n w) = L w)"

type_synonym verdict = "policies \<Rightarrow> podKey \<Rightarrow> podKey \<Rightarrow> string \<Rightarrow> string \<Rightarrow> bool"

definition answers :: "'w asks \<Rightarrow> 'w reachEnv \<Rightarrow> (podKey \<Rightarrow> Pod) \<Rightarrow> ('w \<Rightarrow> policies) \<Rightarrow> verdict \<Rightarrow> bool" where
  "answers ask E P L V \<longleftrightarrow>
     (\<forall>w s d opts. uniform opts \<longrightarrow> (\<exists>w'. ask w (Reach E (P d) opts) (P s) =
        (w', Inr (V (L w) s d (rm_destinationPort (Reach E (P d) opts)) (rm_protocol (Reach E (P d) opts)))) \<and> L w' = L w))"

lemma clean_one:
  assumes "keepsPolicies M L"
  shows "\<exists>w'. cleanMultiNetworkPoliciesFromNamespace M ns w = (w', Inr ()) \<and> L w' = filter (\<lambda>p. fst p \<noteq> ns) (L w)"
proof -
  obtain w' where d: "ma_deleteAll M w ns = (w', Inr ())" "L w' = filter (\<lambda>p. fst p \<noteq> ns) (L w)"
    using assms unfolding keepsPolicies_def by blast
  have "filter (\<lambda>p. fst p = ns) (L w') = []" unfolding d(2) by simp
  then have empty: "ma_list M w' ns = Inr []" using assms unfolding keepsPolicies_def by simp
  have "eventuallyLoop tk (\<lambda>w. case ma_list M w ns of Inl e \<Rightarrow> Inl (Panic ''Unexpected error'') | Inr items \<Rightarrow> Inr (items = [])) n w' = (w', Inr ())"
    for tk n using empty by (cases n) simp_all
  then show ?thesis using d
    by (simp add: cleanMultiNetworkPoliciesFromNamespace_def expectOk_def Eventually_def)
qed

definition testNamespaces :: "string list" where "testNamespaces = [nsX, nsY, nsZ]"

lemma clean_all:
  assumes "keepsPolicies M L"
  shows "\<exists>w'. cleanPolicies M w = (w', Inr ()) \<and> L w' = filter (\<lambda>p. fst p \<notin> set testNamespaces) (L w)"
proof -
  obtain w1 where w1: "cleanMultiNetworkPoliciesFromNamespace M nsX w = (w1, Inr ())" "L w1 = filter (\<lambda>p. fst p \<noteq> nsX) (L w)"
    using clean_one [OF assms] by blast
  obtain w2 where w2: "cleanMultiNetworkPoliciesFromNamespace M nsY w1 = (w2, Inr ())" "L w2 = filter (\<lambda>p. fst p \<noteq> nsY) (L w1)"
    using clean_one [OF assms] by blast
  obtain w3 where w3: "cleanMultiNetworkPoliciesFromNamespace M nsZ w2 = (w3, Inr ())" "L w3 = filter (\<lambda>p. fst p \<noteq> nsZ) (L w2)"
    using clean_one [OF assms] by blast
  show ?thesis using w1 w2 w3 by (simp add: cleanPolicies_def expectOk_def testNamespaces_def conj_ac)
qed

text \<open>Creating is the last option of every policy; the policies are then added as a store adds them.\<close>

fun createdLast :: "testOpt list \<Rightarrow> bool" where
  "createdLast [] = True"
| "createdLast (opt # opts) = (opts = [] \<or> (case opt of CreateInNamespace ns \<Rightarrow> False | _ \<Rightarrow> True) \<and> createdLast opts)"

lemma applyOpts_added:
  assumes "keepsPolicies M L" and "createdLast opts" and "L w = X @ ps"
  shows "\<exists>w' r ps' r'. applyOpts (ma_create M) opts pol w = (w', Inr r) \<and> applyOpts (ma_create storeApi) opts pol ps = (ps', Inr r') \<and> L w' = X @ ps'"
  using assms(2,3)
proof (induction opts arbitrary: pol w ps)
  case (Cons opt opts)
  show ?case
  proof (cases opt)
    case (CreateInNamespace ns)
    with Cons.prems have none: "opts = []" by auto
    obtain w' pol' where "ma_create M w ns pol = (w', Inr pol')" "L w' = L w @ [(ns, pol)]"
      using assms(1) unfolding keepsPolicies_def by blast
    with CreateInNamespace none Cons.prems show ?thesis by (simp add: storeApi_def)
  qed (use Cons in \<open>auto\<close>)
qed simp

lemma makePolicies_added:
  assumes "keepsPolicies M L" and "list_all createdLast policies" and "L w = X @ ps"
  shows "\<exists>w' ps'. makePolicies M policies w = (w', Inr ()) \<and> makePolicies storeApi policies ps = (ps', Inr ()) \<and> L w' = X @ ps'"
  using assms(2,3)
proof (induction policies arbitrary: w ps)
  case (Cons opts policies)
  let ?p0 = "\<lparr>mnp_GenerateName = ''test-multinetwork-policy-'',
    mnp_Annotations = [(''k8s.v1.cni.cncf.io/policy-for'', TestNetworkNamespacedName)], mnp_PodSelector = anyPod, mnp_PolicyTypes = [],
    mnp_Ingress = [], mnp_Egress = []\<rparr> :: testPolicy"
  from Cons.prems have "createdLast opts" by simp
  from applyOpts_added [OF assms(1) this Cons.prems(2), of ?p0] obtain w1 r ps1 r' where
    one: "applyOpts (ma_create M) opts ?p0 w = (w1, Inr r)" "applyOpts (ma_create storeApi) opts ?p0 ps = (ps1, Inr r')" "L w1 = X @ ps1"
    by blast
  from Cons.IH [of w1 ps1] Cons.prems one(3) obtain w2 ps2 where
    "makePolicies M policies w1 = (w2, Inr ())" "makePolicies storeApi policies ps1 = (ps2, Inr ())" "L w2 = X @ ps2" by auto
  with one show ?case by (simp add: MakeMultiNetworkPolicy_def expectOk_def)
qed simp

text \<open>Polling a cluster that gives the same answer every time.\<close>

lemma matchLoop_steady:
  assumes "\<And>w. L w = ps \<Longrightarrow> \<exists>w'. ask w = (w', Inr v) \<and> L w' = ps" and "\<And>w. L (tick w) = L w" and "L w = ps"
  shows "\<exists>w' r. matchLoop tick ask should n w = (w', r) \<and> L w' = ps \<and> (r = Inr () \<longleftrightarrow> v = should)"
  using assms(3)
proof (induction n arbitrary: w)
  case 0
  then obtain w' where "ask w = (w', Inr v)" "L w' = ps" using assms(1) by blast
  then show ?case by simp
next
  case (Suc n)
  then obtain w' where w': "ask w = (w', Inr v)" "L w' = ps" using assms(1) by blast
  with assms(2) have "L (tick w') = ps" by simp
  from Suc.IH [OF this] w' show ?case by (cases "v = should") auto
qed

definition asExpected :: "verdict \<Rightarrow> policies \<Rightarrow> expectation \<Rightarrow> bool" where
  "asExpected V pols e \<longleftrightarrow> (case e of (s, b, d, opts) \<Rightarrow> case trafficOf opts of (port, protocol, family) \<Rightarrow> V pols s d port protocol = b)"

lemma expectReach_verdict:
  assumes "keepsPolicies M L" and "answers ask E P L V" and "L w = pols" and "e = (s, b, d, opts)" and "uniform opts"
  shows "\<exists>w' r. expectReach M ask E P e w = (w', r) \<and> L w' = pols \<and> (r = Inr () \<longleftrightarrow> asExpected V pols e)"
proof -
  obtain port protocol family where tr: "trafficOf opts = (port, protocol, family)" by (cases "trafficOf opts")
  with Reach_traffic [OF assms(5), of E "P d"] have m: "rm_destinationPort (Reach E (P d) opts) = port" "rm_protocol (Reach E (P d) opts) = protocol"
    by (simp_all add: traffic_def)
  have "\<exists>w'. ask w (Reach E (P d) opts) (P s) = (w', Inr (V pols s d port protocol)) \<and> L w' = pols" if "L w = pols" for w
    using assms(2,5) that unfolding answers_def m [symmetric] by metis
  moreover have "L (ma_tick M 1 w) = L w" for w using assms(1) by (simp add: keepsPolicies_def)
  ultimately have "\<exists>w' r. matchLoop (ma_tick M 1) (\<lambda>w. ask w (Reach E (P d) opts) (P s)) b 29 w = (w', r) \<and> L w' = pols \<and>
      (r = Inr () \<longleftrightarrow> V pols s d port protocol = b)"
    using assms(3) by (intro matchLoop_steady)
  then show ?thesis unfolding expectReach_def assms(4) asExpected_def tr prod.case Let_def .
qed

lemma expectAll_verdict:
  assumes "keepsPolicies M L" and "answers ask E P L V" and "list_all (\<lambda>(s, b, d, opts). uniform opts) es" and "L w = pols"
  shows "\<exists>w' r. expectAll M ask E P es w = (w', r) \<and> (r = Inr () \<longleftrightarrow> list_all (asExpected V pols) es)"
  using assms(3,4)
proof (induction es arbitrary: w)
  case (Cons e es)
  obtain s b d opts where e: "e = (s, b, d, opts)" by (cases e)
  with Cons.prems have "uniform opts" by simp
  from expectReach_verdict [OF assms(1,2) Cons.prems(2) e this] obtain w1 r where
    one: "expectReach M ask E P e w = (w1, r)" "L w1 = pols" "r = Inr () \<longleftrightarrow> asExpected V pols e" by blast
  from Cons.IH [of w1] Cons.prems one(2) obtain w2 r2 where
    "expectAll M ask E P es w1 = (w2, r2)" "r2 = Inr () \<longleftrightarrow> list_all (asExpected V pols) es" by auto
  with one show ?case by (auto simp: expectOk_def split: sum.splits go_error.splits)
qed simp

section \<open>What the suite tells\<close>

lemma createdLast_tests: "t \<in> set policyTests \<Longrightarrow> list_all createdLast (pt_Policies t)"
  by (auto simp: policyTests_def each_test plainTest_def ingressToA_def)

text \<open>The setup has gone well, and the test is not skipped.\<close>

definition ready :: "suiteState \<Rightarrow> bool" where
  "ready S \<longleftrightarrow> su_crdPresent S = Inr True \<and> \<not> su_discovery S \<and> su_sriovEnabled S \<and> su_initialized S"

definition skipped :: "suiteState \<Rightarrow> policyTest \<Rightarrow> bool" where
  "skipped S t \<longleftrightarrow> pt_Skip t \<noteq> [] \<or> pt_NeedsSctp t \<and> \<not> su_sctpEnabled S"

lemma runTestWith_outcome:
  assumes M: "keepsPolicies M L" and ask: "answers ask E P L V" and S: "ready S" and t: "t \<in> set policyTests"
  shows "\<exists>X. (\<forall>(ns, pol)\<in>set X. ns \<notin> set testNamespaces) \<and>
    snd (runTestWith M ask E P S t w) =
      (if skipped S t then Skipping
       else if list_all (asExpected V (X @ policiesOf t)) (expectations (su_sctpEnabled S) t) then Succeeded else Failing)"
proof -
  let ?X = "filter (\<lambda>p. fst p \<notin> set testNamespaces) (L w)"
  obtain w1 where w1: "cleanPolicies M w = (w1, Inr ())" "L w1 = ?X" using clean_all [OF M] by blast
  from makePolicies_added [OF M createdLast_tests [OF t], of w1 ?X "[]"] w1 obtain w2 where
    w2: "makePolicies M (pt_Policies t) w1 = (w2, Inr ())" "L w2 = ?X @ policiesOf t" by (auto simp: policiesOf_def)
  from expectAll_verdict [OF M ask tests_uniform [OF t, of "su_sctpEnabled S"] w2(2)] obtain w3 r where
    r: "expectAll M ask E P (expectations (su_sctpEnabled S) t) w2 = (w3, r)"
      "r = Inr () \<longleftrightarrow> list_all (asExpected V (?X @ policiesOf t)) (expectations (su_sctpEnabled S) t)" by blast
  have "\<forall>(ns, pol)\<in>set ?X. ns \<notin> set testNamespaces" by auto
  moreover have "snd (runTestWith M ask E P S t w) = (if skipped S t then Skipping else snd (outcomeOf (w3, r)))"
    using S w1(1) w2(1) r(1) by (auto simp: runTestWith_def ready_def skipped_def expectOk_def)
  moreover have "snd (outcomeOf (w3, r)) = (if r = Inr () then Succeeded else Failing)" by (cases r) (simp_all add: outcomeOf_def)
  ultimately show ?thesis using r(2) by (intro exI [of _ ?X]) simp
qed

text \<open>Policies of other namespaces do not matter between pods of the test namespaces.\<close>

lemma connects_others:
  assumes "\<forall>(ns, pol)\<in>set X. ns \<notin> set testNamespaces" and "fst s \<in> set testNamespaces" and "fst d \<in> set testNamespaces"
  shows "connects (X @ pols) s d port protocol \<longleftrightarrow> connects pols s d port protocol"
proof -
  have "filter (isolating direction p) X = []" if "fst p \<in> set testNamespaces" for direction p
    using assms(1) that by (auto simp: filter_empty_conv isolating_def)
  then show ?thesis using assms(2,3) by (simp add: connects_def allowedBy_def)
qed

lemma tests_within:
  "t \<in> set policyTests \<Longrightarrow> list_all (\<lambda>(s, b, d, opts). fst s \<in> set testNamespaces \<and> fst d \<in> set testNamespaces) (expectations sctp t)"
  by (auto simp: policyTests_def each_test plainTest_def expectations_def testNamespaces_def pods)

text \<open>Every test that has expectations of its own expects some connection not to be possible.\<close>

lemma tests_deny: "t \<in> set policyTests \<Longrightarrow> list_ex (\<lambda>(s, b, d, opts). \<not> b) (expectations sctp t)"
  by (auto simp: policyTests_def each_test plainTest_def expectations_def)

lemma tests_as_documented:
  assumes "t \<in> set policyTests" and "\<forall>(ns, pol)\<in>set X. ns \<notin> set testNamespaces"
  shows "list_all (asExpected connects (X @ policiesOf t)) (expectations sctp t)"
proof -
  have "asExpected connects (X @ policiesOf t) e" if e: "e \<in> set (expectations sctp t)" for e
  proof -
    obtain s b d opts where se: "e = (s, b, d, opts)" by (cases e)
    with tests_within [OF assms(1), of sctp] e have "fst s \<in> set testNamespaces" "fst d \<in> set testNamespaces"
      by (auto simp: list_all_iff)
    moreover have "documented (policiesOf t) e"
      using tests_documented [OF assms(1)] e by (auto simp: asDocumented_def list_all_iff expectations_def split: if_splits)
    ultimately show ?thesis
      using connects_others [OF assms(2)] by (simp add: se asExpected_def documented_def split: prod.splits)
  qed
  then show ?thesis by (simp add: list_all_iff)
qed

text \<open>C37. On a cluster that enforces policies as documented, every test of the suite that is not skipped passes, whatever other
  policies there are; on a cluster where policies have no effect, every such test fails.\<close>

theorem policyTests_verdict:
  assumes "keepsPolicies M L" and "answers ask E P L V" and "ready S" and "t \<in> set policyTests" and "\<not> skipped S t"
  shows "(V = connects \<longrightarrow> snd (runTestWith M ask E P S t w) = Succeeded) \<and>
    (V = (\<lambda>pols s d port protocol. True) \<longrightarrow> snd (runTestWith M ask E P S t w) = Failing)"
proof -
  obtain X where X: "\<forall>(ns, pol)\<in>set X. ns \<notin> set testNamespaces"
    and out: "snd (runTestWith M ask E P S t w) =
      (if list_all (asExpected V (X @ policiesOf t)) (expectations (su_sctpEnabled S) t) then Succeeded else Failing)"
    using runTestWith_outcome [OF assms(1-4), of w] assms(5) by auto
  obtain s d opts where no: "(s, False, d, opts) \<in> set (expectations (su_sctpEnabled S) t)"
    using tests_deny [OF assms(4), of "su_sctpEnabled S"] by (auto simp: list_ex_iff)
  have "\<not> asExpected (\<lambda>pols s d port protocol. True) (X @ policiesOf t) (s, False, d, opts)"
    by (simp add: asExpected_def split: prod.split)
  with no have "\<not> list_all (asExpected (\<lambda>pols s d port protocol. True) (X @ policiesOf t)) (expectations (su_sctpEnabled S) t)"
    unfolding list_all_iff by blast
  with out tests_as_documented [OF assms(4) X] show ?thesis by auto
qed

definition demoPod :: "podKey \<Rightarrow> Pod" where
  "demoPod k = noPod\<lparr>pod_Namespace := fst k, pod_Labels := [(''pod'', snd k)]\<rparr>"

definition keyOf :: "Pod \<Rightarrow> podKey" where
  "keyOf p = (pod_Namespace p, case mget (pod_Labels p) ''pod'' of None \<Rightarrow> [] | Some l \<Rightarrow> l)"

definition demoAsks :: "verdict \<Rightarrow> policies asks" where
  "demoAsks V w m p = (w, Inr (V w (keyOf p) (keyOf (rm_destinationPod m)) (rm_destinationPort m) (rm_protocol m)))"

definition demoReach :: "policies reachEnv" where
  "demoReach =
     \<lparr>re_getenv = (\<lambda>n. []), re_status = (\<lambda>s. Inr []), re_to4 = (\<lambda>s. True), re_rand = (\<lambda>w. (w, 0)),
      re_exec = (\<lambda>w p c cmd. (w, [], None)), re_log = (\<lambda>w p c. Inr [])\<rparr>"

definition demoSuite :: suiteState where
  "demoSuite = \<lparr>su_crdPresent = Inr True, su_discovery = False, su_sriovEnabled = True, su_initialized = True, su_sctpEnabled = True\<rparr>"

lemma store_keeps: "keepsPolicies storeApi (\<lambda>w. w)"
  by (simp add: keepsPolicies_def storeApi_def)

lemma Reach_destination: "uniform opts \<Longrightarrow> rm_destinationPod (Reach E p opts) = p"
  by (simp add: Reach_def Let_def uniform_def)

lemma demo_answers: "answers (demoAsks V) demoReach demoPod (\<lambda>w. w) V"
proof -
  have "keyOf (demoPod k) = k" for k by (simp add: keyOf_def demoPod_def)
  then show ?thesis by (simp add: answers_def demoAsks_def Reach_destination)
qed

theorem policyTests_verdict_witness:
  "snd (runTestWith storeApi (demoAsks connects) demoReach demoPod demoSuite stackedPorts []) = Succeeded \<and>
   snd (runTestWith storeApi (demoAsks (\<lambda>pols s d port protocol. True)) demoReach demoPod demoSuite onlySctp []) = Failing"
proof -
  have s: "ready demoSuite" "\<not> skipped demoSuite stackedPorts" "\<not> skipped demoSuite onlySctp"
    by (simp_all add: ready_def skipped_def demoSuite_def stackedPorts_def onlySctp_def plainTest_def)
  have t: "stackedPorts \<in> set policyTests" "onlySctp \<in> set policyTests" by (simp_all add: policyTests_def)
  from policyTests_verdict [OF store_keeps demo_answers s(1) t(1) s(2), of connects "[]"]
    policyTests_verdict [OF store_keeps demo_answers s(1) t(2) s(3), of "\<lambda>pols s d port protocol. True" "[]"]
  show ?thesis by simp
qed

section \<open>The matcher on a cluster with netcat\<close>

text \<open>
  What the matcher relies on: the source pod has the image of the tests; a connection that is allowed ends without an error and its
  message is then in the log of the server; one that is not ends with a message of a time-out, or for UDP of a refusal.
\<close>

definition netcatWorks :: "'w reachEnv \<Rightarrow> (podKey \<Rightarrow> Pod) \<Rightarrow> ('w \<Rightarrow> policies) \<Rightarrow> verdict \<Rightarrow> bool" where
  "netcatWorks E P L V \<longleftrightarrow>
     (\<forall>w. L (fst (re_rand E w)) = L w) \<and>
     (\<forall>w s d salt family port protocol. protocol \<in> protocols \<longrightarrow>
       (\<exists>img c w' out err. imageFor (re_getenv E) TestUtils = Inr img \<and> findContainerNameByImage (P s) img = Inr c \<and>
          re_exec E w (P s) c (sendCommand (P s) salt (getMultusNicIP E (P d) family) port protocol) = (w', out, err) \<and>
          L w' = L w \<and>
          (if V (L w) s d port protocol
           then err = None \<and> (\<exists>logs. re_log E w' (P d) (serverName protocol port) = Inr logs \<and> Contains logs salt)
           else err \<noteq> None \<and> doesErrorMeanNoConnectivity out protocol)))"

lemma canSendTraffic_netcat:
  assumes "netcatWorks E P L V" and "protocol \<in> protocols"
  shows "\<exists>w'. canSendTraffic E w (P s) (P d) port family protocol = (w', Inr (V (L w) s d port protocol)) \<and> L w' = L w"
proof -
  obtain w1 r where r: "re_rand E w = (w1, r)" by (cases "re_rand E w")
  with assms have w1: "L w1 = L w" unfolding netcatWorks_def by (metis fst_conv)
  obtain img c w' out err where x: "imageFor (re_getenv E) TestUtils = Inr img" "findContainerNameByImage (P s) img = Inr c"
    "re_exec E w1 (P s) c (sendCommand (P s) (natStr (r + 1000000)) (getMultusNicIP E (P d) family) port protocol) = (w', out, err)"
    "L w' = L w1"
    and v: "if V (L w1) s d port protocol
      then err = None \<and> (\<exists>logs. re_log E w' (P d) (serverName protocol port) = Inr logs \<and> Contains logs (natStr (r + 1000000)))
      else err \<noteq> None \<and> doesErrorMeanNoConnectivity out protocol"
    using assms unfolding netcatWorks_def by blast
  show ?thesis
  proof (cases "V (L w) s d port protocol")
    case True
    with v w1 obtain logs where "err = None" "re_log E w' (P d) (serverName protocol port) = Inr logs"
      "Contains logs (natStr (r + 1000000))" by auto
    with True r w1 x show ?thesis by (simp add: canSendTraffic_def)
  next
    case False
    with v w1 obtain e where "err = Some e" "doesErrorMeanNoConnectivity out protocol" by auto
    with False r w1 x show ?thesis by (simp add: canSendTraffic_def)
  qed
qed

lemma Match_answers:
  assumes "netcatWorks E P L V"
  shows "answers (\<lambda>w m p. Match E w m (Inr p)) E P L V"
  unfolding answers_def
proof (intro allI impI)
  fix w s d and opts :: "reachOpt list"
  assume u: "uniform opts"
  have "rm_protocol (Reach E (P d) opts) \<in> protocols"
    using u by (simp add: uniform_def Reach_def Let_def protocols_def)
  from canSendTraffic_netcat [OF assms this]
  show "\<exists>w'. Match E w (Reach E (P d) opts) (Inr (P s)) =
      (w', Inr (V (L w) s d (rm_destinationPort (Reach E (P d) opts)) (rm_protocol (Reach E (P d) opts)))) \<and> L w' = L w"
    by (simp add: Match_def Reach_destination [OF u])
qed

text \<open>So the suite with the matcher of the code passes on a cluster that enforces policies as documented.\<close>

lemma runPolicyTest_passes:
  assumes "keepsPolicies M L" and "netcatWorks E P L connects" and "ready S" and "t \<in> set policyTests" and "\<not> skipped S t"
  shows "snd (runPolicyTest M E P S t w) = Succeeded"
proof -
  obtain X where X: "\<forall>(ns, pol)\<in>set X. ns \<notin> set testNamespaces"
    and "snd (runPolicyTest M E P S t w) =
      (if list_all (asExpected connects (X @ policiesOf t)) (expectations (su_sctpEnabled S) t) then Succeeded else Failing)"
    using runTestWith_outcome [OF assms(1) Match_answers [OF assms(2)] assms(3,4), of w] assms(5)
    by (auto simp: runPolicyTest_def)
  with tests_as_documented [OF assms(4) X] show ?thesis by simp
qed

section \<open>Servers for the connections\<close>

text \<open>The pods run a server for every port and protocol of the tests, under the name whose log the matcher reads.\<close>

lemma serverNames:
  "serverName ProtocolTCP p = ''netcat-tcp-server-'' @ p" "serverName ProtocolUDP p = ''netcat-udp-server-'' @ p"
  "serverName ProtocolSCTP p = ''netcat-sctp-server-'' @ p"
  by (simp_all add: serverName_def ProtocolTCP_def ProtocolUDP_def ProtocolSCTP_def, code_simp+)

lemma withContainers_names:
  assumes "withContainers add pod = Inr pod'"
  shows "\<exists>p. add noPod = Inr p \<and>
    set (map pc_Name (tp_Containers pod')) = set (map pc_Name (tp_Containers pod)) \<union> set (map con_Name (pod_Containers p))"
proof -
  have "pc_Name (podContainer c) = con_Name c" for c by (simp add: podContainer_def plainContainer_def)
  then show ?thesis using assms by (auto simp: withContainers_def bind_res_Inr_iff image_Un image_image)
qed

lemma netcat_names:
  assumes "addNetcatContainers getenv sctp noPod = Inr p"
  shows "map con_Name (pod_Containers p) =
    [serverName ProtocolTCP (portString port5555), serverName ProtocolUDP (portString port5555),
     serverName ProtocolTCP (portString port6666), serverName ProtocolUDP (portString port6666)] @
    (if sctp then [serverName ProtocolSCTP (portString port5555), serverName ProtocolSCTP (portString port6666)] else [])"
  using assms
  by (auto simp: addNetcatContainers_def bind_res_Inr_iff AddTCPNetcatServerToPod_def AddUDPNetcatServerToPod_def AddSCTPNetcatServerToPod_def
      addContainer_def serverNames noPod_def split: if_splits)

lemma connectivityPod_servers:
  assumes "connectivityPod getenv ns sctp l = Inr pod" and "port \<in> {port5555, port6666}"
    and "protocol \<in> {ProtocolTCP, ProtocolUDP} \<union> (if sctp then {ProtocolSCTP} else {})"
  shows "serverName protocol (portString port) \<in> set (map pc_Name (tp_Containers pod)) \<and>
    debugContainerName \<in> set (map pc_Name (tp_Containers pod))"
proof -
  obtain pod0 pod1 pod2 where pods: "withContainers (addNetcatContainers getenv sctp)
      (RedefinePodWithNetwork (RedefineWithLabel pod0 ''pod'' l) TestNetworkNamespacedName) = Inr pod1"
    "withContainers (AddDebugContainer getenv) pod1 = Inr pod2" "tp_Containers pod = tp_Containers pod2"
    using assms(1) by (auto simp: connectivityPod_def bind_res_Inr_iff)
  from withContainers_names [OF pods(1)] obtain p where p: "addNetcatContainers getenv sctp noPod = Inr p"
    "set (map con_Name (pod_Containers p)) \<subseteq> set (map pc_Name (tp_Containers pod1))" by blast
  from withContainers_names [OF pods(2)] obtain q where q: "AddDebugContainer getenv noPod = Inr q"
    "set (map pc_Name (tp_Containers pod)) = set (map pc_Name (tp_Containers pod1)) \<union> set (map con_Name (pod_Containers q))"
    unfolding pods(3) by blast
  have "debugContainerName \<in> set (map con_Name (pod_Containers q))"
    using q(1) by (auto simp: AddDebugContainer_def addContainer_def bind_res_Inr_iff)
  moreover have "serverName protocol (portString port) \<in> set (map con_Name (pod_Containers p))"
    unfolding netcat_names [OF p(1)] using assms(2,3) by (auto split: if_splits)
  ultimately show ?thesis using p(2) q(2) by blast
qed

end
