(* ===== verification/JunitReports.thy ===== *)
theory JunitReports
  imports GoFS "HOL-Library.Product_Lexorder" "HOL-Library.Word"
begin

text \<open>
  Two commands on JUnit reports: \<^verbatim>\<open>cnf-tests/testsuites/pkg/j2html/j2html.go\<close> prints a report as HTML, and
  \<^verbatim>\<open>cnf-tests/testsuites/pkg/junit-merger/junit-merger.go\<close> merges reports.

  XML and the HTML template engine are parameters. The counters of a page count list elements and are natural numbers; the
  counters that the merger adds come from files and are 64-bit words. The addition of times is a parameter, since
  floating-point addition is not associative.
\<close>

section \<open>Reports in HTML\<close>

record TestCase =
  tc_Name :: string
  tc_ClassName :: string
  tc_Failure :: "(string \<times> string) option"
  tc_Skipped :: "string option"
  tc_SystemErr :: string

record TestSuite =
  ts_Name :: string
  ts_TestCases :: "TestCase list"

record SuiteStats =
  st_Total :: nat
  st_Failed :: nat
  st_Passed :: nat
  st_Skipped :: nat

record htmlReport =
  hr_Suites :: "TestSuite list"
  hr_SuiteStats :: "SuiteStats list"
  hr_TotalStats :: SuiteStats

definition noStats :: SuiteStats where
  "noStats = \<lparr>st_Total = 0, st_Failed = 0, st_Passed = 0, st_Skipped = 0\<rparr>"

definition countCase :: "SuiteStats \<Rightarrow> TestCase \<Rightarrow> SuiteStats" where
  "countCase st testCase =
     (let st = st\<lparr>st_Total := st_Total st + 1\<rparr> in
      if tc_Failure testCase \<noteq> None then st\<lparr>st_Failed := st_Failed st + 1\<rparr>
      else if tc_Skipped testCase \<noteq> None then st\<lparr>st_Skipped := st_Skipped st + 1\<rparr>
      else st\<lparr>st_Passed := st_Passed st + 1\<rparr>)"

definition suiteStats :: "TestSuite \<Rightarrow> SuiteStats" where
  "suiteStats suite = foldl countCase noStats (ts_TestCases suite)"

definition addStats :: "SuiteStats \<Rightarrow> SuiteStats \<Rightarrow> SuiteStats" where
  "addStats tot st =
     \<lparr>st_Total = st_Total tot + st_Total st, st_Failed = st_Failed tot + st_Failed st,
      st_Passed = st_Passed tot + st_Passed st, st_Skipped = st_Skipped tot + st_Skipped st\<rparr>"

definition allStats :: "TestSuite list \<Rightarrow> SuiteStats list \<times> SuiteStats" where
  "allStats suites = foldl (\<lambda>(ss, tot) suite. (ss @ [suiteStats suite], addStats tot (suiteStats suite))) ([], noStats) suites"

definition caseLess :: "TestCase \<Rightarrow> TestCase \<Rightarrow> bool" where
  "caseLess a b \<longleftrightarrow>
     (let firstFailed = tc_Failure a \<noteq> None; secondFailed = tc_Failure b \<noteq> None;
          firstSkipped = tc_Skipped a \<noteq> None; secondSkipped = tc_Skipped b \<noteq> None in
      if firstFailed \<noteq> secondFailed then firstFailed
      else if firstSkipped \<noteq> secondSkipped then secondSkipped
      else tc_Name a < tc_Name b)"

text \<open>\<^verbatim>\<open>sort.SliceStable\<close>: elements that are not less than each other keep their order.\<close>

fun insertStable :: "('a \<Rightarrow> 'a \<Rightarrow> bool) \<Rightarrow> 'a \<Rightarrow> 'a list \<Rightarrow> 'a list" where
  "insertStable lt x [] = [x]"
| "insertStable lt x (y # ys) = (if lt y x then y # insertStable lt x ys else x # y # ys)"

definition SliceStable :: "('a \<Rightarrow> 'a \<Rightarrow> bool) \<Rightarrow> 'a list \<Rightarrow> 'a list" where
  "SliceStable lt xs = foldr (insertStable lt) xs []"

definition sortSuite :: "TestSuite \<Rightarrow> TestSuite" where
  "sortSuite suite = suite\<lparr>ts_TestCases := SliceStable caseLess (ts_TestCases suite)\<rparr>"

definition htmlData :: "TestSuite list \<Rightarrow> htmlReport" where
  "htmlData suites =
     (let (ss, tot) = allStats suites in
      \<lparr>hr_Suites = map sortSuite suites, hr_SuiteStats = ss, hr_TotalStats = tot\<rparr>)"

text \<open>The choices of the template: the classes of a suite and of a row, and the text of a row.\<close>

definition suiteClass :: "SuiteStats \<Rightarrow> string" where
  "suiteClass st =
     (if 0 < st_Failed st then ''collapsible-failed''
      else if st_Total st = st_Skipped st then ''collapsible-skipped'' else ''collapsible-passed'')"

definition collapsed :: "SuiteStats \<Rightarrow> bool" where
  "collapsed st \<longleftrightarrow> st_Skipped st = st_Total st"

definition caseClass :: "TestCase \<Rightarrow> string" where
  "caseClass c = (if tc_Failure c \<noteq> None then ''failed'' else if tc_Skipped c \<noteq> None then ''skipped'' else ''passed'')"

definition caseDetails :: "TestCase \<Rightarrow> string list" where
  "caseDetails c =
     (case tc_Failure c of
        Some (message, data) \<Rightarrow> [message, data]
      | None \<Rightarrow> (case tc_Skipped c of Some message \<Rightarrow> [message] | None \<Rightarrow> [''Test passed.'']))
     @ (if tc_SystemErr c \<noteq> [] then [tc_SystemErr c] else [])"

text \<open>The command. A rendering gives what is written and the error, if any; the output is a new state of the files and
  what goes to the standard output.\<close>

definition openRead :: "fsys \<Rightarrow> string \<Rightarrow> string res" where
  "openRead fs p =
     (case os_Stat fs p of
        Inl e \<Rightarrow> Inl (Panic (''Failed to open input file: '' @ pathError ''open'' p e))
      | Inr NDir \<Rightarrow> Inl (Panic (''Failed to read input: '' @ pathError ''read'' p EISDIR))
      | Inr (NFile s) \<Rightarrow> Inr s)"

definition j2htmlMain :: "(string \<Rightarrow> string + TestSuite list) \<Rightarrow> (htmlReport \<Rightarrow> string \<times> string option) \<Rightarrow> string \<Rightarrow> string \<Rightarrow>
    string \<Rightarrow> fsys \<Rightarrow> fsys \<times> string res" where
  "j2htmlMain unmarshal execute stdin inputFilePath outputFilePath fs =
     (case (if inputFilePath \<noteq> [] then openRead fs inputFilePath else Inr stdin) of
        Inl e \<Rightarrow> (fs, Inl e)
      | Inr xmlData \<Rightarrow>
          (case unmarshal xmlData of
             Inl err \<Rightarrow> (fs, Inl (Panic err))
           | Inr suites \<Rightarrow>
               (let (out, failed) = execute (htmlData suites);
                    finish = (\<lambda>stdout. case failed of
                        None \<Rightarrow> Inr stdout
                      | Some err \<Rightarrow> Inl (Panic (''Failed to execute template: '' @ err))) in
                if outputFilePath = [] then (fs, finish out)
                else case os_WriteFile fs outputFilePath out of
                  Inl e \<Rightarrow> (fs, Inl (Panic (''Failed to create output file: '' @ pathError ''open'' outputFilePath e)))
                | Inr fs' \<Rightarrow> (fs', finish []))))"

section \<open>Merging reports\<close>

record ('t, 'd) JUnitTestSuite =
  js_Tests :: "64 word"
  js_Failures :: "64 word"
  js_Errors :: "64 word"
  js_Time :: 't
  js_Data :: 'd

record ('t, 'd) JUnitTestSuites =
  jr_Tests :: "64 word"
  jr_Disabled :: "64 word"
  jr_Errors :: "64 word"
  jr_Failures :: "64 word"
  jr_Time :: 't
  jr_TestSuites :: "('t, 'd) JUnitTestSuite list"

definition decodeSuite :: "(string \<Rightarrow> string + ('t, 'd) JUnitTestSuites) \<Rightarrow> fsys \<Rightarrow> string \<Rightarrow> ('t, 'd) JUnitTestSuites res" where
  "decodeSuite decode fs fileName =
     (case os_Stat fs fileName of
        Inl e \<Rightarrow> Inl (Error (''failed to open file '' @ fileName @ '': '' @ pathError ''open'' fileName e))
      | Inr n \<Rightarrow>
          (case (case n of NDir \<Rightarrow> Inl (pathError ''read'' fileName EISDIR) | NFile s \<Rightarrow> decode s) of
             Inl err \<Rightarrow> Inl (Error (''failed to decode suite '' @ fileName @ '': '' @ err))
           | Inr suites \<Rightarrow> Inr suites))"

text \<open>\<^verbatim>\<open>filepath.Glob\<close> gives nil if nothing matches.\<close>

definition loadPattern :: "(fsys \<Rightarrow> string \<Rightarrow> string + string list) \<Rightarrow> (string \<Rightarrow> string + ('t, 'd) JUnitTestSuites) \<Rightarrow> fsys \<Rightarrow>
    string \<Rightarrow> ('t, 'd) JUnitTestSuites list res" where
  "loadPattern glob decode fs junitFile =
     (let cleaned = Clean junitFile in
      case glob fs cleaned of
        Inl e \<Rightarrow> Inl (Error e)
      | Inr files \<Rightarrow>
          if files = [] then Inl (Error (''couldn't find files for '' @ cleaned))
          else mapM_res (decodeSuite decode fs) files)"

definition loadJUnitFiles :: "(fsys \<Rightarrow> string \<Rightarrow> string + string list) \<Rightarrow> (string \<Rightarrow> string + ('t, 'd) JUnitTestSuites) \<Rightarrow> fsys \<Rightarrow>
    string list \<Rightarrow> ('t, 'd) JUnitTestSuites list res" where
  "loadJUnitFiles glob decode fs junitFiles =
     (if junitFiles = [] then Inl (Error ''no JUnit files provided'')
      else bind_res (mapM_res (loadPattern glob decode fs) junitFiles) (\<lambda>rs. Inr (concat rs)))"

definition mergeSuite :: "('t \<Rightarrow> 't \<Rightarrow> 't) \<Rightarrow> ('t, 'd) JUnitTestSuites \<Rightarrow> ('t, 'd) JUnitTestSuite \<Rightarrow> ('t, 'd) JUnitTestSuites" where
  "mergeSuite tadd result suite =
     result\<lparr>jr_TestSuites := jr_TestSuites result @ [suite], jr_Time := tadd (jr_Time result) (js_Time suite),
       jr_Tests := jr_Tests result + js_Tests suite, jr_Failures := jr_Failures result + js_Failures suite,
       jr_Errors := jr_Errors result + js_Errors suite\<rparr>"

definition emptySuites :: "'t \<Rightarrow> ('t, 'd) JUnitTestSuites" where
  "emptySuites zero = \<lparr>jr_Tests = 0, jr_Disabled = 0, jr_Errors = 0, jr_Failures = 0, jr_Time = zero, jr_TestSuites = []\<rparr>"

definition mergeJUnitFiles :: "('t \<Rightarrow> 't \<Rightarrow> 't) \<Rightarrow> 't \<Rightarrow> ('t, 'd) JUnitTestSuites list \<Rightarrow> ('t, 'd) JUnitTestSuites" where
  "mergeJUnitFiles tadd zero suitesSlice =
     foldl (\<lambda>result suites. foldl (mergeSuite tadd) result (jr_TestSuites suites)) (emptySuites zero) suitesSlice"

text \<open>The header is written without looking at the error; the encoder gives what it writes and the error, if any.\<close>

definition writeJUnitFile :: "(('t, 'd) JUnitTestSuites \<Rightarrow> string \<times> string option) \<Rightarrow> ('t, 'd) JUnitTestSuites \<Rightarrow> string \<times> string option" where
  "writeJUnitFile encode suite =
     (let (out, err) = encode suite in
      (''<?xml version='' @ [CHR 0x22] @ ''1.0'' @ [CHR 0x22] @ '' encoding='' @ [CHR 0x22] @ ''UTF-8'' @ [CHR 0x22] @ ''?>'' @ [CHR 0x0A] @ out, err))"

text \<open>\<open>None\<close> is the standard output; a file is created empty.\<close>

definition createOutputWriter :: "fsys \<Rightarrow> string \<Rightarrow> fsys option os" where
  "createOutputWriter fs output =
     (if output = ''-'' \<or> output = [] then Inr None
      else case os_WriteFile fs output [] of Inl e \<Rightarrow> Inl e | Inr fs' \<Rightarrow> Inr (Some fs'))"

definition mergerMain :: "(fsys \<Rightarrow> string \<Rightarrow> string + string list) \<Rightarrow> (string \<Rightarrow> string + ('t, 'd) JUnitTestSuites) \<Rightarrow>
    (('t, 'd) JUnitTestSuites \<Rightarrow> string \<times> string option) \<Rightarrow> ('t \<Rightarrow> 't \<Rightarrow> 't) \<Rightarrow> 't \<Rightarrow> string \<Rightarrow> string list \<Rightarrow> fsys \<Rightarrow> fsys \<times> string res" where
  "mergerMain glob decode encode tadd zero output junitFiles fs =
     (case loadJUnitFiles glob decode fs junitFiles of
        Inl (Error e) \<Rightarrow> (fs, Inl (Panic (''Could not load JUnit files: '' @ e)))
      | Inl (Panic e) \<Rightarrow> (fs, Inl (Panic e))
      | Inr suites \<Rightarrow>
          (let (out, failed) = writeJUnitFile encode (mergeJUnitFiles tadd zero suites);
               finish = (\<lambda>stdout. case failed of
                   None \<Rightarrow> Inr stdout
                 | Some err \<Rightarrow> Inl (Panic (''Failed to write the merged junit report: '' @ err))) in
           case createOutputWriter fs output of
             Inl e \<Rightarrow> (fs, Inl (Panic (''Failed to create the output file: '' @ pathError ''open'' output e)))
           | Inr None \<Rightarrow> (fs, finish out)
           | Inr (Some fs') \<Rightarrow> (setNode (resolve fs' output) (NFile out) fs', finish [])))"

section \<open>The page\<close>

text \<open>The comparison of the sort is the one of keys, so the sort is the stable sort of the library.\<close>

definition caseKey :: "TestCase \<Rightarrow> bool \<times> bool \<times> string" where
  "caseKey c = (tc_Failure c = None, tc_Skipped c \<noteq> None, tc_Name c)"

lemma caseLess_key: "caseLess a b \<longleftrightarrow> caseKey a < caseKey b"
  by (auto simp: caseLess_def caseKey_def less_prod_def Let_def)

lemma insertStable_insort: "insertStable caseLess x ys = insort_key caseKey x ys"
  by (induction ys) (auto simp: caseLess_key)

lemma SliceStable_sort: "SliceStable caseLess cs = sort_key caseKey cs"
proof -
  have "insertStable caseLess = insort_key caseKey" by (intro ext insertStable_insort)
  then show ?thesis by (simp add: SliceStable_def sort_key_def)
qed

definition failedCase :: "TestCase \<Rightarrow> bool" where "failedCase c \<longleftrightarrow> tc_Failure c \<noteq> None"
definition skippedCase :: "TestCase \<Rightarrow> bool" where "skippedCase c \<longleftrightarrow> tc_Failure c = None \<and> tc_Skipped c \<noteq> None"
definition passedCase :: "TestCase \<Rightarrow> bool" where "passedCase c \<longleftrightarrow> tc_Failure c = None \<and> tc_Skipped c = None"

lemma foldl_countCase:
  "foldl countCase st cs =
     \<lparr>st_Total = st_Total st + length cs, st_Failed = st_Failed st + length (filter failedCase cs),
      st_Passed = st_Passed st + length (filter passedCase cs), st_Skipped = st_Skipped st + length (filter skippedCase cs)\<rparr>"
  by (induction cs arbitrary: st) (auto simp: countCase_def failedCase_def passedCase_def skippedCase_def Let_def)

lemma suiteStats_counts:
  "st_Total (suiteStats s) = length (ts_TestCases s)"
  "st_Failed (suiteStats s) = length (filter failedCase (ts_TestCases s))"
  "st_Passed (suiteStats s) = length (filter passedCase (ts_TestCases s))"
  "st_Skipped (suiteStats s) = length (filter skippedCase (ts_TestCases s))"
  by (simp_all add: suiteStats_def foldl_countCase noStats_def)

lemma three_classes: "length (filter failedCase cs) + length (filter passedCase cs) + length (filter skippedCase cs) = length cs"
  by (induction cs) (auto simp: failedCase_def passedCase_def skippedCase_def)

lemma allStats_fold:
  "foldl (\<lambda>(ss, tot) suite. (ss @ [suiteStats suite], addStats tot (suiteStats suite))) (ss, tot) suites =
     (ss @ map suiteStats suites, foldl addStats tot (map suiteStats suites))"
  by (induction suites arbitrary: ss tot) simp_all

lemma foldl_addStats:
  "st_Total (foldl addStats tot ss) = st_Total tot + sum_list (map st_Total ss)"
  "st_Failed (foldl addStats tot ss) = st_Failed tot + sum_list (map st_Failed ss)"
  "st_Passed (foldl addStats tot ss) = st_Passed tot + sum_list (map st_Passed ss)"
  "st_Skipped (foldl addStats tot ss) = st_Skipped tot + sum_list (map st_Skipped ss)"
  by (induction ss arbitrary: tot) (simp_all add: addStats_def)

lemma htmlData_fields:
  "hr_Suites (htmlData suites) = map sortSuite suites"
  "hr_SuiteStats (htmlData suites) = map suiteStats suites"
  "hr_TotalStats (htmlData suites) = foldl addStats noStats (map suiteStats suites)"
  by (simp_all add: htmlData_def allStats_def allStats_fold)

lemma filter_sort_key: "length (filter P (sort_key f cs)) = length (filter P cs)"
  by (metis mset_filter mset_sort size_mset)

lemma sorted_groups:
  "sorted (map caseKey cs) \<Longrightarrow> filter failedCase cs @ filter passedCase cs @ filter skippedCase cs = cs"
proof (induction cs)
  case (Cons c cs)
  have le: "caseKey c \<le> caseKey d" if "d \<in> set cs" for d using Cons.prems that by simp
  have f: "filter failedCase cs = []" if "\<not> failedCase c"
    using le that by (fastforce simp: filter_empty_conv failedCase_def caseKey_def less_eq_prod_def)
  have p: "filter passedCase cs = []" if "skippedCase c"
    using le that by (fastforce simp: filter_empty_conv passedCase_def skippedCase_def caseKey_def less_eq_prod_def)
  have IH: "filter failedCase cs @ filter passedCase cs @ filter skippedCase cs = cs" using Cons by simp
  consider "failedCase c" "\<not> passedCase c" "\<not> skippedCase c" | "\<not> failedCase c" "passedCase c" "\<not> skippedCase c"
    | "\<not> failedCase c" "\<not> passedCase c" "skippedCase c"
    by (cases "tc_Failure c"; cases "tc_Skipped c") (auto simp: failedCase_def passedCase_def skippedCase_def)
  then show ?case by cases (use f p IH in simp_all)
qed simp

lemma sorted_names:
  assumes "sorted (map caseKey cs)"
  shows "sorted (map tc_Name (filter passedCase cs))" and "sorted (map tc_Name (filter skippedCase cs))"
  using assms
  by (induction cs) (auto simp: passedCase_def skippedCase_def caseKey_def less_eq_prod_def)

lemma caseClass_groups:
  "caseClass c = ''failed'' \<longleftrightarrow> failedCase c" "caseClass c = ''passed'' \<longleftrightarrow> passedCase c" "caseClass c = ''skipped'' \<longleftrightarrow> skippedCase c"
  by (cases "tc_Failure c"; simp add: caseClass_def failedCase_def passedCase_def skippedCase_def)+

text \<open>How a suite is shown: its rows and the numbers of its header.\<close>

definition rowsOf :: "TestSuite \<Rightarrow> string \<Rightarrow> TestCase list" where
  "rowsOf suite cls = filter (\<lambda>c. caseClass c = cls) (ts_TestCases suite)"

definition shownAs :: "TestSuite \<Rightarrow> TestSuite \<times> SuiteStats \<Rightarrow> bool" where
  "shownAs suite = (\<lambda>(shown, st).
     ts_Name shown = ts_Name suite \<and> mset (ts_TestCases shown) = mset (ts_TestCases suite) \<and>
     ts_TestCases shown = rowsOf shown ''failed'' @ rowsOf shown ''passed'' @ rowsOf shown ''skipped'' \<and>
     sorted (map tc_Name (rowsOf shown ''passed'')) \<and> sorted (map tc_Name (rowsOf shown ''skipped'')) \<and>
     st = \<lparr>st_Total = length (ts_TestCases shown), st_Failed = length (rowsOf shown ''failed''),
           st_Passed = length (rowsOf shown ''passed''), st_Skipped = length (rowsOf shown ''skipped'')\<rparr>)"

lemma sortSuite_shown: "shownAs suite (sortSuite suite, suiteStats suite)"
  by (simp add: shownAs_def rowsOf_def caseClass_groups sortSuite_def SliceStable_sort sorted_groups sorted_names
      suiteStats_def foldl_countCase noStats_def filter_sort_key)

text \<open>The page shows for every suite its test cases, the failed ones first, then the passed ones and then the skipped ones,
  the latter two groups in the order of their names; the numbers in the header of the suite are the numbers of its rows with the
  classes failed, passed and skipped, and the totals are the sums over the suites.\<close>

theorem htmlData_consistent:
  fixes suites
  defines "page \<equiv> htmlData suites"
  shows "list_all2 shownAs suites (zip (hr_Suites page) (hr_SuiteStats page)) \<and>
    hr_TotalStats page = \<lparr>st_Total = sum_list (map st_Total (hr_SuiteStats page)),
      st_Failed = sum_list (map st_Failed (hr_SuiteStats page)), st_Passed = sum_list (map st_Passed (hr_SuiteStats page)),
      st_Skipped = sum_list (map st_Skipped (hr_SuiteStats page))\<rparr>"
proof
  show "list_all2 shownAs suites (zip (hr_Suites page) (hr_SuiteStats page))"
    by (simp add: page_def htmlData_fields list_all2_conv_all_nth sortSuite_shown)
  show "hr_TotalStats page = \<lparr>st_Total = sum_list (map st_Total (hr_SuiteStats page)),
      st_Failed = sum_list (map st_Failed (hr_SuiteStats page)), st_Passed = sum_list (map st_Passed (hr_SuiteStats page)),
      st_Skipped = sum_list (map st_Skipped (hr_SuiteStats page))\<rparr>"
    by (simp add: page_def htmlData_fields foldl_addStats noStats_def)
qed

section \<open>The merged report\<close>

lemma foldl_concat: "foldl (\<lambda>r xs. foldl f r xs) r xss = foldl f r (concat xss)"
  by (induction xss arbitrary: r) simp_all

lemma mergeJUnitFiles_concat:
  "mergeJUnitFiles tadd z rs = foldl (mergeSuite tadd) (emptySuites z) (concat (map jr_TestSuites rs))"
proof -
  have "mergeJUnitFiles tadd z rs = foldl (\<lambda>r xs. foldl (mergeSuite tadd) r xs) (emptySuites z) (map jr_TestSuites rs)"
    unfolding mergeJUnitFiles_def by (induction rs rule: rev_induct) simp_all
  then show ?thesis by (simp only: foldl_concat)
qed

lemma foldl_mergeSuite:
  "jr_TestSuites (foldl (mergeSuite tadd) r ss) = jr_TestSuites r @ ss"
  "jr_Tests (foldl (mergeSuite tadd) r ss) = jr_Tests r + sum_list (map js_Tests ss)"
  "jr_Failures (foldl (mergeSuite tadd) r ss) = jr_Failures r + sum_list (map js_Failures ss)"
  "jr_Errors (foldl (mergeSuite tadd) r ss) = jr_Errors r + sum_list (map js_Errors ss)"
  "jr_Time (foldl (mergeSuite tadd) r ss) = foldl tadd (jr_Time r) (map js_Time ss)"
  "jr_Disabled (foldl (mergeSuite tadd) r ss) = jr_Disabled r"
  by (induction ss arbitrary: r) (simp_all add: mergeSuite_def add.assoc)

text \<open>A sum of words is the sum of the numbers if that fits.\<close>

lemma sint_sum_list:
  fixes ws :: "64 word list"
  assumes "\<forall>w\<in>set ws. 0 \<le> sint w" and "sum_list (map sint ws) < 2 ^ 63"
  shows "sint (sum_list ws) = sum_list (map sint ws)"
  using assms
proof (induction ws)
  case (Cons w ws)
  have "0 \<le> sum_list (map sint ws)" using Cons.prems(1) by (intro sum_list_nonneg) auto
  moreover from Cons have "sint (sum_list ws) = sum_list (map sint ws)" by simp
  ultimately show ?case using Cons.prems
    by (simp add: sint_word_ariths signed_take_bit_int_eq_self)
qed simp

text \<open>The merged report has the suites of all reports, file by file and in their order, and its counters are the sums of
  theirs as long as the sums fit in 64 bits; the number of disabled tests, however, is always zero.\<close>

theorem mergeJUnitFiles_sums:
  fixes rs :: "('t, 'd) JUnitTestSuites list"
  defines "suites \<equiv> concat (map jr_TestSuites rs)" and "fits \<equiv> \<lambda>ws :: 64 word list. (\<forall>w\<in>set ws. 0 \<le> sint w) \<and> sum_list (map sint ws) < 2 ^ 63"
  assumes "fits (map js_Tests suites)" and "fits (map js_Failures suites)" and "fits (map js_Errors suites)"
  shows "let m = mergeJUnitFiles tadd z rs in
    jr_TestSuites m = suites \<and> sint (jr_Tests m) = (\<Sum>s\<leftarrow>suites. sint (js_Tests s)) \<and>
    sint (jr_Failures m) = (\<Sum>s\<leftarrow>suites. sint (js_Failures s)) \<and> sint (jr_Errors m) = (\<Sum>s\<leftarrow>suites. sint (js_Errors s)) \<and>
    jr_Time m = foldl tadd z (map js_Time suites) \<and> jr_Disabled m = 0"
  using assms(3-5)
  by (simp add: Let_def mergeJUnitFiles_concat foldl_mergeSuite emptySuites_def sint_sum_list fits_def o_def flip: suites_def)

definition demoSuite :: "64 word \<Rightarrow> 64 word \<Rightarrow> (int, string) JUnitTestSuite" where
  "demoSuite tests failures = \<lparr>js_Tests = tests, js_Failures = failures, js_Errors = 0, js_Time = 1, js_Data = []\<rparr>"

theorem mergeJUnitFiles_sums_witness:
  "let m = mergeJUnitFiles (+) 0 [(emptySuites 0)\<lparr>jr_TestSuites := [demoSuite 3 1]\<rparr>, (emptySuites 0)\<lparr>jr_TestSuites := [demoSuite 4 2]\<rparr>] in
    jr_TestSuites m = [demoSuite 3 1, demoSuite 4 2] \<and> sint (jr_Tests m) = 7 \<and> sint (jr_Failures m) = 3 \<and> jr_Time m = 2"
  using mergeJUnitFiles_sums [of "[(emptySuites 0)\<lparr>jr_TestSuites := [demoSuite 3 1]\<rparr>, (emptySuites 0)\<lparr>jr_TestSuites := [demoSuite 4 2]\<rparr>]" "(+)" 0]
  by (simp add: demoSuite_def Let_def)

end
