(* ===== verification/NodeTools.thy ===== *)
theory NodeTools
  imports ClusterNodes JunitReports
begin

text \<open>
  Small commands that run in the pods of the tests or next to them: \<^verbatim>\<open>stresser\<close>, \<^verbatim>\<open>hugepages-allocator\<close> and
  \<^verbatim>\<open>sctptester\<close> (\<^verbatim>\<open>cnf-tests/pod-utils\<close>), \<^verbatim>\<open>machineinfo\<close> (\<^verbatim>\<open>cnf-tests/node-utils\<close>) and \<^verbatim>\<open>mirror\<close>
  (\<^verbatim>\<open>cnf-tests/mirror\<close>).

  Machine integers are 64-bit words. System calls, connections, JSON and the detection of hardware are parameters. The loop of the
  stresser may run forever; then the result is \<open>None\<close>.
\<close>

unbundle bit_operations_syntax

section \<open>stresser\<close>

text \<open>The loop counts the buffers that it has allocated. \<^verbatim>\<open>make\<close> refuses a negative length and one above the size of the
  address space, which is \<^verbatim>\<open>2^48\<close> on 64-bit Linux; that a machine runs out of memory before is not modelled.\<close>

definition maxAlloc :: int where "maxAlloc = 2 ^ 48"

definition badSlice :: go_error where "badSlice = Panic ''runtime error: makeslice: len out of range''"

partial_function (option) takeFrom :: "64 word \<Rightarrow> 64 word \<Rightarrow> 64 word \<Rightarrow> nat \<Rightarrow> nat res option" where
  "takeFrom step tot i n =
     (if sint (i * step) \<le> sint tot
      then if sint step < 0 \<or> maxAlloc < sint step then Some (Inl badSlice) else takeFrom step tot (i + 1) (n + 1)
      else Some (Inr n))"

definition takeMemory :: "64 word \<Rightarrow> 64 word \<Rightarrow> nat res option" where
  "takeMemory step tot = takeFrom step tot 1 0"

definition consumeCpus :: "string option \<Rightarrow> int \<Rightarrow> nat res" where
  "consumeCpus openError howMany = (case openError of Some e \<Rightarrow> Inl (Error e) | None \<Rightarrow> Inr (nat howMany))"

text \<open>The error of \<^verbatim>\<open>consumeCpus\<close> is ignored. The result is the number of buffers and of goroutines when the command starts to
  wait.\<close>

definition stresserMain :: "(string \<Rightarrow> 64 word option) \<Rightarrow> string option \<Rightarrow> string \<Rightarrow> string \<Rightarrow> int \<Rightarrow> (nat \<times> nat) res option" where
  "stresserMain parse openError totalMem memStep cpus =
     (case parse totalMem of
        None \<Rightarrow> Some (Inl (Panic (''cannot parse '' @ quoted totalMem)))
      | Some tot \<Rightarrow>
          (case parse memStep of
             None \<Rightarrow> Some (Inl (Panic (''cannot parse '' @ quoted memStep)))
           | Some step \<Rightarrow>
               (case takeMemory step tot of
                  None \<Rightarrow> None
                | Some (Inl e) \<Rightarrow> Some (Inl e)
                | Some (Inr n) \<Rightarrow> Some (Inr (n, case consumeCpus openError cpus of Inl _ \<Rightarrow> 0 | Inr c \<Rightarrow> c)))))"

section \<open>hugepages-allocator\<close>

definition MapHugeShift :: nat where "MapHugeShift = 26"
definition DefaultHugePageSize :: "64 word" where "DefaultHugePageSize = 1 * 1024 * 1024 * 1024"
definition MAP_HUGE_1GB :: "64 word" where "MAP_HUGE_1GB = push_bit MapHugeShift 30"
definition MAP_HUGE_512MB :: "64 word" where "MAP_HUGE_512MB = push_bit MapHugeShift 29"
definition MAP_PRIVATE :: "64 word" where "MAP_PRIVATE = 0x2"
definition MAP_ANONYMOUS :: "64 word" where "MAP_ANONYMOUS = 0x20"
definition MAP_HUGETLB :: "64 word" where "MAP_HUGETLB = 0x40000"

definition getHugePageFlag :: "64 word \<Rightarrow> 64 word" where
  "getHugePageFlag sz =
     (if sz = 512 * 1024 * 1024 then MAP_HUGE_512MB
      else if sz = 1 * 1024 * 1024 * 1024 then MAP_HUGE_1GB
      else MAP_HUGE_1GB)"

definition mmapFlags :: "64 word \<Rightarrow> 64 word" where
  "mmapFlags sz = MAP_PRIVATE OR MAP_ANONYMOUS OR MAP_HUGETLB OR getHugePageFlag sz"

datatype memoryCall = Mmap "64 word" "64 word" | Store "64 word" nat | WaitFor | Munmap "64 word" "64 word"

text \<open>The calls that the command makes and its exit status; the kernel gives an address or an error number.\<close>

definition allocatorMain :: "(64 word \<Rightarrow> 64 word \<Rightarrow> nat + 64 word) \<Rightarrow> (64 word \<Rightarrow> 64 word \<Rightarrow> nat) \<Rightarrow> 64 word \<Rightarrow> memoryCall list \<times> nat" where
  "allocatorMain mmap munmap sz =
     (case mmap sz (mmapFlags sz) of
        Inl errno \<Rightarrow> ([Mmap sz (mmapFlags sz)], 1)
      | Inr addr \<Rightarrow>
          ([Mmap sz (mmapFlags sz), Store addr 42, WaitFor, Munmap addr sz], if munmap addr sz \<noteq> 0 then 2 else 0))"

section \<open>sctptester\<close>

text \<open>The error of the address is overwritten; the address itself is nil then.\<close>

record ('a, 'c) sctpLib =
  sl_resolve :: "string \<Rightarrow> 'a option"
  sl_dial :: "int option \<Rightarrow> 'a \<times> int \<Rightarrow> string + 'c"
  sl_write :: "'c \<Rightarrow> string \<Rightarrow> string + nat"
  sl_listen :: "'a \<times> int \<Rightarrow> string + 'c"
  sl_accept :: "'c \<Rightarrow> string + 'c"
  sl_read :: "'c \<Rightarrow> nat \<Rightarrow> string + string"

definition fatally :: "string \<Rightarrow> string + 'b \<Rightarrow> 'b res" where
  "fatally msg r = (case r of Inl e \<Rightarrow> Inl (Panic (msg @ e)) | Inr x \<Rightarrow> Inr x)"

definition addressOf :: "('a, 'c) sctpLib \<Rightarrow> string \<Rightarrow> 'a res" where
  "addressOf L serverAddr = (case sl_resolve L serverAddr of None \<Rightarrow> Inl nilPointer | Some a \<Rightarrow> Inr a)"

definition doClient :: "('a, 'c) sctpLib \<Rightarrow> string \<Rightarrow> int \<Rightarrow> int \<Rightarrow> string res" where
  "doClient L serverAddr port localport =
     bind_res (addressOf L serverAddr) (\<lambda>address.
     bind_res (fatally ''failed to dial: '' (sl_dial L (if localport \<noteq> 0 then Some localport else None) (address, port))) (\<lambda>conn.
     bind_res (fatally ''failed to write: '' (sl_write L conn ''hello'')) (\<lambda>n. Inr (''write: len '' @ natStr n))))"

definition doServer :: "('a, 'c) sctpLib \<Rightarrow> string \<Rightarrow> int \<Rightarrow> string res" where
  "doServer L serverAddr port =
     bind_res (addressOf L serverAddr) (\<lambda>address.
     bind_res (fatally ''failed to listen: '' (sl_listen L (address, port))) (\<lambda>ln.
     bind_res (fatally ''failed to accept: '' (sl_accept L ln)) (\<lambda>conn.
     bind_res (fatally ''read failed: '' (sl_read L conn 512)) (\<lambda>data. Inr (''Received: '' @ data)))))"

definition sctptesterMain :: "('a, 'c) sctpLib \<Rightarrow> bool \<Rightarrow> string \<Rightarrow> int \<Rightarrow> int \<Rightarrow> string res" where
  "sctptesterMain L server ip port lport = (if server then doServer L ip port else doClient L ip port lport)"

section \<open>machineinfo\<close>

record ('c, 't) Machine =
  ma_CPU :: "'c option"
  ma_Topology :: "'t option"

record Environ =
  en_DataPath :: string
  en_Sys :: string

definition NewEnviron :: Environ where "NewEnviron = \<lparr>en_DataPath = [], en_Sys = ''/sys''\<rparr>"

text \<open>The detection, the JSON decoder and encoder, and setting the architecture of a topology.\<close>

record ('c, 't) machineLib =
  ml_cpu :: "string + 'c"
  ml_topology :: "string + 't"
  ml_decode :: "string \<Rightarrow> string + ('c, 't) Machine"
  ml_encode :: "('c, 't) Machine \<Rightarrow> string + string"
  ml_setNuma :: "'t \<Rightarrow> 't"

fun orFail :: "string + 'a \<Rightarrow> 'a res" where
  "orFail (Inl e) = Inl (Error e)"
| "orFail (Inr x) = Inr x"

definition FromJSON :: "('c, 't) machineLib \<Rightarrow> string \<Rightarrow> ('c, 't) Machine res" where
  "FromJSON L data = orFail (ml_decode L data)"

definition ToJSON :: "('c, 't) machineLib \<Rightarrow> ('c, 't) Machine \<Rightarrow> string res" where
  "ToJSON L ma = orFail (ml_encode L ma)"

definition FromSystem :: "('c, 't) machineLib \<Rightarrow> Environ \<Rightarrow> ('c, 't) Machine res" where
  "FromSystem L env =
     bind_res (orFail (ml_cpu L)) (\<lambda>cpu.
     bind_res (orFail (ml_topology L)) (\<lambda>topo. Inr \<lparr>ma_CPU = Some cpu, ma_Topology = Some topo\<rparr>))"

definition DiscoverMachine :: "('c, 't) machineLib \<Rightarrow> fsys \<Rightarrow> Environ \<Rightarrow> ('c, 't) Machine res" where
  "DiscoverMachine L fs env =
     (if en_DataPath env \<noteq> [] then
        (case os_ReadFile fs (en_DataPath env) of
           Inl e \<Rightarrow> Inl (Error (pathError ''open'' (en_DataPath env) e))
         | Inr data \<Rightarrow> FromJSON L data)
      else FromSystem L env)"

text \<open>Standard output and exit status.\<close>

definition machineinfoMain :: "('c, 't) machineLib \<Rightarrow> fsys \<Rightarrow> string \<Rightarrow> string \<times> nat res" where
  "machineinfoMain L fs sysfs =
     (case DiscoverMachine L fs (NewEnviron\<lparr>en_Sys := sysfs\<rparr>) of
        Inl (Panic e) \<Rightarrow> ([], Inl (Panic e))
      | Inl (Error e) \<Rightarrow> ([], Inr 1)
      | Inr machine \<Rightarrow>
          (case ma_Topology machine of
             None \<Rightarrow> ([], Inl nilPointer)
           | Some topo \<Rightarrow>
               (case ToJSON L (machine\<lparr>ma_Topology := Some (ml_setNuma L topo)\<rparr>) of
                  Inl _ \<Rightarrow> ([], Inr 2)
                | Inr data \<Rightarrow> (data, Inr 0))))"

section \<open>mirror\<close>

text \<open>An image is its registry and its name.\<close>

definition registryURL :: "string \<Rightarrow> string" where
  "registryURL targetRegistry = (if HasSuffix targetRegistry ''/'' then targetRegistry else targetRegistry @ ''/'')"

definition mirrorLine :: "string \<Rightarrow> string \<times> string \<Rightarrow> string" where
  "mirrorLine url = (\<lambda>(registry, img). registry @ img @ '' '' @ url @ img @ [CHR 0x0A])"

definition mirrorMain :: "(string \<Rightarrow> string + (string \<times> string) list) \<Rightarrow> fsys \<Rightarrow> string \<Rightarrow> string \<Rightarrow> string res" where
  "mirrorMain unmarshal fs imagesFile targetRegistry =
     (if imagesFile = [] \<or> targetRegistry = [] then Inl (Panic ''Missing mandatory fields'')
      else case os_ReadFile fs imagesFile of
        Inl e \<Rightarrow> Inl (Panic (''Failed to read '' @ imagesFile @ '' - '' @ pathError ''open'' imagesFile e))
      | Inr bytes \<Rightarrow>
          (case unmarshal bytes of
             Inl e \<Rightarrow> Inl (Panic (''Failed to read '' @ imagesFile @ '' - '' @ e))
           | Inr images \<Rightarrow> Inr (concat (map (mirrorLine (registryURL targetRegistry)) images))))"

section \<open>The loop of the stresser\<close>

lemma sint_mult_small:
  assumes "0 \<le> k" and "0 \<le> sint (step :: 64 word)" and "k * sint step < 2 ^ 63"
  shows "sint (word_of_int k * step) = k * sint step"
proof -
  have "word_of_int k * step = word_of_int (k * sint step)" by simp
  then have "sint (word_of_int k * step) = signed_take_bit 63 (k * sint step)"
    by (simp only: sint_sbintrunc') simp
  moreover have "- (2 ^ 63) \<le> k * sint step"
    using mult_nonneg_nonneg [OF assms(1,2)] by (rule order_trans [rotated]) simp
  ultimately show ?thesis using assms(3) by (simp add: signed_take_bit_int_eq_self)
qed

lemma takeFrom_count:
  assumes step: "0 < sint (step :: 64 word)" and alloc: "sint step \<le> maxAlloc" and tot: "0 \<le> sint tot" and small: "sint tot + sint step < 2 ^ 63"
  shows "1 \<le> k \<Longrightarrow> k \<le> sint tot div sint step + 1 \<Longrightarrow>
    takeFrom step tot (word_of_int k) n = Some (Inr (n + nat (sint tot div sint step + 1 - k)))"
proof (induction "nat (sint tot div sint step + 1 - k)" arbitrary: k n)
  case 0
  then have k: "k = sint tot div sint step + 1" by simp
  have more: "sint tot < k * sint step" and "k * sint step \<le> sint tot + sint step"
    using step k by (auto simp: distrib_right minus_mod_eq_div_mult [symmetric])
  then have "sint (word_of_int k * step) = k * sint step" using 0 step small by (intro sint_mult_small) auto
  with more k show ?case by (subst takeFrom.simps) simp
next
  case (Suc m)
  then have k: "k \<le> sint tot div sint step" by simp
  have "k * sint step \<le> sint tot div sint step * sint step" using k step by (intro mult_right_mono) auto
  also have "\<dots> \<le> sint tot" using step by (simp add: minus_mod_eq_div_mult [symmetric])
  finally have le: "k * sint step \<le> sint tot" .
  then have "sint (word_of_int k * step) = k * sint step" using Suc.prems step small by (intro sint_mult_small) auto
  with le step alloc have "takeFrom step tot (word_of_int k) n = takeFrom step tot (word_of_int (k + 1)) (n + 1)"
    by (subst takeFrom.simps) simp
  also have "\<dots> = Some (Inr (n + 1 + nat (sint tot div sint step + 1 - (k + 1))))"
    using Suc.hyps(2) Suc.prems k by (intro Suc.hyps(1)) auto
  finally show ?case using k by simp
qed

lemma takeFrom_forever:
  assumes "0 \<le> sint tot"
  shows "takeFrom 0 tot i n = None"
proof (rule ccontr)
  assume "takeFrom 0 tot i n \<noteq> None"
  then obtain r where "takeFrom 0 tot i n = Some r" by blast
  then have "(0 :: 64 word) = 0 \<longrightarrow> 0 \<le> sint tot \<longrightarrow> False"
    by (rule takeFrom.raw_induct [where P = "\<lambda>step tot i n r. step = 0 \<longrightarrow> 0 \<le> sint tot \<longrightarrow> False", rotated])
      (auto split: if_splits simp: maxAlloc_def)
  with assms show False by simp
qed

lemma takeFrom_first:
  "sint step \<le> sint tot \<Longrightarrow> maxAlloc < sint step \<Longrightarrow> takeFrom step tot 1 0 = Some (Inl badSlice)"
  "sint tot < sint step \<Longrightarrow> takeFrom step tot 1 0 = Some (Inr 0)"
  by (subst takeFrom.simps; simp)+

text \<open>C39. With a positive step and as long as the total and one more step fit in 64 bits, the stresser allocates exactly as
  many buffers as steps fit into the total, and then stops, unless the first buffer is larger than the address space, when it
  panics; with a step of zero it allocates forever.\<close>

theorem takeMemory_exact:
  "0 < sint step \<and> 0 \<le> sint tot \<and> sint tot + sint step < 2 ^ 63 \<Longrightarrow>
     takeMemory step tot =
       Some (if sint step \<le> sint tot \<and> maxAlloc < sint step then Inl badSlice else Inr (nat (sint tot div sint step))) \<and>
     takeMemory 0 tot = None"
  using takeFrom_count [of step tot 1 0] takeFrom_forever [of tot 1 0] takeFrom_first [where step = step and tot = tot]
  by (cases "sint tot < sint step"; cases "maxAlloc < sint step") (simp_all add: takeMemory_def pos_imp_zdiv_nonneg_iff)

theorem takeMemory_exact_witness: "takeMemory 4096 10000 = Some (Inr 2) \<and> takeMemory 0 10000 = None"
  using takeMemory_exact [of 4096 10000] by (simp add: maxAlloc_def)

section \<open>The flags of the allocator\<close>

text \<open>The kernel reads the logarithm of the page size from the six bits above the shift.\<close>

lemma mmapFlags_size:
  "sz = 512 * 1024 * 1024 \<or> sz = 1 * 1024 * 1024 * 1024 \<Longrightarrow>
     push_bit (unat (drop_bit MapHugeShift (mmapFlags sz) AND 63)) 1 = sz"
  by (elim disjE) (simp_all add: mmapFlags_def getHugePageFlag_def MAP_PRIVATE_def MAP_ANONYMOUS_def MAP_HUGETLB_def
      MAP_HUGE_512MB_def MAP_HUGE_1GB_def MapHugeShift_def)

lemma allocatorMain_balanced:
  "allocatorMain mmap munmap sz = (calls, 0) \<Longrightarrow>
     \<exists>addr. mmap sz (mmapFlags sz) = Inr addr \<and> calls = [Mmap sz (mmapFlags sz), Store addr 42, WaitFor, Munmap addr sz]"
  by (auto simp: allocatorMain_def split: sum.splits if_splits)

end
