(* ===== verification/Spec2Isabelle.thy ===== *)
theory Spec2Isabelle
  imports PolicyGenerator PgtConvert SiteRun PolicyDiff ReachMatrix LatencyRunners Discovery ProfileSwap DpdkWorkload QosSuite NetworkPolicyTests NodeTools
begin

text \<open>
  A verification library for the ZTP tools and the test tools of \<^verbatim>\<open>openshift-kni/cnf-features-deploy\<close>.

  \<^bold>\<open>The programs.\<close> Zero-touch provisioning describes the clusters of a site and their configuration in
  Git; four Go programs under \<^verbatim>\<open>src/ztp\<close> turn these descriptions into the resources of Open Cluster
  Management (ACM):

  \<^item> \<^verbatim>\<open>policygenerator\<close> reads PolicyGenTemplates and writes ACM policies. Each source file of a template
    names a source CR, which is overlaid with the user's values and wrapped in the policy of its
    \<^verbatim>\<open>policyName\<close>; a placement rule and a binding select the clusters.
  \<^item> \<^verbatim>\<open>tools/pgt2acmpg\<close> converts PolicyGenTemplates to the configuration of ACM's own PolicyGenerator.
  \<^item> \<^verbatim>\<open>tools/siteconfig-converter\<close> converts a SiteConfig to one ClusterInstance per cluster, with the
    extra manifests and a kustomization that puts them in a ConfigMap.
  \<^item> \<^verbatim>\<open>tools/policy-object-template-diff\<close> compares the objects that two sets of policies wrap.

  They share no state but files: each is a function of the file system, its flags and the code outside
  the repository, and returns the file system it leaves or the error it ends with.

  The directory \<^verbatim>\<open>src/cnf-tests\<close> holds end-to-end tests of a cluster with the packages they share: these change the state of a
  live cluster (labels, pools, profiles, namespaces, pods, networks), wait until it has the state they want, and put it back.
  Beside them are commands that run in the pods of the tests, and commands on the reports of the tests.

  \<^bold>\<open>Layout.\<close> One theory per component; a definition has the name of the Go function or type it models,
  and a function with several loops or long branches is a group of definitions, one for each.

  \<^item> Foundations: \<open>Prelude\<close> (results with errors and panics, loops that stop at the first error, Go maps
    with the locale \<open>go_map\<close>), \<open>GoStrings\<close>, \<open>GoNumbers\<close>, \<open>GoPath\<close> and \<open>GoValue\<close> (the parts of the standard
    library that the programs call, and the values that YAML decodes to), \<open>GoFS\<close> (files and
    directories, with the locale \<open>file_store\<close> for what reads return after writes and loops of writes).
  \<^item> \<^verbatim>\<open>policygenerator\<close>: \<open>PolicyTypes\<close> (\<^verbatim>\<open>utils/utils.go\<close>, \<^verbatim>\<open>policyTemplate.go\<close>), \<open>FilesHandler\<close>
    (\<^verbatim>\<open>utils/filesHandler.go\<close>), \<open>Overlay\<close> (\<^verbatim>\<open>setValues\<close>), \<open>CustomResource\<close> (\<^verbatim>\<open>getCustomResource\<close>), \<open>PolicyHelper\<close>
    (\<^verbatim>\<open>policyHelper.go\<close>), \<open>PolicyBuilder\<close> (\<^verbatim>\<open>Build\<close>), \<open>PolicySpec\<close> (what \<^verbatim>\<open>Build\<close> promises), \<open>PolicyGenerator\<close> (the
    command), \<open>Selector\<close> (the vendored label selectors, the meaning of placement rules).
  \<^item> \<^verbatim>\<open>pgt2acmpg\<close>: \<open>Placeholders\<close>, \<open>FileUtils\<close> and \<open>MergeKeys\<close> (\<^verbatim>\<open>packages/fileutils\<close>), \<open>PgtFormat\<close> (\<^verbatim>\<open>pgtformat\<close>,
    \<^verbatim>\<open>acmformat\<close>), \<open>Patches\<close> (\<^verbatim>\<open>patches\<close> and the vendored accessors), \<open>SelectorParser\<close> (the
    vendored printer, lexer and parser of label selectors with the validation of keys and values), \<open>PgtLabels\<close> (\<^verbatim>\<open>labels\<close>, \<^verbatim>\<open>placement\<close>,
    \<^verbatim>\<open>stringhelper\<close>), \<open>PgtConvert\<close> (\<^verbatim>\<open>main.go\<close>, \<^verbatim>\<open>renderpolicies\<close>).
  \<^item> \<^verbatim>\<open>siteconfig-converter\<close>: \<open>SiteTypes\<close> (the structs), \<open>SiteComments\<close> and \<open>SiteConvert\<close> (\<^verbatim>\<open>convert.go\<close>),
    \<open>ExtraManifests\<close> (\<^verbatim>\<open>extraManifests.go\<close>, with the locale \<open>manifest_invariant\<close>), \<open>SiteMain\<close> (\<^verbatim>\<open>main.go\<close> and the
    kustomization), \<open>SiteRun\<close> (the steps of a whole run).
  \<^item> \<^verbatim>\<open>policy-object-template-diff\<close>: \<open>PolicyDiff\<close>.
  \<^item> \<^verbatim>\<open>cnf-tests\<close>, packages: \<open>ReachMatcher\<close> and \<open>ReachMatrix\<close> (\<^verbatim>\<open>multinetworkpolicy/reachmatcher.go\<close>: the connectivity of pods,
    which goroutines compute), \<open>NumaLookup\<close> (\<^verbatim>\<open>numa.go\<close>), \<open>ClusterNodes\<close> (\<^verbatim>\<open>nodes.go\<close>), \<open>MachinePools\<close> and \<open>NodeRoles\<close>
    (\<^verbatim>\<open>machineconfigpool.go\<close>), \<open>PerfProfiles\<close> and \<open>ProfileSwap\<close> (\<^verbatim>\<open>performanceprofile.go\<close>), \<open>Discovery\<close>
    (\<^verbatim>\<open>discovery.go\<close>), \<open>TestPods\<close> (\<^verbatim>\<open>pods.go\<close>), \<open>NamespaceOps\<close> (\<^verbatim>\<open>namespaces.go\<close>, \<^verbatim>\<open>features.go\<close>), \<open>SriovNetworks\<close>
    (\<^verbatim>\<open>network.go\<close>, \<^verbatim>\<open>sriov.go\<close>, \<^verbatim>\<open>multinetworkpolicy.go\<close>, \<^verbatim>\<open>selinux.go\<close>).
  \<^item> \<^verbatim>\<open>cnf-tests\<close>, suites: \<open>QosLimits\<close> and \<open>QosSuite\<close> (\<^verbatim>\<open>ovs_qos.go\<close>: limits of the rate of a node), \<open>NetworkPolicyTests\<close>
    (\<^verbatim>\<open>multinetworkpolicy_sriov.go\<close>), \<open>FecDevices\<close> (\<^verbatim>\<open>fec.go\<close>), \<open>ClusterValidation\<close> (\<^verbatim>\<open>validation.go\<close>: the state of a cluster before
    the other suites run); only the functions beside the tests are in \<open>SctpTests\<close> (\<^verbatim>\<open>sctp.go\<close>) and \<open>DpdkWorkload\<close> (\<^verbatim>\<open>dpdk.go\<close>,
    \<^verbatim>\<open>numa_node_sriov.go\<close>, \<^verbatim>\<open>s2i.go\<close>). A test is a function of the cluster that gives its result: passed, failed or skipped.
  \<^item> \<^verbatim>\<open>cnf-tests\<close>, commands: \<open>CpuSets\<close> and \<open>LatencyRunners\<close> (the runners of \<^verbatim>\<open>oslat\<close>, \<^verbatim>\<open>cyclictest\<close> and \<^verbatim>\<open>hwlatdetect\<close>),
    \<open>NodeTools\<close> (\<^verbatim>\<open>stresser\<close>, \<^verbatim>\<open>hugepages-allocator\<close>, \<^verbatim>\<open>sctptester\<close>, \<^verbatim>\<open>machineinfo\<close>, \<^verbatim>\<open>mirror\<close>), \<open>JunitReports\<close>
    (\<^verbatim>\<open>j2html\<close>, \<^verbatim>\<open>junit-merger\<close>).

  \<^bold>\<open>Correspondence.\<close> A Go function that returns an error is a function into \<open>res\<close>: every error return keeps
  its message, every reachable panic (failed type assertion, index out of range, write to a nil map,
  \<^verbatim>\<open>log.Fatalf\<close>, \<^verbatim>\<open>os.Exit\<close>) is a \<open>Panic\<close>. Code that mutates a map or struct returns the value it leaves; where
  Go shares a value between two holders, the theory says why the model may copy it. A Go map is a
  list of entries with distinct keys whose order is the order of a range loop; results are shown not to
  depend on it, or the order is a parameter that the theorem quantifies over. Parameters also stand
  for the YAML and JSON packages, Kustomize, text templates, \<^verbatim>\<open>cmp.Diff\<close> and the clock. A cluster is a state of any type
  with a record of functions for the API server; one of them is what happens to the state in a number of seconds, so
  waiting is a loop over states. What a property needs of the server is a named predicate on the record, and
  each such property has an instance for a concrete server. A failed assertion of the test framework is a \<open>Panic\<close>.

  \<^bold>\<open>What is shown.\<close>
  \<^item> The overlay: \<open>setValues\<close> refines a specification key by key, the user's scalars win, untouched values
    stay, and the map order does not matter (\<open>Overlay\<close>).
  \<^item> The policies: \<open>Build\<close> groups the source files by policy, in order, with the action, intervals and
    wave they give, binds every policy once (and writes neither rule nor binding for a template without policies), and
    refuses conflicting waves and binding rules in conflict; every policy is well-formed (\<open>PolicySpec\<close>). A placement
    rule selects exactly the clusters that satisfy the rules (\<open>PolicyHelper\<close>). A run writes every result and nothing else (\<open>PolicyGenerator\<close>).
  \<^item> The PGT converter: policies, manifests, patches, waves and intervals of the output, agreement of its
    label selectors with the generator's placement rules when keys and values are valid (the printed selector is read back by
    the parser, which sorts the values), merge keys, placeholders, directory copies.
  \<^item> The SiteConfig converter: what is written for each cluster and that the conversion succeeds; that
    a cluster without warnings can be read back; that copying comments adds only comment lines;
    that extra manifests are annotated, never override pre-defined ones and are filtered exactly;
    the payloads of workload partitioning; the files of the kustomization; and, below, that a whole run
    leaves all of these in place together.
  \<^item> The diff tool: its verdict is right on paths whose objects of the same name are equal.
  \<^item> The tests: the concurrent computation of the connectivity terminates under every schedule and its result does not
    depend on it; moving a node to a pool of its own can be undone, an overridden profile is restored, discovery finds a
    policy with the most resources; pods that are built are well-formed and are returned when they are ready; cleaning a
    namespace removes what has the prefix and nothing else, and the fixtures remove what they own.
  \<^item> The suites: a limit that the QoS suite writes is the limit that it reads back, and its measurement uses the first two
    nodes of the pool; the network policy suite passes on a cluster that enforces the documented meaning of policies and
    fails on one that enforces nothing; the pools and nodes that SCTP and FEC tests choose; which checks of the validation
    suite are sound, and which hold vacuously.
  \<^item> The commands: the CPUs on which the latency runners run, the buffers that the stresser allocates, the numbers and the order
    on the page of a report, the sums of a merged report.

  \<^bold>\<open>Bounds.\<close> Recursion over a directory tree has the depth bound \<open>pathMax\<close> = 4096: Linux refuses longer paths,
  so a tree that the programs can walk is less deep, and exceeding the bound is the panic \<open>tooDeep\<close>. The
  other loops are recursions over lists or trees that end by themselves. Integers are unbounded where
  the programs only copy them; \<open>GoNumbers\<close> writes out the 64-bit limits of \<^verbatim>\<open>Atoi\<close> and \<^verbatim>\<open>ParseDuration\<close>, and the
  counters and flags of \<open>JunitReports\<close> and \<open>NodeTools\<close> are 64-bit words. A wait with a timeout has as many steps as the timeout
  has intervals; a wait without one, and the loop of the stresser, may run forever, and then the result is \<open>None\<close>.

  \<^bold>\<open>Not modelled.\<close> Console output and logs (apart from the warnings of the SiteConfig converter), file
  permissions and symbolic links, the file system after a run that fails. Of \<^verbatim>\<open>src/cnf-tests\<close> the tests of
  DPDK, SCTP and source-to-image, the suites of VRF, NMState, bonding and tuning (sequences of calls of the packages with
  assertions on a live cluster), the construction of clients, the reporter and generated code;
  \<^verbatim>\<open>src/feature-configs\<close> is data. Vendored code is modelled only where a property needs its meaning.
\<close>

text \<open>C8. A whole run of the SiteConfig converter on a SiteConfig with one cluster leaves a consistent
  output: unless the cluster's file is the input or the kustomization snippet, or an extra manifest has a
  name that is no file name, the ClusterInstance, every extra manifest and the kustomization snippet are
  all in their files at the end, no step having overwritten another's output, and the snippet lists
  every manifest with a YAML name by its path from the output directory. The manifests are those of the
  file system after the conversion, which differs from the initial one only in the cluster's file.\<close>

theorem siteMain_outputs:
  assumes "siteMain E f fs = Inr fs'" and "readSiteConfig (mv_site E) fs (hd (sf_args f)) = Inr sc"
    and "sp_Clusters (si_Spec sc) = [cl]" and "fs_wf fs"
    and "goodName (cl_ClusterName cl @ ''.yaml'')" and "\<not> sameFile fs (outputPath (sf_outputDir f) cl) (hd (sf_args f))"
    and "cl_ClusterName cl @ ''.yaml'' \<noteq> KustomizationConfigMapGeneratorSnippetFile"
    and "\<forall>cl m. mset (me_order (mv_manifests E) cl m) = mset m"
  shows "\<exists>a c w fs2 m files content.
     getExtraManifest (mv_manifests E) fs2 [] cl (inputDirOf fs2 (hd (sf_args f))) = Inr m \<and>
     (\<forall>p. \<not> sameFile fs (outputPath (sf_outputDir f) cl) p \<longrightarrow> readOpt fs2 p = readOpt fs p) \<and>
     mv_kustomization E (kustomizationOf files extraManifestConfigMapName (cl_ClusterName cl)) = Inr content \<and>
     readOpt fs' (snippetOf f) = Some content \<and>
     ((\<forall>(name, _)\<in>set m. goodName name) \<longrightarrow>
        cx_outputDir a = sf_outputDir f \<and> written (mv_convert E) sc a c fs' 0 w cl \<and>
        (\<forall>(name, txt)\<in>set m. readOpt fs' (JoinPath [manifestsDirOf f, name]) = Some txt \<and>
           (hasYamlExt name \<longrightarrow> Rel (sf_outputDir f) (JoinPath [manifestsDirOf f, name]) \<in> Some ` set files)))"
  by (rule siteMain_files [OF assms])

theorem siteMain_outputs_witness:
  "\<exists>fs' content. siteMain runEnv runFlags runFs = Inr fs' \<and> readOpt fs' (snippetOf runFlags) = Some content"
proof -
  obtain fs' where r: "siteMain runEnv runFlags runFs = Inr fs'"
    using run_facts(1) by (rule is_okE)
  from siteMain_outputs [OF r run_facts(2-8)] r show ?thesis by blast
qed

end
